(* ===== verification/Prelude.thy ===== *)
theory Prelude
  imports Complex_Main "HOL-Library.Word" "HOL-Library.Sublist" "HOL-Library.Multiset"
    "HOL-Library.Char_ord" "HOL-Library.List_Lexorder"
begin

text \<open>
  Shared vocabulary of the development: Rust's \<open>Result\<close> as a sum type, machine integers as words
  with the checked operations the sources call, UTF-8 byte strings with the string functions of the
  Rust standard library that the sources use, decimal formatting, and the JSON tree of
  \<open>serde_json\<close>. Generic lemmas on these, and the \<^theory_text>\<open>named_theorems\<close> collections
  that the component theories fill, stand here too.
\<close>

section \<open>Collections of facts\<close>

named_theorems validate_simps \<open>unfolding rules of the semantic contract validators\<close>
named_theorems ledger_simps \<open>field-wise effect of the request-ledger operations\<close>
named_theorems f64_simps \<open>evaluation of binary64 operations on finite operands\<close>

section \<open>Results\<close>

abbreviation Ok :: "'a \<Rightarrow> 'e + 'a" where
  "Ok \<equiv> Inr"

abbreviation Err :: "'e \<Rightarrow> 'e + 'a" where
  "Err \<equiv> Inl"

text \<open>The question-mark operator: the first error ends the computation.\<close>

definition and_then :: "'e + 'a \<Rightarrow> ('a \<Rightarrow> 'e + 'b) \<Rightarrow> 'e + 'b" where
  "and_then r f = (case r of Inl e \<Rightarrow> Inl e | Inr v \<Rightarrow> f v)"

definition ok_or :: "'a option \<Rightarrow> 'e \<Rightarrow> 'e + 'a" where
  "ok_or x e = (case x of None \<Rightarrow> Inl e | Some v \<Rightarrow> Inr v)"

definition map_err :: "('e \<Rightarrow> 'f) \<Rightarrow> 'e + 'a \<Rightarrow> 'f + 'a" where
  "map_err f r = (case r of Inl e \<Rightarrow> Inl (f e) | Inr v \<Rightarrow> Inr v)"

definition ensure :: "bool \<Rightarrow> 'e \<Rightarrow> 'e + unit" where
  "ensure b e = (if b then Inr () else Inl e)"

definition is_ok :: "'e + 'a \<Rightarrow> bool" where
  "is_ok r = (case r of Inl _ \<Rightarrow> False | Inr _ \<Rightarrow> True)"

definition is_some_and :: "'a option \<Rightarrow> ('a \<Rightarrow> bool) \<Rightarrow> bool" where
  "is_some_and x p = (case x of None \<Rightarrow> False | Some v \<Rightarrow> p v)"

lemma and_then_simps [simp]:
  "and_then (Inl e) f = Inl e" "and_then (Inr v) f = f v"
  by (simp_all add: and_then_def)

lemma ok_or_simps [simp]:
  "ok_or None e = Inl e" "ok_or (Some v) e = Inr v"
  by (simp_all add: ok_or_def)

lemma map_err_simps [simp]:
  "map_err f (Inl e) = Inl (f e)" "map_err f (Inr v) = Inr v"
  by (simp_all add: map_err_def)

lemma ensure_simps [simp]:
  "ensure True e = Inr ()" "ensure False e = Inl e"
  by (simp_all add: ensure_def)

lemma is_ok_simps [simp]: "\<not> is_ok (Inl e)" "is_ok (Inr v)"
  by (simp_all add: is_ok_def)

lemma is_some_and_simps [simp]:
  "\<not> is_some_and None p" "is_some_and (Some v) p = p v"
  by (simp_all add: is_some_and_def)

lemma is_some_and_iff: "is_some_and x p \<longleftrightarrow> (\<exists>v. x = Some v \<and> p v)"
  by (cases x) auto

lemma and_then_eq_Inr: "and_then r f = Inr b \<longleftrightarrow> (\<exists>a. r = Inr a \<and> f a = Inr b)"
  by (cases r) auto

lemma and_then_eq_Inl: "and_then r f = Inl e \<longleftrightarrow> r = Inl e \<or> (\<exists>a. r = Inr a \<and> f a = Inl e)"
  by (cases r) auto

lemma ok_or_eq_Inr [simp]: "ok_or x e = Inr v \<longleftrightarrow> x = Some v"
  by (cases x) auto

lemma ok_or_eq_Inl: "ok_or x e = Inl e' \<longleftrightarrow> x = None \<and> e' = e"
  by (cases x) auto

lemma map_err_eq_Inr [simp]: "map_err f r = Inr v \<longleftrightarrow> r = Inr v"
  by (cases r) auto

lemma map_err_eq_Inl: "map_err f r = Inl e \<longleftrightarrow> (\<exists>x. r = Inl x \<and> e = f x)"
  by (cases r) auto

lemma ensure_eq_Inr [simp]: "ensure b e = Inr u \<longleftrightarrow> b"
  by (simp add: ensure_def)

lemma ensure_eq_Inl [simp]: "ensure b e = Inl e' \<longleftrightarrow> \<not> b \<and> e' = e"
  by (auto simp: ensure_def)

text \<open>
  \<open>try_fold\<close> over a slice: the accumulator is threaded through and the first error is returned.
\<close>

fun try_fold :: "('s \<Rightarrow> 'a \<Rightarrow> 'e + 's) \<Rightarrow> 's \<Rightarrow> 'a list \<Rightarrow> 'e + 's" where
  "try_fold f s [] = Inr s"
| "try_fold f s (x # xs) = and_then (f s x) (\<lambda>s'. try_fold f s' xs)"

text \<open>\<open>collect::<Result<Vec<_>, _>>\<close>: the mapped list, or the first error.\<close>

fun try_map :: "('a \<Rightarrow> 'e + 'b) \<Rightarrow> 'a list \<Rightarrow> 'e + 'b list" where
  "try_map f [] = Inr []"
| "try_map f (x # xs) = and_then (f x) (\<lambda>y. and_then (try_map f xs) (\<lambda>ys. Inr (y # ys)))"

text \<open>A loop that calls a fallible \<open>&mut self\<close> method on every element and stops at an error.\<close>

fun try_each :: "('s \<Rightarrow> 'a \<Rightarrow> ('e + unit) \<times> 's) \<Rightarrow> 's \<Rightarrow> 'a list \<Rightarrow> ('e + unit) \<times> 's" where
  "try_each f s [] = (Inr (), s)"
| "try_each f s (x # xs) = (case f s x of (Inl e, s') \<Rightarrow> (Inl e, s') | (Inr _, s') \<Rightarrow> try_each f s' xs)"

lemma try_map_eq_Inr:
  "try_map f xs = Inr ys \<longleftrightarrow> length ys = length xs \<and> (\<forall>i < length xs. f (xs ! i) = Inr (ys ! i))"
proof (induction xs arbitrary: ys)
  case Nil
  then show ?case by auto
next
  case (Cons x xs)
  show ?case
  proof (cases ys)
    case Nil
    then show ?thesis by (auto simp: and_then_eq_Inr)
  next
    case (Cons y ys')
    then show ?thesis
      using Cons.IH [of ys'] by (auto simp: and_then_eq_Inr less_Suc_eq_0_disj)
  qed
qed

lemma try_map_Inr_length: "try_map f xs = Inr ys \<Longrightarrow> length ys = length xs"
  by (simp add: try_map_eq_Inr)

lemma try_map_Inr_set: "try_map f xs = Inr ys \<Longrightarrow> y \<in> set ys \<Longrightarrow> \<exists>x \<in> set xs. f x = Inr y"
  by (metis in_set_conv_nth try_map_eq_Inr)

lemma try_map_total:
  assumes "\<And>x. x \<in> set xs \<Longrightarrow> f x = Inr (g x)"
  shows "try_map f xs = Inr (map g xs)"
  using assms by (induction xs) auto

lemma Ex_less_Suc_shift: "(\<exists>k < length (x # xs). P k) \<longleftrightarrow> P 0 \<or> (\<exists>k < length xs. P (Suc k))"
  using less_Suc_eq_0_disj by auto

section \<open>Machine integers\<close>

type_synonym u8 = "8 word"
type_synonym u16 = "16 word"
type_synonym u32 = "32 word"
type_synonym u64 = "64 word"

definition checked_add :: "'a::len word \<Rightarrow> 'a word \<Rightarrow> 'a word option" where
  "checked_add a b = (if unat a + unat b < 2 ^ LENGTH('a) then Some (a + b) else None)"

definition checked_sub :: "'a::len word \<Rightarrow> 'a word \<Rightarrow> 'a word option" where
  "checked_sub a b = (if b \<le> a then Some (a - b) else None)"

text \<open>A length or a position converted to a fixed width, as \<open>u64::try_from(usize)\<close>.\<close>

definition try_from_nat :: "nat \<Rightarrow> 'a::len word option" where
  "try_from_nat n = (if n < 2 ^ LENGTH('a) then Some (of_nat n) else None)"

definition saturating_add :: "'a::len word \<Rightarrow> 'a word \<Rightarrow> 'a word" where
  "saturating_add a b = (if unat a + unat b < 2 ^ LENGTH('a) then a + b else - 1)"

lemma checked_add_Some: "checked_add a b = Some c \<Longrightarrow> unat c = unat a + unat b"
  by (auto simp: checked_add_def unat_word_ariths split: if_splits)

lemma checked_add_eq_Some:
  "checked_add (a :: 'a::len word) b = Some c \<longleftrightarrow>
     unat a + unat b < 2 ^ LENGTH('a) \<and> unat c = unat a + unat b"
  by (auto simp: checked_add_def unat_word_ariths word_unat_eq_iff)

lemma checked_add_eq_None:
  "checked_add (a :: 'a::len word) b = None \<longleftrightarrow> 2 ^ LENGTH('a) \<le> unat a + unat b"
  by (auto simp: checked_add_def)

lemma checked_sub_eq_Some:
  "checked_sub a b = Some c \<longleftrightarrow> unat b \<le> unat a \<and> unat c = unat a - unat b"
  by (auto simp: checked_sub_def word_le_nat_alt unat_sub word_unat_eq_iff)

lemma checked_sub_eq_None: "checked_sub a b = None \<longleftrightarrow> unat a < unat b"
  by (auto simp: checked_sub_def word_le_nat_alt)

lemma try_from_nat_eq_Some:
  "try_from_nat n = Some (w :: 'a::len word) \<longleftrightarrow> n < 2 ^ LENGTH('a) \<and> unat w = n"
  by (auto simp: try_from_nat_def word_unat_eq_iff unat_of_nat)

lemma try_from_nat_eq_None: "(try_from_nat n :: 'a::len word option) = None \<longleftrightarrow> 2 ^ LENGTH('a) \<le> n"
  by (auto simp: try_from_nat_def)

text \<open>Code equations that stay within words, so that evaluation never counts up to a bound.\<close>

lemma no_overflow_iff:
  "unat (a :: 'a::len word) + unat b < 2 ^ LENGTH('a) \<longleftrightarrow> a \<le> a + b"
proof -
  have "unat a + unat b < 2 ^ LENGTH('a) \<longleftrightarrow> uint a + uint b < 2 ^ LENGTH('a)"
    unfolding uint_nat by (metis of_nat_add of_nat_less_iff of_nat_numeral of_nat_power)
  then show ?thesis by (simp add: no_olen_add)
qed

lemma checked_add_code [code]: "checked_add a b = (if a \<le> a + b then Some (a + b) else None)"
  by (simp add: checked_add_def no_overflow_iff)

lemma saturating_add_code [code]: "saturating_add a b = (if a \<le> a + b then a + b else - 1)"
  by (simp add: saturating_add_def no_overflow_iff)

section \<open>Stable sorting by a comparison\<close>

text \<open>
  \<open>slice::sort_by\<close> is a stable sort; \<open>le x y\<close> says that the comparison does not answer
  \<open>Greater\<close>. Equal elements keep their order.
\<close>

fun insert_by :: "('a \<Rightarrow> 'a \<Rightarrow> bool) \<Rightarrow> 'a \<Rightarrow> 'a list \<Rightarrow> 'a list" where
  "insert_by le x [] = [x]"
| "insert_by le x (y # ys) = (if le x y then x # y # ys else y # insert_by le x ys)"

definition sort_by :: "('a \<Rightarrow> 'a \<Rightarrow> bool) \<Rightarrow> 'a list \<Rightarrow> 'a list" where
  "sort_by le xs = foldr (insert_by le) xs []"

lemma mset_insert_by [simp]: "mset (insert_by le x xs) = add_mset x (mset xs)"
  by (induction xs) auto

lemma mset_sort_by [simp]: "mset (sort_by le xs) = mset xs"
  by (induction xs) (auto simp: sort_by_def)

lemma set_sort_by [simp]: "set (sort_by le xs) = set xs"
  by (metis mset_sort_by set_mset_mset)

lemma length_sort_by [simp]: "length (sort_by le xs) = length xs"
  by (metis mset_sort_by size_mset)

lemma set_insert_by: "set (insert_by le x xs) = insert x (set xs)"
  by (metis mset_insert_by set_mset_add_mset_insert set_mset_mset)

lemma sorted_insert_by:
  assumes total: "\<And>y. y \<in> set xs \<Longrightarrow> le x y \<or> le y x"
    and trans: "\<And>a b c. le a b \<Longrightarrow> le b c \<Longrightarrow> le a c"
    and "sorted_wrt le xs"
  shows "sorted_wrt le (insert_by le x xs)"
  using assms(1,3)
proof (induction xs)
  case Nil
  then show ?case by simp
next
  case (Cons y ys)
  then show ?case by (auto simp: set_insert_by intro: trans)
qed

lemma sorted_sort_by:
  assumes "\<And>a b. a \<in> set xs \<Longrightarrow> b \<in> set xs \<Longrightarrow> le a b \<or> le b a"
    and "\<And>a b c. le a b \<Longrightarrow> le b c \<Longrightarrow> le a c"
  shows "sorted_wrt le (sort_by le xs)"
  using assms(1)
proof (induction xs)
  case Nil
  then show ?case by (simp add: sort_by_def)
next
  case (Cons x xs)
  have step: "sort_by le (x # xs) = insert_by le x (sort_by le xs)" by (simp add: sort_by_def)
  show ?case
    unfolding step by (rule sorted_insert_by) (use Cons assms(2) in auto)
qed

end
