(* ===== verification/Rust_Text.thy ===== *)
theory Rust_Text
  imports Prelude
begin

text \<open>
  Strings of the Rust standard library as the UTF-8 bytes they hold, the functions on them that the
  sources call, decimal formatting of integers, and the JSON tree of \<open>serde_json\<close>.
  \<open>is_blank s\<close> is \<open>s.trim().is_empty()\<close>: every character of \<open>s\<close> has the Unicode property
  \<open>White_Space\<close>, read off its UTF-8 encoding.
\<close>

section \<open>Character classes\<close>

definition is_ascii_digit :: "char \<Rightarrow> bool" where
  "is_ascii_digit c \<longleftrightarrow> CHR ''0'' \<le> c \<and> c \<le> CHR ''9''"

definition is_ascii_lowercase :: "char \<Rightarrow> bool" where
  "is_ascii_lowercase c \<longleftrightarrow> CHR ''a'' \<le> c \<and> c \<le> CHR ''z''"

definition is_ascii_uppercase :: "char \<Rightarrow> bool" where
  "is_ascii_uppercase c \<longleftrightarrow> CHR ''A'' \<le> c \<and> c \<le> CHR ''Z''"

definition is_ascii_alphabetic :: "char \<Rightarrow> bool" where
  "is_ascii_alphabetic c \<longleftrightarrow> is_ascii_lowercase c \<or> is_ascii_uppercase c"

definition is_ascii_alphanumeric :: "char \<Rightarrow> bool" where
  "is_ascii_alphanumeric c \<longleftrightarrow> is_ascii_alphabetic c \<or> is_ascii_digit c"

definition is_ascii_hexdigit :: "char \<Rightarrow> bool" where
  "is_ascii_hexdigit c \<longleftrightarrow>
     is_ascii_digit c \<or> (CHR ''a'' \<le> c \<and> c \<le> CHR ''f'') \<or> (CHR ''A'' \<le> c \<and> c \<le> CHR ''F'')"

definition is_lower_hexdigit :: "char \<Rightarrow> bool" where
  "is_lower_hexdigit c \<longleftrightarrow> is_ascii_digit c \<or> (CHR ''a'' \<le> c \<and> c \<le> CHR ''f'')"

definition to_ascii_lowercase_char :: "char \<Rightarrow> char" where
  "to_ascii_lowercase_char c =
     (if is_ascii_uppercase c then char_of (of_char c + 32 :: nat) else c)"

text \<open>Evaluated on the bits of the byte: an upper-case letter becomes lower case by setting bit 5.\<close>

lemma to_ascii_lowercase_char_code [code]:
  "to_ascii_lowercase_char c =
     (if is_ascii_uppercase c
      then (case c of Char b0 b1 b2 b3 b4 b5 b6 b7 \<Rightarrow> Char b0 b1 b2 b3 b4 True b6 b7) else c)"
proof (cases "is_ascii_uppercase c")
  case True
  obtain b0 b1 b2 b3 b4 b5 b6 b7 where c: "c = Char b0 b1 b2 b3 b4 b5 b6 b7" by (cases c)
  from True have bounds: "65 \<le> (of_char c :: nat)" "(of_char c :: nat) \<le> 90"
    by (simp_all add: is_ascii_uppercase_def less_eq_char_def)
  have "\<not> b5 \<and> b6 \<and> \<not> b7"
    using bounds unfolding c
    by (cases b5; cases b6; cases b7; cases b0; cases b1; cases b2; cases b3; cases b4) (simp_all add: horner_sum_simps)
  then have "(of_char c + 32 :: nat) = of_char (Char b0 b1 b2 b3 b4 True b6 b7)"
    unfolding c by simp
  then have "char_of (of_char c + 32 :: nat) = Char b0 b1 b2 b3 b4 True b6 b7" by (simp only: char_of_char)
  with True show ?thesis by (simp add: to_ascii_lowercase_char_def c)
qed (simp add: to_ascii_lowercase_char_def)

definition to_ascii_lowercase :: "string \<Rightarrow> string" where
  "to_ascii_lowercase = map to_ascii_lowercase_char"

section \<open>White space\<close>

text \<open>
  One character of white space at the head of the string: the number of bytes of its encoding,
  zero when the head is no white space. The characters are U+0009..U+000D, U+0020, U+0085, U+00A0,
  U+1680, U+2000..U+200A, U+2028, U+2029, U+202F, U+205F and U+3000.
\<close>

definition byte :: "char \<Rightarrow> nat" where
  "byte c = of_char c"

fun leading_space :: "string \<Rightarrow> nat" where
  "leading_space [] = 0"
| "leading_space (a # s) =
     (if (9 \<le> byte a \<and> byte a \<le> 13) \<or> byte a = 32 then 1
      else case s of
        [] \<Rightarrow> 0
      | b # s' \<Rightarrow>
          if byte a = 194 \<and> (byte b = 133 \<or> byte b = 160) then 2
          else case s' of
            [] \<Rightarrow> 0
          | c # _ \<Rightarrow>
              if (byte a = 225 \<and> byte b = 154 \<and> byte c = 128)
                 \<or> (byte a = 226 \<and> byte b = 128 \<and> (128 \<le> byte c \<and> byte c \<le> 138))
                 \<or> (byte a = 226 \<and> byte b = 128 \<and> (byte c = 168 \<or> byte c = 169 \<or> byte c = 175))
                 \<or> (byte a = 226 \<and> byte b = 129 \<and> byte c = 159)
                 \<or> (byte a = 227 \<and> byte b = 128 \<and> byte c = 128)
              then 3 else 0)"

function is_blank :: "string \<Rightarrow> bool" where
  "is_blank s = (if s = [] then True
                 else if leading_space s = 0 then False
                 else is_blank (drop (leading_space s) s))"
  by pat_completeness auto
termination
  by (relation "measure length") auto

declare is_blank.simps [simp del]

lemma is_blank_Nil [simp]: "is_blank []"
  by (simp add: is_blank.simps)

lemma is_blank_Cons_False [simp]:
  "leading_space (a # s) = 0 \<Longrightarrow> \<not> is_blank (a # s)"
  by (simp add: is_blank.simps)

text \<open>Whether any character of the string is white space (\<open>chars().any(char::is_whitespace)\<close>).\<close>

fun has_whitespace :: "string \<Rightarrow> bool" where
  "has_whitespace [] = False"
| "has_whitespace (a # s) = (leading_space (a # s) \<noteq> 0 \<or> has_whitespace s)"

text \<open>
  \<open>str::trim\<close>: leading white space is dropped character by character; the rest is cut before the
  longest trailing run of white space.
\<close>

lemma drop_leading_space: "0 < leading_space s \<Longrightarrow> length s - leading_space s < length s"
  by (cases s) auto

function trim_start :: "string \<Rightarrow> string" where
  "trim_start s = (if leading_space s = 0 then s else trim_start (drop (leading_space s) s))"
  by pat_completeness auto
termination
  by (relation "measure length") (auto intro: drop_leading_space)

declare trim_start.simps [simp del]

definition trim_end :: "string \<Rightarrow> string" where
  "trim_end s =
     (case find (\<lambda>n. is_blank (drop n s)) [0..<Suc (length s)] of None \<Rightarrow> s | Some n \<Rightarrow> take n s)"

definition trim :: "string \<Rightarrow> string" where
  "trim s = trim_end (trim_start s)"

lemma is_blank_trim_start: "is_blank s \<longleftrightarrow> trim_start s = []"
proof (induction s rule: trim_start.induct)
  case (1 s)
  show ?case
  proof (cases "leading_space s = 0")
    case True
    then show ?thesis by (subst is_blank.simps, subst trim_start.simps) simp
  next
    case False
    then have "s \<noteq> []" by auto
    with False "1.IH" show ?thesis by (subst is_blank.simps, subst trim_start.simps) simp
  qed
qed

lemma leading_space_trim_start: "leading_space (trim_start s) = 0"
proof (induction s rule: trim_start.induct)
  case (1 s)
  then show ?case by (subst trim_start.simps) simp
qed

lemma trim_end_eq_Nil: "trim_end s = [] \<longleftrightarrow> is_blank s"
proof (cases "is_blank s")
  case True
  then have "find (\<lambda>n. is_blank (drop n s)) [0..<Suc (length s)] = Some 0"
    by (subst upt_conv_Cons) auto
  with True show ?thesis by (simp add: trim_end_def)
next
  case False
  then have "find (\<lambda>n. is_blank (drop n s)) [0..<Suc (length s)] \<noteq> Some 0" and "s \<noteq> []"
    by (auto simp: find_Some_iff simp del: upt.simps)
  then show ?thesis
    using False by (auto simp: trim_end_def simp del: upt.simps split: option.splits)
qed

text \<open>\<open>s.trim().is_empty()\<close> is \<open>is_blank s\<close>.\<close>

lemma trim_eq_Nil: "trim s = [] \<longleftrightarrow> is_blank s"
proof -
  have "trim_start (trim_start s) = trim_start s"
    by (subst trim_start.simps) (simp add: leading_space_trim_start)
  then show ?thesis
    by (simp add: trim_def trim_end_eq_Nil is_blank_trim_start)
qed

section \<open>Searching, stripping and replacing\<close>

definition starts_with :: "string \<Rightarrow> string \<Rightarrow> bool" where
  "starts_with s p \<longleftrightarrow> prefix p s"

definition ends_with :: "string \<Rightarrow> string \<Rightarrow> bool" where
  "ends_with s p \<longleftrightarrow> suffix p s"

definition strip_prefix :: "string \<Rightarrow> string \<Rightarrow> string option" where
  "strip_prefix s p = (if prefix p s then Some (drop (length p) s) else None)"

definition str_contains :: "string \<Rightarrow> string \<Rightarrow> bool" where
  "str_contains s p \<longleftrightarrow> list_ex (prefix p) (suffixes s)"

lemma str_contains_iff: "str_contains s p \<longleftrightarrow> sublist p s"
proof -
  have "str_contains s p \<longleftrightarrow> (\<exists>x. suffix x s \<and> prefix p x)"
    by (simp add: str_contains_def list_ex_iff Bex_def)
  then show ?thesis by (auto simp: sublist_def suffix_def prefix_def)
qed

lemma str_contains_code [code]:
  "str_contains [] p \<longleftrightarrow> p = []"
  "str_contains (c # s) p \<longleftrightarrow> (if prefix p (c # s) then True else str_contains s p)"
  by (auto simp: str_contains_def)

text \<open>\<open>str::replace\<close>: non-overlapping matches, left to right; the pattern is not empty.\<close>

function str_replace :: "string \<Rightarrow> string \<Rightarrow> string \<Rightarrow> string" where
  "str_replace p r s =
     (if p = [] \<or> s = [] then s
      else if prefix p s then r @ str_replace p r (drop (length p) s)
      else hd s # str_replace p r (tl s))"
  by pat_completeness auto
termination
  by (relation "measure (\<lambda>(p, r, s). length s)") auto

declare str_replace.simps [simp del]

lemma str_replace_char: "str_replace [a] [b] s = map (\<lambda>c. if c = a then b else c) s"
proof (induction s)
  case Nil
  then show ?case by (simp add: str_replace.simps)
next
  case (Cons c s)
  have "str_replace [a] [b] (c # s) = (if c = a then b else c) # str_replace [a] [b] s"
    by (subst str_replace.simps) simp
  with Cons show ?case by simp
qed

section \<open>Taking characters\<close>

text \<open>
  \<open>chars().by_ref().take(n)\<close> and what the iterator still holds: a character is a byte with the
  continuation bytes (128 to 191) that follow it.
\<close>

definition is_continuation :: "char \<Rightarrow> bool" where
  "is_continuation c \<longleftrightarrow> 128 \<le> byte c \<and> byte c < 192"

fun take_chars :: "nat \<Rightarrow> string \<Rightarrow> string \<times> string" where
  "take_chars 0 s = ([], s)"
| "take_chars (Suc n) [] = ([], [])"
| "take_chars (Suc n) (c # s) =
     (let (taken, rest) = take_chars n (dropWhile is_continuation s)
      in (c # takeWhile is_continuation s @ taken, rest))"

text \<open>\<open>chars().count()\<close> of a string that starts at a character boundary.\<close>

definition chars_count :: "string \<Rightarrow> nat" where
  "chars_count s = length (filter (\<lambda>c. \<not> is_continuation c) s)"

lemma take_chars_append: "take_chars n s = (a, b) \<Longrightarrow> a @ b = s"
  by (induction n s arbitrary: a b rule: take_chars.induct) (auto split: prod.splits)

lemma filter_takeWhile_continuation [simp]:
  "filter (\<lambda>c. \<not> is_continuation c) (takeWhile is_continuation s) = []"
  using set_takeWhileD [of _ is_continuation s] by (auto simp: filter_empty_conv)

lemma take_chars_count: "take_chars n s = (a, b) \<Longrightarrow> chars_count a \<le> n"
  by (induction n s arbitrary: a b rule: take_chars.induct)
    (force simp: chars_count_def split: prod.splits)+

section \<open>Decimal formatting\<close>

definition digit_char :: "nat \<Rightarrow> char" where
  "digit_char n = char_of (48 + n)"

fun show_nat :: "nat \<Rightarrow> string" where
  "show_nat n = (if n < 10 then [digit_char n] else show_nat (n div 10) @ [digit_char (n mod 10)])"

declare show_nat.simps [simp del]

lemma digit_char_nth: "n < 10 \<Longrightarrow> digit_char n = ''0123456789'' ! n"
proof -
  assume "n < 10"
  then have "n \<in> {0, 1, 2, 3, 4, 5, 6, 7, 8, 9}" by auto
  then show ?thesis by (auto simp: digit_char_def char_of_def bit_0)
qed

lemma show_nat_code [code]:
  "show_nat n =
     (if n < 10 then [''0123456789'' ! n] else show_nat (n div 10) @ [''0123456789'' ! (n mod 10)])"
  by (subst show_nat.simps) (simp add: digit_char_nth)

abbreviation show_word :: "'a::len word \<Rightarrow> string" where
  "show_word w \<equiv> show_nat (unat w)"

text \<open>\<open>{n:02}\<close>: at least two digits, padded with a leading zero.\<close>

definition show_nat_02 :: "nat \<Rightarrow> string" where
  "show_nat_02 n = (if n < 10 then CHR ''0'' # show_nat n else show_nat n)"

text \<open>The inverse reading, used to show that formatting loses nothing.\<close>

definition read_digits :: "string \<Rightarrow> nat" where
  "read_digits s = foldl (\<lambda>v c. 10 * v + (byte c - 48)) 0 s"

lemma byte_digit_char: "n < 10 \<Longrightarrow> byte (digit_char n) = 48 + n"
  by (simp add: byte_def digit_char_def of_char_of)

lemma is_ascii_digit_byte: "is_ascii_digit c \<longleftrightarrow> 48 \<le> byte c \<and> byte c \<le> 57"
  by (simp add: is_ascii_digit_def less_eq_char_def byte_def)

lemma digit_char_is_digit: "n < 10 \<Longrightarrow> is_ascii_digit (digit_char n)"
  by (simp add: is_ascii_digit_byte byte_digit_char)

lemma read_show_nat [simp]: "read_digits (show_nat n) = n"
proof (induction n rule: show_nat.induct)
  case (1 n)
  show ?case
  proof (cases "n < 10")
    case True
    then show ?thesis
      by (simp add: show_nat.simps [of n] read_digits_def byte_digit_char)
  next
    case False
    with "1.IH" have "read_digits (show_nat (n div 10)) = n div 10" by simp
    with False show ?thesis
      by (simp add: show_nat.simps [of n] read_digits_def byte_digit_char)
  qed
qed

lemma show_nat_inj [simp]: "show_nat m = show_nat n \<longleftrightarrow> m = n"
  by (metis read_show_nat)

lemma read_show_nat_02 [simp]: "read_digits (show_nat_02 n) = n"
proof -
  have zero: "byte CHR ''0'' = 48" by (simp add: byte_def)
  show ?thesis
    using read_show_nat [of n] by (simp add: show_nat_02_def read_digits_def zero)
qed

lemma show_nat_02_inj [simp]: "show_nat_02 m = show_nat_02 n \<longleftrightarrow> m = n"
  by (metis read_show_nat_02)

lemma show_nat_digits: "list_all is_ascii_digit (show_nat n)"
proof (induction n rule: show_nat.induct)
  case (1 n)
  then show ?case
    by (cases "n < 10") (simp_all add: show_nat.simps [of n] digit_char_is_digit)
qed

lemma show_nat_nonempty [simp]: "show_nat n \<noteq> []"
  by (simp add: show_nat.simps [of n])

lemma show_nat_no_slash: "CHR ''/'' \<notin> set (show_nat n)"
proof
  assume "CHR ''/'' \<in> set (show_nat n)"
  with show_nat_digits [of n] have "is_ascii_digit CHR ''/''"
    by (simp only: list_all_iff)
  then show False by (simp add: is_ascii_digit_byte byte_def)
qed

text \<open>
  Path-like names joined with a separator: equal wholes with separator-free last parts have equal
  last parts and equal fronts.
\<close>

lemma append_sep_inj:
  assumes "a @ c # x = b @ c # y" and "c \<notin> set x" and "c \<notin> set y"
  shows "a = b \<and> x = y"
proof -
  have "rev x @ c # rev a = rev y @ c # rev b"
    using arg_cong [OF assms(1), of rev] by simp
  moreover have "takeWhile (\<lambda>d. d \<noteq> c) (rev x @ c # rev a) = rev x"
    by (subst takeWhile_append2) (use assms(2) in auto)
  moreover have "takeWhile (\<lambda>d. d \<noteq> c) (rev y @ c # rev b) = rev y"
    by (subst takeWhile_append2) (use assms(3) in auto)
  ultimately have "rev x = rev y" by metis
  with assms(1) show ?thesis by simp
qed

section \<open>JSON\<close>

text \<open>
  \<open>serde_json::Value\<close>. Objects are association lists in key order (the crate's default map is a
  \<open>BTreeMap\<close>); numbers are kept as their decimal text, which no source inspects.
\<close>

datatype json =
    JNull
  | JBool bool
  | JNumber string
  | JString string
  | JArray "json list"
  | JObject "(string \<times> json) list"

definition json_get :: "json \<Rightarrow> string \<Rightarrow> json option" where
  "json_get v k = (case v of JObject kvs \<Rightarrow> map_of kvs k | _ \<Rightarrow> None)"

definition json_as_str :: "json \<Rightarrow> string option" where
  "json_as_str v = (case v of JString s \<Rightarrow> Some s | _ \<Rightarrow> None)"

definition json_as_bool :: "json \<Rightarrow> bool option" where
  "json_as_bool v = (case v of JBool b \<Rightarrow> Some b | _ \<Rightarrow> None)"

lemma json_as_str_eq_Some: "json_as_str v = Some s \<longleftrightarrow> v = JString s"
  by (cases v) (auto simp: json_as_str_def)

end
