(* ===== verification/Float64.thy ===== *)
theory Float64
  imports Prelude "HOL-Library.Log_Nat"
begin

text \<open>
  Rust's \<open>f64\<close> on the operations the statistics use. A finite value is the rational it denotes; the
  negative zero, the infinities and NaN are separate constructors (NaN payloads are never observed
  by the sources, which test \<open>is_finite\<close> before they compare). Every arithmetic operation is the
  exact rational operation followed by \<open>round64\<close>, round-to-nearest with ties to even in the
  binary64 format, with gradual underflow and overflow to infinity.
  The locale \<open>rounding\<close> states the laws of such a rounding that the accumulations of the
  statistics rely on; the interpretation \<open>r64\<close> discharges them for \<open>round64\<close>.
\<close>

section \<open>Rounding of rationals\<close>

definition floor_log2 :: "rat \<Rightarrow> int" where
  "floor_log2 r =
     (let (p, q) = quotient_of r; e = bitlen p - bitlen q
      in if 2 powi e \<le> r then e else e - 1)"

definition round_half_even :: "rat \<Rightarrow> int" where
  "round_half_even x =
     (let f = floor x; d = x - of_int f
      in if d < 1 / 2 then f
         else if 1 / 2 < d then f + 1
         else if even f then f else f + 1)"

definition min_exponent :: int where
  "min_exponent = - 1074"

definition ulp_exponent :: "rat \<Rightarrow> int" where
  "ulp_exponent r = max (floor_log2 r - 52) min_exponent"

definition round_pos :: "rat \<Rightarrow> rat" where
  "round_pos r = of_int (round_half_even (r / 2 powi ulp_exponent r)) * 2 powi ulp_exponent r"

definition round64 :: "rat \<Rightarrow> rat" where
  "round64 r = (if r = 0 then 0 else if 0 < r then round_pos r else - round_pos (- r))"

text \<open>Square roots: the integer root by digits, then the correctly rounded root of a rational.\<close>

function isqrt :: "int \<Rightarrow> int" where
  "isqrt n = (if n \<le> 0 then 0
              else let s = 2 * isqrt (n div 4) in if (s + 1)\<^sup>2 \<le> n then s + 1 else s)"
  by pat_completeness auto
termination
  by (relation "measure nat") auto

declare isqrt.simps [simp del]

definition sqrt_half_even :: "rat \<Rightarrow> int" where
  "sqrt_half_even x =
     (let m = isqrt (floor x); h = (of_int m + 1 / 2) ^ 2
      in if x < h then m
         else if h < x then m + 1
         else if even m then m else m + 1)"

definition round_sqrt :: "rat \<Rightarrow> rat" where
  "round_sqrt r =
     (let u = max (floor_log2 r div 2 - 52) min_exponent
      in of_int (sqrt_half_even (r / 4 powi u)) * 2 powi u)"

section \<open>The values and their operations\<close>

datatype f64 = NaN | Infinity bool | NegZero | Fin rat

definition sign_bit :: "f64 \<Rightarrow> bool" where
  "sign_bit x = (case x of NaN \<Rightarrow> False | Infinity n \<Rightarrow> n | NegZero \<Rightarrow> True | Fin r \<Rightarrow> r < 0)"

definition is_finite :: "f64 \<Rightarrow> bool" where
  "is_finite x = (case x of NaN \<Rightarrow> False | Infinity _ \<Rightarrow> False | NegZero \<Rightarrow> True | Fin _ \<Rightarrow> True)"

definition f64_val :: "f64 \<Rightarrow> rat" where
  "f64_val x = (case x of Fin r \<Rightarrow> r | _ \<Rightarrow> 0)"

definition f64_limit :: rat where
  "f64_limit = of_int (2 ^ 1024)"

text \<open>A rational brought into the format; \<open>neg\<close> is the sign of a zero result.\<close>

definition to_f64 :: "bool \<Rightarrow> rat \<Rightarrow> f64" where
  "to_f64 neg r =
     (let v = round64 r
      in if v = 0 then (if neg then NegZero else Fin 0)
         else if f64_limit \<le> \<bar>v\<bar> then Infinity (r < 0)
         else Fin v)"

text \<open>The values that exist in the format.\<close>

definition f64_wf :: "f64 \<Rightarrow> bool" where
  "f64_wf x = (case x of Fin r \<Rightarrow> round64 r = r \<and> \<bar>r\<bar> < f64_limit | _ \<Rightarrow> True)"

definition f64_of_nat :: "nat \<Rightarrow> f64" where
  "f64_of_nat n = to_f64 False (of_nat n)"

definition f64_neg :: "f64 \<Rightarrow> f64" where
  "f64_neg x = (case x of NaN \<Rightarrow> NaN | Infinity n \<Rightarrow> Infinity (\<not> n) | NegZero \<Rightarrow> Fin 0
                | Fin r \<Rightarrow> if r = 0 then NegZero else Fin (- r))"

fun f64_add :: "f64 \<Rightarrow> f64 \<Rightarrow> f64" where
  "f64_add NaN y = NaN"
| "f64_add x NaN = NaN"
| "f64_add (Infinity a) (Infinity b) = (if a = b then Infinity a else NaN)"
| "f64_add (Infinity a) y = Infinity a"
| "f64_add x (Infinity b) = Infinity b"
| "f64_add NegZero NegZero = NegZero"
| "f64_add x y = to_f64 False (f64_val x + f64_val y)"

definition f64_sub :: "f64 \<Rightarrow> f64 \<Rightarrow> f64" where
  "f64_sub x y = f64_add x (f64_neg y)"

definition f64_mul :: "f64 \<Rightarrow> f64 \<Rightarrow> f64" where
  "f64_mul x y =
     (if x = NaN \<or> y = NaN then NaN
      else if \<not> is_finite x \<or> \<not> is_finite y then
        (if (is_finite x \<and> f64_val x = 0) \<or> (is_finite y \<and> f64_val y = 0) then NaN
         else Infinity (sign_bit x \<noteq> sign_bit y))
      else to_f64 (sign_bit x \<noteq> sign_bit y) (f64_val x * f64_val y))"

definition f64_div :: "f64 \<Rightarrow> f64 \<Rightarrow> f64" where
  "f64_div x y =
     (if x = NaN \<or> y = NaN then NaN
      else if \<not> is_finite x then (if is_finite y then Infinity (sign_bit x \<noteq> sign_bit y) else NaN)
      else if \<not> is_finite y then to_f64 (sign_bit x \<noteq> sign_bit y) 0
      else if f64_val y = 0 then
        (if f64_val x = 0 then NaN else Infinity (sign_bit x \<noteq> sign_bit y))
      else to_f64 (sign_bit x \<noteq> sign_bit y) (f64_val x / f64_val y))"

definition f64_sqrt :: "f64 \<Rightarrow> f64" where
  "f64_sqrt x = (case x of NaN \<Rightarrow> NaN | Infinity n \<Rightarrow> (if n then NaN else Infinity False)
                 | NegZero \<Rightarrow> NegZero
                 | Fin r \<Rightarrow> if r < 0 then NaN else if r = 0 then Fin 0 else Fin (round_sqrt r))"

text \<open>The comparison operators: false on NaN, equal on the two zeros.\<close>

fun f64_le :: "f64 \<Rightarrow> f64 \<Rightarrow> bool" where
  "f64_le NaN y = False"
| "f64_le x NaN = False"
| "f64_le (Infinity a) (Infinity b) = (a \<or> \<not> b)"
| "f64_le (Infinity a) y = a"
| "f64_le x (Infinity b) = (\<not> b)"
| "f64_le x y = (f64_val x \<le> f64_val y)"

definition f64_lt :: "f64 \<Rightarrow> f64 \<Rightarrow> bool" where
  "f64_lt x y \<longleftrightarrow> f64_le x y \<and> \<not> f64_le y x"

definition f64_max :: "f64 \<Rightarrow> f64 \<Rightarrow> f64" where
  "f64_max x y = (if x = NaN then y else if y = NaN then x else if f64_le x y then y else x)"

text \<open>
  \<open>f64::total_cmp\<close>: negative infinity, negative values, \<open>-0.0\<close>, \<open>+0.0\<close>, positive values,
  infinity, NaN.
\<close>

definition total_key :: "f64 \<Rightarrow> int \<times> rat \<times> int" where
  "total_key x = (case x of Infinity n \<Rightarrow> (if n then (0, 0, 0) else (2, 0, 0))
                  | NegZero \<Rightarrow> (1, 0, 0) | Fin r \<Rightarrow> (1, r, 1) | NaN \<Rightarrow> (3, 0, 0))"

definition total_le :: "f64 \<Rightarrow> f64 \<Rightarrow> bool" where
  "total_le x y =
     (case (total_key x, total_key y) of ((a, r, z), (b, s, w)) \<Rightarrow>
        a < b \<or> (a = b \<and> (r < s \<or> (r = s \<and> z \<le> w))))"

definition f64_ceil :: "f64 \<Rightarrow> f64" where
  "f64_ceil x = (case x of
       Fin r \<Rightarrow> if - 1 < r \<and> r < 0 then NegZero else Fin (of_int (ceiling r))
     | y \<Rightarrow> y)"

text \<open>The cast \<open>as usize\<close>: truncation, saturating at the ends, zero for NaN.\<close>

definition f64_to_usize :: "f64 \<Rightarrow> nat" where
  "f64_to_usize x = (case x of NaN \<Rightarrow> 0 | Infinity n \<Rightarrow> (if n then 0 else 2 ^ 64 - 1)
     | NegZero \<Rightarrow> 0 | Fin r \<Rightarrow> min (nat (floor r)) (2 ^ 64 - 1))"

section \<open>Facts on the rounding function\<close>

lemma powi_2_pos [simp]: "0 < (2::rat) powi e"
  by (simp add: zero_less_power_int)

lemma powi_2_add: "(2::rat) powi (a + b) = 2 powi a * 2 powi b"
  by (simp add: power_int_add)

lemma powi_2_mono: "a \<le> b \<Longrightarrow> (2::rat) powi a \<le> 2 powi b"
  by (rule power_int_increasing) auto

lemma powi_2_less_iff: "(2::rat) powi a < 2 powi b \<longleftrightarrow> a < b"
  by (metis linorder_not_less powi_2_mono power_int_strict_increasing one_less_numeral_iff semiring_norm(76))

lemma powi_2_split: "a \<le> b \<Longrightarrow> (2::rat) powi b = of_int (2 ^ nat (b - a)) * 2 powi a"
  using powi_2_add [of "b - a" a] by (simp add: power_int_def)

lemma bitlen_powi:
  assumes "0 < p"
  shows "2 powi (bitlen p - 1) \<le> (of_int p :: rat)" and "(of_int p :: rat) < 2 powi bitlen p"
proof -
  obtain n where n: "bitlen p = int (Suc n)"
  proof -
    have "floorlog 2 (nat p) \<noteq> 0" using assms by (simp add: floorlog_def)
    then obtain n where "floorlog 2 (nat p) = Suc n" by (cases "floorlog 2 (nat p)") auto
    then show ?thesis by (intro that) (simp add: bitlen_def)
  qed
  with bitlen_bounds [OF assms] have "2 ^ n \<le> p" "p < 2 ^ Suc n"
    by (simp_all only: nat_int) simp
  then have "(of_int (2 ^ n) :: rat) \<le> of_int p" "(of_int p :: rat) < of_int (2 ^ Suc n)"
    by (simp_all only: of_int_le_iff of_int_less_iff)
  then show "2 powi (bitlen p - 1) \<le> (of_int p :: rat)" and "(of_int p :: rat) < 2 powi bitlen p"
    by (simp_all only: n power_int_of_nat) simp_all
qed

lemma floor_log2_bounds:
  assumes "0 < r"
  shows "2 powi floor_log2 r \<le> r" and "r < 2 powi (floor_log2 r + 1)"
proof -
  obtain p q where pq: "quotient_of r = (p, q)" by force
  then have r: "r = of_int p / of_int q" and q: "0 < q"
    by (auto simp: quotient_of_div quotient_of_denom_pos)
  with assms have p: "0 < p" by (simp add: zero_less_divide_iff)
  define a b where "a = bitlen p" and "b = bitlen q"
  have P: "2 powi (a - 1) \<le> (of_int p :: rat)" "(of_int p :: rat) < 2 powi a"
    using bitlen_powi [OF p] by (simp_all add: a_def)
  have Q: "2 powi (b - 1) \<le> (of_int q :: rat)" "(of_int q :: rat) < 2 powi b"
    using bitlen_powi [OF q] by (simp_all add: b_def)
  have hi: "r < 2 powi (a - b + 1)"
  proof -
    have "of_int p < 2 powi (a - b + 1) * (of_int q :: rat)"
      using P(2) Q(1) mult_left_mono [OF Q(1), of "2 powi (a - b + 1)"]
      by (simp flip: powi_2_add)
    then show ?thesis using q by (simp add: r pos_divide_less_eq)
  qed
  have lo: "2 powi (a - b - 1) \<le> r"
  proof -
    have "2 powi (a - b - 1) * (of_int q :: rat) \<le> of_int p"
      using P(1) mult_left_mono [OF less_imp_le [OF Q(2)], of "2 powi (a - b - 1)"]
      by (simp flip: powi_2_add)
    then show ?thesis using q by (simp add: r pos_le_divide_eq)
  qed
  have "floor_log2 r = (if 2 powi (a - b) \<le> r then a - b else a - b - 1)"
    by (simp add: floor_log2_def pq a_def b_def Let_def)
  with hi lo show "2 powi floor_log2 r \<le> r" and "r < 2 powi (floor_log2 r + 1)"
    by (auto split: if_splits)
qed

lemma floor_log2_mono:
  assumes "0 < r" "r \<le> s"
  shows "floor_log2 r \<le> floor_log2 s"
proof -
  have "2 powi floor_log2 r < (2::rat) powi (floor_log2 s + 1)"
    using floor_log2_bounds(1) [of r] floor_log2_bounds(2) [of s] assms by linarith
  then show ?thesis by (simp only: powi_2_less_iff)
qed

lemma floor_log2_less:
  assumes "0 < r" "r < 2 powi k"
  shows "floor_log2 r < k"
proof -
  have "2 powi floor_log2 r < (2::rat) powi k"
    using floor_log2_bounds(1) [OF assms(1)] assms(2) by linarith
  then show ?thesis by (simp only: powi_2_less_iff)
qed

lemma round_half_even_mono:
  assumes "x \<le> y"
  shows "round_half_even x \<le> round_half_even y"
proof (cases "floor x = floor y")
  case True
  with assms show ?thesis by (auto simp: round_half_even_def Let_def)
next
  case False
  with assms have "floor x + 1 \<le> floor y"
    using floor_mono [OF assms] by linarith
  moreover have "round_half_even x \<le> floor x + 1" "floor y \<le> round_half_even y"
    by (simp_all add: round_half_even_def Let_def)
  ultimately show ?thesis by linarith
qed

lemma round_half_even_of_int [simp]: "round_half_even (of_int k) = k"
  by (simp add: round_half_even_def)

lemma round_half_even_ge: "of_int k \<le> x \<Longrightarrow> k \<le> round_half_even x"
  using round_half_even_mono [of "of_int k" x] by simp

lemma round_half_even_le: "x \<le> of_int k \<Longrightarrow> round_half_even x \<le> k"
  using round_half_even_mono [of x "of_int k"] by simp

lemma round_pos_ge:
  assumes "of_int m * 2 powi ulp_exponent r \<le> r"
  shows "of_int m * 2 powi ulp_exponent r \<le> round_pos r"
proof -
  have "m \<le> round_half_even (r / 2 powi ulp_exponent r)"
    using assms by (intro round_half_even_ge) (simp add: pos_le_divide_eq)
  then show ?thesis by (simp add: round_pos_def mult_right_mono)
qed

lemma round_pos_le:
  assumes "r \<le> of_int m * 2 powi ulp_exponent r"
  shows "round_pos r \<le> of_int m * 2 powi ulp_exponent r"
proof -
  have "round_half_even (r / 2 powi ulp_exponent r) \<le> m"
    using assms by (intro round_half_even_le) (simp add: pos_divide_le_eq)
  then show ?thesis by (simp add: round_pos_def mult_right_mono)
qed

lemma round_pos_ge_powi: "2 powi k \<le> r \<Longrightarrow> ulp_exponent r \<le> k \<Longrightarrow> 2 powi k \<le> round_pos r"
  using round_pos_ge [of "2 ^ nat (k - ulp_exponent r)" r] powi_2_split [of "ulp_exponent r" k] by simp

lemma round_pos_le_powi: "r \<le> 2 powi k \<Longrightarrow> ulp_exponent r \<le> k \<Longrightarrow> round_pos r \<le> 2 powi k"
  using round_pos_le [of r "2 ^ nat (k - ulp_exponent r)"] powi_2_split [of "ulp_exponent r" k] by simp

lemma round_pos_nonneg: "0 < r \<Longrightarrow> 0 \<le> round_pos r"
  using round_pos_ge [of 0 r] by simp

lemma round_pos_mono:
  assumes "0 < r" "r \<le> s"
  shows "round_pos r \<le> round_pos s"
proof (cases "ulp_exponent r = ulp_exponent s")
  case True
  with assms show ?thesis
    by (simp add: round_pos_def mult_right_mono round_half_even_mono divide_right_mono)
next
  case False
  have le: "floor_log2 r \<le> floor_log2 s" by (rule floor_log2_mono) (use assms in auto)
  with False have less: "floor_log2 r < floor_log2 s" and us: "ulp_exponent s = floor_log2 s - 52"
    and ur: "ulp_exponent r \<le> floor_log2 s"
    by (auto simp: ulp_exponent_def max_def split: if_splits)
  have "r \<le> 2 powi floor_log2 s"
    using floor_log2_bounds(2) [OF assms(1)] powi_2_mono [of "floor_log2 r + 1" "floor_log2 s"] less
    by linarith
  then have "round_pos r \<le> 2 powi floor_log2 s" using ur by (rule round_pos_le_powi)
  also have "\<dots> \<le> round_pos s"
    by (rule round_pos_ge_powi) (use floor_log2_bounds(1) [of s] assms us in auto)
  finally show ?thesis .
qed

lemma round64_zero [simp]: "round64 0 = 0"
  by (simp add: round64_def)

lemma round64_minus: "round64 (- r) = - round64 r"
  by (simp add: round64_def)

lemma round64_mono: "x \<le> y \<Longrightarrow> round64 x \<le> round64 y"
  using round_pos_mono [of x y] round_pos_mono [of "- y" "- x"]
    round_pos_nonneg [of y] round_pos_nonneg [of "- x"]
  by (auto simp: round64_def)

lemma round64_nonneg: "0 \<le> x \<Longrightarrow> 0 \<le> round64 x"
  using round64_mono [of 0 x] by simp

lemma round_pos_multiple:
  assumes "0 < r" "r = of_int m * 2 powi k" "ulp_exponent r \<le> k"
  shows "round_pos r = r"
proof -
  have "r = of_int (m * 2 ^ nat (k - ulp_exponent r)) * 2 powi ulp_exponent r"
    using powi_2_split [OF assms(3)] assms(2) by simp
  with round_pos_ge [of _ r] round_pos_le [of r] show ?thesis
    by (metis order_antisym order_refl)
qed

lemma ulp_exponent_le:
  assumes "0 < r" "r < 2 powi (k + 53)" "min_exponent \<le> k"
  shows "ulp_exponent r \<le> k"
  using floor_log2_less [OF assms(1,2)] assms(3) by (simp add: ulp_exponent_def)

lemma round64_exact_pos:
  assumes "0 < m" "m \<le> 2 ^ 53" "min_exponent \<le> k"
  shows "round64 (of_int m * 2 powi k) = of_int m * 2 powi k"
proof -
  let ?r = "of_int m * 2 powi k :: rat"
  have pos: "0 < ?r" using assms(1) by simp
  have split: "(2::rat) powi (k + 53) = of_int (2 ^ 53) * 2 powi k"
    using powi_2_split [of k "k + 53"] by simp
  have "round_pos ?r = ?r"
  proof (cases "m = 2 ^ 53")
    case True
    have "2 powi (k + 53) < (2::rat) powi ((k + 1) + 53)" by (simp only: powi_2_less_iff)
    then have "ulp_exponent ?r \<le> k + 1"
      using True assms(3) pos split by (intro ulp_exponent_le) simp_all
    moreover have "?r = of_int (2 ^ 52) * 2 powi (k + 1)"
      using True by (simp add: powi_2_add)
    ultimately show ?thesis using pos by (rule_tac round_pos_multiple) auto
  next
    case False
    with assms have "m < 2 ^ 53" by simp
    then have "?r < of_int (2 ^ 53) * 2 powi k"
      by (intro mult_strict_right_mono) (simp_all only: of_int_less_iff powi_2_pos)
    then have "ulp_exponent ?r \<le> k"
      using pos assms(3) split by (intro ulp_exponent_le) simp_all
    then show ?thesis using pos by (rule_tac round_pos_multiple) auto
  qed
  with pos show ?thesis by (simp add: round64_def)
qed

lemma round64_exact:
  assumes "\<bar>m\<bar> \<le> 2 ^ 53" "min_exponent \<le> k"
  shows "round64 (of_int m * 2 powi k) = of_int m * 2 powi k"
proof -
  consider "m = 0" | "0 < m" | "0 < - m" by linarith
  then show ?thesis
  proof cases
    case 2
    with assms show ?thesis by (intro round64_exact_pos) auto
  next
    case 3
    with assms have "round64 (of_int (- m) * 2 powi k) = of_int (- m) * 2 powi k"
      by (intro round64_exact_pos) auto
    then show ?thesis by (simp add: round64_minus)
  qed simp
qed

lemma round_pos_form:
  assumes "0 < r"
  obtains m where "0 \<le> m" "m \<le> 2 ^ 53" "round_pos r = of_int m * 2 powi ulp_exponent r"
proof
  let ?u = "ulp_exponent r" and ?m = "round_half_even (r / 2 powi ulp_exponent r)"
  show "round_pos r = of_int ?m * 2 powi ?u" by (simp add: round_pos_def)
  show "0 \<le> ?m" using assms by (intro round_half_even_ge) simp
  have "2 powi (floor_log2 r + 1) \<le> (2::rat) powi (?u + 53)"
    by (rule powi_2_mono) (simp add: ulp_exponent_def)
  with floor_log2_bounds(2) [OF assms] have "r \<le> of_int (2 ^ 53) * 2 powi ?u"
    using powi_2_split [of ?u "?u + 53"] by simp
  then show "?m \<le> 2 ^ 53"
    by (intro round_half_even_le) (simp add: pos_divide_le_eq)
qed

lemma round64_form:
  obtains m k where "\<bar>m\<bar> \<le> 2 ^ 53" "min_exponent \<le> k" "round64 r = of_int m * 2 powi k"
proof -
  have u: "min_exponent \<le> ulp_exponent x" for x by (simp add: ulp_exponent_def)
  consider "r = 0" | "0 < r" | "0 < - r" by linarith
  then show ?thesis
  proof cases
    case 1
    then show ?thesis using that [of 0 min_exponent] by simp
  next
    case 2
    then obtain m where "0 \<le> m" "m \<le> 2 ^ 53" "round_pos r = of_int m * 2 powi ulp_exponent r"
      by (rule round_pos_form)
    with 2 u that [of m "ulp_exponent r"] show ?thesis by (auto simp: round64_def)
  next
    case 3
    then obtain m where "0 \<le> m" "m \<le> 2 ^ 53"
      "round_pos (- r) = of_int m * 2 powi ulp_exponent (- r)"
      by (rule round_pos_form)
    with 3 u that [of "- m" "ulp_exponent (- r)"] show ?thesis by (auto simp: round64_def)
  qed
qed

lemma round64_idem [simp]: "round64 (round64 r) = round64 r"
  by (rule round64_form [of r]) (simp add: round64_exact)

lemma round64_double: "round64 x = x \<Longrightarrow> round64 (2 * x) = 2 * x"
proof -
  assume rep: "round64 x = x"
  obtain m k where mk: "\<bar>m\<bar> \<le> 2 ^ 53" "min_exponent \<le> k" "round64 x = of_int m * 2 powi k"
    by (rule round64_form)
  then have "2 * x = of_int m * 2 powi (k + 1)" using rep by (simp add: powi_2_add)
  with mk show ?thesis using round64_exact [of m "k + 1"] by simp
qed

lemma rep_multiple:
  assumes "round64 x = x"
  obtains m where "x = of_int m * 2 powi min_exponent"
proof -
  obtain m k where mk: "min_exponent \<le> k" "round64 x = of_int m * 2 powi k"
    by (rule round64_form)
  with powi_2_split [OF mk(1)] assms
  have "x = of_int (m * 2 ^ nat (k - min_exponent)) * 2 powi min_exponent" by simp
  then show ?thesis by (rule that)
qed

lemma round64_half_sub:
  assumes "round64 a = a" "round64 b = b" "b \<le> a"
  shows "round64 (round64 (a - b) / 2) \<le> a - b"
proof (cases "round64 (a - b) = a - b")
  case True
  with assms(3) show ?thesis
    using round64_mono [of "(a - b) / 2" "a - b"] by simp
next
  case False
  let ?y = "a - b" and ?u = "ulp_exponent (a - b)"
  have y: "0 < ?y" using False assms(3) by (cases "a = b") auto
  obtain m where m: "a = of_int m * 2 powi min_exponent" using assms(1) by (rule rep_multiple)
  obtain n where n: "b = of_int n * 2 powi min_exponent" using assms(2) by (rule rep_multiple)
  have mult: "?y = of_int (m - n) * 2 powi min_exponent" by (simp add: m n left_diff_distrib)
  have "?u \<noteq> min_exponent"
  proof
    assume "?u = min_exponent"
    with round_pos_multiple [OF y mult] have "round_pos ?y = ?y" by simp
    with y False show False by (simp add: round64_def)
  qed
  then have u: "?u = floor_log2 ?y - 52" "min_exponent \<le> ?u - 1"
    by (auto simp: ulp_exponent_def max_def split: if_splits)
  obtain M where M: "0 \<le> M" "M \<le> 2 ^ 53" "round_pos ?y = of_int M * 2 powi ?u"
    using y by (rule round_pos_form)
  have r: "round64 ?y = round_pos ?y" using y by (simp add: round64_def)
  have half: "round64 ?y / 2 = of_int M * 2 powi (?u - 1)"
    using powi_2_add [of "?u - 1" 1] by (simp add: r M(3))
  then have "round64 (round64 ?y / 2) = round64 ?y / 2"
    using M u(2) round64_exact [of M "?u - 1"] by simp
  also have "\<dots> \<le> 2 powi (floor_log2 ?y + 1) / 2"
    using round_pos_le_powi [of ?y "floor_log2 ?y + 1"] floor_log2_bounds(2) [OF y] u r by simp
  also have "\<dots> \<le> ?y"
    using floor_log2_bounds(1) [OF y] by (simp add: powi_2_add)
  finally show ?thesis .
qed

section \<open>The laws of rounding that accumulations rely on\<close>

locale rounding =
  fixes rnd :: "rat \<Rightarrow> rat"
  assumes mono: "x \<le> y \<Longrightarrow> rnd x \<le> rnd y"
    and zero: "rnd 0 = 0"
    and idem: "rnd (rnd x) = rnd x"
    and double: "rnd x = x \<Longrightarrow> rnd (2 * x) = 2 * x"
    and half_sub: "rnd a = a \<Longrightarrow> rnd b = b \<Longrightarrow> b \<le> a \<Longrightarrow> rnd (rnd (a - b) / 2) \<le> a - b"
begin

lemma nonneg: "0 \<le> x \<Longrightarrow> 0 \<le> rnd x"
  using mono [of 0 x] by (simp add: zero)

lemma le_rep: "x \<le> y \<Longrightarrow> rnd y = y \<Longrightarrow> rnd x \<le> y"
  using mono [of x y] by simp

lemma ge_rep: "y \<le> x \<Longrightarrow> rnd y = y \<Longrightarrow> y \<le> rnd x"
  using mono [of y x] by simp

text \<open>One step of a running mean over an ascending sequence never leaves the interval.\<close>

lemma mean_step:
  assumes "rnd m = m" "rnd x = x" "m \<le> x" "2 \<le> n"
  shows "0 \<le> rnd (rnd (x - m) / n)" and "rnd (rnd (x - m) / n) \<le> x - m"
proof -
  have d: "0 \<le> rnd (x - m)" using assms(3) by (intro nonneg) simp
  have "rnd (x - m) / n \<le> rnd (x - m) / 2"
    using d assms(4) by (intro divide_left_mono) auto
  then show "rnd (rnd (x - m) / n) \<le> x - m"
    using mono half_sub [OF assms(2,1,3)] by (blast intro: order_trans)
  show "0 \<le> rnd (rnd (x - m) / n)" using d assms(4) by (intro nonneg) simp
qed

text \<open>The midpoint of two representable values lies between them.\<close>

lemma midpoint:
  assumes "rnd a = a" "rnd b = b" "a \<le> b"
  shows "a \<le> rnd (rnd (a + b) / 2)" and "rnd (rnd (a + b) / 2) \<le> b"
proof -
  have "2 * a \<le> rnd (a + b)" using assms by (intro ge_rep double) auto
  then show "a \<le> rnd (rnd (a + b) / 2)" using assms by (intro ge_rep) auto
  have "rnd (a + b) \<le> 2 * b" using assms by (intro le_rep double) auto
  then show "rnd (rnd (a + b) / 2) \<le> b" using assms by (intro le_rep) auto
qed

end

interpretation r64: rounding round64
  by unfold_locales (auto intro: round64_mono round64_double round64_half_sub)

section \<open>Evaluation of the operations on finite values\<close>

lemma f64_limit_pos [simp]: "0 < f64_limit"
  by (simp add: f64_limit_def)

lemma to_f64_wf [simp]: "f64_wf (to_f64 neg r)"
  by (auto simp: to_f64_def f64_wf_def Let_def)

lemma to_f64_finite:
  assumes "\<bar>round64 r\<bar> < f64_limit"
  shows "is_finite (to_f64 neg r)" and "f64_val (to_f64 neg r) = round64 r"
  using assms by (auto simp: to_f64_def is_finite_def f64_val_def Let_def)

lemma f64_wf_rep: "f64_wf x \<Longrightarrow> round64 (f64_val x) = f64_val x"
  by (auto simp: f64_wf_def f64_val_def split: f64.splits)

lemma f64_wf_limit: "f64_wf x \<Longrightarrow> \<bar>f64_val x\<bar> < f64_limit"
  by (auto simp: f64_wf_def f64_val_def split: f64.splits)

lemma f64_neg_finite [simp]: "is_finite (f64_neg x) = is_finite x" "f64_val (f64_neg x) = - f64_val x"
  by (cases x; simp add: f64_neg_def is_finite_def f64_val_def)+

lemma f64_add_finite [f64_simps]:
  assumes "is_finite x" "is_finite y" "\<bar>round64 (f64_val x + f64_val y)\<bar> < f64_limit"
  shows "is_finite (f64_add x y)" and "f64_val (f64_add x y) = round64 (f64_val x + f64_val y)"
  using assms to_f64_finite [OF assms(3), of False]
  by (cases x; cases y; simp add: is_finite_def f64_val_def)+

lemma f64_sub_finite [f64_simps]:
  assumes "is_finite x" "is_finite y" "\<bar>round64 (f64_val x - f64_val y)\<bar> < f64_limit"
  shows "is_finite (f64_sub x y)" and "f64_val (f64_sub x y) = round64 (f64_val x - f64_val y)"
  using f64_add_finite [of x "f64_neg y"] assms by (simp_all add: f64_sub_def)

lemma f64_mul_finite [f64_simps]:
  assumes "is_finite x" "is_finite y" "\<bar>round64 (f64_val x * f64_val y)\<bar> < f64_limit"
  shows "is_finite (f64_mul x y)" and "f64_val (f64_mul x y) = round64 (f64_val x * f64_val y)"
  using assms to_f64_finite [OF assms(3)] by (auto simp: f64_mul_def is_finite_def)

lemma f64_div_finite [f64_simps]:
  assumes "is_finite x" "is_finite y" "f64_val y \<noteq> 0" "\<bar>round64 (f64_val x / f64_val y)\<bar> < f64_limit"
  shows "is_finite (f64_div x y)" and "f64_val (f64_div x y) = round64 (f64_val x / f64_val y)"
  using assms to_f64_finite [OF assms(4)] by (auto simp: f64_div_def is_finite_def)

lemma f64_add_wf: "f64_wf x \<Longrightarrow> f64_wf y \<Longrightarrow> f64_wf (f64_add x y)"
  by (cases x; cases y) (simp_all, simp_all add: f64_wf_def)

lemma f64_mul_wf: "f64_wf (f64_mul x y)"
  by (simp add: f64_mul_def) (simp add: f64_wf_def)

lemma f64_div_wf: "f64_wf (f64_div x y)"
  by (simp add: f64_div_def) (simp add: f64_wf_def)

lemma f64_le_finite [f64_simps]:
  "is_finite x \<Longrightarrow> is_finite y \<Longrightarrow> f64_le x y \<longleftrightarrow> f64_val x \<le> f64_val y"
  by (cases x; cases y; simp add: is_finite_def)

lemma f64_lt_finite [f64_simps]:
  "is_finite x \<Longrightarrow> is_finite y \<Longrightarrow> f64_lt x y \<longleftrightarrow> f64_val x < f64_val y"
  by (auto simp: f64_lt_def f64_le_finite)

lemma total_le_total: "total_le x y \<or> total_le y x"
  by (cases x; cases y; simp add: total_le_def total_key_def linorder_less_linear linear) (auto simp: not_less)

lemma total_le_trans: "total_le x y \<Longrightarrow> total_le y z \<Longrightarrow> total_le x z"
  by (auto simp: total_le_def split: prod.splits)

lemma total_le_finite: "is_finite x \<Longrightarrow> is_finite y \<Longrightarrow> total_le x y \<Longrightarrow> f64_val x \<le> f64_val y"
  by (cases x; cases y; auto simp: is_finite_def total_le_def total_key_def f64_val_def)

lemma isqrt_step:
  fixes n t :: int
  assumes "t\<^sup>2 \<le> n div 4" "n div 4 < (t + 1)\<^sup>2"
  shows "(2 * t)\<^sup>2 \<le> n" and "n < (2 * t + 2)\<^sup>2"
proof -
  have "(2 * t)\<^sup>2 = 4 * t\<^sup>2" "(2 * t + 2)\<^sup>2 = 4 * (t + 1)\<^sup>2"
    by (simp_all add: power2_eq_square algebra_simps)
  with assms show "(2 * t)\<^sup>2 \<le> n" and "n < (2 * t + 2)\<^sup>2" by linarith+
qed

lemma isqrt_bounds: "0 \<le> n \<Longrightarrow> (isqrt n)\<^sup>2 \<le> n \<and> n < (isqrt n + 1)\<^sup>2 \<and> 0 \<le> isqrt n"
proof (induction n rule: isqrt.induct)
  case (1 n)
  show ?case
  proof (cases "n = 0")
    case True
    then show ?thesis by (simp add: isqrt.simps)
  next
    case False
    with 1 isqrt_step [of "isqrt (n div 4)" n]
    have "(2 * isqrt (n div 4))\<^sup>2 \<le> n" "n < (2 * isqrt (n div 4) + 2)\<^sup>2" "0 \<le> isqrt (n div 4)"
      by simp_all
    with False "1.prems" show ?thesis by (simp add: isqrt.simps [of n] Let_def add.commute)
  qed
qed

lemma isqrt_nonneg: "0 \<le> isqrt n"
proof (cases "0 \<le> n")
  case True
  then show ?thesis using isqrt_bounds by blast
next
  case False
  then show ?thesis by (simp add: isqrt.simps [of n])
qed

lemma round_sqrt_nonneg: "0 \<le> round_sqrt r"
proof -
  have "0 \<le> sqrt_half_even x" for x
    using isqrt_nonneg [of "floor x"] by (simp add: sqrt_half_even_def Let_def)
  then show ?thesis by (simp add: round_sqrt_def Let_def)
qed

lemma f64_sqrt_finite:
  assumes "is_finite x" "0 \<le> f64_val x"
  shows "is_finite (f64_sqrt x)" and "0 \<le> f64_val (f64_sqrt x)"
  using assms by (auto simp: f64_sqrt_def is_finite_def f64_val_def round_sqrt_nonneg split: f64.splits)

lemma f64_of_nat_exact:
  assumes "n \<le> 2 ^ 53"
  shows "f64_of_nat n = Fin (of_nat n)"
proof -
  have n: "int n \<le> 2 ^ 53" using assms by (metis of_nat_le_iff of_nat_numeral of_nat_power)
  have r: "round64 (of_nat n) = of_nat n"
    using round64_exact [of "int n" 0] n by (simp add: min_exponent_def)
  have "(of_nat n :: rat) < f64_limit"
  proof -
    have "int n < 2 ^ 1024" using n by (rule order_le_less_trans) simp
    then show ?thesis unfolding f64_limit_def by (metis of_int_less_iff of_int_of_nat_eq)
  qed
  with r show ?thesis by (simp add: f64_of_nat_def to_f64_def Let_def)
qed

section \<open>Ranges of values\<close>

text \<open>A value of the format that is finite and lies in an interval.\<close>

definition in_range :: "rat \<Rightarrow> rat \<Rightarrow> f64 \<Rightarrow> bool" where
  "in_range lo hi x \<longleftrightarrow> f64_wf x \<and> is_finite x \<and> lo \<le> f64_val x \<and> f64_val x \<le> hi"

lemma in_range_mono: "in_range lo hi x \<Longrightarrow> lo' \<le> lo \<Longrightarrow> hi \<le> hi' \<Longrightarrow> in_range lo' hi' x"
  by (auto simp: in_range_def)

lemma in_range_zero: "0 \<le> hi \<Longrightarrow> in_range 0 hi (Fin 0)"
  by (simp add: in_range_def f64_wf_def is_finite_def f64_val_def)

lemma in_range_D:
  assumes "in_range lo hi x"
  shows "round64 (f64_val x) = f64_val x" "\<bar>f64_val x\<bar> < f64_limit" "lo \<le> f64_val x" "f64_val x \<le> hi"
  using assms f64_wf_rep f64_wf_limit unfolding in_range_def by blast+

lemma round64_in:
  assumes "lo \<le> r" "r \<le> hi" "round64 lo = lo" "round64 hi = hi"
  shows "lo \<le> round64 r" "round64 r \<le> hi"
  using assms r64.ge_rep r64.le_rep by auto

lemma f64_neg_wf: "f64_wf x \<Longrightarrow> f64_wf (f64_neg x)"
  by (cases x) (simp_all add: f64_neg_def f64_wf_def round64_minus)

lemma f64_add_in:
  assumes "in_range a b x" "in_range c d y" "lo \<le> f64_val x + f64_val y" "f64_val x + f64_val y \<le> hi"
    "round64 lo = lo" "round64 hi = hi" "\<bar>lo\<bar> < f64_limit" "\<bar>hi\<bar> < f64_limit"
  shows "in_range lo hi (f64_add x y)" "f64_val (f64_add x y) = round64 (f64_val x + f64_val y)"
proof -
  note r = round64_in [OF assms(3-6)]
  then have l: "\<bar>round64 (f64_val x + f64_val y)\<bar> < f64_limit" using assms(7,8) by linarith
  show "f64_val (f64_add x y) = round64 (f64_val x + f64_val y)"
    using f64_add_finite [OF _ _ l] assms(1,2) by (simp add: in_range_def)
  then show "in_range lo hi (f64_add x y)"
    using f64_add_finite [OF _ _ l] assms(1,2) r by (simp add: in_range_def f64_add_wf)
qed

lemma f64_sub_in:
  assumes "in_range a b x" "in_range c d y" "lo \<le> f64_val x - f64_val y" "f64_val x - f64_val y \<le> hi"
    "round64 lo = lo" "round64 hi = hi" "\<bar>lo\<bar> < f64_limit" "\<bar>hi\<bar> < f64_limit"
  shows "in_range lo hi (f64_sub x y)" "f64_val (f64_sub x y) = round64 (f64_val x - f64_val y)"
  using f64_add_in [of a b x "- d" "- c" "f64_neg y" lo hi] assms
  by (simp_all add: f64_sub_def in_range_def f64_neg_wf)

lemma f64_mul_in:
  assumes "in_range a b x" "in_range c d y" "lo \<le> f64_val x * f64_val y" "f64_val x * f64_val y \<le> hi"
    "round64 lo = lo" "round64 hi = hi" "\<bar>lo\<bar> < f64_limit" "\<bar>hi\<bar> < f64_limit"
  shows "in_range lo hi (f64_mul x y)" "f64_val (f64_mul x y) = round64 (f64_val x * f64_val y)"
proof -
  note r = round64_in [OF assms(3-6)]
  then have l: "\<bar>round64 (f64_val x * f64_val y)\<bar> < f64_limit" using assms(7,8) by linarith
  show "f64_val (f64_mul x y) = round64 (f64_val x * f64_val y)"
    using f64_mul_finite [OF _ _ l] assms(1,2) by (simp add: in_range_def)
  then show "in_range lo hi (f64_mul x y)"
    using f64_mul_finite [OF _ _ l] assms(1,2) r by (simp add: in_range_def f64_mul_wf)
qed

lemma f64_div_in:
  assumes "in_range a b x" "in_range c d y" "lo \<le> f64_val x / f64_val y" "f64_val x / f64_val y \<le> hi"
    "f64_val y \<noteq> 0"
    "round64 lo = lo" "round64 hi = hi" "\<bar>lo\<bar> < f64_limit" "\<bar>hi\<bar> < f64_limit"
  shows "in_range lo hi (f64_div x y)" "f64_val (f64_div x y) = round64 (f64_val x / f64_val y)"
proof -
  note r = round64_in [OF assms(3,4,6,7)]
  then have l: "\<bar>round64 (f64_val x / f64_val y)\<bar> < f64_limit" using assms(8,9) by linarith
  show "f64_val (f64_div x y) = round64 (f64_val x / f64_val y)"
    using f64_div_finite [OF _ _ assms(5) l] assms(1,2) by (simp add: in_range_def)
  then show "in_range lo hi (f64_div x y)"
    using f64_div_finite [OF _ _ assms(5) l] assms(1,2) r by (simp add: in_range_def f64_div_wf)
qed

lemma f64_of_nat_in:
  assumes "n \<le> 2 ^ 64" "k \<le> n" "k \<le> 2 ^ 53"
  shows "in_range (of_nat k) (of_int (2 ^ 64)) (f64_of_nat n)" "f64_val (f64_of_nat n) = round64 (of_nat n)"
proof -
  have k: "round64 (of_nat k) = of_nat k"
    using round64_exact [of "int k" 0] assms(3) by (simp add: min_exponent_def)
  have h: "round64 (of_int (2 ^ 64)) = of_int (2 ^ 64)" "of_int (2 ^ 64) < f64_limit"
    using round64_exact [of 1 64] by (simp_all add: min_exponent_def f64_limit_def)
  have "int n \<le> 2 ^ 64" using assms(1) by (metis of_nat_le_iff of_nat_numeral of_nat_power)
  then have "(of_nat n :: rat) \<le> of_int (2 ^ 64)" by (metis of_int_le_iff of_int_of_nat_eq)
  with assms(2) k h have r: "of_nat k \<le> round64 (of_nat n)" "round64 (of_nat n) \<le> of_int (2 ^ 64)"
    using round64_in [of "of_nat k" "of_nat n" "of_int (2 ^ 64)"] by auto
  moreover have "(0::rat) \<le> of_nat k" by simp
  ultimately have "\<bar>round64 (of_nat n)\<bar> < f64_limit" using h(2) by linarith
  note f = to_f64_finite [OF this, of False]
  show "f64_val (f64_of_nat n) = round64 (of_nat n)" by (simp add: f64_of_nat_def f)
  then show "in_range (of_nat k) (of_int (2 ^ 64)) (f64_of_nat n)"
    using f r by (simp add: f64_of_nat_def in_range_def)
qed

end
