(* ===== verification/Contract_Core.thy ===== *)
theory Contract_Core
  imports Rust_Text Float64
begin

text \<open>
  The shared part of the versioned contract (\<open>crates/common/src/contract/mod.rs\<close> and
  \<open>value.rs\<close>): validation issues, the building blocks of the semantic validators, and the value
  types every contract document is made of. A Rust validator appends to \<open>issues: &mut Vec\<close>; its
  model returns the issues it appends, in order, so that running two validators one after the
  other is list append.
\<close>

section \<open>Issues and paths\<close>

record validation_issue =
  issue_path :: string
  issue_message :: string

definition issue :: "string \<Rightarrow> string \<Rightarrow> validation_issue" where
  "issue path message = \<lparr>issue_path = path, issue_message = message\<rparr>"

definition child_path :: "string \<Rightarrow> string \<Rightarrow> string" where
  "child_path parent child = parent @ ''.'' @ child"

definition indexed_path :: "string \<Rightarrow> nat \<Rightarrow> string" where
  "indexed_path parent index = parent @ ''['' @ show_nat index @ '']''"

definition quoted :: "string \<Rightarrow> string" where
  "quoted s = CHR 0x60 # s @ [CHR 0x60]"

text \<open>\<open>Validate::validate\<close>: success when the collected issues of the whole document are empty.\<close>

definition validate_with :: "(string \<Rightarrow> validation_issue list) \<Rightarrow> validation_issue list + unit" where
  "validate_with collect_issues =
     (let issues = collect_issues ''$'' in if issues = [] then Ok () else Err issues)"

section \<open>Building blocks\<close>

definition require_non_empty :: "string \<Rightarrow> string \<Rightarrow> validation_issue list" where
  "require_non_empty value path = (if is_blank value then [issue path ''must not be empty''] else [])"

definition require_finite_non_negative :: "f64 \<Rightarrow> string \<Rightarrow> validation_issue list" where
  "require_finite_non_negative value path =
     (if \<not> is_finite value \<or> f64_lt value (Fin 0)
      then [issue path ''must be a finite, non-negative number''] else [])"

fun require_unique_from :: "string set \<Rightarrow> string list \<Rightarrow> string \<Rightarrow> validation_issue list" where
  "require_unique_from seen [] path = []"
| "require_unique_from seen (v # vs) path =
     (if v \<in> seen then [issue path (''contains duplicate identifier '' @ quoted v)] else [])
     @ require_unique_from (insert v seen) vs path"

definition require_unique :: "string list \<Rightarrow> string \<Rightarrow> validation_issue list" where
  "require_unique values path = require_unique_from {} values path"

definition secret_needles :: "string list" where
  "secret_needles = [''password'', ''secret'', ''token'', ''private_key'', ''access_key'']"

definition reject_secret_like_keys :: "string list \<Rightarrow> string \<Rightarrow> validation_issue list" where
  "reject_secret_like_keys keys path =
     concat (map (\<lambda>key.
       if list_ex (str_contains (to_ascii_lowercase key)) secret_needles
       then [issue path (''secret-like setting key '' @ quoted key @ '' is forbidden'')] else []) keys)"

text \<open>A validator applied to every element of a slice under its indexed path.\<close>

definition validate_each ::
  "(string \<Rightarrow> 'a \<Rightarrow> validation_issue list) \<Rightarrow> string \<Rightarrow> 'a list \<Rightarrow> validation_issue list" where
  "validate_each f path xs = concat (map (\<lambda>(i, x). f (indexed_path path i) x) (enumerate 0 xs))"

section \<open>Value types\<close>

type_synonym extensions = "(string \<times> json) list"
type_synonym string_map = "(string \<times> string) list"
type_synonym component_id = string
type_synonym capability_id = string
type_synonym evidence_id = string
type_synonym assertion_id = string
type_synonym step_id = string

definition id_issues :: "string \<Rightarrow> string \<Rightarrow> validation_issue list" where
  "id_issues ident path = require_non_empty ident path"

datatype digest_algorithm = Sha256

record digest =
  digest_alg :: digest_algorithm
  digest_value :: string

definition digest_issues :: "digest \<Rightarrow> string \<Rightarrow> validation_issue list" where
  "digest_issues d path =
     (let expected_length = (case digest_alg d of Sha256 \<Rightarrow> (64 :: nat))
      in if length (digest_value d) \<noteq> expected_length \<or> \<not> list_all is_ascii_hexdigit (digest_value d)
         then [issue (child_path path ''value'')
                 (''must contain exactly '' @ show_nat expected_length
                  @ '' hexadecimal characters for '' @ (case digest_alg d of Sha256 \<Rightarrow> ''Sha256''))]
         else [])"

record artifact_reference =
  artifact_location :: string
  artifact_media_type :: string
  artifact_digest :: digest
  artifact_bytes :: "u64 option"
  artifact_description :: "string option"
  artifact_extensions :: extensions

definition artifact_issues :: "artifact_reference \<Rightarrow> string \<Rightarrow> validation_issue list" where
  "artifact_issues a path =
     require_non_empty (artifact_location a) (child_path path ''location'')
     @ require_non_empty (artifact_media_type a) (child_path path ''media_type'')
     @ digest_issues (artifact_digest a) (child_path path ''digest'')"

definition validate_artifacts :: "artifact_reference list \<Rightarrow> string \<Rightarrow> validation_issue list" where
  "validate_artifacts artifacts path = validate_each (\<lambda>p a. artifact_issues a p) path artifacts"

record source_revision =
  source_repository :: string
  source_revision_id :: string
  source_tag :: "string option"
  source_extensions :: extensions

definition source_revision_issues :: "source_revision \<Rightarrow> string \<Rightarrow> validation_issue list" where
  "source_revision_issues s path =
     require_non_empty (source_repository s) (child_path path ''repository'')
     @ require_non_empty (source_revision_id s) (child_path path ''revision'')"

record build_configuration =
  build_toolchain :: string
  build_target :: string
  build_profile :: string
  build_options :: "string list"
  build_compiler_flags :: "string list"
  build_locked :: bool
  build_environment :: string_map
  build_extensions :: extensions

definition build_configuration_issues :: "build_configuration \<Rightarrow> string \<Rightarrow> validation_issue list" where
  "build_configuration_issues b path =
     require_non_empty (build_toolchain b) (child_path path ''toolchain'')
     @ require_non_empty (build_target b) (child_path path ''target'')
     @ require_non_empty (build_profile b) (child_path path ''profile'')"

datatype image_digest_scope = Index | PlatformManifest | LocalImage

datatype runtime_artifact =
    ContainerImage string image_digest_scope digest "digest option" "artifact_reference list"
  | SourceBuild "artifact_reference option"
  | Package string string string "digest option"

fun runtime_artifact_issues :: "runtime_artifact \<Rightarrow> string \<Rightarrow> validation_issue list" where
  "runtime_artifact_issues (ContainerImage reference digest_scope dig platform_digest embedded) path =
     require_non_empty reference (child_path path ''reference'')
     @ digest_issues dig (child_path path ''digest'')
     @ (case platform_digest of None \<Rightarrow> []
        | Some d \<Rightarrow> digest_issues d (child_path path ''platform_digest'')
            @ (if digest_scope \<noteq> Index
               then [issue (child_path path ''platform_digest'')
                       (''is only meaningful when digest_scope is '' @ quoted ''index'')] else []))
     @ validate_artifacts embedded (child_path path ''embedded_artifacts'')"
| "runtime_artifact_issues (SourceBuild executable) path =
     (case executable of None \<Rightarrow> [] | Some a \<Rightarrow> artifact_issues a (child_path path ''executable''))"
| "runtime_artifact_issues (Package ecosystem package version dig) path =
     require_non_empty ecosystem (child_path path ''ecosystem'')
     @ require_non_empty package (child_path path ''package'')
     @ require_non_empty version (child_path path ''version'')
     @ (case dig of None \<Rightarrow> [] | Some d \<Rightarrow> digest_issues d (child_path path ''digest''))"

datatype component_kind =
    Catalog | Client | Connector | Engine | ObjectStore | StateStore | BenchmarkHarness
  | ContainerRuntime | Validator | Converter | OtherComponent

record component =
  component_ident :: component_id
  component_kind_of :: component_kind
  component_name :: string
  component_version :: string
  component_source :: "source_revision option"
  component_build :: "build_configuration option"
  component_artifact :: runtime_artifact
  component_extensions :: extensions

definition is_source_build :: "runtime_artifact \<Rightarrow> bool" where
  "is_source_build a = (case a of SourceBuild _ \<Rightarrow> True | _ \<Rightarrow> False)"

definition component_issues :: "component \<Rightarrow> string \<Rightarrow> validation_issue list" where
  "component_issues c path =
     id_issues (component_ident c) (child_path path ''id'')
     @ require_non_empty (component_name c) (child_path path ''name'')
     @ require_non_empty (component_version c) (child_path path ''version'')
     @ (case component_source c of None \<Rightarrow> []
        | Some s \<Rightarrow> source_revision_issues s (child_path path ''source''))
     @ (case component_build c of None \<Rightarrow> []
        | Some b \<Rightarrow> build_configuration_issues b (child_path path ''build'')
            @ (if component_source c = None
               then [issue (child_path path ''build'') ''requires an immutable source revision'']
               else []))
     @ (if is_source_build (component_artifact c)
        then (if component_source c = None
              then [issue (child_path path ''source'') ''is required for a source-build artifact'']
              else [])
             @ (if component_build c = None
                then [issue (child_path path ''build'') ''is required for a source-build artifact'']
                else [])
        else [])
     @ runtime_artifact_issues (component_artifact c) (child_path path ''artifact'')"

section \<open>What the building blocks accept\<close>

lemma validate_with_Ok [simp]: "validate_with f = Inr u \<longleftrightarrow> f ''$'' = []"
  by (simp add: validate_with_def Let_def)

lemma require_non_empty_Nil [simp, validate_simps]: "require_non_empty v p = [] \<longleftrightarrow> \<not> is_blank v"
  by (simp add: require_non_empty_def)

lemma id_issues_Nil [simp, validate_simps]: "id_issues v p = [] \<longleftrightarrow> \<not> is_blank v"
  by (simp add: id_issues_def)

lemma require_finite_non_negative_Nil [validate_simps]:
  "require_finite_non_negative x p = [] \<longleftrightarrow> is_finite x \<and> 0 \<le> f64_val x"
proof -
  have "is_finite (Fin 0)" "f64_val (Fin 0) = 0" by (simp_all add: is_finite_def f64_val_def)
  then show ?thesis by (auto simp: require_finite_non_negative_def f64_lt_finite)
qed

lemma require_unique_from_Nil:
  "require_unique_from seen vs p = [] \<longleftrightarrow> distinct vs \<and> set vs \<inter> seen = {}"
  by (induction vs arbitrary: seen) auto

lemma require_unique_Nil [validate_simps]: "require_unique vs p = [] \<longleftrightarrow> distinct vs"
  by (simp add: require_unique_def require_unique_from_Nil)

lemma reject_secret_like_keys_Nil [validate_simps]:
  "reject_secret_like_keys keys p = [] \<longleftrightarrow>
     (\<forall>key \<in> set keys. \<forall>needle \<in> set secret_needles. \<not> sublist needle (to_ascii_lowercase key))"
  by (auto simp: reject_secret_like_keys_def list_ex_iff str_contains_iff)

lemma validate_each_Nil [validate_simps]:
  "validate_each f p xs = [] \<longleftrightarrow> (\<forall>i < length xs. f (indexed_path p i) (xs ! i) = [])"
  by (simp add: validate_each_def all_set_conv_all_nth nth_enumerate_eq)

lemma digest_issues_Nil [validate_simps]:
  "digest_issues d p = [] \<longleftrightarrow>
     length (digest_value d) = 64 \<and> list_all is_ascii_hexdigit (digest_value d)"
  by (cases "digest_alg d") (simp add: digest_issues_def)

lemma artifact_issues_Nil [validate_simps]:
  "artifact_issues a p = [] \<longleftrightarrow> \<not> is_blank (artifact_location a) \<and> \<not> is_blank (artifact_media_type a)
     \<and> digest_issues (artifact_digest a) p = []"
  by (simp add: artifact_issues_def digest_issues_Nil)

text \<open>The building blocks look at values only: the verdict does not depend on the path.\<close>

lemma digest_issues_path: "digest_issues d p = [] \<longleftrightarrow> digest_issues d q = []"
  by (simp add: digest_issues_Nil)

lemma validate_artifacts_Nil [validate_simps]:
  "validate_artifacts as p = [] \<longleftrightarrow> (\<forall>a \<in> set as. artifact_issues a p = [])"
  by (auto simp: validate_artifacts_def validate_each_Nil artifact_issues_Nil digest_issues_Nil
      all_set_conv_all_nth)

end
