(* ===== verification/Contract_Measure.thy ===== *)
theory Contract_Measure
  imports Contract_Core
begin

text \<open>
  Measurements of a result record (\<open>crates/common/src/contract/result.rs\<close>): distribution
  summaries, metrics and measured phases, with their semantic validators. \<open>parse_f64\<close> is
  \<open>str::parse::<f64>\<close>: the grammar of the Rust standard library, and the rational it denotes
  brought into the format.
\<close>

section \<open>Parsing a floating-point number\<close>

definition span_digits :: "string \<Rightarrow> string \<times> string" where
  "span_digits s = (takeWhile is_ascii_digit s, dropWhile is_ascii_digit s)"

definition parse_sign :: "string \<Rightarrow> bool \<times> string" where
  "parse_sign s = (case s of [] \<Rightarrow> (False, [])
     | c # t \<Rightarrow> if c = CHR ''-'' then (True, t) else if c = CHR ''+'' then (False, t) else (False, s))"

definition parse_exponent :: "string \<Rightarrow> int option" where
  "parse_exponent s = (case s of [] \<Rightarrow> Some 0
     | c # t \<Rightarrow>
         if c = CHR ''e'' \<or> c = CHR ''E'' then
           (let (neg, u) = parse_sign t; (ds, rest) = span_digits u
            in if ds = [] \<or> rest \<noteq> [] then None
               else Some (if neg then - int (read_digits ds) else int (read_digits ds)))
         else None)"

definition parse_decimal :: "string \<Rightarrow> rat option" where
  "parse_decimal s =
     (let (ip, r) = span_digits s;
          (fp, r') = (case r of c # t \<Rightarrow> if c = CHR ''.'' then span_digits t else ([], r) | [] \<Rightarrow> ([], []))
      in if ip = [] \<and> fp = [] then None
         else map_option (\<lambda>e. of_nat (read_digits (ip @ fp)) * 10 powi (e - int (length fp)))
                (parse_exponent r'))"

definition parse_f64 :: "string \<Rightarrow> f64 option" where
  "parse_f64 s =
     (let (neg, t) = parse_sign s; l = to_ascii_lowercase t
      in if l = ''inf'' \<or> l = ''infinity'' then Some (Infinity neg)
         else if l = ''nan'' then Some NaN
         else map_option (\<lambda>r. to_f64 neg (if neg then - r else r)) (parse_decimal t))"

section \<open>Distributions\<close>

record distribution =
  dist_samples :: u64
  dist_minimum :: f64
  dist_maximum :: f64
  dist_mean :: "f64 option"
  dist_standard_deviation :: "f64 option"
  dist_quantiles :: "(string \<times> f64) list"

definition parse_percentile :: "string \<Rightarrow> f64 option" where
  "parse_percentile name =
     (case strip_prefix name ''p'' of None \<Rightarrow> None
      | Some rest \<Rightarrow>
          (case parse_f64 rest of None \<Rightarrow> None
           | Some value \<Rightarrow>
               if is_finite value \<and> f64_le (Fin 0) value \<and> f64_le value (f64_of_nat 100)
               then Some value else None))"

text \<open>One pass over the quantile map: the issues of each entry and the entries that parsed.\<close>

fun scan_quantiles ::
  "distribution \<Rightarrow> string \<Rightarrow> (string \<times> f64) list \<Rightarrow> validation_issue list \<times> (f64 \<times> f64 \<times> string) list"
where
  "scan_quantiles d path [] = ([], [])"
| "scan_quantiles d path ((name, value) # rest) =
     (let (issues, parsed) = scan_quantiles d path rest
      in case parse_percentile name of
           None \<Rightarrow>
             (issue (child_path path ''quantiles'')
                (''invalid quantile '' @ quoted name @ ''; expected p0 through p100'') # issues, parsed)
         | Some percentile \<Rightarrow>
             (require_finite_non_negative value (path @ ''.quantiles.'' @ name)
              @ (if f64_lt value (dist_minimum d) \<or> f64_lt (dist_maximum d) value
                 then [issue (path @ ''.quantiles.'' @ name) ''must be between minimum and maximum'']
                 else [])
              @ issues,
              (percentile, value, name) # parsed))"

fun check_windows :: "string \<Rightarrow> (f64 \<times> f64 \<times> string) list \<Rightarrow> validation_issue list" where
  "check_windows path ((p, v, n) # (q, w, m) # rest) =
     (if f64_lt w v
      then [issue (child_path path ''quantiles'') (n @ '' must not exceed '' @ m)] else [])
     @ check_windows path ((q, w, m) # rest)"
| "check_windows path _ = []"

definition validate_distribution :: "distribution \<Rightarrow> string \<Rightarrow> validation_issue list" where
  "validate_distribution d path =
     (if dist_samples d = 0
      then [issue (child_path path ''samples'') ''must be greater than zero''] else [])
     @ require_finite_non_negative (dist_minimum d) (child_path path ''minimum'')
     @ require_finite_non_negative (dist_maximum d) (child_path path ''maximum'')
     @ (if f64_lt (dist_maximum d) (dist_minimum d)
        then [issue path ''minimum must not exceed maximum''] else [])
     @ (case dist_mean d of None \<Rightarrow> []
        | Some mean \<Rightarrow>
            require_finite_non_negative mean (child_path path ''mean'')
            @ (if f64_lt mean (dist_minimum d) \<or> f64_lt (dist_maximum d) mean
               then [issue (child_path path ''mean'') ''must be between minimum and maximum''] else []))
     @ (case dist_standard_deviation d of None \<Rightarrow> []
        | Some deviation \<Rightarrow>
            require_finite_non_negative deviation (child_path path ''standard_deviation''))
     @ (let (issues, parsed) = scan_quantiles d path (dist_quantiles d)
        in issues @ check_windows path (sort_by (\<lambda>a b. total_le (fst a) (fst b)) parsed))"

section \<open>Metrics and phases\<close>

datatype metric_value =
    Scalar f64
  | Counter u64
  | Ratio u64 u64
  | DistributionValue distribution

record metric =
  metric_name :: string
  metric_unit :: string
  metric_value_of :: metric_value

record measured_phase =
  mphase_name :: string
  mphase_elapsed_ms :: f64
  mphase_operations :: "u64 option"
  mphase_latency_ms :: "distribution option"
  mphase_metrics :: "metric list"

definition validate_metric :: "string \<Rightarrow> metric \<Rightarrow> validation_issue list" where
  "validate_metric metric_path m =
     require_non_empty (metric_name m) (child_path metric_path ''name'')
     @ require_non_empty (metric_unit m) (child_path metric_path ''unit'')
     @ (case metric_value_of m of
          Scalar value \<Rightarrow> require_finite_non_negative value (child_path metric_path ''value.value'')
        | Counter _ \<Rightarrow> []
        | Ratio _ denominator \<Rightarrow>
            if denominator = 0
            then [issue (child_path metric_path ''value.denominator'') ''must be greater than zero'']
            else []
        | DistributionValue d \<Rightarrow>
            validate_distribution d (child_path metric_path ''value.distribution''))"

definition validate_phase :: "measured_phase \<Rightarrow> string \<Rightarrow> validation_issue list" where
  "validate_phase phase path =
     require_non_empty (mphase_name phase) (child_path path ''name'')
     @ require_finite_non_negative (mphase_elapsed_ms phase) (child_path path ''elapsed_ms'')
     @ (case mphase_latency_ms phase of None \<Rightarrow> []
        | Some d \<Rightarrow> validate_distribution d (child_path path ''latency_ms''))
     @ require_unique (map metric_name (mphase_metrics phase)) (child_path path ''metrics'')
     @ validate_each validate_metric (child_path path ''metrics'') (mphase_metrics phase)"

section \<open>What an accepted distribution satisfies\<close>

lemma check_windows_Nil:
  assumes "\<And>p v n. (p, v, n) \<in> set xs \<Longrightarrow> is_finite v"
  shows "check_windows path xs = [] \<longleftrightarrow> sorted (map (\<lambda>(p, v, n). f64_val v) xs)"
  using assms
proof (induction path xs rule: check_windows.induct)
  case (1 path p v n q w m rest)
  then have fin: "is_finite v" "is_finite w" by auto
  have IH: "check_windows path ((q, w, m) # rest) = [] \<longleftrightarrow>
    sorted (map (\<lambda>(p, v, n). f64_val v) ((q, w, m) # rest))"
    by (rule "1.IH") (use "1.prems" in auto)
  show ?case
    using fin IH by (auto simp: f64_lt_finite)
qed auto

lemma scan_quantiles_issues_Nil:
  "fst (scan_quantiles d path qs) = [] \<longleftrightarrow>
     (\<forall>q \<in> set qs.
        parse_percentile (fst q) \<noteq> None \<and> is_finite (snd q) \<and> 0 \<le> f64_val (snd q)
        \<and> \<not> f64_lt (snd q) (dist_minimum d) \<and> \<not> f64_lt (dist_maximum d) (snd q))"
proof (induction qs)
  case Nil
  then show ?case by simp
next
  case (Cons q qs)
  obtain n v where q: "q = (n, v)" by force
  obtain es ps where "scan_quantiles d path qs = (es, ps)" by force
  with Cons.IH show ?case
    by (cases "parse_percentile n") (auto simp: q require_finite_non_negative_Nil)
qed

lemma scan_quantiles_parsed:
  "snd (scan_quantiles d path qs) =
     map (\<lambda>q. (the (parse_percentile (fst q)), snd q, fst q))
       (filter (\<lambda>q. parse_percentile (fst q) \<noteq> None) qs)"
proof (induction qs)
  case Nil
  then show ?case by simp
next
  case (Cons q qs)
  obtain n v where q: "q = (n, v)" by force
  obtain es ps where "scan_quantiles d path qs = (es, ps)" by force
  with Cons.IH show ?case
    by (cases "parse_percentile n") (auto simp: q)
qed

text \<open>
  An accepted distribution is a non-empty sample whose mean and quantiles are finite, lie between
  the extremes, and grow with the percentile.
\<close>

lemma validate_distribution_Nil:
  "validate_distribution d path = [] \<longleftrightarrow>
     dist_samples d \<noteq> 0
     \<and> is_finite (dist_minimum d) \<and> 0 \<le> f64_val (dist_minimum d)
     \<and> is_finite (dist_maximum d) \<and> 0 \<le> f64_val (dist_maximum d)
     \<and> f64_val (dist_minimum d) \<le> f64_val (dist_maximum d)
     \<and> (\<forall>m. dist_mean d = Some m \<longrightarrow> is_finite m
          \<and> f64_val (dist_minimum d) \<le> f64_val m \<and> f64_val m \<le> f64_val (dist_maximum d))
     \<and> (\<forall>s. dist_standard_deviation d = Some s \<longrightarrow> is_finite s \<and> 0 \<le> f64_val s)
     \<and> (\<forall>q \<in> set (dist_quantiles d). parse_percentile (fst q) \<noteq> None \<and> is_finite (snd q)
          \<and> f64_val (dist_minimum d) \<le> f64_val (snd q) \<and> f64_val (snd q) \<le> f64_val (dist_maximum d))
     \<and> sorted (map (\<lambda>(p, v, n). f64_val v)
          (sort_by (\<lambda>a b. total_le (fst a) (fst b)) (snd (scan_quantiles d path (dist_quantiles d)))))"
  (is "?L \<longleftrightarrow> ?R")
proof -
  let ?sorted = "sort_by (\<lambda>a b. total_le (fst a) (fst b)) (snd (scan_quantiles d path (dist_quantiles d)))"
  have L: "?L \<longleftrightarrow> dist_samples d \<noteq> 0
     \<and> is_finite (dist_minimum d) \<and> 0 \<le> f64_val (dist_minimum d)
     \<and> is_finite (dist_maximum d) \<and> 0 \<le> f64_val (dist_maximum d)
     \<and> \<not> f64_lt (dist_maximum d) (dist_minimum d)
     \<and> (\<forall>m. dist_mean d = Some m \<longrightarrow> is_finite m \<and> 0 \<le> f64_val m
          \<and> \<not> f64_lt m (dist_minimum d) \<and> \<not> f64_lt (dist_maximum d) m)
     \<and> (\<forall>s. dist_standard_deviation d = Some s \<longrightarrow> is_finite s \<and> 0 \<le> f64_val s)
     \<and> fst (scan_quantiles d path (dist_quantiles d)) = [] \<and> check_windows path ?sorted = []"
    by (auto simp: validate_distribution_def require_finite_non_negative_Nil split: option.splits prod.splits)
  have win: "check_windows path ?sorted = [] \<longleftrightarrow> sorted (map (\<lambda>(p, v, n). f64_val v) ?sorted)"
    if "\<forall>q \<in> set (dist_quantiles d). is_finite (snd q)"
    by (rule check_windows_Nil) (use that in \<open>auto simp: scan_quantiles_parsed\<close>)
  show ?thesis
  proof
    assume ?L
    then show ?R
      unfolding L using win by (auto simp: scan_quantiles_issues_Nil f64_lt_finite)
  next
    assume R: ?R
    then have "check_windows path ?sorted = []" using win by blast
    with R show ?L
      unfolding L by (auto simp: scan_quantiles_issues_Nil f64_lt_finite not_less intro: order_trans)
  qed
qed

end
