(* ===== verification/Commit_Stats.thy ===== *)
theory Commit_Stats
  imports Contract_Measure
begin

text \<open>
  Summary statistics of the contention benchmark (\<open>crates/commit/src/stats.rs\<close>): nearest-rank
  quantiles, running population moments, medians with range, and rates. Durations are the
  \<open>std::time::Duration\<close> of seconds and nanoseconds. A sample list stands for a Rust slice, whose
  length is below \<open>2\<^sup>6\<^sup>4\<close>.
\<close>

section \<open>Durations\<close>

record duration =
  dur_secs :: u64
  dur_nanos :: u32

definition duration_wf :: "duration \<Rightarrow> bool" where
  "duration_wf d \<longleftrightarrow> unat (dur_nanos d) < 1000000000"

definition duration_is_zero :: "duration \<Rightarrow> bool" where
  "duration_is_zero d \<longleftrightarrow> dur_secs d = 0 \<and> dur_nanos d = 0"

definition as_secs_f64 :: "duration \<Rightarrow> f64" where
  "as_secs_f64 d =
     f64_add (f64_of_nat (unat (dur_secs d)))
       (f64_div (f64_of_nat (unat (dur_nanos d))) (f64_of_nat 1000000000))"

definition as_millis_f64 :: "duration \<Rightarrow> f64" where
  "as_millis_f64 d = f64_mul (as_secs_f64 d) (f64_of_nat 1000)"

section \<open>Definitions\<close>

datatype statistics_error =
    EmptySamples
  | NonFiniteSample nat
  | NegativeSample nat
  | ZeroElapsed

record median_range =
  mr_samples :: u64
  mr_minimum :: f64
  mr_median :: f64
  mr_maximum :: f64

definition quantile_probabilities :: "(string \<times> f64) list" where
  "quantile_probabilities =
     [(''p50'', to_f64 False (1 / 2)), (''p95'', to_f64 False (95 / 100)),
      (''p99'', to_f64 False (99 / 100))]"

fun check_samples :: "nat \<Rightarrow> f64 list \<Rightarrow> statistics_error + f64 list" where
  "check_samples index [] = Ok []"
| "check_samples index (sample # rest) =
     (if \<not> is_finite sample then Err (NonFiniteSample index)
      else if f64_lt sample (Fin 0) then Err (NegativeSample index)
      else and_then (check_samples (Suc index) rest) (\<lambda>xs. Ok (sample # xs)))"

definition sorted_nonnegative :: "f64 list \<Rightarrow> statistics_error + f64 list" where
  "sorted_nonnegative samples =
     (if samples = [] then Err EmptySamples
      else and_then (check_samples 0 samples) (\<lambda>xs. Ok (sort_by total_le xs)))"

definition nearest_rank_index :: "nat \<Rightarrow> f64 \<Rightarrow> nat" where
  "nearest_rank_index len probability =
     (let rank = f64_to_usize (f64_ceil (f64_mul probability (f64_of_nat len)))
      in min (rank - 1) (len - 1))"

definition nearest_rank :: "f64 list \<Rightarrow> f64 \<Rightarrow> f64" where
  "nearest_rank sorted_samples probability =
     sorted_samples ! nearest_rank_index (length sorted_samples) probability"

fun moments_loop :: "nat \<Rightarrow> f64 \<Rightarrow> f64 \<Rightarrow> f64 list \<Rightarrow> nat \<times> f64 \<times> f64" where
  "moments_loop samples_seen mean squared_deviation [] = (samples_seen, mean, squared_deviation)"
| "moments_loop samples_seen mean squared_deviation (sample # rest) =
     (let samples_seen' = samples_seen + 1;
          delta = f64_sub sample mean;
          mean' = f64_add mean (f64_div delta (f64_of_nat samples_seen'));
          squared_deviation' = f64_add squared_deviation (f64_mul delta (f64_sub sample mean'))
      in moments_loop samples_seen' mean' squared_deviation' rest)"

definition population_moments :: "f64 list \<Rightarrow> f64 \<times> f64" where
  "population_moments samples =
     (let (samples_seen, mean, squared_deviation) = moments_loop 0 (Fin 0) (Fin 0) samples;
          variance = f64_max (f64_div squared_deviation (f64_of_nat samples_seen)) (Fin 0)
      in (mean, f64_sqrt variance))"

definition nonnegative_distribution :: "f64 list \<Rightarrow> statistics_error + distribution" where
  "nonnegative_distribution samples =
     and_then (sorted_nonnegative samples) (\<lambda>xs.
       let (mean, standard_deviation) = population_moments xs;
           quantiles = map (\<lambda>(name, p). (name, nearest_rank xs p)) quantile_probabilities
       in Ok \<lparr>dist_samples = of_nat (length xs),
              dist_minimum = xs ! 0,
              dist_maximum = xs ! (length xs - 1),
              dist_mean = Some mean,
              dist_standard_deviation = Some standard_deviation,
              dist_quantiles = quantiles\<rparr>)"

definition latency_distribution :: "duration list \<Rightarrow> statistics_error + distribution" where
  "latency_distribution samples = nonnegative_distribution (map as_millis_f64 samples)"

definition median_with_range :: "f64 list \<Rightarrow> statistics_error + median_range" where
  "median_with_range samples =
     and_then (sorted_nonnegative samples) (\<lambda>xs.
       let middle = length xs div 2;
           median = (if length xs mod 2 = 0
                     then f64_div (f64_add (xs ! (middle - 1)) (xs ! middle)) (f64_of_nat 2)
                     else xs ! middle)
       in Ok \<lparr>mr_samples = of_nat (length xs), mr_minimum = xs ! 0, mr_median = median,
              mr_maximum = xs ! (length xs - 1)\<rparr>)"

definition per_second :: "u64 \<Rightarrow> duration \<Rightarrow> statistics_error + f64" where
  "per_second operations elapsed =
     (if duration_is_zero elapsed then Err ZeroElapsed
      else Ok (f64_div (f64_of_nat (unat operations)) (as_secs_f64 elapsed)))"

section \<open>Admission and sorting of samples\<close>

text \<open>The samples that \<open>sorted_nonnegative\<close> admits: finite and not below zero.\<close>

definition admissible :: "f64 \<Rightarrow> bool" where
  "admissible x \<longleftrightarrow> is_finite x \<and> 0 \<le> f64_val x"

lemma zero_finite [simp]: "is_finite (Fin r)" "f64_val (Fin r) = r"
  by (simp_all add: is_finite_def f64_val_def)

lemma check_samples_Ok: "check_samples i xs = Inr ys \<longleftrightarrow> ys = xs \<and> list_all admissible xs"
  by (induction xs arbitrary: i ys)
    (auto simp: and_then_eq_Inr admissible_def f64_lt_finite)

lemma check_samples_Err:
  "check_samples i xs = Inl e \<longleftrightarrow>
     (\<exists>k < length xs. list_all admissible (take k xs) \<and>
        e = (if is_finite (xs ! k) then NegativeSample (i + k) else NonFiniteSample (i + k)) \<and>
        \<not> admissible (xs ! k))"
proof (induction xs arbitrary: i)
  case Nil
  then show ?case by simp
next
  case (Cons x xs)
  show ?case
  proof (cases "admissible x")
    case True
    then have "check_samples i (x # xs) = Inl e \<longleftrightarrow> check_samples (Suc i) xs = Inl e"
      by (auto simp: admissible_def f64_lt_finite and_then_eq_Inl)
    also have "\<dots> \<longleftrightarrow> (\<exists>k < length xs. list_all admissible (take k xs) \<and>
        e = (if is_finite (xs ! k) then NegativeSample (Suc i + k) else NonFiniteSample (Suc i + k)) \<and>
        \<not> admissible (xs ! k))"
      by (rule Cons.IH)
    also have "\<dots> \<longleftrightarrow> (\<exists>k < length (x # xs). list_all admissible (take k (x # xs)) \<and>
        e = (if is_finite ((x # xs) ! k) then NegativeSample (i + k) else NonFiniteSample (i + k)) \<and>
        \<not> admissible ((x # xs) ! k))"
      using True by (subst Ex_less_Suc_shift) auto
    finally show ?thesis .
  next
    case False
    then show ?thesis
      by (auto simp: admissible_def f64_lt_finite less_Suc_eq_0_disj)
  qed
qed

lemma sorted_nonnegative_Ok:
  "sorted_nonnegative xs = Inr ys \<longleftrightarrow> xs \<noteq> [] \<and> list_all admissible xs \<and> ys = sort_by total_le xs"
  by (auto simp: sorted_nonnegative_def and_then_eq_Inr check_samples_Ok)

lemma sort_total_le_sorted:
  assumes "list_all admissible xs"
  shows "sorted (map f64_val (sort_by total_le xs))"
proof -
  have "sorted_wrt total_le (sort_by total_le xs)"
    by (rule sorted_sort_by) (use total_le_total total_le_trans in blast)+
  then have "sorted_wrt (\<lambda>x y. f64_val x \<le> f64_val y) (sort_by total_le xs)"
    by (rule sorted_wrt_mono_rel [rotated])
      (use assms in \<open>auto simp: list_all_iff admissible_def intro: total_le_finite\<close>)
  then show ?thesis by (simp add: sorted_wrt_map)
qed

lemma list_all_sort_by [simp]: "list_all P (sort_by le xs) = list_all P xs"
  by (simp add: list_all_iff)

section \<open>Running moments\<close>

text \<open>Bounds of a latency in milliseconds and of the sum of squared deviations.\<close>

definition sample_bound :: rat where
  "sample_bound = of_int (2 ^ 75)"

definition square_bound :: rat where
  "square_bound = of_int (2 ^ 204)"

lemma round64_power: "round64 (of_int (2 ^ n)) = of_int (2 ^ n)"
  using round64_exact [of 1 "int n"] by (simp add: min_exponent_def)

lemma power_limit: "n < 1024 \<Longrightarrow> (of_int (2 ^ n) :: rat) < f64_limit"
  unfolding f64_limit_def of_int_less_iff by (rule power_strict_increasing) simp_all

lemma in_range_of_nat: "n \<le> 2 ^ 53 \<Longrightarrow> in_range (of_nat n) (of_nat n) (f64_of_nat n)"
  using to_f64_wf [of False "of_nat n"] by (simp add: in_range_def f64_of_nat_exact flip: f64_of_nat_def)

lemma bound_square: "sample_bound * sample_bound = of_int (2 ^ 150)"
  by (simp add: sample_bound_def)

lemma bound_facts:
  "round64 sample_bound = sample_bound" "round64 (sample_bound * sample_bound) = sample_bound * sample_bound"
  "round64 square_bound = square_bound"
  "round64 (square_bound + sample_bound * sample_bound) = square_bound"
proof -
  show "round64 sample_bound = sample_bound" "round64 square_bound = square_bound"
    "round64 (sample_bound * sample_bound) = sample_bound * sample_bound"
    unfolding bound_square by (simp_all only: sample_bound_def square_bound_def round64_power)
  show "round64 (square_bound + sample_bound * sample_bound) = square_bound" by code_simp
qed

lemma bound_limits:
  "square_bound < f64_limit" "sample_bound \<le> square_bound" "sample_bound * sample_bound \<le> square_bound"
  "0 < sample_bound" "0 < square_bound"
  unfolding bound_square unfolding sample_bound_def square_bound_def f64_limit_def by simp_all

lemma bound_abs: "\<bar>sample_bound\<bar> < f64_limit" "\<bar>sample_bound * sample_bound\<bar> < f64_limit" "\<bar>square_bound\<bar> < f64_limit" "\<bar>0 :: rat\<bar> < f64_limit"
  using bound_limits by simp_all

lemma squares_step:
  assumes "in_range 0 sample_bound delta" "in_range 0 sample_bound rest" "in_range 0 square_bound sq"
  shows "in_range 0 square_bound (f64_add sq (f64_mul delta rest))"
proof -
  have "f64_val delta * f64_val rest \<le> sample_bound * sample_bound"
    using in_range_D [OF assms(1)] in_range_D [OF assms(2)] by (intro mult_mono) auto
  then have p: "in_range 0 (sample_bound * sample_bound) (f64_mul delta rest)"
    by (intro f64_mul_in [OF assms(1,2)])
      (use in_range_D [OF assms(1)] in_range_D [OF assms(2)] bound_facts bound_abs in auto)
  let ?r = "f64_val sq + f64_val (f64_mul delta rest)"
  have r: "0 \<le> ?r" "?r \<le> square_bound + sample_bound * sample_bound"
    using in_range_D [OF p] in_range_D [OF assms(3)] by linarith+
  have v: "0 \<le> round64 ?r" "round64 ?r \<le> square_bound"
    using round64_mono [OF r(1)] round64_mono [OF r(2)] bound_facts by simp_all
  then have l: "\<bar>round64 ?r\<bar> < f64_limit" using bound_limits by linarith
  show ?thesis
    using f64_add_finite [OF _ _ l] assms(3) p v by (simp add: in_range_def f64_add_wf)
qed

lemma moments_step:
  assumes m: "in_range lo (f64_val x) mean" and x: "in_range 0 sample_bound x"
    and lo: "0 \<le> lo" "round64 lo = lo"
    and q: "in_range 0 square_bound sq" and n: "2 \<le> n" "n < 2 ^ 64"
  defines "delta \<equiv> f64_sub x mean"
  defines "mean' \<equiv> f64_add mean (f64_div delta (f64_of_nat n))"
  shows "in_range lo (f64_val x) mean'"
    and "in_range 0 square_bound (f64_add sq (f64_mul delta (f64_sub x mean')))"
proof -
  let ?m = "f64_val mean" and ?x = "f64_val x"
  note X = in_range_D [OF x] and M = in_range_D [OF m]
  have llo: "\<bar>lo\<bar> < f64_limit" using lo M X by linarith
  have sub: "in_range 0 sample_bound (f64_sub x y)" "f64_val (f64_sub x y) = round64 (?x - f64_val y)"
    if y: "in_range lo ?x y" for y
    by (rule f64_sub_in [OF x y, where lo = 0 and hi = sample_bound];
        use X in_range_D [OF y] lo bound_facts bound_abs in auto)+
  note d = sub [OF m, folded delta_def] and D = in_range_D [OF sub(1) [OF m, folded delta_def]]
  have c: "in_range 2 (of_int (2 ^ 64)) (f64_of_nat n)"
    using f64_of_nat_in [of n 2] n by simp
  note c2 = in_range_D(3) [OF c]
  have "f64_val delta / f64_val (f64_of_nat n) \<le> f64_val delta / 1"
    by (rule divide_left_mono) (use c2 D in auto)
  then have e: "in_range 0 sample_bound (f64_div delta (f64_of_nat n))"
    "f64_val (f64_div delta (f64_of_nat n)) = round64 (f64_val delta / f64_val (f64_of_nat n))"
    by (intro f64_div_in [OF d(1) c, where lo = 0 and hi = sample_bound]; use c2 D bound_facts bound_abs in auto)+
  note ms = r64.mean_step [OF M(1) X(1) M(4) c2, folded d(2), folded e(2)]
  show m': "in_range lo ?x mean'"
    unfolding mean'_def
    by (rule f64_add_in [OF m e(1)]; use ms lo M X llo in linarith)
  show "in_range 0 square_bound (f64_add sq (f64_mul delta (f64_sub x mean')))"
    by (rule squares_step [OF d(1) sub(1) [OF m'] q])
qed

lemma moments_first:
  assumes x: "in_range 0 sample_bound x"
  defines "delta \<equiv> f64_sub x (Fin 0)"
  defines "mean \<equiv> f64_add (Fin 0) (f64_div delta (f64_of_nat 1))"
  shows "in_range (f64_val x) (f64_val x) mean"
    and "in_range 0 square_bound (f64_add (Fin 0) (f64_mul delta (f64_sub x mean)))"
proof -
  let ?v = "f64_val x"
  note X = in_range_D [OF x]
  have z: "in_range 0 0 (Fin 0)" by (simp add: in_range_zero)
  have one: "in_range 1 1 (f64_of_nat 1)"
    using round64_exact [of 1 0] by (simp add: f64_of_nat_exact in_range_def f64_wf_def min_exponent_def f64_limit_def)
  have d: "in_range ?v ?v delta"
    unfolding delta_def by (rule f64_sub_in [OF x z]) (use X in auto)
  have e: "in_range ?v ?v (f64_div delta (f64_of_nat 1))"
    by (rule f64_div_in [OF d one]; use in_range_D [OF d] in_range_D [OF one] X in simp)
  show m: "in_range ?v ?v mean"
    unfolding mean_def by (rule f64_add_in [OF z e]; use X in_range_D [OF e] in simp)
  have "in_range 0 sample_bound (f64_sub x mean)"
    by (rule f64_sub_in [OF x m]; use X in_range_D [OF m] bound_facts bound_abs bound_limits in simp)
  moreover have "in_range 0 sample_bound delta" using d X by (auto intro: in_range_mono)
  ultimately show "in_range 0 square_bound (f64_add (Fin 0) (f64_mul delta (f64_sub x mean)))"
    using squares_step in_range_zero bound_limits(5) by (meson less_imp_le)
qed

lemma moments_loop_range:
  assumes "in_range lo hi mean" "in_range 0 square_bound sq" "0 \<le> lo" "round64 lo = lo"
    and "list_all (in_range 0 sample_bound) xs" "sorted (hi # map f64_val xs)"
    and "1 \<le> n" "n + length xs < 2 ^ 64"
  shows "\<exists>mean' sq'. moments_loop n mean sq xs = (n + length xs, mean', sq')
    \<and> in_range lo (last (hi # map f64_val xs)) mean' \<and> in_range 0 square_bound sq'"
  using assms
proof (induction xs arbitrary: n mean sq hi)
  case Nil
  then show ?case by simp
next
  case (Cons x xs)
  have m: "in_range lo (f64_val x) mean" using Cons.prems by (auto intro: in_range_mono)
  have x: "in_range 0 sample_bound x" using Cons.prems by simp
  have n: "2 \<le> n + 1" "n + 1 < 2 ^ 64" using Cons.prems by simp_all
  note step = moments_step [OF m x Cons.prems(3,4,2) n]
  from Cons.IH [where n = "n + 1", OF step Cons.prems(3,4)] Cons.prems show ?case
    by (simp add: Let_def split: if_splits)
qed

lemma population_moments_range:
  assumes "list_all (in_range 0 sample_bound) xs" "sorted (map f64_val xs)" "xs \<noteq> []" "length xs < 2 ^ 64"
  obtains mean dev where "population_moments xs = (mean, dev)"
    "in_range (f64_val (hd xs)) (f64_val (last xs)) mean" "is_finite dev" "0 \<le> f64_val dev"
proof -
  obtain x ys where xs: "xs = x # ys" using assms(3) by (cases xs) auto
  have x: "in_range 0 sample_bound x" using assms(1) xs by simp
  note X = in_range_D [OF x]
  have "\<exists>mean sq. moments_loop 0 (Fin 0) (Fin 0) xs = (length xs, mean, sq)
    \<and> in_range (f64_val x) (last (f64_val x # map f64_val ys)) mean \<and> in_range 0 square_bound sq"
    using moments_loop_range [OF moments_first [OF x] X(3,1), of ys 1] assms
    by (simp add: xs Let_def)
  then obtain mean sq where l: "moments_loop 0 (Fin 0) (Fin 0) xs = (length xs, mean, sq)"
    and m: "in_range (f64_val x) (last (f64_val x # map f64_val ys)) mean"
    and q: "in_range 0 square_bound sq"
    by blast
  have c: "in_range 1 (of_int (2 ^ 64)) (f64_of_nat (length xs))"
    using f64_of_nat_in [of "length xs" 1] assms by (cases xs) auto
  let ?q = "f64_div sq (f64_of_nat (length xs))"
  have "f64_val sq / f64_val (f64_of_nat (length xs)) \<le> f64_val sq / 1"
    by (rule divide_left_mono) (use in_range_D [OF c] in_range_D [OF q] in auto)
  then have v: "in_range 0 square_bound ?q"
    by (intro f64_div_in [OF q c]; use in_range_D [OF c] in_range_D [OF q] bound_facts bound_abs in auto)
  then have "is_finite (f64_max ?q (Fin 0)) \<and> 0 \<le> f64_val (f64_max ?q (Fin 0))"
    by (auto simp: f64_max_def in_range_def)
  note f64_sqrt_finite [OF conjunct1 [OF this] conjunct2 [OF this]]
  moreover have "last (f64_val x # map f64_val ys) = f64_val (last xs)"
    by (metis last_map list.simps(9) assms(3) xs)
  ultimately show ?thesis
    using l m that by (simp add: population_moments_def xs)
qed

section \<open>Nearest ranks\<close>

lemma nearest_rank_index_less: "0 < n \<Longrightarrow> nearest_rank_index n p < n"
  by (auto simp: nearest_rank_index_def Let_def)

lemma f64_ceil_usize_mono:
  assumes "is_finite x" "is_finite y" "f64_val x \<le> f64_val y"
  shows "f64_to_usize (f64_ceil x) \<le> f64_to_usize (f64_ceil y)"
proof -
  have v: "f64_to_usize (f64_ceil z) = min (nat (ceiling (f64_val z))) (2 ^ 64 - 1)" if "is_finite z" for z
  proof (cases z)
    case (Fin r)
    then show ?thesis
      by (auto simp: f64_ceil_def f64_to_usize_def f64_val_def ceiling_le_zero)
  qed (use that in \<open>auto simp: f64_ceil_def f64_to_usize_def f64_val_def is_finite_def\<close>)
  have "nat (ceiling (f64_val x)) \<le> nat (ceiling (f64_val y))"
    using assms(3) by (intro nat_mono ceiling_mono)
  then show ?thesis using assms by (simp add: v min_def)
qed

lemma nearest_rank_index_mono:
  assumes "in_range 0 1 p" "in_range 0 1 q" "f64_val p \<le> f64_val q" "n < 2 ^ 64"
  shows "nearest_rank_index n p \<le> nearest_rank_index n q"
proof -
  let ?h = "of_int (2 ^ 64) :: rat"
  have n: "in_range 0 ?h (f64_of_nat n)" using f64_of_nat_in [of n 0] assms(4) by simp
  have h: "round64 ?h = ?h" "\<bar>?h\<bar> < f64_limit" using round64_power [of 64] power_limit [of 64] by simp_all
  have m: "is_finite (f64_mul z (f64_of_nat n))"
    "f64_val (f64_mul z (f64_of_nat n)) = round64 (f64_val z * f64_val (f64_of_nat n))"
    if z: "in_range 0 1 z" for z
  proof -
    have "f64_val z * f64_val (f64_of_nat n) \<le> 1 * ?h"
      using in_range_D [OF z] in_range_D [OF n] by (intro mult_mono) auto
    then have "in_range 0 ?h (f64_mul z (f64_of_nat n))
      \<and> f64_val (f64_mul z (f64_of_nat n)) = round64 (f64_val z * f64_val (f64_of_nat n))"
      using in_range_D [OF z] in_range_D [OF n] h
      by (intro conjI f64_mul_in [OF z n, where lo = 0 and hi = ?h]) auto
    then show "is_finite (f64_mul z (f64_of_nat n))"
      "f64_val (f64_mul z (f64_of_nat n)) = round64 (f64_val z * f64_val (f64_of_nat n))"
      by (auto simp: in_range_def)
  qed
  have "f64_to_usize (f64_ceil (f64_mul p (f64_of_nat n))) \<le> f64_to_usize (f64_ceil (f64_mul q (f64_of_nat n)))"
    using assms m in_range_D [OF n]
    by (intro f64_ceil_usize_mono) (auto intro!: round64_mono mult_right_mono)
  then show ?thesis by (auto simp: nearest_rank_index_def Let_def)
qed

lemma to_f64_unit:
  assumes "0 \<le> r" "r \<le> 1"
  shows "in_range 0 1 (to_f64 False r)" "f64_val (to_f64 False r) = round64 r"
proof -
  have r: "0 \<le> round64 r" "round64 r \<le> 1" using round64_mono [OF assms(1)] round64_mono [OF assms(2)] round64_power [of 0] by simp_all
  then have "\<bar>round64 r\<bar> < f64_limit" by (simp add: f64_limit_def)
  note f = to_f64_finite [OF this, of False]
  then show "f64_val (to_f64 False r) = round64 r" "in_range 0 1 (to_f64 False r)"
    using r by (simp_all add: in_range_def)
qed

lemma quantile_probabilities_range:
  "in_range 0 1 (to_f64 False (1 / 2))" "in_range 0 1 (to_f64 False (95 / 100))"
  "in_range 0 1 (to_f64 False (99 / 100))"
  "f64_val (to_f64 False (1 / 2)) \<le> f64_val (to_f64 False (95 / 100))"
  "f64_val (to_f64 False (95 / 100)) \<le> f64_val (to_f64 False (99 / 100))"
  using to_f64_unit [of "1 / 2"] to_f64_unit [of "95 / 100"] to_f64_unit [of "99 / 100"]
    round64_mono [of "1 / 2" "95 / 100"] round64_mono [of "95 / 100" "99 / 100"] by simp_all

lemma parse_f64_digits:
  assumes "list_all is_ascii_digit s" "s \<noteq> []"
  shows "parse_f64 s = Some (f64_of_nat (read_digits s))"
proof -
  obtain c t where s: "s = c # t" using assms(2) by (cases s) auto
  have "is_ascii_digit c" using assms(1) s by simp
  then have c: "c \<noteq> CHR ''-''" "c \<noteq> CHR ''+''" "\<not> is_ascii_uppercase c" "c \<noteq> CHR ''i''" "c \<noteq> CHR ''n''"
    by (auto simp: is_ascii_digit_byte byte_def is_ascii_uppercase_def less_eq_char_def)
  have d: "takeWhile is_ascii_digit s = s" "dropWhile is_ascii_digit s = []"
    using assms(1) by (simp_all add: takeWhile_eq_all_conv dropWhile_eq_Nil_conv list_all_iff)
  have l: "to_ascii_lowercase s = c # to_ascii_lowercase t"
    using c by (simp add: s to_ascii_lowercase_def to_ascii_lowercase_char_def)
  have "parse_decimal s = Some (of_nat (read_digits s))"
    using assms(2) by (simp add: parse_decimal_def span_digits_def d parse_exponent_def)
  then show ?thesis
    using c l by (simp add: parse_f64_def parse_sign_def s f64_of_nat_def)
qed

lemma parse_percentile_nat:
  assumes "n \<le> 100"
  shows "parse_percentile (CHR ''p'' # show_nat n) = Some (Fin (of_nat n))"
proof -
  have "parse_f64 (show_nat n) = Some (Fin (of_nat n))"
    using parse_f64_digits [OF show_nat_digits, of n] assms by (simp add: f64_of_nat_exact)
  then show ?thesis
    using assms by (simp add: parse_percentile_def strip_prefix_def f64_le_finite f64_of_nat_exact)
qed

lemma parse_percentiles:
  "parse_percentile ''p50'' = Some (Fin 50)" "parse_percentile ''p95'' = Some (Fin 95)"
  "parse_percentile ''p99'' = Some (Fin 99)"
proof -
  have "show_nat 50 = ''50''" "show_nat 95 = ''95''" "show_nat 99 = ''99''" by code_simp+
  then show "parse_percentile ''p50'' = Some (Fin 50)" "parse_percentile ''p95'' = Some (Fin 95)"
    "parse_percentile ''p99'' = Some (Fin 99)"
    using parse_percentile_nat [of 50] parse_percentile_nat [of 95] parse_percentile_nat [of 99]
    by simp_all
qed

lemma half_index:
  assumes "0 < n" "n \<le> 2 ^ 53"
  shows "nearest_rank_index n (to_f64 False (1 / 2)) = (n - 1) div 2"
proof -
  have "round64 (1 / 2) = 1 / 2" using round64_exact [of 1 "- 1"] by (simp add: min_exponent_def power_int_minus)
  then have half: "to_f64 False (1 / 2) = Fin (1 / 2)" by (simp add: to_f64_def f64_limit_def)
  have n: "f64_of_nat n = Fin (of_nat n)" using assms(2) by (rule f64_of_nat_exact)
  have "int n \<le> 2 ^ 53" using assms(2) by (metis of_nat_le_iff of_nat_numeral of_nat_power)
  moreover have "of_int (int n) * 2 powi (- 1) = (of_nat n / 2 :: rat)" by (simp add: power_int_minus field_simps)
  ultimately have r: "round64 (of_nat n / 2) = of_nat n / 2"
    using round64_exact [of "int n" "- 1"] by (simp only: abs_of_nat min_exponent_def)
  have "\<bar>of_nat n / 2 :: rat\<bar> < f64_limit"
    using f64_wf_limit [OF to_f64_wf, of False "of_nat n"] by (simp add: n flip: f64_of_nat_def)
  then have to: "to_f64 False (of_nat n / 2) = Fin (of_nat n / 2)"
    using assms(1) r by (simp add: to_f64_def Let_def)
  have "f64_mul (to_f64 False (1 / 2)) (f64_of_nat n) = Fin (of_nat n / 2)"
    by (simp add: half n f64_mul_def sign_bit_def to)
  moreover have "ceiling (of_nat n / 2 :: rat) = int ((n + 1) div 2)"
    by (rule ceiling_unique) (auto simp: field_simps)
  ultimately have "f64_to_usize (f64_ceil (f64_mul (to_f64 False (1 / 2)) (f64_of_nat n))) = (n + 1) div 2"
    using assms by (simp add: f64_ceil_def f64_to_usize_def)
  then show ?thesis using assms(1) by (simp add: nearest_rank_index_def)
qed

section \<open>Correctness of the summaries\<close>

text \<open>Samples the statistics can carry without overflow.\<close>

definition bounded_samples :: "f64 list \<Rightarrow> bool" where
  "bounded_samples xs \<longleftrightarrow> xs \<noteq> [] \<and> list_all (in_range 0 sample_bound) xs \<and> length xs < 2 ^ 64"

lemma bounded_samples_sorted:
  assumes "bounded_samples xs"
  shows "sorted_nonnegative xs = Inr (sort_by total_le xs)" "sorted (map f64_val (sort_by total_le xs))"
proof -
  have "list_all admissible xs"
    using assms by (auto simp: bounded_samples_def list_all_iff in_range_def admissible_def)
  then show "sorted_nonnegative xs = Inr (sort_by total_le xs)" "sorted (map f64_val (sort_by total_le xs))"
    using assms by (auto simp: sorted_nonnegative_Ok sort_total_le_sorted bounded_samples_def)
qed

lemma sorted_nth_val:
  assumes "sorted (map f64_val ys)" "i \<le> j" "j < length ys"
  shows "f64_val (ys ! i) \<le> f64_val (ys ! j)"
  using sorted_nth_mono [OF assms(1,2)] assms by simp

lemma quantiles_ascending:
  assumes "sorted (map f64_val ys)" "ys \<noteq> []" "length ys < 2 ^ 64"
  shows "f64_val (nearest_rank ys (to_f64 False (1 / 2))) \<le> f64_val (nearest_rank ys (to_f64 False (95 / 100)))"
    and "f64_val (nearest_rank ys (to_f64 False (95 / 100))) \<le> f64_val (nearest_rank ys (to_f64 False (99 / 100)))"
  unfolding nearest_rank_def
  by (rule sorted_nth_val [OF assms(1)]; use assms quantile_probabilities_range in
      \<open>auto intro: nearest_rank_index_mono nearest_rank_index_less\<close>)+

lemma nonnegative_distribution_bounded:
  assumes "bounded_samples xs"
  defines "ys \<equiv> sort_by total_le xs"
  obtains d where "nonnegative_distribution xs = Inr d" "validate_distribution d path = []"
    "dist_minimum d = hd ys" "dist_maximum d = last ys" "unat (dist_samples d) = length xs"
    "dist_quantiles d = map (\<lambda>(name, p). (name, nearest_rank ys p)) quantile_probabilities"
proof -
  have y: "ys \<noteq> []" "length ys < 2 ^ 64" "list_all (in_range 0 sample_bound) ys"
    using assms(1) by (simp_all add: ys_def bounded_samples_def flip: length_greater_0_conv)
  note sorted = bounded_samples_sorted(2) [OF assms(1), folded ys_def]
  obtain mean dev where pm: "population_moments ys = (mean, dev)"
    "in_range (f64_val (hd ys)) (f64_val (last ys)) mean" "is_finite dev" "0 \<le> f64_val dev"
    using population_moments_range [OF y(3) sorted y(1,2)] by blast
  let ?d = "\<lparr>dist_samples = of_nat (length ys), dist_minimum = hd ys, dist_maximum = last ys,
    dist_mean = Some mean, dist_standard_deviation = Some dev,
    dist_quantiles = map (\<lambda>(name, p). (name, nearest_rank ys p)) quantile_probabilities\<rparr>"
  have d: "nonnegative_distribution xs = Inr ?d"
    using bounded_samples_sorted(1) [OF assms(1)] y(1)
    by (simp add: nonnegative_distribution_def ys_def [symmetric] pm(1) hd_conv_nth last_conv_nth)
  have rng: "is_finite (ys ! i)" "0 \<le> f64_val (ys ! i)" "f64_val (hd ys) \<le> f64_val (ys ! i)"
    "f64_val (ys ! i) \<le> f64_val (last ys)" if "i < length ys" for i
    using that y sorted_nth_val [OF sorted, of 0 i] sorted_nth_val [OF sorted, of i "length ys - 1"]
    by (auto simp: list_all_length in_range_def hd_conv_nth last_conv_nth)
  have idx: "nearest_rank_index (length ys) p < length ys" for p
    using y(1) by (intro nearest_rank_index_less) simp
  have ends: "is_finite (hd ys)" "0 \<le> f64_val (hd ys)" "is_finite (last ys)" "0 \<le> f64_val (last ys)"
    "f64_val (hd ys) \<le> f64_val (last ys)"
    using rng [of 0] rng [of "length ys - 1"] y(1) by (auto simp: hd_conv_nth last_conv_nth)
  have samples: "unat (of_nat (length ys) :: u64) = length ys"
    using y(2) by (simp add: unat_of_nat)
  have "validate_distribution ?d path = []"
    unfolding validate_distribution_Nil
    using ends pm samples y(1) rng idx quantiles_ascending [OF sorted y(1,2)]
    by (auto simp: quantile_probabilities_def nearest_rank_def in_range_def parse_percentiles
        sort_by_def total_le_def total_key_def)
  with d that samples y(1) show ?thesis by (simp add: ys_def)
qed

text \<open>Every well-formed duration is a bounded number of milliseconds.\<close>

lemma as_secs_f64_range:
  assumes "duration_wf d"
  shows "in_range 0 (of_int (2 ^ 65)) (as_secs_f64 d)"
proof -
  have c: "round64 (of_int (2 ^ 64)) = of_int (2 ^ 64)" "\<bar>of_int (2 ^ 64) :: rat\<bar> < f64_limit"
    "round64 (of_int (2 ^ 65)) = of_int (2 ^ 65)" "\<bar>of_int (2 ^ 65) :: rat\<bar> < f64_limit"
    using round64_power [of 64] round64_power [of 65] power_limit [of 64] power_limit [of 65] by simp_all
  have s: "in_range 0 (of_int (2 ^ 64)) (f64_of_nat (unat (dur_secs d)))"
    using f64_of_nat_in [of "unat (dur_secs d)" 0] unsigned_less [of "dur_secs d", where ?'a = nat] by simp
  have n: "in_range 0 (of_int (2 ^ 64)) (f64_of_nat (unat (dur_nanos d)))"
    using f64_of_nat_in [of "unat (dur_nanos d)" 0] assms by (simp add: duration_wf_def)
  have g: "in_range 1000000000 (of_int (2 ^ 64)) (f64_of_nat 1000000000)"
    using f64_of_nat_in [of 1000000000 1000000000] by simp
  have "f64_val (f64_of_nat (unat (dur_nanos d))) / f64_val (f64_of_nat 1000000000)
    \<le> f64_val (f64_of_nat (unat (dur_nanos d))) / 1"
    by (rule divide_left_mono) (use in_range_D [OF g] in_range_D [OF n] in auto)
  then have q: "in_range 0 (of_int (2 ^ 64)) (f64_div (f64_of_nat (unat (dur_nanos d))) (f64_of_nat 1000000000))"
    using in_range_D [OF g] in_range_D [OF n] c
    by (intro f64_div_in [OF n g]) auto
  show ?thesis
    unfolding as_secs_f64_def
    using in_range_D [OF s] in_range_D [OF q] c
    by (intro f64_add_in [OF s q]) auto
qed

lemma as_millis_f64_range: "duration_wf d \<Longrightarrow> in_range 0 sample_bound (as_millis_f64 d)"
proof -
  assume "duration_wf d"
  note s = as_secs_f64_range [OF this]
  have k: "in_range 0 (of_int (2 ^ 10)) (f64_of_nat 1000)"
    by (rule in_range_mono [OF in_range_of_nat]) simp_all
  have "f64_val (as_secs_f64 d) * f64_val (f64_of_nat 1000) \<le> of_int (2 ^ 65) * of_int (2 ^ 10)"
    using in_range_D [OF s] in_range_D [OF k] by (intro mult_mono) auto
  moreover have "of_int (2 ^ 65) * of_int (2 ^ 10) = sample_bound" by (simp add: sample_bound_def)
  ultimately show ?thesis
    unfolding as_millis_f64_def using in_range_D [OF s] in_range_D [OF k] bound_facts bound_abs
    by (intro f64_mul_in [OF s k]) auto
qed

lemma bounded_latencies:
  assumes "samples \<noteq> []" "list_all duration_wf samples" "length samples < 2 ^ 64"
  shows "bounded_samples (map as_millis_f64 samples)"
  using assms as_millis_f64_range by (auto simp: bounded_samples_def list_all_iff)

lemma latency_distribution_bounded:
  assumes "samples \<noteq> []" "list_all duration_wf samples" "length samples < 2 ^ 64"
  shows "\<exists>d. latency_distribution samples = Inr d \<and> validate_distribution d path = []
    \<and> unat (dist_samples d) = length samples"
  unfolding latency_distribution_def
  by (rule nonnegative_distribution_bounded [OF bounded_latencies [OF assms], of path]) auto

text \<open>The midpoint of two bounded samples lies between them.\<close>

lemma f64_midpoint_range:
  assumes x: "in_range 0 sample_bound x" and y: "in_range 0 sample_bound y" and le: "f64_val x \<le> f64_val y"
  shows "in_range (f64_val x) (f64_val y) (f64_div (f64_add x y) (f64_of_nat 2))"
proof -
  note X = in_range_D [OF x] and Y = in_range_D [OF y]
  have two: "in_range 2 2 (f64_of_nat 2)" using in_range_of_nat [of 2] by simp
  have "2 * sample_bound \<le> square_bound" by (simp add: sample_bound_def square_bound_def)
  then have hi: "f64_val x + f64_val y \<le> square_bound" using X Y by linarith
  have lo: "0 \<le> f64_val x + f64_val y" using X Y by linarith
  note S = f64_add_in [OF x y lo hi round64_zero bound_facts(3) bound_abs(4,3)]
  have v: "f64_val (f64_of_nat 2) = 2" using in_range_D [OF two] by linarith
  have q: "0 \<le> f64_val (f64_add x y) / 2" "f64_val (f64_add x y) / 2 \<le> square_bound"
    using in_range_D [OF S(1)] by auto
  note Q = f64_div_in [OF S(1) two q [folded v] _ round64_zero bound_facts(3) bound_abs(4,3)]
  show ?thesis
    using Q r64.midpoint [OF X(1) Y(1) le] by (simp add: v S(2) in_range_def)
qed

lemma median_with_range_bounds:
  assumes "bounded_samples xs"
  shows "\<exists>r. median_with_range xs = Inr r \<and> unat (mr_samples r) = length xs
    \<and> mr_minimum r \<in> set xs \<and> mr_maximum r \<in> set xs
    \<and> (\<forall>x \<in> set xs. f64_val (mr_minimum r) \<le> f64_val x \<and> f64_val x \<le> f64_val (mr_maximum r))
    \<and> is_finite (mr_median r)
    \<and> f64_val (mr_minimum r) \<le> f64_val (mr_median r) \<and> f64_val (mr_median r) \<le> f64_val (mr_maximum r)"
proof -
  define ys where "ys = sort_by total_le xs"
  have y: "ys \<noteq> []" "length ys < 2 ^ 64" "list_all (in_range 0 sample_bound) ys" "set ys = set xs" "length ys = length xs"
    using assms by (simp_all add: ys_def bounded_samples_def flip: length_greater_0_conv)
  note sorted = bounded_samples_sorted(2) [OF assms, folded ys_def]
  note le = sorted_nth_val [OF sorted]
  define k where "k = length ys div 2"
  have k: "k < length ys" using y(1) by (simp add: k_def)
  have ends: "f64_val (ys ! 0) \<le> f64_val x \<and> f64_val x \<le> f64_val (ys ! (length ys - 1))" if "x \<in> set xs" for x
  proof -
    from that obtain i where "i < length ys" "ys ! i = x" using y(4) by (metis in_set_conv_nth)
    then show ?thesis using le [of 0 i] le [of i "length ys - 1"] by auto
  qed
  let ?med = "if even (length ys) then f64_div (f64_add (ys ! (k - 1)) (ys ! k)) (f64_of_nat 2) else ys ! k"
  have med: "is_finite ?med \<and> f64_val (ys ! 0) \<le> f64_val ?med \<and> f64_val ?med \<le> f64_val (ys ! (length ys - 1))"
  proof (cases "even (length ys)")
    case False
    have "in_range 0 sample_bound (ys ! k)" using y(3) k by (simp add: list_all_length)
    with False k show ?thesis using ends [of "ys ! k"] y(4) nth_mem by (auto simp: in_range_def)
  next
    case True
    have "in_range 0 sample_bound (ys ! (k - 1))" "in_range 0 sample_bound (ys ! k)"
      using y(3) k by (simp_all add: list_all_length)
    note m = f64_midpoint_range [OF this le]
    have "f64_val (ys ! 0) \<le> f64_val (ys ! (k - 1))" "f64_val (ys ! k) \<le> f64_val (ys ! (length ys - 1))"
      using k by (auto intro!: le)
    with True m k show ?thesis by (auto simp: in_range_def)
  qed
  have "ys ! 0 \<in> set xs" "ys ! (length ys - 1) \<in> set xs" using y(1,4) by (metis diff_less length_greater_0_conv nth_mem zero_less_one)+
  moreover have "median_with_range xs = Inr \<lparr>mr_samples = of_nat (length ys), mr_minimum = ys ! 0,
    mr_median = ?med, mr_maximum = ys ! (length ys - 1)\<rparr>"
    using bounded_samples_sorted(1) [OF assms, folded ys_def]
    by (simp add: median_with_range_def k_def even_iff_mod_2_eq_zero Let_def)
  ultimately show ?thesis using med ends y(2,5) by (simp add: unat_of_nat)
qed

lemma small_sample: "in_range 0 sample_bound (Fin 1)" "in_range 0 sample_bound (Fin 2)" "in_range 0 sample_bound (Fin 3)"
  using in_range_mono [OF in_range_of_nat [of 1], of 0 sample_bound] in_range_mono [OF in_range_of_nat [of 2], of 0 sample_bound]
    in_range_mono [OF in_range_of_nat [of 3], of 0 sample_bound]
  by (simp_all add: f64_of_nat_exact sample_bound_def)

text \<open>Outside these bounds the sum of the two middle samples can overflow: both samples are finite and
  accepted, and their median is infinite.\<close>

lemma median_overflow:
  "\<exists>r. median_with_range [Fin (2 ^ 1023), Fin (2 ^ 1023)] = Inr r \<and> mr_median r = Infinity False"
proof -
  have "round64 (2 ^ 1024) = 2 ^ 1024" using round64_power [of 1024] by simp
  then have "f64_add (Fin (2 ^ 1023)) (Fin (2 ^ 1023)) = Infinity False"
    by (simp add: to_f64_def f64_limit_def f64_val_def)
  moreover have "f64_of_nat 2 = Fin 2" using f64_of_nat_exact [of 2] by simp
  moreover have "sorted_nonnegative [Fin (2 ^ 1023), Fin (2 ^ 1023)] = Inr [Fin (2 ^ 1023), Fin (2 ^ 1023)]"
    by (simp add: sorted_nonnegative_Ok admissible_def sort_by_def)
  ultimately show ?thesis by (simp add: median_with_range_def f64_div_def is_finite_def sign_bit_def)
qed

section \<open>Properties\<close>

text \<open>C9. Latency summaries are always acceptable: for every non-empty list of latencies the
  summary exists, counts every sample, and passes the validator that the result contract applies to
  distributions, in floating-point arithmetic: the running mean stays between minimum and maximum,
  the deviation is finite and not negative, and the quantiles lie in the range and do not decrease.\<close>

theorem latency_distribution_accepted:
  assumes "samples \<noteq> []" "list_all duration_wf samples" "length samples < 2 ^ 64"
  shows "\<exists>d. latency_distribution samples = Inr d \<and> validate_distribution d path = []
    \<and> unat (dist_samples d) = length samples"
  using assms by (rule latency_distribution_bounded)

theorem latency_distribution_accepted_witness:
  "\<exists>d. latency_distribution [\<lparr>dur_secs = 1, dur_nanos = 5\<rparr>, \<lparr>dur_secs = 0, dur_nanos = 7\<rparr>] = Inr d
     \<and> validate_distribution d ''$'' = []"
  using latency_distribution_accepted
    [of "[\<lparr>dur_secs = 1, dur_nanos = 5\<rparr>, \<lparr>dur_secs = 0, dur_nanos = 7\<rparr>]" "''$''"]
  by (auto simp add: duration_wf_def)

text \<open>C35. The median lies in the observed range, for the samples the benchmark measures: when there is
  at least one sample, fewer than \<open>2 ^ 64\<close> of them, and each lies between zero and \<open>sample_bound\<close>
  (\<open>2 ^ 75\<close>, which no latency in milliseconds exceeds), the summary exists, its minimum and maximum
  are samples that bound all others, and the median, an average for an even number of samples, lies
  between them although the sum and the quotient are rounded. Without the bound the sum of two
  samples can overflow to infinity.\<close>

theorem median_within_range:
  assumes "bounded_samples xs"
  shows "\<exists>r. median_with_range xs = Inr r \<and> unat (mr_samples r) = length xs
    \<and> mr_minimum r \<in> set xs \<and> mr_maximum r \<in> set xs
    \<and> (\<forall>x \<in> set xs. f64_val (mr_minimum r) \<le> f64_val x \<and> f64_val x \<le> f64_val (mr_maximum r))
    \<and> is_finite (mr_median r)
    \<and> f64_val (mr_minimum r) \<le> f64_val (mr_median r) \<and> f64_val (mr_median r) \<le> f64_val (mr_maximum r)"
  using assms by (rule median_with_range_bounds)

theorem median_within_range_witness:
  "\<exists>r. median_with_range [Fin 3, Fin 1] = Inr r \<and> unat (mr_samples r) = 2
     \<and> f64_val (mr_median r) \<le> f64_val (mr_maximum r)"
proof -
  have "in_range 0 sample_bound (Fin 3)" "in_range 0 sample_bound (Fin 1)" by (simp_all add: small_sample)
  then have "bounded_samples [Fin 3, Fin 1]" by (simp add: bounded_samples_def)
  from median_within_range [OF this] show ?thesis by auto
qed

text \<open>C36. The two estimators of the middle agree: for an odd number of samples the nearest-rank p50
  of the distribution is the exact middle observation that the median summary reports.\<close>

theorem p50_is_median:
  assumes "odd (length xs)" "length xs \<le> 2 ^ 53"
    and "nonnegative_distribution xs = Inr d" "median_with_range xs = Inr r"
  shows "map_of (dist_quantiles d) ''p50'' = Some (mr_median r)"
proof -
  obtain ys where ys: "sorted_nonnegative xs = Inr ys"
    using assms(4) by (auto simp: median_with_range_def and_then_eq_Inr)
  then have len: "length ys = length xs" by (auto simp: sorted_nonnegative_Ok)
  have "mr_median r = ys ! (length xs div 2)"
    using assms(1,4) by (auto simp: median_with_range_def ys len Let_def odd_iff_mod_2_eq_one)
  moreover have "map_of (dist_quantiles d) ''p50'' = Some (nearest_rank ys (to_f64 False (1 / 2)))"
    using assms(3) by (auto simp: nonnegative_distribution_def ys quantile_probabilities_def split: prod.splits)
  moreover have "(length xs - 1) div 2 = length xs div 2"
    using assms(1) by (auto elim!: oddE)
  moreover have "0 < length xs" using assms(1) by (rule odd_pos)
  ultimately show ?thesis
    using half_index [of "length xs"] assms(2) by (simp add: nearest_rank_def len)
qed

theorem p50_is_median_witness:
  "\<exists>d r. nonnegative_distribution [Fin 3, Fin 1, Fin 2] = Inr d \<and> median_with_range [Fin 3, Fin 1, Fin 2] = Inr r
     \<and> map_of (dist_quantiles d) ''p50'' = Some (mr_median r)"
proof -
  have "in_range 0 sample_bound (Fin 3)" "in_range 0 sample_bound (Fin 1)" "in_range 0 sample_bound (Fin 2)"
    by (simp_all add: small_sample)
  then have b: "bounded_samples [Fin 3, Fin 1, Fin 2]" by (simp add: bounded_samples_def)
  obtain d where d: "nonnegative_distribution [Fin 3, Fin 1, Fin 2] = Inr d"
    by (rule nonnegative_distribution_bounded [OF b])
  obtain r where r: "median_with_range [Fin 3, Fin 1, Fin 2] = Inr r"
    using median_with_range_bounds [OF b] by blast
  from p50_is_median [OF _ _ d r] d r show ?thesis by simp
qed

text \<open>C37. Rejected samples are reported precisely: \<open>sorted_nonnegative\<close> answers \<open>EmptySamples\<close> for no
  samples, otherwise the error names the first sample that is not finite or negative, and says
  which of the two it is; with no such sample it answers the samples in ascending order.\<close>

theorem sorted_nonnegative_verdict:
  "(case sorted_nonnegative xs of
      Inr ys \<Rightarrow> xs \<noteq> [] \<and> list_all admissible xs \<and> mset ys = mset xs \<and> sorted (map f64_val ys)
    | Inl EmptySamples \<Rightarrow> xs = []
    | Inl (NonFiniteSample k) \<Rightarrow>
        k < length xs \<and> list_all admissible (take k xs) \<and> \<not> is_finite (xs ! k)
    | Inl (NegativeSample k) \<Rightarrow>
        k < length xs \<and> list_all admissible (take k xs) \<and> is_finite (xs ! k) \<and> f64_val (xs ! k) < 0
    | Inl ZeroElapsed \<Rightarrow> False)"
proof (cases "sorted_nonnegative xs")
  case (Inr ys)
  then have "xs \<noteq> []" "list_all admissible xs" "ys = sort_by total_le xs"
    by (simp_all add: sorted_nonnegative_Ok)
  then show ?thesis by (simp add: Inr sort_total_le_sorted)
next
  case (Inl e)
  then have "xs = [] \<and> e = EmptySamples \<or> check_samples 0 xs = Inl e"
    by (auto simp: sorted_nonnegative_def and_then_eq_Inl split: if_splits)
  then show ?thesis
    by (auto simp: Inl check_samples_Err admissible_def split: if_splits)
qed

end
