(* ===== verification/Commit_Model.thy ===== *)
theory Commit_Model
  imports Commit_Stats "HOL-Library.Option_ord"
begin

text \<open>
  Request accounting of the contention benchmark (\<open>crates/commit/src/model.rs\<close>): identities and
  their digests, the ledger that every worker fills and that the coordinator merges, the evidence a
  finished ledger yields, and the two judgements on the final state. The digest function
  \<open>Sha256::digest\<close> of the crate \<open>sha2\<close> is the parameter \<open>sha\<close>. Operations on
  \<open>&mut self\<close> return the result together with the state they leave behind, so that what an error
  leaves changed is visible.
\<close>

section \<open>Ordered maps\<close>

text \<open>\<open>BTreeMap\<close>: the entries in ascending key order.\<close>

type_synonym ('k, 'v) btree_map = "('k \<times> 'v) list"

fun btree_insert :: "'k::linorder \<Rightarrow> 'v \<Rightarrow> ('k, 'v) btree_map \<Rightarrow> ('k, 'v) btree_map" where
  "btree_insert k v [] = [(k, v)]"
| "btree_insert k v ((k', v') # m) =
     (if k < k' then (k, v) # (k', v') # m
      else if k = k' then (k, v) # m
      else (k', v') # btree_insert k v m)"

abbreviation btree_get :: "('k, 'v) btree_map \<Rightarrow> 'k \<Rightarrow> 'v option" where
  "btree_get m k \<equiv> map_of m k"

definition btree_wf :: "('k::linorder, 'v) btree_map \<Rightarrow> bool" where
  "btree_wf m \<longleftrightarrow> sorted_wrt (<) (map fst m)"

section \<open>Identities and digests\<close>

type_synonym request_identity = string
type_synonym request_digest = string
type_synonym sha256 = "string \<Rightarrow> u8 list"

datatype model_error =
    EmptyRequestIdentity
  | DuplicateRequestIdentity
  | CountOverflow
  | UnaccountedRequests
  | Statistics statistics_error

definition request_identity_new :: "string \<Rightarrow> model_error + request_identity" where
  "request_identity_new value = (if value = [] then Err EmptyRequestIdentity else Ok value)"

definition hex_digit :: "nat \<Rightarrow> char" where
  "hex_digit n = ''0123456789abcdef'' ! n"

definition hex_byte :: "u8 \<Rightarrow> string" where
  "hex_byte b = [hex_digit (unat b div 16), hex_digit (unat b mod 16)]"

definition digest_from_bytes :: "sha256 \<Rightarrow> string \<Rightarrow> request_digest" where
  "digest_from_bytes sha value = concat (map hex_byte (sha value))"

definition identity_digest :: "sha256 \<Rightarrow> request_identity \<Rightarrow> request_digest" where
  "identity_digest sha ident = digest_from_bytes sha ident"

text \<open>\<open>RequestDigest::deserialize\<close>: 64 lowercase hexadecimal characters, or an error.\<close>

definition digest_deserialize :: "string \<Rightarrow> string + request_digest" where
  "digest_deserialize value =
     (if length value = 64 \<and> list_all is_lower_hexdigit value then Ok value
      else Err ''request digest must contain 64 lowercase hexadecimal characters'')"

section \<open>Accepted requests\<close>

type_synonym accepted_requests = "request_digest set"

definition accepted_insert :: "sha256 \<Rightarrow> accepted_requests \<Rightarrow> request_identity \<Rightarrow> accepted_requests" where
  "accepted_insert sha acc ident = insert (identity_digest sha ident) acc"

definition accepted_try_extend ::
  "accepted_requests \<Rightarrow> accepted_requests \<Rightarrow> (model_error + unit) \<times> accepted_requests" where
  "accepted_try_extend acc other =
     (if acc \<inter> other \<noteq> {} then (Err DuplicateRequestIdentity, acc) else (Ok (), acc \<union> other))"

definition contains_value :: "sha256 \<Rightarrow> accepted_requests \<Rightarrow> string \<Rightarrow> bool" where
  "contains_value sha acc value \<longleftrightarrow> digest_from_bytes sha value \<in> acc"

section \<open>Outcomes\<close>

datatype request_error_kind =
    Transport
  | Timeout
  | ResponseTooLarge
  | UnexpectedHttp
  | MalformedResponse
  | Harness

definition kind_rank :: "request_error_kind \<Rightarrow> nat" where
  "kind_rank k = (case k of Transport \<Rightarrow> 0 | Timeout \<Rightarrow> 1 | ResponseTooLarge \<Rightarrow> 2
     | UnexpectedHttp \<Rightarrow> 3 | MalformedResponse \<Rightarrow> 4 | Harness \<Rightarrow> 5)"

lemma kind_rank_inj [simp]: "kind_rank a = kind_rank b \<longleftrightarrow> a = b"
  by (cases a; cases b; simp add: kind_rank_def)

text \<open>The derived \<open>Ord\<close>: declaration order of the variants, then field by field.\<close>

instantiation request_error_kind :: linorder
begin

definition less_eq_request_error_kind :: "request_error_kind \<Rightarrow> request_error_kind \<Rightarrow> bool" where
  "less_eq_request_error_kind a b \<longleftrightarrow> kind_rank a \<le> kind_rank b"

definition less_request_error_kind :: "request_error_kind \<Rightarrow> request_error_kind \<Rightarrow> bool" where
  "less_request_error_kind a b \<longleftrightarrow> kind_rank a < kind_rank b"

instance
  by standard (auto simp: less_eq_request_error_kind_def less_request_error_kind_def)

end

datatype sanitized_request_error =
  SanitizedRequestError (err_kind: request_error_kind) (err_http_status: "u16 option")

instantiation sanitized_request_error :: linorder
begin

definition less_eq_sanitized_request_error ::
  "sanitized_request_error \<Rightarrow> sanitized_request_error \<Rightarrow> bool" where
  "less_eq_sanitized_request_error a b \<longleftrightarrow>
     err_kind a < err_kind b \<or> (err_kind a = err_kind b \<and> err_http_status a \<le> err_http_status b)"

definition less_sanitized_request_error ::
  "sanitized_request_error \<Rightarrow> sanitized_request_error \<Rightarrow> bool" where
  "less_sanitized_request_error a b \<longleftrightarrow>
     err_kind a < err_kind b \<or> (err_kind a = err_kind b \<and> err_http_status a < err_http_status b)"

instance
  by standard
    (auto simp: less_eq_sanitized_request_error_def less_sanitized_request_error_def
      sanitized_request_error.expand)

end

datatype request_outcome =
    Accepted
  | Conflict
  | RequestError sanitized_request_error

record request_counts =
  attempts :: u64
  accepted :: u64
  conflicts :: u64
  errors :: u64

definition fully_accounted :: "request_counts \<Rightarrow> bool" where
  "fully_accounted c \<longleftrightarrow>
     Option.bind (checked_add (accepted c) (conflicts c)) (\<lambda>n. checked_add n (errors c)) = Some (attempts c)"

record outcome_latencies =
  lat_all :: "distribution option"
  lat_accepted :: "distribution option"
  lat_conflicts :: "distribution option"
  lat_errors :: "distribution option"

record error_count =
  ec_error :: sanitized_request_error
  ec_count :: u64

record phase_evidence =
  elapsed_ms :: f64
  counts :: request_counts
  latency_ms :: outcome_latencies
  attempted_throughput_per_second :: f64
  accepted_throughput_per_second :: f64
  conflict_rate :: f64
  error_rate :: f64
  error_counts :: "error_count list"

definition made_progress :: "phase_evidence \<Rightarrow> bool" where
  "made_progress p \<longleftrightarrow> accepted (counts p) > 0"

section \<open>The request ledger\<close>

record request_ledger =
  seen_requests :: "request_digest set"
  led_all :: "duration list"
  led_accepted :: "duration list"
  led_conflicts :: "duration list"
  led_errors :: "duration list"
  led_error_counts :: "(sanitized_request_error, u64) btree_map"
  led_accepted_requests :: accepted_requests

definition ledger_default :: request_ledger where
  "ledger_default = \<lparr>seen_requests = {}, led_all = [], led_accepted = [], led_conflicts = [],
     led_errors = [], led_error_counts = [], led_accepted_requests = {}\<rparr>"

definition unwrap_or_default :: "u64 option \<Rightarrow> u64" where
  "unwrap_or_default x = (case x of None \<Rightarrow> 0 | Some v \<Rightarrow> v)"

definition ledger_record ::
  "sha256 \<Rightarrow> request_ledger \<Rightarrow> request_identity \<Rightarrow> duration \<Rightarrow> request_outcome
   \<Rightarrow> (model_error + unit) \<times> request_ledger" where
  "ledger_record sha l ident latency outcome =
     (if identity_digest sha ident \<in> seen_requests l then (Err DuplicateRequestIdentity, l)
      else
        let l1 = l\<lparr>seen_requests := insert (identity_digest sha ident) (seen_requests l),
                   led_all := led_all l @ [latency]\<rparr>
        in case outcome of
             Accepted \<Rightarrow>
               (Ok (), l1\<lparr>led_accepted := led_accepted l @ [latency],
                          led_accepted_requests := accepted_insert sha (led_accepted_requests l) ident\<rparr>)
           | Conflict \<Rightarrow> (Ok (), l1\<lparr>led_conflicts := led_conflicts l @ [latency]\<rparr>)
           | RequestError error \<Rightarrow>
               (let l2 = l1\<lparr>led_errors := led_errors l @ [latency]\<rparr>;
                    old = unwrap_or_default (btree_get (led_error_counts l) error)
                in case checked_add old 1 of
                     None \<Rightarrow>
                       (Err CountOverflow,
                        l2\<lparr>led_error_counts := btree_insert error old (led_error_counts l)\<rparr>)
                   | Some new \<Rightarrow>
                       (Ok (), l2\<lparr>led_error_counts := btree_insert error new (led_error_counts l)\<rparr>)))"

definition count_samples :: "duration list \<Rightarrow> model_error + u64" where
  "count_samples samples = ok_or (try_from_nat (length samples)) CountOverflow"

definition optional_distribution :: "duration list \<Rightarrow> statistics_error + distribution option" where
  "optional_distribution samples =
     (if samples = [] then Ok None else and_then (latency_distribution samples) (\<lambda>d. Ok (Some d)))"

definition ratio :: "u64 \<Rightarrow> u64 \<Rightarrow> f64" where
  "ratio numerator denominator =
     (if denominator = 0 then Fin 0
      else f64_div (f64_of_nat (unat numerator)) (f64_of_nat (unat denominator)))"

definition ledger_counts :: "request_ledger \<Rightarrow> model_error + request_counts" where
  "ledger_counts l =
     and_then (count_samples (led_all l)) (\<lambda>a.
     and_then (count_samples (led_accepted l)) (\<lambda>b.
     and_then (count_samples (led_conflicts l)) (\<lambda>c.
     and_then (count_samples (led_errors l)) (\<lambda>d.
       Ok \<lparr>attempts = a, accepted = b, conflicts = c, errors = d\<rparr>))))"

definition ledger_latencies :: "request_ledger \<Rightarrow> statistics_error + outcome_latencies" where
  "ledger_latencies l =
     and_then (optional_distribution (led_all l)) (\<lambda>a.
     and_then (optional_distribution (led_accepted l)) (\<lambda>b.
     and_then (optional_distribution (led_conflicts l)) (\<lambda>c.
     and_then (optional_distribution (led_errors l)) (\<lambda>d.
       Ok \<lparr>lat_all = a, lat_accepted = b, lat_conflicts = c, lat_errors = d\<rparr>))))"

definition ledger_finish ::
  "request_ledger \<Rightarrow> duration \<Rightarrow> model_error + phase_evidence \<times> accepted_requests" where
  "ledger_finish l elapsed =
     and_then (ledger_counts l) (\<lambda>cs.
       if \<not> fully_accounted cs then Err UnaccountedRequests
       else
         and_then (map_err Statistics (ledger_latencies l)) (\<lambda>lats.
         and_then (map_err Statistics (per_second (attempts cs) elapsed)) (\<lambda>attempted.
         and_then (map_err Statistics (per_second (accepted cs) elapsed)) (\<lambda>accepted_rate.
           Ok (\<lparr>elapsed_ms = as_millis_f64 elapsed,
                counts = cs,
                latency_ms = lats,
                attempted_throughput_per_second = attempted,
                accepted_throughput_per_second = accepted_rate,
                conflict_rate = ratio (conflicts cs) (attempts cs),
                error_rate = ratio (errors cs) (attempts cs),
                error_counts = map (\<lambda>(e, n). \<lparr>ec_error = e, ec_count = n\<rparr>) (led_error_counts l)\<rparr>,
              led_accepted_requests l)))))"

text \<open>The check that no counter overflows, then the additions.\<close>

definition counts_addable ::
  "(sanitized_request_error, u64) btree_map \<Rightarrow> (sanitized_request_error, u64) btree_map \<Rightarrow> bool" where
  "counts_addable m other =
     list_all (\<lambda>(error, n). checked_add (unwrap_or_default (btree_get m error)) n \<noteq> None) other"

definition add_counts ::
  "(sanitized_request_error, u64) btree_map \<Rightarrow> (sanitized_request_error, u64) btree_map
   \<Rightarrow> (sanitized_request_error, u64) btree_map" where
  "add_counts m other =
     fold (\<lambda>(error, n) m. btree_insert error (unwrap_or_default (btree_get m error) + n) m) other m"

definition ledger_try_merge ::
  "request_ledger \<Rightarrow> request_ledger \<Rightarrow> (model_error + unit) \<times> request_ledger" where
  "ledger_try_merge l other =
     (if seen_requests l \<inter> seen_requests other \<noteq> {} then (Err DuplicateRequestIdentity, l)
      else if \<not> counts_addable (led_error_counts l) (led_error_counts other) then (Err CountOverflow, l)
      else
        case accepted_try_extend (led_accepted_requests l) (led_accepted_requests other) of
          (Inl e, acc) \<Rightarrow> (Err e, l\<lparr>led_accepted_requests := acc\<rparr>)
        | (Inr _, acc) \<Rightarrow>
            (Ok (),
             l\<lparr>led_accepted_requests := acc,
               seen_requests := seen_requests l \<union> seen_requests other,
               led_all := led_all l @ led_all other,
               led_accepted := led_accepted l @ led_accepted other,
               led_conflicts := led_conflicts l @ led_conflicts other,
               led_errors := led_errors l @ led_errors other,
               led_error_counts := add_counts (led_error_counts l) (led_error_counts other)\<rparr>))"

section \<open>Judgements on the final state\<close>

record final_state_attribution =
  property_present :: bool
  request_sha256 :: "request_digest option"
  belongs_to_accepted_request :: bool
  metadata_location_within_table_root :: bool

definition attribution_evaluate ::
  "sha256 \<Rightarrow> string option \<Rightarrow> accepted_requests \<Rightarrow> bool \<Rightarrow> final_state_attribution" where
  "attribution_evaluate sha final_property acc within_root =
     \<lparr>property_present = (final_property \<noteq> None),
      request_sha256 = map_option (digest_from_bytes sha) final_property,
      belongs_to_accepted_request = is_some_and final_property (contains_value sha acc),
      metadata_location_within_table_root = within_root\<rparr>"

definition attribution_passed :: "final_state_attribution \<Rightarrow> bool" where
  "attribution_passed a \<longleftrightarrow> property_present a \<and> belongs_to_accepted_request a
     \<and> metadata_location_within_table_root a"

record metadata_growth_evidence =
  baseline_metadata_objects :: u64
  final_metadata_objects :: u64
  observed_growth :: "u64 option"
  minimum_required_growth :: u64
  sufficient :: bool

definition growth_evaluate ::
  "u64 \<Rightarrow> u64 \<Rightarrow> request_counts list \<Rightarrow> model_error + metadata_growth_evidence" where
  "growth_evaluate baseline final phase_counts =
     and_then (try_fold (\<lambda>total cs. ok_or (checked_add total (accepted cs)) CountOverflow) 0 phase_counts)
       (\<lambda>minimum.
         let observed = checked_sub final baseline
         in Ok \<lparr>baseline_metadata_objects = baseline, final_metadata_objects = final,
                observed_growth = observed, minimum_required_growth = minimum,
                sufficient = is_some_and observed (\<lambda>growth. minimum \<le> growth)\<rparr>)"

section \<open>Facts on ordered maps\<close>

lemma btree_get_insert: "btree_wf m \<Longrightarrow> btree_get (btree_insert k v m) = (btree_get m)(k \<mapsto> v)"
proof (induction m)
  case Nil
  then show ?case by auto
next
  case (Cons p m)
  obtain k' v' where p: "p = (k', v')" by force
  have wf: "btree_wf m" using Cons.prems by (simp add: btree_wf_def)
  have "btree_get m k = None" if "k < k'"
    using Cons.prems that by (fastforce simp: p btree_wf_def map_of_eq_None_iff)
  with Cons.IH [OF wf] show ?case by (auto simp: p fun_eq_iff)
qed

lemma btree_insert_keys: "fst ` set (btree_insert k v m) = insert k (fst ` set m)"
  by (induction k v m rule: btree_insert.induct) auto

lemma btree_insert_wf: "btree_wf m \<Longrightarrow> btree_wf (btree_insert k v m)"
proof (induction k v m rule: btree_insert.induct)
  case (2 k v k' v' m)
  show ?case
  proof (cases "k' < k")
    case True
    then have "btree_insert k v ((k', v') # m) = (k', v') # btree_insert k v m" by auto
    moreover have "x \<in> set (map fst (btree_insert k v m)) \<Longrightarrow> k' < x" for x
      using True "2.prems" btree_insert_keys [of k v m] by (auto simp: btree_wf_def)
    ultimately show ?thesis
      using 2 True by (auto simp: btree_wf_def)
  next
    case False
    with "2.prems" show ?thesis by (fastforce simp: btree_wf_def)
  qed
qed (simp add: btree_wf_def)

section \<open>The log a ledger stands for\<close>

text \<open>One request as the workers see it: its identity, its latency and its outcome.\<close>

type_synonym log_entry = "request_identity \<times> duration \<times> request_outcome"

definition log_latencies :: "(request_outcome \<Rightarrow> bool) \<Rightarrow> log_entry list \<Rightarrow> duration list" where
  "log_latencies p es = map (\<lambda>(i, t, out). t) (filter (\<lambda>(i, t, out). p out) es)"

definition is_error :: "request_outcome \<Rightarrow> bool" where
  "is_error out = (case out of RequestError _ \<Rightarrow> True | _ \<Rightarrow> False)"

definition log_digests :: "sha256 \<Rightarrow> log_entry list \<Rightarrow> request_digest list" where
  "log_digests sha es = map (\<lambda>(i, t, out). identity_digest sha i) es"

definition log_accepted :: "sha256 \<Rightarrow> log_entry list \<Rightarrow> request_digest set" where
  "log_accepted sha es = set (log_digests sha (filter (\<lambda>(i, t, out). out = Accepted) es))"

definition log_error_count :: "log_entry list \<Rightarrow> sanitized_request_error \<Rightarrow> nat" where
  "log_error_count es e = length (filter (\<lambda>(i, t, out). out = RequestError e) es)"

definition represents :: "sha256 \<Rightarrow> request_ledger \<Rightarrow> log_entry list \<Rightarrow> bool" where
  "represents sha l es \<longleftrightarrow>
     distinct (log_digests sha es)
     \<and> seen_requests l = set (log_digests sha es)
     \<and> led_all l = log_latencies (\<lambda>_. True) es
     \<and> led_accepted l = log_latencies (\<lambda>out. out = Accepted) es
     \<and> led_conflicts l = log_latencies (\<lambda>out. out = Conflict) es
     \<and> led_errors l = log_latencies is_error es
     \<and> led_accepted_requests l = log_accepted sha es
     \<and> btree_wf (led_error_counts l)
     \<and> (\<forall>e. unat (unwrap_or_default (btree_get (led_error_counts l) e)) = log_error_count es e)
     \<and> (\<forall>e. e \<in> fst ` set (led_error_counts l) \<longleftrightarrow> 0 < log_error_count es e)"

text \<open>The logs a ledger can hold: no digest twice, no counter beyond its width.\<close>

definition admits :: "sha256 \<Rightarrow> log_entry list \<Rightarrow> bool" where
  "admits sha es \<longleftrightarrow> distinct (log_digests sha es) \<and> (\<forall>e. log_error_count es e < 2 ^ 64)"

lemma log_append [ledger_simps]:
  "log_latencies p (es @ fs) = log_latencies p es @ log_latencies p fs"
  "log_digests sha (es @ fs) = log_digests sha es @ log_digests sha fs"
  "log_accepted sha (es @ fs) = log_accepted sha es \<union> log_accepted sha fs"
  "log_error_count (es @ fs) e = log_error_count es e + log_error_count fs e"
  by (simp_all add: log_latencies_def log_digests_def log_accepted_def log_error_count_def)

lemma log_single [ledger_simps]:
  "log_latencies p [(i, t, out)] = (if p out then [t] else [])"
  "log_digests sha [(i, t, out)] = [identity_digest sha i]"
  "log_accepted sha [(i, t, out)] = (if out = Accepted then {identity_digest sha i} else {})"
  "log_error_count [(i, t, out)] e = (if out = RequestError e then 1 else 0)"
  by (simp_all add: log_latencies_def log_digests_def log_accepted_def log_error_count_def)

lemma log_accepted_subset: "log_accepted sha es \<subseteq> set (log_digests sha es)"
  by (force simp: log_accepted_def log_digests_def)

lemma is_error_simps [simp]:
  "\<not> is_error Accepted" "\<not> is_error Conflict" "is_error (RequestError e)"
  by (simp_all add: is_error_def)

lemma represents_default: "represents sha ledger_default []"
  by (simp add: represents_def ledger_default_def log_latencies_def log_digests_def log_accepted_def
      log_error_count_def btree_wf_def unwrap_or_default_def)

lemma record_duplicate:
  assumes "represents sha l es" "identity_digest sha i \<in> set (log_digests sha es)"
  shows "ledger_record sha l i t out = (Inl DuplicateRequestIdentity, l)"
  using assms by (simp add: ledger_record_def represents_def)

lemma record_represents:
  assumes rep: "represents sha l es" and adm: "admits sha (es @ [(i, t, out)])"
  shows "\<exists>l'. ledger_record sha l i t out = (Inr (), l') \<and> represents sha l' (es @ [(i, t, out)])"
proof -
  have new: "identity_digest sha i \<notin> seen_requests l"
    using rep adm by (auto simp: represents_def admits_def ledger_simps)
  show ?thesis
  proof (cases out)
    case (RequestError e)
    let ?old = "unwrap_or_default (btree_get (led_error_counts l) e)"
    have "unat ?old + 1 < 2 ^ 64"
      using rep adm [unfolded admits_def] by (auto simp: represents_def ledger_simps RequestError dest: spec [of _ e])
    then have add: "checked_add ?old 1 = Some (?old + 1)" and v: "unat (?old + 1) = unat ?old + 1"
      by (simp_all add: checked_add_def unat_word_ariths)
    show ?thesis
      using rep adm new add v
      by (auto simp: ledger_record_def represents_def admits_def ledger_simps RequestError
          btree_insert_wf btree_get_insert btree_insert_keys unwrap_or_default_def)
  qed (use rep adm new in \<open>auto simp: ledger_record_def represents_def admits_def ledger_simps accepted_insert_def\<close>)
qed


text \<open>Adding the counters of one ledger to those of another.\<close>

definition counter :: "(sanitized_request_error, u64) btree_map \<Rightarrow> sanitized_request_error \<Rightarrow> nat" where
  "counter m e = unat (unwrap_or_default (btree_get m e))"

lemma counter_insert: "btree_wf m \<Longrightarrow> counter (btree_insert k v m) e = (if e = k then unat v else counter m e)"
  by (simp add: counter_def btree_get_insert unwrap_or_default_def)

lemma counter_Nil [simp]: "counter [] e = 0"
  by (simp add: counter_def unwrap_or_default_def)

lemma counter_Cons: "counter ((k, v) # m) e = (if e = k then unat v else counter m e)"
  by (simp add: counter_def unwrap_or_default_def)

lemma counter_notin: "e \<notin> fst ` set m \<Longrightarrow> counter m e = 0"
  by (simp add: counter_def unwrap_or_default_def flip: map_of_eq_None_iff)

lemma counts_addable_iff:
  assumes "btree_wf other"
  shows "counts_addable m other \<longleftrightarrow> (\<forall>e. counter m e + counter other e < 2 ^ 64)"
proof -
  have "counts_addable m other \<longleftrightarrow> (\<forall>(e, n) \<in> set other. counter m e + unat n < 2 ^ 64)"
    by (auto simp: counts_addable_def list_all_iff checked_add_def counter_def)
  also have "\<dots> \<longleftrightarrow> (\<forall>e \<in> fst ` set other. counter m e + counter other e < 2 ^ 64)"
  proof -
    have "distinct (map fst other)" using assms strict_sorted_iff unfolding btree_wf_def by blast
    then have "counter other e = unat n" if "(e, n) \<in> set other" for e n
      using that by (simp add: counter_def unwrap_or_default_def)
    then show ?thesis by fastforce
  qed
  also have "\<dots> \<longleftrightarrow> (\<forall>e. counter m e + counter other e < 2 ^ 64)"
  proof -
    have "counter m e + counter other e < 2 ^ 64" if "e \<notin> fst ` set other" for e
      using counter_notin [OF that] unsigned_less [of "unwrap_or_default (btree_get m e)", where 'a = nat]
      by (simp add: counter_def)
    then show ?thesis by blast
  qed
  finally show ?thesis .
qed

lemma add_counts_correct:
  assumes "btree_wf m" "btree_wf other" "\<forall>e. counter m e + counter other e < 2 ^ 64"
  shows "btree_wf (add_counts m other)"
    and "counter (add_counts m other) e = counter m e + counter other e"
    and "fst ` set (add_counts m other) = fst ` set m \<union> fst ` set other"
  using assms
proof (induction other arbitrary: m)
  case Nil
  { case 1 then show ?case by (simp add: add_counts_def)
  next case 2 then show ?case by (simp add: add_counts_def)
  next case 3 then show ?case by (simp add: add_counts_def) }
next
  case (Cons p other)
  obtain k v where p: "p = (k, v)" by force
  define ins where "ins = (\<lambda>m. btree_insert k (unwrap_or_default (btree_get m k) + v) m)"
  have step: "add_counts m (p # other) = add_counts (ins m) other" for m
    by (simp add: add_counts_def p ins_def)
  have loc: "btree_wf (ins m)" "btree_wf other" "\<forall>e. counter (ins m) e + counter other e < 2 ^ 64"
    "\<And>e. counter (ins m) e + counter other e = counter m e + counter (p # other) e"
    if "btree_wf m" "btree_wf (p # other)" "\<forall>e. counter m e + counter (p # other) e < 2 ^ 64" for m
  proof -
    show "btree_wf (ins m)" using that(1) unfolding ins_def by (rule btree_insert_wf)
    show "btree_wf other" using that(2) by (simp add: btree_wf_def)
    have k: "counter other k = 0"
      using that(2) by (intro counter_notin) (auto simp: btree_wf_def p)
    have "counter m k + unat v < 2 ^ 64" using that(3) by (auto simp: p counter_Cons dest: spec [of _ k])
    then have "unat (unwrap_or_default (btree_get m k) + v) = counter m k + unat v"
      by (simp add: counter_def unat_word_ariths)
    with k that(1) show eq: "counter (ins m) e + counter other e = counter m e + counter (p # other) e" for e
      by (simp add: counter_insert counter_Cons p ins_def)
    show "\<forall>e. counter (ins m) e + counter other e < 2 ^ 64" using that(3) by (simp add: eq)
  qed
  { case 1 then show ?case unfolding step by (intro Cons.IH(1) loc)
  next case 2 then show ?case unfolding step using Cons.IH(2) [OF loc(1-3)] loc(4) by simp
  next case 3 then show ?case unfolding step using Cons.IH(3) [OF loc(1-3)] by (simp add: btree_insert_keys p ins_def) }
qed

lemma merge_admitted_iff:
  assumes "represents sha l es" "represents sha m fs"
  shows "admits sha (es @ fs) \<longleftrightarrow> seen_requests l \<inter> seen_requests m = {}
    \<and> counts_addable (led_error_counts l) (led_error_counts m)"
proof -
  have "counter (led_error_counts l) e = log_error_count es e"
    "counter (led_error_counts m) e = log_error_count fs e" for e
    using assms by (simp_all add: represents_def counter_def)
  then show ?thesis
    using assms by (auto simp: admits_def represents_def ledger_simps counts_addable_iff)
qed

lemma merge_represents:
  assumes rep: "represents sha l es" "represents sha m fs" and adm: "admits sha (es @ fs)"
  shows "\<exists>l'. ledger_try_merge l m = (Inr (), l') \<and> represents sha l' (es @ fs)"
proof -
  have c: "counter (led_error_counts l) e = log_error_count es e"
    "counter (led_error_counts m) e = log_error_count fs e" for e
    using rep by (simp_all add: represents_def counter_def)
  have wf: "btree_wf (led_error_counts l)" "btree_wf (led_error_counts m)"
    using rep by (simp_all add: represents_def)
  have bound: "\<forall>e. counter (led_error_counts l) e + counter (led_error_counts m) e < 2 ^ 64"
    using adm by (simp add: c admits_def ledger_simps)
  note add = add_counts_correct [OF wf bound]
  have keys: "e \<in> fst ` set (led_error_counts l) \<union> fst ` set (led_error_counts m)
    \<longleftrightarrow> 0 < log_error_count (es @ fs) e" for e
    using rep by (auto simp: represents_def ledger_simps)
  have disj: "seen_requests l \<inter> seen_requests m = {}"
    and ok: "counts_addable (led_error_counts l) (led_error_counts m)"
    using merge_admitted_iff [OF rep] adm by blast+
  have "led_accepted_requests l \<inter> led_accepted_requests m = {}"
    using disj rep log_accepted_subset [of sha es] log_accepted_subset [of sha fs]
    by (auto simp: represents_def)
  then show ?thesis
    using rep adm disj ok add(1) add(2) [unfolded counter_def] c [unfolded counter_def] keys
    by (simp add: ledger_try_merge_def accepted_try_extend_def represents_def admits_def ledger_simps add(3))
qed

lemma merge_refused:
  assumes "represents sha l es" "represents sha m fs" "\<not> admits sha (es @ fs)"
  shows "\<exists>e. ledger_try_merge l m = (Inl e, l)"
  using merge_admitted_iff [OF assms(1,2)] assms(3) by (auto simp: ledger_try_merge_def)


section \<open>The contract of a mergeable request log\<close>

locale request_log =
  fixes empty :: 'l
    and record_one :: "'l \<Rightarrow> 'r \<Rightarrow> ('e + unit) \<times> 'l"
    and merge :: "'l \<Rightarrow> 'l \<Rightarrow> ('e + unit) \<times> 'l"
    and rep :: "'l \<Rightarrow> 'r list \<Rightarrow> bool"
    and adm :: "'r list \<Rightarrow> bool"
  assumes rep_empty: "rep empty []"
    and record_rep: "rep l es \<Longrightarrow> adm (es @ [r]) \<Longrightarrow> \<exists>l'. record_one l r = (Inr (), l') \<and> rep l' (es @ [r])"
    and merge_rep: "rep l es \<Longrightarrow> rep m fs \<Longrightarrow> adm (es @ fs) \<Longrightarrow> \<exists>l'. merge l m = (Inr (), l') \<and> rep l' (es @ fs)"
    and merge_err: "rep l es \<Longrightarrow> rep m fs \<Longrightarrow> \<not> adm (es @ fs) \<Longrightarrow> \<exists>e. merge l m = (Inl e, l)"
    and adm_prefix: "adm (es @ fs) \<Longrightarrow> adm es"
begin

text \<open>A worker that records its requests one after the other.\<close>

lemma record_all_rep:
  assumes "rep l es" "adm (es @ rs)"
  shows "\<exists>l'. try_each record_one l rs = (Inr (), l') \<and> rep l' (es @ rs)"
  using assms
proof (induction rs arbitrary: l es)
  case Nil
  then show ?case by simp
next
  case (Cons r rs)
  have "adm (es @ [r])" using adm_prefix [of "es @ [r]" rs] Cons.prems(2) by simp
  then obtain l' where l': "record_one l r = (Inr (), l')" "rep l' (es @ [r])"
    using record_rep Cons.prems(1) by blast
  with Cons.IH [of l' "es @ [r]"] Cons.prems(2) show ?case by simp
qed

text \<open>The coordinator that merges the ledgers of its workers in order, stopping at an error.\<close>

lemma merge_all_rep:
  assumes "rep l es" "list_all2 rep ms fss"
  shows "if adm (es @ concat fss) then \<exists>l'. try_each merge l ms = (Inr (), l') \<and> rep l' (es @ concat fss)
    else fss = [] \<or> (\<exists>e l'. try_each merge l ms = (Inl e, l'))"
  using assms(2,1)
proof (induction ms fss arbitrary: l es rule: list_all2_induct)
  case Nil
  then show ?case by simp
next
  case (Cons m ms fs fss)
  show ?case
  proof (cases "adm (es @ fs)")
    case True
    then obtain l' where "merge l m = (Inr (), l')" "rep l' (es @ fs)"
      using merge_rep Cons by blast
    with Cons.IH [of l' "es @ fs"] True show ?thesis
      by (cases fss) auto
  next
    case False
    then obtain e where "merge l m = (Inl e, l)" using merge_err Cons by blast
    moreover have "\<not> adm (es @ fs @ concat fss)" using False adm_prefix [of "es @ fs"] by auto
    ultimately show ?thesis by simp
  qed
qed

end

lemma admits_prefix: "admits sha (es @ fs) \<Longrightarrow> admits sha es"
  by (auto simp: admits_def ledger_simps dest: add_lessD1)

interpretation ledger: request_log ledger_default "\<lambda>l (i, t, out). ledger_record sha l i t out"
    ledger_try_merge "represents sha" "admits sha" for sha
  by unfold_locales
    (auto simp: represents_default split: prod.splits
      intro: record_represents merge_represents merge_refused admits_prefix)

section \<open>Rates\<close>

text \<open>A positive duration is at least one nanosecond, which lies above \<open>2\<^sup>-\<^sup>3\<^sup>0\<close> seconds.\<close>

definition least_seconds :: rat where
  "least_seconds = 2 powi (- 30)"

definition rate_bound :: rat where
  "rate_bound = of_int (2 ^ 94)"

lemma rate_facts:
  "round64 least_seconds = least_seconds" "\<bar>least_seconds\<bar> < f64_limit"
  "round64 rate_bound = rate_bound" "\<bar>rate_bound\<bar> < f64_limit" "0 < least_seconds"
  "least_seconds \<le> 1 / 1000000000" "of_int (2 ^ 64) / least_seconds = rate_bound"
  "round64 (of_int (2 ^ 65)) = of_int (2 ^ 65)" "\<bar>of_int (2 ^ 65) :: rat\<bar> < f64_limit"
  "of_int (2 ^ 64) + 1 \<le> (of_int (2 ^ 65) :: rat)"
proof -
  show "round64 least_seconds = least_seconds"
    using round64_exact [of 1 "- 30"] by (simp add: least_seconds_def min_exponent_def)
  show "round64 rate_bound = rate_bound" "round64 (of_int (2 ^ 65)) = of_int (2 ^ 65)"
    unfolding rate_bound_def by (rule round64_power)+
qed (simp_all add: least_seconds_def rate_bound_def f64_limit_def power_int_minus)

lemma round64_one: "round64 1 = 1" "\<bar>1::rat\<bar> < f64_limit"
  using round64_power [of 0] power_limit [of 0] by simp_all

lemma seconds_range:
  assumes s: "s < 2 ^ 64" and n: "n < 1000000000" and nz: "s \<noteq> 0 \<or> n \<noteq> 0"
  shows "in_range least_seconds (of_int (2 ^ 65))
    (f64_add (f64_of_nat s) (f64_div (f64_of_nat n) (f64_of_nat 1000000000)))"
proof -
  have sr: "in_range (if s = 0 then 0 else 1) (of_int (2 ^ 64)) (f64_of_nat s)"
    using f64_of_nat_in [of s 0] f64_of_nat_in [of s 1] s by (cases "s = 0") simp_all
  have nr: "in_range (of_nat n) (of_nat n) (f64_of_nat n)"
    using f64_of_nat_in [of n n] n by (simp add: f64_of_nat_exact in_range_def)
  have gr: "in_range 1000000000 1000000000 (f64_of_nat 1000000000)"
    using f64_of_nat_in [of 1000000000 1000000000] by (simp add: f64_of_nat_exact in_range_def)
  have v: "f64_val (f64_of_nat n) = of_nat n" "f64_val (f64_of_nat 1000000000) = 1000000000"
    using in_range_D [OF nr] in_range_D [OF gr] by simp_all
  have "(of_nat n :: rat) < of_nat 1000000000" using n by (simp only: of_nat_less_iff)
  then have hi: "(of_nat n / 1000000000 :: rat) \<le> 1" by simp
  have lo: "least_seconds \<le> (of_nat n / 1000000000 :: rat)" if "n \<noteq> 0"
  proof -
    have "(1 / 1000000000 :: rat) \<le> of_nat n / 1000000000" using that by (simp add: divide_right_mono)
    with rate_facts(6) show ?thesis by linarith
  qed
  have q: "in_range (if n = 0 then 0 else least_seconds) 1 (f64_div (f64_of_nat n) (f64_of_nat 1000000000))"
    by (rule f64_div_in [OF nr gr]) (use lo hi rate_facts round64_one v in auto)
  show ?thesis
  proof (rule f64_add_in [OF sr q])
    show "least_seconds \<le> f64_val (f64_of_nat s) + f64_val (f64_div (f64_of_nat n) (f64_of_nat 1000000000))"
      using in_range_D [OF sr] in_range_D [OF q] nz rate_facts(5,6) by (auto split: if_splits)
  qed (use in_range_D [OF sr] in_range_D [OF q] rate_facts in auto)
qed

lemma per_second_Ok:
  assumes "duration_wf elapsed" "\<not> duration_is_zero elapsed"
  shows "\<exists>r. per_second n elapsed = Inr r \<and> is_finite r \<and> 0 \<le> f64_val r"
proof -
  have "dur_secs elapsed = 0 \<longleftrightarrow> unat (dur_secs elapsed) = 0" "dur_nanos elapsed = 0 \<longleftrightarrow> unat (dur_nanos elapsed) = 0"
    by (simp_all add: unat_eq_zero)
  then have s: "in_range least_seconds (of_int (2 ^ 65)) (as_secs_f64 elapsed)"
    unfolding as_secs_f64_def
    using assms unsigned_less [of "dur_secs elapsed", where 'a = nat]
    by (intro seconds_range) (auto simp: duration_wf_def duration_is_zero_def)
  have c: "in_range 0 (of_int (2 ^ 64)) (f64_of_nat (unat n))"
    using f64_of_nat_in [of "unat n" 0] unsigned_less [of n, where 'a = nat] by simp
  have "f64_val (f64_of_nat (unat n)) / f64_val (as_secs_f64 elapsed) \<le> of_int (2 ^ 64) / least_seconds"
    using in_range_D [OF c] in_range_D [OF s] rate_facts(5) by (intro frac_le) auto
  then have "in_range 0 rate_bound (f64_div (f64_of_nat (unat n)) (as_secs_f64 elapsed))"
    using in_range_D [OF c] in_range_D [OF s] rate_facts by (intro f64_div_in [OF c s]) auto
  then show ?thesis using assms by (auto simp: per_second_def in_range_def)
qed

lemma ratio_range:
  assumes "unat a \<le> unat b"
  shows "in_range 0 1 (ratio a b)"
proof (cases "b = 0")
  case True
  then show ?thesis by (simp add: ratio_def in_range_zero)
next
  case False
  then have b: "1 \<le> unat b" by (simp add: unat_gt_0 Suc_le_eq)
  have l: "unat a < 2 ^ 64" "unat b < 2 ^ 64"
    using unsigned_less [of a, where 'a = nat] unsigned_less [of b, where 'a = nat] by simp_all
  have A: "in_range 0 (of_int (2 ^ 64)) (f64_of_nat (unat a))" "f64_val (f64_of_nat (unat a)) = round64 (of_nat (unat a))"
    using f64_of_nat_in [of "unat a" 0] l by (simp_all only:) simp_all
  have B: "in_range 1 (of_int (2 ^ 64)) (f64_of_nat (unat b))" "f64_val (f64_of_nat (unat b)) = round64 (of_nat (unat b))"
    using f64_of_nat_in [of "unat b" 1] l b by (simp_all only:) simp_all
  have "f64_val (f64_of_nat (unat a)) \<le> f64_val (f64_of_nat (unat b))"
    unfolding A(2) B(2) using assms by (intro round64_mono) (simp only: of_nat_le_iff)
  then show ?thesis
    using in_range_D [OF A(1)] in_range_D [OF B(1)] round64_one False
    unfolding ratio_def by (simp only: if_False, intro f64_div_in [OF A(1) B(1)]) auto
qed


section \<open>Evidence of a finished ledger\<close>

text \<open>An optional summary of a list of latencies: absent for no sample, else the distribution of
  exactly these samples, acceptable to the contract.\<close>

definition summarises :: "distribution option \<Rightarrow> duration list \<Rightarrow> bool" where
  "summarises x xs = (case x of None \<Rightarrow> xs = []
     | Some d \<Rightarrow> latency_distribution xs = Inr d \<and> validate_distribution d ''$'' = []
         \<and> unat (dist_samples d) = length xs)"

lemma count_samples_Ok:
  "length xs < 2 ^ 64 \<Longrightarrow> \<exists>w. count_samples xs = Inr w \<and> unat w = length xs"
  by (auto simp: count_samples_def try_from_nat_def ok_or_def unat_of_nat)

lemma optional_distribution_Ok:
  assumes "list_all duration_wf xs" "length xs < 2 ^ 64"
  shows "\<exists>x. optional_distribution xs = Inr x \<and> summarises x xs"
proof (cases "xs = []")
  case True
  then show ?thesis by (simp add: optional_distribution_def summarises_def)
next
  case False
  with latency_distribution_bounded [OF False assms, of "''$''"] show ?thesis
    by (auto simp: optional_distribution_def summarises_def)
qed

lemma log_latencies_split:
  "length (log_latencies (\<lambda>_. True) es) = length es"
  "length (log_latencies (\<lambda>out. out = Accepted) es) + length (log_latencies (\<lambda>out. out = Conflict) es)
     + length (log_latencies is_error es) = length es"
proof -
  show "length (log_latencies (\<lambda>_. True) es) = length es"
    by (induction es) (auto simp: log_latencies_def)
  show "length (log_latencies (\<lambda>out. out = Accepted) es) + length (log_latencies (\<lambda>out. out = Conflict) es)
     + length (log_latencies is_error es) = length es"
  proof (induction es)
    case (Cons x es)
    obtain i t out where "x = (i, t, out)" by (cases x) auto
    with Cons show ?case by (cases out) (simp_all add: log_latencies_def)
  qed (simp add: log_latencies_def)
qed

lemma log_latencies_wf:
  "list_all (\<lambda>(i, t, out). duration_wf t) es \<Longrightarrow> list_all duration_wf (log_latencies p es)"
  by (fastforce simp: log_latencies_def list_all_iff)

lemma log_error_total:
  assumes "btree_wf m" "\<And>e. counter m e = log_error_count es e"
    "\<And>e. e \<in> fst ` set m \<longleftrightarrow> 0 < log_error_count es e"
  shows "(\<Sum>(e, n) \<leftarrow> m. unat n) = length (log_latencies is_error es)"
proof -
  have d: "distinct (map fst m)" using assms(1) strict_sorted_iff unfolding btree_wf_def by blast
  then have "map (\<lambda>(e, n). unat n) m = map (counter m) (map fst m)"
    by (auto simp: counter_def unwrap_or_default_def)
  then have "(\<Sum>(e, n) \<leftarrow> m. unat n) = (\<Sum>e \<leftarrow> map fst m. counter m e)" by (rule arg_cong)
  also have "\<dots> = (\<Sum>e \<in> fst ` set m. log_error_count es e)"
    using sum_list_distinct_conv_sum_set [OF d, of "counter m"] assms(2) [abs_def] by simp
  also have "\<dots> = length (log_latencies is_error es)"
  proof -
    let ?E = "filter (\<lambda>(i, t, out). is_error out) es"
    define err where "err = (\<lambda>(i :: request_identity, t :: duration, out). case out of RequestError e \<Rightarrow> e
      | _ \<Rightarrow> SanitizedRequestError Harness None)"
    have c: "log_error_count es e = count (image_mset err (mset ?E)) e" for e
      by (induction es) (auto simp: log_error_count_def err_def is_error_def split: request_outcome.splits)
    have "e \<in># image_mset err (mset ?E) \<longleftrightarrow> e \<in> fst ` set m" for e
      unfolding assms(3) c by (rule count_greater_zero_iff [symmetric])
    then have keys: "fst ` set m = set_mset (image_mset err (mset ?E))" by blast
    have "(\<Sum>e \<in> fst ` set m. log_error_count es e) = size (image_mset err (mset ?E))"
      unfolding keys c by (rule size_multiset_overloaded_eq [symmetric])
    then show ?thesis by (simp only: size_image_mset size_mset log_latencies_def length_map)
  qed
  finally show ?thesis .
qed


lemma finish_represents:
  assumes rep: "represents sha l es" and wf: "list_all (\<lambda>(i, t, out). duration_wf t) es"
    and len: "length es < 2 ^ 64" and el: "duration_wf elapsed" "\<not> duration_is_zero elapsed"
  obtains p where "ledger_finish l elapsed = Inr (p, log_accepted sha es)"
    "unat (attempts (counts p)) = length es"
    "unat (accepted (counts p)) = length (log_latencies (\<lambda>out. out = Accepted) es)"
    "unat (conflicts (counts p)) = length (log_latencies (\<lambda>out. out = Conflict) es)"
    "unat (errors (counts p)) = length (log_latencies is_error es)"
    "in_range 0 1 (conflict_rate p)" "in_range 0 1 (error_rate p)"
    "conflict_rate p = ratio (conflicts (counts p)) (attempts (counts p))"
    "error_rate p = ratio (errors (counts p)) (attempts (counts p))"
    "is_finite (attempted_throughput_per_second p)" "is_finite (accepted_throughput_per_second p)"
    "error_counts p = map (\<lambda>(e, n). \<lparr>ec_error = e, ec_count = n\<rparr>) (led_error_counts l)"
    "summarises (lat_all (latency_ms p)) (log_latencies (\<lambda>_. True) es)"
    "summarises (lat_accepted (latency_ms p)) (log_latencies (\<lambda>out. out = Accepted) es)"
    "summarises (lat_conflicts (latency_ms p)) (log_latencies (\<lambda>out. out = Conflict) es)"
    "summarises (lat_errors (latency_ms p)) (log_latencies is_error es)"
proof -
  note sp = log_latencies_split [of es]
  have L: "length (led_all l) < 2 ^ 64" "length (led_accepted l) < 2 ^ 64" "length (led_conflicts l) < 2 ^ 64"
    "length (led_errors l) < 2 ^ 64"
    using rep len sp by (simp_all add: represents_def)
  have W: "list_all duration_wf (led_all l)" "list_all duration_wf (led_accepted l)"
    "list_all duration_wf (led_conflicts l)" "list_all duration_wf (led_errors l)"
    using rep wf by (simp_all add: represents_def log_latencies_wf)
  obtain a b c d where n: "count_samples (led_all l) = Inr a" "unat a = length (led_all l)"
    "count_samples (led_accepted l) = Inr b" "unat b = length (led_accepted l)"
    "count_samples (led_conflicts l) = Inr c" "unat c = length (led_conflicts l)"
    "count_samples (led_errors l) = Inr d" "unat d = length (led_errors l)"
    using L [THEN count_samples_Ok] by blast
  obtain da db dc dd where o: "optional_distribution (led_all l) = Inr da" "summarises da (led_all l)"
    "optional_distribution (led_accepted l) = Inr db" "summarises db (led_accepted l)"
    "optional_distribution (led_conflicts l) = Inr dc" "summarises dc (led_conflicts l)"
    "optional_distribution (led_errors l) = Inr dd" "summarises dd (led_errors l)"
    using optional_distribution_Ok [OF W(1) L(1)] optional_distribution_Ok [OF W(2) L(2)]
      optional_distribution_Ok [OF W(3) L(3)] optional_distribution_Ok [OF W(4) L(4)] by blast
  have sum: "unat b + unat c + unat d = unat a" "unat a = length es"
    using sp rep n by (simp_all add: represents_def)
  have acc: "fully_accounted \<lparr>attempts = a, accepted = b, conflicts = c, errors = d\<rparr>"
    using sum unsigned_less [of a, where 'a = nat]
    by (auto simp: fully_accounted_def checked_add_def unat_word_ariths word_unat_eq_iff)
  obtain r r' where p: "per_second a elapsed = Inr r" "is_finite r" "per_second b elapsed = Inr r'" "is_finite r'"
    using per_second_Ok [OF el] by metis
  have ar: "led_accepted_requests l = log_accepted sha es" using rep by (simp add: represents_def)
  have le: "unat c \<le> unat a" "unat d \<le> unat a" using sum(1) by simp_all
  show ?thesis
  proof (rule that)
    show "ledger_finish l elapsed = Inr (\<lparr>elapsed_ms = as_millis_f64 elapsed,
      counts = \<lparr>attempts = a, accepted = b, conflicts = c, errors = d\<rparr>,
      latency_ms = \<lparr>lat_all = da, lat_accepted = db, lat_conflicts = dc, lat_errors = dd\<rparr>,
      attempted_throughput_per_second = r, accepted_throughput_per_second = r',
      conflict_rate = ratio c a, error_rate = ratio d a,
      error_counts = map (\<lambda>(e, n). \<lparr>ec_error = e, ec_count = n\<rparr>) (led_error_counts l)\<rparr>, log_accepted sha es)"
      using acc ar by (simp add: ledger_finish_def ledger_counts_def ledger_latencies_def n o p)
  qed (use sum n o p rep le ratio_range in \<open>auto simp: represents_def sp\<close>)
qed

text \<open>The error counters against the log: every error that occurred is listed once, in the order of
  the errors, with the number of requests that failed with it.\<close>

definition counts_errors :: "error_count list \<Rightarrow> log_entry list \<Rightarrow> bool" where
  "counts_errors cs es \<longleftrightarrow>
     sorted_wrt (<) (map ec_error cs)
     \<and> ec_error ` set cs = {e. 0 < log_error_count es e}
     \<and> list_all (\<lambda>c. unat (ec_count c) = log_error_count es (ec_error c)) cs"

lemma represents_error_total:
  assumes "represents sha l es"
  shows "(\<Sum>(e, n) \<leftarrow> led_error_counts l. unat n) = length (log_latencies is_error es)"
  by (rule log_error_total) (use assms in \<open>simp_all add: represents_def counter_def\<close>)

lemma represents_counts_errors:
  assumes "represents sha l es"
  shows "counts_errors (map (\<lambda>(e, n). \<lparr>ec_error = e, ec_count = n\<rparr>) (led_error_counts l)) es"
proof -
  let ?m = "led_error_counts l" and ?cs = "map (\<lambda>(e, n). \<lparr>ec_error = e, ec_count = n\<rparr>) (led_error_counts l)"
  have wf: "sorted_wrt (<) (map fst ?m)" and keys: "\<And>e. e \<in> fst ` set ?m \<longleftrightarrow> 0 < log_error_count es e"
    and vals: "\<And>e. unat (unwrap_or_default (btree_get ?m e)) = log_error_count es e"
    using assms by (simp_all add: represents_def btree_wf_def)
  have "distinct (map fst ?m)" using wf strict_sorted_iff by blast
  then have "unat n = log_error_count es e" if "(e, n) \<in> set ?m" for e n
    using vals [of e] that by (simp add: unwrap_or_default_def)
  then have counted: "list_all (\<lambda>c. unat (ec_count c) = log_error_count es (ec_error c)) ?cs"
    by (auto simp: list_all_iff)
  have errs: "map ec_error ?cs = map fst ?m" by (simp add: comp_def case_prod_unfold)
  then have "ec_error ` set ?cs = fst ` set ?m" by (metis list.set_map)
  with wf keys counted show ?thesis unfolding counts_errors_def errs by blast
qed

section \<open>Digests and sums\<close>

lemma hex_digit_inj: "m < 16 \<Longrightarrow> n < 16 \<Longrightarrow> hex_digit m = hex_digit n \<Longrightarrow> m = n"
proof -
  have "distinct ''0123456789abcdef''" by simp
  moreover have "length ''0123456789abcdef'' = 16" by simp
  ultimately show "m < 16 \<Longrightarrow> n < 16 \<Longrightarrow> hex_digit m = hex_digit n \<Longrightarrow> m = n"
    unfolding hex_digit_def by (simp only: nth_eq_iff_index_eq)
qed

lemma hex_byte_inj: "hex_byte a = hex_byte b \<Longrightarrow> a = b"
proof -
  assume eq: "hex_byte a = hex_byte b"
  have lt: "unat x div 16 < 16" "unat x mod 16 < 16" for x :: u8
    using unsigned_less [of x, where 'a = nat] by simp_all
  have "unat a div 16 = unat b div 16" "unat a mod 16 = unat b mod 16"
    by (rule hex_digit_inj; use eq lt in \<open>simp add: hex_byte_def\<close>)+
  then have "unat a = unat b" by (metis div_mult_mod_eq)
  then show "a = b" by (simp add: word_unat_eq_iff)
qed

lemma hex_concat_inj: "concat (map hex_byte xs) = concat (map hex_byte ys) \<Longrightarrow> xs = ys"
proof (induction xs arbitrary: ys)
  case Nil
  then show ?case by (cases ys) (auto simp: hex_byte_def)
next
  case (Cons x xs)
  then show ?case using hex_byte_inj by (cases ys) (auto simp: hex_byte_def)
qed

lemma digest_eq_iff: "digest_from_bytes sha a = digest_from_bytes sha b \<longleftrightarrow> sha a = sha b"
  by (auto simp: digest_from_bytes_def dest: hex_concat_inj)

lemma sum_accepted:
  "try_fold (\<lambda>total cs. ok_or (checked_add total (accepted cs)) CountOverflow) t cs =
     (let total = unat t + (\<Sum>c \<leftarrow> cs. unat (accepted c))
      in if 2 ^ 64 \<le> total then Inl CountOverflow else Inr (of_nat total))"
proof (induction cs arbitrary: t)
  case Nil
  then show ?case using unsigned_less [of t, where 'a = nat] by (simp add: Let_def)
next
  case (Cons c cs)
  show ?case
  proof (cases "unat t + unat (accepted c) < 2 ^ 64")
    case True
    then have "unat (t + accepted c) = unat t + unat (accepted c)" by (simp add: unat_word_ariths)
    with True Cons show ?thesis by (simp add: checked_add_def add.assoc)
  next
    case False
    then show ?thesis by (simp add: checked_add_def Let_def)
  qed
qed

lemma record_all_represents:
  "admits sha es \<Longrightarrow> \<exists>l. try_each (\<lambda>l (i, t, out). ledger_record sha l i t out) ledger_default es = (Inr (), l)
     \<and> represents sha l es"
  using ledger.record_all_rep [OF ledger.rep_empty, of sha es] by simp

section \<open>Sample data for the witnesses\<close>

definition demo_sha :: sha256 where
  "demo_sha s = map (\<lambda>c. of_nat (byte c)) s"

definition one_second :: duration where
  "one_second = \<lparr>dur_secs = 1, dur_nanos = 0\<rparr>"

definition demo_ledger :: "request_identity \<Rightarrow> request_outcome \<Rightarrow> request_ledger" where
  "demo_ledger i out = snd (ledger_record demo_sha ledger_default i one_second out)"

lemma demo_ledger_represents: "represents demo_sha (demo_ledger i out) [(i, one_second, out)]"
proof -
  have "admits demo_sha ([] @ [(i, one_second, out)])" by (simp add: admits_def ledger_simps)
  from record_represents [OF represents_default this] show ?thesis by (auto simp: demo_ledger_def)
qed

definition demo_timeout :: sanitized_request_error where
  "demo_timeout = SanitizedRequestError Timeout None"

lemma demo_digests:
  "identity_digest demo_sha ''a'' \<noteq> identity_digest demo_sha ''b''"
  "identity_digest demo_sha ''a'' \<noteq> identity_digest demo_sha ''c''"
  "identity_digest demo_sha ''b'' \<noteq> identity_digest demo_sha ''c''"
  by (simp_all add: identity_digest_def digest_eq_iff demo_sha_def byte_def)

lemma one_second_wf [simp]: "duration_wf one_second" "\<not> duration_is_zero one_second"
  by (simp_all add: one_second_def duration_wf_def duration_is_zero_def)

section \<open>Properties\<close>

text \<open>C8. A benchmark phase is accounted for in full: when the workers of a phase record requests
  with pairwise different digests, each into its own ledger, merging the ledgers into an empty one
  and finishing it succeeds. The counters of the evidence are the numbers of accepted, conflicting
  and failed requests, the error counters list exactly the errors that occurred, each once and in
  order, with the number of requests that failed with it, every latency summary is the distribution
  of exactly the latencies of its outcome and is accepted by the contract's own validator, the two
  rates are the quotients of these counters and lie between 0 and 1, and the accepted digests are
  those of the accepted requests.\<close>

theorem phase_accounting:
  assumes "admits sha (concat ess)" "list_all2 (represents sha) ls ess"
    and "list_all (\<lambda>(i, t, out). duration_wf t) (concat ess)" "length (concat ess) < 2 ^ 64"
    and "duration_wf elapsed" "\<not> duration_is_zero elapsed"
  shows "\<exists>l p. try_each ledger_try_merge ledger_default ls = (Inr (), l)
    \<and> ledger_finish l elapsed = Inr (p, log_accepted sha (concat ess))
    \<and> unat (attempts (counts p)) = length (concat ess)
    \<and> unat (accepted (counts p)) = length (log_latencies (\<lambda>out. out = Accepted) (concat ess))
    \<and> unat (conflicts (counts p)) = length (log_latencies (\<lambda>out. out = Conflict) (concat ess))
    \<and> unat (errors (counts p)) = length (log_latencies is_error (concat ess))
    \<and> unat (errors (counts p)) = (\<Sum>c \<leftarrow> error_counts p. unat (ec_count c))
    \<and> counts_errors (error_counts p) (concat ess)
    \<and> summarises (lat_all (latency_ms p)) (log_latencies (\<lambda>_. True) (concat ess))
    \<and> summarises (lat_accepted (latency_ms p)) (log_latencies (\<lambda>out. out = Accepted) (concat ess))
    \<and> summarises (lat_conflicts (latency_ms p)) (log_latencies (\<lambda>out. out = Conflict) (concat ess))
    \<and> summarises (lat_errors (latency_ms p)) (log_latencies is_error (concat ess))
    \<and> conflict_rate p = ratio (conflicts (counts p)) (attempts (counts p)) \<and> in_range 0 1 (conflict_rate p)
    \<and> error_rate p = ratio (errors (counts p)) (attempts (counts p)) \<and> in_range 0 1 (error_rate p)"
proof -
  obtain l where l: "try_each ledger_try_merge ledger_default ls = (Inr (), l)" "represents sha l (concat ess)"
    using ledger.merge_all_rep [OF ledger.rep_empty assms(2)] assms(1) by auto
  obtain p where p: "ledger_finish l elapsed = Inr (p, log_accepted sha (concat ess))"
    "unat (attempts (counts p)) = length (concat ess)"
    "unat (accepted (counts p)) = length (log_latencies (\<lambda>out. out = Accepted) (concat ess))"
    "unat (conflicts (counts p)) = length (log_latencies (\<lambda>out. out = Conflict) (concat ess))"
    "unat (errors (counts p)) = length (log_latencies is_error (concat ess))"
    "in_range 0 1 (conflict_rate p)" "in_range 0 1 (error_rate p)"
    "conflict_rate p = ratio (conflicts (counts p)) (attempts (counts p))"
    "error_rate p = ratio (errors (counts p)) (attempts (counts p))"
    "error_counts p = map (\<lambda>(e, n). \<lparr>ec_error = e, ec_count = n\<rparr>) (led_error_counts l)"
    "summarises (lat_all (latency_ms p)) (log_latencies (\<lambda>_. True) (concat ess))"
    "summarises (lat_accepted (latency_ms p)) (log_latencies (\<lambda>out. out = Accepted) (concat ess))"
    "summarises (lat_conflicts (latency_ms p)) (log_latencies (\<lambda>out. out = Conflict) (concat ess))"
    "summarises (lat_errors (latency_ms p)) (log_latencies is_error (concat ess))"
    by (rule finish_represents [OF l(2) assms(3-6)]) blast
  have "unat (errors (counts p)) = (\<Sum>c \<leftarrow> error_counts p. unat (ec_count c))"
    using represents_error_total [OF l(2)] p(5,10) by (simp add: comp_def case_prod_unfold)
  moreover have "counts_errors (error_counts p) (concat ess)"
    unfolding p(10) by (rule represents_counts_errors [OF l(2)])
  ultimately show ?thesis using l(1) p by blast
qed

theorem phase_accounting_witness:
  "\<exists>l p. try_each ledger_try_merge ledger_default
        [demo_ledger ''a'' Accepted, demo_ledger ''b'' Conflict, demo_ledger ''c'' (RequestError demo_timeout)] = (Inr (), l)
    \<and> ledger_finish l one_second = Inr (p, {identity_digest demo_sha ''a''})
    \<and> unat (attempts (counts p)) = 3 \<and> unat (accepted (counts p)) = 1
    \<and> unat (conflicts (counts p)) = 1 \<and> unat (errors (counts p)) = 1
    \<and> summarises (lat_conflicts (latency_ms p)) [one_second] \<and> summarises (lat_errors (latency_ms p)) [one_second]
    \<and> ec_error ` set (error_counts p) = {demo_timeout}"
proof -
  let ?ess = "[[(''a'', one_second, Accepted)], [(''b'', one_second, Conflict)],
    [(''c'', one_second, RequestError demo_timeout)]]"
  have adm: "admits demo_sha (concat ?ess)"
    using demo_digests by (simp add: admits_def log_digests_def log_error_count_def)
  have reps: "list_all2 (represents demo_sha) [demo_ledger ''a'' Accepted, demo_ledger ''b'' Conflict,
      demo_ledger ''c'' (RequestError demo_timeout)] ?ess"
    using demo_ledger_represents by simp
  have durations: "list_all (\<lambda>(i, t, out). duration_wf t) (concat ?ess)" and short: "length (concat ?ess) < 2 ^ 64"
    by simp_all
  have log: "log_accepted demo_sha (concat ?ess) = {identity_digest demo_sha ''a''}"
    "log_latencies (\<lambda>out. out = Accepted) (concat ?ess) = [one_second]"
    "log_latencies (\<lambda>out. out = Conflict) (concat ?ess) = [one_second]"
    "log_latencies is_error (concat ?ess) = [one_second]"
    "{e. 0 < log_error_count (concat ?ess) e} = {demo_timeout}"
    by (auto simp: log_accepted_def log_digests_def log_latencies_def log_error_count_def)
  obtain l p where lp: "try_each ledger_try_merge ledger_default
        [demo_ledger ''a'' Accepted, demo_ledger ''b'' Conflict, demo_ledger ''c'' (RequestError demo_timeout)] = (Inr (), l)"
    "ledger_finish l one_second = Inr (p, log_accepted demo_sha (concat ?ess))"
    "unat (attempts (counts p)) = length (concat ?ess)"
    "unat (accepted (counts p)) = length (log_latencies (\<lambda>out. out = Accepted) (concat ?ess))"
    "unat (conflicts (counts p)) = length (log_latencies (\<lambda>out. out = Conflict) (concat ?ess))"
    "unat (errors (counts p)) = length (log_latencies is_error (concat ?ess))"
    "summarises (lat_conflicts (latency_ms p)) (log_latencies (\<lambda>out. out = Conflict) (concat ?ess))"
    "summarises (lat_errors (latency_ms p)) (log_latencies is_error (concat ?ess))"
    "counts_errors (error_counts p) (concat ?ess)"
    using phase_accounting [OF adm reps durations short one_second_wf] by blast
  from lp show ?thesis unfolding log counts_errors_def by - (rule exI [of _ l], rule exI [of _ p], simp)
qed

text \<open>C31. Merging is all or nothing: when \<open>try_merge\<close> answers an error, the ledger it was called on
  is exactly as before, so a failed merge never half-counts a worker.\<close>

theorem try_merge_atomic:
  assumes "fst (ledger_try_merge l other) = Inl e"
  shows "snd (ledger_try_merge l other) = l"
  using assms by (auto simp: ledger_try_merge_def accepted_try_extend_def split: if_splits)

theorem try_merge_atomic_witness:
  "snd (ledger_try_merge (demo_ledger ''a'' Accepted) (demo_ledger ''a'' Conflict)) = demo_ledger ''a'' Accepted"
  by (rule try_merge_atomic [where e = DuplicateRequestIdentity])
    (simp add: ledger_try_merge_def demo_ledger_def ledger_record_def ledger_default_def)

text \<open>C11. A merge of two ledgers succeeds exactly when no request digest occurs in both and no
  per-error counter would exceed its 64 bits; the merged ledger then stands for the two logs one
  after the other.\<close>

theorem try_merge_refines:
  assumes "represents sha l es" "represents sha m fs"
  shows "(fst (ledger_try_merge l m) = Inr () \<longleftrightarrow> admits sha (es @ fs))
    \<and> (admits sha (es @ fs) \<longrightarrow> represents sha (snd (ledger_try_merge l m)) (es @ fs))"
  using merge_represents [OF assms] merge_refused [OF assms] by fastforce

theorem try_merge_refines_witness:
  "represents demo_sha (snd (ledger_try_merge (demo_ledger ''a'' Accepted) (demo_ledger ''b'' Conflict)))
     [(''a'', one_second, Accepted), (''b'', one_second, Conflict)]"
  using try_merge_refines [OF demo_ledger_represents demo_ledger_represents, of "''a''" Accepted "''b''" Conflict]
    demo_digests by (simp add: admits_def log_digests_def log_error_count_def)

text \<open>C32. Recording a request whose digest was seen answers \<open>DuplicateRequestIdentity\<close> and changes
  nothing; recording a new one extends the log the ledger stands for by exactly that request.\<close>

theorem record_refines:
  assumes "represents sha l es"
    and "\<forall>e. log_error_count (es @ [(i, t, out)]) e < 2 ^ 64"
  shows "if identity_digest sha i \<in> set (log_digests sha es)
    then ledger_record sha l i t out = (Inl DuplicateRequestIdentity, l)
    else fst (ledger_record sha l i t out) = Inr ()
      \<and> represents sha (snd (ledger_record sha l i t out)) (es @ [(i, t, out)])"
proof (cases "identity_digest sha i \<in> set (log_digests sha es)")
  case True
  then show ?thesis using record_duplicate [OF assms(1)] by simp
next
  case False
  then have "admits sha (es @ [(i, t, out)])"
    using assms by (simp add: admits_def represents_def ledger_simps)
  then show ?thesis using record_represents [OF assms(1)] False by fastforce
qed

theorem record_refines_witness:
  "fst (ledger_record demo_sha (demo_ledger ''a'' Accepted) ''a'' one_second Conflict) = Inl DuplicateRequestIdentity
   \<and> represents demo_sha (snd (ledger_record demo_sha (demo_ledger ''a'' Accepted) ''b'' one_second Conflict))
       [(''a'', one_second, Accepted), (''b'', one_second, Conflict)]"
  using record_refines [OF demo_ledger_represents, of "''a''" Accepted "''a''" one_second Conflict]
    record_refines [OF demo_ledger_represents, of "''a''" Accepted "''b''" one_second Conflict] demo_digests
  by (simp add: log_digests_def log_error_count_def)

text \<open>C33. Attribution of the final state: over a log whose digests do not collide with that of the
  observed property value, the attribution passes exactly when the value is the identity of a
  request that was accepted and the metadata lies within the table root.\<close>

theorem attribution_correct:
  assumes "\<forall>(i, t, out) \<in> set es. sha i = sha value \<longrightarrow> i = value"
  shows "attribution_passed (attribution_evaluate sha (Some value) (log_accepted sha es) within_root)
    \<longleftrightarrow> (\<exists>t. (value, t, Accepted) \<in> set es) \<and> within_root"
proof -
  have "contains_value sha (log_accepted sha es) value \<longleftrightarrow> (\<exists>t. (value, t, Accepted) \<in> set es)"
  proof
    assume "contains_value sha (log_accepted sha es) value"
    then obtain i t where it: "(i, t, Accepted) \<in> set es" "sha value = sha i"
      by (auto simp: contains_value_def log_accepted_def log_digests_def identity_digest_def digest_eq_iff)
    then have "i = value" using assms by fastforce
    with it show "\<exists>t. (value, t, Accepted) \<in> set es" by blast
  next
    assume "\<exists>t. (value, t, Accepted) \<in> set es"
    then show "contains_value sha (log_accepted sha es) value"
      by (force simp: contains_value_def log_accepted_def log_digests_def identity_digest_def)
  qed
  then show ?thesis by (simp add: attribution_passed_def attribution_evaluate_def)
qed

theorem attribution_correct_witness:
  "attribution_passed (attribution_evaluate demo_sha (Some ''a'')
     (log_accepted demo_sha [(''a'', one_second, Accepted)]) True)"
  using attribution_correct [of "[(''a'', one_second, Accepted)]" demo_sha "''a''" True] by simp

lemma growth_evaluate_eq:
  "growth_evaluate baseline final cs =
     (let total = (\<Sum>c \<leftarrow> cs. unat (accepted c))
      in if 2 ^ 64 \<le> total then Inl CountOverflow
         else Inr \<lparr>baseline_metadata_objects = baseline, final_metadata_objects = final,
           observed_growth = (if baseline \<le> final then Some (final - baseline) else None),
           minimum_required_growth = of_nat total,
           sufficient = (unat baseline + total \<le> unat final)\<rparr>)"
proof -
  let ?total = "\<Sum>c \<leftarrow> cs. unat (accepted c)"
  show ?thesis
  proof (cases "2 ^ 64 \<le> ?total")
    case True
    then show ?thesis by (simp add: growth_evaluate_def sum_accepted)
  next
    case False
    then have t: "unat (of_nat ?total :: u64) = ?total" by (simp add: unat_of_nat)
    have "is_some_and (checked_sub final baseline) (\<lambda>g. of_nat ?total \<le> g) \<longleftrightarrow> unat baseline + ?total \<le> unat final"
      by (auto simp: checked_sub_def word_le_nat_alt t unat_sub)
    with False show ?thesis
      by (simp add: growth_evaluate_def sum_accepted checked_sub_def Let_def)
  qed
qed

text \<open>C34. The growth judgement: the evaluation fails with \<open>CountOverflow\<close> exactly when the accepted
  requests of all phases exceed 64 bits; otherwise the growth is sufficient exactly when at least
  that many metadata objects were added, and a shrinking directory is never sufficient.\<close>

theorem growth_evaluate_correct:
  "growth_evaluate baseline final cs =
     (let total = (\<Sum>c \<leftarrow> cs. unat (accepted c))
      in if 2 ^ 64 \<le> total then Inl CountOverflow
         else Inr \<lparr>baseline_metadata_objects = baseline, final_metadata_objects = final,
           observed_growth = (if baseline \<le> final then Some (final - baseline) else None),
           minimum_required_growth = of_nat total,
           sufficient = (unat baseline + total \<le> unat final)\<rparr>)"
  by (rule growth_evaluate_eq)

end
