(* ===== verification/Contract_Scenario.thy ===== *)
theory Contract_Scenario
  imports Contract_Core
begin

text \<open>
  Scenario documents (\<open>crates/common/src/contract/scenario.rs\<close>): the data of an
  implementation-neutral scenario and its semantic validator. The lemmas show that an accepted
  scenario can be executed in the order it is written: every dependency names an earlier step, so
  the dependency relation is acyclic, and every assertion hangs on a step of the scenario.
\<close>

section \<open>Data\<close>

datatype contract_version = V1

datatype scenario_family =
    IcebergRest | ClientInteroperability | Concurrency | SecurityAndTenancy | Operations
  | MigrationAndFederation | SemanticInteroperability

datatype requirement_level = Required | Optional

record capability_requirement =
  req_capability :: capability_id
  req_level :: requirement_level
  req_description :: string
  req_specification :: "string option"

datatype actor_role =
    HarnessActor | CatalogActor | ClientActor | EngineActor | ObjectStoreActor | StateStoreActor
  | ExternalSink

record scenario_step =
  step_ident :: step_id
  step_actor :: actor_role
  step_operation :: string
  step_description :: string
  step_depends_on :: "step_id list"
  step_parameters :: "(string \<times> json) list"
  step_timeout_ms :: "u64 option"

datatype assertion_check =
    HttpStatus "u16 list"
  | JsonPointerEquals string json
  | ArtifactExists string
  | ObjectCountDelta u64
  | NoRequestErrors
  | ExactReplay
  | DataRead string
  | Custom string json

record assertion_spec =
  spec_ident :: assertion_id
  spec_step :: step_id
  spec_required :: bool
  spec_description :: string
  spec_check :: assertion_check

datatype classification_policy = StrictV1

record scenario =
  scn_contract_version :: contract_version
  scn_ident :: string
  scn_version :: u32
  scn_title :: string
  scn_description :: string
  scn_family :: scenario_family
  scn_classification :: classification_policy
  scn_tags :: "string list"
  scn_capabilities :: "capability_requirement list"
  scn_parameters :: "(string \<times> json) list"
  scn_steps :: "scenario_step list"
  scn_assertions :: "assertion_spec list"
  scn_extensions :: extensions

section \<open>The validator\<close>

fun validate_check :: "assertion_check \<Rightarrow> string \<Rightarrow> validation_issue list" where
  "validate_check (HttpStatus allowed) path =
     (if allowed = [] then [issue (child_path path ''allowed'') ''must contain at least one status code'']
      else concat (map (\<lambda>status. if 100 \<le> status \<and> status \<le> 599 then []
             else [issue (child_path path ''allowed'')
                     (''contains invalid HTTP status '' @ show_word status)]) allowed))"
| "validate_check (JsonPointerEquals pointer _) path =
     (if pointer \<noteq> [] \<and> \<not> starts_with pointer ''/''
      then [issue (child_path path ''pointer'') (''must be empty or start with '' @ quoted ''/'')] else [])"
| "validate_check (ArtifactExists role) path = require_non_empty role (child_path path ''role'')"
| "validate_check (DataRead expectation) path =
     require_non_empty expectation (child_path path ''expectation'')"
| "validate_check (Custom name _) path =
     require_non_empty name (child_path path ''name'')
     @ (if \<not> str_contains name ''/''
        then [issue (child_path path ''name'')
                (''must be namespaced (for example '' @ quoted ''org.example/check'' @ '')'')] else [])"
| "validate_check (ObjectCountDelta _) path = []"
| "validate_check NoRequestErrors path = []"
| "validate_check ExactReplay path = []"

text \<open>The map from step identifiers to positions; a later entry overwrites an earlier one.\<close>

definition step_positions :: "scenario_step list \<Rightarrow> step_id \<Rightarrow> nat option" where
  "step_positions steps = map_of (rev (zip (map step_ident steps) [0..<length steps]))"

definition dependency_issues ::
  "(step_id \<Rightarrow> nat option) \<Rightarrow> nat \<Rightarrow> string \<Rightarrow> step_id \<Rightarrow> validation_issue list" where
  "dependency_issues positions index step_path dependency =
     (case positions dependency of
        Some dependency_index \<Rightarrow>
          if dependency_index < index then []
          else [issue (child_path step_path ''depends_on'')
                  (''dependency '' @ quoted dependency @ '' must precede this step'')]
      | None \<Rightarrow> [issue (child_path step_path ''depends_on'')
                  (''references unknown step '' @ quoted dependency)])"

definition step_issues ::
  "(step_id \<Rightarrow> nat option) \<Rightarrow> string \<Rightarrow> nat \<times> scenario_step \<Rightarrow> validation_issue list" where
  "step_issues positions path = (\<lambda>(index, step).
     let step_path = indexed_path (child_path path ''steps'') index
     in id_issues (step_ident step) (child_path step_path ''id'')
        @ require_non_empty (step_operation step) (child_path step_path ''operation'')
        @ require_non_empty (step_description step) (child_path step_path ''description'')
        @ require_unique (step_depends_on step) (child_path step_path ''depends_on'')
        @ concat (map (dependency_issues positions index step_path) (step_depends_on step)))"

definition assertion_issues :: "step_id set \<Rightarrow> string \<Rightarrow> assertion_spec \<Rightarrow> validation_issue list" where
  "assertion_issues step_ids assertion_path assertion =
     id_issues (spec_ident assertion) (child_path assertion_path ''id'')
     @ (if spec_step assertion \<notin> step_ids
        then [issue (child_path assertion_path ''step'')
                (''references unknown step '' @ quoted (spec_step assertion))] else [])
     @ require_non_empty (spec_description assertion) (child_path assertion_path ''description'')
     @ validate_check (spec_check assertion) (child_path assertion_path ''check'')"

definition scenario_issues :: "scenario \<Rightarrow> string \<Rightarrow> validation_issue list" where
  "scenario_issues s path =
     id_issues (scn_ident s) (child_path path ''id'')
     @ (if scn_version s = 0
        then [issue (child_path path ''version'') ''must be greater than zero''] else [])
     @ require_non_empty (scn_title s) (child_path path ''title'')
     @ require_non_empty (scn_description s) (child_path path ''description'')
     @ (if scn_steps s = []
        then [issue (child_path path ''steps'') ''must contain at least one step''] else [])
     @ (if scn_assertions s = []
        then [issue (child_path path ''assertions'') ''must contain at least one assertion''] else [])
     @ require_unique (map step_ident (scn_steps s)) (child_path path ''steps'')
     @ require_unique (map spec_ident (scn_assertions s)) (child_path path ''assertions'')
     @ require_unique (map req_capability (scn_capabilities s)) (child_path path ''capabilities'')
     @ concat (map (step_issues (step_positions (scn_steps s)) path) (enumerate 0 (scn_steps s)))
     @ validate_each (assertion_issues (set (map step_ident (scn_steps s))))
         (child_path path ''assertions'') (scn_assertions s)
     @ validate_each (\<lambda>capability_path requirement.
           id_issues (req_capability requirement) (child_path capability_path ''capability'')
           @ require_non_empty (req_description requirement) (child_path capability_path ''description''))
         (child_path path ''capabilities'') (scn_capabilities s)"

section \<open>Accepted scenarios\<close>

lemma step_positions_Some:
  assumes "distinct (map step_ident steps)"
  shows "step_positions steps d = Some k \<longleftrightarrow> k < length steps \<and> step_ident (steps ! k) = d"
proof -
  let ?z = "zip (map step_ident steps) [0..<length steps]"
  have "distinct (map fst (rev ?z))" using assms by (simp flip: rev_map)
  then have "step_positions steps d = Some k \<longleftrightarrow> (d, k) \<in> set ?z"
    unfolding step_positions_def by (subst map_of_eq_Some_iff) simp_all
  also have "\<dots> \<longleftrightarrow> k < length steps \<and> step_ident (steps ! k) = d"
    by (force simp: set_zip)
  finally show ?thesis .
qed

lemma dependency_issues_Nil:
  "dependency_issues positions i p d = [] \<longleftrightarrow> (\<exists>k < i. positions d = Some k)"
  by (auto simp: dependency_issues_def split: option.splits)

lemma scenario_issues_steps:
  assumes "scenario_issues s path = []" "i < length (scn_steps s)"
  shows "step_issues (step_positions (scn_steps s)) path (i, scn_steps s ! i) = []"
  using assms by (auto simp: scenario_issues_def all_set_conv_all_nth nth_enumerate_eq)

lemma scenario_dependency_earlier:
  assumes ok: "scenario_issues s path = []" and i: "i < length (scn_steps s)"
    and d: "d \<in> set (step_depends_on (scn_steps s ! i))"
  shows "\<exists>k < i. step_ident (scn_steps s ! k) = d"
proof -
  have dist: "distinct (map step_ident (scn_steps s))"
    using ok by (simp add: scenario_issues_def require_unique_Nil)
  have "dependency_issues (step_positions (scn_steps s)) i (indexed_path (child_path path ''steps'') i) d = []"
    using scenario_issues_steps [OF ok i] d by (simp add: step_issues_def Let_def)
  then show ?thesis using step_positions_Some [OF dist] by (auto simp: dependency_issues_Nil)
qed

text \<open>The relation "depends on" between the steps of a scenario.\<close>

definition depends :: "scenario \<Rightarrow> (step_id \<times> step_id) set" where
  "depends s = {(d, step_ident step) | d step. step \<in> set (scn_steps s) \<and> d \<in> set (step_depends_on step)}"

lemma depends_increasing:
  assumes ok: "scenario_issues s path = []" and "(d, e) \<in> depends s"
  shows "\<exists>k i. k < i \<and> i < length (scn_steps s) \<and> step_positions (scn_steps s) d = Some k
    \<and> step_positions (scn_steps s) e = Some i"
proof -
  have dist: "distinct (map step_ident (scn_steps s))"
    using ok by (simp add: scenario_issues_def require_unique_Nil)
  obtain i where i: "i < length (scn_steps s)" "e = step_ident (scn_steps s ! i)"
    "d \<in> set (step_depends_on (scn_steps s ! i))"
    using assms(2) by (auto simp: depends_def in_set_conv_nth)
  with scenario_dependency_earlier [OF ok] obtain k where "k < i" "step_ident (scn_steps s ! k) = d" by blast
  with i have "k < i" "i < length (scn_steps s)" "step_positions (scn_steps s) d = Some k"
    "step_positions (scn_steps s) e = Some i"
    by (simp_all add: step_positions_Some [OF dist])
  then show ?thesis by blast
qed

section \<open>Properties\<close>

text \<open>C28. An accepted scenario is executable in the order it is written: its steps have pairwise
  different identifiers, every dependency of a step names a strictly earlier step, so that the
  dependency relation is acyclic, and every assertion refers to a step of the scenario.\<close>

theorem scenario_executable:
  assumes "validate_with (scenario_issues s) = Inr ()"
  shows "distinct (map step_ident (scn_steps s)) \<and> acyclic (depends s)
    \<and> (\<forall>i < length (scn_steps s). \<forall>d \<in> set (step_depends_on (scn_steps s ! i)).
         \<exists>k < i. step_ident (scn_steps s ! k) = d)
    \<and> scn_steps s \<noteq> [] \<and> scn_assertions s \<noteq> []
    \<and> (\<forall>a \<in> set (scn_assertions s). spec_step a \<in> step_ident ` set (scn_steps s))"
proof -
  have ok: "scenario_issues s ''$'' = []" using assms by simp
  let ?pos = "\<lambda>d. case step_positions (scn_steps s) d of Some k \<Rightarrow> k | None \<Rightarrow> 0"
  have "depends s \<subseteq> measure ?pos"
    using depends_increasing [OF ok] by fastforce
  then have "acyclic (depends s)" by (meson wf_acyclic wf_measure wf_subset)
  moreover have "\<forall>i < length (scn_assertions s). spec_step (scn_assertions s ! i) \<in> step_ident ` set (scn_steps s)"
    using ok by (auto simp: scenario_issues_def validate_each_Nil assertion_issues_def split: if_splits)
  then have "\<forall>a \<in> set (scn_assertions s). spec_step a \<in> step_ident ` set (scn_steps s)"
    by (simp add: all_set_conv_all_nth)
  moreover have "distinct (map step_ident (scn_steps s))" "scn_steps s \<noteq> []" "scn_assertions s \<noteq> []"
    using ok by (simp_all add: scenario_issues_def require_unique_Nil split: if_splits)
  ultimately show ?thesis
    using scenario_dependency_earlier [OF ok] by blast
qed

definition demo_scenario :: scenario where
  "demo_scenario = \<lparr>scn_contract_version = V1, scn_ident = ''s'', scn_version = 1, scn_title = ''t'',
     scn_description = ''d'', scn_family = Concurrency, scn_classification = StrictV1, scn_tags = [],
     scn_capabilities = [], scn_parameters = [],
     scn_steps = [\<lparr>step_ident = ''a'', step_actor = HarnessActor, step_operation = ''o'', step_description = ''d'',
                    step_depends_on = [], step_parameters = [], step_timeout_ms = None\<rparr>,
                  \<lparr>step_ident = ''b'', step_actor = ClientActor, step_operation = ''o'', step_description = ''d'',
                    step_depends_on = [''a''], step_parameters = [], step_timeout_ms = None\<rparr>],
     scn_assertions = [\<lparr>spec_ident = ''x'', spec_step = ''b'', spec_required = True, spec_description = ''d'',
                         spec_check = HttpStatus [200, 409]\<rparr>],
     scn_extensions = []\<rparr>"

theorem scenario_executable_witness: "acyclic (depends demo_scenario)"
proof -
  have "validate_with (scenario_issues demo_scenario) = Inr ()" by code_simp
  from scenario_executable [OF this] show ?thesis by blast
qed

end
