(* ===== verification/Contract_Result.thy ===== *)
theory Contract_Result
  imports Contract_Measure Contract_Scenario
begin

text \<open>
  Result records (\<open>crates/common/src/contract/result.rs\<close>): identity of scenario, profile,
  components and run, the captured environment, assertion evaluations, evidence and the exhaustive
  outcome, with the validator. Measurements are in the theory of that name.
\<close>

section \<open>Data\<close>

record scenario_reference =
  sref_ident :: string
  sref_version :: u32
  sref_digest :: digest

record profile_reference =
  pref_ident :: string
  pref_digest :: digest

record executed_component =
  exe_profile_component :: component_id
  exe_name :: string
  exe_version :: string

datatype run_identity =
    Single string string string u32 "u64 option"
  | Aggregate string string "u32 list" "u32 list" string

datatype 'a captured =
    Exact 'a
  | Approximate 'a string
  | Unknown string

record environment_manifest =
  env_operating_system :: string
  env_architecture :: string
  env_cpu_model :: "string captured"
  env_logical_cpus :: "u32 captured"
  env_memory_bytes :: "u64 captured"
  env_cpu_limit :: "f64 option"
  env_memory_limit_bytes :: "u64 option"
  env_network :: string
  env_container_runtime :: "string captured"
  env_runtime_flags :: string_map
  env_extensions :: extensions

datatype failure_category =
    AssertionFailure | TransportFailure | CatalogFailure | ClientFailure | HarnessFailure
  | EnvironmentFailure

record failure =
  fail_category :: failure_category
  fail_summary :: string
  fail_detail :: string
  fail_retryable :: bool
  fail_evidence :: "evidence_id list"

record unsupported_capability =
  uns_capability :: capability_id
  uns_explanation :: string
  uns_upstream_reference :: "string option"

record not_tested_reason =
  nt_explanation :: string
  nt_blocking_dependency :: "string option"

datatype result_outcome =
    Pass "string option"
  | Fail failure
  | Unsupported unsupported_capability
  | NotTested not_tested_reason

datatype assertion_outcome =
    APass
  | AFail string
  | ANotEvaluated string

record assertion_evaluation =
  eval_assertion :: assertion_id
  eval_required :: bool
  eval_outcome :: assertion_outcome
  eval_evidence :: "evidence_id list"

datatype evidence_kind =
    HttpTranscript | Log | ObjectAudit | QueryOutput | CatalogState | Lineage | PolicyReceipt
  | GraphProof | OtherEvidence

record evidence =
  ev_ident :: evidence_id
  ev_kind :: evidence_kind
  ev_artifact :: artifact_reference
  ev_sanitized :: bool
  ev_redactions :: "string list"
  ev_extensions :: extensions

record result_record =
  res_contract_version :: contract_version
  res_ident :: string
  res_scenario :: scenario_reference
  res_profile :: profile_reference
  res_catalog :: executed_component
  res_client :: "executed_component option"
  res_adapters :: "component_id list"
  res_run :: run_identity
  res_outcome :: result_outcome
  res_environment :: environment_manifest
  res_assertions :: "assertion_evaluation list"
  res_measurements :: "measured_phase list"
  res_evidence :: "evidence list"
  res_artifacts :: "artifact_reference list"
  res_extensions :: extensions

section \<open>Validators\<close>

definition validate_scenario_reference :: "scenario_reference \<Rightarrow> string \<Rightarrow> validation_issue list" where
  "validate_scenario_reference r path =
     id_issues (sref_ident r) (child_path path ''id'')
     @ (if sref_version r = 0
        then [issue (child_path path ''version'') ''must be greater than zero''] else [])
     @ digest_issues (sref_digest r) (child_path path ''digest'')"

definition validate_profile_reference :: "profile_reference \<Rightarrow> string \<Rightarrow> validation_issue list" where
  "validate_profile_reference r path =
     id_issues (pref_ident r) (child_path path ''id'')
     @ digest_issues (pref_digest r) (child_path path ''digest'')"

definition validate_executed_component :: "executed_component \<Rightarrow> string \<Rightarrow> validation_issue list" where
  "validate_executed_component c path =
     id_issues (exe_profile_component c) (child_path path ''profile_component'')
     @ require_non_empty (exe_name c) (child_path path ''name'')
     @ require_non_empty (exe_version c) (child_path path ''version'')"

fun validate_run :: "run_identity \<Rightarrow> string \<Rightarrow> validation_issue list" where
  "validate_run (Single ident started_at finished_at repetition _) path =
     require_non_empty ident (child_path path ''id'')
     @ require_non_empty started_at (child_path path ''started_at'')
     @ require_non_empty finished_at (child_path path ''finished_at'')
     @ (if repetition = 0
        then [issue (child_path path ''repetition'') ''must be greater than zero''] else [])"
| "validate_run (Aggregate ident period included excluded aggregation) path =
     require_non_empty ident (child_path path ''id'')
     @ require_non_empty period (child_path path ''period'')
     @ require_non_empty aggregation (child_path path ''aggregation'')
     @ (if included = []
        then [issue (child_path path ''included_repetitions'') ''must contain at least one repetition'']
        else [])
     @ require_unique (map (\<lambda>r. show_word r) included) (child_path path ''included_repetitions'')
     @ require_unique (map (\<lambda>r. show_word r) excluded) (child_path path ''excluded_repetitions'')
     @ concat (map (\<lambda>r. if r = 0
         then [issue path ''repetition numbers must be greater than zero''] else []) (included @ excluded))
     @ concat (map (\<lambda>r. if r \<in> set excluded
         then [issue path (''repetition '' @ show_word r @ '' cannot be both included and excluded'')]
         else []) included)"

fun validate_captured_text :: "string captured \<Rightarrow> string \<Rightarrow> validation_issue list" where
  "validate_captured_text (Exact value) path = require_non_empty value (child_path path ''value'')"
| "validate_captured_text (Approximate value explanation) path =
     require_non_empty value (child_path path ''value'')
     @ require_non_empty explanation (child_path path ''explanation'')"
| "validate_captured_text (Unknown explanation) path =
     require_non_empty explanation (child_path path ''explanation'')"

text \<open>One definition for the two copies of the source, at the widths 32 and 64.\<close>

fun validate_captured_positive :: "'a::len word captured \<Rightarrow> string \<Rightarrow> validation_issue list" where
  "validate_captured_positive (Exact value) path =
     (if value = 0 then [issue (child_path path ''value'') ''must be greater than zero''] else [])"
| "validate_captured_positive (Approximate value explanation) path =
     (if value = 0 then [issue (child_path path ''value'') ''must be greater than zero'']
      else require_non_empty explanation (child_path path ''explanation''))"
| "validate_captured_positive (Unknown explanation) path =
     require_non_empty explanation (child_path path ''explanation'')"

definition validate_environment :: "environment_manifest \<Rightarrow> string \<Rightarrow> validation_issue list" where
  "validate_environment e path =
     require_non_empty (env_operating_system e) (child_path path ''operating_system'')
     @ require_non_empty (env_architecture e) (child_path path ''architecture'')
     @ validate_captured_text (env_cpu_model e) (child_path path ''cpu_model'')
     @ validate_captured_positive (env_logical_cpus e) (child_path path ''logical_cpus'')
     @ validate_captured_positive (env_memory_bytes e) (child_path path ''memory_bytes'')
     @ require_non_empty (env_network e) (child_path path ''network'')
     @ validate_captured_text (env_container_runtime e) (child_path path ''container_runtime'')
     @ (case env_cpu_limit e of None \<Rightarrow> []
        | Some limit \<Rightarrow>
            require_finite_non_negative limit (child_path path ''cpu_limit'')
            @ (if is_finite limit \<and> f64_val limit = 0
               then [issue (child_path path ''cpu_limit'') ''must be greater than zero when present'']
               else []))"

definition validate_evidence_references ::
  "evidence_id list \<Rightarrow> evidence_id set \<Rightarrow> string \<Rightarrow> validation_issue list" where
  "validate_evidence_references references available path =
     require_unique references path
     @ concat (map (\<lambda>r. if r \<notin> available
         then [issue path (''references unknown evidence '' @ quoted r)] else []) references)"

definition validate_result_outcome ::
  "result_outcome \<Rightarrow> assertion_evaluation list \<Rightarrow> evidence_id set \<Rightarrow> string \<Rightarrow> validation_issue list" where
  "validate_result_outcome outcome assertions evidence_ids path =
     (case outcome of
        Pass summary \<Rightarrow>
          (case summary of None \<Rightarrow> [] | Some s \<Rightarrow> require_non_empty s (child_path path ''summary''))
          @ (if assertions = []
             then [issue (child_path path ''status'') ''pass requires at least one assertion evaluation'']
             else [])
          @ concat (map (\<lambda>e. if eval_outcome e \<noteq> APass
              then [issue (child_path path ''status'')
                      (''pass requires required assertion '' @ quoted (eval_assertion e) @ '' to pass'')]
              else []) (filter eval_required assertions))
      | Fail f \<Rightarrow>
          require_non_empty (fail_summary f) (child_path path ''failure.summary'')
          @ require_non_empty (fail_detail f) (child_path path ''failure.detail'')
          @ validate_evidence_references (fail_evidence f) evidence_ids (child_path path ''failure.evidence'')
      | Unsupported l \<Rightarrow>
          id_issues (uns_capability l) (child_path path ''limitation.capability'')
          @ require_non_empty (uns_explanation l) (child_path path ''limitation.explanation'')
      | NotTested r \<Rightarrow> require_non_empty (nt_explanation r) (child_path path ''reason.explanation''))"

definition evidence_issues :: "string \<Rightarrow> evidence \<Rightarrow> validation_issue list" where
  "evidence_issues evidence_path e =
     id_issues (ev_ident e) (child_path evidence_path ''id'')
     @ artifact_issues (ev_artifact e) (child_path evidence_path ''artifact'')
     @ (if \<not> ev_sanitized e
        then [issue (child_path evidence_path ''sanitized'') ''must be true for a publishable result'']
        else [])"

definition evaluation_issues :: "evidence_id set \<Rightarrow> string \<Rightarrow> assertion_evaluation \<Rightarrow> validation_issue list" where
  "evaluation_issues evidence_ids assertion_path e =
     id_issues (eval_assertion e) (child_path assertion_path ''assertion'')
     @ validate_evidence_references (eval_evidence e) evidence_ids (child_path assertion_path ''evidence'')
     @ (case eval_outcome e of APass \<Rightarrow> []
        | AFail explanation \<Rightarrow>
            require_non_empty explanation (child_path assertion_path ''outcome.explanation'')
        | ANotEvaluated reason \<Rightarrow>
            require_non_empty reason (child_path assertion_path ''outcome.reason''))"

definition result_issues :: "result_record \<Rightarrow> string \<Rightarrow> validation_issue list" where
  "result_issues r path =
     (let evidence_ids = set (map ev_ident (res_evidence r))
      in id_issues (res_ident r) (child_path path ''id'')
         @ validate_scenario_reference (res_scenario r) (child_path path ''scenario'')
         @ validate_profile_reference (res_profile r) (child_path path ''profile'')
         @ validate_executed_component (res_catalog r) (child_path path ''catalog'')
         @ (case res_client r of None \<Rightarrow> []
            | Some c \<Rightarrow> validate_executed_component c (child_path path ''client''))
         @ validate_run (res_run r) (child_path path ''run'')
         @ validate_environment (res_environment r) (child_path path ''environment'')
         @ require_unique (map eval_assertion (res_assertions r)) (child_path path ''assertions'')
         @ require_unique (map ev_ident (res_evidence r)) (child_path path ''evidence'')
         @ validate_each evidence_issues (child_path path ''evidence'') (res_evidence r)
         @ validate_each (evaluation_issues evidence_ids) (child_path path ''assertions'') (res_assertions r)
         @ validate_result_outcome (res_outcome r) (res_assertions r) evidence_ids (child_path path ''outcome'')
         @ validate_each (\<lambda>q m. validate_phase m q) (child_path path ''measurements'') (res_measurements r)
         @ validate_artifacts (res_artifacts r) (child_path path ''artifacts''))"

section \<open>Accepted results\<close>

lemma evidence_references_Nil [validate_simps]:
  "validate_evidence_references rs available p = [] \<longleftrightarrow> distinct rs \<and> set rs \<subseteq> available"
  by (auto simp: validate_evidence_references_def require_unique_Nil)

lemma result_issues_assertions:
  assumes "result_issues r path = []" "e \<in> set (res_assertions r)"
  shows "set (eval_evidence e) \<subseteq> ev_ident ` set (res_evidence r)"
proof -
  have "\<forall>i < length (res_assertions r). set (eval_evidence (res_assertions r ! i)) \<subseteq> ev_ident ` set (res_evidence r)"
    using assms(1)
    by (simp add: result_issues_def Let_def validate_each_Nil evaluation_issues_def evidence_references_Nil)
  with assms(2) show ?thesis by (metis in_set_conv_nth)
qed

lemma result_issues_sanitized:
  assumes "result_issues r path = []" "e \<in> set (res_evidence r)"
  shows "ev_sanitized e"
proof -
  have "\<forall>i < length (res_evidence r). ev_sanitized (res_evidence r ! i)"
    using assms(1) by (auto simp: result_issues_def Let_def validate_each_Nil evidence_issues_def split: if_splits)
  with assms(2) show ?thesis by (metis in_set_conv_nth)
qed

section \<open>Properties\<close>

text \<open>C29. A result that the contract accepts as a pass is backed by its assertions: it has at least
  one evaluation, every required assertion passed, no assertion is evaluated twice, all evidence is
  sanitized, and every reference to evidence resolves inside the record.\<close>

theorem accepted_pass_sound:
  assumes "validate_with (result_issues r) = Inr ()" and "res_outcome r = Pass summary"
  shows "res_assertions r \<noteq> [] \<and> distinct (map eval_assertion (res_assertions r))
    \<and> (\<forall>e \<in> set (res_assertions r). eval_required e \<longrightarrow> eval_outcome e = APass)
    \<and> (\<forall>e \<in> set (res_evidence r). ev_sanitized e)
    \<and> (\<forall>e \<in> set (res_assertions r). set (eval_evidence e) \<subseteq> ev_ident ` set (res_evidence r))"
proof -
  have ok: "result_issues r ''$'' = []" using assms(1) by simp
  then have out: "validate_result_outcome (Pass summary) (res_assertions r)
      (set (map ev_ident (res_evidence r))) (child_path ''$'' ''outcome'') = []"
    and dist: "distinct (map eval_assertion (res_assertions r))"
    using assms(2) by (simp_all add: result_issues_def Let_def require_unique_Nil)
  from out have "res_assertions r \<noteq> []"
    "\<forall>e \<in> set (res_assertions r). eval_required e \<longrightarrow> eval_outcome e = APass"
    by (auto simp: validate_result_outcome_def split: if_splits)
  with dist show ?thesis
    using result_issues_assertions [OF ok] result_issues_sanitized [OF ok] by blast
qed

definition demo_result :: result_record where
  "demo_result =
     (let dig = \<lparr>digest_alg = Sha256, digest_value = replicate 64 CHR ''0''\<rparr>
      in \<lparr>res_contract_version = V1, res_ident = ''r'',
          res_scenario = \<lparr>sref_ident = ''s'', sref_version = 1, sref_digest = dig\<rparr>,
          res_profile = \<lparr>pref_ident = ''p'', pref_digest = dig\<rparr>,
          res_catalog = \<lparr>exe_profile_component = ''c'', exe_name = ''n'', exe_version = ''1''\<rparr>,
          res_client = None, res_adapters = [],
          res_run = Single ''i'' ''2026'' ''2026'' 1 None,
          res_outcome = Pass None,
          res_environment = \<lparr>env_operating_system = ''linux'', env_architecture = ''arm64'',
            env_cpu_model = Exact ''m'', env_logical_cpus = Exact 4, env_memory_bytes = Unknown ''x'',
            env_cpu_limit = None, env_memory_limit_bytes = None, env_network = ''n'',
            env_container_runtime = Exact ''docker'', env_runtime_flags = [], env_extensions = []\<rparr>,
          res_assertions = [\<lparr>eval_assertion = ''a'', eval_required = True, eval_outcome = APass,
            eval_evidence = [''e'']\<rparr>],
          res_measurements = [],
          res_evidence = [\<lparr>ev_ident = ''e'', ev_kind = Log,
            ev_artifact = \<lparr>artifact_location = ''l'', artifact_media_type = ''m'', artifact_digest = dig,
              artifact_bytes = None, artifact_description = None, artifact_extensions = []\<rparr>,
            ev_sanitized = True, ev_redactions = [], ev_extensions = []\<rparr>],
          res_artifacts = [], res_extensions = []\<rparr>)"

theorem accepted_pass_sound_witness:
  "eval_outcome (hd (res_assertions demo_result)) = APass"
proof -
  have "validate_with (result_issues demo_result) = Inr ()" by code_simp
  moreover have "res_outcome demo_result = Pass None" by (simp add: demo_result_def Let_def)
  ultimately have "\<forall>e \<in> set (res_assertions demo_result). eval_required e \<longrightarrow> eval_outcome e = APass"
    using accepted_pass_sound by blast
  then show ?thesis by (simp add: demo_result_def Let_def)
qed

text \<open>C40. An accepted aggregate run separates its repetitions: the included and excluded ones are
  positive, without duplicates and disjoint, and at least one is included. The comparison of the
  source is on the decimal text of the numbers, which loses nothing.\<close>

theorem accepted_aggregate_run:
  assumes "validate_run (Aggregate ident period included excluded aggregation) path = []"
  shows "included \<noteq> [] \<and> distinct included \<and> distinct excluded \<and> set included \<inter> set excluded = {}
    \<and> 0 \<notin> set included \<union> set excluded"
proof -
  have inj: "distinct (map (\<lambda>r :: u32. show_word r) xs) \<longleftrightarrow> distinct xs" for xs
    by (rule distinct_map [THEN trans]) (simp add: inj_on_def word_unat_eq_iff)
  have single: "(if b then [x] else []) = [] \<longleftrightarrow> \<not> b" for b and x :: validation_issue by simp
  have "included \<noteq> []" "distinct included" "distinct excluded"
    and "\<forall>r \<in> set (included @ excluded). r \<noteq> 0" and "\<forall>r \<in> set included. r \<notin> set excluded"
    using assms unfolding validate_run.simps append_is_Nil_conv require_unique_Nil inj single
      concat_eq_Nil_conv set_map ball_simps by simp_all
  then show ?thesis by auto
qed

theorem accepted_aggregate_run_witness:
  "validate_run (Aggregate ''i'' ''2026'' [1, 2] [3] ''median'') ''$'' = []
   \<and> distinct [1, 2 :: u32] \<and> set [1, 2] \<inter> set [3 :: u32] = {}"
proof -
  have accepted: "validate_run (Aggregate ''i'' ''2026'' [1, 2] [3] ''median'') ''$'' = []" by code_simp
  with accepted_aggregate_run [OF accepted] show ?thesis by blast
qed

end
