(* ===== verification/Contract_Adapter.thy ===== *)
theory Contract_Adapter
  imports Contract_Core
begin

text \<open>
  Catalog adapters of a profile (\<open>crates/common/src/contract/adapter.rs\<close>): capability vocabulary,
  routing, authentication, shims and the exhaustive disposition of capabilities, with their
  validators. \<open>Url::parse\<close> of the crate \<open>url\<close> is the parameter \<open>url_parse\<close>: it answers the
  displayed error or the parts the sources read from a parsed URL.
\<close>

section \<open>Data\<close>

record url =
  url_scheme :: string
  url_host_str :: "string option"
  url_username :: string
  url_password :: "string option"
  url_path :: string
  url_query :: "string option"
  url_fragment :: "string option"

type_synonym url_parser = "string \<Rightarrow> string + url"

record catalog_capability =
  cap_ident :: capability_id
  cap_description :: string
  cap_specification :: "string option"

datatype catalog_protocol = IcebergRestV1

record catalog_config_request =
  config_path :: string
  config_query :: string_map

datatype catalog_route_prefix =
    Unprefixed
  | Static string
  | Negotiated string

record catalog_endpoint =
  base_url :: string
  endpoint_config :: catalog_config_request
  route_prefix :: catalog_route_prefix
  create_table_location :: "string option"

datatype catalog_authentication =
    Anonymous
  | OAuth2ClientCredentials string string string string

datatype adapter_request_handling =
    ProtocolNative
  | BehaviorChangingShim component_id string

definition shim_component :: "adapter_request_handling \<Rightarrow> component_id option" where
  "shim_component h = (case h of ProtocolNative \<Rightarrow> None | BehaviorChangingShim c _ \<Rightarrow> Some c)"

datatype capability_limitation_source = CatalogLimitation | AdapterLimitation

record unsupported_adapter_capability =
  lim_capability :: capability_id
  lim_attributed_to :: capability_limitation_source
  lim_explanation :: string
  lim_upstream_reference :: "string option"

datatype adapter_capability_coverage =
    ExerciseAll
  | Explicit "capability_id list" "unsupported_adapter_capability list"

definition exercises :: "adapter_capability_coverage \<Rightarrow> capability_id \<Rightarrow> bool" where
  "exercises coverage capability =
     (case coverage of ExerciseAll \<Rightarrow> True | Explicit exercise _ \<Rightarrow> capability \<in> set exercise)"

definition limitation ::
  "adapter_capability_coverage \<Rightarrow> capability_id \<Rightarrow> unsupported_adapter_capability option" where
  "limitation coverage capability =
     (case coverage of ExerciseAll \<Rightarrow> None
      | Explicit _ unsupported \<Rightarrow> find (\<lambda>l. lim_capability l = capability) unsupported)"

record catalog_adapter =
  adapter_catalog :: component_id
  adapter_protocol :: catalog_protocol
  adapter_endpoint :: catalog_endpoint
  adapter_authentication :: catalog_authentication
  adapter_handling :: adapter_request_handling
  adapter_capabilities :: adapter_capability_coverage
  adapter_extensions :: extensions

section \<open>Validators\<close>

definition capability_issues :: "string \<Rightarrow> catalog_capability \<Rightarrow> validation_issue list" where
  "capability_issues path c =
     id_issues (cap_ident c) (child_path path ''id'')
     @ require_non_empty (cap_description c) (child_path path ''description'')
     @ (case cap_specification c of None \<Rightarrow> []
        | Some s \<Rightarrow> require_non_empty s (child_path path ''specification''))"

definition validate_relative_path :: "string \<Rightarrow> string \<Rightarrow> validation_issue list" where
  "validate_relative_path value path =
     require_non_empty value path
     @ (if \<not> starts_with value ''/'' \<or> list_ex (\<lambda>c. c \<in> set ''?#'') value \<or> has_whitespace value
        then [issue path ''must be an absolute, query-free path relative to the adapter base URL'']
        else [])"

definition validate_http_base_url :: "url_parser \<Rightarrow> string \<Rightarrow> string \<Rightarrow> validation_issue list" where
  "validate_http_base_url url_parse value path =
     (case url_parse value of
        Inr u \<Rightarrow>
          if (url_scheme u = ''http'' \<or> url_scheme u = ''https'') \<and> url_host_str u \<noteq> None
             \<and> url_username u = [] \<and> url_password u = None \<and> url_query u = None
             \<and> url_fragment u = None \<and> \<not> ends_with value ''/''
          then []
          else [issue path ''must be an absolute HTTP(S) base URL without credentials, query, fragment, or trailing slash'']
      | Inl error \<Rightarrow> [issue path (''must be a valid absolute URL: '' @ error)])"

definition validate_warehouse_uri :: "url_parser \<Rightarrow> string \<Rightarrow> string \<Rightarrow> validation_issue list" where
  "validate_warehouse_uri url_parse value path =
     (case url_parse value of
        Inr u \<Rightarrow>
          if url_host_str u \<noteq> None \<and> url_username u = [] \<and> url_password u = None
             \<and> url_query u = None \<and> url_fragment u = None
          then []
          else [issue path ''must be an absolute warehouse URI without credentials, query, or fragment'']
      | Inl error \<Rightarrow> [issue path (''must be a valid absolute warehouse URI: '' @ error)])"

definition validate_environment_variable :: "string \<Rightarrow> string \<Rightarrow> validation_issue list" where
  "validate_environment_variable value path =
     require_non_empty value path
     @ (let valid_start = (case value of [] \<Rightarrow> False | c # _ \<Rightarrow> c = CHR ''_'' \<or> is_ascii_alphabetic c)
        in if \<not> valid_start \<or> \<not> list_all (\<lambda>c. c = CHR ''_'' \<or> is_ascii_alphanumeric c) (tl value)
           then [issue path ''must be a portable environment-variable name''] else [])"

definition validate_route_prefix :: "catalog_route_prefix \<Rightarrow> string \<Rightarrow> validation_issue list" where
  "validate_route_prefix rp path =
     (case rp of
        Unprefixed \<Rightarrow> []
      | Static value \<Rightarrow>
          require_non_empty value (child_path path ''value'')
          @ (if has_whitespace value \<or> list_ex (\<lambda>c. c \<in> set ''/?#'') value
             then [issue (child_path path ''value'') ''must be one unescaped path segment''] else [])
      | Negotiated pointer \<Rightarrow>
          require_non_empty pointer (child_path path ''config_json_pointer'')
          @ (if pointer \<noteq> ''/defaults/prefix'' \<and> pointer \<noteq> ''/overrides/prefix''
             then [issue (child_path path ''config_json_pointer'')
                     (''must resolve the standard '' @ quoted ''prefix''
                      @ '' property from config defaults or overrides'')] else []))"

definition limitation_issues ::
  "capability_id list \<Rightarrow> string \<Rightarrow> unsupported_adapter_capability \<Rightarrow> validation_issue list" where
  "limitation_issues exercise limitation_path l =
     id_issues (lim_capability l) (child_path limitation_path ''capability'')
     @ require_non_empty (lim_explanation l) (child_path limitation_path ''explanation'')
     @ (case lim_upstream_reference l of None \<Rightarrow> []
        | Some reference \<Rightarrow> require_non_empty reference (child_path limitation_path ''upstream_reference''))
     @ (if lim_capability l \<in> set exercise
        then [issue (child_path limitation_path ''capability'')
                (''capability '' @ quoted (lim_capability l) @ '' cannot be both exercised and unsupported'')]
        else [])"

definition validate_capability_coverage :: "adapter_capability_coverage \<Rightarrow> string \<Rightarrow> validation_issue list" where
  "validate_capability_coverage coverage path =
     (case coverage of ExerciseAll \<Rightarrow> []
      | Explicit exercise unsupported \<Rightarrow>
          require_unique exercise (child_path path ''exercise'')
          @ require_unique (map lim_capability unsupported) (child_path path ''unsupported'')
          @ validate_each (limitation_issues exercise) (child_path path ''unsupported'') unsupported)"

definition authentication_issues :: "catalog_authentication \<Rightarrow> string \<Rightarrow> validation_issue list" where
  "authentication_issues auth path =
     (case auth of Anonymous \<Rightarrow> []
      | OAuth2ClientCredentials token_path scope client_id_env client_secret_env \<Rightarrow>
          validate_relative_path token_path (child_path path ''authentication.token_path'')
          @ require_non_empty scope (child_path path ''authentication.scope'')
          @ validate_environment_variable client_id_env (child_path path ''authentication.client_id_env'')
          @ validate_environment_variable client_secret_env
              (child_path path ''authentication.client_secret_env'')
          @ (if client_id_env = client_secret_env
             then [issue (child_path path ''authentication.client_secret_env'')
                     ''must differ from the client-id environment variable''] else []))"

definition endpoint_issues :: "url_parser \<Rightarrow> catalog_endpoint \<Rightarrow> string \<Rightarrow> validation_issue list" where
  "endpoint_issues url_parse e path =
     validate_http_base_url url_parse (base_url e) (child_path path ''endpoint.base_url'')
     @ validate_relative_path (config_path (endpoint_config e)) (child_path path ''endpoint.config.path'')
     @ (if config_path (endpoint_config e) \<noteq> ''/v1/config''
        then [issue (child_path path ''endpoint.config.path'')
                (''Iceberg REST v1 config must use '' @ quoted ''/v1/config'' @ '' relative to the base URL'')]
        else [])
     @ concat (map (\<lambda>(key, value).
           require_non_empty key (child_path path ''endpoint.config.query'')
           @ require_non_empty value (child_path path ''endpoint.config.query''))
         (config_query (endpoint_config e)))
     @ reject_secret_like_keys (map fst (config_query (endpoint_config e)))
         (child_path path ''endpoint.config.query'')
     @ validate_route_prefix (route_prefix e) (child_path path ''endpoint.route_prefix'')
     @ (case create_table_location e of None \<Rightarrow> []
        | Some location \<Rightarrow>
            validate_warehouse_uri url_parse location (child_path path ''endpoint.create_table_location''))"

definition adapter_issues :: "url_parser \<Rightarrow> string \<Rightarrow> catalog_adapter \<Rightarrow> validation_issue list" where
  "adapter_issues url_parse path a =
     id_issues (adapter_catalog a) (child_path path ''catalog'')
     @ endpoint_issues url_parse (adapter_endpoint a) path
     @ authentication_issues (adapter_authentication a) path
     @ (case adapter_handling a of ProtocolNative \<Rightarrow> []
        | BehaviorChangingShim component description \<Rightarrow>
            id_issues component (child_path path ''request_handling.component'')
            @ require_non_empty description (child_path path ''request_handling.description''))
     @ validate_capability_coverage (adapter_capabilities a) (child_path path ''capabilities'')"

section \<open>What an accepted coverage promises\<close>

lemma limitation_Some_iff:
  "limitation (Explicit ex un) c \<noteq> None \<longleftrightarrow> c \<in> lim_capability ` set un"
  by (auto simp: limitation_def find_None_iff)

lemma coverage_disjoint:
  assumes "validate_capability_coverage (Explicit ex un) path = []"
  shows "set ex \<inter> lim_capability ` set un = {}"
proof -
  have "\<forall>i < length un. lim_capability (un ! i) \<notin> set ex"
    using assms by (auto simp: validate_capability_coverage_def validate_each_Nil limitation_issues_def
        split: if_splits)
  then have "\<forall>l \<in> set un. lim_capability l \<notin> set ex" by (simp add: all_set_conv_all_nth)
  then show ?thesis by auto
qed

end
