(* ===== verification/Contract_Profile.thy ===== *)
theory Contract_Profile
  imports Contract_Adapter Contract_Scenario
begin

text \<open>
  Profiles (\<open>crates/common/src/contract/profile.rs\<close>): a version-pinned environment with its
  components, services and catalog adapters, and the validator that ties them together. The
  property states what the conformance harness relies on: the adapters of an accepted profile cover
  its catalog components exactly, and each one disposes of every capability of the vocabulary in
  exactly one way.
\<close>

section \<open>Data\<close>

datatype profile_purpose =
    HistoricalReproduction | CurrentCandidate | Conformance | Performance | FaultInjection

datatype profile_readiness =
    Runnable
  | Draft "component_id list" string

datatype execution_mode = DockerCompose | Kubernetes | HostProcesses | Mixed

record execution_platform =
  plat_operating_system :: string
  plat_architecture :: string
  plat_mode :: execution_mode
  plat_container_runtime :: "component_id option"
  plat_network :: string
  plat_shared_object_store :: component_id
  plat_warehouse_uri :: string
  plat_extensions :: extensions

record service_binding =
  svc_component :: component_id
  svc_role :: string
  svc_endpoint :: "string option"
  svc_private_state :: "component_id option"
  svc_settings :: "(string \<times> json) list"
  svc_extensions :: extensions

record profile =
  prof_contract_version :: contract_version
  prof_ident :: string
  prof_title :: string
  prof_description :: string
  prof_resolved_at :: string
  prof_purpose :: profile_purpose
  prof_readiness :: profile_readiness
  prof_platform :: execution_platform
  prof_components :: "component list"
  prof_services :: "service_binding list"
  prof_catalog_capabilities :: "catalog_capability list"
  prof_catalog_adapters :: "catalog_adapter list"
  prof_extensions :: extensions

section \<open>Validators\<close>

text \<open>A \<open>BTreeSet\<close> collected from an iterator: its elements in ascending order, each once.\<close>

definition btree_set :: "string list \<Rightarrow> string list" where
  "btree_set xs = sort (remdups xs)"

definition set_difference :: "string list \<Rightarrow> string list \<Rightarrow> string list" where
  "set_difference xs ys = filter (\<lambda>x. x \<notin> set ys) xs"

fun join :: "string \<Rightarrow> string list \<Rightarrow> string" where
  "join sep [] = []"
| "join sep [x] = x"
| "join sep (x # y # ys) = x @ sep @ join sep (y # ys)"

definition validate_component_reference ::
  "component_id \<Rightarrow> component_id list \<Rightarrow> string \<Rightarrow> validation_issue list" where
  "validate_component_reference component available path =
     id_issues component path
     @ (if component \<notin> set available
        then [issue path (''references unknown component '' @ quoted component)] else [])"

definition is_unresolved :: "component \<Rightarrow> bool" where
  "is_unresolved c = (case component_artifact c of
       SourceBuild executable \<Rightarrow> executable = None
     | Package _ _ _ dig \<Rightarrow> dig = None
     | ContainerImage _ _ _ _ _ \<Rightarrow> False)"

definition unresolved_components :: "component list \<Rightarrow> component_id list" where
  "unresolved_components components = btree_set (map component_ident (filter is_unresolved components))"

definition validate_readiness ::
  "profile_readiness \<Rightarrow> component list \<Rightarrow> component_id list \<Rightarrow> string \<Rightarrow> validation_issue list" where
  "validate_readiness readiness components component_ids path =
     (let unresolved = unresolved_components components
      in case readiness of
           Runnable \<Rightarrow>
             if unresolved \<noteq> []
             then [issue path (''runnable profile has unresolved artifacts: '' @ join '', '' unresolved)]
             else []
         | Draft unresolved_artifacts explanation \<Rightarrow>
             let declared = btree_set unresolved_artifacts;
                 upath = child_path path ''unresolved_artifacts''
             in require_non_empty explanation (child_path path ''explanation'')
                @ require_unique unresolved_artifacts upath
                @ concat (map (\<lambda>c. validate_component_reference c component_ids upath) unresolved_artifacts)
                @ map (\<lambda>c. issue upath (''must declare unresolved component '' @ quoted c))
                    (set_difference unresolved declared)
                @ map (\<lambda>c. issue upath (''component '' @ quoted c @ '' already has an immutable artifact''))
                    (set_difference declared unresolved)
                @ (if unresolved = []
                   then [issue path ''draft profile must have at least one unresolved artifact''] else []))"

definition validate_adapter_service ::
  "profile \<Rightarrow> catalog_adapter \<Rightarrow> string \<Rightarrow> validation_issue list" where
  "validate_adapter_service p a path =
     (case filter (\<lambda>s. svc_component s = adapter_catalog a) (prof_services p) of
        [service] \<Rightarrow>
          (if svc_role service \<noteq> ''iceberg-rest-catalog''
           then [issue (child_path path ''catalog'')
                   (''catalog adapter service role must be '' @ quoted ''iceberg-rest-catalog'')] else [])
          @ (if svc_endpoint service \<noteq> Some (base_url (adapter_endpoint a))
             then [issue (child_path path ''endpoint.base_url'')
                     ''must exactly match the catalog service endpoint''] else [])
      | matching \<Rightarrow>
          [issue (child_path path ''catalog'')
             (''catalog adapter requires exactly one service binding, found '' @ show_nat (length matching))])"

definition validate_adapter_shim ::
  "profile \<Rightarrow> catalog_adapter \<Rightarrow> string \<Rightarrow> validation_issue list" where
  "validate_adapter_shim p a path =
     (case shim_component (adapter_handling a) of None \<Rightarrow> []
      | Some shim \<Rightarrow>
          (case find (\<lambda>c. component_ident c = shim) (prof_components p) of
             Some c \<Rightarrow>
               if component_kind_of c = Connector then []
               else [issue (child_path path ''request_handling.component'')
                       (''behavior-changing shim '' @ quoted shim @ '' must be a connector component'')]
           | None \<Rightarrow> [issue (child_path path ''request_handling.component'')
                       (''references unknown shim component '' @ quoted shim)]))"

definition validate_adapter_capabilities ::
  "catalog_adapter \<Rightarrow> capability_id list \<Rightarrow> string \<Rightarrow> validation_issue list" where
  "validate_adapter_capabilities a defined path =
     (case adapter_capabilities a of ExerciseAll \<Rightarrow> []
      | Explicit exercise unsupported \<Rightarrow>
          let declared = btree_set (exercise @ map lim_capability unsupported);
              cpath = child_path path ''capabilities''
          in map (\<lambda>c. issue cpath (''does not classify capability '' @ quoted c))
               (set_difference defined declared)
             @ map (\<lambda>c. issue cpath (''classifies undefined capability '' @ quoted c))
               (set_difference declared defined))"

definition catalog_components :: "profile \<Rightarrow> component_id list" where
  "catalog_components p =
     btree_set (map component_ident (filter (\<lambda>c. component_kind_of c = Catalog) (prof_components p)))"

definition adapter_contract_required :: "profile \<Rightarrow> bool" where
  "adapter_contract_required p \<longleftrightarrow>
     \<not> ((catalog_components p = [] \<or> prof_purpose p = HistoricalReproduction)
        \<and> prof_catalog_capabilities p = [] \<and> prof_catalog_adapters p = [])"

definition one_adapter_issues ::
  "url_parser \<Rightarrow> profile \<Rightarrow> component_id list \<Rightarrow> string \<Rightarrow> catalog_adapter \<Rightarrow> validation_issue list" where
  "one_adapter_issues url_parse p component_ids adapter_path a =
     adapter_issues url_parse adapter_path a
     @ validate_component_reference (adapter_catalog a) component_ids (child_path adapter_path ''catalog'')
     @ validate_adapter_service p a adapter_path
     @ validate_adapter_shim p a adapter_path
     @ validate_adapter_capabilities a (btree_set (map cap_ident (prof_catalog_capabilities p))) adapter_path"

definition validate_catalog_adapters ::
  "url_parser \<Rightarrow> profile \<Rightarrow> component_id list \<Rightarrow> string \<Rightarrow> validation_issue list" where
  "validate_catalog_adapters url_parse p component_ids path =
     (if \<not> adapter_contract_required p then []
      else
        let capabilities_path = child_path path ''catalog_capabilities'';
            adapters_path = child_path path ''catalog_adapters'';
            adapter_catalogs = btree_set (map adapter_catalog (prof_catalog_adapters p))
        in (if prof_catalog_capabilities p = []
            then [issue capabilities_path
                    ''must define at least one capability when catalog adapters are required''] else [])
           @ require_unique (map cap_ident (prof_catalog_capabilities p)) capabilities_path
           @ validate_each capability_issues capabilities_path (prof_catalog_capabilities p)
           @ require_unique (map adapter_catalog (prof_catalog_adapters p)) adapters_path
           @ map (\<lambda>c. issue adapters_path (''catalog component '' @ quoted c @ '' has no adapter''))
               (set_difference (catalog_components p) adapter_catalogs)
           @ map (\<lambda>c. issue adapters_path (''adapter references non-catalog component '' @ quoted c))
               (set_difference adapter_catalogs (catalog_components p))
           @ validate_each (one_adapter_issues url_parse p component_ids) adapters_path
               (prof_catalog_adapters p))"

definition platform_issues ::
  "execution_platform \<Rightarrow> component_id list \<Rightarrow> string \<Rightarrow> validation_issue list" where
  "platform_issues pl component_ids platform_path =
     require_non_empty (plat_operating_system pl) (child_path platform_path ''operating_system'')
     @ require_non_empty (plat_architecture pl) (child_path platform_path ''architecture'')
     @ require_non_empty (plat_network pl) (child_path platform_path ''network'')
     @ require_non_empty (plat_warehouse_uri pl) (child_path platform_path ''warehouse_uri'')
     @ validate_component_reference (plat_shared_object_store pl) component_ids
         (child_path platform_path ''shared_object_store'')
     @ (case plat_container_runtime pl of None \<Rightarrow> []
        | Some runtime \<Rightarrow>
            validate_component_reference runtime component_ids (child_path platform_path ''container_runtime''))"

definition service_issues :: "component_id list \<Rightarrow> string \<Rightarrow> service_binding \<Rightarrow> validation_issue list" where
  "service_issues component_ids service_path s =
     validate_component_reference (svc_component s) component_ids (child_path service_path ''component'')
     @ require_non_empty (svc_role s) (child_path service_path ''role'')
     @ (case svc_endpoint s of None \<Rightarrow> []
        | Some endpoint \<Rightarrow> require_non_empty endpoint (child_path service_path ''endpoint''))
     @ (case svc_private_state s of None \<Rightarrow> []
        | Some state \<Rightarrow>
            validate_component_reference state component_ids (child_path service_path ''private_state''))
     @ reject_secret_like_keys (map fst (svc_settings s)) (child_path service_path ''settings'')"

definition profile_issues :: "url_parser \<Rightarrow> profile \<Rightarrow> string \<Rightarrow> validation_issue list" where
  "profile_issues url_parse p path =
     (let component_ids = map component_ident (prof_components p)
      in id_issues (prof_ident p) (child_path path ''id'')
         @ require_non_empty (prof_title p) (child_path path ''title'')
         @ require_non_empty (prof_description p) (child_path path ''description'')
         @ require_non_empty (prof_resolved_at p) (child_path path ''resolved_at'')
         @ (if prof_components p = []
            then [issue (child_path path ''components'') ''must contain at least one component''] else [])
         @ require_unique component_ids (child_path path ''components'')
         @ validate_each (\<lambda>q c. component_issues c q) (child_path path ''components'') (prof_components p)
         @ validate_readiness (prof_readiness p) (prof_components p) component_ids
             (child_path path ''readiness'')
         @ platform_issues (prof_platform p) component_ids (child_path path ''platform'')
         @ validate_each (service_issues component_ids) (child_path path ''services'') (prof_services p)
         @ validate_catalog_adapters url_parse p component_ids path)"

section \<open>Accepted profiles\<close>

lemma set_btree_set [simp]: "set (btree_set xs) = set xs"
  by (simp add: btree_set_def)

lemma set_difference_Nil: "set_difference xs ys = [] \<longleftrightarrow> set xs \<subseteq> set ys"
  by (auto simp: set_difference_def filter_empty_conv)

lemma adapter_capabilities_classified:
  assumes "validate_adapter_capabilities a defined path = []" "adapter_capabilities a = Explicit ex un"
  shows "set ex \<union> lim_capability ` set un = set defined"
  using assms by (auto simp: validate_adapter_capabilities_def Let_def set_difference_Nil)

lemma adapter_service_unique:
  assumes "validate_adapter_service p a path = []"
  shows "\<exists>s. filter (\<lambda>s. svc_component s = adapter_catalog a) (prof_services p) = [s]
    \<and> svc_endpoint s = Some (base_url (adapter_endpoint a))"
  using assms by (auto simp: validate_adapter_service_def split: list.splits if_splits)

text \<open>Each capability of an accepted coverage is exercised or limited, never both.\<close>

lemma coverage_partition:
  assumes "validate_adapter_capabilities a defined path = []"
    and "validate_capability_coverage (adapter_capabilities a) path' = []" and "c \<in> set defined"
  shows "exercises (adapter_capabilities a) c \<longleftrightarrow> limitation (adapter_capabilities a) c = None"
proof (cases "adapter_capabilities a")
  case ExerciseAll
  then show ?thesis by (simp add: exercises_def limitation_def)
next
  case (Explicit ex un)
  have "set ex \<union> lim_capability ` set un = set defined"
    by (rule adapter_capabilities_classified [OF assms(1) Explicit])
  moreover have "set ex \<inter> lim_capability ` set un = {}"
    using coverage_disjoint assms(2) Explicit by simp
  moreover have "exercises (adapter_capabilities a) c \<longleftrightarrow> c \<in> set ex" by (simp add: exercises_def Explicit)
  ultimately show ?thesis
    using assms(3) limitation_Some_iff [of ex un c] unfolding Explicit by blast
qed

lemma profile_adapters_distinct:
  assumes "validate_with (profile_issues url_parse p) = Inr ()" "adapter_contract_required p"
  shows "distinct (map adapter_catalog (prof_catalog_adapters p))"
  using assms by (simp add: profile_issues_def Let_def validate_catalog_adapters_def require_unique_Nil)

lemma required_adapters_partition:
  assumes "validate_with (profile_issues url_parse p) = Inr ()" and "adapter_contract_required p"
  shows "distinct (map adapter_catalog (prof_catalog_adapters p))
    \<and> set (map adapter_catalog (prof_catalog_adapters p)) = set (catalog_components p)
    \<and> (\<forall>a \<in> set (prof_catalog_adapters p).
         (\<exists>s. filter (\<lambda>s. svc_component s = adapter_catalog a) (prof_services p) = [s]
            \<and> svc_endpoint s = Some (base_url (adapter_endpoint a)))
         \<and> (\<forall>c \<in> cap_ident ` set (prof_catalog_capabilities p).
              exercises (adapter_capabilities a) c \<longleftrightarrow> limitation (adapter_capabilities a) c = None))"
proof -
  let ?ids = "map component_ident (prof_components p)"
  let ?apath = "child_path ''$'' ''catalog_adapters''"
  have ok: "validate_catalog_adapters url_parse p ?ids ''$'' = []"
    using assms(1) by (simp add: profile_issues_def Let_def)
  then have each: "one_adapter_issues url_parse p ?ids (indexed_path ?apath i) (prof_catalog_adapters p ! i) = []"
    if "i < length (prof_catalog_adapters p)" for i
    using assms(2) that by (simp add: validate_catalog_adapters_def Let_def validate_each_Nil)
  have "\<forall>a \<in> set (prof_catalog_adapters p).
         (\<exists>s. filter (\<lambda>s. svc_component s = adapter_catalog a) (prof_services p) = [s]
            \<and> svc_endpoint s = Some (base_url (adapter_endpoint a)))
         \<and> (\<forall>c \<in> cap_ident ` set (prof_catalog_capabilities p).
              exercises (adapter_capabilities a) c \<longleftrightarrow> limitation (adapter_capabilities a) c = None)"
  proof
    fix a assume "a \<in> set (prof_catalog_adapters p)"
    then obtain i where "i < length (prof_catalog_adapters p)" "prof_catalog_adapters p ! i = a"
      by (auto simp: in_set_conv_nth)
    with each [of i] show "(\<exists>s. filter (\<lambda>s. svc_component s = adapter_catalog a) (prof_services p) = [s]
            \<and> svc_endpoint s = Some (base_url (adapter_endpoint a)))
         \<and> (\<forall>c \<in> cap_ident ` set (prof_catalog_capabilities p).
              exercises (adapter_capabilities a) c \<longleftrightarrow> limitation (adapter_capabilities a) c = None)"
      using adapter_service_unique [of p a] coverage_partition [of a]
      by (fastforce simp: one_adapter_issues_def adapter_issues_def)
  qed
  moreover have "distinct (map adapter_catalog (prof_catalog_adapters p))"
    "set (map adapter_catalog (prof_catalog_adapters p)) = set (catalog_components p)"
    using ok assms(2)
    by (auto simp: validate_catalog_adapters_def Let_def require_unique_Nil set_difference_Nil)
  ultimately show ?thesis by blast
qed

section \<open>Sample data for the witnesses\<close>

definition demo_url_parse :: url_parser where
  "demo_url_parse s = Inr \<lparr>url_scheme = ''http'', url_host_str = Some ''h'', url_username = [],
     url_password = None, url_path = ''/'', url_query = None, url_fragment = None\<rparr>"

definition demo_component :: "component_id \<Rightarrow> component_kind \<Rightarrow> component" where
  "demo_component i k = \<lparr>component_ident = i, component_kind_of = k, component_name = ''n'',
     component_version = ''1'', component_source = None, component_build = None,
     component_artifact = ContainerImage ''r'' Index
       \<lparr>digest_alg = Sha256, digest_value = replicate 64 CHR ''0''\<rparr> None [],
     component_extensions = []\<rparr>"

definition demo_adapter :: catalog_adapter where
  "demo_adapter = \<lparr>adapter_catalog = ''cat'', adapter_protocol = IcebergRestV1,
     adapter_endpoint = \<lparr>base_url = ''http://h/api'',
       endpoint_config = \<lparr>config_path = ''/v1/config'', config_query = []\<rparr>,
       route_prefix = Unprefixed, create_table_location = None\<rparr>,
     adapter_authentication = Anonymous, adapter_handling = ProtocolNative,
     adapter_capabilities = Explicit [''a''] [\<lparr>lim_capability = ''b'', lim_attributed_to = CatalogLimitation,
       lim_explanation = ''x'', lim_upstream_reference = None\<rparr>],
     adapter_extensions = []\<rparr>"

definition demo_profile :: profile where
  "demo_profile = \<lparr>prof_contract_version = V1, prof_ident = ''p'', prof_title = ''t'',
     prof_description = ''d'', prof_resolved_at = ''2026'', prof_purpose = Conformance,
     prof_readiness = Runnable,
     prof_platform = \<lparr>plat_operating_system = ''linux'', plat_architecture = ''arm64'',
       plat_mode = DockerCompose, plat_container_runtime = None, plat_network = ''n'',
       plat_shared_object_store = ''store'', plat_warehouse_uri = ''s3://w'', plat_extensions = []\<rparr>,
     prof_components = [demo_component ''cat'' Catalog, demo_component ''store'' ObjectStore],
     prof_services = [\<lparr>svc_component = ''cat'', svc_role = ''iceberg-rest-catalog'',
       svc_endpoint = Some ''http://h/api'', svc_private_state = None, svc_settings = [], svc_extensions = []\<rparr>],
     prof_catalog_capabilities = [\<lparr>cap_ident = ''a'', cap_description = ''x'', cap_specification = None\<rparr>,
       \<lparr>cap_ident = ''b'', cap_description = ''x'', cap_specification = None\<rparr>],
     prof_catalog_adapters = [demo_adapter], prof_extensions = []\<rparr>"

lemma demo_profile_accepted: "validate_with (profile_issues demo_url_parse demo_profile) = Inr ()"
  by code_simp

lemma demo_profile_required: "adapter_contract_required demo_profile"
  by code_simp

section \<open>Properties\<close>

text \<open>C26. The adapters of an accepted profile are a total and unambiguous plan, or there are none.
  A profile need not use the adapter contract when it has no catalog components or reproduces a
  historical run, and then it lists neither adapters nor capabilities. In every other accepted
  profile no catalog has two adapters, the adapted catalogs are exactly the catalog components, each
  adapter speaks to the endpoint of the one service bound to its catalog, and each capability of the
  vocabulary is, per adapter, either exercised or declared unsupported, and never both.\<close>

theorem profile_adapters_partition:
  assumes "validate_with (profile_issues url_parse p) = Inr ()"
  shows "if prof_catalog_adapters p = [] \<and> prof_catalog_capabilities p = []
    then catalog_components p = [] \<or> prof_purpose p = HistoricalReproduction
    else distinct (map adapter_catalog (prof_catalog_adapters p))
      \<and> set (map adapter_catalog (prof_catalog_adapters p)) = set (catalog_components p)
      \<and> (\<forall>a \<in> set (prof_catalog_adapters p).
           (\<exists>s. filter (\<lambda>s. svc_component s = adapter_catalog a) (prof_services p) = [s]
              \<and> svc_endpoint s = Some (base_url (adapter_endpoint a)))
           \<and> (\<forall>c \<in> cap_ident ` set (prof_catalog_capabilities p).
                exercises (adapter_capabilities a) c \<longleftrightarrow> limitation (adapter_capabilities a) c = None))"
proof (cases "adapter_contract_required p")
  case True
  have listed: "\<not> (prof_catalog_adapters p = [] \<and> prof_catalog_capabilities p = [])"
    using assms True by (auto simp: profile_issues_def Let_def validate_catalog_adapters_def)
  show ?thesis unfolding if_not_P [OF listed] by (rule required_adapters_partition [OF assms True])
next
  case False
  then show ?thesis by (auto simp: adapter_contract_required_def)
qed

theorem profile_adapters_partition_witness:
  "validate_with (profile_issues demo_url_parse demo_profile) = Inr ()
   \<and> (\<exists>s. filter (\<lambda>s. svc_component s = ''cat'') (prof_services demo_profile) = [s]
        \<and> svc_endpoint s = Some ''http://h/api'')"
  using profile_adapters_partition [OF demo_profile_accepted] demo_profile_accepted
  by (simp add: demo_profile_def demo_adapter_def)

text \<open>C39. Readiness is honest: an accepted profile is marked runnable exactly when every artifact is
  immutable, and an accepted draft lists exactly the components that are not.\<close>

theorem profile_readiness_exact:
  assumes "validate_with (profile_issues url_parse p) = Inr ()"
  shows "(case prof_readiness p of
      Runnable \<Rightarrow> \<forall>c \<in> set (prof_components p). \<not> is_unresolved c
    | Draft names _ \<Rightarrow> names \<noteq> [] \<and> distinct names
        \<and> set names = component_ident ` {c \<in> set (prof_components p). is_unresolved c})"
proof -
  have r: "validate_readiness (prof_readiness p) (prof_components p) (map component_ident (prof_components p))
    (child_path ''$'' ''readiness'') = []"
    using assms by (simp add: profile_issues_def Let_def)
  have u: "set (unresolved_components (prof_components p))
    = component_ident ` {c \<in> set (prof_components p). is_unresolved c}"
    by (simp add: unresolved_components_def)
  show ?thesis
  proof (cases "prof_readiness p")
    case Runnable
    with r have "unresolved_components (prof_components p) = []"
      by (simp add: validate_readiness_def Let_def split: if_splits)
    with u Runnable show ?thesis by auto
  next
    case (Draft names explanation)
    with r have "distinct names" "set names = set (unresolved_components (prof_components p))"
      "set (unresolved_components (prof_components p)) \<noteq> {}"
      by (auto simp: validate_readiness_def Let_def require_unique_Nil set_difference_Nil split: if_splits)
    then have "names \<noteq> []" by auto
    with \<open>distinct names\<close> \<open>set names = _\<close> u Draft show ?thesis by simp
  qed
qed

theorem profile_readiness_exact_witness:
  "\<not> is_unresolved (demo_component ''cat'' Catalog)"
proof -
  have "prof_readiness demo_profile = Runnable" by (simp add: demo_profile_def)
  with profile_readiness_exact [OF demo_profile_accepted] show ?thesis by (simp add: demo_profile_def)
qed

end
