(* ===== verification/Contract_Manifest.thy ===== *)
theory Contract_Manifest
  imports Contract_Result Contract_Profile
begin

text \<open>
  Bundle manifests (\<open>crates/common/src/contract/manifest.rs\<close>), the document dispatcher
  (\<open>schema.rs\<close>) and the audit of serialized evidence (\<open>crates/common/src/sanitization.rs\<close>).
  Decoding JSON text and JSON trees into the document types is the work of \<open>serde_json\<close> and of
  code that \<open>serde\<close> derives; both are parameters of the dispatcher, collected in the record
  \<open>decoders\<close>.
\<close>

section \<open>Manifests\<close>

datatype provenance =
    LiveRun component_id string string string
  | HistoricalImport string string string
  | Fixture string

record redaction_statement =
  redaction_reviewed :: bool
  redaction_policy :: string
  redaction_removed_fields :: "string list"

record result_bundle_manifest =
  man_contract_version :: contract_version
  man_ident :: string
  man_title :: string
  man_created_at :: string
  man_provenance :: provenance
  man_profile :: artifact_reference
  man_scenarios :: "artifact_reference list"
  man_results :: "artifact_reference list"
  man_source_evidence :: "artifact_reference list"
  man_redaction :: redaction_statement
  man_extensions :: extensions

fun validate_provenance :: "provenance \<Rightarrow> string \<Rightarrow> validation_issue list" where
  "validate_provenance (LiveRun runner sanitized_invocation started_at completed_at) path =
     id_issues runner (child_path path ''runner'')
     @ require_non_empty sanitized_invocation (child_path path ''sanitized_invocation'')
     @ require_non_empty started_at (child_path path ''started_at'')
     @ require_non_empty completed_at (child_path path ''completed_at'')"
| "validate_provenance (HistoricalImport source_date imported_at explanation) path =
     require_non_empty source_date (child_path path ''source_date'')
     @ require_non_empty imported_at (child_path path ''imported_at'')
     @ require_non_empty explanation (child_path path ''explanation'')"
| "validate_provenance (Fixture explanation) path =
     require_non_empty explanation (child_path path ''explanation'')"

definition manifest_issues :: "result_bundle_manifest \<Rightarrow> string \<Rightarrow> validation_issue list" where
  "manifest_issues m path =
     id_issues (man_ident m) (child_path path ''id'')
     @ require_non_empty (man_title m) (child_path path ''title'')
     @ require_non_empty (man_created_at m) (child_path path ''created_at'')
     @ validate_provenance (man_provenance m) (child_path path ''provenance'')
     @ artifact_issues (man_profile m) (child_path path ''profile'')
     @ (if man_scenarios m = []
        then [issue (child_path path ''scenarios'') ''must contain at least one scenario''] else [])
     @ (if man_results m = []
        then [issue (child_path path ''results'') ''must contain at least one result''] else [])
     @ validate_artifacts (man_scenarios m) (child_path path ''scenarios'')
     @ validate_artifacts (man_results m) (child_path path ''results'')
     @ validate_artifacts (man_source_evidence m) (child_path path ''source_evidence'')
     @ (if \<not> redaction_reviewed (man_redaction m)
        then [issue (child_path path ''redaction.reviewed'') ''must be true before publication''] else [])
     @ require_non_empty (redaction_policy (man_redaction m)) (child_path path ''redaction.policy'')"

section \<open>The document dispatcher\<close>

datatype document_kind = ScenarioKind | ResultKind | ProfileKind | ManifestKind

datatype contract_document =
    ScenarioDocument scenario
  | ResultDocument result_record
  | ProfileDocument profile
  | ManifestDocument result_bundle_manifest

definition document_kind_of :: "contract_document \<Rightarrow> document_kind" where
  "document_kind_of d = (case d of ScenarioDocument _ \<Rightarrow> ScenarioKind | ResultDocument _ \<Rightarrow> ResultKind
     | ProfileDocument _ \<Rightarrow> ProfileKind | ManifestDocument _ \<Rightarrow> ManifestKind)"

definition document_kind_name :: "document_kind \<Rightarrow> string" where
  "document_kind_name k = (case k of ScenarioKind \<Rightarrow> ''scenario'' | ResultKind \<Rightarrow> ''result''
     | ProfileKind \<Rightarrow> ''profile'' | ManifestKind \<Rightarrow> ''manifest'')"

datatype parse_contract_error =
    JsonError string
  | MissingKind
  | UnknownKind string
  | Semantic "validation_issue list"

text \<open>The \<open>Display\<close> of the collected issues and of the dispatcher's errors.\<close>

definition show_issues :: "validation_issue list \<Rightarrow> string" where
  "show_issues issues = join ''; '' (map (\<lambda>i. issue_path i @ '': '' @ issue_message i) issues)"

definition show_parse_contract_error :: "parse_contract_error \<Rightarrow> string" where
  "show_parse_contract_error e = (case e of
       JsonError error \<Rightarrow> ''invalid contract JSON: '' @ error
     | MissingKind \<Rightarrow> ''contract document is missing string '' @ quoted ''kind''
     | UnknownKind kind \<Rightarrow> ''unknown contract document kind '' @ quoted kind
     | Semantic issues \<Rightarrow> ''contract validation failed: '' @ show_issues issues)"

record decoders =
  from_slice :: "string \<Rightarrow> string + json"
  scenario_from_value :: "json \<Rightarrow> string + scenario"
  result_from_value :: "json \<Rightarrow> string + result_record"
  profile_from_value :: "json \<Rightarrow> string + profile"
  manifest_from_value :: "json \<Rightarrow> string + result_bundle_manifest"

definition parse_typed ::
  "(json \<Rightarrow> string + 'd) \<Rightarrow> ('d \<Rightarrow> string \<Rightarrow> validation_issue list) \<Rightarrow> json \<Rightarrow> parse_contract_error + 'd" where
  "parse_typed from_value collect_issues value =
     and_then (map_err JsonError (from_value value)) (\<lambda>document.
     and_then (map_err Semantic (validate_with (collect_issues document))) (\<lambda>_. Ok document))"

definition parse_contract ::
  "decoders \<Rightarrow> url_parser \<Rightarrow> string \<Rightarrow> parse_contract_error + contract_document" where
  "parse_contract dec url_parse bytes =
     and_then (map_err JsonError (from_slice dec bytes)) (\<lambda>value.
     and_then (ok_or (Option.bind (json_get value ''kind'') json_as_str) MissingKind) (\<lambda>kind.
       if kind = ''scenario'' then
         and_then (parse_typed (scenario_from_value dec) scenario_issues value) (\<lambda>d. Ok (ScenarioDocument d))
       else if kind = ''result'' then
         and_then (parse_typed (result_from_value dec) result_issues value) (\<lambda>d. Ok (ResultDocument d))
       else if kind = ''profile'' then
         and_then (parse_typed (profile_from_value dec) (profile_issues url_parse) value)
           (\<lambda>d. Ok (ProfileDocument d))
       else if kind = ''manifest'' then
         and_then (parse_typed (manifest_from_value dec) manifest_issues value) (\<lambda>d. Ok (ManifestDocument d))
       else Err (UnknownKind kind)))"

section \<open>Audit of serialized values\<close>

datatype serialized_value_audit_failure =
    Serialization
  | SensitiveValue
  | ForbiddenValue

definition contains_any :: "string \<Rightarrow> string list \<Rightarrow> bool" where
  "contains_any value needles = list_ex (str_contains value) (filter (\<lambda>needle. needle \<noteq> []) needles)"

fun inspect_value :: "json \<Rightarrow> string list \<Rightarrow> string list \<Rightarrow> serialized_value_audit_failure + unit"
  and inspect_values :: "json list \<Rightarrow> string list \<Rightarrow> string list \<Rightarrow> serialized_value_audit_failure + unit"
  and inspect_fields :: "(string \<times> json) list \<Rightarrow> string list \<Rightarrow> string list \<Rightarrow> serialized_value_audit_failure + unit"
where
  "inspect_value (JArray values) sensitive forbidden = inspect_values values sensitive forbidden"
| "inspect_value (JObject entries) sensitive forbidden = inspect_fields entries sensitive forbidden"
| "inspect_value (JString value) sensitive forbidden =
     (if contains_any value sensitive then Err SensitiveValue
      else if contains_any value forbidden then Err ForbiddenValue
      else Ok ())"
| "inspect_value JNull sensitive forbidden = Ok ()"
| "inspect_value (JBool _) sensitive forbidden = Ok ()"
| "inspect_value (JNumber _) sensitive forbidden = Ok ()"
| "inspect_values [] sensitive forbidden = Ok ()"
| "inspect_values (v # vs) sensitive forbidden =
     and_then (inspect_value v sensitive forbidden) (\<lambda>_. inspect_values vs sensitive forbidden)"
| "inspect_fields [] sensitive forbidden = Ok ()"
| "inspect_fields ((_, v) # fs) sensitive forbidden =
     and_then (inspect_value v sensitive forbidden) (\<lambda>_. inspect_fields fs sensitive forbidden)"

definition audit_serialized_values ::
  "('a \<Rightarrow> json option) \<Rightarrow> 'a \<Rightarrow> string list \<Rightarrow> string list \<Rightarrow> serialized_value_audit_failure + unit" where
  "audit_serialized_values to_value evidence sensitive forbidden =
     and_then (ok_or (to_value evidence) Serialization) (\<lambda>value. inspect_value value sensitive forbidden)"

text \<open>The string values of a JSON tree; the keys of objects are not among them.\<close>

fun json_strings :: "json \<Rightarrow> string list"
  and json_strings_list :: "json list \<Rightarrow> string list"
  and json_strings_fields :: "(string \<times> json) list \<Rightarrow> string list"
where
  "json_strings (JArray vs) = json_strings_list vs"
| "json_strings (JObject fs) = json_strings_fields fs"
| "json_strings (JString s) = [s]"
| "json_strings JNull = []"
| "json_strings (JBool _) = []"
| "json_strings (JNumber _) = []"
| "json_strings_list [] = []"
| "json_strings_list (v # vs) = json_strings v @ json_strings_list vs"
| "json_strings_fields [] = []"
| "json_strings_fields ((_, v) # fs) = json_strings v @ json_strings_fields fs"

lemma contains_any_iff: "contains_any v needles \<longleftrightarrow> (\<exists>n \<in> set needles. n \<noteq> [] \<and> sublist n v)"
  by (auto simp: contains_any_def list_ex_iff str_contains_iff)

text \<open>The inspection is a scan of the string values in order.\<close>

definition scan_strings :: "string list \<Rightarrow> string list \<Rightarrow> string list \<Rightarrow> serialized_value_audit_failure + unit" where
  "scan_strings sensitive forbidden strs =
     (case find (\<lambda>s. contains_any s sensitive \<or> contains_any s forbidden) strs of
        None \<Rightarrow> Ok ()
      | Some s \<Rightarrow> Err (if contains_any s sensitive then SensitiveValue else ForbiddenValue))"

lemma scan_strings_append:
  "scan_strings a b (xs @ ys) = and_then (scan_strings a b xs) (\<lambda>_. scan_strings a b ys)"
proof (induction xs)
  case (Cons x xs)
  then show ?case by (cases "contains_any x a"; cases "contains_any x b") (simp_all add: scan_strings_def)
qed (simp add: scan_strings_def)

lemma inspect_scan:
  "inspect_value v sensitive forbidden = scan_strings sensitive forbidden (json_strings v)"
  "inspect_values vs sensitive forbidden = scan_strings sensitive forbidden (json_strings_list vs)"
  "inspect_fields fs sensitive forbidden = scan_strings sensitive forbidden (json_strings_fields fs)"
proof (induction v sensitive forbidden and vs sensitive forbidden and fs sensitive forbidden
    rule: inspect_value_inspect_values_inspect_fields.induct)
qed (simp_all add: scan_strings_append, simp_all add: scan_strings_def)

lemma scan_strings_Ok:
  "scan_strings a b strs = Inr u \<longleftrightarrow> (\<forall>s \<in> set strs. \<not> contains_any s a \<and> \<not> contains_any s b)"
proof (cases "find (\<lambda>s. contains_any s a \<or> contains_any s b) strs")
  case None
  moreover from None have "\<forall>s \<in> set strs. \<not> contains_any s a \<and> \<not> contains_any s b"
    by (auto simp: find_None_iff)
  ultimately show ?thesis by (simp add: scan_strings_def)
next
  case (Some s)
  then have "s \<in> set strs" "contains_any s a \<or> contains_any s b"
    by (auto simp: find_Some_iff)
  with Some show ?thesis by (auto simp: scan_strings_def)
qed

lemma audit_clean:
  "audit_serialized_values to_value evidence sensitive forbidden = Inr () \<longleftrightarrow>
     (\<exists>tree. to_value evidence = Some tree
        \<and> (\<forall>s \<in> set (json_strings tree). \<forall>n \<in> set (sensitive @ forbidden). n \<noteq> [] \<longrightarrow> \<not> sublist n s))"
  by (auto simp: audit_serialized_values_def and_then_eq_Inr inspect_scan(1) scan_strings_Ok contains_any_iff)

section \<open>Properties\<close>

text \<open>C27. The evidence audit finds every leak: it accepts a tree exactly when no string value in it,
  however deeply nested, contains a non-empty sensitive or forbidden value. Empty needles never
  match.\<close>

theorem audit_complete:
  "audit_serialized_values to_value evidence sensitive forbidden = Inr () \<longleftrightarrow>
     (\<exists>tree. to_value evidence = Some tree
        \<and> (\<forall>s \<in> set (json_strings tree). \<forall>n \<in> set (sensitive @ forbidden). n \<noteq> [] \<longrightarrow> \<not> sublist n s))"
  by (rule audit_clean)

theorem audit_complete_witness:
  "audit_serialized_values Some (JObject [(''token'', JArray [JString ''abc''])]) [''xyz'', []] [''q''] = Inr ()"
proof -
  have "(\<forall>s \<in> set (json_strings (JObject [(''token'', JArray [JString ''abc''])])).
    \<forall>n \<in> set ([''xyz'', []] @ [''q'']). n \<noteq> [] \<longrightarrow> \<not> sublist n s)" by code_simp
  with audit_complete [of Some "JObject [(''token'', JArray [JString ''abc''])]" "[''xyz'', []]" "[''q'']"]
  show ?thesis by blast
qed

text \<open>C30. A document that \<open>parse_contract\<close> answers is of the kind its JSON names, decodes from that
  JSON, and has no semantic issue: no document passes the boundary unvalidated.\<close>

theorem parse_contract_validated:
  assumes "parse_contract dec url_parse bytes = Inr doc"
  shows "\<exists>tree. from_slice dec bytes = Inr tree
    \<and> json_get tree ''kind'' = Some (JString (document_kind_name (document_kind_of doc)))
    \<and> (case doc of
         ScenarioDocument d \<Rightarrow> scenario_from_value dec tree = Inr d \<and> scenario_issues d ''$'' = []
       | ResultDocument d \<Rightarrow> result_from_value dec tree = Inr d \<and> result_issues d ''$'' = []
       | ProfileDocument d \<Rightarrow> profile_from_value dec tree = Inr d \<and> profile_issues url_parse d ''$'' = []
       | ManifestDocument d \<Rightarrow> manifest_from_value dec tree = Inr d \<and> manifest_issues d ''$'' = [])"
proof -
  obtain tree where t: "from_slice dec bytes = Inr tree"
    using assms by (auto simp: parse_contract_def and_then_eq_Inr)
  obtain k where "Option.bind (json_get tree ''kind'') json_as_str = Some k"
    using assms t by (auto simp: parse_contract_def and_then_eq_Inr)
  then have k: "json_get tree ''kind'' = Some (JString k)"
    by (auto simp: bind_eq_Some_conv json_as_str_eq_Some)
  have kind: "ok_or (Option.bind (json_get tree ''kind'') json_as_str) MissingKind = Inr k"
    by (simp add: k json_as_str_def)
  have "k = document_kind_name (document_kind_of doc) \<and> (case doc of
         ScenarioDocument d \<Rightarrow> scenario_from_value dec tree = Inr d \<and> scenario_issues d ''$'' = []
       | ResultDocument d \<Rightarrow> result_from_value dec tree = Inr d \<and> result_issues d ''$'' = []
       | ProfileDocument d \<Rightarrow> profile_from_value dec tree = Inr d \<and> profile_issues url_parse d ''$'' = []
       | ManifestDocument d \<Rightarrow> manifest_from_value dec tree = Inr d \<and> manifest_issues d ''$'' = [])"
    using assms
    by (auto simp: parse_contract_def t kind and_then_eq_Inr parse_typed_def document_kind_of_def
        document_kind_name_def split: if_splits)
  with t k show ?thesis by blast
qed

definition demo_decoders :: decoders where
  "demo_decoders = \<lparr>from_slice = (\<lambda>_. Inr (JObject [(''kind'', JString ''scenario'')])),
     scenario_from_value = (\<lambda>_. Inr demo_scenario), result_from_value = (\<lambda>_. Inl ''no''),
     profile_from_value = (\<lambda>_. Inl ''no''), manifest_from_value = (\<lambda>_. Inl ''no'')\<rparr>"

theorem parse_contract_validated_witness: "scenario_issues demo_scenario ''$'' = []"
proof -
  have "parse_contract demo_decoders demo_url_parse ''{}'' = Inr (ScenarioDocument demo_scenario)" by code_simp
  from parse_contract_validated [OF this] show ?thesis by auto
qed

end
