(* ===== verification/Commit_Policy.thy ===== *)
theory Commit_Policy
  imports Contract_Manifest
begin

text \<open>
  The policy of the contention benchmark (\<open>crates/commit/src/policy.rs\<close>): its parameters, their
  validation against the compiled scenario and the profile, the schedule of rounds and the names of
  isolated fixtures. A \<open>PolicyError\<close> is its message. Decoding the scenario's parameters is the
  work of code derived by \<open>serde\<close> and is the parameter \<open>from_value\<close>; the bytes of the compiled
  scenario file are the parameter \<open>canonical\<close>. \<open>usize\<close> is 64 bits wide, so the last check of
  \<open>validate_parameters\<close>, that the maximum response size fits it, always succeeds and is left out.
\<close>

section \<open>Data\<close>

type_synonym policy_error = string

definition CONTENTION_SCENARIO_ID :: string where
  "CONTENTION_SCENARIO_ID = ''iceberg-rest.commit.same-table-contention''"

definition CONTENTION_SCENARIO_VERSION :: u32 where
  "CONTENTION_SCENARIO_VERSION = 2"

definition CONTENTION_TRANSCRIPT_FORMAT :: string where
  "CONTENTION_TRANSCRIPT_FORMAT = ''catalog-bench/contention-transcript/v1''"

definition RUNNER_COMPONENT_ID :: string where
  "RUNNER_COMPONENT_ID = ''catalog-bench-commit''"

definition CONTENTION_METADATA_DELETE_AFTER_COMMIT :: bool where
  "CONTENTION_METADATA_DELETE_AFTER_COMMIT = False"

definition CONTENTION_METADATA_PREVIOUS_VERSIONS_MAX :: u32 where
  "CONTENTION_METADATA_PREVIOUS_VERSIONS_MAX = 100000"

datatype catalog_order = RotateLeft
datatype aggregate_policy = MedianWithMinMax
datatype commit_requirement = AssertTableUuid
datatype idempotency_policy = Omitted

record round_policy =
  conditioning_rounds :: u32
  measured_rounds :: u32
  catalog_order_of :: catalog_order
  aggregate_of :: aggregate_policy
  require_every_round_to_pass :: bool

record workload_policy =
  warmup_commits :: u64
  sequential_commits :: u64
  concurrent_writers :: u32
  concurrent_duration_ms :: u64
  commit_property :: string
  requirement_of :: commit_requirement
  idempotency_key :: idempotency_policy

record metadata_retention_policy =
  delete_after_commit :: bool
  previous_versions_max :: u32

record object_store_policy =
  os_component :: component_id
  os_endpoint :: string
  os_bucket :: string
  os_region :: string
  os_allow_http :: bool
  os_path_style_access :: bool
  os_access_key_env :: string
  os_secret_key_env :: string

record limit_policy =
  request_timeout_ms :: u64
  maximum_response_bytes :: u64
  maximum_fixture_id_bytes :: u64

record contention_parameters =
  fixture_prefix :: string
  transcript_format :: string
  round_policy_of :: round_policy
  metadata_retention :: metadata_retention_policy
  workload :: workload_policy
  object_store :: object_store_policy
  limits :: limit_policy

record catalog_run =
  run_catalog :: component_id
  run_name :: string
  run_version :: string

datatype round_kind = Conditioning | Measured

record round_plan =
  round_repetition :: u32
  round_kind_of :: round_kind
  round_catalogs :: "catalog_run list"

record contention_plan =
  plan_parameters :: contention_parameters
  plan_rounds :: "round_plan list"

record contention_fixture =
  fixture_id :: string
  fixture_namespace :: string
  fixture_table :: string

section \<open>Validation of scenario and parameters\<close>

definition validate_scenario_shape :: "scenario \<Rightarrow> policy_error + unit" where
  "validate_scenario_shape s =
     (if scn_ident s \<noteq> CONTENTION_SCENARIO_ID then
        Err (''contention runner requires scenario '' @ quoted CONTENTION_SCENARIO_ID
             @ '', found '' @ quoted (scn_ident s))
      else if scn_version s \<noteq> CONTENTION_SCENARIO_VERSION then
        Err (''contention runner supports scenario version '' @ show_word CONTENTION_SCENARIO_VERSION
             @ '', found '' @ show_word (scn_version s))
      else if scn_family s \<noteq> Concurrency then
        Err (''contention scenario family must be '' @ quoted ''concurrency'')
      else if list_ex (\<lambda>r. req_level r \<noteq> Required) (scn_capabilities s) then
        Err ''every contention capability must be required''
      else if list_ex (\<lambda>a. \<not> spec_required a) (scn_assertions s) then
        Err ''every contention assertion must be required''
      else Ok ())"

definition validate_canonical_scenario ::
  "decoders \<Rightarrow> url_parser \<Rightarrow> string \<Rightarrow> scenario \<Rightarrow> policy_error + unit" where
  "validate_canonical_scenario dec url_parse canonical s =
     and_then (map_err (\<lambda>e. ''compiled contention scenario is invalid: '' @ show_parse_contract_error e)
                 (parse_contract dec url_parse canonical)) (\<lambda>document.
       case document of
         ScenarioDocument c \<Rightarrow>
           if s \<noteq> c
           then Err ''contention scenario drifted from the implemented canonical v2 policy'' else Ok ()
       | _ \<Rightarrow> Err ''compiled contention scenario is not a scenario document'')"

definition decode_parameters ::
  "(json \<Rightarrow> string + contention_parameters) \<Rightarrow> scenario \<Rightarrow> policy_error + contention_parameters" where
  "decode_parameters from_value s =
     map_err (\<lambda>e. ''invalid contention scenario parameters: '' @ e) (from_value (JObject (scn_parameters s)))"

definition is_fixture_char :: "char \<Rightarrow> bool" where
  "is_fixture_char c \<longleftrightarrow> is_ascii_lowercase c \<or> is_ascii_digit c \<or> c = CHR ''_''"

definition valid_environment_variable :: "string \<Rightarrow> bool" where
  "valid_environment_variable v \<longleftrightarrow>
     (case v of [] \<Rightarrow> False
      | c # cs \<Rightarrow> (is_ascii_uppercase c \<or> c = CHR ''_'')
          \<and> list_all (\<lambda>d. is_ascii_uppercase d \<or> is_ascii_digit d \<or> d = CHR ''_'') cs)"

definition validate_rounds :: "round_policy \<Rightarrow> policy_error + unit" where
  "validate_rounds r =
     (if conditioning_rounds r = 0 \<or> measured_rounds r = 0 then
        Err ''round policy requires conditioning and measured rounds''
      else
        and_then (ok_or (checked_add (conditioning_rounds r) (measured_rounds r)) ''round count overflows u32'')
          (\<lambda>_. if \<not> require_every_round_to_pass r then
                  Err ''strict contention ranking requires every round to pass''
                else Ok ()))"

definition validate_retention :: "metadata_retention_policy \<Rightarrow> policy_error + unit" where
  "validate_retention r =
     (if delete_after_commit r \<noteq> CONTENTION_METADATA_DELETE_AFTER_COMMIT
         \<or> previous_versions_max r \<noteq> CONTENTION_METADATA_PREVIOUS_VERSIONS_MAX then
        Err (''contention metadata retention must set delete-after-commit=false and previous-versions-max=''
             @ show_word CONTENTION_METADATA_PREVIOUS_VERSIONS_MAX)
      else Ok ())"

definition validate_workload :: "workload_policy \<Rightarrow> policy_error + unit" where
  "validate_workload w =
     (if warmup_commits w = 0 \<or> sequential_commits w = 0 \<or> concurrent_writers w = 0
         \<or> concurrent_duration_ms w = 0 then
        Err ''warmup, sequential, writer, and concurrent duration values must be positive''
      else if is_blank (commit_property w) then Err ''commit property must not be empty''
      else Ok ())"

definition validate_object_store :: "url_parser \<Rightarrow> object_store_policy \<Rightarrow> policy_error + unit" where
  "validate_object_store url_parse os =
     and_then (map_err (\<lambda>e. ''invalid object-store endpoint: '' @ e) (url_parse (os_endpoint os)))
       (\<lambda>endpoint.
         if url_host_str endpoint = None \<or> url_username endpoint \<noteq> [] \<or> url_password endpoint \<noteq> None
            \<or> url_query endpoint \<noteq> None \<or> url_fragment endpoint \<noteq> None
            \<or> \<not> (url_scheme endpoint = ''http'' \<or> url_scheme endpoint = ''https'') then
           Err ''object-store endpoint must be a credential-free absolute HTTP(S) URL''
         else if (url_scheme endpoint = ''http'') \<noteq> os_allow_http os then
           Err ''object-store allow_http must match the endpoint scheme''
         else if is_blank (os_bucket os) \<or> is_blank (os_region os) then
           Err ''object-store bucket and region must not be empty''
         else if \<not> os_path_style_access os then
           Err ''the shared MinIO workload requires path-style access''
         else
           and_then (try_map (\<lambda>v. if valid_environment_variable v then Ok ()
               else Err (''invalid object-store credential environment variable '' @ quoted v))
               [os_access_key_env os, os_secret_key_env os]) (\<lambda>_.
             if os_access_key_env os = os_secret_key_env os then
               Err ''object-store access-key and secret-key environment variables must differ''
             else Ok ()))"

definition validate_parameters :: "url_parser \<Rightarrow> contention_parameters \<Rightarrow> policy_error + unit" where
  "validate_parameters url_parse p =
     (if transcript_format p \<noteq> CONTENTION_TRANSCRIPT_FORMAT then
        Err (''unsupported transcript format '' @ quoted (transcript_format p))
      else if fixture_prefix p = [] \<or> \<not> list_all is_fixture_char (fixture_prefix p) then
        Err ''fixture prefix must contain lowercase ASCII letters, digits, or underscores''
      else
        and_then (validate_rounds (round_policy_of p)) (\<lambda>_.
        and_then (validate_retention (metadata_retention p)) (\<lambda>_.
        and_then (validate_workload (workload p)) (\<lambda>_.
        and_then (validate_object_store url_parse (object_store p)) (\<lambda>_.
          if request_timeout_ms (limits p) = 0 \<or> maximum_response_bytes (limits p) = 0
             \<or> maximum_fixture_id_bytes (limits p) = 0 then
            Err ''contention limits must be positive''
          else Ok ())))))"

section \<open>Validation of the profile\<close>

definition check_object_store_service ::
  "object_store_policy \<Rightarrow> service_binding \<Rightarrow> bool" where
  "check_object_store_service os s \<longleftrightarrow>
     svc_endpoint s = Some (os_endpoint os)
     \<and> Option.bind (map_of (svc_settings s) ''bucket'') json_as_str = Some (os_bucket os)
     \<and> Option.bind (map_of (svc_settings s) ''region'') json_as_str = Some (os_region os)
     \<and> Option.bind (map_of (svc_settings s) ''path_style_access'') json_as_bool
         = Some (os_path_style_access os)"

definition validate_platform :: "profile \<Rightarrow> contention_parameters \<Rightarrow> policy_error + unit" where
  "validate_platform p ps =
     (if plat_mode (prof_platform p) \<noteq> DockerCompose then
        Err ''contention profile must execute through Docker Compose''
      else if plat_shared_object_store (prof_platform p) \<noteq> os_component (object_store ps) then
        Err ''scenario object store does not match the profile shared object store''
      else if plat_warehouse_uri (prof_platform p) \<noteq> ''s3://'' @ os_bucket (object_store ps) then
        Err ''scenario object-store bucket does not match the profile warehouse URI''
      else
        and_then (ok_or (find (\<lambda>c. component_ident c = RUNNER_COMPONENT_ID) (prof_components p))
                    ''profile omits the contention runner component'') (\<lambda>runner.
        if component_kind_of runner \<noteq> BenchmarkHarness then
          Err ''contention runner component is not a benchmark harness''
        else
          and_then (ok_or (find (\<lambda>c. component_ident c = os_component (object_store ps)) (prof_components p))
                      ''profile omits the shared object-store component'') (\<lambda>store.
          if component_kind_of store \<noteq> ObjectStore then
            Err ''profile shared object-store component has the wrong kind''
          else
            and_then (ok_or (find (\<lambda>s. svc_component s = os_component (object_store ps)) (prof_services p))
                        ''profile omits the shared object-store service'') (\<lambda>service.
            if \<not> check_object_store_service (object_store ps) service then
              Err ''profile object-store service does not match the contention policy''
            else Ok ()))))"

text \<open>
  The checks of one adapter and the catalog it contributes. The component map is collected from all
  components, a later entry with the same identifier replacing an earlier one.
\<close>

definition check_requirement ::
  "capability_id list \<Rightarrow> catalog_adapter \<Rightarrow> capability_requirement \<Rightarrow> policy_error + unit" where
  "check_requirement vocabulary a r =
     (if req_capability r \<notin> set vocabulary then
        Err (''profile vocabulary omits required capability '' @ quoted (req_capability r))
      else if \<not> exercises (adapter_capabilities a) (req_capability r) then
        Err (''catalog '' @ quoted (adapter_catalog a) @ '' does not exercise required capability ''
             @ quoted (req_capability r))
      else Ok ())"

definition catalog_of_adapter ::
  "profile \<Rightarrow> scenario \<Rightarrow> catalog_adapter \<Rightarrow> policy_error + catalog_run" where
  "catalog_of_adapter p s a =
     (if adapter_protocol a \<noteq> IcebergRestV1 then
        Err (''catalog '' @ quoted (adapter_catalog a) @ '' does not use Iceberg REST v1'')
      else if adapter_handling a \<noteq> ProtocolNative then
        Err (''catalog '' @ quoted (adapter_catalog a) @ '' uses a behavior-changing shim'')
      else
        and_then (try_map (check_requirement (map cap_ident (prof_catalog_capabilities p)) a)
                    (scn_capabilities s)) (\<lambda>_.
        and_then (ok_or (map_of (rev (map (\<lambda>c. (component_ident c, c)) (prof_components p))) (adapter_catalog a))
                    (''profile omits component for catalog '' @ quoted (adapter_catalog a))) (\<lambda>c.
          if component_kind_of c \<noteq> Catalog then
            Err (''component '' @ quoted (adapter_catalog a) @ '' is not classified as a catalog'')
          else Ok \<lparr>run_catalog = adapter_catalog a, run_name = component_name c,
                   run_version = component_version c\<rparr>)))"

definition validate_profile ::
  "profile \<Rightarrow> scenario \<Rightarrow> contention_parameters \<Rightarrow> policy_error + catalog_run list" where
  "validate_profile p s ps =
     and_then (validate_platform p ps) (\<lambda>_.
       if prof_catalog_adapters p = [] then Err ''profile has no catalog adapters''
       else
         and_then (try_map (catalog_of_adapter p s) (prof_catalog_adapters p)) (\<lambda>catalogs.
           if unat (measured_rounds (round_policy_of ps)) \<noteq> length catalogs then
             Err (''balanced rotate-left ranking requires one measured round per catalog (''
                  @ show_nat (length catalogs) @ '' catalogs, ''
                  @ show_word (measured_rounds (round_policy_of ps)) @ '' measured rounds)'')
           else Ok catalogs))"

section \<open>The schedule\<close>

definition rotate_left :: "nat \<Rightarrow> 'a list \<Rightarrow> 'a list" where
  "rotate_left offset xs = drop offset xs @ take offset xs"

definition schedule_round :: "catalog_run list \<Rightarrow> round_policy \<Rightarrow> nat \<Rightarrow> round_plan" where
  "schedule_round catalogs policy index =
     \<lparr>round_repetition = of_nat index + 1,
      round_kind_of = (if index < unat (conditioning_rounds policy) then Conditioning else Measured),
      round_catalogs = rotate_left (index mod length catalogs) catalogs\<rparr>"

definition schedule_rounds :: "catalog_run list \<Rightarrow> round_policy \<Rightarrow> policy_error + round_plan list" where
  "schedule_rounds catalogs policy =
     (if catalogs = [] then Err ''cannot schedule an empty catalog set''
      else
        and_then (ok_or (checked_add (conditioning_rounds policy) (measured_rounds policy))
                    ''round count overflows u32'') (\<lambda>total.
          Ok (map (schedule_round catalogs policy) [0..<unat total])))"

definition from_contracts ::
  "decoders \<Rightarrow> url_parser \<Rightarrow> (json \<Rightarrow> string + contention_parameters) \<Rightarrow> string
   \<Rightarrow> profile \<Rightarrow> scenario \<Rightarrow> policy_error + contention_plan" where
  "from_contracts dec url_parse from_value canonical p s =
     and_then (validate_scenario_shape s) (\<lambda>_.
     and_then (decode_parameters from_value s) (\<lambda>parameters.
     and_then (validate_parameters url_parse parameters) (\<lambda>_.
     and_then (validate_canonical_scenario dec url_parse canonical s) (\<lambda>_.
     and_then (validate_profile p s parameters) (\<lambda>catalogs.
     and_then (schedule_rounds catalogs (round_policy_of parameters)) (\<lambda>rounds.
       Ok \<lparr>plan_parameters = parameters, plan_rounds = rounds\<rparr>))))))"

section \<open>Fixtures\<close>

definition validate_fixture_id :: "string \<Rightarrow> nat \<Rightarrow> policy_error + unit" where
  "validate_fixture_id ident maximum_bytes =
     (if ident = [] \<or> maximum_bytes < length ident then
        Err (''fixture id must contain 1 to '' @ show_nat maximum_bytes @ '' bytes'')
      else if \<not> list_all is_fixture_char ident then
        Err ''fixture id must contain only lowercase ASCII letters, digits, and underscores''
      else Ok ())"

definition catalog_stem :: "component_id \<Rightarrow> string" where
  "catalog_stem catalog = str_replace ''-'' ''_'' catalog"

definition fixture ::
  "contention_plan \<Rightarrow> component_id \<Rightarrow> string \<Rightarrow> u32 \<Rightarrow> policy_error + contention_fixture" where
  "fixture plan catalog ident repetition =
     and_then (validate_fixture_id ident (unat (maximum_fixture_id_bytes (limits (plan_parameters plan))))) (\<lambda>_.
       if repetition = 0
          \<or> \<not> list_ex (\<lambda>r. round_repetition r = repetition
                 \<and> list_ex (\<lambda>e. run_catalog e = catalog) (round_catalogs r)) (plan_rounds plan) then
         Err (''catalog '' @ quoted catalog @ '' is not scheduled in repetition '' @ show_word repetition)
       else if \<not> list_all is_fixture_char (catalog_stem catalog) then
         Err (''catalog identifier '' @ quoted catalog @ '' is unsafe for an isolated fixture'')
       else
         Ok \<lparr>fixture_id = ident,
             fixture_namespace = fixture_prefix (plan_parameters plan) @ ''_'' @ catalog_stem catalog
               @ ''_'' @ ident @ ''_r'' @ show_nat_02 (unat repetition),
             fixture_table = ''same_table_contention''\<rparr>)"

section \<open>The schedule is balanced\<close>

lemma schedule_round_rotate: "round_catalogs (schedule_round cs p k) = rotate k cs"
  by (simp add: schedule_round_def rotate_left_def rotate_drop_take)

lemma mset_rotate: "mset (rotate k xs) = mset xs"
  by (metis add.commute append_take_drop_id mset_append rotate_drop_take)

lemma schedule_rounds_Ok:
  "schedule_rounds cs p = Inr rs \<longleftrightarrow> cs \<noteq> []
     \<and> unat (conditioning_rounds p) + unat (measured_rounds p) < 2 ^ 32
     \<and> rs = map (schedule_round cs p) [0..<unat (conditioning_rounds p) + unat (measured_rounds p)]"
  by (auto simp: schedule_rounds_def and_then_eq_Inr checked_add_def unat_word_ariths ok_or_def
      split: if_splits)

text \<open>Walking \<open>n\<close> steps of a cycle of length \<open>n\<close> meets every residue exactly once.\<close>

lemma unique_shift:
  assumes "j < (n :: nat)"
  shows "\<exists>!k. k < n \<and> (a + k) mod n = j"
proof -
  define b where "b = a mod n"
  have b: "b < n" using assms by (auto simp: b_def intro: mod_less_divisor)
  have step: "(a + k) mod n = (if b + k < n then b + k else b + k - n)" if "k < n" for k
  proof -
    have "(a + k) mod n = (b + k) mod n" by (simp add: b_def mod_add_left_eq)
    also have "\<dots> = (if b + k < n then b + k else b + k - n)"
      using that b by (auto simp: mod_if [of "b + k" n] mod_if [of "b + k - n" n])
    finally show ?thesis .
  qed
  show ?thesis
  proof (rule ex1I [of _ "if b \<le> j then j - b else j + n - b"])
    show "(if b \<le> j then j - b else j + n - b) < n \<and> (a + (if b \<le> j then j - b else j + n - b)) mod n = j"
      using assms b by (subst step) auto
    show "k = (if b \<le> j then j - b else j + n - b)" if "k < n \<and> (a + k) mod n = j" for k
      using that step [of k] b assms by (auto split: if_splits)
  qed
qed

lemma measured_round_iff:
  "round_kind_of (schedule_round cs p k) = Measured \<longleftrightarrow> unat (conditioning_rounds p) \<le> k"
  by (simp add: schedule_round_def not_less)

lemma schedule_latin_square:
  assumes "distinct cs" "c \<in> set cs" "i < length cs" "length cs = unat (measured_rounds p)"
  shows "\<exists>!k. k < unat (conditioning_rounds p) + unat (measured_rounds p)
    \<and> round_kind_of (schedule_round cs p k) = Measured \<and> round_catalogs (schedule_round cs p k) ! i = c"
proof -
  let ?n = "length cs" and ?c = "unat (conditioning_rounds p)"
  obtain j where j: "j < ?n" "cs ! j = c" using assms(2) by (auto simp: in_set_conv_nth)
  have "cs ! m = c \<longleftrightarrow> m = j" if "m < ?n" for m
    using assms(1) j that by (metis nth_eq_iff_index_eq)
  moreover have "(k + i) mod ?n < ?n" for k using j(1) by (intro mod_less_divisor) linarith
  ultimately have at: "round_catalogs (schedule_round cs p k) ! i = c \<longleftrightarrow> (k + i) mod ?n = j" for k
    using assms(3) by (simp add: schedule_round_rotate nth_rotate)
  obtain m where m: "m < ?n" "(i + ?c + m) mod ?n = j"
    and u: "\<And>m'. m' < ?n \<Longrightarrow> (i + ?c + m') mod ?n = j \<Longrightarrow> m' = m"
    using unique_shift [OF j(1), of "i + ?c"] by blast
  show ?thesis
  proof (rule ex1I [of _ "?c + m"])
    show "?c + m < ?c + unat (measured_rounds p) \<and> round_kind_of (schedule_round cs p (?c + m)) = Measured
      \<and> round_catalogs (schedule_round cs p (?c + m)) ! i = c"
      using m assms(4) by (simp add: at measured_round_iff ac_simps)
    fix k
    assume k: "k < ?c + unat (measured_rounds p) \<and> round_kind_of (schedule_round cs p k) = Measured
      \<and> round_catalogs (schedule_round cs p k) ! i = c"
    then have "?c \<le> k" by (simp add: measured_round_iff)
    with k have "k - ?c < ?n" "(i + ?c + (k - ?c)) mod ?n = j"
      using assms(4) by (auto simp: at ac_simps)
    from u [OF this] \<open>?c \<le> k\<close> show "k = ?c + m" by simp
  qed
qed

text \<open>A schedule in which every catalog meets every position exactly once.\<close>

lemma schedule_balanced:
  assumes "distinct catalogs" "catalogs \<noteq> []" "length catalogs = unat (measured_rounds policy)"
    and "unat (conditioning_rounds policy) + unat (measured_rounds policy) < 2 ^ 32"
  shows "\<exists>rounds. schedule_rounds catalogs policy = Inr rounds
    \<and> map (unat \<circ> round_repetition) rounds = [1..<Suc (length rounds)]
    \<and> (\<forall>r \<in> set rounds. mset (round_catalogs r) = mset catalogs)
    \<and> (\<forall>c \<in> set catalogs. \<forall>i < length catalogs.
         \<exists>!k. k < length rounds \<and> round_kind_of (rounds ! k) = Measured \<and> round_catalogs (rounds ! k) ! i = c)"
proof -
  let ?t = "unat (conditioning_rounds policy) + unat (measured_rounds policy)"
  let ?rs = "map (schedule_round catalogs policy) [0..<?t]"
  have ok: "schedule_rounds catalogs policy = Inr ?rs" using assms by (simp add: schedule_rounds_Ok)
  have "map (unat \<circ> round_repetition) ?rs = map Suc [0..<?t]"
    using assms(4) by (auto simp: schedule_round_def unat_word_ariths unat_of_nat)
  then have rep: "map (unat \<circ> round_repetition) ?rs = [1..<Suc (length ?rs)]" by (simp add: map_Suc_upt)
  have perm: "\<forall>r \<in> set ?rs. mset (round_catalogs r) = mset catalogs"
    by (simp add: schedule_round_rotate mset_rotate)
  have latin: "\<exists>!k. k < length ?rs \<and> round_kind_of (?rs ! k) = Measured \<and> round_catalogs (?rs ! k) ! i = c"
    if "c \<in> set catalogs" "i < length catalogs" for c i
  proof -
    have "(k < length ?rs \<and> round_kind_of (?rs ! k) = Measured \<and> round_catalogs (?rs ! k) ! i = c)
      \<longleftrightarrow> (k < ?t \<and> round_kind_of (schedule_round catalogs policy k) = Measured
        \<and> round_catalogs (schedule_round catalogs policy k) ! i = c)" for k
      by auto
    then show ?thesis using schedule_latin_square [OF assms(1) that assms(3)] by simp
  qed
  from ok rep perm latin show ?thesis by blast
qed


lemma from_contracts_Ok:
  assumes "from_contracts dec url_parse from_value canonical p s = Inr plan"
  obtains catalogs where "map run_catalog catalogs = map adapter_catalog (prof_catalog_adapters p)"
    "catalogs \<noteq> []" "length catalogs = unat (measured_rounds (round_policy_of (plan_parameters plan)))"
    "schedule_rounds catalogs (round_policy_of (plan_parameters plan)) = Inr (plan_rounds plan)"
proof -
  obtain parameters catalogs rounds where v: "validate_profile p s parameters = Inr catalogs"
    and r: "schedule_rounds catalogs (round_policy_of parameters) = Inr rounds"
    and plan: "plan = \<lparr>plan_parameters = parameters, plan_rounds = rounds\<rparr>"
    using assms by (auto simp: from_contracts_def and_then_eq_Inr)
  have t: "try_map (catalog_of_adapter p s) (prof_catalog_adapters p) = Inr catalogs"
    and ne: "prof_catalog_adapters p \<noteq> []" and len: "unat (measured_rounds (round_policy_of parameters)) = length catalogs"
    using v by (auto simp: validate_profile_def and_then_eq_Inr split: if_splits)
  have "run_catalog c = adapter_catalog a" if "catalog_of_adapter p s a = Inr c" for a c
    using that by (auto simp: catalog_of_adapter_def and_then_eq_Inr split: if_splits)
  then have "map run_catalog catalogs = map adapter_catalog (prof_catalog_adapters p)"
    using t by (auto simp: try_map_eq_Inr intro!: nth_equalityI)
  with ne len r plan show ?thesis by (intro that [of catalogs]) auto
qed

section \<open>Fixtures are isolated\<close>

lemma is_ascii_digit_no_underscore: "list_all is_ascii_digit s \<Longrightarrow> CHR ''_'' \<notin> set s"
  by (auto simp: list_all_iff is_ascii_digit_byte byte_def)

lemma show_nat_02_digits: "list_all is_ascii_digit (show_nat_02 n)"
  using show_nat_digits [of n] by (simp add: show_nat_02_def is_ascii_digit_byte byte_def)

lemma fixture_Ok:
  assumes "fixture plan catalog ident repetition = Inr f"
  shows "fixture_namespace f = (fixture_prefix (plan_parameters plan) @ ''_'' @ catalog_stem catalog
      @ ''_'' @ ident) @ CHR ''_'' # (CHR ''r'' # show_nat_02 (unat repetition))"
    and "fixture_id f = ident" "fixture_table f = ''same_table_contention''"
    and "list_all is_fixture_char ident" "list_all is_fixture_char (catalog_stem catalog)"
  using assms by (auto simp: fixture_def and_then_eq_Inr validate_fixture_id_def split: if_splits)

lemma fixture_namespace_inj:
  assumes "fixture plan c1 ident r1 = Inr f1" "fixture plan c2 ident r2 = Inr f2"
    and eq: "fixture_namespace f1 = fixture_namespace f2"
  shows "r1 = r2 \<and> catalog_stem c1 = catalog_stem c2"
proof -
  have "CHR ''_'' \<notin> set (CHR ''r'' # show_nat_02 n)" for n
    using is_ascii_digit_no_underscore [OF show_nat_02_digits] by simp
  from append_sep_inj [OF eq [unfolded fixture_Ok(1) [OF assms(1)] fixture_Ok(1) [OF assms(2)]] this this]
  show ?thesis by (simp add: word_unat_eq_iff)
qed

lemma catalog_stem_inj:
  assumes "CHR ''_'' \<notin> set c1" "CHR ''_'' \<notin> set c2" "catalog_stem c1 = catalog_stem c2"
  shows "c1 = c2"
proof (rule map_inj_on)
  show "map (\<lambda>d. if d = CHR ''-'' then CHR ''_'' else d) c1 = map (\<lambda>d. if d = CHR ''-'' then CHR ''_'' else d) c2"
    using assms(3) by (simp only: catalog_stem_def str_replace_char)
  have "d = e" if "(if d = a then b else d) = (if e = a then b else e)" "d \<noteq> b" "e \<noteq> b" for a b d e :: char
    using that by (simp split: if_splits)
  then show "inj_on (\<lambda>d. if d = CHR ''-'' then CHR ''_'' else d) (set c1 \<union> set c2)"
    using assms(1,2) unfolding inj_on_def by blast
qed

section \<open>Properties\<close>

definition demo_round_policy :: round_policy where
  "demo_round_policy = \<lparr>conditioning_rounds = 1, measured_rounds = 2, catalog_order_of = RotateLeft,
     aggregate_of = MedianWithMinMax, require_every_round_to_pass = True\<rparr>"

definition demo_parameters :: contention_parameters where
  "demo_parameters = \<lparr>fixture_prefix = ''cb'', transcript_format = CONTENTION_TRANSCRIPT_FORMAT,
     round_policy_of = demo_round_policy,
     metadata_retention = \<lparr>delete_after_commit = False, previous_versions_max = 100000\<rparr>,
     workload = \<lparr>warmup_commits = 1, sequential_commits = 1, concurrent_writers = 2,
       concurrent_duration_ms = 10, commit_property = ''p'', requirement_of = AssertTableUuid,
       idempotency_key = Omitted\<rparr>,
     object_store = \<lparr>os_component = ''store'', os_endpoint = ''http://m'', os_bucket = ''w'', os_region = ''r'',
       os_allow_http = True, os_path_style_access = True, os_access_key_env = ''A'', os_secret_key_env = ''B''\<rparr>,
     limits = \<lparr>request_timeout_ms = 1, maximum_response_bytes = 1048576, maximum_fixture_id_bytes = 8\<rparr>\<rparr>"

definition demo_contention_scenario :: scenario where
  "demo_contention_scenario = demo_scenario\<lparr>scn_ident := CONTENTION_SCENARIO_ID,
     scn_version := CONTENTION_SCENARIO_VERSION\<rparr>"

definition demo_contention_profile :: profile where
  "demo_contention_profile = demo_profile\<lparr>
     prof_components := [demo_component ''cat'' Catalog, demo_component ''dog'' Catalog,
       demo_component ''store'' ObjectStore, demo_component RUNNER_COMPONENT_ID BenchmarkHarness],
     prof_services := [\<lparr>svc_component = ''cat'', svc_role = ''iceberg-rest-catalog'',
         svc_endpoint = Some ''http://h/api'', svc_private_state = None, svc_settings = [], svc_extensions = []\<rparr>,
       \<lparr>svc_component = ''dog'', svc_role = ''iceberg-rest-catalog'',
         svc_endpoint = Some ''http://h/api'', svc_private_state = None, svc_settings = [], svc_extensions = []\<rparr>,
       \<lparr>svc_component = ''store'', svc_role = ''store'', svc_endpoint = Some ''http://m'',
         svc_private_state = None, svc_settings = [(''bucket'', JString ''w''), (''region'', JString ''r''),
           (''path_style_access'', JBool True)], svc_extensions = []\<rparr>],
     prof_catalog_adapters := [demo_adapter, demo_adapter\<lparr>adapter_catalog := ''dog''\<rparr>]\<rparr>"

definition demo_plan :: contention_plan where
  "demo_plan = \<lparr>plan_parameters = demo_parameters,
     plan_rounds = map (schedule_round
       [\<lparr>run_catalog = ''cat'', run_name = ''n'', run_version = ''1''\<rparr>,
        \<lparr>run_catalog = ''dog'', run_name = ''n'', run_version = ''1''\<rparr>] demo_round_policy) [0..<3]\<rparr>"

lemma demo_shape: "validate_scenario_shape demo_contention_scenario = Inr ()"
  by (simp add: validate_scenario_shape_def demo_contention_scenario_def demo_scenario_def)

lemma demo_parameters_valid: "validate_parameters demo_url_parse demo_parameters = Inr ()"
proof -
  have "validate_object_store demo_url_parse (object_store demo_parameters) = Inr ()"
    "validate_workload (workload demo_parameters) = Inr ()"
    "list_all is_fixture_char (fixture_prefix demo_parameters)" by code_simp+
  moreover have "validate_rounds (round_policy_of demo_parameters) = Inr ()"
    by (simp add: validate_rounds_def demo_parameters_def demo_round_policy_def checked_add_def)
  moreover have "validate_retention (metadata_retention demo_parameters) = Inr ()"
    by (simp add: validate_retention_def demo_parameters_def CONTENTION_METADATA_DELETE_AFTER_COMMIT_def
        CONTENTION_METADATA_PREVIOUS_VERSIONS_MAX_def)
  ultimately show ?thesis by (simp add: validate_parameters_def) (simp add: demo_parameters_def)
qed

lemma demo_canonical:
  "validate_canonical_scenario (demo_decoders\<lparr>scenario_from_value := \<lambda>_. Inr demo_contention_scenario\<rparr>)
     demo_url_parse ''{}'' demo_contention_scenario = Inr ()"
proof -
  have "scenario_issues demo_contention_scenario ''$'' = []" by code_simp
  then show ?thesis
    by (simp add: validate_canonical_scenario_def parse_contract_def parse_typed_def demo_decoders_def
        json_get_def json_as_str_def validate_with_def)
qed

lemma demo_profile_valid:
  "validate_profile demo_contention_profile demo_contention_scenario demo_parameters = Inr
     [\<lparr>run_catalog = ''cat'', run_name = ''n'', run_version = ''1''\<rparr>,
      \<lparr>run_catalog = ''dog'', run_name = ''n'', run_version = ''1''\<rparr>]"
  by code_simp

lemma demo_plan_from_contracts:
  "from_contracts (demo_decoders\<lparr>scenario_from_value := \<lambda>_. Inr demo_contention_scenario\<rparr>) demo_url_parse
     (\<lambda>_. Inr demo_parameters) ''{}'' demo_contention_profile demo_contention_scenario = Inr demo_plan"
  by (simp add: from_contracts_def demo_shape decode_parameters_def demo_parameters_valid demo_canonical
      demo_profile_valid schedule_rounds_def demo_plan_def)
    (simp add: demo_parameters_def demo_round_policy_def checked_add_def upt_rec)

lemma demo_contention_profile_accepted:
  "validate_with (profile_issues demo_url_parse demo_contention_profile) = Inr ()"
  by code_simp

text \<open>C10. The benchmark order is fair: in every plan built from an accepted profile, the repetitions
  are numbered 1, 2 and so on, every round runs every adapted catalog exactly once, and every
  catalog takes every position of the running order in exactly one measured round.\<close>

theorem plan_balanced:
  assumes "validate_with (profile_issues url_parse p) = Inr ()" "adapter_contract_required p"
    and "from_contracts dec url_parse from_value canonical p s = Inr plan"
  shows "map (unat \<circ> round_repetition) (plan_rounds plan) = [1..<Suc (length (plan_rounds plan))]
    \<and> (\<forall>r \<in> set (plan_rounds plan).
         mset (map run_catalog (round_catalogs r)) = mset (map adapter_catalog (prof_catalog_adapters p)))
    \<and> (\<forall>c \<in> adapter_catalog ` set (prof_catalog_adapters p). \<forall>i < length (prof_catalog_adapters p).
         \<exists>!k. k < length (plan_rounds plan) \<and> round_kind_of (plan_rounds plan ! k) = Measured
            \<and> run_catalog (round_catalogs (plan_rounds plan ! k) ! i) = c)"
proof -
  obtain cs where cs: "map run_catalog cs = map adapter_catalog (prof_catalog_adapters p)" "cs \<noteq> []"
    "length cs = unat (measured_rounds (round_policy_of (plan_parameters plan)))"
    "schedule_rounds cs (round_policy_of (plan_parameters plan)) = Inr (plan_rounds plan)"
    using assms(3) by (rule from_contracts_Ok)
  have len: "length cs = length (prof_catalog_adapters p)" using arg_cong [OF cs(1), of length] by simp
  have "distinct (map adapter_catalog (prof_catalog_adapters p))"
    by (rule profile_adapters_distinct [OF assms(1,2)])
  then have dist: "distinct (map run_catalog cs)" by (simp only: cs(1))
  then have inj: "run_catalog x = run_catalog y \<longleftrightarrow> x = y" if "x \<in> set cs" "y \<in> set cs" for x y
    using that by (auto simp: distinct_map inj_on_def)
  have bal: "map (unat \<circ> round_repetition) (plan_rounds plan) = [1..<Suc (length (plan_rounds plan))]"
    "\<forall>r \<in> set (plan_rounds plan). mset (round_catalogs r) = mset cs"
    "\<forall>c \<in> set cs. \<forall>i < length cs. \<exists>!k. k < length (plan_rounds plan)
       \<and> round_kind_of (plan_rounds plan ! k) = Measured \<and> round_catalogs (plan_rounds plan ! k) ! i = c"
    using schedule_balanced [OF _ cs(2,3)] dist cs(4) by (auto simp: distinct_map schedule_rounds_Ok)
  have perm: "mset (map run_catalog (round_catalogs r)) = mset (map adapter_catalog (prof_catalog_adapters p))"
    if "r \<in> set (plan_rounds plan)" for r
    using bal(2) that by (simp add: mset_map flip: cs(1))
  have "\<exists>!k. k < length (plan_rounds plan) \<and> round_kind_of (plan_rounds plan ! k) = Measured
            \<and> run_catalog (round_catalogs (plan_rounds plan ! k) ! i) = c"
    if "c \<in> adapter_catalog ` set (prof_catalog_adapters p)" "i < length (prof_catalog_adapters p)" for c i
  proof -
    have "c \<in> set (map run_catalog cs)" using that(1) by (simp add: cs(1))
    then obtain x where x: "x \<in> set cs" "run_catalog x = c" by auto
    have "round_catalogs (plan_rounds plan ! k) ! i \<in> set cs" if "k < length (plan_rounds plan)" for k
    proof -
      have "mset (round_catalogs (plan_rounds plan ! k)) = mset cs" using bal(2) that by simp
      then show ?thesis using \<open>i < _\<close> len by (metis mset_eq_length mset_eq_setD nth_mem)
    qed
    then have "(k < length (plan_rounds plan) \<and> round_kind_of (plan_rounds plan ! k) = Measured
        \<and> run_catalog (round_catalogs (plan_rounds plan ! k) ! i) = c)
      \<longleftrightarrow> (k < length (plan_rounds plan) \<and> round_kind_of (plan_rounds plan ! k) = Measured
        \<and> round_catalogs (plan_rounds plan ! k) ! i = x)" for k
      using inj x by blast
    with bal(3) x(1) that(2) len show ?thesis by simp
  qed
  with bal(1) perm show ?thesis by blast
qed

theorem plan_balanced_witness:
  "map (unat \<circ> round_repetition) (plan_rounds demo_plan) = [1..<Suc (length (plan_rounds demo_plan))]"
proof -
  have "adapter_contract_required demo_contention_profile" by code_simp
  from plan_balanced [OF demo_contention_profile_accepted this demo_plan_from_contracts] show ?thesis by blast
qed

text \<open>C38. How the fixtures of one sweep are kept apart: for one plan and one fixture identifier, two
  fixtures with the same namespace belong to the same repetition, whatever the catalogs, and, when
  the catalog identifiers use no underscore, to the same catalog.\<close>

theorem fixture_isolated:
  assumes "fixture plan c1 ident r1 = Inr f1" "fixture plan c2 ident r2 = Inr f2"
    and "fixture_namespace f1 = fixture_namespace f2"
  shows "r1 = r2 \<and> (CHR ''_'' \<notin> set c1 \<and> CHR ''_'' \<notin> set c2 \<longrightarrow> c1 = c2)"
  using fixture_namespace_inj [OF assms] catalog_stem_inj [of c1 c2] by blast

theorem fixture_isolated_witness:
  "\<exists>f g h. fixture demo_plan ''cat'' ''x1'' 2 = Inr f \<and> fixture demo_plan ''cat'' ''x1'' 1 = Inr g
     \<and> fixture demo_plan ''dog'' ''x1'' 2 = Inr h \<and> fixture_namespace f = ''cb_cat_x1_r02''
     \<and> fixture_namespace f \<noteq> fixture_namespace g \<and> fixture_namespace f \<noteq> fixture_namespace h"
proof -
  have two: "fixture demo_plan ''cat'' ''x1'' 2 = Inr \<lparr>fixture_id = ''x1'', fixture_namespace = ''cb_cat_x1_r02'',
      fixture_table = ''same_table_contention''\<rparr>"
    and one: "fixture demo_plan ''cat'' ''x1'' 1 = Inr \<lparr>fixture_id = ''x1'', fixture_namespace = ''cb_cat_x1_r01'',
      fixture_table = ''same_table_contention''\<rparr>"
    and dog: "fixture demo_plan ''dog'' ''x1'' 2 = Inr \<lparr>fixture_id = ''x1'', fixture_namespace = ''cb_dog_x1_r02'',
      fixture_table = ''same_table_contention''\<rparr>"
    by code_simp+
  from fixture_isolated [OF two two refl] fixture_isolated [OF two one] fixture_isolated [OF two dog] two one dog
  show ?thesis by auto
qed

end
