(* ===== verification/Commit_Store.thy ===== *)
theory Commit_Store
  imports Commit_Model Commit_Policy
begin

text \<open>
  The object-store side of the contention benchmark (\<open>crates/commit/src/store.rs\<close>): the root of a
  run-owned table, the containment test for metadata locations, the audit of the objects below a
  root and the bounded read of one metadata object. Three libraries are parameters: the crate
  \<open>url\<close> (\<open>Url::parse\<close>), the paths of the crate \<open>object_store\<close> (\<open>Path::from_url_path\<close> and
  \<open>Path::prefix_matches\<close>) and the store itself, whose calls pass a world of type \<open>'w\<close> along.
  An asynchronous stream of listed objects is the list of its items in the order they arrive.
\<close>

section \<open>Bounded and redacted details\<close>

definition MAXIMUM_FAILURE_DETAIL_CHARACTERS :: nat where
  "MAXIMUM_FAILURE_DETAIL_CHARACTERS = 512"

text \<open>The UTF-8 encoding of the horizontal ellipsis U+2026.\<close>

definition ellipsis :: string where
  "ellipsis = [CHR 0xE2, CHR 0x80, CHR 0xA6]"

definition redact_all :: "string list \<Rightarrow> string \<Rightarrow> string" where
  "redact_all sensitive_values detail =
     fold (\<lambda>value text. str_replace value ''<redacted>'' text)
       (filter (\<lambda>value. 4 \<le> length value) sensitive_values) detail"

definition redact_and_bound :: "string \<Rightarrow> string list \<Rightarrow> string" where
  "redact_and_bound detail sensitive_values =
     (let (bounded, rest) =
        take_chars MAXIMUM_FAILURE_DETAIL_CHARACTERS (redact_all sensitive_values detail)
      in if rest \<noteq> [] then bounded @ ellipsis else bounded)"

section \<open>Failures\<close>

datatype object_store_failure_kind = Configuration | Authentication | ListFailure | ReadFailure

record object_store_failure =
  osf_kind :: object_store_failure_kind
  osf_detail :: string

definition configuration_failure :: "string \<Rightarrow> object_store_failure" where
  "configuration_failure detail = \<lparr>osf_kind = Configuration, osf_detail = detail\<rparr>"

definition authentication_failure :: "string \<Rightarrow> object_store_failure" where
  "authentication_failure detail = \<lparr>osf_kind = Authentication, osf_detail = detail\<rparr>"

definition listing_failure :: "string \<Rightarrow> object_store_failure" where
  "listing_failure detail = \<lparr>osf_kind = ListFailure, osf_detail = detail\<rparr>"

definition reading_failure :: "string \<Rightarrow> object_store_failure" where
  "reading_failure detail = \<lparr>osf_kind = ReadFailure, osf_detail = detail\<rparr>"

section \<open>Table roots\<close>

text \<open>A normalised object path and the library functions on locations and paths.\<close>

type_synonym object_path = string

record location_lib =
  loc_url_parse :: url_parser
  loc_from_url_path :: "string \<Rightarrow> string + object_path"
  loc_prefix_matches :: "object_path \<Rightarrow> object_path \<Rightarrow> bool"

record table_root =
  root_location :: string
  root_bucket :: string
  root_path :: object_path

definition parse_s3_location ::
  "location_lib \<Rightarrow> string \<Rightarrow> string \<Rightarrow> object_store_failure + (string \<times> object_path)" where
  "parse_s3_location lib location label =
     and_then (map_err (\<lambda>error. configuration_failure (''invalid '' @ label @ '': '' @ error))
                (loc_url_parse lib location)) (\<lambda>u.
       if url_scheme u \<noteq> ''s3'' \<or> url_host_str u = None \<or> url_username u \<noteq> []
          \<or> url_password u \<noteq> None \<or> url_query u \<noteq> None \<or> url_fragment u \<noteq> None then
         Err (configuration_failure (label @ '' must be a credential-free absolute s3 URI''))
       else
         and_then (map_err (\<lambda>error. configuration_failure (''invalid '' @ label @ '' path: '' @ error))
                    (loc_from_url_path lib (url_path u))) (\<lambda>path.
           Ok (the (url_host_str u), path)))"

definition metadata_path ::
  "location_lib \<Rightarrow> table_root \<Rightarrow> string \<Rightarrow> object_store_failure + object_path" where
  "metadata_path lib tr location =
     and_then (parse_s3_location lib location ''metadata location'') (\<lambda>(bucket, path).
       if bucket \<noteq> root_bucket tr \<or> \<not> loc_prefix_matches lib path (root_path tr)
          \<or> path = root_path tr then
         Err (configuration_failure ''metadata location is outside the returned table root'')
       else if \<not> ends_with path ''.metadata.json'' then
         Err (configuration_failure ''metadata location does not end in `.metadata.json`'')
       else Ok path)"

definition table_root_new ::
  "location_lib \<Rightarrow> string \<Rightarrow> string \<Rightarrow> string \<Rightarrow> object_store_failure + table_root" where
  "table_root_new lib location metadata_location expected_bucket =
     and_then (parse_s3_location lib location ''table location'') (\<lambda>(bucket, path).
       if bucket \<noteq> expected_bucket then
         Err (configuration_failure (''table location uses bucket '' @ quoted bucket
                @ '' instead of '' @ quoted expected_bucket))
       else if path = [] then
         Err (configuration_failure ''table location must identify a run-owned path'')
       else
         let tr = \<lparr>root_location = location, root_bucket = bucket, root_path = path\<rparr>
         in and_then (metadata_path lib tr metadata_location) (\<lambda>_. Ok tr))"

definition contains_metadata_location :: "location_lib \<Rightarrow> table_root \<Rightarrow> string \<Rightarrow> bool" where
  "contains_metadata_location lib tr location = is_ok (metadata_path lib tr location)"

section \<open>Audit snapshots\<close>

record object_audit_snapshot =
  audit_table_root :: string
  audit_metadata_objects :: u64
  audit_metadata_bytes :: u64
  audit_referenced_metadata_location :: string
  audit_referenced_metadata_exists :: bool

record table_object_audit_snapshot =
  taudit_table_root :: string
  taudit_metadata_objects :: u64
  taudit_metadata_bytes :: u64
  taudit_parquet_objects :: u64
  taudit_parquet_bytes :: u64
  taudit_referenced_metadata_location :: string
  taudit_referenced_metadata_exists :: bool

definition object_audit_from :: "table_object_audit_snapshot \<Rightarrow> object_audit_snapshot" where
  "object_audit_from a =
     \<lparr>audit_table_root = taudit_table_root a,
      audit_metadata_objects = taudit_metadata_objects a,
      audit_metadata_bytes = taudit_metadata_bytes a,
      audit_referenced_metadata_location = taudit_referenced_metadata_location a,
      audit_referenced_metadata_exists = taudit_referenced_metadata_exists a\<rparr>"

section \<open>Connections\<close>

text \<open>The trait \<open>ObjectStoreConnectionPolicy\<close> as the record of what its methods answer.\<close>

record connection_policy =
  conn_endpoint :: string
  conn_bucket :: string
  conn_region :: string
  conn_allow_http :: bool
  conn_path_style_access :: bool
  conn_access_key_env :: string
  conn_secret_key_env :: string

definition object_store_connection :: "object_store_policy \<Rightarrow> connection_policy" where
  "object_store_connection policy =
     \<lparr>conn_endpoint = os_endpoint policy,
      conn_bucket = os_bucket policy,
      conn_region = os_region policy,
      conn_allow_http = os_allow_http policy,
      conn_path_style_access = os_path_style_access policy,
      conn_access_key_env = os_access_key_env policy,
      conn_secret_key_env = os_secret_key_env policy\<rparr>"

text \<open>The settings handed to \<open>AmazonS3Builder\<close>, whose \<open>build\<close> is a parameter.\<close>

record s3_settings =
  s3_endpoint :: string
  s3_access_key_id :: string
  s3_secret_access_key :: string
  s3_region :: string
  s3_bucket_name :: string
  s3_allow_http :: bool
  s3_virtual_hosted_style_request :: bool

record object_meta =
  object_location :: object_path
  object_size :: nat

text \<open>
  The calls of \<open>dyn ObjectStore\<close> the auditor makes. A listing is the stream of its items; opening
  an object and reading its bytes are two calls that can each fail.
\<close>

record 'w object_store_client =
  store_list :: "object_path \<Rightarrow> 'w \<Rightarrow> (string + object_meta) list \<times> 'w"
  store_head :: "object_path \<Rightarrow> 'w \<Rightarrow> (string + object_meta) \<times> 'w"
  store_get :: "object_path \<Rightarrow> 'w \<Rightarrow> (string + unit) \<times> 'w"
  store_bytes :: "object_path \<Rightarrow> 'w \<Rightarrow> (string + u8 list) \<times> 'w"

record 'w object_store_auditor =
  auditor_store :: "'w object_store_client"
  auditor_bucket :: string
  auditor_sensitive_values :: "string list"

definition required_environment ::
  "(string \<Rightarrow> string option) \<Rightarrow> string \<Rightarrow> object_store_failure + string" where
  "required_environment getenv name =
     (case getenv name of
        Some (c # s) \<Rightarrow> Ok (c # s)
      | _ \<Rightarrow> Err (authentication_failure
               (''environment variable '' @ quoted name @ '' is not set or is empty'')))"

definition from_connection ::
  "(s3_settings \<Rightarrow> string + 'w object_store_client) \<Rightarrow> connection_policy \<Rightarrow> (string \<Rightarrow> string option)
   \<Rightarrow> object_store_failure + 'w object_store_auditor" where
  "from_connection build policy getenv =
     and_then (required_environment getenv (conn_access_key_env policy)) (\<lambda>access_key.
     and_then (required_environment getenv (conn_secret_key_env policy)) (\<lambda>secret_key.
     and_then
       (map_err (\<lambda>error. configuration_failure
            (redact_and_bound (''failed to build shared object-store client: '' @ error)
               [access_key, secret_key]))
         (build \<lparr>s3_endpoint = conn_endpoint policy,
                 s3_access_key_id = access_key,
                 s3_secret_access_key = secret_key,
                 s3_region = conn_region policy,
                 s3_bucket_name = conn_bucket policy,
                 s3_allow_http = conn_allow_http policy,
                 s3_virtual_hosted_style_request = (\<not> conn_path_style_access policy)\<rparr>)) (\<lambda>store.
       Ok \<lparr>auditor_store = store,
           auditor_bucket = conn_bucket policy,
           auditor_sensitive_values = [access_key, secret_key]\<rparr>)))"

definition from_policy ::
  "(s3_settings \<Rightarrow> string + 'w object_store_client) \<Rightarrow> object_store_policy \<Rightarrow> (string \<Rightarrow> string option)
   \<Rightarrow> object_store_failure + 'w object_store_auditor" where
  "from_policy build policy getenv = from_connection build (object_store_connection policy) getenv"

definition for_store :: "'w object_store_client \<Rightarrow> string \<Rightarrow> 'w object_store_auditor" where
  "for_store store bucket =
     \<lparr>auditor_store = store, auditor_bucket = bucket, auditor_sensitive_values = []\<rparr>"

section \<open>Reading one metadata object\<close>

definition read_metadata ::
  "location_lib \<Rightarrow> 'w object_store_auditor \<Rightarrow> table_root \<Rightarrow> string \<Rightarrow> nat \<Rightarrow> 'w
   \<Rightarrow> (object_store_failure + u8 list) \<times> 'w" where
  "read_metadata lib aud tr metadata_location maximum_bytes w =
     (if maximum_bytes = 0 \<or> root_bucket tr \<noteq> auditor_bucket aud then
        (Err (configuration_failure ''invalid bounded metadata read''), w)
      else case metadata_path lib tr metadata_location of
        Inl e \<Rightarrow> (Err e, w)
      | Inr path \<Rightarrow>
          (case store_head (auditor_store aud) path w of
             (Inl error, w1) \<Rightarrow>
               (Err (reading_failure (redact_and_bound (''failed to inspect metadata object: '' @ error)
                       (auditor_sensitive_values aud))), w1)
           | (Inr metadata, w1) \<Rightarrow>
               if maximum_bytes < object_size metadata then
                 (Err (reading_failure ''metadata object exceeds its byte limit''), w1)
               else
                 (case store_get (auditor_store aud) path w1 of
                    (Inl error, w2) \<Rightarrow>
                      (Err (reading_failure (redact_and_bound (''failed to open metadata object: '' @ error)
                              (auditor_sensitive_values aud))), w2)
                  | (Inr _, w2) \<Rightarrow>
                      (case store_bytes (auditor_store aud) path w2 of
                         (Inl error, w3) \<Rightarrow>
                           (Err (reading_failure
                              (redact_and_bound (''failed to read metadata object: '' @ error)
                                 (auditor_sensitive_values aud))), w3)
                       | (Inr bytes, w3) \<Rightarrow>
                           if maximum_bytes < length bytes then
                             (Err (reading_failure ''metadata object exceeds its byte limit''), w3)
                           else (Ok bytes, w3)))))"

section \<open>Auditing the objects below a root\<close>

record audit_counters =
  cnt_metadata_objects :: u64
  cnt_metadata_bytes :: u64
  cnt_parquet_objects :: u64
  cnt_parquet_bytes :: u64
  cnt_referenced :: bool

definition zero_counters :: audit_counters where
  "zero_counters = \<lparr>cnt_metadata_objects = 0, cnt_metadata_bytes = 0, cnt_parquet_objects = 0,
     cnt_parquet_bytes = 0, cnt_referenced = False\<rparr>"

definition audit_object ::
  "object_path \<Rightarrow> audit_counters \<Rightarrow> object_meta \<Rightarrow> object_store_failure + audit_counters" where
  "audit_object referenced c object =
     and_then (ok_or (try_from_nat (object_size object))
                (listing_failure ''object byte count cannot be represented as u64'')) (\<lambda>size.
       if ends_with (object_location object) ''.metadata.json'' then
         and_then (ok_or (checked_add (cnt_metadata_objects c) 1)
                    (listing_failure ''metadata object count overflowed u64'')) (\<lambda>objects.
         and_then (ok_or (checked_add (cnt_metadata_bytes c) size)
                    (listing_failure ''metadata byte count overflowed u64'')) (\<lambda>bytes.
           Ok (c\<lparr>cnt_metadata_objects := objects, cnt_metadata_bytes := bytes,
                 cnt_referenced := (cnt_referenced c \<or> object_location object = referenced)\<rparr>)))
       else if ends_with (object_location object) ''.parquet'' then
         and_then (ok_or (checked_add (cnt_parquet_objects c) 1)
                    (listing_failure ''Parquet object count overflowed u64'')) (\<lambda>objects.
         and_then (ok_or (checked_add (cnt_parquet_bytes c) size)
                    (listing_failure ''Parquet byte count overflowed u64'')) (\<lambda>bytes.
           Ok (c\<lparr>cnt_parquet_objects := objects, cnt_parquet_bytes := bytes\<rparr>)))
       else Ok c)"

definition audit_item ::
  "string list \<Rightarrow> object_path \<Rightarrow> audit_counters \<Rightarrow> string + object_meta
   \<Rightarrow> object_store_failure + audit_counters" where
  "audit_item sensitive_values referenced c item =
     and_then (map_err (\<lambda>error. listing_failure
                 (redact_and_bound (''failed to list table objects: '' @ error) sensitive_values)) item)
       (audit_object referenced c)"

definition audit_table ::
  "location_lib \<Rightarrow> 'w object_store_auditor \<Rightarrow> table_root \<Rightarrow> string \<Rightarrow> 'w
   \<Rightarrow> (object_store_failure + table_object_audit_snapshot) \<times> 'w" where
  "audit_table lib aud tr metadata_location w =
     (if root_bucket tr \<noteq> auditor_bucket aud then
        (Err (configuration_failure (''table root bucket '' @ quoted (root_bucket tr)
                @ '' does not match auditor bucket '' @ quoted (auditor_bucket aud))), w)
      else case metadata_path lib tr metadata_location of
        Inl e \<Rightarrow> (Err e, w)
      | Inr referenced \<Rightarrow>
          (let (items, w1) = store_list (auditor_store aud) (root_path tr) w
           in (and_then (try_fold (audit_item (auditor_sensitive_values aud) referenced) zero_counters items)
                 (\<lambda>c. Ok \<lparr>taudit_table_root = root_location tr,
                          taudit_metadata_objects = cnt_metadata_objects c,
                          taudit_metadata_bytes = cnt_metadata_bytes c,
                          taudit_parquet_objects = cnt_parquet_objects c,
                          taudit_parquet_bytes = cnt_parquet_bytes c,
                          taudit_referenced_metadata_location = metadata_location,
                          taudit_referenced_metadata_exists = cnt_referenced c\<rparr>), w1)))"

definition store_audit ::
  "location_lib \<Rightarrow> 'w object_store_auditor \<Rightarrow> table_root \<Rightarrow> string \<Rightarrow> 'w
   \<Rightarrow> (object_store_failure + object_audit_snapshot) \<times> 'w" where
  "store_audit lib aud tr metadata_location w =
     (let (result, w1) = audit_table lib aud tr metadata_location w
      in (map_sum id object_audit_from result, w1))"

section \<open>What an audit counts\<close>

definition is_metadata_object :: "object_meta \<Rightarrow> bool" where
  "is_metadata_object m = ends_with (object_location m) ''.metadata.json''"

definition is_parquet_object :: "object_meta \<Rightarrow> bool" where
  "is_parquet_object m = (\<not> is_metadata_object m \<and> ends_with (object_location m) ''.parquet'')"

definition total_size :: "(object_meta \<Rightarrow> bool) \<Rightarrow> object_meta list \<Rightarrow> nat" where
  "total_size p ms = sum_list (map object_size (filter p ms))"

text \<open>The counters that stand for a list of objects, and the lists that fit the counters.\<close>

definition counts_objects :: "object_path \<Rightarrow> object_meta list \<Rightarrow> audit_counters \<Rightarrow> bool" where
  "counts_objects referenced ms c \<longleftrightarrow>
     unat (cnt_metadata_objects c) = length (filter is_metadata_object ms)
     \<and> unat (cnt_metadata_bytes c) = total_size is_metadata_object ms
     \<and> unat (cnt_parquet_objects c) = length (filter is_parquet_object ms)
     \<and> unat (cnt_parquet_bytes c) = total_size is_parquet_object ms
     \<and> (cnt_referenced c \<longleftrightarrow> referenced \<in> object_location ` set (filter is_metadata_object ms))"

definition fits_counters :: "object_meta list \<Rightarrow> bool" where
  "fits_counters ms \<longleftrightarrow>
     list_all (\<lambda>m. object_size m < 2 ^ 64) ms
     \<and> length (filter is_metadata_object ms) < 2 ^ 64
     \<and> total_size is_metadata_object ms < 2 ^ 64
     \<and> length (filter is_parquet_object ms) < 2 ^ 64
     \<and> total_size is_parquet_object ms < 2 ^ 64"

lemma total_size_snoc [simp]:
  "total_size p (ms @ [m]) = total_size p ms + (if p m then object_size m else 0)"
  by (simp add: total_size_def)

lemma counts_objects_nil: "counts_objects referenced [] zero_counters"
  by (simp add: counts_objects_def zero_counters_def total_size_def)

lemma fits_counters_snocD: "fits_counters (ms @ [m]) \<Longrightarrow> fits_counters ms"
  by (auto simp: fits_counters_def split: if_splits)

lemma audit_object_step:
  assumes "counts_objects referenced ms c" and "fits_counters ms"
  shows "fits_counters (ms @ [m]) \<Longrightarrow>
           \<exists>c'. audit_object referenced c m = Ok c' \<and> counts_objects referenced (ms @ [m]) c'"
    and "\<not> fits_counters (ms @ [m]) \<Longrightarrow> \<exists>e. audit_object referenced c m = Err e"
  subgoal
    using assms
    by (auto simp: audit_object_def counts_objects_def fits_counters_def is_parquet_object_def
        try_from_nat_def checked_add_def is_metadata_object_def unat_of_nat unat_word_ariths
        split: if_splits)
  subgoal
    using assms
    by (auto simp: audit_object_def counts_objects_def fits_counters_def is_parquet_object_def
        try_from_nat_def checked_add_def is_metadata_object_def unat_of_nat unat_word_ariths
        split: if_splits)
  done

lemma fits_counters_prefix: "fits_counters (ms @ ns) \<Longrightarrow> fits_counters ms"
proof (induction ns rule: rev_induct)
  case (snoc n ns)
  then have "fits_counters ((ms @ ns) @ [n])" by simp
  from fits_counters_snocD [OF this] snoc.IH show ?case by simp
qed simp

lemma counts_objects_unique:
  "counts_objects referenced ms c \<Longrightarrow> counts_objects referenced ms c' \<Longrightarrow> c = (c' :: audit_counters)"
  by (auto simp: counts_objects_def word_unat_eq_iff intro!: audit_counters.equality)

lemma audit_fold:
  assumes "counts_objects referenced ms c" and "fits_counters ms"
  shows "try_fold (audit_item sensitive referenced) c items = Ok c' \<longleftrightarrow>
    (\<exists>objs. items = map Ok objs \<and> fits_counters (ms @ objs) \<and> counts_objects referenced (ms @ objs) c')"
  using assms
proof (induction items arbitrary: ms c)
  case Nil
  then show ?case using counts_objects_unique by auto
next
  case (Cons item items)
  show ?case
  proof (cases item)
    case (Inl e)
    then show ?thesis by (auto simp: audit_item_def)
  next
    case (Inr m)
    have step: "try_fold (audit_item sensitive referenced) c (item # items) =
        and_then (audit_object referenced c m) (\<lambda>d. try_fold (audit_item sensitive referenced) d items)"
      by (simp add: Inr audit_item_def)
    show ?thesis
    proof (cases "fits_counters (ms @ [m])")
      case True
      from audit_object_step(1) [OF Cons.prems True] obtain d
        where d: "audit_object referenced c m = Ok d" "counts_objects referenced (ms @ [m]) d"
        by blast
      have fold: "try_fold (audit_item sensitive referenced) c (item # items) =
          try_fold (audit_item sensitive referenced) d items"
        unfolding step d(1) by simp
      show ?thesis
        unfolding fold Cons.IH [OF d(2) True] by (auto simp: Inr Cons_eq_map_conv)
    next
      case False
      from audit_object_step(2) [OF Cons.prems False] obtain e
        where e: "audit_object referenced c m = Err e" by blast
      have "\<not> fits_counters (ms @ m # objs)" for objs
        using False fits_counters_prefix [of "ms @ [m]" objs] by auto
      then show ?thesis
        unfolding step e by (auto simp: Inr Cons_eq_map_conv)
    qed
  qed
qed

lemma metadata_path_suffix: "metadata_path lib tr location = Ok path \<Longrightarrow> ends_with path ''.metadata.json''"
  by (auto simp: metadata_path_def and_then_eq_Inr split: if_splits)

lemma referenced_is_metadata:
  assumes "ends_with referenced ''.metadata.json''"
  shows "referenced \<in> object_location ` set (filter is_metadata_object ms)
    \<longleftrightarrow> referenced \<in> object_location ` set ms"
  using assms by (auto simp: is_metadata_object_def)

text \<open>
  C14. An audit of a table root answers exactly when the bucket is the auditor's, the metadata
  location lies below the root, no item of the listing is an error and every count and byte total
  fits 64 bits. Its numbers then are the number and the total size of the listed metadata objects
  and of the listed Parquet objects, with no wrap-around, and the referenced metadata file is
  reported present exactly when the listing names its path.
\<close>

theorem audit_table_exact:
  "fst (audit_table lib aud tr location w) = Ok snapshot \<longleftrightarrow>
     root_bucket tr = auditor_bucket aud
     \<and> (\<exists>referenced objs.
          metadata_path lib tr location = Ok referenced
          \<and> fst (store_list (auditor_store aud) (root_path tr) w) = map Ok objs
          \<and> fits_counters objs
          \<and> unat (taudit_metadata_objects snapshot) = length (filter is_metadata_object objs)
          \<and> unat (taudit_metadata_bytes snapshot) = total_size is_metadata_object objs
          \<and> unat (taudit_parquet_objects snapshot) = length (filter is_parquet_object objs)
          \<and> unat (taudit_parquet_bytes snapshot) = total_size is_parquet_object objs
          \<and> (taudit_referenced_metadata_exists snapshot \<longleftrightarrow> referenced \<in> object_location ` set objs)
          \<and> taudit_table_root snapshot = root_location tr
          \<and> taudit_referenced_metadata_location snapshot = location)"
proof -
  obtain items w1 where items: "store_list (auditor_store aud) (root_path tr) w = (items, w1)" by force
  show ?thesis
  proof (cases "metadata_path lib tr location")
    case (Inl e)
    then show ?thesis by (simp add: audit_table_def)
  next
    case (Inr referenced)
    have empty: "counts_objects referenced [] zero_counters" "fits_counters []"
      by (simp_all add: counts_objects_nil fits_counters_def total_size_def)
    have present: "referenced \<in> object_location ` set (filter is_metadata_object objs)
        \<longleftrightarrow> referenced \<in> object_location ` set objs" for objs
      using referenced_is_metadata [OF metadata_path_suffix [OF Inr]] .
    show ?thesis (is "?L \<longleftrightarrow> ?R")
    proof
      assume ?L
      then obtain c objs where "root_bucket tr = auditor_bucket aud" "items = map Ok objs" "fits_counters objs"
          "counts_objects referenced objs c"
          "snapshot = \<lparr>taudit_table_root = root_location tr,
             taudit_metadata_objects = cnt_metadata_objects c, taudit_metadata_bytes = cnt_metadata_bytes c,
             taudit_parquet_objects = cnt_parquet_objects c, taudit_parquet_bytes = cnt_parquet_bytes c,
             taudit_referenced_metadata_location = location,
             taudit_referenced_metadata_exists = cnt_referenced c\<rparr>"
        by (auto simp: audit_table_def Inr items and_then_eq_Inr audit_fold [OF empty] split: if_splits)
      moreover from this have "cnt_referenced c \<longleftrightarrow> referenced \<in> object_location ` set objs"
        using present [of objs] by (simp only: counts_objects_def)
      ultimately show ?R by (simp add: Inr items counts_objects_def)
    next
      assume ?R
      then obtain objs where objs: "items = map Ok objs" "fits_counters objs"
        and bucket: "root_bucket tr = auditor_bucket aud"
        and counts: "counts_objects referenced objs
            \<lparr>cnt_metadata_objects = taudit_metadata_objects snapshot,
             cnt_metadata_bytes = taudit_metadata_bytes snapshot,
             cnt_parquet_objects = taudit_parquet_objects snapshot,
             cnt_parquet_bytes = taudit_parquet_bytes snapshot,
             cnt_referenced = taudit_referenced_metadata_exists snapshot\<rparr>"
        and rest: "taudit_table_root snapshot = root_location tr"
          "taudit_referenced_metadata_location snapshot = location"
        unfolding Inr items counts_objects_def present by auto
      have "try_fold (audit_item (auditor_sensitive_values aud) referenced) zero_counters items =
          Ok \<lparr>cnt_metadata_objects = taudit_metadata_objects snapshot,
             cnt_metadata_bytes = taudit_metadata_bytes snapshot,
             cnt_parquet_objects = taudit_parquet_objects snapshot,
             cnt_parquet_bytes = taudit_parquet_bytes snapshot,
             cnt_referenced = taudit_referenced_metadata_exists snapshot\<rparr>"
        using objs counts by (auto simp: audit_fold [OF empty])
      with bucket rest show ?L by (simp add: audit_table_def Inr items)
    qed
  qed
qed

text \<open>
  What a location means, stated on its own: a credential-free \<open>s3\<close> URI without query or fragment
  whose host is the bucket and whose path normalises to the given object path. Below it, the
  documented meaning of \<open>Path::prefix_matches\<close>: a nonempty base is a prefix of itself and of the
  paths that continue it after a separator.
\<close>

definition s3_object :: "location_lib \<Rightarrow> string \<Rightarrow> string \<Rightarrow> object_path \<Rightarrow> bool" where
  "s3_object lib location bucket path \<longleftrightarrow>
     (\<exists>u. loc_url_parse lib location = Ok u \<and> url_scheme u = ''s3'' \<and> url_host_str u = Some bucket
        \<and> url_username u = [] \<and> url_password u = None \<and> url_query u = None \<and> url_fragment u = None
        \<and> loc_from_url_path lib (url_path u) = Ok path)"

definition matches_prefixes :: "location_lib \<Rightarrow> bool" where
  "matches_prefixes lib \<longleftrightarrow>
     (\<forall>path base. base \<noteq> [] \<longrightarrow>
        (loc_prefix_matches lib path base \<longleftrightarrow> path = base \<or> starts_with path (base @ ''/'')))"

lemma parse_s3_location_Ok:
  "parse_s3_location lib location label = Ok (bucket, path) \<longleftrightarrow> s3_object lib location bucket path"
  by (auto simp: parse_s3_location_def s3_object_def and_then_eq_Inr map_err_eq_Inr)

lemma suffix_after_separator: "c \<notin> set s \<Longrightarrow> suffix s (a @ c # n) \<longleftrightarrow> suffix s n"
  by (auto simp: suffix_def append_eq_append_conv2 append_eq_Cons_conv Cons_eq_append_conv)

lemma metadata_path_Ok:
  assumes "matches_prefixes lib" "root_path tr \<noteq> []"
  shows "is_ok (metadata_path lib tr location) \<longleftrightarrow>
    (\<exists>name. s3_object lib location (root_bucket tr) (root_path tr @ ''/'' @ name)
       \<and> ends_with name ''.metadata.json'')" (is "?L \<longleftrightarrow> ?R")
proof
  assume ?L
  then obtain path where "metadata_path lib tr location = Ok path" by (auto simp: is_ok_def split: sum.splits)
  then have path: "s3_object lib location (root_bucket tr) path" "loc_prefix_matches lib path (root_path tr)"
      "path \<noteq> root_path tr" "ends_with path ''.metadata.json''"
    by (auto simp: metadata_path_def and_then_eq_Inr parse_s3_location_Ok split: if_splits)
  then obtain name where "path = root_path tr @ ''/'' @ name"
    using assms by (auto simp: matches_prefixes_def starts_with_def prefix_def)
  with path show ?R by (auto simp: ends_with_def suffix_after_separator)
next
  assume ?R
  then obtain name where name: "s3_object lib location (root_bucket tr) (root_path tr @ ''/'' @ name)"
    "suffix ''.metadata.json'' (root_path tr @ ''/'' @ name)"
    by (auto simp: ends_with_def suffix_after_separator)
  moreover have "loc_prefix_matches lib (root_path tr @ ''/'' @ name) (root_path tr)"
    using assms by (simp add: matches_prefixes_def starts_with_def)
  ultimately have "metadata_path lib tr location = Ok (root_path tr @ ''/'' @ name)"
    using parse_s3_location_Ok [THEN iffD2, OF name(1), of "''metadata location''"]
    by (simp add: metadata_path_def ends_with_def)
  then show ?L by simp
qed

lemma table_root_new_Ok:
  "table_root_new lib location metadata_location bucket = Ok tr \<longleftrightarrow>
     root_location tr = location \<and> root_bucket tr = bucket \<and> root_path tr \<noteq> []
     \<and> s3_object lib location bucket (root_path tr) \<and> is_ok (metadata_path lib tr metadata_location)"
  (is "?L \<longleftrightarrow> ?R")
proof
  assume ?L
  then show ?R
    by (auto simp: table_root_new_def and_then_eq_Inr parse_s3_location_Ok Let_def split: if_splits)
next
  assume R: ?R
  have tr: "\<lparr>root_location = location, root_bucket = bucket, root_path = root_path tr\<rparr> = tr"
    using R by (intro table_root.equality) simp_all
  obtain path where "metadata_path lib tr metadata_location = Ok path"
    using R by (cases "metadata_path lib tr metadata_location") auto
  moreover have "parse_s3_location lib location ''table location'' = Ok (bucket, root_path tr)"
    unfolding parse_s3_location_Ok using R by blast
  ultimately show ?L using R by (simp add: table_root_new_def tr)
qed

text \<open>
  C15. A table root is accepted exactly for a location that is a credential-free \<open>s3\<close> URI of the
  expected bucket with a nonempty path, together with a metadata location of the same bucket that
  names a \<open>.metadata.json\<close> object below that path; the root keeps that location, bucket and path. It
  then contains exactly the metadata locations of that kind: no location of another bucket, of a
  sibling path that merely begins with the same characters, or of the root itself. The one fact used
  of the path library is the documented meaning of \<open>Path::prefix_matches\<close>.
\<close>

theorem table_root_containment:
  assumes "matches_prefixes lib"
  shows "(table_root_new lib location metadata_location bucket = Ok tr \<longleftrightarrow>
      root_location tr = location \<and> root_bucket tr = bucket \<and> root_path tr \<noteq> []
      \<and> s3_object lib location bucket (root_path tr)
      \<and> (\<exists>name. s3_object lib metadata_location bucket (root_path tr @ ''/'' @ name)
           \<and> ends_with name ''.metadata.json''))
    \<and> (table_root_new lib location metadata_location bucket = Ok tr \<longrightarrow>
      (contains_metadata_location lib tr other \<longleftrightarrow>
         (\<exists>name. s3_object lib other bucket (root_path tr @ ''/'' @ name)
            \<and> ends_with name ''.metadata.json'')))"
  using table_root_new_Ok [of lib location metadata_location bucket tr] metadata_path_Ok [OF assms, of tr]
  unfolding contains_metadata_location_def by metis

text \<open>
  Concrete libraries: locations of the form \<open>s3://lake/...\<close>, read by stripping the scheme and the
  bucket, and paths compared with a trailing separator.
\<close>

definition demo_s3_url :: "string \<Rightarrow> url" where
  "demo_s3_url path = \<lparr>url_scheme = ''s3'', url_host_str = Some ''lake'', url_username = [],
     url_password = None, url_path = path, url_query = None, url_fragment = None\<rparr>"

definition demo_location_lib :: location_lib where
  "demo_location_lib =
     \<lparr>loc_url_parse = (\<lambda>s. case strip_prefix s ''s3://lake/'' of
          None \<Rightarrow> Err ''relative URL without a base'' | Some path \<Rightarrow> Ok (demo_s3_url path)),
      loc_from_url_path = Ok,
      loc_prefix_matches = (\<lambda>path base. path = base \<or> starts_with path (base @ ''/''))\<rparr>"

definition demo_table_root :: table_root where
  "demo_table_root = \<lparr>root_location = ''s3://lake/t'', root_bucket = ''lake'', root_path = ''t''\<rparr>"

theorem table_root_containment_witness:
  "table_root_new demo_location_lib ''s3://lake/t'' ''s3://lake/t/m.metadata.json'' ''lake'' = Ok demo_table_root
   \<and> contains_metadata_location demo_location_lib demo_table_root ''s3://lake/t/m.metadata.json''
   \<and> \<not> contains_metadata_location demo_location_lib demo_table_root ''s3://lake/tt/m.metadata.json''
   \<and> s3_object demo_location_lib ''s3://lake/t'' ''lake'' ''t''"
proof -
  have lib: "matches_prefixes demo_location_lib" by (simp add: matches_prefixes_def demo_location_lib_def)
  have new: "table_root_new demo_location_lib ''s3://lake/t'' ''s3://lake/t/m.metadata.json'' ''lake''
      = Ok demo_table_root"
    by code_simp
  have "\<not> contains_metadata_location demo_location_lib demo_table_root ''s3://lake/tt/m.metadata.json''"
    by code_simp
  with new table_root_containment [OF lib, of "''s3://lake/t''" "''s3://lake/t/m.metadata.json''" "''lake''"
      demo_table_root "''s3://lake/t/m.metadata.json''"]
  show ?thesis by (simp add: demo_table_root_def)
qed

end
