(* ===== verification/Conf_Sanitize.thy ===== *)
theory Conf_Sanitize
  imports Commit_Model Contract_Manifest
begin

text \<open>
  Redaction of captured JSON (\<open>crates/conformance/src/sanitize.rs\<close>) and of error texts
  (\<open>redact_text\<close> of \<open>transport.rs\<close>, \<open>bounded_detail\<close> of \<open>runtime.rs\<close>,
  \<open>sha256_hex\<close> of \<open>lib.rs\<close>). The third-party functions the conformance crate calls on URLs,
  forms and JSON documents are the fields of one record, \<open>web_lib\<close>.
\<close>

section \<open>Third-party functions\<close>

record web_lib =
  wl_url_parse :: url_parser
  wl_url_to_string :: "url \<Rightarrow> string"
  wl_cannot_be_a_base :: "url \<Rightarrow> bool"
  wl_push_segment :: "string \<Rightarrow> url \<Rightarrow> url"
  wl_pop_if_empty :: "url \<Rightarrow> url"
  wl_append_pair :: "string \<Rightarrow> string \<Rightarrow> url \<Rightarrow> url"
  wl_query_pairs :: "url \<Rightarrow> (string \<times> string) list"
  wl_clear_query :: "url \<Rightarrow> url"
  wl_set_username :: "string \<Rightarrow> url \<Rightarrow> url"
  wl_clear_password :: "url \<Rightarrow> url"
  wl_clear_fragment :: "url \<Rightarrow> url"
  wl_form_parse :: "string \<Rightarrow> (string \<times> string) list"
  wl_form_serialize :: "(string \<times> string) list \<Rightarrow> string"
  wl_json_pointer :: "json \<Rightarrow> string \<Rightarrow> json option"
  wl_json_from_slice :: "string \<Rightarrow> string + json"
  wl_sha256 :: sha256

section \<open>Error texts\<close>

definition REDACTED :: string where
  "REDACTED = ''<redacted>''"

definition redact_text :: "string \<Rightarrow> string list \<Rightarrow> string" where
  "redact_text text sensitive_values =
     fold (\<lambda>value redacted. str_replace value REDACTED redacted)
       (filter (\<lambda>value. 4 \<le> length value) sensitive_values) text"

definition MAXIMUM_DETAIL_CHARACTERS :: nat where
  "MAXIMUM_DETAIL_CHARACTERS = 512"

text \<open>The three bytes added after a cut are the UTF-8 encoding of the ellipsis U+2026.\<close>

definition bounded_detail :: "string \<Rightarrow> string" where
  "bounded_detail detail =
     (let (bounded, rest) = take_chars MAXIMUM_DETAIL_CHARACTERS detail
      in if rest \<noteq> [] then bounded @ [CHR 0xE2, CHR 0x80, CHR 0xA6] else bounded)"

definition sha256_hex :: "web_lib \<Rightarrow> string \<Rightarrow> string" where
  "sha256_hex lib bytes = concat (map hex_byte (wl_sha256 lib bytes))"

section \<open>JSON documents\<close>

definition contains_sensitive_value :: "string \<Rightarrow> string list \<Rightarrow> bool" where
  "contains_sensitive_value bytes sensitive_values =
     list_ex (\<lambda>sensitive. 4 \<le> length sensitive \<and> str_contains bytes sensitive) sensitive_values"

definition sensitive_key_needles :: "string list" where
  "sensitive_key_needles =
     [''password'', ''secret'', ''token'', ''privatekey'', ''accesskey'', ''credential'', ''cookie'',
      ''authorization'', ''apikey'', ''clientid'', ''bearer'', ''sessionid'', ''signature'']"

definition is_sensitive_key :: "string \<Rightarrow> bool" where
  "is_sensitive_key key =
     (let normalized = map to_ascii_lowercase_char (filter is_ascii_alphanumeric key)
      in list_ex (str_contains normalized) sensitive_key_needles)"

definition escape_pointer_segment :: "string \<Rightarrow> string" where
  "escape_pointer_segment segment = str_replace ''/'' ''~1'' (str_replace ''~'' ''~0'' segment)"

text \<open>
  \<open>sanitize_url\<close>: credentials, fragment and secret-looking query parameters are taken out of a URL
  with a host; a URL that needs no change, or a text that is no such URL, answers \<open>None\<close>.
\<close>

definition sanitize_url :: "web_lib \<Rightarrow> string \<Rightarrow> string option" where
  "sanitize_url lib text =
     (case wl_url_parse lib text of
        Inl _ \<Rightarrow> None
      | Inr u \<Rightarrow>
          if url_host_str u = None then None
          else
            let with_credentials = (url_username u \<noteq> [] \<or> url_password u \<noteq> None);
                u1 = (if with_credentials
                      then wl_clear_password lib (wl_set_username lib ''redacted'' u) else u);
                with_fragment = (url_fragment u1 \<noteq> None);
                u2 = (if with_fragment then wl_clear_fragment lib u1 else u1);
                pairs = wl_query_pairs lib u2;
                query = map (\<lambda>(key, value). (key, if is_sensitive_key key then REDACTED else value)) pairs;
                changed = (with_credentials \<or> with_fragment
                           \<or> list_ex (\<lambda>(key, value). is_sensitive_key key) pairs);
                u3 = (if changed \<and> url_query u2 \<noteq> None
                      then fold (\<lambda>(key, value). wl_append_pair lib key value) query (wl_clear_query lib u2)
                      else u2)
            in if changed then Some (wl_url_to_string lib u3) else None)"

definition is_bearer :: "string \<Rightarrow> bool" where
  "is_bearer text = is_some_and (strip_prefix text ''Bearer '') (\<lambda>token. token \<noteq> [])"

text \<open>
  \<open>sanitize_value\<close>: the value after the call and the pointers it pushed, in order. The children of
  an object and of an array are visited by the two helper functions.
\<close>

fun sanitize_value :: "web_lib \<Rightarrow> string list \<Rightarrow> string \<Rightarrow> json \<Rightarrow> json \<times> string list"
and sanitize_fields ::
  "web_lib \<Rightarrow> string list \<Rightarrow> string \<Rightarrow> (string \<times> json) list \<Rightarrow> (string \<times> json) list \<times> string list"
and sanitize_elements ::
  "web_lib \<Rightarrow> string list \<Rightarrow> string \<Rightarrow> nat \<Rightarrow> json list \<Rightarrow> json list \<times> string list" where
  "sanitize_value lib sens pointer (JObject kvs) =
     (let (kvs', reds) = sanitize_fields lib sens pointer kvs in (JObject kvs', reds))"
| "sanitize_value lib sens pointer (JArray vs) =
     (let (vs', reds) = sanitize_elements lib sens pointer 0 vs in (JArray vs', reds))"
| "sanitize_value lib sens pointer (JString text) =
     (if contains_sensitive_value text sens \<or> is_bearer text then (JString REDACTED, [pointer])
      else case sanitize_url lib text of
             Some redacted \<Rightarrow> (JString redacted, [pointer])
           | None \<Rightarrow> (JString text, []))"
| "sanitize_value lib sens pointer JNull = (JNull, [])"
| "sanitize_value lib sens pointer (JBool b) = (JBool b, [])"
| "sanitize_value lib sens pointer (JNumber n) = (JNumber n, [])"
| "sanitize_fields lib sens pointer [] = ([], [])"
| "sanitize_fields lib sens pointer ((key, child) # kvs) =
     (let child_pointer = pointer @ ''/'' @ escape_pointer_segment key;
          this =
            (if is_sensitive_key key then (JString REDACTED, [child_pointer])
             else sanitize_value lib sens child_pointer child);
          others = sanitize_fields lib sens pointer kvs
      in ((key, fst this) # fst others, snd this @ snd others))"
| "sanitize_elements lib sens pointer index [] = ([], [])"
| "sanitize_elements lib sens pointer index (child # vs) =
     (let this = sanitize_value lib sens (pointer @ ''/'' @ show_nat index) child;
          others = sanitize_elements lib sens pointer (Suc index) vs
      in (fst this # fst others, snd this @ snd others))"

definition sanitize_json :: "web_lib \<Rightarrow> json \<Rightarrow> string list \<Rightarrow> json \<times> string list" where
  "sanitize_json lib value sens =
     (let (value', reds) = sanitize_value lib sens [] value in (value', remdups_adj (sort reds)))"

section \<open>What the sanitizer guarantees\<close>

text \<open>
  The documented behaviour of the crate \<open>url\<close> on URLs with a host: each setter changes the part it
  names and no other, the query pairs are read from the query alone, and pairs appended to a cleared
  query are read back as they were.
\<close>

definition same_place :: "url \<Rightarrow> url \<Rightarrow> bool" where
  "same_place u u' \<longleftrightarrow> url_scheme u' = url_scheme u \<and> url_host_str u' = url_host_str u \<and> url_path u' = url_path u"

definition set_username_law :: "web_lib \<Rightarrow> bool" where
  "set_username_law lib \<longleftrightarrow>
     (\<forall>u. url_host_str u \<noteq> None \<longrightarrow>
        (let v = wl_set_username lib ''redacted'' u
         in same_place u v \<and> url_username v = ''redacted'' \<and> url_password v = url_password u
            \<and> url_query v = url_query u \<and> url_fragment v = url_fragment u))"

definition clear_password_law :: "web_lib \<Rightarrow> bool" where
  "clear_password_law lib \<longleftrightarrow>
     (\<forall>u. url_host_str u \<noteq> None \<longrightarrow>
        (let v = wl_clear_password lib u
         in same_place u v \<and> url_username v = url_username u \<and> url_password v = None
            \<and> url_query v = url_query u \<and> url_fragment v = url_fragment u))"

definition clear_fragment_law :: "web_lib \<Rightarrow> bool" where
  "clear_fragment_law lib \<longleftrightarrow>
     (\<forall>u. url_host_str u \<noteq> None \<longrightarrow>
        (let v = wl_clear_fragment lib u
         in same_place u v \<and> url_username v = url_username u \<and> url_password v = url_password u
            \<and> url_query v = url_query u \<and> url_fragment v = None))"

definition rewrite_query :: "web_lib \<Rightarrow> (string \<times> string) list \<Rightarrow> url \<Rightarrow> url" where
  "rewrite_query lib ps u = fold (\<lambda>(key, value). wl_append_pair lib key value) ps (wl_clear_query lib u)"

definition query_law :: "web_lib \<Rightarrow> bool" where
  "query_law lib \<longleftrightarrow>
     (\<forall>u ps. url_host_str u \<noteq> None \<longrightarrow>
        (let v = rewrite_query lib ps u
         in same_place u v \<and> url_username v = url_username u \<and> url_password v = url_password u
            \<and> wl_query_pairs lib v = ps \<and> url_fragment v = url_fragment u))
     \<and> (\<exists>read. \<forall>u. wl_query_pairs lib u = (case url_query u of None \<Rightarrow> [] | Some q \<Rightarrow> read q))"

definition url_laws :: "web_lib \<Rightarrow> bool" where
  "url_laws lib \<longleftrightarrow> set_username_law lib \<and> clear_password_law lib \<and> clear_fragment_law lib \<and> query_law lib"

text \<open>
  What there is to take out of a text that is a URL with a host, and the text with it taken out: the
  same scheme, host and path, no credentials beyond the user name \<open>redacted\<close>, no fragment, and the
  query parameters with the marker in place of every secret-looking one.
\<close>

definition url_secrets :: "web_lib \<Rightarrow> string \<Rightarrow> bool" where
  "url_secrets lib original \<longleftrightarrow>
     (\<exists>u. wl_url_parse lib original = Ok u \<and> url_host_str u \<noteq> None
        \<and> (url_username u \<noteq> [] \<or> url_password u \<noteq> None \<or> url_fragment u \<noteq> None
           \<or> list_ex (\<lambda>(key, value). is_sensitive_key key) (wl_query_pairs lib u)))"

definition stripped_url :: "web_lib \<Rightarrow> string \<Rightarrow> string \<Rightarrow> bool" where
  "stripped_url lib original text \<longleftrightarrow>
     (\<exists>u v. wl_url_parse lib original = Ok u \<and> text = wl_url_to_string lib v
        \<and> same_place u v \<and> url_password v = None \<and> url_fragment v = None
        \<and> url_username v = (if url_username u = [] \<and> url_password u = None then [] else ''redacted'')
        \<and> wl_query_pairs lib v =
            map (\<lambda>(key, value). (key, if is_sensitive_key key then REDACTED else value)) (wl_query_pairs lib u))"

text \<open>
  A value that holds nothing to redact: no secret-looking key, and no string that contains a
  sensitive value of at least four bytes, is a bearer credential or is a URL with something to take
  out.
\<close>

fun unredacted :: "web_lib \<Rightarrow> string list \<Rightarrow> json \<Rightarrow> bool" where
  "unredacted lib sens (JObject kvs) =
     list_all (\<lambda>(key, child). \<not> is_sensitive_key key \<and> unredacted lib sens child) kvs"
| "unredacted lib sens (JArray vs) = list_all (unredacted lib sens) vs"
| "unredacted lib sens (JString original) =
     (\<not> contains_sensitive_value original sens \<and> \<not> is_bearer original \<and> \<not> url_secrets lib original)"
| "unredacted lib sens JNull = True"
| "unredacted lib sens (JBool b) = True"
| "unredacted lib sens (JNumber n) = True"

text \<open>
  What may be published of a value: the same tree, with the marker below every secret-looking key
  and in place of every string that contains a sensitive value or is a bearer credential, with every
  URL that has something to take out stripped of it, and with every other string as it was.
\<close>

definition publishable_text :: "web_lib \<Rightarrow> string list \<Rightarrow> string \<Rightarrow> string \<Rightarrow> bool" where
  "publishable_text lib sens original text \<longleftrightarrow>
     (if contains_sensitive_value original sens \<or> is_bearer original then text = REDACTED
      else if url_secrets lib original then stripped_url lib original text
      else text = original)"

fun publishable :: "web_lib \<Rightarrow> string list \<Rightarrow> json \<Rightarrow> json \<Rightarrow> bool"
and publishable_fields ::
  "web_lib \<Rightarrow> string list \<Rightarrow> (string \<times> json) list \<Rightarrow> (string \<times> json) list \<Rightarrow> bool"
and publishable_elements :: "web_lib \<Rightarrow> string list \<Rightarrow> json list \<Rightarrow> json list \<Rightarrow> bool" where
  "publishable lib sens (JObject kvs) r = (case r of JObject rs \<Rightarrow> publishable_fields lib sens kvs rs | _ \<Rightarrow> False)"
| "publishable lib sens (JArray vs) r = (case r of JArray rs \<Rightarrow> publishable_elements lib sens vs rs | _ \<Rightarrow> False)"
| "publishable lib sens (JString original) r =
     (case r of JString text \<Rightarrow> publishable_text lib sens original text | _ \<Rightarrow> False)"
| "publishable lib sens JNull r = (r = JNull)"
| "publishable lib sens (JBool b) r = (r = JBool b)"
| "publishable lib sens (JNumber n) r = (r = JNumber n)"
| "publishable_fields lib sens [] rs = (rs = [])"
| "publishable_fields lib sens ((key, child) # kvs) rs =
     (case rs of [] \<Rightarrow> False
      | (key', r) # rs' \<Rightarrow> key' = key
          \<and> (if is_sensitive_key key then r = JString REDACTED else publishable lib sens child r)
          \<and> publishable_fields lib sens kvs rs')"
| "publishable_elements lib sens [] rs = (rs = [])"
| "publishable_elements lib sens (child # vs) rs =
     (case rs of [] \<Rightarrow> False
      | r # rs' \<Rightarrow> publishable lib sens child r \<and> publishable_elements lib sens vs rs')"

lemma same_place_trans: "same_place u v \<Longrightarrow> same_place v w \<Longrightarrow> same_place u w"
  by (simp add: same_place_def)

lemma credentials_cleared:
  assumes "url_laws lib" "url_host_str u \<noteq> None"
  defines "v \<equiv> wl_clear_password lib (wl_set_username lib ''redacted'' u)"
  shows "same_place u v" "url_username v = ''redacted''" "url_password v = None"
    "url_query v = url_query u" "url_fragment v = url_fragment u"
proof -
  let ?n = "wl_set_username lib ''redacted'' u"
  have n: "same_place u ?n" "url_username ?n = ''redacted''" "url_query ?n = url_query u"
      "url_fragment ?n = url_fragment u"
    using assms(1,2) unfolding url_laws_def set_username_law_def Let_def by blast+
  then have "url_host_str ?n \<noteq> None" using assms(2) by (simp add: same_place_def)
  then have "same_place ?n v" "url_username v = url_username ?n" "url_password v = None"
      "url_query v = url_query ?n" "url_fragment v = url_fragment ?n"
    using assms(1) unfolding v_def url_laws_def clear_password_law_def Let_def by blast+
  note v = this
  show "same_place u v" using n(1) v(1) by (rule same_place_trans)
  show "url_username v = ''redacted''" "url_password v = None" "url_query v = url_query u" "url_fragment v = url_fragment u"
    using n v by simp_all
qed

lemma fragment_cleared:
  assumes "url_laws lib" "url_host_str u \<noteq> None"
  defines "v \<equiv> wl_clear_fragment lib u"
  shows "same_place u v" "url_username v = url_username u" "url_password v = url_password u"
    "url_query v = url_query u" "url_fragment v = None"
  using assms(1,2) unfolding v_def url_laws_def clear_fragment_law_def Let_def by blast+

lemma query_rewritten:
  fixes ps :: "(string \<times> string) list"
  assumes "url_laws lib" "url_host_str u \<noteq> None"
  defines "v \<equiv> rewrite_query lib ps u"
  shows "same_place u v" "url_username v = url_username u" "url_password v = url_password u"
    "wl_query_pairs lib v = ps" "url_fragment v = url_fragment u"
  using assms(1,2) unfolding v_def url_laws_def query_law_def Let_def by blast+

lemma query_pairs_cong:
  assumes "url_laws lib" "url_query u = url_query v"
  shows "wl_query_pairs lib u = wl_query_pairs lib v"
proof -
  obtain read where "\<And>u. wl_query_pairs lib u = (case url_query u of None \<Rightarrow> [] | Some q \<Rightarrow> read q)"
    using assms(1) unfolding url_laws_def query_law_def by blast
  with assms(2) show ?thesis by simp
qed

lemma query_pairs_none:
  assumes "url_laws lib" "url_query u = None"
  shows "wl_query_pairs lib u = []"
  using assms unfolding url_laws_def query_law_def by auto

text \<open>The sanitizer of one URL, read in two steps: credentials and fragment, then the query.\<close>

lemma sanitize_url_stripped:
  assumes laws: "url_laws lib"
  shows "case sanitize_url lib original of
      None \<Rightarrow> \<not> url_secrets lib original
    | Some text \<Rightarrow> url_secrets lib original \<and> stripped_url lib original text"
proof (cases "wl_url_parse lib original")
  case (Inl e)
  then show ?thesis by (simp add: sanitize_url_def url_secrets_def)
next
  case parsed: (Inr u)
  show ?thesis
  proof (cases "url_host_str u = None")
    case True
    then show ?thesis by (simp add: sanitize_url_def parsed url_secrets_def)
  next
    case False
    define creds where "creds \<longleftrightarrow> url_username u \<noteq> [] \<or> url_password u \<noteq> None"
    define v where "v = (if creds then wl_clear_password lib (wl_set_username lib ''redacted'' u) else u)"
    have v: "same_place u v" "url_password v = None" "url_query v = url_query u" "url_fragment v = url_fragment u"
        "url_username v = (if creds then ''redacted'' else [])"
      using credentials_cleared [OF laws False] by (simp_all add: v_def creds_def same_place_def)
    define w where "w = (if url_fragment v \<noteq> None then wl_clear_fragment lib v else v)"
    have "url_host_str v \<noteq> None" using v(1) False by (simp add: same_place_def)
    then have w: "same_place u w" "url_password w = None" "url_query w = url_query u" "url_fragment w = None"
        "url_username w = (if creds then ''redacted'' else [])"
      using fragment_cleared [OF laws, of v] v by (auto simp: w_def same_place_def)
    have pairs: "wl_query_pairs lib w = wl_query_pairs lib u" using query_pairs_cong [OF laws w(3)] .
    let ?query = "map (\<lambda>(key, value). (key, if is_sensitive_key key then REDACTED else value)) (wl_query_pairs lib u)"
    define x where "x = (if url_query u \<noteq> None then rewrite_query lib ?query w else w)"
    have "url_host_str w \<noteq> None" using w(1) False by (simp add: same_place_def)
    then have x: "same_place u x" "url_password x = None" "url_fragment x = None"
        "url_username x = (if creds then ''redacted'' else [])" "wl_query_pairs lib x = ?query"
      using query_rewritten [OF laws, of w ?query] w pairs query_pairs_none [OF laws, of u]
      by (auto simp: x_def same_place_def)
    let ?changed = "creds \<or> url_fragment u \<noteq> None \<or> list_ex (\<lambda>(key, value). is_sensitive_key key) (wl_query_pairs lib u)"
    have "sanitize_url lib original =
        (if ?changed then Some (wl_url_to_string lib (if ?changed \<and> url_query u \<noteq> None then rewrite_query lib ?query w else w))
         else None)"
      unfolding sanitize_url_def parsed sum.case Let_def creds_def [symmetric] v_def [symmetric] w_def [symmetric]
      unfolding rewrite_query_def pairs w(3) v(4) using False by auto
    moreover have "url_secrets lib original \<longleftrightarrow> ?changed"
      using False by (auto simp: url_secrets_def parsed creds_def)
    ultimately have "sanitize_url lib original =
        (if url_secrets lib original then Some (wl_url_to_string lib x) else None)"
      by (simp add: x_def)
    moreover have "stripped_url lib original (wl_url_to_string lib x)"
      using x by (auto simp: stripped_url_def parsed creds_def)
    ultimately show ?thesis by simp
  qed
qed

lemma sanitize_text_publishable:
  assumes "url_laws lib"
  shows "\<exists>text. fst (sanitize_value lib sens pointer (JString original)) = JString text
    \<and> publishable_text lib sens original text"
  using sanitize_url_stripped [OF assms, of original]
  by (auto simp: publishable_text_def split: option.splits)

lemma sanitize_publishable:
  "url_laws lib \<Longrightarrow> publishable lib sens v (fst (sanitize_value lib sens pointer v))"
  "url_laws lib \<Longrightarrow> publishable_fields lib sens kvs (fst (sanitize_fields lib sens pointer kvs))"
  "url_laws lib \<Longrightarrow> publishable_elements lib sens vs (fst (sanitize_elements lib sens pointer index vs))"
proof (induction v and kvs and vs rule: sanitize_value_sanitize_fields_sanitize_elements.induct)
  case (3 lib sens pointer original)
  then show ?case using sanitize_text_publishable [of lib sens pointer original] by (auto simp del: sanitize_value.simps)
qed (simp_all add: Let_def split_def)

lemma sanitize_empty_iff:
  "url_laws lib \<Longrightarrow> snd (sanitize_value lib sens pointer v) = [] \<longleftrightarrow> unredacted lib sens v"
  "url_laws lib \<Longrightarrow> snd (sanitize_fields lib sens pointer kvs) = []
     \<longleftrightarrow> list_all (\<lambda>(key, child). \<not> is_sensitive_key key \<and> unredacted lib sens child) kvs"
  "url_laws lib \<Longrightarrow> snd (sanitize_elements lib sens pointer index vs) = [] \<longleftrightarrow> list_all (unredacted lib sens) vs"
proof (induction v and kvs and vs rule: sanitize_value_sanitize_fields_sanitize_elements.induct)
  case (3 lib sens pointer original)
  then show ?case using sanitize_url_stripped [of lib original] by (auto split: option.splits)
qed (auto simp: Let_def split_def)

lemma sanitize_unchanged:
  "snd (sanitize_value lib sens pointer v) = [] \<Longrightarrow> fst (sanitize_value lib sens pointer v) = v"
  "snd (sanitize_fields lib sens pointer kvs) = [] \<Longrightarrow> fst (sanitize_fields lib sens pointer kvs) = kvs"
  "snd (sanitize_elements lib sens pointer index vs) = []
     \<Longrightarrow> fst (sanitize_elements lib sens pointer index vs) = vs"
  by (induction v and kvs and vs
      rule: sanitize_value_sanitize_fields_sanitize_elements.induct)
    (auto split: option.splits if_splits simp: Let_def split_def)

lemma remdups_adj_eq_Nil: "remdups_adj xs = [] \<longleftrightarrow> xs = []"
  by (cases xs) (auto simp: remdups_adj_Cons split: list.splits)

section \<open>A small URL library\<close>

text \<open>
  A concrete library for the witnesses: a text is a host and path up to \<open>?\<close>, a query up to \<open>#\<close>, and
  a fragment. A query is a sequence of \<open>key=value&\<close>, in which a percent sign takes the next character
  literally.
\<close>

definition demo_escape :: "string \<Rightarrow> string" where
  "demo_escape s = concat (map (\<lambda>c. if c \<in> set ''%=&'' then [CHR ''%'', c] else [c]) s)"

fun demo_unescape :: "string \<Rightarrow> string \<Rightarrow> string list" where
  "demo_unescape acc [] = []"
| "demo_unescape acc (c # s) =
     (if c = CHR ''%'' then (case s of [] \<Rightarrow> [] | d # s' \<Rightarrow> demo_unescape (acc @ [d]) s')
      else if c \<in> set ''=&'' then acc # demo_unescape [] s
      else demo_unescape (acc @ [c]) s)"

fun demo_pairs :: "string list \<Rightarrow> (string \<times> string) list" where
  "demo_pairs (k # v # ws) = (k, v) # demo_pairs ws"
| "demo_pairs _ = []"

definition demo_query :: "string option \<Rightarrow> string" where
  "demo_query q = (case q of None \<Rightarrow> [] | Some s \<Rightarrow> s)"

definition demo_parse :: "string \<Rightarrow> url" where
  "demo_parse s =
     (let place = takeWhile (\<lambda>c. c \<notin> set ''?#'') s; rest = dropWhile (\<lambda>c. c \<notin> set ''?#'') s;
          query = takeWhile (\<lambda>c. c \<noteq> CHR ''#'') rest; frag = dropWhile (\<lambda>c. c \<noteq> CHR ''#'') rest
      in \<lparr>url_scheme = ''https'', url_host_str = Some ''h'', url_username = [], url_password = None,
          url_path = place, url_query = (if query = [] then None else Some (tl query)),
          url_fragment = (if frag = [] then None else Some (tl frag))\<rparr>)"

definition demo_urls :: web_lib where
  "demo_urls =
     \<lparr>wl_url_parse = (\<lambda>s. Ok (demo_parse s)),
      wl_url_to_string = (\<lambda>u. url_path u @ (case url_query u of None \<Rightarrow> [] | Some q \<Rightarrow> ''?'' @ q)),
      wl_cannot_be_a_base = (\<lambda>u. False),
      wl_push_segment = (\<lambda>s u. u\<lparr>url_path := url_path u @ ''/'' @ s\<rparr>),
      wl_pop_if_empty = id,
      wl_append_pair = (\<lambda>k v u. u\<lparr>url_query :=
         Some (demo_query (url_query u) @ demo_escape k @ ''='' @ demo_escape v @ ''&'')\<rparr>),
      wl_query_pairs = (\<lambda>u. case url_query u of None \<Rightarrow> [] | Some q \<Rightarrow> demo_pairs (demo_unescape [] q)),
      wl_clear_query = (\<lambda>u. u\<lparr>url_query := Some []\<rparr>),
      wl_set_username = (\<lambda>s u. u\<lparr>url_username := s\<rparr>),
      wl_clear_password = (\<lambda>u. u\<lparr>url_password := None\<rparr>),
      wl_clear_fragment = (\<lambda>u. u\<lparr>url_fragment := None\<rparr>),
      wl_form_parse = (\<lambda>s. []), wl_form_serialize = (\<lambda>kvs. []),
      wl_json_pointer = (\<lambda>v p. None), wl_json_from_slice = (\<lambda>s. Err ''no JSON''), wl_sha256 = (\<lambda>s. [])\<rparr>"

lemma demo_unescape_escape:
  "c \<in> set ''=&'' \<Longrightarrow> demo_unescape acc (demo_escape s @ c # rest) = (acc @ s) # demo_unescape [] rest"
  by (induction s arbitrary: acc) (auto simp: demo_escape_def)

lemma demo_rewritten:
  "rewrite_query demo_urls ps u =
     u\<lparr>url_query := Some (concat (map (\<lambda>(k, v). demo_escape k @ ''='' @ demo_escape v @ ''&'') ps))\<rparr>"
proof -
  have "fold (\<lambda>(key, value). wl_append_pair demo_urls key value) ps (u\<lparr>url_query := Some q\<rparr>) =
      u\<lparr>url_query := Some (q @ concat (map (\<lambda>(k, v). demo_escape k @ ''='' @ demo_escape v @ ''&'') ps))\<rparr>" for q
    by (induction ps arbitrary: q) (auto simp: demo_urls_def demo_query_def)
  from this [of "[]"] show ?thesis by (simp add: rewrite_query_def demo_urls_def)
qed

lemma demo_pairs_read:
  "demo_pairs (demo_unescape [] (concat (map (\<lambda>(k, v). demo_escape k @ ''='' @ demo_escape v @ ''&'') ps))) = ps"
  by (induction ps) (auto simp: demo_unescape_escape)

lemma demo_url_laws: "url_laws demo_urls"
proof -
  have "query_law demo_urls"
    unfolding query_law_def demo_rewritten
    by (auto simp: same_place_def demo_urls_def demo_pairs_read [simplified] intro: exI [of _ "\<lambda>q. demo_pairs (demo_unescape [] q)"])
  then show ?thesis
    by (simp add: url_laws_def set_username_law_def clear_password_law_def clear_fragment_law_def
        same_place_def demo_urls_def)
qed

section \<open>Properties\<close>

text \<open>
  C16. What the sanitizer publishes of a JSON document, place by place, over a URL library that
  behaves as documented: the tree keeps its shape and its keys; below every secret-looking key stands
  the redaction marker; a string that contains a sensitive value of at least four bytes or is a
  bearer credential is replaced by the marker; a URL with credentials, a fragment or secret-looking
  query parameters is replaced by the same URL without them; every other string is kept, and holds
  none of these. The list of redactions is empty exactly when there was nothing to redact, and the
  document is then returned as it was, which is when the harness publishes the digest of the raw
  bytes. Keys, and the text of a rewritten URL, are not searched for sensitive values.
\<close>

theorem sanitize_json_publishable:
  assumes "url_laws lib"
  shows "publishable lib sens v (fst (sanitize_json lib v sens))
    \<and> (snd (sanitize_json lib v sens) = [] \<longleftrightarrow> unredacted lib sens v)
    \<and> (unredacted lib sens v \<longrightarrow> fst (sanitize_json lib v sens) = v)"
proof -
  obtain v' reds where v: "sanitize_value lib sens [] v = (v', reds)" by force
  have "reds = [] \<longleftrightarrow> unredacted lib sens v"
    using sanitize_empty_iff(1) [OF assms, of sens "[]" v] by (simp add: v)
  moreover have "remdups_adj (sort reds) = [] \<longleftrightarrow> reds = []"
    by (metis remdups_adj_eq_Nil length_0_conv length_sort)
  moreover have "publishable lib sens v v'"
    using sanitize_publishable(1) [OF assms, of sens v "[]"] by (simp add: v)
  moreover have "v' = v" if "reds = []"
    using sanitize_unchanged(1) [of lib sens "[]" v] that by (simp add: v)
  ultimately show ?thesis by (auto simp: sanitize_json_def v)
qed

theorem sanitize_json_publishable_witness:
  "publishable demo_urls [''s3cret''] (JArray [JString ''p?token=abc&'', JString ''a s3cret b''])
     (JArray [JString ''p?token=<redacted>&'', JString ''<redacted>''])
   \<and> \<not> unredacted demo_urls [''s3cret''] (JArray [JString ''p?token=abc&'', JString ''a s3cret b''])"
proof -
  let ?v = "JArray [JString ''p?token=abc&'', JString ''a s3cret b'']"
  have "sanitize_json demo_urls ?v [''s3cret''] =
      (JArray [JString ''p?token=<redacted>&'', JString ''<redacted>''], [''/0'', ''/1''])"
    by code_simp
  with sanitize_json_publishable [OF demo_url_laws, of "[''s3cret'']" ?v] show ?thesis by simp
qed

text \<open>
  The rewritten URL is not searched again: a value that is escaped in the query, and so not found in
  the text, stands unescaped in the rewritten URL.
\<close>

lemma rewritten_url_shows_value:
  "\<not> contains_sensitive_value ''p?x=s%3cret&#f'' [''s3cret'']
   \<and> fst (sanitize_json demo_urls (JString ''p?x=s%3cret&#f'') [''s3cret'']) = JString ''p?x=s3cret&''
   \<and> contains_sensitive_value ''p?x=s3cret&'' [''s3cret'']"
  by code_simp

end
