(* ===== verification/Conf_Transport.thy ===== *)
theory Conf_Transport
  imports Conf_Sanitize
begin

text \<open>
  HTTP evidence and transport of the conformance crate (\<open>evidence.rs\<close>, \<open>transport.rs\<close> and
  \<open>operation.rs\<close>): the records that enter a transcript, the bounded reading of a response body, the
  capture of a complete body, authentication, one captured JSON request, and the recorder of
  operations. The HTTP client of the crate \<open>reqwest\<close> is a function from the request and a world of
  type \<open>'w\<close> to the answer and the next world; the body of an answer is the list of the chunks that
  arrive. \<open>usize\<close> is 64 bits wide.
\<close>

section \<open>Evidence records\<close>

record contract_digests =
  cd_profile_sha256 :: string
  cd_scenario_sha256 :: string

record transcript_scenario =
  tsc_ident :: string
  tsc_version :: u32

datatype probe_failure_stage = AuthenticationStage | RequestStage | ResponseStage

record probe_failure =
  pf_stage :: probe_failure_stage
  pf_explanation :: string

datatype probe_classification =
    ProbePass
  | ProbeFail string
  | ProbeUnsupported capability_id capability_limitation_source string

datatype authentication_outcome = AuthReady | AuthFailed | AuthNotAttempted

record authentication_transcript =
  at_mode :: string
  at_outcome :: authentication_outcome
  at_token_url :: "string option"
  at_scope :: "string option"
  at_http_status :: "u16 option"

record http_request_transcript =
  hrt_method :: string
  hrt_url :: string
  hrt_headers :: string_map

datatype sanitized_response_body =
    BodyJson json
  | BodyOmitted string

record http_response_transcript =
  rsp_status :: u16
  rsp_headers :: string_map
  rsp_body_bytes_observed :: u64
  rsp_raw_body_sha256 :: "string option"
  rsp_body :: sanitized_response_body

definition response_json :: "http_response_transcript \<Rightarrow> json option" where
  "response_json r = (case rsp_body r of BodyJson value \<Rightarrow> Some value | BodyOmitted _ \<Rightarrow> None)"

section \<open>The HTTP client\<close>

datatype http_method = GET | POST | DELETE | HEAD

definition method_str :: "http_method \<Rightarrow> string" where
  "method_str m = (case m of GET \<Rightarrow> ''GET'' | POST \<Rightarrow> ''POST'' | DELETE \<Rightarrow> ''DELETE'' | HEAD \<Rightarrow> ''HEAD'')"

datatype request_body = NoBody | JsonBody json | FormBody string

record http_request =
  rq_method :: http_method
  rq_url :: url
  rq_bearer :: "string option"
  rq_body :: request_body
  rq_idempotency_key :: "string option"

text \<open>
  A received response: \<open>rr_headers\<close> looks a header up and answers its value when it is valid text;
  \<open>rr_chunks\<close> is the stream of the body.
\<close>

record http_response =
  rr_status :: u16
  rr_headers :: "string \<Rightarrow> string option"
  rr_content_length :: "u64 option"
  rr_chunks :: "(string + string) list"

record send_error =
  se_timeout :: bool
  se_text :: string

type_synonym 'w http_client = "http_request \<Rightarrow> 'w \<Rightarrow> (send_error + http_response) \<times> 'w"

section \<open>Bounded bodies\<close>

definition MAXIMUM_RESPONSE_BYTES :: u64 where
  "MAXIMUM_RESPONSE_BYTES = 1048576"

datatype collected_body =
    Complete string u64
  | TooLarge u64

fun read_chunks ::
  "u64 \<Rightarrow> bool \<Rightarrow> string \<Rightarrow> u64 \<Rightarrow> (string + string) list \<Rightarrow> string + collected_body" where
  "read_chunks limit retain bytes observed [] = Ok (Complete bytes observed)"
| "read_chunks limit retain bytes observed (Inl error # chunks) = Err error"
| "read_chunks limit retain bytes observed (Inr chunk # chunks) =
     (let observed' = saturating_add observed (of_nat (length chunk))
      in if limit < observed' then Ok (TooLarge observed')
         else read_chunks limit retain (if retain then bytes @ chunk else bytes) observed' chunks)"

definition read_bounded_body :: "http_response \<Rightarrow> u64 \<Rightarrow> bool \<Rightarrow> string + collected_body" where
  "read_bounded_body response limit retain =
     (case rr_content_length response of
        Some declared \<Rightarrow>
          if limit < declared then Ok (TooLarge declared)
          else read_chunks limit retain [] 0 (rr_chunks response)
      | None \<Rightarrow> read_chunks limit retain [] 0 (rr_chunks response))"

definition read_limited_body :: "http_response \<Rightarrow> u64 \<Rightarrow> string + collected_body" where
  "read_limited_body response limit = read_bounded_body response limit True"

definition drain_limited_body :: "http_response \<Rightarrow> u64 \<Rightarrow> string + collected_body" where
  "drain_limited_body response limit = read_bounded_body response limit False"

section \<open>Capturing a response\<close>

record captured_response =
  cap_response :: "http_response_transcript option"
  cap_private_json :: "json option"
  cap_redactions :: "string list"
  cap_failure :: "probe_failure option"

definition no_capture :: "probe_failure option \<Rightarrow> captured_response" where
  "no_capture failure =
     \<lparr>cap_response = None, cap_private_json = None, cap_redactions = [], cap_failure = failure\<rparr>"

definition allowlisted_response_headers :: "http_response \<Rightarrow> string list \<Rightarrow> string_map" where
  "allowlisted_response_headers response sens =
     List.map_filter
       (\<lambda>name. map_option (\<lambda>value. (name, redact_text value sens)) (rr_headers response name))
       [''content-type'', ''iceberg-version'', ''traceparent'', ''x-request-id'']"

definition capture_complete_body ::
  "web_lib \<Rightarrow> u16 \<Rightarrow> string_map \<Rightarrow> string \<Rightarrow> string list \<Rightarrow> captured_response" where
  "capture_complete_body lib status headers bytes sens =
     (if bytes = [] then
        \<lparr>cap_response = Some \<lparr>rsp_status = status, rsp_headers = headers, rsp_body_bytes_observed = 0,
           rsp_raw_body_sha256 = None, rsp_body = BodyOmitted ''response body is empty''\<rparr>,
         cap_private_json = None, cap_redactions = [], cap_failure = None\<rparr>
      else
        case wl_json_from_slice lib bytes of
          Inr value \<Rightarrow>
            (let (sanitized, redactions) = sanitize_json lib value sens
             in \<lparr>cap_response = Some \<lparr>rsp_status = status, rsp_headers = headers,
                   rsp_body_bytes_observed = of_nat (length bytes),
                   rsp_raw_body_sha256 = (if redactions = [] then Some (sha256_hex lib bytes) else None),
                   rsp_body = BodyJson sanitized\<rparr>,
                 cap_private_json = Some value,
                 cap_redactions = map (\<lambda>pointer. ''response.body'' @ pointer) redactions,
                 cap_failure = None\<rparr>)
        | Inl _ \<Rightarrow>
            \<lparr>cap_response = Some \<lparr>rsp_status = status, rsp_headers = headers,
               rsp_body_bytes_observed = of_nat (length bytes), rsp_raw_body_sha256 = None,
               rsp_body = BodyOmitted ''response body is not valid JSON''\<rparr>,
             cap_private_json = None, cap_redactions = [], cap_failure = None\<rparr>)"

definition too_large_capture :: "u16 \<Rightarrow> string_map \<Rightarrow> u64 \<Rightarrow> string \<Rightarrow> captured_response" where
  "too_large_capture status headers observed response_label =
     \<lparr>cap_response = Some \<lparr>rsp_status = status, rsp_headers = headers,
        rsp_body_bytes_observed = observed, rsp_raw_body_sha256 = None,
        rsp_body = BodyOmitted (''response exceeds maximum capture size of ''
          @ show_word MAXIMUM_RESPONSE_BYTES @ '' bytes'')\<rparr>,
      cap_private_json = None, cap_redactions = [],
      cap_failure = Some \<lparr>pf_stage = ResponseStage,
        pf_explanation = response_label @ '' response exceeded the evidence body limit''\<rparr>\<rparr>"

definition execute_json_request_with_context ::
  "web_lib \<Rightarrow> 'w http_client \<Rightarrow> http_method \<Rightarrow> url \<Rightarrow> string option \<Rightarrow> json option
   \<Rightarrow> string list \<Rightarrow> string \<Rightarrow> string option \<Rightarrow> 'w \<Rightarrow> captured_response \<times> 'w" where
  "execute_json_request_with_context lib client m u bearer_token body sens response_label key w =
     (case client \<lparr>rq_method = m, rq_url = u, rq_bearer = bearer_token,
                    rq_body = (case body of None \<Rightarrow> NoBody | Some b \<Rightarrow> JsonBody b),
                    rq_idempotency_key = key\<rparr> w of
        (Inl error, w1) \<Rightarrow>
          (no_capture (Some \<lparr>pf_stage = RequestStage, pf_explanation = redact_text (se_text error) sens\<rparr>), w1)
      | (Inr response, w1) \<Rightarrow>
          (let headers = allowlisted_response_headers response sens
           in case read_limited_body response MAXIMUM_RESPONSE_BYTES of
                Inl error \<Rightarrow>
                  no_capture (Some \<lparr>pf_stage = ResponseStage, pf_explanation = redact_text error sens\<rparr>)
              | Inr (TooLarge observed) \<Rightarrow>
                  too_large_capture (rr_status response) headers observed response_label
              | Inr (Complete bytes observed) \<Rightarrow>
                  capture_complete_body lib (rr_status response) headers bytes sens, w1))"

definition execute_json_request ::
  "web_lib \<Rightarrow> 'w http_client \<Rightarrow> http_method \<Rightarrow> url \<Rightarrow> string option \<Rightarrow> json option
   \<Rightarrow> string list \<Rightarrow> string \<Rightarrow> 'w \<Rightarrow> captured_response \<times> 'w" where
  "execute_json_request lib client m u bearer_token body sens response_label w =
     execute_json_request_with_context lib client m u bearer_token body sens response_label None w"

definition execute_json_request_with_idempotency ::
  "web_lib \<Rightarrow> 'w http_client \<Rightarrow> http_method \<Rightarrow> url \<Rightarrow> string option \<Rightarrow> json option
   \<Rightarrow> string list \<Rightarrow> string \<Rightarrow> string \<Rightarrow> 'w \<Rightarrow> captured_response \<times> 'w" where
  "execute_json_request_with_idempotency lib client m u bearer_token body sens response_label key w =
     execute_json_request_with_context lib client m u bearer_token body sens response_label (Some key) w"

section \<open>Authentication\<close>

definition endpoint_url :: "web_lib \<Rightarrow> string \<Rightarrow> string \<Rightarrow> string_map \<Rightarrow> string + url" where
  "endpoint_url lib base path query =
     and_then (map_err (\<lambda>_. ''invalid adapter endpoint '' @ quoted (base @ path))
                (wl_url_parse lib (base @ path))) (\<lambda>u.
       Ok (if query \<noteq> [] then fold (\<lambda>(k, v). wl_append_pair lib k v) query u else u))"

definition authentication_mode :: "catalog_authentication \<Rightarrow> string" where
  "authentication_mode a =
     (case a of Anonymous \<Rightarrow> ''anonymous''
      | OAuth2ClientCredentials _ _ _ _ \<Rightarrow> ''oauth2-client-credentials'')"

record authentication_attempt =
  att_transcript :: authentication_transcript
  att_bearer_token :: "string option"
  att_sensitive_values :: "string list"
  att_failure :: "probe_failure option"

definition failed_authentication ::
  "authentication_transcript \<Rightarrow> string \<Rightarrow> authentication_attempt" where
  "failed_authentication transcript explanation =
     \<lparr>att_transcript = transcript, att_bearer_token = None, att_sensitive_values = [],
      att_failure = Some \<lparr>pf_stage = AuthenticationStage, pf_explanation = explanation\<rparr>\<rparr>"

definition nonempty_env :: "(string \<Rightarrow> string option) \<Rightarrow> string \<Rightarrow> string option" where
  "nonempty_env getenv name =
     (case getenv name of None \<Rightarrow> None | Some value \<Rightarrow> if value = [] then None else Some value)"

definition unset_message :: "string \<Rightarrow> string" where
  "unset_message name = ''environment variable '' @ quoted name @ '' is not set or is empty''"

text \<open>What is made of the token endpoint's answer.\<close>

definition token_of_response ::
  "web_lib \<Rightarrow> http_response \<Rightarrow> string + string" where
  "token_of_response lib response =
     (case read_limited_body response MAXIMUM_RESPONSE_BYTES of
        Inr (TooLarge _) \<Rightarrow> Err ''OAuth2 response exceeds the evidence body limit''
      | Inl error \<Rightarrow> Err (''OAuth2 response read failed: '' @ error)
      | Inr (Complete bytes _) \<Rightarrow>
          if \<not> (200 \<le> rr_status response \<and> rr_status response < 300) then
            Err (''OAuth2 endpoint returned HTTP '' @ show_word (rr_status response))
          else case wl_json_from_slice lib bytes of
            Inl _ \<Rightarrow> Err ''OAuth2 endpoint did not return JSON''
          | Inr body \<Rightarrow>
              (case Option.bind (json_get body ''access_token'') json_as_str of
                 None \<Rightarrow> Err ''OAuth2 response omitted string `access_token`''
               | Some token \<Rightarrow>
                   if token = [] then Err ''OAuth2 response returned an empty access token'' else Ok token))"

definition acquire_authentication ::
  "web_lib \<Rightarrow> 'w http_client \<Rightarrow> catalog_adapter \<Rightarrow> (string \<Rightarrow> string option) \<Rightarrow> 'w
   \<Rightarrow> authentication_attempt \<times> 'w" where
  "acquire_authentication lib client adapter getenv w =
     (case adapter_authentication adapter of
        Anonymous \<Rightarrow>
          (\<lparr>att_transcript = \<lparr>at_mode = ''anonymous'', at_outcome = AuthReady, at_token_url = None,
              at_scope = None, at_http_status = None\<rparr>,
            att_bearer_token = None, att_sensitive_values = [], att_failure = None\<rparr>, w)
      | OAuth2ClientCredentials token_path scope client_id_env client_secret_env \<Rightarrow>
          (let transcript = (\<lambda>outcome status u. \<lparr>at_mode = ''oauth2-client-credentials'', at_outcome = outcome,
                 at_token_url = map_option (wl_url_to_string lib) u, at_scope = Some scope,
                 at_http_status = status\<rparr>)
           in case endpoint_url lib (base_url (adapter_endpoint adapter)) token_path [] of
                Inl error \<Rightarrow>
                  (failed_authentication (transcript AuthFailed None None)
                     (''invalid token endpoint: '' @ error), w)
              | Inr token_url \<Rightarrow>
                  (case nonempty_env getenv client_id_env of
                     None \<Rightarrow> (failed_authentication (transcript AuthFailed None (Some token_url))
                                (unset_message client_id_env), w)
                   | Some client_id \<Rightarrow>
                       (case nonempty_env getenv client_secret_env of
                          None \<Rightarrow> (failed_authentication (transcript AuthFailed None (Some token_url))
                                     (unset_message client_secret_env), w)
                        | Some client_secret \<Rightarrow>
                            (case client \<lparr>rq_method = POST, rq_url = token_url, rq_bearer = None,
                                rq_body = FormBody (wl_form_serialize lib
                                  [(''grant_type'', ''client_credentials''), (''client_id'', client_id),
                                   (''client_secret'', client_secret), (''scope'', scope)]),
                                rq_idempotency_key = None\<rparr> w of
                               (Inl error, w1) \<Rightarrow>
                                 (failed_authentication (transcript AuthFailed None (Some token_url))
                                    (''OAuth2 request failed: ''
                                     @ redact_text (se_text error) [client_id, client_secret]), w1)
                             | (Inr response, w1) \<Rightarrow>
                                 (case token_of_response lib response of
                                    Inl explanation \<Rightarrow>
                                      failed_authentication
                                        (transcript AuthFailed (Some (rr_status response)) (Some token_url))
                                        explanation
                                  | Inr token \<Rightarrow>
                                      \<lparr>att_transcript =
                                         transcript AuthReady (Some (rr_status response)) (Some token_url),
                                       att_bearer_token = Some token,
                                       att_sensitive_values = [client_id, client_secret, token],
                                       att_failure = None\<rparr>, w1))))))"

section \<open>A body is read up to its limit and no further\<close>

definition chunk_bytes :: "(string + string) list \<Rightarrow> string" where
  "chunk_bytes chunks = concat (map (case_sum (\<lambda>_. []) id) chunks)"

text \<open>The lengths a chunk can have: those that fit the machine word they are counted in.\<close>

definition chunk_fits :: "string + string \<Rightarrow> bool" where
  "chunk_fits c = (case c of Inl _ \<Rightarrow> True | Inr b \<Rightarrow> length b < 2 ^ 64)"

lemma saturating_add_bound:
  assumes "unat limit < 2 ^ 64 - 1" and "n < 2 ^ 64"
  shows "limit < saturating_add a (of_nat n :: u64) \<longleftrightarrow> unat limit < unat a + n"
    and "unat a + n \<le> unat limit \<Longrightarrow> unat (saturating_add a (of_nat n :: u64)) = unat a + n"
proof -
  have top: "unat (- 1 :: u64) = 2 ^ 64 - 1" by (simp add: unsigned_minus_1_eq_mask mask_eq_exp_minus_1)
  show "limit < saturating_add a (of_nat n :: u64) \<longleftrightarrow> unat limit < unat a + n"
    using assms top
    by (auto simp: saturating_add_def word_less_nat_alt unat_word_ariths unat_of_nat split: if_splits)
  show "unat a + n \<le> unat limit \<Longrightarrow> unat (saturating_add a (of_nat n :: u64)) = unat a + n"
    using assms by (auto simp: saturating_add_def unat_word_ariths unat_of_nat)
qed

lemma read_chunks_exact:
  assumes "unat limit < 2 ^ 64 - 1" and "list_all chunk_fits chunks" and "observed \<le> limit"
  shows "read_chunks limit retain bytes observed chunks = Ok (Complete got seen) \<longleftrightarrow>
    list_all is_ok chunks \<and> got = bytes @ (if retain then chunk_bytes chunks else [])
    \<and> unat observed + length (chunk_bytes chunks) \<le> unat limit
    \<and> unat seen = unat observed + length (chunk_bytes chunks)"
  using assms(2,3)
proof (induction chunks arbitrary: bytes observed)
  case Nil
  then show ?case by (auto simp: chunk_bytes_def word_le_nat_alt word_unat_eq_iff)
next
  case (Cons c chunks)
  show ?case
  proof (cases c)
    case (Inl e)
    then show ?thesis by simp
  next
    case (Inr chunk)
    have n: "length chunk < 2 ^ 64" using Cons.prems by (simp add: Inr chunk_fits_def)
    note bound = saturating_add_bound [OF assms(1) n, of observed]
    show ?thesis
    proof (cases "unat limit < unat observed + length chunk")
      case True
      then show ?thesis using bound(1) by (auto simp: Inr Let_def chunk_bytes_def)
    next
      case False
      let ?o = "saturating_add observed (of_nat (length chunk) :: u64)"
      have o: "unat ?o = unat observed + length chunk" "\<not> limit < ?o" "?o \<le> limit"
        using False bound by (auto simp: not_less)
      have "list_all chunk_fits chunks" using Cons.prems by simp
      from Cons.IH [OF this o(3), of "if retain then bytes @ chunk else bytes"] o(1,2)
      show ?thesis by (auto simp: Inr Let_def chunk_bytes_def add.assoc)
    qed
  qed
qed

text \<open>
  C17. A response body is collected exactly when its declared length, if any, is within the limit,
  every chunk arrives without an error and the bytes received do not exceed the limit; the bytes are
  then the chunks in order and the count is their number, although the running count saturates.
  Reading and draining agree on this: draining keeps the count and drops the bytes.
\<close>

theorem read_limited_body_exact:
  assumes "unat limit < 2 ^ 64 - 1" and "list_all chunk_fits (rr_chunks response)"
  shows "(read_limited_body response limit = Ok (Complete bytes observed) \<longleftrightarrow>
      \<not> is_some_and (rr_content_length response) (\<lambda>declared. limit < declared)
      \<and> list_all is_ok (rr_chunks response)
      \<and> bytes = chunk_bytes (rr_chunks response)
      \<and> length (chunk_bytes (rr_chunks response)) \<le> unat limit
      \<and> unat observed = length (chunk_bytes (rr_chunks response)))
    \<and> (drain_limited_body response limit = Ok (Complete [] observed) \<longleftrightarrow>
      read_limited_body response limit = Ok (Complete (chunk_bytes (rr_chunks response)) observed))"
proof -
  have zero: "(0 :: u64) \<le> limit" by simp
  note exact = read_chunks_exact [OF assms zero, of _ "[]"]
  show ?thesis
    by (cases "rr_content_length response")
      (auto simp: read_limited_body_def drain_limited_body_def read_bounded_body_def exact)
qed

theorem read_limited_body_exact_witness:
  "read_limited_body \<lparr>rr_status = 200, rr_headers = Map.empty, rr_content_length = None,
      rr_chunks = [Ok ''ab'', Ok ''c'']\<rparr> 3 = Ok (Complete ''abc'' 3)
   \<and> drain_limited_body \<lparr>rr_status = 200, rr_headers = Map.empty, rr_content_length = None,
      rr_chunks = [Ok ''ab'', Ok ''c'']\<rparr> 3 = Ok (Complete [] 3)"
proof -
  let ?r = "\<lparr>rr_status = 200, rr_headers = Map.empty, rr_content_length = None,
      rr_chunks = [Ok ''ab'', Ok ''c'']\<rparr>"
  have "unat (3 :: u64) < 2 ^ 64 - 1" "list_all chunk_fits (rr_chunks ?r)"
    by (simp_all add: chunk_fits_def)
  from read_limited_body_exact [OF this, of "''abc''" 3] show ?thesis
    by (simp add: chunk_bytes_def)
qed

end
