(* ===== verification/Conf_Routing.thy ===== *)
theory Conf_Routing
  imports Conf_Transport
begin

text \<open>
  Routing of the conformance crate: namespaces, their separator and the catalog's routes
  (\<open>iceberg.rs\<close>), the inspection of a catalog configuration (\<open>resolve_prefix\<close>,
  \<open>inspect_endpoints\<close> and \<open>validate_config_map_shape\<close> of \<open>config.rs\<close>), facts
  (\<open>operation.rs\<close>), negotiation (\<open>routing.rs\<close>), target resolution (\<open>target.rs\<close>) and the
  catalog session (\<open>runtime.rs\<close>). An \<open>anyhow\<close> error is its message.
\<close>

section \<open>Namespaces\<close>

type_synonym namespace_identifier = "string list"

definition namespace_from_parts :: "string list \<Rightarrow> string + namespace_identifier" where
  "namespace_from_parts parts =
     (if parts = [] \<or> list_ex (\<lambda>part. part = []) parts
      then Err ''namespace identifiers must contain nonempty parts'' else Ok parts)"

definition namespace_single :: "string \<Rightarrow> string + namespace_identifier" where
  "namespace_single part = namespace_from_parts [part]"

definition namespace_child :: "namespace_identifier \<Rightarrow> string \<Rightarrow> string + namespace_identifier" where
  "namespace_child ns part = namespace_from_parts (ns @ [part])"

definition DEFAULT_NAMESPACE_SEPARATOR :: string where
  "DEFAULT_NAMESPACE_SEPARATOR = ''%1F''"

datatype namespace_separator_resolution =
    SepDefault string
  | SepConfigured string string
  | SepFailed string
  | SepNotEvaluated string

type_synonym namespace_codec = string

definition decode_separator :: "web_lib \<Rightarrow> string \<Rightarrow> string + string" where
  "decode_separator lib encoded =
     (case wl_form_parse lib (''separator='' @ encoded) of
        [] \<Rightarrow> Err ''decode namespace separator''
      | (_, decoded) # _ \<Rightarrow>
          if chars_count decoded \<noteq> 1 then
            Err (''namespace separator '' @ quoted encoded @ '' must decode to exactly one character'')
          else if list_ex (\<lambda>c. c \<in> set ''/?#'') decoded then
            Err (''namespace separator '' @ quoted encoded @ '' cannot be a URL structural character'')
          else Ok decoded)"

definition separator_pointers :: "string list" where
  "separator_pointers = [''/overrides/namespace-separator'', ''/defaults/namespace-separator'']"

fun find_map :: "('a \<Rightarrow> 'b option) \<Rightarrow> 'a list \<Rightarrow> 'b option" where
  "find_map f [] = None"
| "find_map f (x # xs) = (case f x of None \<Rightarrow> find_map f xs | Some y \<Rightarrow> Some y)"

definition decoded_codec ::
  "web_lib \<Rightarrow> namespace_separator_resolution \<Rightarrow> string
   \<Rightarrow> namespace_separator_resolution \<times> namespace_codec option" where
  "decoded_codec lib resolution encoded =
     (case decode_separator lib encoded of
        Inr separator \<Rightarrow> (resolution, Some separator)
      | Inl error \<Rightarrow> (SepFailed error, None))"

definition codec_resolve ::
  "web_lib \<Rightarrow> json option \<Rightarrow> namespace_separator_resolution \<times> namespace_codec option" where
  "codec_resolve lib config =
     (case find_map (\<lambda>pointer. map_option (\<lambda>v. (pointer, v))
              (Option.bind config (\<lambda>body. wl_json_pointer lib body pointer))) separator_pointers of
        Some (pointer, JString encoded) \<Rightarrow> decoded_codec lib (SepConfigured pointer encoded) encoded
      | Some (pointer, _) \<Rightarrow>
          (SepFailed (''config namespace separator at '' @ quoted pointer @ '' must be a string''), None)
      | None \<Rightarrow>
          (case config of
             Some _ \<Rightarrow>
               decoded_codec lib (SepDefault DEFAULT_NAMESPACE_SEPARATOR) DEFAULT_NAMESPACE_SEPARATOR
           | None \<Rightarrow> (SepNotEvaluated ''config response has no captured JSON body'', None)))"

definition codec_join :: "namespace_codec \<Rightarrow> namespace_identifier \<Rightarrow> string" where
  "codec_join separator ns = join separator ns"

section \<open>The catalog configuration\<close>

datatype prefix_resolution =
    PrefixUnprefixed
  | PrefixStatic string
  | PrefixNegotiated string string
  | PrefixFailed string
  | PrefixNotEvaluated string

datatype endpoint_advertisement =
    EndpointsExplicit "string list"
  | EndpointsOmitted
  | EndpointsInvalid string
  | EndpointsNotEvaluated string

definition valid_path_segment :: "string \<Rightarrow> bool" where
  "valid_path_segment value \<longleftrightarrow>
     value \<noteq> [] \<and> \<not> has_whitespace value \<and> \<not> list_ex (\<lambda>c. c \<in> set ''/?#'') value"

definition resolve_prefix :: "web_lib \<Rightarrow> catalog_adapter \<Rightarrow> json option \<Rightarrow> prefix_resolution" where
  "resolve_prefix lib adapter body =
     (case route_prefix (adapter_endpoint adapter) of
        Unprefixed \<Rightarrow> PrefixUnprefixed
      | Static value \<Rightarrow> PrefixStatic value
      | Negotiated pointer \<Rightarrow>
          (case Option.bind (Option.bind body (\<lambda>b. wl_json_pointer lib b pointer)) json_as_str of
             Some value \<Rightarrow>
               if valid_path_segment value then PrefixNegotiated pointer value
               else PrefixFailed (''config value at '' @ quoted pointer @ '' is not one nonempty path segment'')
           | None \<Rightarrow>
               PrefixFailed (''config response has no string prefix at '' @ quoted pointer)))"

definition STANDARD_ENDPOINTS :: "string list" where
  "STANDARD_ENDPOINTS =
    [''GET /v1/config'',
     ''POST /v1/oauth/tokens'',
     ''GET /v1/{prefix}/namespaces'',
     ''POST /v1/{prefix}/namespaces'',
     ''GET /v1/{prefix}/namespaces/{namespace}'',
     ''HEAD /v1/{prefix}/namespaces/{namespace}'',
     ''DELETE /v1/{prefix}/namespaces/{namespace}'',
     ''POST /v1/{prefix}/namespaces/{namespace}/properties'',
     ''GET /v1/{prefix}/namespaces/{namespace}/tables'',
     ''POST /v1/{prefix}/namespaces/{namespace}/tables'',
     ''POST /v1/{prefix}/namespaces/{namespace}/tables/{table}/plan'',
     ''GET /v1/{prefix}/namespaces/{namespace}/tables/{table}/plan/{plan-id}'',
     ''DELETE /v1/{prefix}/namespaces/{namespace}/tables/{table}/plan/{plan-id}'',
     ''POST /v1/{prefix}/namespaces/{namespace}/tables/{table}/tasks'',
     ''POST /v1/{prefix}/namespaces/{namespace}/register'',
     ''GET /v1/{prefix}/namespaces/{namespace}/tables/{table}'',
     ''POST /v1/{prefix}/namespaces/{namespace}/tables/{table}'',
     ''DELETE /v1/{prefix}/namespaces/{namespace}/tables/{table}'',
     ''HEAD /v1/{prefix}/namespaces/{namespace}/tables/{table}'',
     ''GET /v1/{prefix}/namespaces/{namespace}/tables/{table}/credentials'',
     ''POST /v1/{prefix}/namespaces/{namespace}/tables/{table}/sign'',
     ''POST /v1/{prefix}/tables/rename'',
     ''POST /v1/{prefix}/namespaces/{namespace}/tables/{table}/metrics'',
     ''POST /v1/{prefix}/transactions/commit'',
     ''GET /v1/{prefix}/namespaces/{namespace}/views'',
     ''POST /v1/{prefix}/namespaces/{namespace}/views'',
     ''GET /v1/{prefix}/namespaces/{namespace}/views/{view}'',
     ''POST /v1/{prefix}/namespaces/{namespace}/views/{view}'',
     ''DELETE /v1/{prefix}/namespaces/{namespace}/views/{view}'',
     ''HEAD /v1/{prefix}/namespaces/{namespace}/views/{view}'',
     ''POST /v1/{prefix}/views/rename'',
     ''POST /v1/{prefix}/namespaces/{namespace}/register-view'']"

definition inspect_endpoint :: "json \<Rightarrow> endpoint_advertisement + string" where
  "inspect_endpoint v =
     (case json_as_str v of
        None \<Rightarrow> Err (EndpointsInvalid ''every config endpoint must be a string'')
      | Some s \<Rightarrow>
          if s \<notin> set STANDARD_ENDPOINTS then
            Err (EndpointsInvalid (quoted s @ '' is not an Apache Iceberg 1.11.0 REST endpoint''))
          else Ok s)"

definition inspect_endpoints :: "json option \<Rightarrow> endpoint_advertisement" where
  "inspect_endpoints body =
     (case body of
        None \<Rightarrow> EndpointsNotEvaluated ''config response has no captured JSON body''
      | Some b \<Rightarrow>
          (case json_get b ''endpoints'' of
             None \<Rightarrow> EndpointsOmitted
           | Some (JArray vs) \<Rightarrow>
               (case try_map inspect_endpoint vs of
                  Inl invalid \<Rightarrow> invalid
                | Inr parsed \<Rightarrow> EndpointsExplicit parsed)
           | Some _ \<Rightarrow> EndpointsInvalid ''config `endpoints` must be an array when present''))"

definition check_config_map :: "(string \<times> json) list \<Rightarrow> string \<Rightarrow> string + unit" where
  "check_config_map fields_of field =
     (case map_of fields_of field of
        None \<Rightarrow> Err (''config response is missing required '' @ quoted field @ '' map'')
      | Some (JObject properties) \<Rightarrow>
          (case find (\<lambda>(name, v). json_as_str v = None) properties of
             Some (name, _) \<Rightarrow>
               Err (''config '' @ quoted (field @ ''.'' @ name) @ '' must be a string map value'')
           | None \<Rightarrow> Ok ())
      | Some _ \<Rightarrow> Err (''config '' @ quoted field @ '' must be a JSON object when present''))"

definition validate_config_map_shape :: "json \<Rightarrow> string + unit" where
  "validate_config_map_shape body =
     (case body of
        JObject object \<Rightarrow>
          and_then (check_config_map object ''defaults'') (\<lambda>_. check_config_map object ''overrides'')
      | _ \<Rightarrow> Err ''config response must be a JSON object'')"

section \<open>Routes\<close>

record catalog_routes =
  routes_base_url :: string
  routes_prefix :: "string option"
  routes_codec :: namespace_codec

definition routes_new ::
  "catalog_adapter \<Rightarrow> prefix_resolution \<Rightarrow> namespace_codec \<Rightarrow> string \<Rightarrow> string + catalog_routes" where
  "routes_new adapter prefix_of codec probe =
     and_then
       (case prefix_of of
          PrefixUnprefixed \<Rightarrow> Ok None
        | PrefixStatic value \<Rightarrow> Ok (Some value)
        | PrefixNegotiated _ value \<Rightarrow> Ok (Some value)
        | PrefixFailed explanation \<Rightarrow> Err (''cannot build '' @ probe @ '' routes: '' @ explanation)
        | PrefixNotEvaluated reason \<Rightarrow> Err (''cannot build '' @ probe @ '' routes: '' @ reason))
       (\<lambda>p. Ok \<lparr>routes_base_url = base_url (adapter_endpoint adapter), routes_prefix = p,
                routes_codec = codec\<rparr>)"

definition resource_url :: "web_lib \<Rightarrow> catalog_routes \<Rightarrow> string list \<Rightarrow> string + url" where
  "resource_url lib r tail =
     and_then (map_err (\<lambda>_. ''invalid adapter base URL '' @ quoted (routes_base_url r))
                (wl_url_parse lib (routes_base_url r))) (\<lambda>u.
       if wl_cannot_be_a_base lib u then Err ''adapter base URL cannot carry path segments''
       else Ok (fold (wl_push_segment lib)
                  ([''v1''] @ (case routes_prefix r of None \<Rightarrow> [] | Some p \<Rightarrow> [p]) @ tail) u))"

definition route_namespace_collection :: "web_lib \<Rightarrow> catalog_routes \<Rightarrow> string + url" where
  "route_namespace_collection lib r = resource_url lib r [''namespaces'']"

definition route_namespace :: "web_lib \<Rightarrow> catalog_routes \<Rightarrow> namespace_identifier \<Rightarrow> string + url" where
  "route_namespace lib r ns = resource_url lib r [''namespaces'', codec_join (routes_codec r) ns]"

definition route_namespace_properties ::
  "web_lib \<Rightarrow> catalog_routes \<Rightarrow> namespace_identifier \<Rightarrow> string + url" where
  "route_namespace_properties lib r ns =
     resource_url lib r [''namespaces'', codec_join (routes_codec r) ns, ''properties'']"

definition route_namespaces_under ::
  "web_lib \<Rightarrow> catalog_routes \<Rightarrow> namespace_identifier \<Rightarrow> string + url" where
  "route_namespaces_under lib r parent =
     and_then (route_namespace_collection lib r) (\<lambda>u.
       Ok (wl_append_pair lib ''parent'' (codec_join (routes_codec r) parent) u))"

definition route_namespace_page :: "web_lib \<Rightarrow> catalog_routes \<Rightarrow> string \<Rightarrow> nat \<Rightarrow> string + url" where
  "route_namespace_page lib r token page_size =
     and_then (route_namespace_collection lib r) (\<lambda>u.
       Ok (wl_append_pair lib ''pageSize'' (show_nat page_size) (wl_append_pair lib ''pageToken'' token u)))"

definition route_table_collection ::
  "web_lib \<Rightarrow> catalog_routes \<Rightarrow> namespace_identifier \<Rightarrow> string + url" where
  "route_table_collection lib r ns =
     resource_url lib r [''namespaces'', codec_join (routes_codec r) ns, ''tables'']"

definition route_table ::
  "web_lib \<Rightarrow> catalog_routes \<Rightarrow> namespace_identifier \<Rightarrow> string \<Rightarrow> string + url" where
  "route_table lib r ns name =
     resource_url lib r [''namespaces'', codec_join (routes_codec r) ns, ''tables'', name]"

definition route_table_page ::
  "web_lib \<Rightarrow> catalog_routes \<Rightarrow> namespace_identifier \<Rightarrow> string \<Rightarrow> nat \<Rightarrow> string + url" where
  "route_table_page lib r ns token page_size =
     and_then (route_table_collection lib r ns) (\<lambda>u.
       Ok (wl_append_pair lib ''pageSize'' (show_nat page_size) (wl_append_pair lib ''pageToken'' token u)))"

definition route_table_register ::
  "web_lib \<Rightarrow> catalog_routes \<Rightarrow> namespace_identifier \<Rightarrow> string + url" where
  "route_table_register lib r ns =
     resource_url lib r [''namespaces'', codec_join (routes_codec r) ns, ''register'']"

definition route_table_rename :: "web_lib \<Rightarrow> catalog_routes \<Rightarrow> string + url" where
  "route_table_rename lib r = resource_url lib r [''tables'', ''rename'']"

section \<open>Fixture identifiers\<close>

definition is_probe_fixture_char :: "char \<Rightarrow> bool" where
  "is_probe_fixture_char c \<longleftrightarrow> is_ascii_lowercase c \<or> is_ascii_digit c \<or> c = CHR ''_''"

definition validate_probe_fixture_id :: "string \<Rightarrow> string + unit" where
  "validate_probe_fixture_id ident =
     (if ident = [] \<or> 24 < length ident then Err ''fixture id must contain 1 to 24 characters''
      else if \<not> list_all is_probe_fixture_char ident then
        Err ''fixture id must contain only lowercase ASCII letters, digits, and underscores''
      else Ok ())"

definition fixture_stem :: "string \<Rightarrow> component_id \<Rightarrow> string \<Rightarrow> string + string" where
  "fixture_stem stem catalog ident =
     and_then (validate_probe_fixture_id ident) (\<lambda>_.
       Ok (stem @ ''_'' @ str_replace ''-'' ''_'' catalog @ ''_'' @ ident))"

section \<open>Facts\<close>

datatype fact =
    FactPass
  | FactFail string
  | FactNotEvaluated string

definition fact_from_result :: "string + unit \<Rightarrow> fact" where
  "fact_from_result result = (case result of Inr _ \<Rightarrow> FactPass | Inl explanation \<Rightarrow> FactFail explanation)"

definition fact_from_bool :: "bool \<Rightarrow> string \<Rightarrow> fact" where
  "fact_from_bool b explanation = (if b then FactPass else FactFail explanation)"

definition fact_passed :: "fact \<Rightarrow> bool" where
  "fact_passed f = (case f of FactPass \<Rightarrow> True | _ \<Rightarrow> False)"

definition fact_explanation :: "fact \<Rightarrow> string \<Rightarrow> string" where
  "fact_explanation f fallback =
     (case f of FactPass \<Rightarrow> fallback | FactFail explanation \<Rightarrow> explanation
      | FactNotEvaluated explanation \<Rightarrow> explanation)"

definition fact_outcome :: "fact \<Rightarrow> assertion_outcome" where
  "fact_outcome f =
     (case f of FactPass \<Rightarrow> APass | FactFail explanation \<Rightarrow> AFail explanation
      | FactNotEvaluated reason \<Rightarrow> ANotEvaluated reason)"

lemma fact_passed_from_result [simp]: "fact_passed (fact_from_result r) \<longleftrightarrow> r = Ok ()"
  by (cases r) (simp_all add: fact_passed_def fact_from_result_def)

section \<open>Negotiation\<close>

record routing_config_transcript =
  rct_request :: http_request_transcript
  rct_response :: "http_response_transcript option"
  rct_prefix :: prefix_resolution
  rct_namespace_separator :: namespace_separator_resolution
  rct_failure :: "probe_failure option"

record routing_negotiation =
  neg_authentication :: authentication_attempt
  neg_config :: routing_config_transcript
  neg_codec :: "namespace_codec option"
  neg_config_routing :: fact
  neg_redactions :: "string list"

definition config_request :: "web_lib \<Rightarrow> catalog_adapter \<Rightarrow> bool \<Rightarrow> string + http_request_transcript" where
  "config_request lib adapter authenticated =
     and_then (endpoint_url lib (base_url (adapter_endpoint adapter))
                (config_path (endpoint_config (adapter_endpoint adapter)))
                (config_query (endpoint_config (adapter_endpoint adapter)))) (\<lambda>u.
       Ok \<lparr>hrt_method = ''GET'', hrt_url = wl_url_to_string lib u,
           hrt_headers = (''accept'', ''application/json'')
             # (if authenticated then [(''authorization'', REDACTED)] else [])\<rparr>)"

definition not_evaluated_config ::
  "web_lib \<Rightarrow> catalog_adapter \<Rightarrow> string \<Rightarrow> string + routing_config_transcript" where
  "not_evaluated_config lib adapter reason =
     and_then (config_request lib adapter False) (\<lambda>request.
       Ok \<lparr>rct_request = request, rct_response = None, rct_prefix = PrefixNotEvaluated reason,
           rct_namespace_separator = SepNotEvaluated reason, rct_failure = None\<rparr>)"

definition is_json_media_type :: "string \<Rightarrow> bool" where
  "is_json_media_type content_type =
     (to_ascii_lowercase (trim (takeWhile (\<lambda>c. c \<noteq> CHR '';'') content_type)) = ''application/json'')"

definition validate_config_routing ::
  "probe_failure option \<Rightarrow> http_response_transcript option \<Rightarrow> json option \<Rightarrow> prefix_resolution
   \<Rightarrow> namespace_codec option \<Rightarrow> string + unit" where
  "validate_config_routing authentication_failure response private_json prefix_of codec =
     (case authentication_failure of
        Some failure \<Rightarrow> Err (pf_explanation failure)
      | None \<Rightarrow>
          and_then (ok_or response ''no config response was received'') (\<lambda>r.
            if rsp_status r \<noteq> 200 then
              Err (''config returned HTTP '' @ show_word (rsp_status r) @ '' instead of 200'')
            else if \<not> is_some_and (map_of (rsp_headers r) ''content-type'') is_json_media_type then
              Err ''config response did not declare application/json''
            else if private_json = None then
              Err ''config response did not contain valid captured JSON''
            else
              and_then (case prefix_of of PrefixFailed explanation \<Rightarrow> Err explanation
                        | PrefixNotEvaluated reason \<Rightarrow> Err reason | _ \<Rightarrow> Ok ()) (\<lambda>_.
                if codec = None then Err ''namespace separator did not resolve'' else Ok ())))"

definition request_config ::
  "web_lib \<Rightarrow> 'w http_client \<Rightarrow> catalog_adapter \<Rightarrow> authentication_attempt \<Rightarrow> 'w
   \<Rightarrow> (string + captured_response) \<times> 'w" where
  "request_config lib client adapter authentication w =
     (if att_failure authentication = None then
        (case endpoint_url lib (base_url (adapter_endpoint adapter))
                (config_path (endpoint_config (adapter_endpoint adapter)))
                (config_query (endpoint_config (adapter_endpoint adapter))) of
           Inl error \<Rightarrow> (Err error, w)
         | Inr u \<Rightarrow>
             (let (captured, w1) = execute_json_request lib client GET u (att_bearer_token authentication)
                     None (att_sensitive_values authentication) ''config'' w
              in (Ok captured, w1)))
      else (Ok (no_capture None), w))"

definition routing_of_capture ::
  "web_lib \<Rightarrow> catalog_adapter \<Rightarrow> authentication_attempt \<Rightarrow> http_request_transcript
   \<Rightarrow> captured_response \<Rightarrow> routing_negotiation" where
  "routing_of_capture lib adapter authentication request captured =
     (let prefix_of = resolve_prefix lib adapter (cap_private_json captured);
          (separator, codec) = codec_resolve lib (cap_private_json captured)
      in \<lparr>neg_authentication = authentication,
          neg_config = \<lparr>rct_request = request, rct_response = cap_response captured,
            rct_prefix = prefix_of, rct_namespace_separator = separator,
            rct_failure = (case att_failure authentication of
               Some f \<Rightarrow> Some f | None \<Rightarrow> cap_failure captured)\<rparr>,
          neg_codec = codec,
          neg_config_routing = fact_from_result (validate_config_routing (att_failure authentication)
            (cap_response captured) (cap_private_json captured) prefix_of codec),
          neg_redactions = map (\<lambda>path. ''config.'' @ path) (cap_redactions captured)
            @ (if att_bearer_token authentication \<noteq> None
               then [''config.request.headers.authorization'',
                     ''authentication.oauth2-request-credentials'',
                     ''authentication.oauth2-response-token'']
               else [])\<rparr>)"

definition negotiate_routing ::
  "web_lib \<Rightarrow> 'w http_client \<Rightarrow> catalog_adapter \<Rightarrow> (string \<Rightarrow> string option) \<Rightarrow> 'w
   \<Rightarrow> (string + routing_negotiation) \<times> 'w" where
  "negotiate_routing lib client adapter getenv w =
     (let (authentication, w1) = acquire_authentication lib client adapter getenv w
      in case config_request lib adapter (att_bearer_token authentication \<noteq> None) of
           Inl error \<Rightarrow> (Err error, w1)
         | Inr request \<Rightarrow>
             (case request_config lib client adapter authentication w1 of
                (Inl error, w2) \<Rightarrow> (Err error, w2)
              | (Inr captured, w2) \<Rightarrow>
                  (Ok (routing_of_capture lib adapter authentication request captured), w2)))"

section \<open>Targets\<close>

record probe_target =
  target_adapter :: catalog_adapter
  target_component :: component

definition resolve_adapter :: "profile \<Rightarrow> component_id \<Rightarrow> string + probe_target" where
  "resolve_adapter p catalog =
     and_then (ok_or (find (\<lambda>a. adapter_catalog a = catalog) (prof_catalog_adapters p))
                (''profile has no adapter for catalog '' @ quoted catalog)) (\<lambda>adapter.
     and_then (ok_or (find (\<lambda>c. component_ident c = catalog) (prof_components p))
                (''profile has no component for catalog '' @ quoted catalog)) (\<lambda>comp.
       Ok \<lparr>target_adapter = adapter, target_component = comp\<rparr>))"

definition check_target_capability ::
  "profile \<Rightarrow> probe_target \<Rightarrow> capability_requirement \<Rightarrow> string + unit" where
  "check_target_capability p target requirement =
     (if req_capability requirement \<notin> cap_ident ` set (prof_catalog_capabilities p) then
        Err (''scenario capability '' @ quoted (req_capability requirement)
             @ '' is absent from profile vocabulary'')
      else if \<not> exercises (adapter_capabilities (target_adapter target)) (req_capability requirement)
           \<and> limitation (adapter_capabilities (target_adapter target)) (req_capability requirement) = None then
        Err (''adapter does not classify scenario capability '' @ quoted (req_capability requirement))
      else Ok ())"

definition resolve_target :: "profile \<Rightarrow> scenario \<Rightarrow> component_id \<Rightarrow> string + probe_target" where
  "resolve_target p s catalog =
     and_then (resolve_adapter p catalog) (\<lambda>target.
     and_then (try_fold (\<lambda>_ requirement. check_target_capability p target requirement) ()
                (scn_capabilities s)) (\<lambda>_. Ok target))"

definition first_required_limitation ::
  "probe_target \<Rightarrow> scenario \<Rightarrow> unsupported_adapter_capability option" where
  "first_required_limitation target s =
     find_map (\<lambda>requirement. limitation (adapter_capabilities (target_adapter target))
                 (req_capability requirement))
       (filter (\<lambda>requirement. req_level requirement = Required) (scn_capabilities s))"

section \<open>Catalog sessions\<close>

record transcript_adapter_record =
  ta_catalog :: component_id
  ta_name :: string
  ta_version :: string
  ta_protocol :: catalog_protocol
  ta_request_handling :: adapter_request_handling

definition transcript_adapter :: "catalog_adapter \<Rightarrow> component \<Rightarrow> transcript_adapter_record" where
  "transcript_adapter adapter subject =
     \<lparr>ta_catalog = adapter_catalog adapter, ta_name = component_name subject, ta_version = component_version subject,
      ta_protocol = adapter_protocol adapter, ta_request_handling = adapter_handling adapter\<rparr>"

record catalog_negotiation_evidence =
  cne_adapter :: transcript_adapter_record
  cne_authentication :: authentication_transcript
  cne_config :: routing_config_transcript
  cne_redactions :: "string list"

datatype negotiation_failure_stage = NegAuthentication | NegConfig | NegRouting

record catalog_negotiation_failure =
  cnf_stage :: negotiation_failure_stage
  cnf_detail :: string

record catalog_session =
  ses_bearer_token :: "string option"
  ses_sensitive_values :: "string list"
  ses_routes :: catalog_routes
  ses_maximum_response_bytes :: u64

datatype catalog_connection_outcome =
    ConnectionReady catalog_session
  | ConnectionFailed catalog_negotiation_failure

record catalog_connection_attempt =
  cca_evidence :: catalog_negotiation_evidence
  cca_outcome :: catalog_connection_outcome

definition connection_outcome ::
  "probe_target \<Rightarrow> u64 \<Rightarrow> routing_negotiation \<Rightarrow> catalog_connection_outcome" where
  "connection_outcome target maximum_response_bytes routing =
     (case att_failure (neg_authentication routing) of
        Some failure \<Rightarrow>
          ConnectionFailed
            \<lparr>cnf_stage = (case pf_stage failure of AuthenticationStage \<Rightarrow> NegAuthentication | _ \<Rightarrow> NegConfig),
             cnf_detail = bounded_detail (pf_explanation failure)\<rparr>
      | None \<Rightarrow>
          if \<not> fact_passed (neg_config_routing routing) then
            ConnectionFailed \<lparr>cnf_stage = NegConfig,
              cnf_detail = bounded_detail (fact_explanation (neg_config_routing routing)
                ''catalog config routing did not pass'')\<rparr>
          else case neg_codec routing of
            None \<Rightarrow>
              ConnectionFailed \<lparr>cnf_stage = NegRouting,
                cnf_detail = ''namespace codec was unavailable after successful config validation''\<rparr>
          | Some codec \<Rightarrow>
              (case routes_new (target_adapter target) (rct_prefix (neg_config routing)) codec ''catalog'' of
                 Inl error \<Rightarrow>
                   ConnectionFailed \<lparr>cnf_stage = NegRouting, cnf_detail = bounded_detail error\<rparr>
               | Inr routes \<Rightarrow>
                   ConnectionReady
                     \<lparr>ses_bearer_token = att_bearer_token (neg_authentication routing),
                      ses_sensitive_values = att_sensitive_values (neg_authentication routing),
                      ses_routes = routes,
                      ses_maximum_response_bytes = maximum_response_bytes\<rparr>))"

text \<open>
  The constructor of the HTTP client is a parameter: it answers the client for a timeout, or the
  message of its error.
\<close>

definition connect_target ::
  "web_lib \<Rightarrow> (u64 \<Rightarrow> string + 'w http_client) \<Rightarrow> probe_target \<Rightarrow> u64 \<Rightarrow> u64
   \<Rightarrow> (string \<Rightarrow> string option) \<Rightarrow> 'w \<Rightarrow> (string + catalog_connection_attempt) \<times> 'w" where
  "connect_target lib http_client_new target timeout_ms maximum_bytes getenv w =
     (case http_client_new timeout_ms of
        Inl error \<Rightarrow> (Err error, w)
      | Inr client \<Rightarrow>
          (case negotiate_routing lib client (target_adapter target) getenv w of
             (Inl error, w1) \<Rightarrow> (Err error, w1)
           | (Inr routing, w1) \<Rightarrow>
               (Ok \<lparr>cca_evidence =
                      \<lparr>cne_adapter = transcript_adapter (target_adapter target) (target_component target),
                       cne_authentication = att_transcript (neg_authentication routing),
                       cne_config = neg_config routing,
                       cne_redactions = remdups_adj (sort (neg_redactions routing))\<rparr>,
                    cca_outcome = connection_outcome target maximum_bytes routing\<rparr>, w1)))"

definition validate_connection_limits :: "u64 \<Rightarrow> u64 \<Rightarrow> string + unit" where
  "validate_connection_limits timeout_ms maximum_bytes =
     (if timeout_ms = 0 then Err ''catalog request timeout must be positive''
      else if maximum_bytes \<noteq> MAXIMUM_RESPONSE_BYTES then
        Err (''shared catalog runtime supports a '' @ show_word MAXIMUM_RESPONSE_BYTES
             @ ''-byte response limit, found '' @ show_word maximum_bytes)
      else Ok ())"

definition connect_catalog ::
  "web_lib \<Rightarrow> (u64 \<Rightarrow> string + 'w http_client) \<Rightarrow> profile \<Rightarrow> scenario \<Rightarrow> component_id \<Rightarrow> u64 \<Rightarrow> u64
   \<Rightarrow> (string \<Rightarrow> string option) \<Rightarrow> 'w \<Rightarrow> (string + catalog_connection_attempt) \<times> 'w" where
  "connect_catalog lib http_client_new p s catalog timeout_ms maximum_bytes getenv w =
     (case and_then (validate_connection_limits timeout_ms maximum_bytes)
             (\<lambda>_. resolve_target p s catalog) of
        Inl error \<Rightarrow> (Err error, w)
      | Inr target \<Rightarrow>
          (case first_required_limitation target s of
             Some l \<Rightarrow>
               (Err (''catalog '' @ quoted catalog @ '' declares required capability ''
                     @ quoted (lim_capability l) @ '' unsupported''), w)
           | None \<Rightarrow> connect_target lib http_client_new target timeout_ms maximum_bytes getenv w))"

definition connect_catalog_adapter ::
  "web_lib \<Rightarrow> (u64 \<Rightarrow> string + 'w http_client) \<Rightarrow> profile \<Rightarrow> component_id \<Rightarrow> u64 \<Rightarrow> u64
   \<Rightarrow> (string \<Rightarrow> string option) \<Rightarrow> 'w \<Rightarrow> (string + catalog_connection_attempt) \<times> 'w" where
  "connect_catalog_adapter lib http_client_new p catalog timeout_ms maximum_bytes getenv w =
     (case and_then (validate_connection_limits timeout_ms maximum_bytes)
             (\<lambda>_. resolve_adapter p catalog) of
        Inl error \<Rightarrow> (Err error, w)
      | Inr target \<Rightarrow> connect_target lib http_client_new target timeout_ms maximum_bytes getenv w)"

section \<open>Requests of a session\<close>

datatype response_capture = CaptureJson | CaptureDiscard

record catalog_response =
  cr_status :: u16
  cr_body_bytes :: u64
  cr_body :: "string option"

datatype catalog_request_failure_kind =
    RequestTimeout
  | RequestTransport
  | RequestResponseRead
  | RequestResponseTooLarge
  | RequestBodyNotRetained
  | RequestMalformedJson

record catalog_request_failure =
  crf_kind :: catalog_request_failure_kind
  crf_http_status :: "u16 option"
  crf_detail :: string

definition collect_response ::
  "http_response \<Rightarrow> response_capture \<Rightarrow> u64 \<Rightarrow> string list \<Rightarrow> catalog_request_failure + catalog_response" where
  "collect_response response capture maximum_bytes sens =
     (case (case capture of CaptureJson \<Rightarrow> read_limited_body response maximum_bytes
            | CaptureDiscard \<Rightarrow> drain_limited_body response maximum_bytes) of
        Inl error \<Rightarrow>
          Err \<lparr>crf_kind = RequestResponseRead, crf_http_status = Some (rr_status response),
               crf_detail = bounded_detail (redact_text (''failed to read bounded response: '' @ error) sens)\<rparr>
      | Inr (Complete bytes observed) \<Rightarrow>
          Ok \<lparr>cr_status = rr_status response, cr_body_bytes = observed,
              cr_body = (if capture = CaptureJson then Some bytes else None)\<rparr>
      | Inr (TooLarge observed) \<Rightarrow>
          Err \<lparr>crf_kind = RequestResponseTooLarge, crf_http_status = Some (rr_status response),
               crf_detail = ''response exceeded the '' @ show_word maximum_bytes
                 @ ''-byte limit after '' @ show_word observed @ '' bytes''\<rparr>)"

definition request_json ::
  "'w http_client \<Rightarrow> catalog_session \<Rightarrow> http_method \<Rightarrow> url \<Rightarrow> json option \<Rightarrow> response_capture \<Rightarrow> 'w
   \<Rightarrow> (catalog_request_failure + catalog_response) \<times> 'w" where
  "request_json client session m u body capture w =
     (case client \<lparr>rq_method = m, rq_url = u, rq_bearer = ses_bearer_token session,
                    rq_body = (case body of None \<Rightarrow> NoBody | Some b \<Rightarrow> JsonBody b),
                    rq_idempotency_key = None\<rparr> w of
        (Inl error, w1) \<Rightarrow>
          (Err \<lparr>crf_kind = (if se_timeout error then RequestTimeout else RequestTransport),
                crf_http_status = None,
                crf_detail = bounded_detail (redact_text (se_text error) (ses_sensitive_values session))\<rparr>, w1)
      | (Inr response, w1) \<Rightarrow>
          (collect_response response capture (ses_maximum_response_bytes session)
             (ses_sensitive_values session), w1))"

text \<open>\<open>CatalogResponse::json\<close>; \<open>decode\<close> is \<open>serde_json::from_slice\<close> at the caller's type.\<close>

definition catalog_response_json ::
  "(string \<Rightarrow> string + 'a) \<Rightarrow> catalog_response \<Rightarrow> catalog_request_failure + 'a" where
  "catalog_response_json decode r =
     (case cr_body r of
        None \<Rightarrow>
          Err \<lparr>crf_kind = RequestBodyNotRetained, crf_http_status = Some (cr_status r),
               crf_detail = ''response body was deliberately discarded''\<rparr>
      | Some body \<Rightarrow>
          map_err (\<lambda>error. \<lparr>crf_kind = RequestMalformedJson, crf_http_status = Some (cr_status r),
             crf_detail = bounded_detail (''response was not valid expected JSON: '' @ error)\<rparr>)
            (decode body))"

section \<open>What a ready connection has shown\<close>

lemma token_of_response_nonempty: "token_of_response lib response = Ok token \<Longrightarrow> token \<noteq> []"
  by (auto simp: token_of_response_def split: sum.splits collected_body.splits if_splits option.splits)

lemma acquire_authentication_cases:
  "let a = fst (acquire_authentication lib client adapter getenv w)
   in (at_outcome (att_transcript a) = AuthFailed \<and> att_failure a \<noteq> None
       \<and> att_bearer_token a = None \<and> att_sensitive_values a = [])
      \<or> (at_outcome (att_transcript a) = AuthReady \<and> att_failure a = None
         \<and> (\<forall>token. att_bearer_token a = Some token \<longrightarrow> token \<noteq> [] \<and> token \<in> set (att_sensitive_values a)))"
proof (cases "adapter_authentication adapter")
  case Anonymous
  then show ?thesis by (simp add: acquire_authentication_def)
next
  case (OAuth2ClientCredentials token_path scope client_id_env client_secret_env)
  note defs = acquire_authentication_def OAuth2ClientCredentials Let_def failed_authentication_def
  show ?thesis
  proof (cases "endpoint_url lib (base_url (adapter_endpoint adapter)) token_path []")
    case (Inl e)
    then show ?thesis by (auto simp: defs)
  next
    case url: (Inr u)
    show ?thesis
    proof (cases "nonempty_env getenv client_id_env = None \<or> nonempty_env getenv client_secret_env = None")
      case True
      then show ?thesis by (auto simp: defs url split: option.splits)
    next
      case False
      then show ?thesis
        using token_of_response_nonempty
        by (auto simp: defs url split: prod.splits sum.splits)
    qed
  qed
qed

lemma acquire_authentication_outcome:
  assumes "acquire_authentication lib client adapter getenv w = (a, w1)"
  shows "att_failure a = None \<longleftrightarrow> at_outcome (att_transcript a) = AuthReady"
  using acquire_authentication_cases [of lib client adapter getenv w]
  by (auto simp: assms Let_def)

lemma execute_json_request_private:
  assumes "execute_json_request lib client m u token body sens label w = (c, w1)"
    and "cap_private_json c \<noteq> None"
  shows "cap_failure c = None
    \<and> (\<exists>r. cap_response c = Some r \<and> rsp_body r = BodyJson (fst (sanitize_json lib (the (cap_private_json c)) sens)))"
  using assms
  by (auto simp: execute_json_request_def execute_json_request_with_context_def Let_def no_capture_def
      too_large_capture_def capture_complete_body_def
      split: sum.splits prod.splits collected_body.splits if_splits)

lemma decoded_codec_sound:
  assumes "decoded_codec lib resolution encoded = (r, Some separator)"
  shows "chars_count separator = 1 \<and> \<not> list_ex (\<lambda>c. c \<in> set ''/?#'') separator"
  using assms
  by (auto simp: decoded_codec_def decode_separator_def split: sum.splits list.splits if_splits)

lemma codec_resolve_sound:
  assumes "codec_resolve lib config = (r, Some separator)"
  shows "chars_count separator = 1 \<and> \<not> list_ex (\<lambda>c. c \<in> set ''/?#'') separator"
  using assms decoded_codec_sound
  by (auto simp: codec_resolve_def split: option.splits json.splits)

text \<open>The prefix the adapter's endpoint asks for, read from the configuration when it is negotiated.\<close>

definition prefix_from_config :: "web_lib \<Rightarrow> catalog_adapter \<Rightarrow> json \<Rightarrow> string option \<Rightarrow> bool" where
  "prefix_from_config lib adapter config p \<longleftrightarrow>
     (case route_prefix (adapter_endpoint adapter) of
        Unprefixed \<Rightarrow> p = None
      | Static value \<Rightarrow> p = Some value
      | Negotiated pointer \<Rightarrow>
          (\<exists>value. p = Some value \<and> wl_json_pointer lib config pointer = Some (JString value)
             \<and> valid_path_segment value))"

lemma validate_config_routing_Ok:
  assumes "validate_config_routing failure response body (resolve_prefix lib adapter body) codec = Ok ()"
  obtains r config separator routes where
    "failure = None" "response = Some r" "rsp_status r = 200" "body = Some config" "codec = Some separator"
    "is_some_and (map_of (rsp_headers r) ''content-type'') is_json_media_type"
    "routes_new adapter (resolve_prefix lib adapter body) separator probe = Ok routes"
    "routes_codec routes = separator" "routes_base_url routes = base_url (adapter_endpoint adapter)"
    "prefix_from_config lib adapter config (routes_prefix routes)"
proof -
  from assms obtain r config separator where
    r: "failure = None" "response = Some r" "rsp_status r = 200" "body = Some config" "codec = Some separator"
      "is_some_and (map_of (rsp_headers r) ''content-type'') is_json_media_type" and
    p: "(case resolve_prefix lib adapter body of PrefixFailed e \<Rightarrow> Err e | PrefixNotEvaluated e \<Rightarrow> Err e | _ \<Rightarrow> Ok ()) = Ok ()"
    by (auto simp: validate_config_routing_def and_then_eq_Inr split: option.splits if_splits)
  obtain p where "routes_new adapter (resolve_prefix lib adapter body) separator probe =
      Ok \<lparr>routes_base_url = base_url (adapter_endpoint adapter), routes_prefix = p, routes_codec = separator\<rparr>"
    "prefix_from_config lib adapter config p"
    using p r(4) by (auto simp: routes_new_def resolve_prefix_def prefix_from_config_def json_as_str_eq_Some bind_eq_Some_conv
        split: catalog_route_prefix.splits option.splits if_splits)
  with r show ?thesis using that by simp
qed

lemma resource_url_Ok:
  assumes "resource_url lib r tail = Ok u"
  shows "\<exists>b. wl_url_parse lib (routes_base_url r) = Ok b
    \<and> u = fold (wl_push_segment lib) (''v1'' # (case routes_prefix r of None \<Rightarrow> [] | Some p \<Rightarrow> [p]) @ tail) b"
  using assms by (auto simp: resource_url_def and_then_eq_Inr map_err_eq_Inr split: if_splits)

lemma negotiate_routing_Ok:
  assumes "negotiate_routing lib client adapter getenv w = (Ok routing, w1)"
  obtains a w0 request captured where
    "acquire_authentication lib client adapter getenv w = (a, w0)"
    "request_config lib client adapter a w0 = (Ok captured, w1)"
    "routing = routing_of_capture lib adapter a request captured"
  using assms by (auto simp: negotiate_routing_def split: prod.splits sum.splits)

lemma request_config_private:
  assumes "request_config lib client adapter a w = (Ok captured, w1)"
    and "cap_private_json captured \<noteq> None"
  shows "cap_failure captured = None
    \<and> (\<exists>r. cap_response captured = Some r
         \<and> rsp_body r = BodyJson (fst (sanitize_json lib (the (cap_private_json captured)) (att_sensitive_values a))))"
  using assms
  by (auto simp: request_config_def no_capture_def
      split: if_splits sum.splits prod.splits dest: execute_json_request_private)

text \<open>
  C13. A connection attempt that is ready has authenticated and has received a configuration with
  status 200, the media type \<open>application/json\<close>, a JSON body and no recorded failure. The session
  keeps the bearer token among the values to redact, and its routes are those of the adapter: every
  route is the base URL of the adapter's endpoint, extended by \<open>v1\<close>, by the prefix that the endpoint
  asks for (none, a fixed one, or the path segment that the configuration names at the agreed place)
  and by the segments of the resource; the namespace separator is exactly one character that is none
  of the URL-structural \<open>/ ? #\<close>. An attempt that fails never fails in the routing stage: what the
  configuration check accepted can always be turned into routes.
\<close>

theorem connection_ready_sound:
  assumes "fst (connect_target lib http_client_new target timeout_ms maximum_bytes getenv w) = Ok attempt"
  shows "case cca_outcome attempt of
      ConnectionReady s \<Rightarrow>
        at_outcome (cne_authentication (cca_evidence attempt)) = AuthReady
        \<and> (\<forall>token. ses_bearer_token s = Some token \<longrightarrow> token \<noteq> [] \<and> token \<in> set (ses_sensitive_values s))
        \<and> rct_failure (cne_config (cca_evidence attempt)) = None
        \<and> (\<exists>r config. rct_response (cne_config (cca_evidence attempt)) = Some r \<and> rsp_status r = 200
             \<and> is_some_and (map_of (rsp_headers r) ''content-type'') is_json_media_type
             \<and> rsp_body r = BodyJson (fst (sanitize_json lib config (ses_sensitive_values s)))
             \<and> prefix_from_config lib (target_adapter target) config (routes_prefix (ses_routes s)))
        \<and> (\<forall>tail u. resource_url lib (ses_routes s) tail = Ok u \<longrightarrow>
             (\<exists>b. wl_url_parse lib (base_url (adapter_endpoint (target_adapter target))) = Ok b
                \<and> u = fold (wl_push_segment lib)
                    (''v1'' # (case routes_prefix (ses_routes s) of None \<Rightarrow> [] | Some p \<Rightarrow> [p]) @ tail) b))
        \<and> chars_count (routes_codec (ses_routes s)) = 1
        \<and> \<not> list_ex (\<lambda>c. c \<in> set ''/?#'') (routes_codec (ses_routes s))
        \<and> ses_maximum_response_bytes s = maximum_bytes
    | ConnectionFailed f \<Rightarrow> cnf_stage f \<noteq> NegRouting"
proof -
  from assms obtain client routing w1 where
    r: "negotiate_routing lib client (target_adapter target) getenv w = (Ok routing, w1)" and
    attempt: "cne_authentication (cca_evidence attempt) = att_transcript (neg_authentication routing)"
      "cne_config (cca_evidence attempt) = neg_config routing"
      "cca_outcome attempt = connection_outcome target maximum_bytes routing"
    by (auto simp: connect_target_def split: sum.splits prod.splits)
  from negotiate_routing_Ok [OF r] obtain a w0 request captured where
    a: "acquire_authentication lib client (target_adapter target) getenv w = (a, w0)" and
    c: "request_config lib client (target_adapter target) a w0 = (Ok captured, w1)" and
    routing: "routing = routing_of_capture lib (target_adapter target) a request captured" .
  obtain separator codec where
    codec: "codec_resolve lib (cap_private_json captured) = (separator, codec)" by force
  let ?prefix = "resolve_prefix lib (target_adapter target) (cap_private_json captured)"
  let ?check = "validate_config_routing (att_failure a) (cap_response captured)
      (cap_private_json captured) ?prefix codec"
  have parts: "neg_authentication routing = a" "neg_codec routing = codec"
      "neg_config_routing routing = fact_from_result ?check"
      "rct_prefix (neg_config routing) = ?prefix"
      "rct_response (neg_config routing) = cap_response captured"
      "att_failure a = None \<Longrightarrow> rct_failure (neg_config routing) = cap_failure captured"
    by (simp_all add: routing routing_of_capture_def codec Let_def)
  show ?thesis
  proof (cases "?check = Ok ()")
    case False
    then show ?thesis
      by (auto simp: attempt parts connection_outcome_def split: option.splits probe_failure_stage.splits)
  next
    case True
    from validate_config_routing_Ok [OF True, of "''catalog''"] obtain r config s routes where
      facts: "att_failure a = None" "cap_response captured = Some r" "rsp_status r = 200"
        "cap_private_json captured = Some config" "codec = Some s"
        "is_some_and (map_of (rsp_headers r) ''content-type'') is_json_media_type"
        "routes_new (target_adapter target) ?prefix s ''catalog'' = Ok routes" and
      routes: "routes_codec routes = s" "routes_base_url routes = base_url (adapter_endpoint (target_adapter target))"
        "prefix_from_config lib (target_adapter target) config (routes_prefix routes)" .
    have outcome: "cca_outcome attempt = ConnectionReady \<lparr>ses_bearer_token = att_bearer_token a,
        ses_sensitive_values = att_sensitive_values a, ses_routes = routes,
        ses_maximum_response_bytes = maximum_bytes\<rparr>"
      using facts True by (simp add: attempt parts connection_outcome_def)
    have "chars_count s = 1 \<and> \<not> list_ex (\<lambda>c. c \<in> set ''/?#'') s"
      using codec_resolve_sound codec facts(5) by blast
    moreover have "at_outcome (att_transcript a) = AuthReady"
      using acquire_authentication_outcome [OF a] facts(1) by blast
    moreover have "\<forall>token. att_bearer_token a = Some token \<longrightarrow> token \<noteq> [] \<and> token \<in> set (att_sensitive_values a)"
      using acquire_authentication_cases [of lib client "target_adapter target" getenv w] facts(1)
      by (auto simp: a Let_def)
    moreover have "cap_failure captured = None"
        "rsp_body r = BodyJson (fst (sanitize_json lib config (att_sensitive_values a)))"
      using request_config_private [OF c] facts(2,4) by auto
    ultimately show ?thesis
      using facts(1-4,6) routes resource_url_Ok [of lib routes]
      by (auto simp: outcome attempt(1,2) parts)
  qed
qed

text \<open>
  A concrete web library and client: every text is a URL of host \<open>h\<close> with the text as its path, the
  only JSON document is a configuration with empty maps, and every request is answered with it.
\<close>

definition demo_url :: "string \<Rightarrow> url" where
  "demo_url path = \<lparr>url_scheme = ''http'', url_host_str = Some ''h'', url_username = [],
     url_password = None, url_path = path, url_query = None, url_fragment = None\<rparr>"

definition demo_config :: json where
  "demo_config = JObject [(''defaults'', JObject []), (''overrides'', JObject [])]"

definition demo_web :: web_lib where
  "demo_web =
     \<lparr>wl_url_parse = (\<lambda>s. Ok (demo_url s)),
      wl_url_to_string = url_path,
      wl_cannot_be_a_base = (\<lambda>u. False),
      wl_push_segment = (\<lambda>s u. u\<lparr>url_path := url_path u @ ''/'' @ s\<rparr>),
      wl_pop_if_empty = id,
      wl_append_pair = (\<lambda>k v u. u\<lparr>url_query := Some (k @ ''='' @ v)\<rparr>),
      wl_query_pairs = (\<lambda>u. []),
      wl_clear_query = (\<lambda>u. u\<lparr>url_query := None\<rparr>),
      wl_set_username = (\<lambda>s u. u\<lparr>url_username := s\<rparr>),
      wl_clear_password = (\<lambda>u. u\<lparr>url_password := None\<rparr>),
      wl_clear_fragment = (\<lambda>u. u\<lparr>url_fragment := None\<rparr>),
      wl_form_parse = (\<lambda>s. [(''separator'', ''.'')]),
      wl_form_serialize = (\<lambda>kvs. []),
      wl_json_pointer = (\<lambda>v p. None),
      wl_json_from_slice = (\<lambda>s. Ok demo_config),
      wl_sha256 = (\<lambda>s. [])\<rparr>"

definition demo_client :: "nat http_client" where
  "demo_client request n =
     (Ok \<lparr>rr_status = 200,
          rr_headers = (\<lambda>name. if name = ''content-type'' then Some ''application/json'' else None),
          rr_content_length = None, rr_chunks = [Ok ''{}'']\<rparr>, Suc n)"

definition demo_target :: probe_target where
  "demo_target = \<lparr>target_adapter = demo_adapter, target_component = demo_component ''cat'' Catalog\<rparr>"

theorem connection_ready_sound_witness:
  "\<exists>attempt s. fst (connect_target demo_web (\<lambda>_. Ok demo_client) demo_target 1 1048576 Map.empty 0) = Ok attempt
     \<and> cca_outcome attempt = ConnectionReady s \<and> chars_count (routes_codec (ses_routes s)) = 1"
proof -
  let ?run = "connect_target demo_web (\<lambda>_. Ok demo_client) demo_target 1 1048576 Map.empty 0"
  have ready: "case fst ?run of Inl _ \<Rightarrow> False | Inr attempt \<Rightarrow>
      (case cca_outcome attempt of ConnectionReady s \<Rightarrow> True | ConnectionFailed f \<Rightarrow> False)"
    by code_simp
  then obtain attempt s where run: "fst ?run = Ok attempt" and s: "cca_outcome attempt = ConnectionReady s"
    by (auto split: sum.splits catalog_connection_outcome.splits)
  from connection_ready_sound [OF run] s show ?thesis using run s by auto
qed

end
