(* ===== verification/Commit_Protocol.thy ===== *)
theory Commit_Protocol
  imports Commit_Store Conf_Routing
begin

text \<open>
  The catalog side of the contention benchmark (\<open>crates/commit/src/protocol.rs\<close>): what a failed call
  is classified as, the requests that create, load, change and drop the fixture table, and the port
  through which a round reaches a catalog. The trait \<open>CatalogPort\<close> is a record of functions that
  pass a world of type \<open>'w\<close> along; \<open>rest_port\<close> is its implementation over a catalog session.
  Decoding a load-table response at its type is code derived by \<open>serde\<close>, the parameter \<open>decode\<close>.
\<close>

section \<open>Data\<close>

record table_snapshot =
  ts_format_version :: u8
  ts_table_uuid :: string
  ts_location :: string
  ts_metadata_location :: string
  ts_properties :: string_map

datatype resource_presence = Present | Absent

record presence_observation =
  po_http_status :: u16
  po_presence :: resource_presence

record mutation_receipt =
  mr_http_status :: u16

datatype catalog_failure_kind =
    CfTimeout
  | CfTransport
  | CfResponseRead
  | CfResponseTooLarge
  | CfUnexpectedHttp
  | CfMalformedResponse
  | CfHarness

record catalog_failure =
  cf_kind :: catalog_failure_kind
  cf_http_status :: "u16 option"
  cf_detail :: string

text \<open>The \<open>Debug\<close> form of a slice of status codes.\<close>

definition show_statuses :: "u16 list \<Rightarrow> string" where
  "show_statuses allowed = ''['' @ join '', '' (map (\<lambda>s. show_word s) allowed) @ '']''"

definition unexpected_http :: "u16 \<Rightarrow> string \<Rightarrow> u16 list \<Rightarrow> catalog_failure" where
  "unexpected_http status operation allowed =
     \<lparr>cf_kind = CfUnexpectedHttp, cf_http_status = Some status,
      cf_detail = operation @ '' returned HTTP '' @ show_word status @ ''; expected ''
        @ show_statuses allowed\<rparr>"

definition malformed :: "u16 \<Rightarrow> string \<Rightarrow> string \<Rightarrow> catalog_failure" where
  "malformed status operation detail =
     \<lparr>cf_kind = CfMalformedResponse, cf_http_status = Some status,
      cf_detail = operation @ '' response is invalid: '' @ detail\<rparr>"

definition request_error :: "catalog_failure \<Rightarrow> sanitized_request_error" where
  "request_error failure =
     SanitizedRequestError
       (case cf_kind failure of
          CfTimeout \<Rightarrow> Timeout
        | CfTransport \<Rightarrow> Transport
        | CfResponseRead \<Rightarrow> Transport
        | CfResponseTooLarge \<Rightarrow> ResponseTooLarge
        | CfUnexpectedHttp \<Rightarrow> UnexpectedHttp
        | CfMalformedResponse \<Rightarrow> MalformedResponse
        | CfHarness \<Rightarrow> Harness)
       (cf_http_status failure)"

definition catalog_failure_from :: "catalog_request_failure \<Rightarrow> catalog_failure" where
  "catalog_failure_from failure =
     \<lparr>cf_kind =
        (case crf_kind failure of
           RequestTimeout \<Rightarrow> CfTimeout
         | RequestTransport \<Rightarrow> CfTransport
         | RequestResponseRead \<Rightarrow> CfResponseRead
         | RequestResponseTooLarge \<Rightarrow> CfResponseTooLarge
         | RequestMalformedJson \<Rightarrow> CfMalformedResponse
         | RequestBodyNotRetained \<Rightarrow> CfHarness),
      cf_http_status = crf_http_status failure,
      cf_detail = crf_detail failure\<rparr>"

section \<open>The port\<close>

record 'w catalog_port =
  port_requested_location :: "string option"
  port_namespace_presence :: "'w \<Rightarrow> (catalog_failure + presence_observation) \<times> 'w"
  port_table_presence :: "'w \<Rightarrow> (catalog_failure + presence_observation) \<times> 'w"
  port_create_namespace :: "'w \<Rightarrow> (catalog_failure + mutation_receipt) \<times> 'w"
  port_create_table :: "'w \<Rightarrow> (catalog_failure + table_snapshot) \<times> 'w"
  port_load_table :: "'w \<Rightarrow> (catalog_failure + table_snapshot) \<times> 'w"
  port_commit :: "string \<Rightarrow> string \<Rightarrow> request_identity \<Rightarrow> 'w \<Rightarrow> request_outcome \<times> 'w"
  port_drop_table_without_purge :: "'w \<Rightarrow> (catalog_failure + mutation_receipt) \<times> 'w"
  port_drop_namespace :: "'w \<Rightarrow> (catalog_failure + mutation_receipt) \<times> 'w"

section \<open>Requests and responses\<close>

definition show_bool :: "bool \<Rightarrow> string" where
  "show_bool b = (if b then ''true'' else ''false'')"

text \<open>The objects are written with their keys in ascending order, as the map keeps them.\<close>

definition create_table_request :: "string \<Rightarrow> string option \<Rightarrow> json" where
  "create_table_request name location =
     JObject
       ((case location of None \<Rightarrow> [] | Some l \<Rightarrow> [(''location'', JString l)]) @
        [(''name'', JString name),
         (''properties'', JObject
            [(''catalog-bench.owner'', JString ''catalog-bench''),
             (''format-version'', JString ''2''),
             (''write.metadata.delete-after-commit.enabled'',
              JString (show_bool CONTENTION_METADATA_DELETE_AFTER_COMMIT)),
             (''write.metadata.previous-versions-max'',
              JString (show_word CONTENTION_METADATA_PREVIOUS_VERSIONS_MAX))]),
         (''schema'', JObject
            [(''fields'', JArray [JObject
               [(''id'', JNumber ''1''), (''name'', JString ''value''), (''required'', JBool False),
                (''type'', JString ''long'')]]),
             (''schema-id'', JNumber ''0''),
             (''type'', JString ''struct'')]),
         (''stage-create'', JBool False)])"

definition commit_request :: "string \<Rightarrow> string \<Rightarrow> string \<Rightarrow> json" where
  "commit_request table_uuid property request_identity_value =
     JObject
       [(''requirements'', JArray [JObject
           [(''type'', JString ''assert-table-uuid''), (''uuid'', JString table_uuid)]]),
        (''updates'', JArray [JObject
           [(''action'', JString ''set-properties''),
            (''updates'', JObject [(property, JString request_identity_value)])]])]"

record table_metadata =
  tm_format_version :: u8
  tm_table_uuid :: string
  tm_location :: string
  tm_properties :: string_map

record load_table_result =
  ltr_metadata_location :: "string option"
  ltr_metadata :: table_metadata

definition parse_snapshot ::
  "load_table_result \<Rightarrow> u16 \<Rightarrow> string \<Rightarrow> catalog_failure + table_snapshot" where
  "parse_snapshot response status operation =
     and_then
       (ok_or (case ltr_metadata_location response of
                 Some value \<Rightarrow> if is_blank value then None else Some value | None \<Rightarrow> None)
          (malformed status operation ''missing metadata-location'')) (\<lambda>metadata_location.
       let metadata = ltr_metadata response
       in if is_blank (tm_table_uuid metadata) \<or> is_blank (tm_location metadata) then
            Err (malformed status operation ''table UUID and location must be nonempty'')
          else if tm_format_version metadata \<noteq> 2 then
            Err (malformed status operation
                   (''format-version is '' @ show_word (tm_format_version metadata) @ '', expected 2''))
          else
            Ok \<lparr>ts_format_version = tm_format_version metadata,
                ts_table_uuid = tm_table_uuid metadata,
                ts_location = tm_location metadata,
                ts_metadata_location = metadata_location,
                ts_properties = tm_properties metadata\<rparr>)"

definition validate_created_snapshot ::
  "table_snapshot \<Rightarrow> u16 \<Rightarrow> string option \<Rightarrow> catalog_failure + unit" where
  "validate_created_snapshot snapshot status requested_location =
     (if is_some_and requested_location (\<lambda>location. ts_location snapshot \<noteq> location) then
        Err (malformed status ''create table''
               ''returned location differs from the requested shared-store location'')
      else Ok ())"

section \<open>A catalog over a session\<close>

record rest_catalog =
  rest_session :: catalog_session
  rest_create_table_location_root :: "url option"

definition rest_catalog_new ::
  "web_lib \<Rightarrow> catalog_session \<Rightarrow> string option \<Rightarrow> string + rest_catalog" where
  "rest_catalog_new lib session location_root =
     and_then
       (case location_root of
          None \<Rightarrow> Ok None
        | Some text \<Rightarrow>
            and_then (map_err (\<lambda>_. ''parse adapter create-table location root'') (wl_url_parse lib text))
              (\<lambda>u. Ok (Some u))) (\<lambda>parsed.
       if is_some_and parsed (wl_cannot_be_a_base lib) then
         Err ''adapter create-table location root cannot contain child table locations''
       else Ok \<lparr>rest_session = session, rest_create_table_location_root = parsed\<rparr>)"

definition table_location :: "web_lib \<Rightarrow> url \<Rightarrow> contention_fixture \<Rightarrow> string + string" where
  "table_location lib base fx =
     (if wl_cannot_be_a_base lib base then
        Err ''create-table location root cannot contain path segments''
      else
        Ok (wl_url_to_string lib
              (wl_push_segment lib (fixture_table fx)
                (wl_push_segment lib (fixture_namespace fx) (wl_pop_if_empty lib base)))))"

record rest_catalog_fixture =
  rcf_session :: catalog_session
  rcf_namespace :: string
  rcf_table :: string
  rcf_namespace_url :: url
  rcf_namespace_collection_url :: url
  rcf_table_collection_url :: url
  rcf_table_url :: url
  rcf_drop_table_url :: url
  rcf_requested_location :: "string option"

definition rest_bind ::
  "web_lib \<Rightarrow> rest_catalog \<Rightarrow> contention_fixture \<Rightarrow> string + rest_catalog_fixture" where
  "rest_bind lib rc fx =
     (let routes = ses_routes (rest_session rc)
      in and_then (namespace_single (fixture_namespace fx)) (\<lambda>ns.
         and_then (route_namespace lib routes ns) (\<lambda>namespace_url.
         and_then (route_table_collection lib routes ns) (\<lambda>table_collection_url.
         and_then (route_table lib routes ns (fixture_table fx)) (\<lambda>table_url.
         and_then (case rest_create_table_location_root rc of
                     None \<Rightarrow> Ok None
                   | Some base \<Rightarrow> and_then (table_location lib base fx) (\<lambda>l. Ok (Some l)))
           (\<lambda>requested_location.
         and_then (route_namespace_collection lib routes) (\<lambda>namespace_collection_url.
           Ok \<lparr>rcf_session = rest_session rc,
               rcf_namespace = fixture_namespace fx,
               rcf_table = fixture_table fx,
               rcf_namespace_url = namespace_url,
               rcf_namespace_collection_url = namespace_collection_url,
               rcf_table_collection_url = table_collection_url,
               rcf_table_url = table_url,
               rcf_drop_table_url = wl_append_pair lib ''purgeRequested'' ''false'' table_url,
               rcf_requested_location = requested_location\<rparr>)))))))"

definition rest_presence ::
  "'w http_client \<Rightarrow> rest_catalog_fixture \<Rightarrow> url \<Rightarrow> string \<Rightarrow> 'w
   \<Rightarrow> (catalog_failure + presence_observation) \<times> 'w" where
  "rest_presence client fx u operation w =
     (let (result, w1) = request_json client (rcf_session fx) GET u None CaptureDiscard w
      in (and_then (map_err catalog_failure_from result) (\<lambda>response.
            if cr_status response = 200 then
              Ok \<lparr>po_http_status = cr_status response, po_presence = Present\<rparr>
            else if cr_status response = 404 then
              Ok \<lparr>po_http_status = cr_status response, po_presence = Absent\<rparr>
            else Err (unexpected_http (cr_status response) operation [200, 404])), w1))"

definition rest_mutation ::
  "'w http_client \<Rightarrow> rest_catalog_fixture \<Rightarrow> http_method \<Rightarrow> url \<Rightarrow> json option \<Rightarrow> string \<Rightarrow> u16 list \<Rightarrow> 'w
   \<Rightarrow> (catalog_failure + mutation_receipt) \<times> 'w" where
  "rest_mutation client fx m u body operation allowed w =
     (let (result, w1) = request_json client (rcf_session fx) m u body CaptureDiscard w
      in (and_then (map_err catalog_failure_from result) (\<lambda>response.
            if cr_status response \<notin> set allowed then
              Err (unexpected_http (cr_status response) operation allowed)
            else Ok \<lparr>mr_http_status = cr_status response\<rparr>), w1))"

definition decode_snapshot ::
  "(string \<Rightarrow> string + load_table_result) \<Rightarrow> catalog_response \<Rightarrow> string
   \<Rightarrow> catalog_failure + table_snapshot" where
  "decode_snapshot decode response operation =
     and_then (map_err catalog_failure_from (catalog_response_json decode response)) (\<lambda>value.
       parse_snapshot value (cr_status response) operation)"

definition rest_create_table ::
  "(string \<Rightarrow> string + load_table_result) \<Rightarrow> 'w http_client \<Rightarrow> rest_catalog_fixture \<Rightarrow> 'w
   \<Rightarrow> (catalog_failure + table_snapshot) \<times> 'w" where
  "rest_create_table decode client fx w =
     (let (result, w1) = request_json client (rcf_session fx) POST (rcf_table_collection_url fx)
            (Some (create_table_request (rcf_table fx) (rcf_requested_location fx))) CaptureJson w
      in (and_then (map_err catalog_failure_from result) (\<lambda>response.
            if cr_status response \<notin> set [200, 201] then
              Err (unexpected_http (cr_status response) ''create table'' [200, 201])
            else
              and_then (decode_snapshot decode response ''create table'') (\<lambda>snapshot.
              and_then (validate_created_snapshot snapshot (cr_status response) (rcf_requested_location fx))
                (\<lambda>_. Ok snapshot))), w1))"

definition rest_load_table ::
  "(string \<Rightarrow> string + load_table_result) \<Rightarrow> 'w http_client \<Rightarrow> rest_catalog_fixture \<Rightarrow> 'w
   \<Rightarrow> (catalog_failure + table_snapshot) \<times> 'w" where
  "rest_load_table decode client fx w =
     (let (result, w1) = request_json client (rcf_session fx) GET (rcf_table_url fx) None CaptureJson w
      in (and_then (map_err catalog_failure_from result) (\<lambda>response.
            if cr_status response \<noteq> 200 then
              Err (unexpected_http (cr_status response) ''load table'' [200])
            else decode_snapshot decode response ''load table''), w1))"

definition rest_commit ::
  "'w http_client \<Rightarrow> rest_catalog_fixture \<Rightarrow> string \<Rightarrow> string \<Rightarrow> request_identity \<Rightarrow> 'w
   \<Rightarrow> request_outcome \<times> 'w" where
  "rest_commit client fx table_uuid property ident w =
     (let (result, w1) = request_json client (rcf_session fx) POST (rcf_table_url fx)
            (Some (commit_request table_uuid property ident)) CaptureDiscard w
      in (case result of
            Inr response \<Rightarrow>
              if cr_status response = 200 then Accepted
              else if cr_status response = 409 then Conflict
              else RequestError (SanitizedRequestError UnexpectedHttp (Some (cr_status response)))
          | Inl failure \<Rightarrow> RequestError (request_error (catalog_failure_from failure)), w1))"

definition create_namespace_request :: "string \<Rightarrow> json" where
  "create_namespace_request ns =
     JObject [(''namespace'', JArray [JString ns]), (''properties'', JObject [])]"

definition rest_port ::
  "(string \<Rightarrow> string + load_table_result) \<Rightarrow> 'w http_client \<Rightarrow> rest_catalog_fixture \<Rightarrow> 'w catalog_port" where
  "rest_port decode client fx =
     \<lparr>port_requested_location = rcf_requested_location fx,
      port_namespace_presence = rest_presence client fx (rcf_namespace_url fx) ''load namespace'',
      port_table_presence = rest_presence client fx (rcf_table_url fx) ''load table'',
      port_create_namespace = rest_mutation client fx POST (rcf_namespace_collection_url fx)
        (Some (create_namespace_request (rcf_namespace fx))) ''create namespace'' [200],
      port_create_table = rest_create_table decode client fx,
      port_load_table = rest_load_table decode client fx,
      port_commit = rest_commit client fx,
      port_drop_table_without_purge = rest_mutation client fx DELETE (rcf_drop_table_url fx) None
        ''drop table without purge'' [204, 404],
      port_drop_namespace = rest_mutation client fx DELETE (rcf_namespace_url fx) None
        ''drop namespace'' [204, 404]\<rparr>"

end
