(* ===== verification/Commit_Workflow.thy ===== *)
theory Commit_Workflow
  imports Commit_Protocol
begin

text \<open>
  One contention round (\<open>crates/commit/src/workflow.rs\<close>): preflight, setup, the two serial phases,
  the concurrent phase, the audit of the final state, the cleanup and the checks.

  Effects pass a world of type \<open>'w\<close> along. What the round reaches it through is the record
  \<open>round_env\<close>: the clock (an \<open>Instant\<close> is a number of nanoseconds, \<open>env_instant_max\<close> the last one
  that can be represented), the catalog port, the metadata store, the digest function and the
  location library. The writers of the concurrent phase are tasks: \<open>writer_advance\<close> takes one task
  from one point of suspension to the next, and the order in which the runtime resumes tasks and in
  which their results are joined is the parameter \<open>env_schedule\<close> and \<open>env_join_order\<close>. A schedule
  that does not bring every writer to its end is a phase that has not returned (\<open>None\<close>). The start
  channel is written before its sender is dropped and while every writer still waits for it, so its
  two error branches are not part of the model. \<open>usize\<close> is 64 bits wide.
\<close>

section \<open>Configuration\<close>

datatype workflow_error =
    InvalidConfiguration string
  | ModelFailure model_error
  | WriterStartChannelClosed
  | WriterTask string
  | SequenceOverflow
  | DeadlineOverflow

definition show_statistics_error :: "statistics_error \<Rightarrow> string" where
  "show_statistics_error e =
     (case e of
        EmptySamples \<Rightarrow> ''statistics require at least one sample''
      | NonFiniteSample index \<Rightarrow> ''sample '' @ show_nat index @ '' is not finite''
      | NegativeSample index \<Rightarrow> ''sample '' @ show_nat index @ '' is negative''
      | ZeroElapsed \<Rightarrow> ''throughput requires nonzero elapsed time'')"

definition show_model_error :: "model_error \<Rightarrow> string" where
  "show_model_error e =
     (case e of
        EmptyRequestIdentity \<Rightarrow> ''request identity must not be empty''
      | DuplicateRequestIdentity \<Rightarrow> ''request identity was reused within one phase''
      | CountOverflow \<Rightarrow> ''request accounting overflowed u64''
      | UnaccountedRequests \<Rightarrow> ''one or more requests were unaccounted''
      | Statistics error \<Rightarrow> show_statistics_error error)"

definition show_workflow_error :: "workflow_error \<Rightarrow> string" where
  "show_workflow_error e =
     (case e of
        InvalidConfiguration detail \<Rightarrow> detail
      | WriterTask detail \<Rightarrow> detail
      | ModelFailure error \<Rightarrow> show_model_error error
      | WriterStartChannelClosed \<Rightarrow> ''concurrent writer start channel closed''
      | SequenceOverflow \<Rightarrow> ''writer request sequence overflowed u64''
      | DeadlineOverflow \<Rightarrow> ''concurrent deadline overflowed'')"

record round_workload =
  wk_warmup_commits :: u64
  wk_sequential_commits :: u64
  wk_concurrent_writers :: u32
  wk_concurrent_duration_ms :: u64
  wk_commit_property :: string

definition round_workload_new ::
  "u64 \<Rightarrow> u64 \<Rightarrow> u32 \<Rightarrow> u64 \<Rightarrow> string \<Rightarrow> workflow_error + round_workload" where
  "round_workload_new warmup sequential writers duration_ms property =
     (if warmup = 0 \<or> sequential = 0 \<or> writers = 0 \<or> duration_ms = 0 \<or> is_blank property then
        Err (InvalidConfiguration
               ''round workload values must all be positive and the property must be nonempty'')
      else Ok \<lparr>wk_warmup_commits = warmup, wk_sequential_commits = sequential,
               wk_concurrent_writers = writers, wk_concurrent_duration_ms = duration_ms,
               wk_commit_property = property\<rparr>)"

definition workload_try_from :: "workload_policy \<Rightarrow> workflow_error + round_workload" where
  "workload_try_from policy =
     round_workload_new (warmup_commits policy) (sequential_commits policy)
       (concurrent_writers policy) (concurrent_duration_ms policy) (commit_property policy)"

record round_execution_config =
  cfg_catalog :: string
  cfg_repetition :: u32
  cfg_kind :: round_kind
  cfg_fixture :: contention_fixture
  cfg_workload :: round_workload
  cfg_object_store_bucket :: string

definition round_execution_config_new ::
  "string \<Rightarrow> u32 \<Rightarrow> round_kind \<Rightarrow> contention_fixture \<Rightarrow> round_workload \<Rightarrow> string
   \<Rightarrow> workflow_error + round_execution_config" where
  "round_execution_config_new catalog repetition kind fx wk bucket =
     (if is_blank catalog \<or> repetition = 0 \<or> is_blank bucket then
        Err (InvalidConfiguration
               ''catalog, repetition, and object-store bucket must identify the round'')
      else Ok \<lparr>cfg_catalog = catalog, cfg_repetition = repetition, cfg_kind = kind, cfg_fixture = fx,
               cfg_workload = wk, cfg_object_store_bucket = bucket\<rparr>)"

section \<open>Evidence\<close>

record round_descriptor =
  desc_catalog :: string
  desc_repetition :: u32
  desc_kind :: round_kind
  desc_fixture :: contention_fixture

datatype round_classification = RoundPass | RoundFail | FixtureCollision

datatype step_failure =
    CatalogStep catalog_failure
  | ObjectStoreStep object_store_failure
  | HarnessStep string

datatype 'a operation_evidence =
    Succeeded 'a
  | Failed step_failure
  | NotAttempted string

definition SKIPPED :: string where
  "SKIPPED = ''a required predecessor did not complete''"

definition skipped :: "'a operation_evidence" where
  "skipped = NotAttempted SKIPPED"

definition evidence_output :: "'a operation_evidence \<Rightarrow> 'a option" where
  "evidence_output e = (case e of Succeeded output \<Rightarrow> Some output | Failed _ \<Rightarrow> None | NotAttempted _ \<Rightarrow> None)"

definition evidence_passed :: "'a operation_evidence \<Rightarrow> bool" where
  "evidence_passed e = (case e of Succeeded _ \<Rightarrow> True | _ \<Rightarrow> False)"

definition catalog_evidence :: "catalog_failure + 'a \<Rightarrow> 'a operation_evidence" where
  "catalog_evidence result =
     (case result of Inr output \<Rightarrow> Succeeded output | Inl failure \<Rightarrow> Failed (CatalogStep failure))"

record setup_table_evidence =
  setup_format_version :: u8
  setup_table_uuid :: string
  setup_location :: string
  setup_metadata_location :: string
  setup_requested_location :: "string option"

definition setup_from_snapshot :: "table_snapshot \<Rightarrow> string option \<Rightarrow> setup_table_evidence" where
  "setup_from_snapshot snapshot requested =
     \<lparr>setup_format_version = ts_format_version snapshot,
      setup_table_uuid = ts_table_uuid snapshot,
      setup_location = ts_location snapshot,
      setup_metadata_location = ts_metadata_location snapshot,
      setup_requested_location = requested\<rparr>"

record final_table_evidence =
  final_format_version :: u8
  final_table_uuid :: string
  final_metadata_location :: string
  table_uuid_matches_setup :: bool
  table_location_matches_setup :: bool
  final_attribution :: final_state_attribution

definition final_table_passed :: "final_table_evidence \<Rightarrow> bool" where
  "final_table_passed e \<longleftrightarrow>
     final_format_version e = 2 \<and> table_uuid_matches_setup e \<and> table_location_matches_setup e
     \<and> attribution_passed (final_attribution e)"

record cleanup_evidence =
  cl_drop_table_without_purge :: "mutation_receipt operation_evidence"
  cl_verify_table_absent :: "presence_observation operation_evidence"
  cl_drop_namespace :: "mutation_receipt operation_evidence"
  cl_verify_namespace_absent :: "presence_observation operation_evidence"

definition cleanup_skipped :: cleanup_evidence where
  "cleanup_skipped =
     \<lparr>cl_drop_table_without_purge = skipped, cl_verify_table_absent = skipped,
      cl_drop_namespace = skipped, cl_verify_namespace_absent = skipped\<rparr>"

definition observed_absent :: "presence_observation operation_evidence \<Rightarrow> bool" where
  "observed_absent e = is_some_and (evidence_output e) (\<lambda>observation. po_presence observation = Absent)"

definition cleanup_passed :: "cleanup_evidence \<Rightarrow> bool" where
  "cleanup_passed c \<longleftrightarrow>
     evidence_passed (cl_drop_table_without_purge c) \<and> observed_absent (cl_verify_table_absent c)
     \<and> evidence_passed (cl_drop_namespace c) \<and> observed_absent (cl_verify_namespace_absent c)"

record round_checks =
  chk_fixture_isolated :: bool
  chk_setup_succeeded :: bool
  chk_warmup_accounted :: bool
  chk_sequential_accounted :: bool
  chk_sequential_latency_complete :: bool
  chk_all_requests_accounted :: bool
  chk_zero_request_errors :: bool
  chk_concurrent_progress :: bool
  chk_final_state_accounted :: bool
  chk_metadata_persisted :: bool
  chk_fixture_clean :: bool

definition checks_pending :: round_checks where
  "checks_pending =
     \<lparr>chk_fixture_isolated = False, chk_setup_succeeded = False, chk_warmup_accounted = False,
      chk_sequential_accounted = False, chk_sequential_latency_complete = False,
      chk_all_requests_accounted = False, chk_zero_request_errors = False,
      chk_concurrent_progress = False, chk_final_state_accounted = False,
      chk_metadata_persisted = False, chk_fixture_clean = False\<rparr>"

definition all_passed :: "round_checks \<Rightarrow> bool" where
  "all_passed c \<longleftrightarrow>
     chk_fixture_isolated c \<and> chk_setup_succeeded c \<and> chk_warmup_accounted c
     \<and> chk_sequential_accounted c \<and> chk_sequential_latency_complete c
     \<and> chk_all_requests_accounted c \<and> chk_zero_request_errors c \<and> chk_concurrent_progress c
     \<and> chk_final_state_accounted c \<and> chk_metadata_persisted c \<and> chk_fixture_clean c"

record round_execution =
  ex_descriptor :: round_descriptor
  ex_workload :: round_workload
  ex_classification :: round_classification
  ex_preflight :: "presence_observation operation_evidence"
  ex_create_namespace :: "mutation_receipt operation_evidence"
  ex_create_table :: "setup_table_evidence operation_evidence"
  ex_baseline_object_audit :: "object_audit_snapshot operation_evidence"
  ex_warmup :: "phase_evidence operation_evidence"
  ex_sequential :: "phase_evidence operation_evidence"
  ex_concurrent :: "phase_evidence operation_evidence"
  ex_final_table :: "final_table_evidence operation_evidence"
  ex_final_object_audit :: "object_audit_snapshot operation_evidence"
  ex_metadata_growth :: "metadata_growth_evidence operation_evidence"
  ex_cleanup :: cleanup_evidence
  ex_checks :: round_checks

definition execution_pending :: "round_execution_config \<Rightarrow> round_execution" where
  "execution_pending config =
     \<lparr>ex_descriptor = \<lparr>desc_catalog = cfg_catalog config, desc_repetition = cfg_repetition config,
        desc_kind = cfg_kind config, desc_fixture = cfg_fixture config\<rparr>,
      ex_workload = cfg_workload config,
      ex_classification = RoundFail,
      ex_preflight = skipped, ex_create_namespace = skipped, ex_create_table = skipped,
      ex_baseline_object_audit = skipped, ex_warmup = skipped, ex_sequential = skipped,
      ex_concurrent = skipped, ex_final_table = skipped, ex_final_object_audit = skipped,
      ex_metadata_growth = skipped, ex_cleanup = cleanup_skipped, ex_checks = checks_pending\<rparr>"

section \<open>Checks\<close>

definition serial_accounted :: "phase_evidence \<Rightarrow> u64 \<Rightarrow> bool" where
  "serial_accounted phase expected \<longleftrightarrow>
     counts phase = \<lparr>attempts = expected, accepted = expected, conflicts = 0, errors = 0\<rparr>
     \<and> fully_accounted (counts phase)"

definition latency_complete :: "phase_evidence \<Rightarrow> u64 \<Rightarrow> bool" where
  "latency_complete phase expected =
     (case lat_all (latency_ms phase) of
        None \<Rightarrow> False
      | Some d \<Rightarrow>
          (case (map_of (dist_quantiles d) ''p50'', map_of (dist_quantiles d) ''p95'',
                 map_of (dist_quantiles d) ''p99'') of
             (Some p50, Some p95, Some p99) \<Rightarrow>
               dist_samples d = expected
               \<and> is_finite (dist_minimum d) \<and> is_finite (dist_maximum d)
               \<and> is_finite p50 \<and> is_finite p95 \<and> is_finite p99
               \<and> f64_le (dist_minimum d) p50 \<and> f64_le p50 p95 \<and> f64_le p95 p99
               \<and> f64_le p99 (dist_maximum d)
           | _ \<Rightarrow> False))"

definition audit_usable :: "object_audit_snapshot \<Rightarrow> bool" where
  "audit_usable audit \<longleftrightarrow> 0 < audit_metadata_objects audit \<and> audit_referenced_metadata_exists audit"

definition all_latencies_counted :: "phase_evidence \<Rightarrow> bool" where
  "all_latencies_counted phase \<longleftrightarrow>
     fully_accounted (counts phase)
     \<and> (case lat_all (latency_ms phase) of None \<Rightarrow> 0 | Some d \<Rightarrow> dist_samples d) = attempts (counts phase)"

definition evaluate_checks :: "round_execution \<Rightarrow> round_checks" where
  "evaluate_checks ex =
     \<lparr>chk_fixture_isolated = observed_absent (ex_preflight ex),
      chk_setup_succeeded =
        (evidence_passed (ex_create_namespace ex) \<and> evidence_passed (ex_create_table ex)
         \<and> is_some_and (evidence_output (ex_baseline_object_audit ex)) audit_usable),
      chk_warmup_accounted =
        is_some_and (evidence_output (ex_warmup ex))
          (\<lambda>phase. serial_accounted phase (wk_warmup_commits (ex_workload ex))),
      chk_sequential_accounted =
        is_some_and (evidence_output (ex_sequential ex))
          (\<lambda>phase. serial_accounted phase (wk_sequential_commits (ex_workload ex))),
      chk_sequential_latency_complete =
        is_some_and (evidence_output (ex_sequential ex))
          (\<lambda>phase. latency_complete phase (wk_sequential_commits (ex_workload ex))),
      chk_all_requests_accounted =
        is_some_and (evidence_output (ex_concurrent ex)) all_latencies_counted,
      chk_zero_request_errors =
        is_some_and (evidence_output (ex_concurrent ex)) (\<lambda>phase. errors (counts phase) = 0),
      chk_concurrent_progress = is_some_and (evidence_output (ex_concurrent ex)) made_progress,
      chk_final_state_accounted = is_some_and (evidence_output (ex_final_table ex)) final_table_passed,
      chk_metadata_persisted =
        (is_some_and (evidence_output (ex_metadata_growth ex)) sufficient
         \<and> is_some_and (evidence_output (ex_final_object_audit ex)) audit_referenced_metadata_exists),
      chk_fixture_clean = cleanup_passed (ex_cleanup ex)\<rparr>"

definition finalize :: "round_execution \<Rightarrow> bool \<Rightarrow> round_execution" where
  "finalize ex fixture_collision =
     (let checks = evaluate_checks ex
      in ex\<lparr>ex_checks := checks,
            ex_classification :=
              (if fixture_collision then FixtureCollision
               else if all_passed checks then RoundPass else RoundFail)\<rparr>)"

definition execution_passed :: "round_execution \<Rightarrow> bool" where
  "execution_passed ex \<longleftrightarrow> ex_classification ex = RoundPass \<and> all_passed (ex_checks ex)"

section \<open>The environment of a round\<close>

type_synonym instant = nat

datatype schedule_event = Advance nat | Abort nat string

record 'w round_env =
  env_clock :: "'w \<Rightarrow> instant \<times> 'w"
  env_instant_max :: instant
  env_sha :: sha256
  env_lib :: location_lib
  env_port :: "'w catalog_port"
  env_audit :: "table_root \<Rightarrow> string \<Rightarrow> 'w \<Rightarrow> (object_store_failure + object_audit_snapshot) \<times> 'w"
  env_schedule :: "schedule_event list"
  env_join_order :: "nat list"

text \<open>
  \<open>Instant::elapsed\<close>, capped at the longest \<open>Duration\<close>, and \<open>Instant::checked_add\<close>.
\<close>

definition elapsed_since :: "instant \<Rightarrow> instant \<Rightarrow> duration" where
  "elapsed_since start now =
     (let nanos = min (now - start) (2 ^ 64 * 1000000000 - 1)
      in \<lparr>dur_secs = of_nat (nanos div 1000000000), dur_nanos = of_nat (nanos mod 1000000000)\<rparr>)"

definition instant_checked_add :: "instant \<Rightarrow> instant \<Rightarrow> u64 \<Rightarrow> instant option" where
  "instant_checked_add latest start millis =
     (if start + unat millis * 1000000 \<le> latest then Some (start + unat millis * 1000000) else None)"

section \<open>Request identities\<close>

definition identity_text ::
  "round_execution_config \<Rightarrow> string \<Rightarrow> u32 option \<Rightarrow> nat \<Rightarrow> string" where
  "identity_text config phase writer sequence =
     cfg_catalog config @ ''/'' @ fixture_id (cfg_fixture config) @ ''/'' @ show_word (cfg_repetition config)
     @ ''/'' @ phase @ (case writer of None \<Rightarrow> [] | Some i \<Rightarrow> ''/'' @ show_word i)
     @ ''/'' @ show_nat sequence"

definition request_identity ::
  "round_execution_config \<Rightarrow> string \<Rightarrow> u32 option \<Rightarrow> nat \<Rightarrow> workflow_error + request_identity" where
  "request_identity config phase writer sequence =
     map_err ModelFailure (request_identity_new (identity_text config phase writer sequence))"

section \<open>Serial phases\<close>

fun serial_requests ::
  "'w round_env \<Rightarrow> round_execution_config \<Rightarrow> string \<Rightarrow> string \<Rightarrow> nat list \<Rightarrow> request_ledger \<Rightarrow> 'w
   \<Rightarrow> (workflow_error + request_ledger) \<times> 'w" where
  "serial_requests env config phase table_uuid [] ledger w = (Ok ledger, w)"
| "serial_requests env config phase table_uuid (sequence # rest) ledger w =
     (case request_identity config phase None sequence of
        Inl e \<Rightarrow> (Err e, w)
      | Inr ident \<Rightarrow>
          (let (started, w1) = env_clock env w;
               (outcome, w2) = port_commit (env_port env) table_uuid
                 (wk_commit_property (cfg_workload config)) ident w1;
               (now, w3) = env_clock env w2
           in case ledger_record (env_sha env) ledger ident (elapsed_since started now) outcome of
                (Inl e, _) \<Rightarrow> (Err (ModelFailure e), w3)
              | (Inr _, ledger') \<Rightarrow> serial_requests env config phase table_uuid rest ledger' w3))"

definition run_serial_phase ::
  "'w round_env \<Rightarrow> round_execution_config \<Rightarrow> string \<Rightarrow> u64 \<Rightarrow> string \<Rightarrow> 'w
   \<Rightarrow> (workflow_error + phase_evidence \<times> accepted_requests) \<times> 'w" where
  "run_serial_phase env config phase n table_uuid w =
     (let (started, w1) = env_clock env w
      in case serial_requests env config phase table_uuid [0..<unat n] ledger_default w1 of
           (Inl e, w2) \<Rightarrow> (Err e, w2)
         | (Inr ledger, w2) \<Rightarrow>
             (let (now, w3) = env_clock env w2
              in (map_err ModelFailure (ledger_finish ledger (elapsed_since started now)), w3)))"

section \<open>Concurrent writers\<close>

datatype writer_status =
    Ready
  | InFlight request_identity instant
  | Returned "workflow_error + request_ledger"
  | Aborted string

record writer =
  wr_index :: u32
  wr_ledger :: request_ledger
  wr_sequence :: u64
  wr_status :: writer_status

definition writer_start :: "nat \<Rightarrow> writer" where
  "writer_start i =
     \<lparr>wr_index = of_nat i, wr_ledger = ledger_default, wr_sequence = 0, wr_status = Ready\<rparr>"

definition writer_done :: "writer \<Rightarrow> bool" where
  "writer_done x = (case wr_status x of Returned _ \<Rightarrow> True | Aborted _ \<Rightarrow> True | _ \<Rightarrow> False)"

text \<open>
  One step of a task, from one point of suspension to the next: the top of the loop up to the call
  of \<open>commit\<close>, or the return of that call up to the top of the loop.
\<close>

definition writer_advance ::
  "'w round_env \<Rightarrow> round_execution_config \<Rightarrow> string \<Rightarrow> instant \<Rightarrow> writer \<Rightarrow> 'w \<Rightarrow> writer \<times> 'w" where
  "writer_advance env config table_uuid deadline x w =
     (case wr_status x of
        Ready \<Rightarrow>
          (case request_identity config ''concurrent'' (Some (wr_index x)) (unat (wr_sequence x)) of
             Inl e \<Rightarrow> (x\<lparr>wr_status := Returned (Err e)\<rparr>, w)
           | Inr ident \<Rightarrow>
               (let (started, w1) = env_clock env w
                in if deadline \<le> started then (x\<lparr>wr_status := Returned (Ok (wr_ledger x))\<rparr>, w1)
                   else (x\<lparr>wr_status := InFlight ident started\<rparr>, w1)))
      | InFlight ident started \<Rightarrow>
          (let (outcome, w1) = port_commit (env_port env) table_uuid
                 (wk_commit_property (cfg_workload config)) ident w;
               (now, w2) = env_clock env w1
           in case ledger_record (env_sha env) (wr_ledger x) ident (elapsed_since started now) outcome of
                (Inl e, ledger) \<Rightarrow>
                  (x\<lparr>wr_ledger := ledger, wr_status := Returned (Err (ModelFailure e))\<rparr>, w2)
              | (Inr _, ledger) \<Rightarrow>
                  (case checked_add (wr_sequence x) 1 of
                     None \<Rightarrow> (x\<lparr>wr_ledger := ledger, wr_status := Returned (Err SequenceOverflow)\<rparr>, w2)
                   | Some sequence \<Rightarrow>
                       (x\<lparr>wr_ledger := ledger, wr_sequence := sequence, wr_status := Ready\<rparr>, w2)))
      | Returned _ \<Rightarrow> (x, w)
      | Aborted _ \<Rightarrow> (x, w))"

fun schedule_step ::
  "'w round_env \<Rightarrow> round_execution_config \<Rightarrow> string \<Rightarrow> instant \<Rightarrow> schedule_event
   \<Rightarrow> writer list \<times> 'w \<Rightarrow> writer list \<times> 'w" where
  "schedule_step env config table_uuid deadline (Advance i) (xs, w) =
     (if i < length xs then
        let (x, w1) = writer_advance env config table_uuid deadline (xs ! i) w in (xs[i := x], w1)
      else (xs, w))"
| "schedule_step env config table_uuid deadline (Abort i detail) (xs, w) =
     (if i < length xs \<and> \<not> writer_done (xs ! i) then (xs[i := (xs ! i)\<lparr>wr_status := Aborted detail\<rparr>], w)
      else (xs, w))"

definition run_writers ::
  "'w round_env \<Rightarrow> round_execution_config \<Rightarrow> string \<Rightarrow> instant \<Rightarrow> writer list \<times> 'w \<Rightarrow> writer list \<times> 'w" where
  "run_writers env config table_uuid deadline state =
     fold (schedule_step env config table_uuid deadline) (env_schedule env) state"

text \<open>The loop over \<open>join_next\<close>: every ledger is merged and the first error is kept.\<close>

definition get_or_insert :: "workflow_error option \<Rightarrow> workflow_error \<Rightarrow> workflow_error option" where
  "get_or_insert first e = (case first of None \<Rightarrow> Some e | Some f \<Rightarrow> Some f)"

definition join_writer ::
  "writer_status \<Rightarrow> request_ledger \<times> workflow_error option \<Rightarrow> request_ledger \<times> workflow_error option" where
  "join_writer status state =
     (case state of (merged, first_error) \<Rightarrow>
        (case status of
           Returned (Inr ledger) \<Rightarrow>
             (case ledger_try_merge merged ledger of
                (Inl e, merged') \<Rightarrow> (merged', get_or_insert first_error (ModelFailure e))
              | (Inr _, merged') \<Rightarrow> (merged', first_error))
         | Returned (Inl e) \<Rightarrow> (merged, get_or_insert first_error e)
         | Aborted detail \<Rightarrow>
             (merged, get_or_insert first_error
                (WriterTask (''concurrent writer task failed: '' @ detail)))
         | _ \<Rightarrow> state))"

definition join_writers :: "writer_status list \<Rightarrow> request_ledger \<times> workflow_error option" where
  "join_writers statuses = fold join_writer statuses (ledger_default, None)"

definition run_concurrent_phase ::
  "'w round_env \<Rightarrow> round_execution_config \<Rightarrow> string \<Rightarrow> 'w
   \<Rightarrow> ((workflow_error + phase_evidence \<times> accepted_requests) \<times> 'w) option" where
  "run_concurrent_phase env config table_uuid w =
     (case try_from_nat (unat (wk_concurrent_writers (cfg_workload config))) :: u64 option of
        None \<Rightarrow> Some (Err (InvalidConfiguration ''writer count does not fit this runner''), w)
      | Some writer_count \<Rightarrow>
          if checked_add writer_count 1 = None then
            Some (Err (InvalidConfiguration ''writer participant count overflowed usize''), w)
          else
            (let (started, w1) = env_clock env w
             in case instant_checked_add (env_instant_max env) started
                       (wk_concurrent_duration_ms (cfg_workload config)) of
                  None \<Rightarrow> Some (Err DeadlineOverflow, w1)
                | Some deadline \<Rightarrow>
                    (let (xs, w2) = run_writers env config table_uuid deadline
                           (map writer_start [0..<unat writer_count], w1)
                     in if \<not> list_all writer_done xs
                           \<or> mset (env_join_order env) \<noteq> mset [0..<length xs] then None
                        else
                          (case join_writers (map (\<lambda>i. wr_status (xs ! i)) (env_join_order env)) of
                             (_, Some e) \<Rightarrow> Some (Err e, w2)
                           | (merged, None) \<Rightarrow>
                               (let (now, w3) = env_clock env w2
                                in Some (map_err ModelFailure
                                     (ledger_finish merged (elapsed_since started now)), w3))))))"

section \<open>Recording and cleanup\<close>

text \<open>The evidence of a phase, the extended set of accepted requests, and whether to go on.\<close>

definition record_phase ::
  "accepted_requests \<Rightarrow> workflow_error + phase_evidence \<times> accepted_requests
   \<Rightarrow> phase_evidence operation_evidence \<times> accepted_requests \<times> bool" where
  "record_phase acc result =
     (case result of
        Inr (phase, phase_accepted) \<Rightarrow>
          (case accepted_try_extend acc phase_accepted of
             (Inr _, acc') \<Rightarrow> (Succeeded phase, acc', True)
           | (Inl e, acc') \<Rightarrow> (Failed (HarnessStep (show_model_error e)), acc', False))
      | Inl e \<Rightarrow> (Failed (HarnessStep (show_workflow_error e)), acc, False))"

definition cleanup :: "'w catalog_port \<Rightarrow> 'w \<Rightarrow> cleanup_evidence \<times> 'w" where
  "cleanup port w =
     (let (dropped, w1) = port_drop_table_without_purge port w;
          (table, w2) = port_table_presence port w1;
          (dropped_namespace, w3) = port_drop_namespace port w2;
          (ns, w4) = port_namespace_presence port w3
      in (\<lparr>cl_drop_table_without_purge = catalog_evidence dropped,
           cl_verify_table_absent = catalog_evidence table,
           cl_drop_namespace = catalog_evidence dropped_namespace,
           cl_verify_namespace_absent = catalog_evidence ns\<rparr>, w4))"

text \<open>\<open>execution.cleanup = cleanup(&catalog).await; execution.finalize(false); return Ok(execution)\<close>.\<close>

definition clean_and_finish ::
  "'w catalog_port \<Rightarrow> round_execution \<Rightarrow> 'w \<Rightarrow> ((workflow_error + round_execution) \<times> 'w) option" where
  "clean_and_finish port ex w =
     (let (evidence, w1) = cleanup port w
      in Some (Ok (finalize (ex\<lparr>ex_cleanup := evidence\<rparr>) False), w1))"

section \<open>A round\<close>

definition growth_of_phases ::
  "u64 \<Rightarrow> round_execution \<Rightarrow> metadata_growth_evidence operation_evidence" where
  "growth_of_phases baseline ex =
     (case (evidence_output (ex_warmup ex), evidence_output (ex_sequential ex),
            evidence_output (ex_concurrent ex), evidence_output (ex_final_object_audit ex)) of
        (Some warmup, Some sequential, Some concurrent, Some final_audit) \<Rightarrow>
          (case growth_evaluate baseline (audit_metadata_objects final_audit)
                  [counts warmup, counts sequential, counts concurrent] of
             Inr growth \<Rightarrow> Succeeded growth
           | Inl error \<Rightarrow> Failed (HarnessStep (show_model_error error)))
      | _ \<Rightarrow> ex_metadata_growth ex)"

definition final_table_of ::
  "'w round_env \<Rightarrow> round_execution_config \<Rightarrow> table_snapshot \<Rightarrow> table_root \<Rightarrow> accepted_requests
   \<Rightarrow> table_snapshot \<Rightarrow> final_table_evidence" where
  "final_table_of env config created tr acc snapshot =
     \<lparr>final_format_version = ts_format_version snapshot,
      final_table_uuid = ts_table_uuid snapshot,
      final_metadata_location = ts_metadata_location snapshot,
      table_uuid_matches_setup = (ts_table_uuid snapshot = ts_table_uuid created),
      table_location_matches_setup = (ts_location snapshot = ts_location created),
      final_attribution = attribution_evaluate (env_sha env)
        (map_of (ts_properties snapshot) (wk_commit_property (cfg_workload config))) acc
        (contains_metadata_location (env_lib env) tr (ts_metadata_location snapshot))\<rparr>"

text \<open>From the load of the final table to the end of the round.\<close>

definition final_stage ::
  "'w round_env \<Rightarrow> round_execution_config \<Rightarrow> table_snapshot \<Rightarrow> table_root \<Rightarrow> u64 \<Rightarrow> accepted_requests
   \<Rightarrow> round_execution \<Rightarrow> 'w \<Rightarrow> ((workflow_error + round_execution) \<times> 'w) option" where
  "final_stage env config created tr baseline acc ex w =
     (case port_load_table (env_port env) w of
        (Inl failure, w1) \<Rightarrow>
          clean_and_finish (env_port env) (ex\<lparr>ex_final_table := Failed (CatalogStep failure)\<rparr>) w1
      | (Inr snapshot, w1) \<Rightarrow>
          (let ex1 = ex\<lparr>ex_final_table := Succeeded (final_table_of env config created tr acc snapshot)\<rparr>;
               (audit, w2) = env_audit env tr (ts_metadata_location snapshot) w1;
               ex2 = ex1\<lparr>ex_final_object_audit :=
                 (case audit of Inr a \<Rightarrow> Succeeded a | Inl failure \<Rightarrow> Failed (ObjectStoreStep failure))\<rparr>;
               ex3 = ex2\<lparr>ex_metadata_growth := growth_of_phases baseline ex2\<rparr>
           in clean_and_finish (env_port env) ex3 w2))"

text \<open>The three measured phases in their order; a phase that is not recorded ends the round.\<close>

definition phase_stages ::
  "'w round_env \<Rightarrow> round_execution_config \<Rightarrow> table_snapshot \<Rightarrow> table_root \<Rightarrow> u64
   \<Rightarrow> round_execution \<Rightarrow> 'w \<Rightarrow> ((workflow_error + round_execution) \<times> 'w) option" where
  "phase_stages env config created tr baseline ex w =
     (let (warmup, w1) = run_serial_phase env config ''warmup''
            (wk_warmup_commits (cfg_workload config)) (ts_table_uuid created) w;
          (warmup_evidence, acc1, go1) = record_phase {} warmup;
          ex1 = ex\<lparr>ex_warmup := warmup_evidence\<rparr>
      in if \<not> go1 then clean_and_finish (env_port env) ex1 w1
         else
           (let (sequential, w2) = run_serial_phase env config ''sequential''
                  (wk_sequential_commits (cfg_workload config)) (ts_table_uuid created) w1;
                (sequential_evidence, acc2, go2) = record_phase acc1 sequential;
                ex2 = ex1\<lparr>ex_sequential := sequential_evidence\<rparr>
            in if \<not> go2 then clean_and_finish (env_port env) ex2 w2
               else
                 (case run_concurrent_phase env config (ts_table_uuid created) w2 of
                    None \<Rightarrow> None
                  | Some (concurrent, w3) \<Rightarrow>
                      (let (concurrent_evidence, acc3, go3) = record_phase acc2 concurrent;
                           ex3 = ex2\<lparr>ex_concurrent := concurrent_evidence\<rparr>
                       in if \<not> go3 then clean_and_finish (env_port env) ex3 w3
                          else final_stage env config created tr baseline acc3 ex3 w3))))"

text \<open>From the created table to its baseline audit.\<close>

definition baseline_stage ::
  "'w round_env \<Rightarrow> round_execution_config \<Rightarrow> table_snapshot \<Rightarrow> round_execution \<Rightarrow> 'w
   \<Rightarrow> ((workflow_error + round_execution) \<times> 'w) option" where
  "baseline_stage env config created ex w =
     (case table_root_new (env_lib env) (ts_location created) (ts_metadata_location created)
             (cfg_object_store_bucket config) of
        Inl failure \<Rightarrow>
          clean_and_finish (env_port env)
            (ex\<lparr>ex_baseline_object_audit := Failed (ObjectStoreStep failure)\<rparr>) w
      | Inr tr \<Rightarrow>
          (case env_audit env tr (ts_metadata_location created) w of
             (Inl failure, w1) \<Rightarrow>
               clean_and_finish (env_port env)
                 (ex\<lparr>ex_baseline_object_audit := Failed (ObjectStoreStep failure)\<rparr>) w1
           | (Inr audit, w1) \<Rightarrow>
               (let ex1 = ex\<lparr>ex_baseline_object_audit := Succeeded audit\<rparr>
                in if \<not> audit_usable audit then clean_and_finish (env_port env) ex1 w1
                   else phase_stages env config created tr (audit_metadata_objects audit) ex1 w1)))"

definition run_contention_round ::
  "'w round_env \<Rightarrow> round_execution_config \<Rightarrow> 'w \<Rightarrow> ((workflow_error + round_execution) \<times> 'w) option" where
  "run_contention_round env config w =
     (let ex = execution_pending config
      in case port_namespace_presence (env_port env) w of
           (Inl failure, w1) \<Rightarrow>
             Some (Ok (finalize (ex\<lparr>ex_preflight := Failed (CatalogStep failure)\<rparr>) False), w1)
         | (Inr observation, w1) \<Rightarrow>
             (let ex1 = ex\<lparr>ex_preflight := Succeeded observation\<rparr>
              in if po_presence observation = Present then Some (Ok (finalize ex1 True), w1)
                 else case port_create_namespace (env_port env) w1 of
                   (Inl failure, w2) \<Rightarrow>
                     clean_and_finish (env_port env)
                       (ex1\<lparr>ex_create_namespace := Failed (CatalogStep failure)\<rparr>) w2
                 | (Inr receipt, w2) \<Rightarrow>
                     (let ex2 = ex1\<lparr>ex_create_namespace := Succeeded receipt\<rparr>
                      in case port_create_table (env_port env) w2 of
                           (Inl failure, w3) \<Rightarrow>
                             clean_and_finish (env_port env)
                               (ex2\<lparr>ex_create_table := Failed (CatalogStep failure)\<rparr>) w3
                         | (Inr created, w3) \<Rightarrow>
                             baseline_stage env config created
                               (ex2\<lparr>ex_create_table := Succeeded
                                  (setup_from_snapshot created (port_requested_location (env_port env)))\<rparr>)
                               w3)))"

end
