(* ===== verification/Commit_Trace.thy ===== *)
theory Commit_Trace
  imports Commit_Workflow
begin

text \<open>
  What a contention round does to the catalog. Every environment can be observed: its world is paired
  with the list of catalog calls made so far. The observed round is the round of the source run in
  that environment; the theorems relate the evidence it returns to the calls it made.
\<close>

section \<open>Observing the calls\<close>

datatype catalog_call =
    CallNamespacePresence
  | CallTablePresence
  | CallCreateNamespace
  | CallCreateTable
  | CallLoadTable
  | CallCommit request_identity request_outcome
  | CallDropTable
  | CallDropNamespace

type_synonym 'w traced = "'w \<times> catalog_call list"

definition observe :: "catalog_call \<Rightarrow> ('w \<Rightarrow> 'a \<times> 'w) \<Rightarrow> 'w traced \<Rightarrow> 'a \<times> 'w traced" where
  "observe call f s = (let (r, w) = f (fst s) in (r, (w, snd s @ [call])))"

definition unobserved :: "('w \<Rightarrow> 'a \<times> 'w) \<Rightarrow> 'w traced \<Rightarrow> 'a \<times> 'w traced" where
  "unobserved f s = (let (r, w) = f (fst s) in (r, (w, snd s)))"

definition traced_port :: "'w catalog_port \<Rightarrow> 'w traced catalog_port" where
  "traced_port port =
     \<lparr>port_requested_location = port_requested_location port,
      port_namespace_presence = observe CallNamespacePresence (port_namespace_presence port),
      port_table_presence = observe CallTablePresence (port_table_presence port),
      port_create_namespace = observe CallCreateNamespace (port_create_namespace port),
      port_create_table = observe CallCreateTable (port_create_table port),
      port_load_table = observe CallLoadTable (port_load_table port),
      port_commit = (\<lambda>uuid property ident s.
        let (out, w) = port_commit port uuid property ident (fst s)
        in (out, (w, snd s @ [CallCommit ident out]))),
      port_drop_table_without_purge = observe CallDropTable (port_drop_table_without_purge port),
      port_drop_namespace = observe CallDropNamespace (port_drop_namespace port)\<rparr>"

definition traced_env :: "'w round_env \<Rightarrow> 'w traced round_env" where
  "traced_env env =
     \<lparr>env_clock = unobserved (env_clock env),
      env_instant_max = env_instant_max env,
      env_sha = env_sha env,
      env_lib = env_lib env,
      env_port = traced_port (env_port env),
      env_audit = (\<lambda>tr location. unobserved (env_audit env tr location)),
      env_schedule = env_schedule env,
      env_join_order = env_join_order env\<rparr>"

lemma observe_eq:
  "observe call f s = (r, s') \<longleftrightarrow> (\<exists>w. f (fst s) = (r, w) \<and> s' = (w, snd s @ [call]))"
  by (auto simp: observe_def split: prod.splits)

lemma unobserved_eq: "unobserved f s = (r, s') \<longleftrightarrow> (\<exists>w. f (fst s) = (r, w) \<and> s' = (w, snd s))"
  by (auto simp: unobserved_def split: prod.splits)

lemma snd_observe [simp]: "snd (snd (observe call f s)) = snd s @ [call]"
  by (simp add: observe_def split: prod.splits)

lemma snd_unobserved [simp]: "snd (snd (unobserved f s)) = snd s"
  by (simp add: unobserved_def split: prod.splits)

lemma traced_env_simps [simp]:
  "env_sha (traced_env env) = env_sha env"
  "env_lib (traced_env env) = env_lib env"
  "env_schedule (traced_env env) = env_schedule env"
  "env_join_order (traced_env env) = env_join_order env"
  "env_instant_max (traced_env env) = env_instant_max env"
  "env_clock (traced_env env) = unobserved (env_clock env)"
  "env_port (traced_env env) = traced_port (env_port env)"
  "env_audit (traced_env env) tr location = unobserved (env_audit env tr location)"
  by (simp_all add: traced_env_def)

text \<open>The commits of a list of calls, as the identity and the outcome of each.\<close>

fun commits :: "catalog_call list \<Rightarrow> (request_identity \<times> request_outcome) list" where
  "commits [] = []"
| "commits (CallCommit ident out # calls) = (ident, out) # commits calls"
| "commits (_ # calls) = commits calls"

lemma commits_append [simp]: "commits (xs @ ys) = commits xs @ commits ys"
  by (induction xs rule: commits.induct) auto

definition is_commit :: "catalog_call \<Rightarrow> bool" where
  "is_commit c = (case c of CallCommit _ _ \<Rightarrow> True | _ \<Rightarrow> False)"

lemma is_commit_CallCommit [simp]: "is_commit (CallCommit i out)"
  by (simp add: is_commit_def)

lemma traced_commit:
  "port_commit (traced_port port) uuid property ident s = (out, s') \<longleftrightarrow>
     (\<exists>w. port_commit port uuid property ident (fst s) = (out, w)
        \<and> s' = (w, snd s @ [CallCommit ident out]))"
  by (auto simp: traced_port_def Let_def split: prod.splits)

section \<open>Ledgers that answered\<close>

lemma represents_admits:
  assumes "represents sha l es"
  shows "admits sha es"
proof -
  have "log_error_count es e < 2 ^ 64" for e
  proof -
    let ?n = "unwrap_or_default (btree_get (led_error_counts l) e)"
    have "log_error_count es e = unat ?n" using assms by (simp add: represents_def)
    then show ?thesis using unsigned_less [of ?n, where 'a = nat] by simp
  qed
  with assms show ?thesis by (simp add: represents_def admits_def)
qed

lemma record_Inr:
  assumes rep: "represents sha l es" and rec: "ledger_record sha l i t out = (Inr u, l')"
  shows "represents sha l' (es @ [(i, t, out)])"
proof -
  have new: "identity_digest sha i \<notin> seen_requests l"
    using rec by (auto simp: ledger_record_def)
  have "log_error_count es e + 1 < 2 ^ 64" if out: "out = RequestError e" for e
  proof -
    let ?old = "unwrap_or_default (btree_get (led_error_counts l) e)"
    have "checked_add ?old 1 \<noteq> None"
      using rec new by (auto simp: ledger_record_def out Let_def split: option.splits)
    then have "unat ?old + 1 < 2 ^ 64" by (auto simp: checked_add_def split: if_splits)
    then show ?thesis using rep by (simp add: represents_def)
  qed
  moreover have "log_error_count es e < 2 ^ 64" for e
    using represents_admits [OF rep] by (simp add: admits_def)
  ultimately have "admits sha (es @ [(i, t, out)])"
    using rep new by (auto simp: admits_def represents_def ledger_simps)
  from record_represents [OF rep this] rec show ?thesis by auto
qed

lemma merge_Inr:
  assumes "represents sha l es" "represents sha m fs" "ledger_try_merge l m = (Inr u, l')"
  shows "represents sha l' (es @ fs)"
proof -
  have "admits sha (es @ fs)" using merge_refused [OF assms(1,2)] assms(3) by force
  from merge_represents [OF assms(1,2) this] assms(3) show ?thesis by auto
qed

lemma count_samples_Inr: "count_samples xs = Inr n \<Longrightarrow> unat n = length xs"
  by (auto simp: count_samples_def try_from_nat_eq_Some)

lemma finish_Inr:
  assumes "represents sha l es" and "ledger_finish l elapsed = Inr (p, acc)"
  shows "unat (attempts (counts p)) = length es"
    and "unat (accepted (counts p)) = length (log_latencies (\<lambda>out. out = Accepted) es)"
    and "unat (conflicts (counts p)) = length (log_latencies (\<lambda>out. out = Conflict) es)"
    and "unat (errors (counts p)) = length (log_latencies is_error es)"
    and "acc = log_accepted sha es"
  using assms
  by (auto simp: ledger_finish_def ledger_counts_def and_then_eq_Inr represents_def log_latencies_split
      split: if_splits dest!: count_samples_Inr)

text \<open>What the log of a phase shows of its requests, without the latencies.\<close>

definition log_calls :: "log_entry list \<Rightarrow> (request_identity \<times> request_outcome) list" where
  "log_calls es = map (\<lambda>(i, t, out). (i, out)) es"

lemma log_calls_simps [simp]:
  "log_calls [] = []" "log_calls (es @ fs) = log_calls es @ log_calls fs"
  "log_calls ((i, t, out) # es) = (i, out) # log_calls es"
  by (simp_all add: log_calls_def)

definition outcomes :: "(request_outcome \<Rightarrow> bool) \<Rightarrow> (request_identity \<times> request_outcome) list \<Rightarrow> nat" where
  "outcomes p cs = length (filter (\<lambda>(i, out). p out) cs)"

definition accepted_digests :: "sha256 \<Rightarrow> (request_identity \<times> request_outcome) list \<Rightarrow> request_digest set" where
  "accepted_digests sha cs = identity_digest sha ` fst ` set (filter (\<lambda>(i, out). out = Accepted) cs)"

lemma log_latencies_outcomes: "length (log_latencies p es) = outcomes p (log_calls es)"
  by (induction es) (auto simp: log_latencies_def outcomes_def log_calls_def)

lemma log_accepted_digests: "log_accepted sha es = accepted_digests sha (log_calls es)"
  by (induction es) (auto simp: log_accepted_def log_digests_def accepted_digests_def log_calls_def)

text \<open>Evidence that accounts for exactly the requests of a list, whatever their order.\<close>

definition accounts_for ::
  "sha256 \<Rightarrow> phase_evidence \<Rightarrow> accepted_requests \<Rightarrow> (request_identity \<times> request_outcome) list \<Rightarrow> bool" where
  "accounts_for sha p acc cs \<longleftrightarrow>
     unat (attempts (counts p)) = length cs
     \<and> unat (accepted (counts p)) = outcomes (\<lambda>out. out = Accepted) cs
     \<and> unat (conflicts (counts p)) = outcomes (\<lambda>out. out = Conflict) cs
     \<and> unat (errors (counts p)) = outcomes is_error cs
     \<and> acc = accepted_digests sha cs"

lemma outcomes_mset: "mset cs = mset ds \<Longrightarrow> outcomes p cs = outcomes p ds"
  unfolding outcomes_def by (metis mset_filter size_mset)

lemma accounts_for_finish:
  assumes "represents sha l es" and "ledger_finish l elapsed = Inr (p, acc)"
    and "mset (log_calls es) = mset cs"
  shows "accounts_for sha p acc cs"
proof -
  have "length es = length cs"
    using assms(3) by (metis length_map log_calls_def size_mset)
  moreover have "accepted_digests sha (log_calls es) = accepted_digests sha cs"
    unfolding accepted_digests_def using assms(3) by (metis mset_filter set_mset_mset)
  ultimately show ?thesis
    using finish_Inr [OF assms(1,2)] outcomes_mset [OF assms(3)]
    by (simp add: accounts_for_def log_latencies_outcomes log_accepted_digests)
qed

section \<open>Serial phases\<close>

definition only_commits :: "'w traced \<Rightarrow> 'w traced \<Rightarrow> bool" where
  "only_commits s s' \<longleftrightarrow> (\<exists>cs. snd s' = snd s @ cs \<and> list_all is_commit cs)"

lemma only_commits_refl [simp]: "only_commits s s"
  by (simp add: only_commits_def)

lemma only_commits_same: "snd s' = snd s \<Longrightarrow> only_commits s s'"
  by (simp add: only_commits_def)

lemma only_commits_trans: "only_commits a b \<Longrightarrow> only_commits b c \<Longrightarrow> only_commits a c"
  by (force simp: only_commits_def)

lemma request_identity_Inr:
  "request_identity config phase x n = Inr ident \<Longrightarrow> ident = identity_text config phase x n"
  by (auto simp: request_identity_def request_identity_new_def split: if_splits)

lemma request_identity_Ok [simp]:
  "request_identity config phase x n = Inr (identity_text config phase x n)"
  by (simp add: request_identity_def request_identity_new_def identity_text_def)

lemma serial_requests_trace:
  assumes "serial_requests (traced_env env) config phase uuid ns l s = (r, s')"
  shows "only_commits s s'"
  using assms
proof (induction ns arbitrary: l s)
  case (Cons n ns)
  let ?ident = "identity_text config phase None n"
  obtain t w1 where t: "env_clock env (fst s) = (t, w1)" by force
  obtain out w2 where out: "port_commit (env_port env) uuid
      (wk_commit_property (cfg_workload config)) ?ident w1 = (out, w2)" by force
  obtain now w3 where now: "env_clock env w2 = (now, w3)" by force
  let ?s3 = "(w3, snd s @ [CallCommit ?ident out])"
  have one: "only_commits s ?s3" by (simp add: only_commits_def)
  show ?case
  proof (cases "ledger_record (env_sha env) l ?ident (elapsed_since t now) out")
    case (Pair a l')
    show ?thesis
    proof (cases a)
      case (Inl e)
      with Cons.prems Pair one show ?thesis
        by (auto simp: unobserved_def t out now traced_port_def)
    next
      case (Inr u)
      with Cons.prems Pair have "serial_requests (traced_env env) config phase uuid ns l' ?s3 = (r, s')"
        by (simp add: unobserved_def t out now traced_port_def)
      from only_commits_trans [OF one Cons.IH [OF this]] show ?thesis .
    qed
  qed
qed simp

lemma serial_requests_log:
  assumes "represents (env_sha env) l es"
    and "serial_requests (traced_env env) config phase uuid ns l s = (Inr l', s')"
  shows "\<exists>fs. represents (env_sha env) l' (es @ fs) \<and> commits (snd s') = commits (snd s) @ log_calls fs
    \<and> map fst (log_calls fs) = map (identity_text config phase None) ns"
  using assms
proof (induction ns arbitrary: l es s)
  case Nil
  then show ?case by (auto intro: exI [of _ "[]"])
next
  case (Cons n ns)
  let ?ident = "identity_text config phase None n"
  obtain t w1 where t: "env_clock env (fst s) = (t, w1)" by force
  obtain out w2 where out: "port_commit (env_port env) uuid
      (wk_commit_property (cfg_workload config)) ?ident w1 = (out, w2)" by force
  obtain now w3 where now: "env_clock env w2 = (now, w3)" by force
  let ?s3 = "(w3, snd s @ [CallCommit ?ident out])" and ?d = "elapsed_since t now"
  obtain u l1 where rec: "ledger_record (env_sha env) l ?ident ?d out = (Inr u, l1)"
    and rest: "serial_requests (traced_env env) config phase uuid ns l1 ?s3 = (Inr l', s')"
    using Cons.prems(2)
    by (auto simp: unobserved_def t out now traced_port_def split: prod.splits sum.splits)
  from Cons.IH [OF record_Inr [OF Cons.prems(1) rec] rest] obtain fs where
    "represents (env_sha env) l' (es @ (?ident, ?d, out) # fs)"
    "commits (snd s') = commits (snd s) @ log_calls ((?ident, ?d, out) # fs)"
    "map fst (log_calls fs) = map (identity_text config phase None) ns" by auto
  then show ?case by (intro exI [of _ "(?ident, ?d, out) # fs"]) simp
qed

lemma run_serial_phase_trace:
  assumes "run_serial_phase (traced_env env) config phase n uuid s = (r, s')"
  shows "only_commits s s'"
proof -
  obtain t w1 where t: "env_clock env (fst s) = (t, w1)" by force
  obtain r2 s2 where req: "serial_requests (traced_env env) config phase uuid [0..<unat n]
      ledger_default (w1, snd s) = (r2, s2)" by (meson surj_pair)
  have "only_commits s s2"
    using serial_requests_trace [OF req] by (simp add: only_commits_def)
  moreover have "snd s' = snd s2"
    using assms by (auto simp: run_serial_phase_def unobserved_def t req split: sum.splits prod.splits)
  ultimately show ?thesis by (simp add: only_commits_def)
qed

lemma run_serial_phase_accounts:
  assumes "run_serial_phase (traced_env env) config phase n uuid s = (Inr (p, acc), s')"
  shows "\<exists>cs. commits (snd s') = commits (snd s) @ cs \<and> accounts_for (env_sha env) p acc cs
    \<and> map fst cs = map (identity_text config phase None) [0..<unat n]"
proof -
  obtain t w1 where t: "env_clock env (fst s) = (t, w1)" by force
  obtain l w2 now where req: "serial_requests (traced_env env) config phase uuid [0..<unat n]
      ledger_default (w1, snd s) = (Inr l, w2)" and s': "snd s' = snd w2"
    and fin: "ledger_finish l (elapsed_since t now) = Inr (p, acc)"
    using assms by (auto simp: run_serial_phase_def unobserved_def t split: sum.splits prod.splits)
  from serial_requests_log [OF represents_default req] obtain fs where
    "represents (env_sha env) l fs" "commits (snd w2) = commits (snd s) @ log_calls fs"
    "map fst (log_calls fs) = map (identity_text config phase None) [0..<unat n]" by auto
  with accounts_for_finish [OF _ fin] s' show ?thesis by force
qed

section \<open>Concurrent writers\<close>

definition writer_failed :: "writer \<Rightarrow> bool" where
  "writer_failed x = (case wr_status x of Returned (Inl _) \<Rightarrow> True | Aborted _ \<Rightarrow> True | _ \<Rightarrow> False)"

text \<open>A writer whose ledger stands for a log, and who has returned that ledger if it has returned.\<close>

definition writer_logs :: "sha256 \<Rightarrow> writer \<Rightarrow> log_entry list \<Rightarrow> bool" where
  "writer_logs sha x es \<longleftrightarrow>
     represents sha (wr_ledger x) es \<and> (\<forall>l. wr_status x = Returned (Inr l) \<longrightarrow> l = wr_ledger x)"

lemma writer_advance_trace:
  assumes "writer_advance (traced_env env) config uuid deadline x s = (x', s')"
  shows "only_commits s s'"
proof (cases "wr_status x")
  case Ready
  then show ?thesis
    using assms by (auto simp: writer_advance_def unobserved_def only_commits_def split: prod.splits if_splits)
next
  case (InFlight ident t)
  obtain out w1 where out: "port_commit (env_port env) uuid
      (wk_commit_property (cfg_workload config)) ident (fst s) = (out, w1)" by force
  have "snd s' = snd s @ [CallCommit ident out]"
    using assms
    by (auto simp: writer_advance_def InFlight traced_port_def out unobserved_def
        split: prod.splits sum.splits option.splits)
  then show ?thesis by (simp add: only_commits_def)
qed (use assms in \<open>auto simp: writer_advance_def\<close>)

lemma writer_advance_failed:
  assumes "writer_advance (traced_env env) config uuid deadline x s = (x', s')" and "writer_failed x"
  shows "writer_failed x'"
  using assms by (auto simp: writer_advance_def writer_failed_def split: writer_status.splits sum.splits)

lemma writer_advance_logs:
  assumes step: "writer_advance (traced_env env) config uuid deadline x s = (x', s')"
    and logs: "writer_logs (env_sha env) x es" and ok: "\<not> writer_failed x'"
  shows "\<exists>fs. writer_logs (env_sha env) x' (es @ fs) \<and> commits (snd s') = commits (snd s) @ log_calls fs"
proof (cases "wr_status x")
  case Ready
  have "writer_logs (env_sha env) x' es \<and> commits (snd s') = commits (snd s)"
    using step logs Ready
    by (auto simp: writer_advance_def writer_logs_def unobserved_def split: prod.splits if_splits)
  then show ?thesis by (intro exI [of _ "[]"]) simp
next
  case (InFlight ident t)
  obtain out w1 where out: "port_commit (env_port env) uuid
      (wk_commit_property (cfg_workload config)) ident (fst s) = (out, w1)" by force
  obtain now w2 where now: "env_clock env w1 = (now, w2)" by force
  let ?d = "elapsed_since t now"
  obtain a l' where rec: "ledger_record (env_sha env) (wr_ledger x) ident ?d out = (a, l')" by force
  from step ok rec have "a = Inr ()" "wr_ledger x' = l'" "wr_status x' = Ready"
      "snd s' = snd s @ [CallCommit ident out]"
    by (auto simp: writer_advance_def InFlight traced_port_def out now unobserved_def writer_failed_def
        split: sum.splits option.splits)
  moreover from this rec logs have "represents (env_sha env) l' (es @ [(ident, ?d, out)])"
    by (auto simp: writer_logs_def intro: record_Inr)
  ultimately show ?thesis
    by (intro exI [of _ "[(ident, ?d, out)]"]) (simp add: writer_logs_def)
next
  case (Returned r)
  with step logs show ?thesis
    by (intro exI [of _ "[]"]) (simp add: writer_advance_def)
next
  case (Aborted e)
  with step ok show ?thesis by (simp add: writer_advance_def writer_failed_def)
qed

definition writers_account :: "sha256 \<Rightarrow> 'w traced \<Rightarrow> writer list \<times> 'w traced \<Rightarrow> bool" where
  "writers_account sha s0 state \<longleftrightarrow>
     list_ex writer_failed (fst state)
     \<or> (\<exists>ess cs. list_all2 (writer_logs sha) (fst state) ess
          \<and> commits (snd (snd state)) = commits (snd s0) @ cs
          \<and> mset cs = mset (log_calls (concat ess)))"

lemma mset_concat_update:
  "i < length xss \<Longrightarrow> mset (concat (xss[i := xss ! i @ ys])) = mset (concat xss) + mset ys"
  by (induction xss arbitrary: i) (auto simp: nth_Cons split: nat.splits)

lemma mset_log_calls_update:
  assumes "i < length ess"
  shows "mset (log_calls (concat (ess[i := ess ! i @ fs]))) = mset (log_calls (concat ess)) + mset (log_calls fs)"
  unfolding log_calls_def mset_map mset_concat_update [OF assms] by simp

lemma schedule_step_account:
  assumes "writers_account (env_sha env) s0 (xs, s)"
  shows "writers_account (env_sha env) s0 (schedule_step (traced_env env) config uuid deadline ev (xs, s))"
proof (cases ev)
  case (Advance i)
  show ?thesis
  proof (cases "i < length xs")
    case True
    obtain x' s' where step: "writer_advance (traced_env env) config uuid deadline (xs ! i) s = (x', s')"
      by (meson surj_pair)
    have state: "schedule_step (traced_env env) config uuid deadline ev (xs, s) = (xs[i := x'], s')"
      by (simp add: Advance True step)
    show ?thesis
    proof (cases "list_ex writer_failed (xs[i := x'])")
      case True
      then show ?thesis by (simp add: state writers_account_def)
    next
      case False
      have ok: "\<not> writer_failed x'"
        using False True by (metis list_ex_length length_list_update nth_list_update_eq)
      have others: "\<not> writer_failed (xs ! j)" if "j < length xs" for j
        using False that writer_advance_failed [OF step] ok
        by (metis list_ex_length length_list_update nth_list_update_neq)
      with assms obtain ess cs where ess: "list_all2 (writer_logs (env_sha env)) xs ess"
        and cs: "commits (snd s) = commits (snd s0) @ cs" "mset cs = mset (log_calls (concat ess))"
        by (auto simp: writers_account_def list_ex_length)
      have i: "i < length ess" using ess True list_all2_lengthD by fastforce
      have "writer_logs (env_sha env) (xs ! i) (ess ! i)" using ess True by (simp add: list_all2_nthD)
      from writer_advance_logs [OF step this ok] obtain fs where
        fs: "writer_logs (env_sha env) x' (ess ! i @ fs)" "commits (snd s') = commits (snd s) @ log_calls fs"
        by blast
      have "list_all2 (writer_logs (env_sha env)) (xs[i := x']) (ess[i := ess ! i @ fs])"
        using ess fs(1) by (simp add: list_all2_update_cong)
      moreover have "commits (snd s') = commits (snd s0) @ cs @ log_calls fs"
        using fs(2) cs(1) by simp
      moreover have "mset (cs @ log_calls fs) = mset (log_calls (concat (ess[i := ess ! i @ fs])))"
        using cs(2) mset_log_calls_update [OF i] by simp
      ultimately show ?thesis unfolding state writers_account_def by auto
    qed
  qed (use assms Advance in simp)
next
  case (Abort i detail)
  show ?thesis
  proof (cases "i < length xs \<and> \<not> writer_done (xs ! i)")
    case True
    then have "list_ex writer_failed (xs[i := (xs ! i)\<lparr>wr_status := Aborted detail\<rparr>])"
      by (auto simp: list_ex_length writer_failed_def)
    with True show ?thesis by (simp add: Abort writers_account_def)
  qed (use assms Abort in auto)
qed

lemma schedule_step_trace:
  "only_commits s (snd (schedule_step (traced_env env) config uuid deadline ev (xs, s)))"
  by (cases ev) (auto split: prod.splits dest: writer_advance_trace)

lemma run_schedule_account:
  assumes "writers_account (env_sha env) s0 state"
  shows "writers_account (env_sha env) s0 (fold (schedule_step (traced_env env) config uuid deadline) evs state)"
  using assms
proof (induction evs arbitrary: state)
  case (Cons ev evs)
  then show ?case using schedule_step_account [of env s0 "fst state" "snd state"] by simp
qed simp

lemma run_schedule_trace:
  "only_commits (snd state) (snd (fold (schedule_step (traced_env env) config uuid deadline) evs state))"
proof (induction evs arbitrary: state)
  case (Cons ev evs)
  have "only_commits (snd state) (snd (schedule_step (traced_env env) config uuid deadline ev state))"
    using schedule_step_trace [of "snd state" env config uuid deadline ev "fst state"] by simp
  from only_commits_trans [OF this Cons.IH] show ?case by simp
qed simp


lemma writers_account_start: "writers_account sha s (map writer_start is, s)"
proof -
  have "list_all2 (writer_logs sha) (map writer_start is) (replicate (length is) [])"
    by (simp add: list_all2_conv_all_nth writer_logs_def writer_start_def represents_default)
  then show ?thesis unfolding writers_account_def
    by (intro disjI2 exI [of _ "replicate (length is) []"] exI [of _ "[]"]) simp
qed

text \<open>Joining without an error merges the ledgers of all writers.\<close>

lemma join_error_kept: "snd (fold join_writer statuses (m, Some e)) = Some e"
proof (induction statuses arbitrary: m)
  case (Cons st statuses)
  have "snd (join_writer st (m, Some e)) = Some e"
    by (simp add: join_writer_def get_or_insert_def split: writer_status.splits sum.splits prod.splits)
  then obtain m' where "join_writer st (m, Some e) = (m', Some e)" by (metis prod.collapse)
  with Cons show ?case by simp
qed simp

lemma join_writers_represents:
  assumes "list_all2 (writer_logs sha) xs ess" and "list_all writer_done xs"
    and "represents sha m es" and "fold join_writer (map wr_status xs) (m, None) = (merged, None)"
  shows "represents sha merged (es @ concat ess)"
  using assms
proof (induction xs ess arbitrary: m es rule: list_all2_induct)
  case (Cons x xs fs ess)
  obtain m' err where join: "join_writer (wr_status x) (m, None) = (m', err)" by force
  have "err = None"
  proof (rule ccontr)
    assume "err \<noteq> None"
    then obtain e where "err = Some e" by blast
    with Cons.prems(3) join join_error_kept [of "map wr_status xs" m' e] show False by simp
  qed
  with join Cons.prems(1) obtain l u where ret: "wr_status x = Returned (Inr l)"
    and merge: "ledger_try_merge m l = (Inr u, m')"
    by (auto simp: join_writer_def get_or_insert_def writer_done_def
        split: writer_status.splits sum.splits prod.splits)
  have "represents sha l fs" using Cons.hyps(1) ret by (simp add: writer_logs_def)
  from merge_Inr [OF Cons.prems(2) this merge] have "represents sha m' (es @ fs)" .
  moreover have "fold join_writer (map wr_status xs) (m', None) = (merged, None)"
    using Cons.prems(3) join \<open>err = None\<close> by simp
  ultimately show ?case using Cons.IH [of m' "es @ fs"] Cons.prems(1) by simp
qed simp

lemma mset_concat_cong: "mset xss = mset yss \<Longrightarrow> mset (concat xss) = mset (concat yss)"
  by (metis mset_concat mset_map sum_mset_sum_list)

lemma mset_permuted:
  assumes "mset is = mset [0..<length xs]"
  shows "mset (map ((!) xs) is) = mset xs"
  by (metis assms map_nth mset_map)

lemma run_writers_length:
  "length (fst (fold (schedule_step env config uuid deadline) evs state)) = length (fst state)"
proof (induction evs arbitrary: state)
  case (Cons ev evs)
  have "length (fst (schedule_step env config uuid deadline ev state)) = length (fst state)"
    by (cases ev; cases state) (auto split: prod.splits)
  with Cons show ?case by simp
qed simp

lemma join_failed: "writer_failed x \<Longrightarrow> \<exists>e'. join_writer (wr_status x) (m, e) = (m, Some e')"
  by (cases e)
    (auto simp: join_writer_def writer_failed_def get_or_insert_def split: writer_status.splits sum.splits)

lemma join_without_error:
  assumes "join_writers (map (\<lambda>i. wr_status (xs ! i)) order) = (merged, None)" and "i \<in> set order"
  shows "\<not> writer_failed (xs ! i)"
proof
  assume failed: "writer_failed (xs ! i)"
  from assms(2) obtain before after where order: "order = before @ i # after" by (meson split_list)
  obtain m e where m: "fold join_writer (map (\<lambda>i. wr_status (xs ! i)) before) (ledger_default, None) = (m, e)"
    by (meson surj_pair)
  obtain e' where "join_writer (wr_status (xs ! i)) (m, e) = (m, Some e')"
    using join_failed [OF failed] by blast
  then show False
    using assms(1) m join_error_kept [of "map (\<lambda>i. wr_status (xs ! i)) after" m e']
    by (simp add: join_writers_def order)
qed

lemma concurrent_accounts:
  assumes "run_concurrent_phase (traced_env env) config uuid s = Some (Ok (p, acc), s')"
  shows "\<exists>cs. snd s' = snd s @ cs \<and> list_all is_commit cs
    \<and> accounts_for (env_sha env) p acc (commits cs)"
proof -
  obtain t w1 where t: "env_clock env (fst s) = (t, w1)" by force
  obtain deadline n xs w2 where
    run: "run_writers (traced_env env) config uuid deadline (map writer_start [0..<n], (w1, snd s)) = (xs, w2)"
    and ended: "list_all writer_done xs" "mset (env_join_order env) = mset [0..<length xs]"
    and fin: "\<exists>merged now. join_writers (map (\<lambda>i. wr_status (xs ! i)) (env_join_order env)) = (merged, None)
       \<and> ledger_finish merged (elapsed_since t now) = Inr (p, acc) \<and> snd s' = snd w2"
    using assms
    by (auto simp: run_concurrent_phase_def unobserved_def t Let_def simp del: mset_upt
        split: option.splits if_splits prod.splits) blast
  from fin obtain merged now where
    join: "join_writers (map (\<lambda>i. wr_status (xs ! i)) (env_join_order env)) = (merged, None)" and
    finish: "ledger_finish merged (elapsed_since t now) = Inr (p, acc)" and s': "snd s' = snd w2" by blast
  let ?ys = "map ((!) xs) (env_join_order env)"
  have "writers_account (env_sha env) (w1, snd s) (xs, w2)"
    using run_schedule_account [OF writers_account_start, of env "(w1, snd s)"]
    unfolding run [symmetric] run_writers_def by simp
  moreover have "\<not> list_ex writer_failed xs"
  proof -
    have "set (env_join_order env) = {0..<length xs}"
      using ended(2) by (metis atLeastLessThan_upt set_mset_mset)
    with join_without_error [OF join] show ?thesis by (auto simp: list_ex_length)
  qed
  ultimately obtain ess cs where ess: "list_all2 (writer_logs (env_sha env)) xs ess"
    and cs: "commits (snd w2) = commits (snd s) @ cs" "mset cs = mset (log_calls (concat ess))"
    by (auto simp: writers_account_def)
  have len: "length ess = length xs" using ess list_all2_lengthD by metis
  let ?fss = "map ((!) ess) (env_join_order env)"
  have bound: "i < length xs" if "i \<in> set (env_join_order env)" for i
    using ended(2) that by (metis atLeastLessThan_iff atLeastLessThan_upt set_mset_mset)
  have "list_all2 (writer_logs (env_sha env)) ?ys ?fss"
    using bound ess by (auto simp: list_all2_conv_all_nth)
  moreover have "list_all writer_done ?ys"
    using ended(1) bound by (simp add: list_all_iff list_all_length)
  ultimately have rep: "represents (env_sha env) merged (concat ?fss)"
    using join_writers_represents [OF _ _ represents_default, of "env_sha env" ?ys ?fss merged] join
    by (simp add: join_writers_def comp_def)
  have "mset (concat ?fss) = mset (concat ess)"
    by (intro mset_concat_cong mset_permuted) (simp add: ended(2) len)
  then have "mset (log_calls (concat ?fss)) = mset cs"
    using cs(2) by (simp add: log_calls_def)
  from accounts_for_finish [OF rep finish this] have "accounts_for (env_sha env) p acc cs" .
  moreover have "only_commits (w1, snd s) w2"
    using run_schedule_trace [of "(map writer_start [0..<n], (w1, snd s))" env config uuid deadline "env_schedule env"]
      run by (simp add: run_writers_def)
  then obtain calls where "snd w2 = snd s @ calls" "list_all is_commit calls"
    by (auto simp: only_commits_def)
  ultimately show ?thesis using s' cs(1) by auto
qed

text \<open>
  C6. The evidence of a concurrent phase accounts for exactly the commits the writers sent: whatever
  the order in which the runtime resumed the writers and joined their results, the phase made no
  other catalog call, its counters are the numbers of commits by outcome, and the accepted digests
  are those of the commits the catalog accepted.
\<close>

theorem concurrent_phase_accounted:
  assumes "run_concurrent_phase (traced_env env) config uuid s = Some (Ok (p, acc), s')"
  shows "\<exists>cs. snd s' = snd s @ cs \<and> list_all is_commit cs
    \<and> accounts_for (env_sha env) p acc (commits cs)"
  using assms by (rule concurrent_accounts)

section \<open>The concurrent phase ends\<close>

text \<open>
  The clock reads a time that never runs backwards, and a commit takes at least a nanosecond.
\<close>

definition time_passes :: "'w round_env \<Rightarrow> ('w \<Rightarrow> instant) \<Rightarrow> bool" where
  "time_passes env time \<longleftrightarrow>
     (\<forall>w. fst (env_clock env w) = time w \<and> time w \<le> time (snd (env_clock env w)))
     \<and> (\<forall>uuid property ident w. time w < time (snd (port_commit (env_port env) uuid property ident w)))"

text \<open>How many more times a writer has to be resumed at most.\<close>

definition steps_left :: "instant \<Rightarrow> instant \<Rightarrow> writer \<Rightarrow> nat" where
  "steps_left deadline now x =
     (case wr_status x of
        Ready \<Rightarrow> 2 * (deadline - now) + 1
      | InFlight _ _ \<Rightarrow> max (2 * (deadline - now)) 2
      | Returned _ \<Rightarrow> 0
      | Aborted _ \<Rightarrow> 0)"

lemma steps_left_zero: "steps_left deadline now x = 0 \<longleftrightarrow> writer_done x"
  by (simp add: steps_left_def writer_done_def split: writer_status.splits)

lemma steps_left_later: "now \<le> later \<Longrightarrow> steps_left deadline later x \<le> steps_left deadline now x"
  by (auto simp: steps_left_def split: writer_status.splits)

lemma time_passes_clock: "time_passes env time \<Longrightarrow> env_clock env w = (t, w') \<Longrightarrow> t = time w \<and> time w \<le> time w'"
  unfolding time_passes_def by (metis fst_conv snd_conv)

lemma time_passes_commit:
  "time_passes env time \<Longrightarrow> port_commit (env_port env) uuid property ident w = (out, w') \<Longrightarrow> time w < time w'"
  unfolding time_passes_def by (metis snd_conv)

lemma writer_advance_steps:
  assumes passes: "time_passes env time"
    and step: "writer_advance env config uuid deadline x w = (x', w')"
  shows "time w \<le> time w'"
    and "\<not> writer_done x \<Longrightarrow> steps_left deadline (time w') x' < steps_left deadline (time w) x"
    and "writer_done x \<Longrightarrow> x' = x"
proof -
  note clock = time_passes_clock [OF passes] and commit = time_passes_commit [OF passes]
  have "time w \<le> time w' \<and> (\<not> writer_done x \<longrightarrow> steps_left deadline (time w') x' < steps_left deadline (time w) x)
      \<and> (writer_done x \<longrightarrow> x' = x)"
  proof (cases "wr_status x")
    case Ready
    obtain t w1 where t: "env_clock env w = (t, w1)" by force
    show ?thesis
      using step clock [OF t]
      by (auto simp: writer_advance_def Ready t steps_left_def writer_done_def split: if_splits)
  next
    case (InFlight ident started)
    obtain out w1 where out: "port_commit (env_port env) uuid
        (wk_commit_property (cfg_workload config)) ident w = (out, w1)" by force
    obtain now w2 where now: "env_clock env w1 = (now, w2)" by force
    have later: "time w < time w2" using commit [OF out] clock [OF now] by simp
    have "w' = w2" and "wr_status x' = Ready \<or> (\<exists>r. wr_status x' = Returned r)"
      using step
      by (auto simp: writer_advance_def InFlight out now split: sum.splits prod.splits option.splits)
    with later show ?thesis
      by (auto simp: InFlight steps_left_def writer_done_def)
  qed (use step in \<open>auto simp: writer_advance_def writer_done_def\<close>)
  then show "time w \<le> time w'" "\<not> writer_done x \<Longrightarrow> steps_left deadline (time w') x' < steps_left deadline (time w) x"
      "writer_done x \<Longrightarrow> x' = x" by auto
qed

lemma schedule_step_steps:
  assumes passes: "time_passes env time" and i: "i < length xs"
    and step: "schedule_step env config uuid deadline ev (xs, w) = (ys, w')"
  shows "steps_left deadline (time w') (ys ! i) + (if ev = Advance i then 1 else 0)
      \<le> max (steps_left deadline (time w) (xs ! i)) (if ev = Advance i then 1 else 0)"
    and "length ys = length xs"
proof -
  show "length ys = length xs"
    using step by (cases ev) (auto split: if_splits prod.splits)
  show "steps_left deadline (time w') (ys ! i) + (if ev = Advance i then 1 else 0)
      \<le> max (steps_left deadline (time w) (xs ! i)) (if ev = Advance i then 1 else 0)"
  proof (cases ev)
    case (Advance j)
    show ?thesis
    proof (cases "j < length xs")
      case True
      obtain x' w1 where adv: "writer_advance env config uuid deadline (xs ! j) w = (x', w1)"
        by (meson surj_pair)
      have out: "ys = xs[j := x']" "w' = w1" using step by (simp_all add: Advance True adv)
      note steps = writer_advance_steps [OF passes adv]
      show ?thesis
      proof (cases "j = i")
        case True
        show ?thesis
        proof (cases "writer_done (xs ! i)")
          case ended: True
          have "x' = xs ! i" using steps(3) ended True by simp
          moreover have "steps_left deadline (time w1) (xs ! i) = 0" using ended by (simp add: steps_left_zero)
          ultimately show ?thesis using Advance True i by (simp add: out)
        next
          case False
          with steps(2) True show ?thesis using i by (simp add: Advance out)
        qed
      next
        case False
        then show ?thesis
          using steps_left_later [OF steps(1), of deadline "xs ! i"] by (simp add: Advance out)
      qed
    next
      case False
      then show ?thesis using step i by (auto simp: Advance)
    qed
  next
    case (Abort j detail)
    then show ?thesis
      using step i by (cases "j = i") (auto simp: steps_left_def split: if_splits)
  qed
qed

lemma run_schedule_steps:
  assumes "time_passes env time" and "i < length (fst state)"
  shows "steps_left deadline (time (snd (fold (schedule_step env config uuid deadline) evs state)))
      (fst (fold (schedule_step env config uuid deadline) evs state) ! i)
    \<le> steps_left deadline (time (snd state)) (fst state ! i) - count_list evs (Advance i)"
  using assms(2)
proof (induction evs arbitrary: state)
  case (Cons ev evs)
  obtain ys w' where step: "schedule_step env config uuid deadline ev state = (ys, w')" by force
  from schedule_step_steps [OF assms(1) Cons.prems, of config uuid deadline ev "snd state" ys w'] step
  have "steps_left deadline (time w') (ys ! i) + (if ev = Advance i then 1 else 0)
      \<le> max (steps_left deadline (time (snd state)) (fst state ! i)) (if ev = Advance i then 1 else 0)"
    and len: "length ys = length (fst state)" by simp_all
  moreover have "fold (schedule_step env config uuid deadline) (ev # evs) state =
      fold (schedule_step env config uuid deadline) evs (ys, w')" by (simp add: step)
  ultimately show ?case
    using Cons.IH [of "(ys, w')"] Cons.prems
    by (cases "ev = Advance i") (auto simp: max_def simp del: fold_simps split: if_splits)
qed simp

text \<open>
  C7. The concurrent phase returns: when the clock does not run backwards and every commit takes
  time, any schedule that resumes each writer at least twice per nanosecond of the window and once
  more brings all writers to their end, so that the phase answers a result for every order in which
  the writers are joined.
\<close>

theorem concurrent_phase_returns:
  assumes "time_passes env time"
    and "\<forall>i < unat (wk_concurrent_writers (cfg_workload config)).
      2 * (unat (wk_concurrent_duration_ms (cfg_workload config)) * 1000000) + 1
        \<le> count_list (env_schedule env) (Advance i)"
    and "mset (env_join_order env) = mset [0..<unat (wk_concurrent_writers (cfg_workload config))]"
  shows "\<exists>result w'. run_concurrent_phase env config uuid w = Some (result, w')"
proof -
  let ?n = "unat (wk_concurrent_writers (cfg_workload config))"
  let ?span = "unat (wk_concurrent_duration_ms (cfg_workload config)) * 1000000"
  obtain t w1 where t: "env_clock env w = (t, w1)" by force
  have now: "t \<le> time w1" using time_passes_clock [OF assms(1) t] by simp
  show ?thesis
  proof (cases "instant_checked_add (env_instant_max env) t (wk_concurrent_duration_ms (cfg_workload config))")
    case None
    then show ?thesis by (auto simp: run_concurrent_phase_def t split: option.splits)
  next
    case (Some deadline)
    then have deadline: "deadline = t + ?span" by (auto simp: instant_checked_add_def split: if_splits)
    let ?start = "(map writer_start [0..<?n], w1)"
    obtain xs w2 where run: "run_writers env config uuid deadline ?start = (xs, w2)" by force
    have len: "length xs = ?n"
      using run_writers_length [of env config uuid deadline "env_schedule env" ?start] run
      by (simp add: run_writers_def)
    have "writer_done (xs ! i)" if i: "i < ?n" for i
    proof -
      have "steps_left deadline (time w2) (xs ! i)
          \<le> steps_left deadline (time w1) (writer_start i) - count_list (env_schedule env) (Advance i)"
        using run_schedule_steps [OF assms(1), of i ?start deadline config uuid "env_schedule env"] i run
        by (simp add: run_writers_def)
      also have "\<dots> = 0"
        using assms(2) i now by (auto simp: deadline steps_left_def writer_start_def)
      finally show ?thesis by (simp add: steps_left_zero)
    qed
    then have "list_all writer_done xs" by (simp add: list_all_length len)
    moreover obtain c :: u64 where c: "try_from_nat ?n = Some c" "unat c = ?n"
    proof -
      have "?n < 2 ^ 64"
        using unsigned_less [of "wk_concurrent_writers (cfg_workload config)", where 'a = nat] by simp
      then have "(try_from_nat ?n :: u64 option) \<noteq> None" by (simp add: try_from_nat_eq_None)
      with that show ?thesis by (auto simp: try_from_nat_eq_Some)
    qed
    ultimately show ?thesis
      using assms(3) len
      by (auto simp: run_concurrent_phase_def t Some run Let_def c simp del: mset_upt
          split: option.splits prod.splits)
  qed
qed

text \<open>
  A concrete environment: the world is the time in nanoseconds, reading the clock takes one, a
  commit is accepted after a millisecond, and the other calls answer at once.
\<close>

definition demo_snapshot :: table_snapshot where
  "demo_snapshot = \<lparr>ts_format_version = 2, ts_table_uuid = ''u'', ts_location = ''s3://lake/t'',
     ts_metadata_location = ''s3://lake/t/m.metadata.json'', ts_properties = []\<rparr>"

definition demo_port :: "resource_presence \<Rightarrow> nat catalog_port" where
  "demo_port presence =
     \<lparr>port_requested_location = None,
      port_namespace_presence = (\<lambda>w. (Ok \<lparr>po_http_status = 404, po_presence = presence\<rparr>, w)),
      port_table_presence = (\<lambda>w. (Ok \<lparr>po_http_status = 404, po_presence = Absent\<rparr>, w)),
      port_create_namespace = (\<lambda>w. (Ok \<lparr>mr_http_status = 200\<rparr>, w)),
      port_create_table = (\<lambda>w. (Ok demo_snapshot, w)),
      port_load_table = (\<lambda>w. (Ok demo_snapshot, w)),
      port_commit = (\<lambda>uuid property ident w. (Accepted, w + 1000000)),
      port_drop_table_without_purge = (\<lambda>w. (Ok \<lparr>mr_http_status = 204\<rparr>, w)),
      port_drop_namespace = (\<lambda>w. (Ok \<lparr>mr_http_status = 204\<rparr>, w))\<rparr>"

definition demo_env :: "resource_presence \<Rightarrow> nat \<Rightarrow> nat round_env" where
  "demo_env presence n =
     \<lparr>env_clock = (\<lambda>w. (w, Suc w)), env_instant_max = 2 ^ 64, env_sha = demo_sha,
      env_lib = demo_location_lib, env_port = demo_port presence,
      env_audit = (\<lambda>tr location w. (Err (listing_failure ''unavailable''), w)),
      env_schedule = replicate n (Advance 0), env_join_order = [0]\<rparr>"

definition demo_round_config :: "u64 \<Rightarrow> round_execution_config" where
  "demo_round_config duration_ms =
     \<lparr>cfg_catalog = ''c'', cfg_repetition = 1, cfg_kind = Measured,
      cfg_fixture = \<lparr>fixture_id = ''f'', fixture_namespace = ''ns'', fixture_table = ''t''\<rparr>,
      cfg_workload = \<lparr>wk_warmup_commits = 1, wk_sequential_commits = 1, wk_concurrent_writers = 1,
        wk_concurrent_duration_ms = duration_ms, wk_commit_property = ''p''\<rparr>,
      cfg_object_store_bucket = ''lake''\<rparr>"

lemma demo_time_passes: "time_passes (demo_env presence n) id"
  by (simp add: time_passes_def demo_env_def demo_port_def)

lemma count_list_replicate_same: "count_list (replicate n x) x = n"
  by (induction n) auto

theorem concurrent_phase_returns_witness:
  "\<exists>result w'. run_concurrent_phase (demo_env Absent 2000001) (demo_round_config 1) ''u'' 0 = Some (result, w')"
proof -
  have "\<forall>i < unat (wk_concurrent_writers (cfg_workload (demo_round_config 1))).
      2 * (unat (wk_concurrent_duration_ms (cfg_workload (demo_round_config 1))) * 1000000) + 1
        \<le> count_list (env_schedule (demo_env Absent 2000001)) (Advance i)"
    by (simp add: demo_round_config_def demo_env_def count_list_replicate_same)
  moreover have "mset (env_join_order (demo_env Absent 2000001))
      = mset [0..<unat (wk_concurrent_writers (cfg_workload (demo_round_config 1)))]"
    by (simp add: demo_round_config_def demo_env_def)
  ultimately show ?thesis using concurrent_phase_returns [OF demo_time_passes] by blast
qed


definition demo_ident :: string where
  "demo_ident = identity_text (demo_round_config 1) ''concurrent'' (Some 0) 0"

definition demo_recorded :: request_ledger where
  "demo_recorded = snd (ledger_record demo_sha ledger_default demo_ident (elapsed_since 6 1000007) Accepted)"

lemma demo_recorded: 
   "ledger_record demo_sha ledger_default demo_ident (elapsed_since 6 1000007) Accepted = (Inr (), demo_recorded)"
  by (simp add: demo_recorded_def ledger_record_def ledger_default_def)

lemma demo_merged: "ledger_try_merge ledger_default demo_recorded = (Inr (), demo_recorded)"
  by (simp add: demo_recorded_def ledger_record_def ledger_default_def ledger_try_merge_def counts_addable_def add_counts_def accepted_try_extend_def accepted_insert_def)

lemma demo_identity:
  "request_identity (demo_round_config 1) ''concurrent'' (Some 0) 0 = Inr demo_ident"
  by (simp add: demo_ident_def)

abbreviation demo_advance :: "writer \<Rightarrow> nat traced \<Rightarrow> writer \<times> nat traced" where
  "demo_advance \<equiv> writer_advance (traced_env (demo_env Absent 3)) (demo_round_config 1) ''u'' 1000005"

lemma demo_steps:
  "demo_advance (writer_start 0) (6, []) = ((writer_start 0)\<lparr>wr_status := InFlight demo_ident 6\<rparr>, (7, []))"
  "demo_advance ((writer_start 0)\<lparr>wr_status := InFlight demo_ident 6\<rparr>) (7, [])
    = (\<lparr>wr_index = 0, wr_ledger = demo_recorded, wr_sequence = 1, wr_status = Ready\<rparr>,
       (1000008, [CallCommit demo_ident Accepted]))"
  "demo_advance \<lparr>wr_index = 0, wr_ledger = demo_recorded, wr_sequence = 1, wr_status = Ready\<rparr>
      (1000008, [CallCommit demo_ident Accepted])
    = (\<lparr>wr_index = 0, wr_ledger = demo_recorded, wr_sequence = 1, wr_status = Returned (Inr demo_recorded)\<rparr>,
       (1000009, [CallCommit demo_ident Accepted]))"
proof -
  let ?env = "traced_env (demo_env Absent 3)"
  have clock: "env_clock ?env (n, cs) = (n, (Suc n, cs))" for n cs
    by (simp add: demo_env_def unobserved_def)
  have commit: "port_commit (env_port ?env) u q i (n, cs) = (Accepted, (n + 1000000, cs @ [CallCommit i Accepted]))"
    for u q i n cs
    by (simp add: demo_env_def demo_port_def traced_port_def)
  have sha: "env_sha ?env = demo_sha" by (simp add: demo_env_def)
  note defs = writer_advance_def writer_start_def clock commit sha
  show "demo_advance (writer_start 0) (6, []) = ((writer_start 0)\<lparr>wr_status := InFlight demo_ident 6\<rparr>, (7, []))"
    using demo_identity by (simp add: defs del: traced_env_simps request_identity_Ok)
  show "demo_advance ((writer_start 0)\<lparr>wr_status := InFlight demo_ident 6\<rparr>) (7, [])
    = (\<lparr>wr_index = 0, wr_ledger = demo_recorded, wr_sequence = 1, wr_status = Ready\<rparr>,
       (1000008, [CallCommit demo_ident Accepted]))"
    using demo_recorded by (simp add: defs checked_add_def del: traced_env_simps)
  show "demo_advance \<lparr>wr_index = 0, wr_ledger = demo_recorded, wr_sequence = 1, wr_status = Ready\<rparr>
      (1000008, [CallCommit demo_ident Accepted])
    = (\<lparr>wr_index = 0, wr_ledger = demo_recorded, wr_sequence = 1, wr_status = Returned (Inr demo_recorded)\<rparr>,
       (1000009, [CallCommit demo_ident Accepted]))"
    by (simp add: defs del: traced_env_simps)
qed

lemma demo_finish:
  "\<exists>p acc. ledger_finish demo_recorded (elapsed_since 5 1000009) = Inr (p, acc)"
proof -
  have rep: "represents demo_sha demo_recorded [(demo_ident, elapsed_since 6 1000007, Accepted)]"
    using record_Inr [OF represents_default demo_recorded] by simp
  obtain p where "ledger_finish demo_recorded (elapsed_since 5 1000009)
      = Inr (p, log_accepted demo_sha [(demo_ident, elapsed_since 6 1000007, Accepted)])"
    by (rule finish_represents [OF rep, of "elapsed_since 5 1000009"])
      (auto simp: elapsed_since_def duration_wf_def duration_is_zero_def)
  then show ?thesis by blast
qed

lemma demo_run:
  "run_writers (traced_env (demo_env Absent 3)) (demo_round_config 1) ''u'' 1000005
     (map writer_start [0..<1], (6, []))
   = ([\<lparr>wr_index = 0, wr_ledger = demo_recorded, wr_sequence = 1, wr_status = Returned (Inr demo_recorded)\<rparr>],
      (1000009, [CallCommit demo_ident Accepted]))"
proof -
  have "env_schedule (traced_env (demo_env Absent 3)) = [Advance 0, Advance 0, Advance 0]"
    by (simp add: demo_env_def numeral_3_eq_3)
  then show ?thesis by (simp add: run_writers_def demo_steps)
qed

theorem concurrent_phase_accounted_witness:
  "\<exists>p acc s'. run_concurrent_phase (traced_env (demo_env Absent 3)) (demo_round_config 1) ''u'' (5, [])
      = Some (Ok (p, acc), s')
    \<and> accounts_for demo_sha p acc [(demo_ident, Accepted)]"
proof -
  let ?env = "traced_env (demo_env Absent 3)" and ?config = "demo_round_config 1"
  obtain p acc where fin: "ledger_finish demo_recorded (elapsed_since 5 1000009) = Inr (p, acc)"
    using demo_finish by blast
  have start: "env_clock ?env (5, []) = (5, (6, []))"
      "env_clock ?env (1000009, [CallCommit demo_ident Accepted])
        = (1000009, (1000010, [CallCommit demo_ident Accepted]))"
      "instant_checked_add (env_instant_max ?env) 5 (wk_concurrent_duration_ms (cfg_workload ?config))
        = Some 1000005"
      "wk_concurrent_writers (cfg_workload ?config) = 1" "env_join_order ?env = [0]"
    by (simp_all add: demo_env_def unobserved_def demo_round_config_def instant_checked_add_def)
  have run: "run_concurrent_phase ?env ?config ''u'' (5, [])
      = Some (Ok (p, acc), (1000010, [CallCommit demo_ident Accepted]))"
    using demo_run
    by (simp add: run_concurrent_phase_def start fin try_from_nat_def checked_add_def writer_done_def
        join_writers_def join_writer_def demo_merged del: traced_env_simps)
  have "accounts_for (env_sha (demo_env Absent 3)) p acc [(demo_ident, Accepted)]"
    using concurrent_phase_accounted [OF run] by auto
  then have "accounts_for demo_sha p acc [(demo_ident, Accepted)]" by (simp add: demo_env_def)
  with run show ?thesis by blast
qed

section \<open>The calls of a whole round\<close>

definition cleanup_calls :: "catalog_call list" where
  "cleanup_calls = [CallDropTable, CallTablePresence, CallDropNamespace, CallNamespacePresence]"

text \<open>Calls that belong between the creation of the namespace and the cleanup.\<close>

definition is_work :: "catalog_call \<Rightarrow> bool" where
  "is_work c \<longleftrightarrow> is_commit c \<or> c = CallCreateTable \<or> c = CallLoadTable"

text \<open>A result that made some work calls, cleaned up, and kept what the execution had recorded.\<close>

definition worked_and_cleaned ::
  "presence_observation operation_evidence \<Rightarrow> 'w traced
   \<Rightarrow> ((workflow_error + round_execution) \<times> 'w traced) option \<Rightarrow> bool" where
  "worked_and_cleaned preflight s r \<longleftrightarrow>
     (case r of None \<Rightarrow> True
      | Some (result, s') \<Rightarrow>
          \<exists>ex work. result = Ok ex \<and> snd s' = snd s @ work @ cleanup_calls \<and> list_all is_work work
            \<and> ex_preflight ex = preflight \<and> ex_classification ex \<noteq> FixtureCollision)"

lemma clean_and_finish_worked:
  "worked_and_cleaned (ex_preflight ex) s (clean_and_finish (traced_port port) ex s)"
proof -
  have "snd (snd (cleanup (traced_port port) s)) = snd s @ cleanup_calls"
    by (simp add: cleanup_def traced_port_def cleanup_calls_def observe_def split: prod.splits)
  then show ?thesis
    by (auto simp: clean_and_finish_def worked_and_cleaned_def finalize_def Let_def split: prod.splits)
qed

lemma worked_and_cleaned_later:
  assumes "worked_and_cleaned preflight s' r" and "snd s' = snd s @ cs" and "list_all is_work cs"
  shows "worked_and_cleaned preflight s r"
  using assms unfolding worked_and_cleaned_def
  by (auto split: option.splits prod.splits)

lemma worked_and_cleaned_commits:
  assumes "worked_and_cleaned preflight s' r" and "only_commits s s'"
  shows "worked_and_cleaned preflight s r"
proof -
  from assms(2) obtain cs where cs: "snd s' = snd s @ cs" "list_all is_commit cs"
    by (auto simp: only_commits_def)
  then have "list_all is_work cs" by (auto simp: list_all_iff is_work_def)
  from worked_and_cleaned_later [OF assms(1) cs(1) this] show ?thesis .
qed

lemmas clean_later = worked_and_cleaned_later [OF clean_and_finish_worked]
lemmas clean_commits = worked_and_cleaned_commits [OF clean_and_finish_worked]

lemma final_stage_worked:
  "worked_and_cleaned (ex_preflight ex) s (final_stage (traced_env env) config created tr n acc ex s)"
proof -
  obtain r w1 where load: "port_load_table (env_port env) (fst s) = (r, w1)" by force
  let ?s1 = "(w1, snd s @ [CallLoadTable])"
  have port: "port_load_table (traced_port (env_port env)) s = (r, ?s1)"
    by (simp add: traced_port_def observe_def load)
  have work: "list_all is_work [CallLoadTable]" by (simp add: is_work_def)
  show ?thesis
  proof (cases r)
    case (Inl failure)
    have "worked_and_cleaned (ex_preflight (ex\<lparr>ex_final_table := Failed (CatalogStep failure)\<rparr>)) s
        (clean_and_finish (traced_port (env_port env)) (ex\<lparr>ex_final_table := Failed (CatalogStep failure)\<rparr>) ?s1)"
      by (rule clean_later [OF _ work]) simp
    then show ?thesis by (simp add: final_stage_def port Inl)
  next
    case (Inr snapshot)
    obtain a w2 where audit: "env_audit env tr (ts_metadata_location snapshot) w1 = (a, w2)" by force
    let ?s2 = "(w2, snd s @ [CallLoadTable])"
    have "worked_and_cleaned (ex_preflight ex) s (clean_and_finish (traced_port (env_port env)) ex' ?s2)"
      if "ex_preflight ex' = ex_preflight ex" for ex'
      unfolding that [symmetric] by (rule clean_later [OF _ work]) simp
    then show ?thesis
      by (simp add: final_stage_def port Inr unobserved_def audit Let_def)
  qed
qed

lemma run_concurrent_phase_trace:
  assumes "run_concurrent_phase (traced_env env) config uuid s = Some (r, s')"
  shows "only_commits s s'"
proof -
  obtain t w1 where t: "env_clock env (fst s) = (t, w1)" by force
  have "only_commits (w1, snd s) (snd (run_writers (traced_env env) config uuid deadline
      (map writer_start xs, (w1, snd s))))" for deadline xs
    using run_schedule_trace [of "(map writer_start xs, (w1, snd s))" env config uuid deadline "env_schedule env"]
    by (simp add: run_writers_def)
  moreover have "snd s' = snd s \<or> (\<exists>deadline xs. snd s' = snd (snd (run_writers (traced_env env) config uuid
      deadline (map writer_start xs, (w1, snd s)))))"
    using assms
    by (auto simp: run_concurrent_phase_def unobserved_def t Let_def simp del: mset_upt
        split: option.splits if_splits prod.splits; metis snd_conv)
  ultimately show ?thesis by (auto simp: only_commits_def)
qed

lemma phase_stages_worked:
  "worked_and_cleaned (ex_preflight ex) s (phase_stages (traced_env env) config created tr n ex s)"
proof -
  let ?port = "traced_port (env_port env)"
  obtain r1 s1 where one: "run_serial_phase (traced_env env) config ''warmup''
      (wk_warmup_commits (cfg_workload config)) (ts_table_uuid created) s = (r1, s1)" by (meson surj_pair)
  obtain e1 acc1 go1 where rec1: "record_phase {} r1 = (e1, acc1, go1)" by (metis prod_cases3)
  obtain r2 s2 where two: "run_serial_phase (traced_env env) config ''sequential''
      (wk_sequential_commits (cfg_workload config)) (ts_table_uuid created) s1 = (r2, s2)" by (meson surj_pair)
  obtain e2 acc2 go2 where rec2: "record_phase acc1 r2 = (e2, acc2, go2)" by (metis prod_cases3)
  note c1 = run_serial_phase_trace [OF one] and c2 = run_serial_phase_trace [OF two]
  note c12 = only_commits_trans [OF c1 c2]
  let ?ex1 = "ex\<lparr>ex_warmup := e1\<rparr>" and ?ex2 = "ex\<lparr>ex_warmup := e1, ex_sequential := e2\<rparr>"
  show ?thesis
  proof (cases "go1 \<and> go2")
    case False
    have "worked_and_cleaned (ex_preflight ?ex1) s (clean_and_finish ?port ?ex1 s1)"
      "worked_and_cleaned (ex_preflight ?ex2) s (clean_and_finish ?port ?ex2 s2)"
      using clean_commits c1 c12 by blast+
    with False show ?thesis
      by (auto simp: phase_stages_def Let_def one rec1 two rec2)
  next
    case True
    show ?thesis
    proof (cases "run_concurrent_phase (traced_env env) config (ts_table_uuid created) s2")
      case None
      with True show ?thesis by (simp add: phase_stages_def Let_def one rec1 two rec2 worked_and_cleaned_def)
    next
      case (Some out)
      obtain r3 s3 where out: "out = (r3, s3)" by (meson surj_pair)
      obtain e3 acc3 go3 where rec3: "record_phase acc2 r3 = (e3, acc3, go3)" by (metis prod_cases3)
      have "only_commits s s3"
        using only_commits_trans [OF c12 run_concurrent_phase_trace] Some out by blast
      then have "worked_and_cleaned (ex_preflight ex3) s (clean_and_finish ?port ex3 s3)"
        "worked_and_cleaned (ex_preflight ex3) s
           (final_stage (traced_env env) config created tr n acc3 ex3 s3)" for ex3
        using clean_commits worked_and_cleaned_commits [OF final_stage_worked] by blast+
      from this [of "?ex2\<lparr>ex_concurrent := e3\<rparr>"] True show ?thesis
        by (auto simp: phase_stages_def Let_def one rec1 two rec2 Some out rec3)
    qed
  qed
qed

lemma baseline_stage_worked:
  "worked_and_cleaned (ex_preflight ex) s (baseline_stage (traced_env env) config created ex s)"
proof (cases "table_root_new (env_lib env) (ts_location created) (ts_metadata_location created)
    (cfg_object_store_bucket config)")
  case (Inl failure)
  have "worked_and_cleaned (ex_preflight (ex\<lparr>ex_baseline_object_audit := Failed (ObjectStoreStep failure)\<rparr>)) s
      (clean_and_finish (traced_port (env_port env))
        (ex\<lparr>ex_baseline_object_audit := Failed (ObjectStoreStep failure)\<rparr>) s)"
    by (rule clean_and_finish_worked)
  then show ?thesis by (simp add: baseline_stage_def Inl)
next
  case (Inr tr)
  obtain a w1 where audit: "env_audit env tr (ts_metadata_location created) (fst s) = (a, w1)" by force
  have same: "only_commits s (w1, snd s)" by (simp add: only_commits_def)
  have "worked_and_cleaned (ex_preflight ex) s (clean_and_finish (traced_port (env_port env)) ex' (w1, snd s))"
    "worked_and_cleaned (ex_preflight ex) s (phase_stages (traced_env env) config created tr n ex' (w1, snd s))"
    if "ex_preflight ex' = ex_preflight ex" for ex' n
    unfolding that [symmetric]
    using clean_commits [OF same] worked_and_cleaned_commits [OF phase_stages_worked same] by blast+
  then show ?thesis
    by (cases a) (auto simp: baseline_stage_def Inr unobserved_def audit Let_def)
qed

lemma finalize_simps [simp]:
  "ex_preflight (finalize ex c) = ex_preflight ex"
  "ex_classification (finalize ex c) = FixtureCollision \<longleftrightarrow> c"
  by (simp_all add: finalize_def Let_def)

text \<open>
  C2. A round never leaves a mutation behind unattended. It always ends in evidence, not in an
  error. Either it made a single call, the preflight read, and did not find the namespace absent; it
  then has changed nothing and does not pass. Or the namespace was seen absent, and the calls are
  the preflight, the creation of the namespace, the work on the table, and at the end the four calls
  that drop table and namespace and look whether they are gone. Between them nothing is dropped, and
  the classification is a fixture collision only when the preflight found the namespace.
\<close>

theorem round_call_discipline:
  assumes "run_contention_round (traced_env env) config (w, []) = Some (result, (w', calls))"
  shows "\<exists>ex. result = Ok ex
    \<and> (if observed_absent (ex_preflight ex)
       then ex_classification ex \<noteq> FixtureCollision
         \<and> (\<exists>work. calls = [CallNamespacePresence, CallCreateNamespace] @ work @ cleanup_calls
              \<and> list_all is_work work)
       else calls = [CallNamespacePresence] \<and> \<not> execution_passed ex
         \<and> (ex_classification ex = FixtureCollision
            \<longleftrightarrow> is_some_and (evidence_output (ex_preflight ex)) (\<lambda>seen. po_presence seen = Present)))"
proof -
  let ?ex = "execution_pending config"
  obtain r w1 where pre: "port_namespace_presence (env_port env) w = (r, w1)" by force
  have port: "port_namespace_presence (traced_port (env_port env)) (w, []) = (r, (w1, [CallNamespacePresence]))"
    by (simp add: traced_port_def observe_def pre)
  show ?thesis
  proof (cases "\<exists>observation. r = Inr observation \<and> po_presence observation = Absent")
    case False
    have checks: "\<not> execution_passed (finalize ex c)" if "\<not> observed_absent (ex_preflight ex)" for ex c
      using that by (simp add: execution_passed_def finalize_def evaluate_checks_def all_passed_def Let_def)
    show ?thesis
    proof (cases r)
      case (Inl failure)
      let ?f = "finalize (?ex\<lparr>ex_preflight := Failed (CatalogStep failure)\<rparr>) False"
      have "result = Ok ?f" "calls = [CallNamespacePresence]" "\<not> observed_absent (ex_preflight ?f)"
        "evidence_output (ex_preflight ?f) = None"
        using assms by (simp_all add: run_contention_round_def port Inl Let_def observed_absent_def evidence_output_def)
      with checks show ?thesis by (intro exI [of _ ?f]) simp
    next
      case (Inr observation)
      let ?f = "finalize (?ex\<lparr>ex_preflight := Succeeded observation\<rparr>) True"
      have present: "po_presence observation = Present"
        using False Inr by (cases "po_presence observation") auto
      have "result = Ok ?f" "calls = [CallNamespacePresence]" "\<not> observed_absent (ex_preflight ?f)"
        "evidence_output (ex_preflight ?f) = Some observation"
        using assms present
        by (simp_all add: run_contention_round_def port Inr Let_def observed_absent_def evidence_output_def)
      with checks present show ?thesis by (intro exI [of _ ?f]) simp
    qed
  next
    case True
    then obtain observation where r: "r = Inr observation" and absent: "po_presence observation = Absent" by blast
    let ?ex1 = "?ex\<lparr>ex_preflight := Succeeded observation\<rparr>"
    obtain c w2 where create: "port_create_namespace (env_port env) w1 = (c, w2)" by force
    obtain t w3 where table: "port_create_table (env_port env) w2 = (t, w3)" by force
    let ?s2 = "(w2, [CallNamespacePresence, CallCreateNamespace])"
    let ?s3 = "(w3, [CallNamespacePresence, CallCreateNamespace, CallCreateTable])"
    have ports: "port_create_namespace (traced_port (env_port env)) (w1, [CallNamespacePresence]) = (c, ?s2)"
        "port_create_table (traced_port (env_port env)) ?s2 = (t, ?s3)"
        "port_requested_location (traced_port (env_port env)) = port_requested_location (env_port env)"
      by (simp_all add: traced_port_def observe_def create table)
    have work: "list_all is_work [CallCreateTable]" by (simp add: is_work_def)
    have "worked_and_cleaned (Succeeded observation) ?s2 (run_contention_round (traced_env env) config (w, []))"
    proof (cases c)
      case (Inl failure)
      then show ?thesis
        using clean_and_finish_worked [of "?ex1\<lparr>ex_create_namespace := Failed (CatalogStep failure)\<rparr>" ?s2 "env_port env"]
        by (simp add: run_contention_round_def port r absent Let_def ports)
    next
      case (Inr receipt)
      have "worked_and_cleaned (ex_preflight ex) ?s2 (clean_and_finish (traced_port (env_port env)) ex ?s3)"
        "worked_and_cleaned (ex_preflight ex) ?s2 (baseline_stage (traced_env env) config created ex ?s3)"
        for ex created
        using clean_later [OF _ work, of ?s3 ?s2]
          worked_and_cleaned_later [OF baseline_stage_worked _ work, of ?s3 ?s2] by simp_all
      from this(1) [of "?ex1\<lparr>ex_create_namespace := Succeeded receipt, ex_create_table := Failed (CatalogStep (projl t))\<rparr>"]
        this(2) [of "?ex1\<lparr>ex_create_namespace := Succeeded receipt, ex_create_table := Succeeded
          (setup_from_snapshot (projr t) (port_requested_location (env_port env)))\<rparr>" "projr t"]
      show ?thesis
        by (cases t) (simp_all add: run_contention_round_def port r absent Let_def Inr ports)
    qed
    then obtain ex work where ex: "result = Ok ex" "calls = snd ?s2 @ work @ cleanup_calls"
        "list_all is_work work" "ex_preflight ex = Succeeded observation" "ex_classification ex \<noteq> FixtureCollision"
      unfolding worked_and_cleaned_def assms by auto
    moreover have "observed_absent (ex_preflight ex)"
      by (simp add: ex absent observed_absent_def evidence_output_def)
    ultimately show ?thesis by (intro exI [of _ ex]) simp
  qed
qed

lemma demo_round_root:
  "table_root_new demo_location_lib ''s3://lake/t'' ''s3://lake/t/m.metadata.json'' ''lake'' = Ok demo_table_root"
  by code_simp

theorem round_call_discipline_witness:
  "\<exists>ex w'. run_contention_round (traced_env (demo_env Absent 0)) (demo_round_config 1) (0, [])
      = Some (Ok ex, (w', [CallNamespacePresence, CallCreateNamespace, CallCreateTable] @ cleanup_calls))
    \<and> ex_classification ex \<noteq> FixtureCollision"
proof -
  obtain ex w' where run: "run_contention_round (traced_env (demo_env Absent 0)) (demo_round_config 1) (0, [])
      = Some (Ok ex, (w', [CallNamespacePresence, CallCreateNamespace, CallCreateTable] @ cleanup_calls))"
    using demo_round_root
    by (simp add: run_contention_round_def traced_port_def observe_def demo_env_def demo_port_def
        baseline_stage_def demo_snapshot_def demo_round_config_def unobserved_def clean_and_finish_def
        cleanup_def cleanup_calls_def Let_def)
  from round_call_discipline [OF run] have "ex_classification ex \<noteq> FixtureCollision"
    by (auto split: if_splits)
  with run show ?thesis by blast
qed

end
