(* ===== verification/Commit_Pass.thy ===== *)
theory Commit_Pass
  imports Commit_Trace
begin

text \<open>
  The two directions of a round's verdict: what a passing round of \<open>run_contention_round\<close> has shown
  of the catalog (no false pass), and that a catalog which accepts every commit passes the serial
  phases (no false alarm), with a concrete round that passes.
\<close>

section \<open>What a passing round has shown\<close>

lemma is_some_andE: "is_some_and x p \<Longrightarrow> (\<And>v. x = Some v \<Longrightarrow> p v \<Longrightarrow> thesis) \<Longrightarrow> thesis"
  by (auto simp: is_some_and_iff)

lemma evidence_output_Some [simp]: "evidence_output e = Some v \<longleftrightarrow> e = Succeeded v"
  by (simp add: evidence_output_def split: operation_evidence.splits)

lemma evidence_output_simps [simp]:
  "evidence_output (Succeeded v) = Some v" "evidence_output (Failed f) = None"
  "evidence_output skipped = None"
  by (simp_all add: evidence_output_def skipped_def)

lemma finalize_passed:
  "execution_passed (finalize ex c) \<longleftrightarrow> \<not> c \<and> all_passed (evaluate_checks ex)"
  by (simp add: execution_passed_def finalize_def Let_def)

lemma clean_and_finish_passed:
  assumes "clean_and_finish port ex s = Some (Ok ex', s')" and "execution_passed ex'"
  obtains c where "ex' = finalize (ex\<lparr>ex_cleanup := c\<rparr>) False"
    "all_passed (evaluate_checks (ex\<lparr>ex_cleanup := c\<rparr>))"
  using assms by (auto simp: clean_and_finish_def finalize_passed split: prod.splits)

lemma no_final_table_no_pass:
  assumes "clean_and_finish port ex s = Some (Ok ex', s')" and "evidence_output (ex_final_table ex) = None"
  shows "\<not> execution_passed ex'"
proof
  assume "execution_passed ex'"
  from clean_and_finish_passed [OF assms(1) this] show False
    using assms(2) by (auto simp: all_passed_def evaluate_checks_def)
qed

lemma serial_all_accepted:
  assumes "accounts_for sha p acc cs" and "serial_accounted p n"
  shows "list_all (\<lambda>(i, out). out = Accepted) cs"
proof -
  have "outcomes (\<lambda>out. out = Accepted) cs = length cs"
    using assms by (simp add: accounts_for_def serial_accounted_def)
  then show ?thesis
    unfolding outcomes_def list_all_iff
    by (metis (mono_tags, lifting) filter_True length_filter_less nat_neq_iff filter_id_conv)
qed

lemma record_phase_go:
  assumes "record_phase acc r = (e, acc', True)"
  obtains p phase_accepted where "r = Inr (p, phase_accepted)" "e = Succeeded p"
    "acc' = acc \<union> phase_accepted"
  using assms
  by (auto simp: record_phase_def accepted_try_extend_def split: sum.splits prod.splits if_splits)

lemma accepted_digests_append [simp]:
  "accepted_digests sha (cs @ ds) = accepted_digests sha cs \<union> accepted_digests sha ds"
  by (auto simp: accepted_digests_def)

lemma outcomes_append [simp]: "outcomes p (cs @ ds) = outcomes p cs + outcomes p ds"
  by (simp add: outcomes_def)

lemma outcomes_zero: "outcomes p cs = 0 \<longleftrightarrow> \<not> list_ex (\<lambda>(i, out). p out) cs"
  by (auto simp: outcomes_def filter_empty_conv list_ex_iff)

text \<open>The end of a passing round, seen from the load of the final table.\<close>

lemma final_stage_passed:
  assumes "final_stage env config created tr baseline acc ex s = Some (Ok ex', s')" and "execution_passed ex'"
  obtains snapshot audit c where
    "ex_final_table ex' = Succeeded (final_table_of env config created tr acc snapshot)"
    "final_table_passed (final_table_of env config created tr acc snapshot)"
    "ex_final_object_audit ex' = Succeeded audit"
    "is_some_and (evidence_output (growth_of_phases baseline (ex\<lparr>ex_final_object_audit := Succeeded audit\<rparr>))) sufficient"
    "all_passed (evaluate_checks (ex\<lparr>ex_final_table := ex_final_table ex', ex_final_object_audit := Succeeded audit,
        ex_metadata_growth := ex_metadata_growth ex', ex_cleanup := c\<rparr>))"
    "ex_warmup ex' = ex_warmup ex" "ex_sequential ex' = ex_sequential ex" "ex_concurrent ex' = ex_concurrent ex"
    "ex_baseline_object_audit ex' = ex_baseline_object_audit ex" "ex_cleanup ex' = c"
    "ex_preflight ex' = ex_preflight ex"
proof -
  obtain r s1 where load: "port_load_table (env_port env) s = (r, s1)" by (meson surj_pair)
  show ?thesis
  proof (cases r)
    case (Inl failure)
    then have "clean_and_finish (env_port env) (ex\<lparr>ex_final_table := Failed (CatalogStep failure)\<rparr>) s1
        = Some (Ok ex', s')"
      using assms(1) by (simp add: final_stage_def load)
    with no_final_table_no_pass assms(2) show ?thesis by (fastforce simp: evidence_output_def)
  next
    case (Inr snapshot)
    let ?table = "final_table_of env config created tr acc snapshot"
    obtain a s2 where audit: "env_audit env tr (ts_metadata_location snapshot) s1 = (a, s2)" by (meson surj_pair)
    let ?ex2 = "ex\<lparr>ex_final_table := Succeeded ?table, ex_final_object_audit :=
        (case a of Inr x \<Rightarrow> Succeeded x | Inl failure \<Rightarrow> Failed (ObjectStoreStep failure))\<rparr>"
    let ?ex3 = "?ex2\<lparr>ex_metadata_growth := growth_of_phases baseline ?ex2\<rparr>"
    have "clean_and_finish (env_port env) ?ex3 s2 = Some (Ok ex', s')"
      using assms(1) by (simp add: final_stage_def load Inr audit Let_def)
    from clean_and_finish_passed [OF this assms(2)] obtain c where
      c: "ex' = finalize (?ex3\<lparr>ex_cleanup := c\<rparr>) False"
        "all_passed (evaluate_checks (?ex3\<lparr>ex_cleanup := c\<rparr>))" .
    then obtain x where a: "a = Inr x"
      by (cases a) (auto simp: all_passed_def evaluate_checks_def evidence_output_def)
    have growth: "growth_of_phases baseline ?ex2 = growth_of_phases baseline (ex\<lparr>ex_final_object_audit := Succeeded x\<rparr>)"
      by (simp add: growth_of_phases_def a split: option.split)
    show ?thesis
    proof (rule that)
      show "ex_final_table ex' = Succeeded ?table" "ex_final_object_audit ex' = Succeeded x"
        by (simp_all add: c(1) a finalize_def Let_def)
      show "final_table_passed ?table"
        using c(2) by (simp add: all_passed_def evaluate_checks_def evidence_output_def)
      show "is_some_and (evidence_output (growth_of_phases baseline (ex\<lparr>ex_final_object_audit := Succeeded x\<rparr>))) sufficient"
        using c(2) unfolding growth [symmetric] by (simp add: all_passed_def evaluate_checks_def)
      show "all_passed (evaluate_checks (ex\<lparr>ex_final_table := ex_final_table ex', ex_final_object_audit := Succeeded x,
        ex_metadata_growth := ex_metadata_growth ex', ex_cleanup := c\<rparr>))"
        using c(2) by (simp add: c(1) a finalize_def Let_def)
    qed (simp_all add: c(1) finalize_def Let_def)
  qed
qed

lemma clean_and_finish_commits:
  assumes "clean_and_finish (traced_port port) ex s = Some (r, s')"
  shows "commits (snd s') = commits (snd s)"
proof -
  have "snd (snd (cleanup (traced_port port) s)) = snd s @ cleanup_calls"
    by (simp add: cleanup_def traced_port_def cleanup_calls_def observe_def split: prod.splits)
  with assms show ?thesis by (auto simp: clean_and_finish_def cleanup_calls_def split: prod.splits)
qed

lemma final_stage_commits:
  assumes "final_stage (traced_env env) config created tr n acc ex s = Some (r, s')"
  shows "commits (snd s') = commits (snd s)"
proof -
  obtain a w1 where load: "port_load_table (env_port env) (fst s) = (a, w1)" by force
  have port: "port_load_table (traced_port (env_port env)) s = (a, (w1, snd s @ [CallLoadTable]))"
    by (simp add: traced_port_def observe_def load)
  obtain ex' w2 where "clean_and_finish (traced_port (env_port env)) ex' (w2, snd s @ [CallLoadTable]) = Some (r, s')"
    using assms by (cases a) (auto simp: final_stage_def port unobserved_def Let_def split: prod.splits)
  from clean_and_finish_commits [OF this] show ?thesis by simp
qed

text \<open>The phases of a passing round.\<close>

lemma phase_stages_passed:
  assumes run: "phase_stages (traced_env env) config created tr n ex s = Some (Ok ex', s')"
    and pass: "execution_passed ex'" and fresh: "evidence_output (ex_final_table ex) = None"
  obtains ws ss ps p1 p2 p3 acc ex3 s3 where
    "commits (snd s') = commits (snd s) @ ws @ ss @ ps"
    "map fst ws = map (identity_text config ''warmup'' None) [0..<unat (wk_warmup_commits (cfg_workload config))]"
    "map fst ss = map (identity_text config ''sequential'' None) [0..<unat (wk_sequential_commits (cfg_workload config))]"
    "\<exists>a. accounts_for (env_sha env) p1 a ws" "\<exists>a. accounts_for (env_sha env) p2 a ss"
    "\<exists>a. accounts_for (env_sha env) p3 a ps" "acc = accepted_digests (env_sha env) (ws @ ss @ ps)"
    "ex3 = ex\<lparr>ex_warmup := Succeeded p1, ex_sequential := Succeeded p2, ex_concurrent := Succeeded p3\<rparr>"
    "final_stage (traced_env env) config created tr n acc ex3 s3 = Some (Ok ex', s')"
proof -
  let ?port = "traced_port (env_port env)"
  obtain r1 s1 where one: "run_serial_phase (traced_env env) config ''warmup''
      (wk_warmup_commits (cfg_workload config)) (ts_table_uuid created) s = (r1, s1)" by (meson surj_pair)
  obtain e1 acc1 go1 where rec1: "record_phase {} r1 = (e1, acc1, go1)" by (metis prod_cases3)
  obtain r2 s2 where two: "run_serial_phase (traced_env env) config ''sequential''
      (wk_sequential_commits (cfg_workload config)) (ts_table_uuid created) s1 = (r2, s2)" by (meson surj_pair)
  obtain e2 acc2 go2 where rec2: "record_phase acc1 r2 = (e2, acc2, go2)" by (metis prod_cases3)
  note defs = phase_stages_def Let_def one rec1 two rec2
  have go: "go1" "go2"
    using run pass no_final_table_no_pass fresh by (fastforce simp: defs split: if_splits)+
  with run obtain r3 s3 where three: "run_concurrent_phase (traced_env env) config (ts_table_uuid created) s2
      = Some (r3, s3)"
    by (auto simp: defs split: option.splits)
  obtain e3 acc3 go3 where rec3: "record_phase acc2 r3 = (e3, acc3, go3)" by (metis prod_cases3)
  have go3: "go3"
    using run pass go no_final_table_no_pass fresh by (fastforce simp: defs three rec3 split: if_splits)
  from record_phase_go [OF rec1 [unfolded eqTrueI [OF go(1)]]] obtain p1 a1
    where p1: "r1 = Inr (p1, a1)" "e1 = Succeeded p1" "acc1 = a1" by auto
  from record_phase_go [OF rec2 [unfolded eqTrueI [OF go(2)]]] obtain p2 a2
    where p2: "r2 = Inr (p2, a2)" "e2 = Succeeded p2" "acc2 = acc1 \<union> a2" by auto
  from record_phase_go [OF rec3 [unfolded eqTrueI [OF go3]]] obtain p3 a3
    where p3: "r3 = Inr (p3, a3)" "e3 = Succeeded p3" "acc3 = acc2 \<union> a3" by auto
  from run_serial_phase_accounts [OF one [unfolded p1(1)]] obtain ws where
    ws: "commits (snd s1) = commits (snd s) @ ws" "accounts_for (env_sha env) p1 a1 ws"
      "map fst ws = map (identity_text config ''warmup'' None) [0..<unat (wk_warmup_commits (cfg_workload config))]"
    by blast
  from run_serial_phase_accounts [OF two [unfolded p2(1)]] obtain ss where
    ss: "commits (snd s2) = commits (snd s1) @ ss" "accounts_for (env_sha env) p2 a2 ss"
      "map fst ss = map (identity_text config ''sequential'' None) [0..<unat (wk_sequential_commits (cfg_workload config))]"
    by blast
  from concurrent_accounts [OF three [unfolded p3(1)]] obtain cs where
    ps: "snd s3 = snd s2 @ cs" "accounts_for (env_sha env) p3 a3 (commits cs)" by blast
  let ?ex3 = "ex\<lparr>ex_warmup := Succeeded p1, ex_sequential := Succeeded p2, ex_concurrent := Succeeded p3\<rparr>"
  have acc: "acc3 = accepted_digests (env_sha env) (ws @ ss @ commits cs)"
    using ws(2) ss(2) ps(2) by (simp add: accounts_for_def p1 p2 p3 Un_assoc)
  have "final_stage (traced_env env) config created tr n acc3
      (ex\<lparr>ex_warmup := e1, ex_sequential := e2, ex_concurrent := e3\<rparr>) s3 = Some (Ok ex', s')"
    using run go go3 by (simp add: defs three rec3)
  then have final: "final_stage (traced_env env) config created tr n acc3 ?ex3 s3 = Some (Ok ex', s')"
    by (simp only: p1 p2 p3)
  show ?thesis
  proof (rule that [OF _ ws(3) ss(3) _ _ _ acc refl final])
    show "commits (snd s') = commits (snd s) @ ws @ ss @ commits cs"
      using final_stage_commits [OF final] by (simp add: ps(1) ss(1) ws(1))
  qed (use ws(2) ss(2) ps(2) in blast)+
qed

lemma preflight_no_pass:
  "\<not> observed_absent (ex_preflight ex) \<Longrightarrow> \<not> execution_passed (finalize ex c)"
  by (simp add: finalize_passed all_passed_def evaluate_checks_def)

lemma round_reaches_phases:
  assumes run: "run_contention_round (traced_env env) config (w, []) = Some (Ok ex, s)"
    and pass: "execution_passed ex"
  obtains created tr audit ex0 s0 where
    "phase_stages (traced_env env) config created tr (audit_metadata_objects audit) ex0 s0 = Some (Ok ex, s)"
    "commits (snd s0) = []" "evidence_output (ex_final_table ex0) = None"
    "ex_baseline_object_audit ex0 = Succeeded audit" "ex_workload ex0 = cfg_workload config"
proof -
  let ?port = "traced_port (env_port env)" and ?ex = "execution_pending config"
  have fresh: "evidence_output (ex_final_table ?ex) = None" "ex_workload ?ex = cfg_workload config"
    by (simp_all add: execution_pending_def)
  obtain r w1 where pre: "port_namespace_presence (env_port env) w = (r, w1)" by force
  have port: "port_namespace_presence ?port (w, []) = (r, (w1, [CallNamespacePresence]))"
    by (simp add: traced_port_def observe_def pre)
  obtain observation where r: "r = Inr observation" and absent: "po_presence observation \<noteq> Present"
    using run pass preflight_no_pass
    by (cases r) (fastforce simp: run_contention_round_def port Let_def observed_absent_def split: if_splits)+
  obtain c w2 where create: "port_create_namespace (env_port env) w1 = (c, w2)" by force
  obtain t w3 where table: "port_create_table (env_port env) w2 = (t, w3)" by force
  let ?s2 = "(w2, [CallNamespacePresence, CallCreateNamespace])"
  let ?s3 = "(w3, [CallNamespacePresence, CallCreateNamespace, CallCreateTable])"
  have ports: "port_create_namespace ?port (w1, [CallNamespacePresence]) = (c, ?s2)"
      "port_create_table ?port ?s2 = (t, ?s3)"
    by (simp_all add: traced_port_def observe_def create table)
  note defs = run_contention_round_def port r absent Let_def ports
  obtain receipt where c: "c = Inr receipt"
    using run pass no_final_table_no_pass fresh(1) by (cases c) (fastforce simp: defs)+
  obtain created where t: "t = Inr created"
    using run pass no_final_table_no_pass fresh(1) by (cases t) (fastforce simp: defs c)+
  obtain ex1 where base: "baseline_stage (traced_env env) config created ex1 ?s3 = Some (Ok ex, s)"
    and ex1: "evidence_output (ex_final_table ex1) = None" "ex_workload ex1 = cfg_workload config"
    using run fresh by (auto simp: defs c t)
  obtain tr where tr: "table_root_new (env_lib env) (ts_location created) (ts_metadata_location created)
      (cfg_object_store_bucket config) = Inr tr"
    using base pass no_final_table_no_pass ex1(1)
    by (cases "table_root_new (env_lib env) (ts_location created) (ts_metadata_location created)
      (cfg_object_store_bucket config)") (fastforce simp: baseline_stage_def)+
  obtain a w4 where audit: "env_audit env tr (ts_metadata_location created) w3 = (a, w4)" by force
  note base' = base [unfolded baseline_stage_def, simplified tr traced_env_simps, simplified,
      simplified unobserved_def audit, simplified]
  obtain x where x: "a = Inr x" and "audit_usable x"
    using base' pass no_final_table_no_pass ex1(1)
    by (cases a) (fastforce simp: Let_def audit split: if_splits)+
  then show ?thesis
    using that [of created tr x "ex1\<lparr>ex_baseline_object_audit := Succeeded x\<rparr>"
        "(w4, [CallNamespacePresence, CallCreateNamespace, CallCreateTable])"] base' ex1
    by (simp add: Let_def audit)
qed

text \<open>
  C1. What a passing round has shown of the catalog. The commits it sent are the configured number of
  warm-up commits and of sequential commits, with the identities the round assigns to them, all
  accepted, followed by the concurrent ones, among which at least one was accepted and none was an
  error. The digest of the property found in the final table is the digest of a commit that the
  catalog accepted in this round. The metadata objects below the table root grew by at least the
  number of accepted commits. The namespace was absent at the start, and table and namespace were
  dropped and seen absent at the end.
\<close>

theorem round_pass_sound:
  assumes "run_contention_round (traced_env env) config (w, []) = Some (Ok ex, (w', calls))"
    and "execution_passed ex"
  shows "\<exists>ws ss ps table baseline final digest.
    commits calls = ws @ ss @ ps
    \<and> map fst ws = map (identity_text config ''warmup'' None) [0..<unat (wk_warmup_commits (cfg_workload config))]
    \<and> map fst ss
        = map (identity_text config ''sequential'' None) [0..<unat (wk_sequential_commits (cfg_workload config))]
    \<and> list_all (\<lambda>(i, out). out = Accepted) (ws @ ss)
    \<and> \<not> list_ex (\<lambda>(i, out). is_error out) ps \<and> list_ex (\<lambda>(i, out). out = Accepted) ps
    \<and> ex_final_table ex = Succeeded table \<and> request_sha256 (final_attribution table) = Some digest
    \<and> digest \<in> accepted_digests (env_sha env) (ws @ ss @ ps)
    \<and> ex_baseline_object_audit ex = Succeeded baseline \<and> ex_final_object_audit ex = Succeeded final
    \<and> unat (audit_metadata_objects baseline) + outcomes (\<lambda>out. out = Accepted) (ws @ ss @ ps)
        \<le> unat (audit_metadata_objects final)
    \<and> observed_absent (ex_preflight ex) \<and> cleanup_passed (ex_cleanup ex)"
proof -
  let ?port = "traced_port (env_port env)"
  obtain created tr audit ex0 s0 where
    phases: "phase_stages (traced_env env) config created tr (audit_metadata_objects audit) ex0 s0
      = Some (Ok ex, (w', calls))"
    and ex0: "commits (snd s0) = []" "evidence_output (ex_final_table ex0) = None"
      "ex_baseline_object_audit ex0 = Succeeded audit" "ex_workload ex0 = cfg_workload config"
    using round_reaches_phases [OF assms] .
  from phase_stages_passed [OF phases assms(2) ex0(2)] obtain ws ss ps p1 p2 p3 acc ex3 s3 where
    calls: "commits (snd (w', calls)) = commits (snd s0) @ ws @ ss @ ps" and
    cs: "map fst ws = map (identity_text config ''warmup'' None) [0..<unat (wk_warmup_commits (cfg_workload config))]"
      "map fst ss = map (identity_text config ''sequential'' None) [0..<unat (wk_sequential_commits (cfg_workload config))]"
    and acts: "\<exists>a. accounts_for (env_sha env) p1 a ws" "\<exists>a. accounts_for (env_sha env) p2 a ss"
      "\<exists>a. accounts_for (env_sha env) p3 a ps"
    and acc: "acc = accepted_digests (env_sha env) (ws @ ss @ ps)"
    and ex3: "ex3 = ex0\<lparr>ex_warmup := Succeeded p1, ex_sequential := Succeeded p2, ex_concurrent := Succeeded p3\<rparr>"
    and final: "final_stage (traced_env env) config created tr (audit_metadata_objects audit) acc ex3 s3
      = Some (Ok ex, (w', calls))"
    .
  from final_stage_passed [OF final assms(2)] obtain snapshot faudit c where
    f: "ex_final_table ex = Succeeded (final_table_of (traced_env env) config created tr acc snapshot)"
      "final_table_passed (final_table_of (traced_env env) config created tr acc snapshot)"
      "ex_final_object_audit ex = Succeeded faudit"
      "is_some_and (evidence_output (growth_of_phases (audit_metadata_objects audit)
         (ex3\<lparr>ex_final_object_audit := Succeeded faudit\<rparr>))) sufficient"
      "all_passed (evaluate_checks (ex3\<lparr>ex_final_table := ex_final_table ex, ex_final_object_audit := Succeeded faudit,
        ex_metadata_growth := ex_metadata_growth ex, ex_cleanup := c\<rparr>))"
      "ex_baseline_object_audit ex = ex_baseline_object_audit ex3" "ex_cleanup ex = c"
      "ex_preflight ex = ex_preflight ex3" by blast
  let ?table = "final_table_of (traced_env env) config created tr acc snapshot"
  have checks: "serial_accounted p1 (wk_warmup_commits (cfg_workload config))"
      "serial_accounted p2 (wk_sequential_commits (cfg_workload config))"
      "errors (counts p3) = 0" "made_progress p3" "cleanup_passed c" "observed_absent (ex_preflight ex3)"
    using f(5) by (simp_all add: all_passed_def evaluate_checks_def ex3 ex0(4))
  have all: "list_all (\<lambda>(i, out). out = Accepted) (ws @ ss)"
    using serial_all_accepted checks(1,2) acts by (metis list_all_append)
  have conc: "outcomes is_error ps = 0" "outcomes (\<lambda>out. out = Accepted) ps \<noteq> 0"
    using acts(3) checks(3,4)
    by (auto simp: accounts_for_def made_progress_def word_less_nat_alt)
  obtain digest where digest: "request_sha256 (final_attribution ?table) = Some digest" "digest \<in> acc"
    using f(2) by (auto simp: final_table_passed_def final_table_of_def attribution_passed_def
        attribution_evaluate_def is_some_and_iff contains_value_def)
  have growth: "unat (audit_metadata_objects audit) + outcomes (\<lambda>out. out = Accepted) (ws @ ss @ ps)
      \<le> unat (audit_metadata_objects faudit)"
    using f(4) acts
    by (auto simp: growth_of_phases_def ex3 growth_evaluate_eq accounts_for_def Let_def is_some_and_iff
        add.assoc split: if_splits)
  show ?thesis
    using calls ex0(1) cs all conc f digest growth checks(5,6) ex0(3)
    by (intro exI [of _ ws] exI [of _ ss] exI [of _ ps] exI [of _ ?table] exI [of _ audit] exI [of _ faudit]
        exI [of _ digest]) (simp add: outcomes_zero ex3 acc)
qed

section \<open>A catalog that accepts every commit passes the serial phases\<close>

lemma elapsed_since_wf [simp]: "duration_wf (elapsed_since start now)"
  by (simp add: elapsed_since_def duration_wf_def Let_def unat_of_nat)

lemma elapsed_since_positive:
  assumes "start < now"
  shows "\<not> duration_is_zero (elapsed_since start now)"
proof -
  let ?n = "min (now - start) (2 ^ 64 * 1000000000 - 1)"
  have n: "0 < ?n" "?n div 1000000000 < 2 ^ 64" using assms by auto
  have s: "unat (of_nat (?n div 1000000000) :: u64) = ?n div 1000000000"
    using n(2) by (simp add: unat_of_nat)
  have m: "unat (of_nat (?n mod 1000000000) :: u32) = ?n mod 1000000000"
    by (simp add: unat_of_nat)
  show ?thesis
  proof
    assume "duration_is_zero (elapsed_since start now)"
    then have "?n div 1000000000 = 0" "?n mod 1000000000 = 0"
      using s m by (simp_all add: duration_is_zero_def elapsed_since_def Let_def)
    then have "?n = 0" by (metis div_mult_mod_eq mult_0 add_0)
    with n(1) show False by simp
  qed
qed

lemma finish_latencies:
  "ledger_finish l elapsed = Inr (p, acc) \<Longrightarrow> optional_distribution (led_all l) = Inr (lat_all (latency_ms p))"
  by (auto simp: ledger_finish_def ledger_latencies_def and_then_eq_Inr split: if_splits)

lemma latency_complete_of_samples:
  assumes samples: "samples \<noteq> []" "list_all duration_wf samples" "length samples < 2 ^ 64"
    and dist: "optional_distribution samples = Inr (lat_all (latency_ms p))"
    and n: "unat n = length samples"
  shows "latency_complete p n"
proof -
  let ?xs = "map as_millis_f64 samples"
  let ?ys = "sort_by total_le ?xs"
  have bounded: "bounded_samples ?xs" by (rule bounded_latencies [OF samples])
  obtain d where d: "nonnegative_distribution ?xs = Inr d"
    "dist_minimum d = hd ?ys" "dist_maximum d = last ?ys" "unat (dist_samples d) = length ?xs"
    "dist_quantiles d = map (\<lambda>(name, p). (name, nearest_rank ?ys p)) quantile_probabilities"
    using nonnegative_distribution_bounded [OF bounded] by metis
  have sorted: "sorted (map f64_val ?ys)" by (rule bounded_samples_sorted(2) [OF bounded])
  have len: "length ?ys = length samples" "?ys \<noteq> []"
    using samples(1) by (simp, metis length_0_conv length_map length_sort_by)
  have fin: "is_finite y" if "y \<in> set ?ys" for y
    using bounded that by (auto simp: bounded_samples_def list_all_iff in_range_def)
  have rank: "nearest_rank ?ys q \<in> set ?ys" for q
    unfolding nearest_rank_def using nearest_rank_index_less [of "length ?ys" q] len samples(1) by (intro nth_mem) auto
  have ends: "hd ?ys \<in> set ?ys" "last ?ys \<in> set ?ys"
    by (rule hd_in_set [OF len(2)], rule last_in_set [OF len(2)])
  have low: "f64_val (hd ?ys) \<le> f64_val (nearest_rank ?ys q)" for q
    using sorted_nth_val [OF sorted, of 0 "nearest_rank_index (length ?ys) q"] len
      nearest_rank_index_less [of "length ?ys" q] samples(1) by (simp add: nearest_rank_def hd_conv_nth)
  have high: "f64_val (nearest_rank ?ys q) \<le> f64_val (last ?ys)" for q
    using sorted_nth_val [OF sorted, of "nearest_rank_index (length ?ys) q" "length ?ys - 1"] len
      nearest_rank_index_less [of "length ?ys" q] samples(1) by (simp add: nearest_rank_def last_conv_nth)
  note asc = quantiles_ascending [OF sorted len(2)] 
  have lat: "lat_all (latency_ms p) = Some d"
    using dist samples(1) d(1) by (simp add: optional_distribution_def latency_distribution_def)
  show ?thesis
    using fin rank ends low high asc len samples(3) n d(4)
    by (simp add: latency_complete_def lat d(2,3,5) quantile_probabilities_def f64_le_finite word_unat_eq_iff)
qed

lemma accepted_finish:
  assumes rep: "represents sha l es" and "es \<noteq> []" and len: "length es = unat n"
    and acc: "list_all (\<lambda>(i, t, out). out = Accepted \<and> duration_wf t) es"
    and pos: "\<not> duration_is_zero elapsed" "duration_wf elapsed"
  obtains p where "ledger_finish l elapsed = Inr (p, log_accepted sha es)"
    "serial_accounted p n" "latency_complete p n"
proof -
  have wf: "list_all (\<lambda>(i, t, out). duration_wf t) es"
    using acc by (auto simp: list_all_iff)
  have short: "length es < 2 ^ 64" using unsigned_less [of n, where 'a = nat] len by simp
  obtain p where p: "ledger_finish l elapsed = Inr (p, log_accepted sha es)"
    using finish_represents [OF rep wf short pos(2,1)] by metis
  have only: "filter (\<lambda>(i, t, out). out = Accepted) es = es" "filter (\<lambda>(i, t, out). out = Conflict) es = []"
      "filter (\<lambda>(i, t, out). is_error out) es = []"
    using acc by (auto simp: filter_id_conv filter_empty_conv list_all_iff is_error_def)
  have counts: "counts p = \<lparr>attempts = n, accepted = n, conflicts = 0, errors = 0\<rparr>"
    using finish_Inr [OF rep p] len only
    by (auto simp: log_latencies_def word_unat_eq_iff intro!: request_counts.equality)
  have "serial_accounted p n"
    using unsigned_less [of n, where 'a = nat]
    by (simp add: serial_accounted_def counts fully_accounted_def checked_add_def)
  moreover have "latency_complete p n"
  proof (rule latency_complete_of_samples [OF _ _ _ finish_latencies [OF p]])
    have led: "led_all l = log_latencies (\<lambda>_. True) es" using rep by (simp add: represents_def)
    show "led_all l \<noteq> []" "length (led_all l) < 2 ^ 64" "unat n = length (led_all l)"
      using assms(2) len short log_latencies_split(1) [of es] by (auto simp: led simp flip: length_0_conv)
    show "list_all duration_wf (led_all l)" unfolding led by (rule log_latencies_wf [OF wf])
  qed
  ultimately show ?thesis by (rule that [OF p])
qed

definition accepts_all :: "'w round_env \<Rightarrow> bool" where
  "accepts_all env \<longleftrightarrow> (\<forall>uuid property ident w. fst (port_commit (env_port env) uuid property ident w) = Accepted)"

lemma serial_requests_accepted:
  assumes acc: "accepts_all env" and passes: "time_passes env time"
    and "represents (env_sha env) l es" and "list_all (\<lambda>(i, t, out). out = Accepted \<and> duration_wf t) es"
    and "distinct (log_digests (env_sha env) es
        @ map (\<lambda>n. identity_digest (env_sha env) (identity_text config phase None n)) ns)"
  shows "\<exists>l' fs w'. serial_requests env config phase uuid ns l w = (Inr l', w')
    \<and> represents (env_sha env) l' (es @ fs) \<and> length fs = length ns
    \<and> list_all (\<lambda>(i, t, out). out = Accepted \<and> duration_wf t) (es @ fs)
    \<and> time w \<le> time w' \<and> (ns \<noteq> [] \<longrightarrow> time w < time w')"
  using assms(3-5)
proof (induction ns arbitrary: l es w)
  case Nil
  then show ?case by (intro exI [of _ l] exI [of _ "[]"] exI [of _ w]) simp
next
  case (Cons n ns)
  let ?ident = "identity_text config phase None n" and ?property = "wk_commit_property (cfg_workload config)"
  obtain t w1 where t: "env_clock env w = (t, w1)" by force
  obtain w2 where out: "port_commit (env_port env) uuid ?property ?ident w1 = (Accepted, w2)"
    using acc unfolding accepts_all_def by (metis prod.collapse)
  obtain now w3 where now: "env_clock env w2 = (now, w3)" by force
  let ?entry = "(?ident, elapsed_since t now, Accepted)"
  have later: "time w < time w3"
    using time_passes_clock [OF passes t] time_passes_commit [OF passes out] time_passes_clock [OF passes now]
    by linarith
  have none: "log_error_count (es @ [?entry]) e = 0" for e
    using Cons.prems(2) by (auto simp: log_error_count_def filter_empty_conv list_all_iff)
  have "admits (env_sha env) (es @ [?entry])"
    using Cons.prems(3) none by (simp add: admits_def ledger_simps)
  from record_represents [OF Cons.prems(1) this] obtain l1 where
    rec: "ledger_record (env_sha env) l ?ident (elapsed_since t now) Accepted = (Inr (), l1)"
      "represents (env_sha env) l1 (es @ [?entry])" by blast
  have accs: "list_all (\<lambda>(i, t, out). out = Accepted \<and> duration_wf t) (es @ [?entry])"
    using Cons.prems(2) by simp
  have dist: "distinct (log_digests (env_sha env) (es @ [?entry])
      @ map (\<lambda>n. identity_digest (env_sha env) (identity_text config phase None n)) ns)"
    using Cons.prems(3) by (auto simp: ledger_simps)
  obtain l' fs w' where rest: "serial_requests env config phase uuid ns l1 w3 = (Inr l', w')"
      "represents (env_sha env) l' ((es @ [?entry]) @ fs)" "length fs = length ns"
      "list_all (\<lambda>(i, t, out). out = Accepted \<and> duration_wf t) ((es @ [?entry]) @ fs)" "time w3 \<le> time w'"
    using Cons.IH [OF rec(2) accs dist, of w3] by blast
  moreover have "serial_requests env config phase uuid (n # ns) l w = (Inr l', w')"
    by (simp add: t out now rec(1) rest(1))
  ultimately show ?case
    using later by (intro exI [of _ l'] exI [of _ "?entry # fs"] exI [of _ w']) simp
qed

text \<open>
  C12. No false alarm in a serial phase: against a catalog that accepts every commit, with a clock that
  does not run backwards, commits that take time and digests that do not collide on the identities of
  the phase, a serial phase of at least one commit succeeds, its evidence counts exactly the
  configured number of commits as accepted, and its latency summary is complete, so both checks on
  the phase hold.
\<close>

theorem serial_phase_passes:
  assumes "accepts_all env" and "time_passes env time" and "0 < n"
    and "inj_on (identity_digest (env_sha env)) (identity_text config phase None ` {0..<unat n})"
  shows "\<exists>p acc w'. run_serial_phase env config phase n uuid w = (Ok (p, acc), w')
    \<and> serial_accounted p n \<and> latency_complete p n"
proof -
  let ?ns = "[0..<unat n]" and ?sha = "env_sha env"
  obtain t w1 where t: "env_clock env w = (t, w1)" by force
  have n: "?ns \<noteq> []" "length ?ns = unat n" using assms(3) by (auto simp: unat_gt_0 word_neq_0_conv)
  have "distinct (map (\<lambda>n. identity_digest ?sha (identity_text config phase None n)) ?ns)"
    using assms(4) by (auto simp: distinct_map inj_on_def identity_text_def)
  then have "distinct (log_digests ?sha [] @ map (\<lambda>n. identity_digest ?sha (identity_text config phase None n)) ?ns)"
    by (simp add: log_digests_def)
  from serial_requests_accepted [OF assms(1,2) represents_default _ this, of uuid w1] obtain l fs w2 where
    run: "serial_requests env config phase uuid ?ns ledger_default w1 = (Inr l, w2)"
      "represents ?sha l fs" "length fs = unat n"
      "list_all (\<lambda>(i, t, out). out = Accepted \<and> duration_wf t) fs" "time w1 < time w2"
    using n by auto
  obtain now w3 where now: "env_clock env w2 = (now, w3)" by force
  have "t < now"
    using time_passes_clock [OF assms(2) t] time_passes_clock [OF assms(2) now] run(5) by linarith
  then have pos: "\<not> duration_is_zero (elapsed_since t now)" by (rule elapsed_since_positive)
  obtain p where "ledger_finish l (elapsed_since t now) = Inr (p, log_accepted ?sha fs)"
      "serial_accounted p n" "latency_complete p n"
    by (rule accepted_finish [OF run(2) _ run(3,4) pos elapsed_since_wf]) (use n run(3) in auto)
  then show ?thesis
    by (intro exI [of _ p] exI [of _ "log_accepted ?sha fs"] exI [of _ w3])
      (simp add: run_serial_phase_def t run(1) now)
qed

theorem serial_phase_passes_witness:
  "\<exists>p acc w'. run_serial_phase (demo_env Absent 0) (demo_round_config 1) ''warmup'' 1 ''u'' 0 = (Ok (p, acc), w')
    \<and> serial_accounted p 1 \<and> latency_complete p 1"
proof -
  have "accepts_all (demo_env Absent 0)" by (simp add: accepts_all_def demo_env_def demo_port_def)
  moreover have "inj_on (identity_digest (env_sha (demo_env Absent 0)))
      (identity_text (demo_round_config 1) ''warmup'' None ` {0..<unat (1 :: u64)})"
    by simp
  ultimately show ?thesis using serial_phase_passes [OF _ demo_time_passes] by simp
qed

section \<open>A round that passes\<close>

text \<open>
  The concrete environment again, with a final table that carries the identity of the warm-up commit
  and an object store that has a metadata object for the created table and, later, one for each
  of the three commits.
\<close>

abbreviation pass_config :: round_execution_config where
  "pass_config \<equiv> demo_round_config 1"

definition pass_snapshot :: table_snapshot where
  "pass_snapshot = demo_snapshot\<lparr>ts_properties := [(''p'', identity_text pass_config ''warmup'' None 0)]\<rparr>"

definition pass_audit :: "nat \<Rightarrow> object_audit_snapshot" where
  "pass_audit w =
     \<lparr>audit_table_root = ''t'', audit_metadata_objects = (if w = 0 then 1 else 4), audit_metadata_bytes = 4,
      audit_referenced_metadata_location = ''m'', audit_referenced_metadata_exists = True\<rparr>"

definition pass_env :: "nat round_env" where
  "pass_env = (demo_env Absent 3)
     \<lparr>env_port := (demo_port Absent)\<lparr>port_load_table := (\<lambda>w. (Ok pass_snapshot, w))\<rparr>,
      env_audit := (\<lambda>tr location w. (Ok (pass_audit w), w))\<rparr>"

lemma pass_env_clock: "env_clock (traced_env pass_env) (n, cs) = (n, (Suc n, cs))"
  by (simp add: pass_env_def demo_env_def unobserved_def)

lemma pass_env_commit:
  "port_commit (env_port (traced_env pass_env)) u q i (n, cs) = (Accepted, (n + 1000000, cs @ [CallCommit i Accepted]))"
  by (simp add: pass_env_def demo_env_def demo_port_def traced_port_def)

lemma pass_env_simps:
  "env_sha (traced_env pass_env) = demo_sha" "env_instant_max (traced_env pass_env) = 2 ^ 64"
  "env_join_order (traced_env pass_env) = [0]" "env_schedule (traced_env pass_env) = [Advance 0, Advance 0, Advance 0]"
  by (simp_all add: pass_env_def demo_env_def numeral_3_eq_3)

lemma Suc_plus_numeral: "Suc (n + numeral k) = n + numeral (k + num.One)"
  by (metis Suc_eq_plus1 add.assoc numeral_One numeral_add)

lemmas pass_env_calls = pass_env_clock pass_env_commit pass_env_simps

text \<open>A ledger of one accepted commit and its summary.\<close>

definition one_commit :: "string \<Rightarrow> duration \<Rightarrow> request_ledger" where
  "one_commit i t = snd (ledger_record demo_sha ledger_default i t Accepted)"

lemma one_commit_recorded: "ledger_record demo_sha ledger_default i t Accepted = (Inr (), one_commit i t)"
  by (simp add: one_commit_def ledger_record_def ledger_default_def)

lemma one_commit_merged: "ledger_try_merge ledger_default (one_commit i t) = (Inr (), one_commit i t)"
  by (simp add: one_commit_def ledger_record_def ledger_default_def ledger_try_merge_def counts_addable_def
      add_counts_def accepted_try_extend_def accepted_insert_def)

lemma one_commit_finish:
  assumes "start < now"
  obtains p where "ledger_finish (one_commit i (elapsed_since a b)) (elapsed_since start now)
      = Inr (p, {identity_digest demo_sha i})" "serial_accounted p 1" "latency_complete p 1"
proof -
  have "represents demo_sha (one_commit i (elapsed_since a b)) [(i, elapsed_since a b, Accepted)]"
    using record_Inr [OF represents_default one_commit_recorded] by simp
  from accepted_finish [OF this, of 1 "elapsed_since start now"] elapsed_since_positive [OF assms]
  obtain p where "ledger_finish (one_commit i (elapsed_since a b)) (elapsed_since start now)
      = Inr (p, log_accepted demo_sha [(i, elapsed_since a b, Accepted)])"
      "serial_accounted p 1" "latency_complete p 1" by auto
  with that show ?thesis by (simp add: log_accepted_def log_digests_def)
qed

lemma pass_serial:
  "\<exists>p cs'. run_serial_phase (traced_env pass_env) pass_config phase 1 ''u'' (n, cs)
      = (Ok (p, {identity_digest demo_sha (identity_text pass_config phase None 0)}), (n + 1000004, cs'))
    \<and> serial_accounted p 1 \<and> latency_complete p 1"
proof -
  let ?i = "identity_text pass_config phase None 0"
  obtain p where "ledger_finish (one_commit ?i (elapsed_since (Suc n) (n + 1000002))) (elapsed_since n (n + 1000003))
      = Inr (p, {identity_digest demo_sha ?i})" "serial_accounted p 1" "latency_complete p 1"
    by (rule one_commit_finish [of n "n + 1000003"]) simp_all
  then show ?thesis
    by (intro exI [of _ p] exI [of _ "cs @ [CallCommit ?i Accepted]"])
      (simp add: run_serial_phase_def pass_env_calls one_commit_recorded Suc_plus_numeral del: traced_env_simps)
qed

lemma pass_writers:
  fixes n cs
  defines "i \<equiv> identity_text pass_config ''concurrent'' (Some 0) 0"
  defines "l \<equiv> one_commit i (elapsed_since (Suc n) (n + 1000002))"
  shows "run_writers (traced_env pass_env) pass_config ''u'' (n + 1000000) (map writer_start [0..<1], (Suc n, cs))
    = ([\<lparr>wr_index = 0, wr_ledger = l, wr_sequence = 1, wr_status = Returned (Inr l)\<rparr>],
       (n + 1000004, cs @ [CallCommit i Accepted]))"
proof -
  note defs = writer_advance_def writer_start_def pass_env_calls
  let ?adv = "writer_advance (traced_env pass_env) pass_config ''u'' (n + 1000000)"
  have one: "?adv (writer_start 0) (Suc n, cs)
      = ((writer_start 0)\<lparr>wr_status := InFlight i (Suc n)\<rparr>, (Suc (Suc n), cs))"
    by (simp add: defs i_def del: traced_env_simps)
  have two: "?adv ((writer_start 0)\<lparr>wr_status := InFlight i (Suc n)\<rparr>) (Suc (Suc n), cs)
      = (\<lparr>wr_index = 0, wr_ledger = l, wr_sequence = 1, wr_status = Ready\<rparr>,
         (n + 1000003, cs @ [CallCommit i Accepted]))"
    by (simp add: defs checked_add_def one_commit_recorded l_def Suc_plus_numeral del: traced_env_simps)
  have three: "?adv \<lparr>wr_index = 0, wr_ledger = l, wr_sequence = 1, wr_status = Ready\<rparr>
        (n + 1000003, cs @ [CallCommit i Accepted])
      = (\<lparr>wr_index = 0, wr_ledger = l, wr_sequence = 1, wr_status = Returned (Inr l)\<rparr>,
         (n + 1000004, cs @ [CallCommit i Accepted]))"
    by (simp add: defs Suc_plus_numeral del: traced_env_simps)
  show ?thesis
    by (simp add: run_writers_def pass_env_simps one two three del: traced_env_simps)
qed

lemma pass_concurrent:
  assumes "n + 1000000 \<le> 2 ^ 64"
  shows "\<exists>p cs'. run_concurrent_phase (traced_env pass_env) pass_config ''u'' (n, cs)
      = Some (Ok (p, {identity_digest demo_sha (identity_text pass_config ''concurrent'' (Some 0) 0)}),
         (n + 1000005, cs'))
    \<and> serial_accounted p 1 \<and> latency_complete p 1"
proof -
  let ?i = "identity_text pass_config ''concurrent'' (Some 0) 0"
  obtain p where p: "ledger_finish (one_commit ?i (elapsed_since (Suc n) (n + 1000002)))
      (elapsed_since n (n + 1000004)) = Inr (p, {identity_digest demo_sha ?i})"
      "serial_accounted p 1" "latency_complete p 1"
    by (rule one_commit_finish [of n "n + 1000004"]) simp_all
  have add: "instant_checked_add 18446744073709551616 n
      (wk_concurrent_duration_ms (cfg_workload pass_config)) = Some (n + 1000000)"
      "wk_concurrent_writers (cfg_workload pass_config) = 1"
    using assms by (simp_all add: pass_env_def demo_env_def demo_round_config_def instant_checked_add_def)
  show ?thesis
    using p pass_writers [of n cs]
    by (intro exI [of _ p] exI [of _ "cs @ [CallCommit ?i Accepted]"])
      (simp add: run_concurrent_phase_def pass_env_calls add try_from_nat_def checked_add_def writer_done_def Suc_plus_numeral
        join_writers_def join_writer_def one_commit_merged del: traced_env_simps)
qed

lemma serial_accounted_concurrent:
  assumes "serial_accounted p 1" "latency_complete p 1"
  shows "all_latencies_counted p" "errors (counts p) = 0" "made_progress p" "accepted (counts p) = 1"
  using assms by (auto simp: serial_accounted_def latency_complete_def all_latencies_counted_def made_progress_def
      split: option.splits)

lemma pass_workload:
  "wk_warmup_commits (cfg_workload pass_config) = 1" "wk_sequential_commits (cfg_workload pass_config) = 1"
  "wk_commit_property (cfg_workload pass_config) = ''p''" "cfg_object_store_bucket pass_config = ''lake''"
  by (simp_all add: demo_round_config_def)

lemma pass_calls:
  "env_port (traced_env pass_env) = traced_port (env_port pass_env)" "env_lib (traced_env pass_env) = demo_location_lib" "env_sha (traced_env pass_env) = demo_sha"
  "env_audit (traced_env pass_env) tr loc (n, cs) = (Ok (pass_audit n), (n, cs))"
  "port_load_table (traced_port (env_port pass_env)) (n, cs) = (Ok pass_snapshot, (n, cs @ [CallLoadTable]))"
  "fst (cleanup (traced_port (env_port pass_env)) (n, cs))
    = \<lparr>cl_drop_table_without_purge = Succeeded \<lparr>mr_http_status = 204\<rparr>,
       cl_verify_table_absent = Succeeded \<lparr>po_http_status = 404, po_presence = Absent\<rparr>,
       cl_drop_namespace = Succeeded \<lparr>mr_http_status = 204\<rparr>,
       cl_verify_namespace_absent = Succeeded \<lparr>po_http_status = 404, po_presence = Absent\<rparr>\<rparr>"
  by (simp_all add: pass_env_def demo_env_def unobserved_def traced_port_def observe_def demo_port_def cleanup_def
      catalog_evidence_def)
lemma pass_final:
  assumes p1: "serial_accounted p1 1" and p2: "serial_accounted p2 1" "latency_complete p2 1"
    and p3: "serial_accounted p3 1" "latency_complete p3 1"
    and ex3: "ex_preflight ex3 = Succeeded \<lparr>po_http_status = 404, po_presence = Absent\<rparr>"
      "evidence_passed (ex_create_namespace ex3)" "evidence_passed (ex_create_table ex3)"
      "ex_baseline_object_audit ex3 = Succeeded (pass_audit 0)" "ex_workload ex3 = cfg_workload pass_config"
      "ex_warmup ex3 = Succeeded p1" "ex_sequential ex3 = Succeeded p2" "ex_concurrent ex3 = Succeeded p3"
    and acc: "identity_digest demo_sha (identity_text pass_config ''warmup'' None 0) \<in> acc"
  shows "\<exists>ex. (\<exists>w cs. final_stage (traced_env pass_env) pass_config demo_snapshot demo_table_root 1 acc ex3
      (3000013, cs3) = Some (Ok ex, w, cs)) \<and> execution_passed ex"
proof -
  have root: "contains_metadata_location demo_location_lib demo_table_root ''s3://lake/t/m.metadata.json''"
    by code_simp
  have growth: "accepted (counts p1) = 1" "accepted (counts p2) = 1"
    using p1 p2 by (auto simp: serial_accounted_def)
  show ?thesis
    using assms serial_accounted_concurrent [OF p3] root growth
    by (simp add: final_stage_def pass_calls clean_and_finish_def Let_def split_beta execution_passed_def finalize_def
        evaluate_checks_def all_passed_def observed_absent_def pass_audit_def audit_usable_def pass_workload
        final_table_of_def final_table_passed_def pass_snapshot_def demo_snapshot_def attribution_evaluate_def
        attribution_passed_def contains_value_def growth_of_phases_def growth_evaluate_def checked_add_def
        checked_sub_def cleanup_passed_def identity_digest_def evidence_passed_def is_some_and_def
      del: traced_env_simps)
qed

lemma pass_round:
  "\<exists>ex s. run_contention_round (traced_env pass_env) pass_config (0, []) = Some (Ok ex, s) \<and> execution_passed ex"
proof -
  let ?E = "traced_env pass_env" and ?w = "identity_text pass_config ''warmup'' None 0"
    and ?s = "identity_text pass_config ''sequential'' None 0"
    and ?c = "identity_text pass_config ''concurrent'' (Some 0) 0"
  obtain p1 cs1 where p1: "run_serial_phase ?E pass_config ''warmup'' 1 ''u''
      (0, [CallNamespacePresence, CallCreateNamespace, CallCreateTable])
      = (Ok (p1, {identity_digest demo_sha ?w}), (1000004, cs1))" "serial_accounted p1 1"
    using pass_serial [of "''warmup''" 0 "[CallNamespacePresence, CallCreateNamespace, CallCreateTable]"] by auto
  obtain p2 cs2 where p2: "run_serial_phase ?E pass_config ''sequential'' 1 ''u'' (1000004, cs1)
      = (Ok (p2, {identity_digest demo_sha ?s}), (2000008, cs2))" "serial_accounted p2 1" "latency_complete p2 1"
    using pass_serial [of "''sequential''" 1000004 cs1] by auto
  obtain p3 cs3 where p3: "run_concurrent_phase ?E pass_config ''u'' (2000008, cs2)
      = Some (Ok (p3, {identity_digest demo_sha ?c}), (3000013, cs3))" "serial_accounted p3 1" "latency_complete p3 1"
    using pass_concurrent [of 2000008 cs2] by auto
  have distinct: "identity_digest demo_sha ?w \<noteq> identity_digest demo_sha ?s"
      "identity_digest demo_sha ?c \<noteq> identity_digest demo_sha ?w"
      "identity_digest demo_sha ?c \<noteq> identity_digest demo_sha ?s"
    by (simp_all add: identity_digest_def digest_eq_iff demo_sha_def identity_text_def byte_def)
  note final = pass_final [OF p1(2) p2(2,3) p3(2,3)]
  have ports: "port_namespace_presence (traced_port (env_port pass_env)) (0, [])
        = (Ok \<lparr>po_http_status = 404, po_presence = Absent\<rparr>, (0, [CallNamespacePresence]))"
      "port_create_namespace (traced_port (env_port pass_env)) (0, [CallNamespacePresence])
        = (Ok \<lparr>mr_http_status = 200\<rparr>, (0, [CallNamespacePresence, CallCreateNamespace]))"
      "port_create_table (traced_port (env_port pass_env)) (0, [CallNamespacePresence, CallCreateNamespace])
        = (Ok demo_snapshot, (0, [CallNamespacePresence, CallCreateNamespace, CallCreateTable]))"
    by (simp_all add: pass_env_def demo_env_def demo_port_def traced_port_def observe_def)
  have snapshot: "ts_location demo_snapshot = ''s3://lake/t''" "ts_table_uuid demo_snapshot = ''u''"
      "ts_metadata_location demo_snapshot = ''s3://lake/t/m.metadata.json''"
    by (simp_all add: demo_snapshot_def)
  have usable: "audit_usable (pass_audit 0)" "audit_metadata_objects (pass_audit 0) = 1"
    by (simp_all add: audit_usable_def pass_audit_def)
  show ?thesis
    using distinct
    by (simp add: run_contention_round_def ports baseline_stage_def pass_calls(1,2,4) snapshot demo_round_root usable
        phase_stages_def pass_workload p1(1) p2(1) p3(1) record_phase_def accepted_try_extend_def Let_def
        execution_pending_def del: traced_env_simps)
      (rule final; simp add: evidence_passed_def)
qed

text \<open>The round above, with the facts that its verdict implies.\<close>

theorem round_pass_sound_witness:
  "\<exists>ex w calls ws ss ps table digest.
    run_contention_round (traced_env pass_env) pass_config (0, []) = Some (Ok ex, (w, calls))
    \<and> execution_passed ex \<and> commits calls = ws @ ss @ ps
    \<and> map fst ws = [identity_text pass_config ''warmup'' None 0]
    \<and> ex_final_table ex = Succeeded table \<and> request_sha256 (final_attribution table) = Some digest
    \<and> digest \<in> accepted_digests demo_sha (ws @ ss @ ps)"
proof -
  obtain ex w calls where
    run: "run_contention_round (traced_env pass_env) pass_config (0, []) = Some (Ok ex, (w, calls))"
    and pass: "execution_passed ex"
    using pass_round by force
  have sha: "env_sha pass_env = demo_sha" by (simp add: pass_env_def demo_env_def)
  have ns: "[0..<unat (1 :: u64)] = [0]" by simp
  from round_pass_sound [OF run pass, unfolded pass_workload sha ns list.map]
  obtain ws ss ps table digest where "commits calls = ws @ ss @ ps"
      "map fst ws = [identity_text pass_config ''warmup'' None 0]" "ex_final_table ex = Succeeded table"
      "request_sha256 (final_attribution table) = Some digest" "digest \<in> accepted_digests demo_sha (ws @ ss @ ps)"
    by (elim exE conjE) (rule that)
  with run pass show ?thesis
    by (intro exI [of _ ex] exI [of _ w] exI [of _ calls] exI [of _ ws] exI [of _ ss] exI [of _ ps] exI [of _ table]
        exI [of _ digest]) (intro conjI)
qed

end
