(* ===== verification/Commit_Aggregate.thy ===== *)
theory Commit_Aggregate
  imports Commit_Workflow
begin

text \<open>
  The transcript of a contention sweep (\<open>crates/commit/src/transcript.rs\<close>) and its aggregation
  (\<open>crates/commit/src/aggregate.rs\<close>): the check that the rounds follow the plan, the tally and the
  medians of every catalog, and the ranking. Serialization of a transcript is code derived by
  \<open>serde\<close>, the parameter \<open>to_value\<close> of the audit.
\<close>

section \<open>Transcript records\<close>

record transcript_profile =
  tp_ident :: string
  tp_resolved_at :: string

record runner_transcript =
  rt_component :: component_id
  rt_name :: string
  rt_version :: string
  rt_source_revision :: string
  rt_operating_system :: string
  rt_architecture :: string
  rt_profile_runtime_matches :: bool
  rt_profile_source_matches :: bool

definition runner_passed :: "runner_transcript \<Rightarrow> bool" where
  "runner_passed r \<longleftrightarrow> rt_profile_runtime_matches r \<and> rt_profile_source_matches r"

datatype catalog_round_outcome =
    Executed round_execution
  | NegotiationFailed catalog_negotiation_failure

record catalog_round_transcript =
  crt_repetition :: u32
  crt_kind :: round_kind
  crt_position :: u32
  crt_catalog :: catalog_run
  crt_negotiation :: catalog_negotiation_evidence
  crt_outcome :: catalog_round_outcome

definition round_transcript_passed :: "catalog_round_transcript \<Rightarrow> bool" where
  "round_transcript_passed r =
     (case crt_outcome r of Executed execution \<Rightarrow> execution_passed execution | NegotiationFailed _ \<Rightarrow> False)"

definition round_execution_of :: "catalog_round_transcript \<Rightarrow> round_execution option" where
  "round_execution_of r =
     (case crt_outcome r of Executed execution \<Rightarrow> Some execution | NegotiationFailed _ \<Rightarrow> None)"

record round_tally =
  tally_scheduled :: u32
  tally_executed :: u32
  tally_passed :: u32

record contention_measurements =
  cm_sequential_latency_p50_ms :: median_range
  cm_sequential_latency_p95_ms :: median_range
  cm_sequential_latency_p99_ms :: median_range
  cm_sequential_accepted_throughput_per_second :: median_range
  cm_concurrent_latency_p50_ms :: median_range
  cm_concurrent_latency_p95_ms :: median_range
  cm_concurrent_latency_p99_ms :: median_range
  cm_concurrent_attempted_throughput_per_second :: median_range
  cm_concurrent_accepted_throughput_per_second :: median_range
  cm_concurrent_conflict_rate :: median_range
  cm_concurrent_error_rate :: median_range
  cm_concurrent_attempts :: median_range
  cm_concurrent_accepted :: median_range
  cm_concurrent_conflicts :: median_range
  cm_metadata_object_growth :: median_range

datatype catalog_aggregate_classification = AggregatePass | AggregateFail "string list"

record catalog_aggregate =
  agg_catalog :: catalog_run
  agg_conditioning :: round_tally
  agg_measured :: round_tally
  agg_classification :: catalog_aggregate_classification
  agg_measurements :: "contention_measurements option"

definition aggregate_passed :: "catalog_aggregate \<Rightarrow> bool" where
  "aggregate_passed a \<longleftrightarrow> agg_classification a = AggregatePass \<and> agg_measurements a \<noteq> None"

datatype ranking_basis = ConcurrentAcceptedThroughputPerSecond
datatype ranking_tie_breaker = SequentialLatencyP50Ascending | CatalogIdAscending

datatype ranking_disposition =
    Ranked u32 median_range
  | NotRanked "string list"

record ranking_entry =
  re_catalog :: catalog_run
  re_disposition :: ranking_disposition

record contention_ranking =
  cr_basis :: ranking_basis
  cr_tie_breakers :: "ranking_tie_breaker list"
  cr_entries :: "ranking_entry list"

datatype sweep_classification = SweepPass | SweepFail "component_id list"

record contention_sanitization =
  san_policy :: string
  san_redactions :: "string list"
  san_raw_secrets_persisted :: bool
  san_raw_response_body_persisted :: bool
  san_raw_request_identities_persisted :: bool
  san_write_mode :: string

record contention_transcript =
  ct_format :: string
  ct_scenario :: transcript_scenario
  ct_contract_digests :: contract_digests
  ct_profile :: transcript_profile
  ct_runner :: runner_transcript
  ct_fixture_id :: string
  ct_parameters :: contention_parameters
  ct_rounds :: "catalog_round_transcript list"
  ct_aggregates :: "catalog_aggregate list"
  ct_ranking :: contention_ranking
  ct_classification :: sweep_classification
  ct_sanitization :: contention_sanitization

definition transcript_passed :: "contention_transcript \<Rightarrow> bool" where
  "transcript_passed t \<longleftrightarrow>
     runner_passed (ct_runner t) \<and> ct_classification t = SweepPass
     \<and> \<not> san_raw_secrets_persisted (ct_sanitization t)
     \<and> \<not> san_raw_response_body_persisted (ct_sanitization t)
     \<and> \<not> san_raw_request_identities_persisted (ct_sanitization t)"

datatype sanitization_violation = SerializationFailed | SensitiveRuntimeValue | RawRequestIdentity

definition violation_of :: "serialized_value_audit_failure \<Rightarrow> sanitization_violation" where
  "violation_of failure =
     (case failure of
        Serialization \<Rightarrow> SerializationFailed
      | SensitiveValue \<Rightarrow> SensitiveRuntimeValue
      | ForbiddenValue \<Rightarrow> RawRequestIdentity)"

definition identity_prefix :: "string \<Rightarrow> catalog_round_transcript \<Rightarrow> string" where
  "identity_prefix ident r =
     run_catalog (crt_catalog r) @ ''/'' @ ident @ ''/'' @ show_word (crt_repetition r) @ ''/''"

definition transcript_audit ::
  "(contention_transcript \<Rightarrow> json option) \<Rightarrow> contention_transcript \<Rightarrow> string list
   \<Rightarrow> sanitization_violation + unit" where
  "transcript_audit to_value t sensitive_values =
     map_err violation_of
       (audit_serialized_values to_value t sensitive_values
          (map (identity_prefix (ct_fixture_id t)) (ct_rounds t)))"

section \<open>Errors\<close>

datatype aggregation_error =
    EmptySchedule
  | AggregateCountOverflow
  | ScheduleLength nat nat
  | ScheduleMismatch nat
  | MissingExecution
  | FailedRoundInPassingAggregate
  | MissingMeasurement
  | InvalidAggregate
  | AggregateStatistics statistics_error

definition show_aggregation_error :: "aggregation_error \<Rightarrow> string" where
  "show_aggregation_error e =
     (case e of
        EmptySchedule \<Rightarrow> ''cannot aggregate an empty schedule''
      | AggregateCountOverflow \<Rightarrow> ''aggregate count overflowed''
      | ScheduleLength expected actual \<Rightarrow>
          ''round transcript count is '' @ show_nat actual @ '', expected '' @ show_nat expected
      | ScheduleMismatch index \<Rightarrow>
          ''round transcript '' @ show_nat index @ '' does not match the schedule''
      | MissingExecution \<Rightarrow> ''passing aggregate contains a negotiation failure''
      | FailedRoundInPassingAggregate \<Rightarrow> ''passing aggregate contains a failed round''
      | MissingMeasurement \<Rightarrow> ''passing round is missing required measurements''
      | InvalidAggregate \<Rightarrow> ''aggregate classification is invalid''
      | AggregateStatistics error \<Rightarrow> show_statistics_error error)"

section \<open>The schedule\<close>

text \<open>The slots of a plan in running order: the round, the position from 0, and the catalog.\<close>

definition expected_slots :: "contention_plan \<Rightarrow> (round_plan \<times> nat \<times> catalog_run) list" where
  "expected_slots plan =
     concat (map (\<lambda>rd. map (\<lambda>(position, catalog). (rd, position, catalog))
       (enumerate 0 (round_catalogs rd))) (plan_rounds plan))"

definition slot_matches :: "round_plan \<Rightarrow> u32 \<Rightarrow> catalog_run \<Rightarrow> catalog_round_transcript \<Rightarrow> bool" where
  "slot_matches rd expected_position catalog observed \<longleftrightarrow>
     crt_repetition observed = round_repetition rd
     \<and> crt_kind observed = round_kind_of rd
     \<and> crt_position observed = expected_position
     \<and> crt_catalog observed = catalog
     \<and> \<not> is_some_and (round_execution_of observed) (\<lambda>execution.
           desc_catalog (ex_descriptor execution) \<noteq> run_catalog catalog
           \<or> desc_repetition (ex_descriptor execution) \<noteq> round_repetition rd
           \<or> desc_kind (ex_descriptor execution) \<noteq> round_kind_of rd)"

definition check_slot ::
  "nat \<Rightarrow> (round_plan \<times> nat \<times> catalog_run) \<times> catalog_round_transcript \<Rightarrow> aggregation_error + unit" where
  "check_slot index item =
     (case item of ((rd, position, catalog), observed) \<Rightarrow>
        and_then (ok_or (try_from_nat (position + 1)) AggregateCountOverflow) (\<lambda>expected_position.
          ensure (slot_matches rd expected_position catalog observed) (ScheduleMismatch index)))"

text \<open>\<open>usize::checked_add\<close> on a 64-bit platform.\<close>

definition usize_checked_add :: "nat \<Rightarrow> nat \<Rightarrow> nat option" where
  "usize_checked_add m n = (if m + n < 2 ^ 64 then Some (m + n) else None)"

definition validate_schedule ::
  "contention_plan \<Rightarrow> catalog_round_transcript list \<Rightarrow> aggregation_error + unit" where
  "validate_schedule plan actual =
     and_then (try_fold (\<lambda>n rd. ok_or (usize_checked_add n (length (round_catalogs rd))) AggregateCountOverflow)
                 0 (plan_rounds plan)) (\<lambda>expected_count.
       if length actual \<noteq> expected_count then Err (ScheduleLength expected_count (length actual))
       else
         try_fold (\<lambda>_ (index, item). check_slot index item) ()
           (enumerate 0 (zip (expected_slots plan) actual)))"

section \<open>Metrics of a round\<close>

record round_metrics =
  rm_sequential_latency_p50_ms :: f64
  rm_sequential_latency_p95_ms :: f64
  rm_sequential_latency_p99_ms :: f64
  rm_sequential_accepted_throughput_per_second :: f64
  rm_concurrent_latency_p50_ms :: f64
  rm_concurrent_latency_p95_ms :: f64
  rm_concurrent_latency_p99_ms :: f64
  rm_concurrent_attempted_throughput_per_second :: f64
  rm_concurrent_accepted_throughput_per_second :: f64
  rm_concurrent_conflict_rate :: f64
  rm_concurrent_error_rate :: f64
  rm_concurrent_attempts :: f64
  rm_concurrent_accepted :: f64
  rm_concurrent_conflicts :: f64
  rm_metadata_object_growth :: f64

definition phase_of :: "phase_evidence operation_evidence \<Rightarrow> aggregation_error + phase_evidence" where
  "phase_of e =
     (case e of Succeeded output \<Rightarrow> Ok output | Failed _ \<Rightarrow> Err MissingMeasurement
      | NotAttempted _ \<Rightarrow> Err MissingMeasurement)"

definition growth_of ::
  "metadata_growth_evidence operation_evidence \<Rightarrow> aggregation_error + metadata_growth_evidence" where
  "growth_of e =
     (case e of Succeeded output \<Rightarrow> Ok output | Failed _ \<Rightarrow> Err MissingMeasurement
      | NotAttempted _ \<Rightarrow> Err MissingMeasurement)"

definition quantile_of :: "phase_evidence \<Rightarrow> string \<Rightarrow> aggregation_error + f64" where
  "quantile_of phase name =
     ok_or (Option.bind (lat_all (latency_ms phase)) (\<lambda>d. map_of (dist_quantiles d) name)) MissingMeasurement"

definition metrics_from_execution :: "round_execution \<Rightarrow> aggregation_error + round_metrics" where
  "metrics_from_execution ex =
     (if \<not> execution_passed ex then Err FailedRoundInPassingAggregate
      else
        and_then (phase_of (ex_sequential ex)) (\<lambda>sequential.
        and_then (phase_of (ex_concurrent ex)) (\<lambda>concurrent.
        and_then (growth_of (ex_metadata_growth ex)) (\<lambda>growth.
        and_then (quantile_of sequential ''p50'') (\<lambda>sequential_p50.
        and_then (quantile_of sequential ''p95'') (\<lambda>sequential_p95.
        and_then (quantile_of sequential ''p99'') (\<lambda>sequential_p99.
        and_then (quantile_of concurrent ''p50'') (\<lambda>concurrent_p50.
        and_then (quantile_of concurrent ''p95'') (\<lambda>concurrent_p95.
        and_then (quantile_of concurrent ''p99'') (\<lambda>concurrent_p99.
        and_then (ok_or (observed_growth growth) MissingMeasurement) (\<lambda>objects.
          Ok \<lparr>rm_sequential_latency_p50_ms = sequential_p50,
              rm_sequential_latency_p95_ms = sequential_p95,
              rm_sequential_latency_p99_ms = sequential_p99,
              rm_sequential_accepted_throughput_per_second = accepted_throughput_per_second sequential,
              rm_concurrent_latency_p50_ms = concurrent_p50,
              rm_concurrent_latency_p95_ms = concurrent_p95,
              rm_concurrent_latency_p99_ms = concurrent_p99,
              rm_concurrent_attempted_throughput_per_second = attempted_throughput_per_second concurrent,
              rm_concurrent_accepted_throughput_per_second = accepted_throughput_per_second concurrent,
              rm_concurrent_conflict_rate = conflict_rate concurrent,
              rm_concurrent_error_rate = error_rate concurrent,
              rm_concurrent_attempts = f64_of_nat (unat (attempts (counts concurrent))),
              rm_concurrent_accepted = f64_of_nat (unat (accepted (counts concurrent))),
              rm_concurrent_conflicts = f64_of_nat (unat (conflicts (counts concurrent))),
              rm_metadata_object_growth = f64_of_nat (unat objects)\<rparr>)))))))))))"

definition metric_of :: "round_metrics list \<Rightarrow> (round_metrics \<Rightarrow> f64) \<Rightarrow> aggregation_error + median_range" where
  "metric_of rounds select = map_err AggregateStatistics (median_with_range (map select rounds))"

definition measurements_from_rounds :: "round_metrics list \<Rightarrow> aggregation_error + contention_measurements" where
  "measurements_from_rounds rounds =
     and_then (metric_of rounds rm_sequential_latency_p50_ms) (\<lambda>a.
     and_then (metric_of rounds rm_sequential_latency_p95_ms) (\<lambda>b.
     and_then (metric_of rounds rm_sequential_latency_p99_ms) (\<lambda>c.
     and_then (metric_of rounds rm_sequential_accepted_throughput_per_second) (\<lambda>d.
     and_then (metric_of rounds rm_concurrent_latency_p50_ms) (\<lambda>e.
     and_then (metric_of rounds rm_concurrent_latency_p95_ms) (\<lambda>f.
     and_then (metric_of rounds rm_concurrent_latency_p99_ms) (\<lambda>g.
     and_then (metric_of rounds rm_concurrent_attempted_throughput_per_second) (\<lambda>h.
     and_then (metric_of rounds rm_concurrent_accepted_throughput_per_second) (\<lambda>i.
     and_then (metric_of rounds rm_concurrent_conflict_rate) (\<lambda>j.
     and_then (metric_of rounds rm_concurrent_error_rate) (\<lambda>k.
     and_then (metric_of rounds rm_concurrent_attempts) (\<lambda>l.
     and_then (metric_of rounds rm_concurrent_accepted) (\<lambda>m.
     and_then (metric_of rounds rm_concurrent_conflicts) (\<lambda>n.
     and_then (metric_of rounds rm_metadata_object_growth) (\<lambda>q.
       Ok \<lparr>cm_sequential_latency_p50_ms = a, cm_sequential_latency_p95_ms = b,
           cm_sequential_latency_p99_ms = c, cm_sequential_accepted_throughput_per_second = d,
           cm_concurrent_latency_p50_ms = e, cm_concurrent_latency_p95_ms = f,
           cm_concurrent_latency_p99_ms = g, cm_concurrent_attempted_throughput_per_second = h,
           cm_concurrent_accepted_throughput_per_second = i, cm_concurrent_conflict_rate = j,
           cm_concurrent_error_rate = k, cm_concurrent_attempts = l, cm_concurrent_accepted = m,
           cm_concurrent_conflicts = n, cm_metadata_object_growth = q\<rparr>)))))))))))))))"

section \<open>Aggregation of a catalog\<close>

definition count_if :: "u32 \<Rightarrow> bool \<Rightarrow> aggregation_error + u32" where
  "count_if n b = (if b then ok_or (checked_add n 1) AggregateCountOverflow else Ok n)"

definition tally_round :: "round_tally \<Rightarrow> catalog_round_transcript \<Rightarrow> aggregation_error + round_tally" where
  "tally_round t r =
     and_then (count_if (tally_scheduled t) True) (\<lambda>scheduled.
     and_then (count_if (tally_executed t) (round_execution_of r \<noteq> None)) (\<lambda>executed.
     and_then (count_if (tally_passed t) (round_transcript_passed r)) (\<lambda>passed.
       Ok \<lparr>tally_scheduled = scheduled, tally_executed = executed, tally_passed = passed\<rparr>)))"

definition tally :: "catalog_round_transcript list \<Rightarrow> round_kind \<Rightarrow> aggregation_error + round_tally" where
  "tally rounds kind =
     try_fold tally_round \<lparr>tally_scheduled = 0, tally_executed = 0, tally_passed = 0\<rparr>
       (filter (\<lambda>r. crt_kind r = kind) rounds)"

definition tally_reason :: "string \<Rightarrow> round_tally \<Rightarrow> u32 \<Rightarrow> string list" where
  "tally_reason label t expected =
     (if tally_scheduled t \<noteq> expected \<or> tally_executed t \<noteq> expected \<or> tally_passed t \<noteq> expected then
        [label @ '' rounds passed '' @ show_word (tally_passed t) @ ''/'' @ show_word expected
         @ '' ('' @ show_word (tally_executed t) @ '' executed)'']
      else [])"

definition aggregate_catalog ::
  "contention_plan \<Rightarrow> catalog_round_transcript list \<Rightarrow> catalog_run \<Rightarrow> aggregation_error + catalog_aggregate" where
  "aggregate_catalog plan rounds catalog =
     (let catalog_rounds = filter (\<lambda>r. run_catalog (crt_catalog r) = run_catalog catalog) rounds;
          policy = round_policy_of (plan_parameters plan)
      in and_then (tally catalog_rounds Conditioning) (\<lambda>conditioning.
         and_then (tally catalog_rounds Measured) (\<lambda>measured.
         let reasons = tally_reason ''conditioning'' conditioning (conditioning_rounds policy)
                       @ tally_reason ''measured'' measured (measured_rounds policy)
         in and_then
              (if reasons = [] then
                 and_then (try_map (\<lambda>r. and_then (ok_or (round_execution_of r) MissingExecution)
                                         metrics_from_execution)
                            (filter (\<lambda>r. crt_kind r = Measured) catalog_rounds)) (\<lambda>metrics.
                 and_then (measurements_from_rounds metrics) (\<lambda>measurements.
                   Ok (AggregatePass, Some measurements)))
               else Ok (AggregateFail reasons, None)) (\<lambda>(classification, measurements).
            Ok \<lparr>agg_catalog = catalog, agg_conditioning = conditioning, agg_measured = measured,
                agg_classification = classification, agg_measurements = measurements\<rparr>))))"

section \<open>Ranking\<close>

datatype ordering = Less | Equal | Greater

definition total_cmp :: "f64 \<Rightarrow> f64 \<Rightarrow> ordering" where
  "total_cmp x y = (if total_le x y then if total_le y x then Equal else Less else Greater)"

definition str_cmp :: "string \<Rightarrow> string \<Rightarrow> ordering" where
  "str_cmp x y = (if x = y then Equal else if x < y then Less else Greater)"

definition then_with :: "ordering \<Rightarrow> ordering \<Rightarrow> ordering" where
  "then_with a b = (case a of Equal \<Rightarrow> b | _ \<Rightarrow> a)"

type_synonym candidate = "catalog_aggregate \<times> median_range \<times> median_range"

definition rank_cmp :: "candidate \<Rightarrow> candidate \<Rightarrow> ordering" where
  "rank_cmp left right =
     (case (left, right) of ((l, left_score, left_latency), (r, right_score, right_latency)) \<Rightarrow>
        then_with (then_with (total_cmp (mr_median right_score) (mr_median left_score))
                     (total_cmp (mr_median left_latency) (mr_median right_latency)))
          (str_cmp (run_catalog (agg_catalog l)) (run_catalog (agg_catalog r))))"

definition candidates :: "catalog_aggregate list \<Rightarrow> candidate list" where
  "candidates aggregates =
     List.map_filter (\<lambda>a. map_option (\<lambda>m. (a, cm_concurrent_accepted_throughput_per_second m,
                                           cm_sequential_latency_p50_ms m)) (agg_measurements a)) aggregates"

definition ranked_entry :: "nat \<times> candidate \<Rightarrow> aggregation_error + ranking_entry" where
  "ranked_entry item =
     (case item of (index, a, score, latency) \<Rightarrow>
        and_then (ok_or (try_from_nat (index + 1)) AggregateCountOverflow) (\<lambda>rank.
          Ok \<lparr>re_catalog = agg_catalog a, re_disposition = Ranked rank score\<rparr>))"

definition unranked_entry :: "catalog_aggregate \<Rightarrow> aggregation_error + ranking_entry" where
  "unranked_entry a =
     (case agg_classification a of
        AggregateFail reasons \<Rightarrow> Ok \<lparr>re_catalog = agg_catalog a, re_disposition = NotRanked reasons\<rparr>
      | AggregatePass \<Rightarrow> Err InvalidAggregate)"

definition rank_catalogs :: "catalog_aggregate list \<Rightarrow> aggregation_error + contention_ranking" where
  "rank_catalogs aggregates =
     and_then (try_map ranked_entry
                (enumerate 0 (sort_by (\<lambda>a b. rank_cmp a b \<noteq> Greater) (candidates aggregates)))) (\<lambda>ranked.
     and_then (try_map unranked_entry (filter (\<lambda>a. \<not> aggregate_passed a) aggregates)) (\<lambda>unranked.
       Ok \<lparr>cr_basis = ConcurrentAcceptedThroughputPerSecond,
           cr_tie_breakers = [SequentialLatencyP50Ascending, CatalogIdAscending],
           cr_entries = ranked @ unranked\<rparr>))"

section \<open>Aggregation of a sweep\<close>

definition aggregate_contention ::
  "contention_plan \<Rightarrow> catalog_round_transcript list
   \<Rightarrow> aggregation_error + catalog_aggregate list \<times> contention_ranking \<times> sweep_classification" where
  "aggregate_contention plan rounds =
     and_then (validate_schedule plan rounds) (\<lambda>_.
     and_then (case plan_rounds plan of [] \<Rightarrow> Err EmptySchedule | first # _ \<Rightarrow> Ok (round_catalogs first))
       (\<lambda>catalog_order.
     and_then (try_map (aggregate_catalog plan rounds) catalog_order) (\<lambda>aggregates.
     and_then (rank_catalogs aggregates) (\<lambda>ranking.
       let failed_catalogs = map (run_catalog \<circ> agg_catalog) (filter (\<lambda>a. \<not> aggregate_passed a) aggregates)
       in Ok (aggregates, ranking,
              if failed_catalogs = [] then SweepPass else SweepFail failed_catalogs)))))"

section \<open>Tallies\<close>

definition tally_counts :: "catalog_round_transcript list \<Rightarrow> round_tally \<Rightarrow> bool" where
  "tally_counts rs t \<longleftrightarrow>
     unat (tally_scheduled t) = length rs
     \<and> unat (tally_executed t) = length (filter (\<lambda>r. round_execution_of r \<noteq> None) rs)
     \<and> unat (tally_passed t) = length (filter round_transcript_passed rs)"

lemma count_if_eq_Inr:
  "count_if n b = Inr m \<longleftrightarrow> (if b then unat n + 1 < 2 ^ 32 \<and> unat m = unat n + 1 else m = n)"
  by (auto simp: count_if_def checked_add_eq_Some)

lemma tally_round_counts:
  "tally_counts rs t \<Longrightarrow> tally_round t r = Inr t' \<Longrightarrow> tally_counts (rs @ [r]) t'"
  by (auto simp: tally_round_def and_then_eq_Inr tally_counts_def count_if_eq_Inr split: if_splits)

lemma tally_fold_counts:
  "tally_counts rs t \<Longrightarrow> try_fold tally_round t qs = Inr t' \<Longrightarrow> tally_counts (rs @ qs) t'"
proof (induction qs arbitrary: rs t)
  case Nil
  then show ?case by simp
next
  case (Cons q qs)
  then obtain t1 where "tally_round t q = Inr t1" "try_fold tally_round t1 qs = Inr t'"
    by (auto simp: and_then_eq_Inr)
  with Cons.IH [OF tally_round_counts [OF Cons.prems(1)]] show ?case by fastforce
qed

lemma tally_Inr: "tally rs kind = Inr t \<Longrightarrow> tally_counts (filter (\<lambda>r. crt_kind r = kind) rs) t"
  unfolding tally_def by (drule tally_fold_counts [rotated, where rs = "[]"]) (simp_all add: tally_counts_def)

lemma tally_round_total:
  assumes "tally_counts rs t" "length rs + 1 < 2 ^ 32"
  shows "\<exists>t'. tally_round t r = Inr t'"
proof -
  have le: "length (filter P rs) + 1 < 2 ^ 32" for P
    using assms(2) length_filter_le [of P rs] by linarith
  have ok: "\<exists>m. count_if n b = Inr m" if "unat n + 1 < 2 ^ 32" for n b
    using that by (simp add: count_if_def checked_add_def)
  have "unat (tally_scheduled t) + 1 < 2 ^ 32" "unat (tally_executed t) + 1 < 2 ^ 32"
      "unat (tally_passed t) + 1 < 2 ^ 32"
    using assms le by (simp_all add: tally_counts_def)
  then obtain a b c where "count_if (tally_scheduled t) True = Inr a"
      "count_if (tally_executed t) (round_execution_of r \<noteq> None) = Inr b"
      "count_if (tally_passed t) (round_transcript_passed r) = Inr c"
    using ok by meson
  then show ?thesis by (simp add: tally_round_def del: not_None_eq)
qed

lemma tally_fold_total:
  "tally_counts rs t \<Longrightarrow> length rs + length qs < 2 ^ 32 \<Longrightarrow> \<exists>t'. try_fold tally_round t qs = Inr t'"
proof (induction qs arbitrary: rs t)
  case Nil
  then show ?case by simp
next
  case (Cons q qs)
  obtain t1 where t1: "tally_round t q = Inr t1"
    using tally_round_total [OF Cons.prems(1)] Cons.prems(2) by fastforce
  show ?case
    using Cons.IH [OF tally_round_counts [OF Cons.prems(1) t1]] Cons.prems(2) by (simp add: t1)
qed

lemma tally_total:
  "length (filter (\<lambda>r. crt_kind r = kind) rs) < 2 ^ 32 \<Longrightarrow> \<exists>t. tally rs kind = Inr t"
  unfolding tally_def by (rule tally_fold_total [where rs = "[]"]) (simp_all add: tally_counts_def)

lemma tally_reason_Nil:
  assumes "tally_counts rs t"
  shows "tally_reason label t expected = [] \<longleftrightarrow> length rs = unat expected \<and> list_all round_transcript_passed rs"
proof -
  have run: "length (filter round_transcript_passed rs) \<le> length (filter (\<lambda>r. round_execution_of r \<noteq> None) rs)"
    by (induction rs) (auto simp: round_transcript_passed_def round_execution_of_def split: catalog_round_outcome.splits)
  have le: "length (filter (\<lambda>r. round_execution_of r \<noteq> None) rs) \<le> length rs" by (rule length_filter_le)
  have all: "length (filter round_transcript_passed rs) = length rs \<longleftrightarrow> list_all round_transcript_passed rs"
    by (metis filter_True length_filter_less list_all_iff nat_neq_iff)
  have mid: "length (filter (\<lambda>r. round_execution_of r \<noteq> None) rs) = length rs"
    if "length (filter round_transcript_passed rs) = length rs"
    using run le that by linarith
  show ?thesis
    using assms mid all by (auto simp: tally_reason_def tally_counts_def word_unat_eq_iff simp del: not_None_eq)
qed

section \<open>The order of the ranking\<close>

definition score_of :: "catalog_aggregate \<Rightarrow> median_range" where
  "score_of a = cm_concurrent_accepted_throughput_per_second (the (agg_measurements a))"

definition latency_of :: "catalog_aggregate \<Rightarrow> median_range" where
  "latency_of a = cm_sequential_latency_p50_ms (the (agg_measurements a))"

text \<open>
  The specification of the order: a higher median throughput first, then a lower median latency, then
  the smaller identifier. Two medians tie when each is at most the other in the total order.
\<close>

definition outranks :: "catalog_aggregate \<Rightarrow> catalog_aggregate \<Rightarrow> bool" where
  "outranks a b \<longleftrightarrow>
     \<not> total_le (mr_median (score_of a)) (mr_median (score_of b))
     \<or> (total_le (mr_median (score_of a)) (mr_median (score_of b))
        \<and> total_le (mr_median (score_of b)) (mr_median (score_of a))
        \<and> (\<not> total_le (mr_median (latency_of b)) (mr_median (latency_of a))
           \<or> (total_le (mr_median (latency_of a)) (mr_median (latency_of b))
              \<and> total_le (mr_median (latency_of b)) (mr_median (latency_of a))
              \<and> run_catalog (agg_catalog a) \<le> run_catalog (agg_catalog b))))"

definition candidate_of :: "catalog_aggregate \<Rightarrow> candidate" where
  "candidate_of a = (a, score_of a, latency_of a)"

lemma rank_cmp_outranks: "rank_cmp (candidate_of a) (candidate_of b) \<noteq> Greater \<longleftrightarrow> outranks a b"
  using total_le_total [of "mr_median (score_of a)" "mr_median (score_of b)"]
    total_le_total [of "mr_median (latency_of a)" "mr_median (latency_of b)"]
  by (auto simp: rank_cmp_def candidate_of_def outranks_def then_with_def total_cmp_def str_cmp_def)

lemma outranks_total: "outranks a b \<or> outranks b a"
  using total_le_total [of "mr_median (score_of a)" "mr_median (score_of b)"]
    total_le_total [of "mr_median (latency_of a)" "mr_median (latency_of b)"]
  unfolding outranks_def by (meson linear)

lemma outranks_trans:
  assumes "outranks a b" "outranks b c"
  shows "outranks a c"
proof -
  let ?s = "\<lambda>x. mr_median (score_of x)" and ?l = "\<lambda>x. mr_median (latency_of x)"
  note total = total_le_total [of "?s a" "?s b"] total_le_total [of "?s b" "?s c"]
    total_le_total [of "?l a" "?l b"] total_le_total [of "?l b" "?l c"] total_le_total [of "?l a" "?l c"]
  note trans = total_le_trans [of "?s a" "?s b" "?s c"] total_le_trans [of "?s c" "?s b" "?s a"]
    total_le_trans [of "?s b" "?s c" "?s a"] total_le_trans [of "?s c" "?s a" "?s b"]
    total_le_trans [of "?s a" "?s c" "?s b"] total_le_trans [of "?s b" "?s a" "?s c"]
    total_le_trans [of "?l a" "?l b" "?l c"] total_le_trans [of "?l c" "?l b" "?l a"]
    total_le_trans [of "?l b" "?l c" "?l a"] total_le_trans [of "?l c" "?l a" "?l b"]
    total_le_trans [of "?l a" "?l c" "?l b"] total_le_trans [of "?l b" "?l a" "?l c"]
  show ?thesis
    using assms total trans
      order_trans [of "run_catalog (agg_catalog a)" "run_catalog (agg_catalog b)" "run_catalog (agg_catalog c)"]
    unfolding outranks_def by argo
qed

lemma sort_by_map: "sort_by le (map f xs) = map f (sort_by (\<lambda>a b. le (f a) (f b)) xs)"
proof -
  have "insert_by le (f x) (map f ys) = map f (insert_by (\<lambda>a b. le (f a) (f b)) x ys)" for x ys
    by (induction ys) auto
  then show ?thesis by (induction xs) (auto simp: sort_by_def)
qed

definition aggregate_wf :: "catalog_aggregate \<Rightarrow> bool" where
  "aggregate_wf a \<longleftrightarrow> (agg_classification a = AggregatePass \<longleftrightarrow> agg_measurements a \<noteq> None)"

lemma candidates_passed:
  "list_all aggregate_wf aggs \<Longrightarrow> candidates aggs = map candidate_of (filter aggregate_passed aggs)"
  by (induction aggs)
    (auto simp: candidates_def List.map_filter_simps candidate_of_def score_of_def latency_of_def aggregate_wf_def
      aggregate_passed_def)

definition entry_ranked :: "nat \<Rightarrow> catalog_aggregate \<Rightarrow> ranking_entry" where
  "entry_ranked i a = \<lparr>re_catalog = agg_catalog a, re_disposition = Ranked (of_nat (Suc i)) (score_of a)\<rparr>"

definition entry_unranked :: "catalog_aggregate \<Rightarrow> ranking_entry" where
  "entry_unranked a =
     \<lparr>re_catalog = agg_catalog a,
      re_disposition = NotRanked (case agg_classification a of AggregateFail reasons \<Rightarrow> reasons | AggregatePass \<Rightarrow> [])\<rparr>"

lemma try_map_enumerate:
  assumes "\<And>i. i < length xs \<Longrightarrow> f (n + i, xs ! i) = Inr (g (n + i) (xs ! i))"
  shows "try_map f (enumerate n xs) = Inr (map (\<lambda>i. g (n + i) (xs ! i)) [0..<length xs])"
  using assms by (auto simp: try_map_eq_Inr nth_enumerate_eq)

lemma rank_catalogs_eq:
  assumes wf: "list_all aggregate_wf aggs" and len: "length aggs < 2 ^ 32"
  defines "ranked \<equiv> sort_by outranks (filter aggregate_passed aggs)"
  shows "rank_catalogs aggs = Inr
    \<lparr>cr_basis = ConcurrentAcceptedThroughputPerSecond,
     cr_tie_breakers = [SequentialLatencyP50Ascending, CatalogIdAscending],
     cr_entries = map (\<lambda>i. entry_ranked i (ranked ! i)) [0..<length ranked]
       @ map entry_unranked (filter (\<lambda>a. \<not> aggregate_passed a) aggs)\<rparr>"
proof -
  have sorted: "sort_by (\<lambda>a b. rank_cmp a b \<noteq> Greater) (candidates aggs) = map candidate_of ranked"
    unfolding ranked_def candidates_passed [OF wf] sort_by_map by (simp add: rank_cmp_outranks)
  have short: "length ranked < 2 ^ 32"
    unfolding ranked_def using len by (metis le_less_trans length_filter_le length_sort_by)
  have "try_map ranked_entry (enumerate 0 (map candidate_of ranked))
      = Inr (map (\<lambda>i. entry_ranked (0 + i) (fst (map candidate_of ranked ! i))) [0..<length (map candidate_of ranked)])"
    by (rule try_map_enumerate)
      (use short in \<open>auto simp: ranked_entry_def candidate_of_def entry_ranked_def try_from_nat_def\<close>)
  also have "map (\<lambda>i. entry_ranked (0 + i) (fst (map candidate_of ranked ! i))) [0..<length (map candidate_of ranked)]
      = map (\<lambda>i. entry_ranked i (ranked ! i)) [0..<length ranked]"
    by (auto simp: candidate_of_def)
  finally have one: "try_map ranked_entry (enumerate 0 (map candidate_of ranked))
      = Inr (map (\<lambda>i. entry_ranked i (ranked ! i)) [0..<length ranked])" .
  have two: "try_map unranked_entry (filter (\<lambda>a. \<not> aggregate_passed a) aggs)
      = Inr (map entry_unranked (filter (\<lambda>a. \<not> aggregate_passed a) aggs))"
    by (rule try_map_total)
      (use wf in \<open>auto simp: unranked_entry_def entry_unranked_def aggregate_wf_def aggregate_passed_def list_all_iff
        split: catalog_aggregate_classification.splits\<close>)
  show ?thesis by (simp add: rank_catalogs_def sorted one two)
qed

lemma aggregate_catalog_wf:
  "aggregate_catalog plan rounds catalog = Inr a \<Longrightarrow> aggregate_wf a \<and> agg_catalog a = catalog"
  by (auto simp: aggregate_catalog_def Let_def and_then_eq_Inr aggregate_wf_def split: if_splits)

section \<open>The schedule that a transcript follows\<close>

lemma try_fold_unit: "try_fold (\<lambda>_. f) () xs = Inr () \<longleftrightarrow> list_all (\<lambda>x. f x = Inr ()) xs"
  by (induction xs) (auto simp: and_then_eq_Inr)

lemma sum_catalogs:
  "try_fold (\<lambda>n rd. ok_or (usize_checked_add n (length (round_catalogs rd))) AggregateCountOverflow) k rds = Inr n
    \<longleftrightarrow> n = k + (\<Sum>rd \<leftarrow> rds. length (round_catalogs rd)) \<and> (rds = [] \<or> n < 2 ^ 64)"
proof (induction rds arbitrary: k)
  case Nil
  then show ?case by auto
next
  case (Cons rd rds)
  show ?case
  proof (cases "k + length (round_catalogs rd) < 2 ^ 64")
    case True
    then show ?thesis
      using Cons.IH [of "k + length (round_catalogs rd)"] by (auto simp: usize_checked_add_def add.assoc)
  next
    case False
    then show ?thesis by (simp add: usize_checked_add_def)
  qed
qed

lemma length_expected_slots: "length (expected_slots plan) = (\<Sum>rd \<leftarrow> plan_rounds plan. length (round_catalogs rd))"
  by (simp add: expected_slots_def length_concat comp_def)

definition follows_plan :: "contention_plan \<Rightarrow> catalog_round_transcript list \<Rightarrow> bool" where
  "follows_plan plan actual \<longleftrightarrow>
     list_all2 (\<lambda>(rd, position, catalog) observed.
        position + 1 < 2 ^ 32 \<and> slot_matches rd (of_nat (position + 1)) catalog observed)
       (expected_slots plan) actual"

lemma check_slot_Inr:
  "check_slot index (slot, observed) = Inr () \<longleftrightarrow>
     (\<lambda>(rd, position, catalog). position + 1 < 2 ^ 32
        \<and> slot_matches rd (of_nat (position + 1)) catalog observed) slot"
  by (cases slot) (auto simp: check_slot_def and_then_eq_Inr try_from_nat_def)

lemma validate_schedule_Inr:
  "validate_schedule plan actual = Inr () \<longleftrightarrow>
     follows_plan plan actual \<and> (plan_rounds plan = [] \<or> length actual < 2 ^ 64)"
proof -
  let ?slots = "expected_slots plan"
  have "validate_schedule plan actual = Inr () \<longleftrightarrow>
     length actual = length ?slots \<and> (plan_rounds plan = [] \<or> length actual < 2 ^ 64)
     \<and> list_all (\<lambda>(index, item). check_slot index item = Inr ()) (enumerate 0 (zip ?slots actual))"
    unfolding validate_schedule_def and_then_eq_Inr sum_catalogs length_expected_slots
    by (auto simp: try_fold_unit split_def)
  also have "list_all (\<lambda>(index, item). check_slot index item = Inr ()) (enumerate 0 (zip ?slots actual))
     \<longleftrightarrow> (\<forall>i < min (length ?slots) (length actual). check_slot i (?slots ! i, actual ! i) = Inr ())"
    by (simp add: list_all_length nth_enumerate_eq)
  also have "\<dots> \<longleftrightarrow> (\<forall>i < min (length ?slots) (length actual). (\<lambda>(rd, position, catalog) observed.
        position + 1 < 2 ^ 32 \<and> slot_matches rd (of_nat (position + 1)) catalog observed) (?slots ! i) (actual ! i))"
    by (simp add: check_slot_Inr split_def)
  finally show ?thesis
    unfolding follows_plan_def list_all2_conv_all_nth by auto
qed

lemma follows_plan_width:
  assumes "follows_plan plan actual" "rd \<in> set (plan_rounds plan)"
  shows "length (round_catalogs rd) < 2 ^ 32"
proof (cases "round_catalogs rd")
  case Nil
  then show ?thesis by simp
next
  case (Cons c cs)
  let ?n = "length cs"
  have "(?n, round_catalogs rd ! ?n) \<in> set (enumerate 0 (round_catalogs rd))"
    using Cons by (simp add: in_set_enumerate_eq del: enumerate_simps)
  then have slot: "(rd, ?n, round_catalogs rd ! ?n) \<in> set (expected_slots plan)"
    using assms(2) by (force simp: expected_slots_def)
  have "\<forall>s \<in> set (expected_slots plan). fst (snd s) + 1 < 2 ^ 32"
    using assms(1) unfolding follows_plan_def by (fastforce simp: list_all2_iff in_set_zip in_set_conv_nth)
  with slot have "?n + 1 < 2 ^ 32" by fastforce
  then show ?thesis using Cons by simp
qed

lemma aggregate_contention_Inr:
  assumes "aggregate_contention plan rounds = Inr (aggs, ranking, classification)"
  obtains first rest where "plan_rounds plan = first # rest" "follows_plan plan rounds"
    "try_map (aggregate_catalog plan rounds) (round_catalogs first) = Inr aggs"
    "rank_catalogs aggs = Inr ranking"
    "classification = (if filter (\<lambda>a. \<not> aggregate_passed a) aggs = [] then SweepPass
       else SweepFail (map (run_catalog \<circ> agg_catalog) (filter (\<lambda>a. \<not> aggregate_passed a) aggs)))"
  using assms that
  by (auto simp: aggregate_contention_def and_then_eq_Inr Let_def validate_schedule_Inr split: list.splits)

text \<open>
  C5. The ranking is complete and in order. In the result of an aggregation there is one aggregate for
  every catalog of the plan's first round, in that order, and one ranking entry for each. The
  entries begin with the catalogs that passed, ordered by higher median throughput, then lower
  median latency, then identifier, with ranks counting from 1 and the median throughput as score;
  the catalogs that failed follow in plan order with their reasons. The sweep passes exactly when
  every catalog does, and otherwise names the ones that failed.
\<close>

theorem ranking_exact:
  assumes "aggregate_contention plan rounds = Ok (aggs, ranking, classification)"
  shows "map agg_catalog aggs = round_catalogs (hd (plan_rounds plan))
    \<and> (\<exists>ranked. mset ranked = mset (filter aggregate_passed aggs) \<and> sorted_wrt outranks ranked
         \<and> cr_entries ranking = map (\<lambda>i. entry_ranked i (ranked ! i)) [0..<length ranked]
             @ map entry_unranked (filter (\<lambda>a. \<not> aggregate_passed a) aggs))
    \<and> mset (map re_catalog (cr_entries ranking)) = mset (round_catalogs (hd (plan_rounds plan)))
    \<and> (classification = SweepPass \<longleftrightarrow> list_all aggregate_passed aggs)
    \<and> (\<forall>failed. classification = SweepFail failed
         \<longleftrightarrow> failed = map (run_catalog \<circ> agg_catalog) (filter (\<lambda>a. \<not> aggregate_passed a) aggs) \<and> failed \<noteq> [])"
proof -
  obtain first rest where plan: "plan_rounds plan = first # rest" "follows_plan plan rounds"
    and aggs: "try_map (aggregate_catalog plan rounds) (round_catalogs first) = Inr aggs"
    and rank: "rank_catalogs aggs = Inr ranking"
    and cls: "classification = (if filter (\<lambda>a. \<not> aggregate_passed a) aggs = [] then SweepPass
       else SweepFail (map (run_catalog \<circ> agg_catalog) (filter (\<lambda>a. \<not> aggregate_passed a) aggs)))"
    using aggregate_contention_Inr [OF assms] .
  have each: "aggregate_wf (aggs ! i) \<and> agg_catalog (aggs ! i) = round_catalogs first ! i" if "i < length aggs" for i
    using aggs that unfolding try_map_eq_Inr by (metis aggregate_catalog_wf)
  have len: "length aggs = length (round_catalogs first)" using aggs by (rule try_map_Inr_length)
  have catalogs: "map agg_catalog aggs = round_catalogs first"
    using each len by (auto intro: nth_equalityI)
  have wf: "list_all aggregate_wf aggs" using each by (simp add: list_all_length)
  have short: "length aggs < 2 ^ 32" using follows_plan_width [OF plan(2)] plan(1) len by simp
  let ?ranked = "sort_by outranks (filter aggregate_passed aggs)"
  have entries: "cr_entries ranking = map (\<lambda>i. entry_ranked i (?ranked ! i)) [0..<length ?ranked]
      @ map entry_unranked (filter (\<lambda>a. \<not> aggregate_passed a) aggs)"
    using rank rank_catalogs_eq [OF wf short] by auto
  have sorted: "sorted_wrt outranks ?ranked"
    by (rule sorted_sort_by) (use outranks_total outranks_trans in blast)+
  have "map (re_catalog \<circ> (\<lambda>i. entry_ranked i (?ranked ! i))) [0..<length ?ranked] = map agg_catalog ?ranked"
    by (rule nth_equalityI) (simp_all add: entry_ranked_def)
  moreover have "map (re_catalog \<circ> entry_unranked) xs = map agg_catalog xs" for xs
    by (simp add: entry_unranked_def)
  ultimately have "map re_catalog (cr_entries ranking)
      = map agg_catalog ?ranked @ map agg_catalog (filter (\<lambda>a. \<not> aggregate_passed a) aggs)"
    unfolding entries by (simp only: map_append map_map)
  then have "mset (map re_catalog (cr_entries ranking)) = image_mset agg_catalog (mset aggs)"
    by (simp add: multiset_partition [of "mset aggs" aggregate_passed, symmetric] flip: image_mset_union)
  then have perm: "mset (map re_catalog (cr_entries ranking)) = mset (round_catalogs first)"
    by (metis catalogs mset_map)
  show ?thesis
    using plan(1) catalogs sorted entries perm
    by (intro conjI exI [of _ ?ranked]) (auto simp: cls filter_empty_conv list_all_iff)
qed

end
