(* ===== verification/Commit_Sweep.thy ===== *)
theory Commit_Sweep
  imports Commit_Aggregate
begin

text \<open>
  A contention sweep (\<open>crates/commit/src/sweep.rs\<close>): the check of the runner against the profile, one
  round per slot of the plan, and the transcript with its aggregates and its final audit.

  What a sweep reaches outside the sources is the record \<open>sweep_env\<close>: the libraries of the theories
  below, the builders of the HTTP client and of the object store, the decoder of load-table
  responses, the serializer of transcripts, the clock, the progress callback, and for the round in
  every slot the order in which its writers run and are joined. A sweep in which the writers of a
  round never return has no result.
\<close>

section \<open>Errors and the runner\<close>

datatype sweep_error =
    SweepPolicy policy_error
  | InvalidRunnerObservation
  | MissingRunner
  | InvalidRunnerComponent
  | MissingRunnerSource
  | RunnerRuntimeMismatch string string string string
  | RunnerSourceMismatch string string
  | MissingAdapter component_id
  | CatalogSetup component_id string
  | SweepObjectStore object_store_failure
  | SweepWorkflow workflow_error
  | SweepAggregation aggregation_error
  | SweepSanitization sanitization_violation
  | SweepCountOverflow

record runner_observation =
  obs_operating_system :: string
  obs_architecture :: string
  obs_source_revision :: string

definition is_git_revision :: "string \<Rightarrow> bool" where
  "is_git_revision value \<longleftrightarrow> length value = 40 \<and> list_all is_lower_hexdigit value"

definition runner_observation_new ::
  "string \<Rightarrow> string \<Rightarrow> string \<Rightarrow> sweep_error + runner_observation" where
  "runner_observation_new operating_system architecture revision =
     (if is_blank operating_system \<or> is_blank architecture \<or> \<not> is_git_revision revision then
        Err InvalidRunnerObservation
      else Ok \<lparr>obs_operating_system = operating_system, obs_architecture = architecture,
               obs_source_revision = revision\<rparr>)"

definition verify_runner :: "profile \<Rightarrow> runner_observation \<Rightarrow> sweep_error + runner_transcript" where
  "verify_runner p obs =
     and_then (ok_or (find (\<lambda>c. component_ident c = RUNNER_COMPONENT_ID) (prof_components p)) MissingRunner)
       (\<lambda>runner.
     and_then (ensure (component_kind_of runner = BenchmarkHarness) InvalidRunnerComponent) (\<lambda>_.
     and_then (ok_or (map_option source_revision_id (component_source runner)) MissingRunnerSource) (\<lambda>revision.
       let platform = prof_platform p;
           runtime_matches = (obs_operating_system obs = plat_operating_system platform
                              \<and> obs_architecture obs = plat_architecture platform);
           source_matches = (obs_source_revision obs = revision
                             \<and> obs_source_revision obs = component_version runner)
       in if \<not> runtime_matches then
            Err (RunnerRuntimeMismatch (plat_operating_system platform) (plat_architecture platform)
                   (obs_operating_system obs) (obs_architecture obs))
          else if \<not> source_matches then Err (RunnerSourceMismatch revision (obs_source_revision obs))
          else Ok \<lparr>rt_component = component_ident runner, rt_name = component_name runner,
                  rt_version = component_version runner, rt_source_revision = obs_source_revision obs,
                  rt_operating_system = obs_operating_system obs, rt_architecture = obs_architecture obs,
                  rt_profile_runtime_matches = runtime_matches,
                  rt_profile_source_matches = source_matches\<rparr>)))"

definition credential_variables :: "profile \<Rightarrow> contention_parameters \<Rightarrow> string list" where
  "credential_variables p parameters =
     [os_access_key_env (object_store parameters), os_secret_key_env (object_store parameters)]
     @ concat (map (\<lambda>a. case adapter_authentication a of
                          OAuth2ClientCredentials _ _ client_id_env client_secret_env \<Rightarrow>
                            [client_id_env, client_secret_env]
                        | Anonymous \<Rightarrow> []) (prof_catalog_adapters p))"

definition sensitive_runtime_values ::
  "profile \<Rightarrow> contention_parameters \<Rightarrow> (string \<Rightarrow> string option) \<Rightarrow> string list" where
  "sensitive_runtime_values p parameters getenv =
     remdups_adj (sort (filter (\<lambda>value. value \<noteq> [])
       (List.map_filter getenv (credential_variables p parameters))))"

section \<open>The environment of a sweep\<close>

datatype sweep_progress =
    Starting u32 round_kind u32 component_id
  | Completed u32 round_kind u32 component_id bool

record 'w sweep_env =
  se_web :: web_lib
  se_http_client :: "u64 \<Rightarrow> string + 'w http_client"
  se_object_store :: "s3_settings \<Rightarrow> string + 'w object_store_client"
  se_location :: location_lib
  se_decode_table :: "string \<Rightarrow> string + load_table_result"
  se_to_value :: "contention_transcript \<Rightarrow> json option"
  se_clock :: "'w \<Rightarrow> instant \<times> 'w"
  se_instant_max :: instant
  se_sha :: sha256
  se_schedule :: "nat \<Rightarrow> schedule_event list"
  se_join_order :: "nat \<Rightarrow> nat list"
  se_progress :: "sweep_progress \<Rightarrow> 'w \<Rightarrow> 'w"
  se_getenv :: "string \<Rightarrow> string option"

definition round_env_of ::
  "'w sweep_env \<Rightarrow> nat \<Rightarrow> 'w catalog_port \<Rightarrow> 'w object_store_auditor \<Rightarrow> 'w round_env" where
  "round_env_of env index port store =
     \<lparr>env_clock = se_clock env, env_instant_max = se_instant_max env, env_sha = se_sha env,
      env_lib = se_location env, env_port = port, env_audit = store_audit (se_location env) store,
      env_schedule = se_schedule env index, env_join_order = se_join_order env index\<rparr>"

section \<open>One slot of the plan\<close>

definition execute_round ::
  "'w sweep_env \<Rightarrow> nat \<Rightarrow> 'w catalog_port \<Rightarrow> 'w object_store_auditor \<Rightarrow> round_execution_config \<Rightarrow> 'w
   \<Rightarrow> ((sweep_error + catalog_round_outcome) \<times> 'w) option" where
  "execute_round env index port store config w =
     map_option (\<lambda>(result, w1). (case result of Inl e \<Rightarrow> Err (SweepWorkflow e)
                                  | Inr execution \<Rightarrow> Ok (Executed execution), w1))
       (run_contention_round (round_env_of env index port store) config w)"

text \<open>
  The bound port of a ready session. A session exists only when the client was built, so the error of
  the builder is never seen here.
\<close>

definition bind_port ::
  "'w sweep_env \<Rightarrow> u64 \<Rightarrow> catalog_session \<Rightarrow> catalog_adapter \<Rightarrow> contention_fixture
   \<Rightarrow> string + 'w catalog_port" where
  "bind_port env timeout_ms session adapter fx =
     and_then (rest_catalog_new (se_web env) session (create_table_location (adapter_endpoint adapter))) (\<lambda>rc.
     and_then (rest_bind (se_web env) rc fx) (\<lambda>bound.
     and_then (se_http_client env timeout_ms) (\<lambda>client.
       Ok (rest_port (se_decode_table env) client bound))))"

definition ready_round ::
  "'w sweep_env \<Rightarrow> profile \<Rightarrow> contention_parameters \<Rightarrow> round_workload \<Rightarrow> 'w object_store_auditor \<Rightarrow> nat
   \<Rightarrow> round_plan \<Rightarrow> catalog_run \<Rightarrow> contention_fixture \<Rightarrow> catalog_session \<Rightarrow> 'w
   \<Rightarrow> ((sweep_error + catalog_round_outcome) \<times> 'w) option" where
  "ready_round env p parameters wk store index rd catalog fx session w =
     (case and_then (ok_or (find (\<lambda>a. adapter_catalog a = run_catalog catalog) (prof_catalog_adapters p))
                       (MissingAdapter (run_catalog catalog))) (\<lambda>adapter.
           and_then (map_err (CatalogSetup (run_catalog catalog))
                       (bind_port env (request_timeout_ms (limits parameters)) session adapter fx)) (\<lambda>port.
           and_then (map_err SweepWorkflow
                       (round_execution_config_new (run_catalog catalog) (round_repetition rd) (round_kind_of rd)
                          fx wk (os_bucket (object_store parameters)))) (\<lambda>config.
             Ok (port, config)))) of
        Inl e \<Rightarrow> Some (Err e, w)
      | Inr (port, config) \<Rightarrow> execute_round env index port store config w)"

definition outcome_passed :: "catalog_round_outcome \<Rightarrow> bool" where
  "outcome_passed out =
     (case out of Executed execution \<Rightarrow> execution_passed execution | NegotiationFailed _ \<Rightarrow> False)"

definition complete_slot ::
  "'w sweep_env \<Rightarrow> round_plan \<Rightarrow> u32 \<Rightarrow> catalog_run \<Rightarrow> catalog_negotiation_evidence \<Rightarrow> string list
   \<Rightarrow> (sweep_error + catalog_round_outcome) \<times> 'w
   \<Rightarrow> (sweep_error + catalog_round_transcript \<times> string list) \<times> 'w" where
  "complete_slot env rd position catalog negotiation redactions step =
     (case step of
        (Inl e, w) \<Rightarrow> (Err e, w)
      | (Inr out, w) \<Rightarrow>
          (Ok (\<lparr>crt_repetition = round_repetition rd, crt_kind = round_kind_of rd, crt_position = position,
                crt_catalog = catalog, crt_negotiation = negotiation, crt_outcome = out\<rparr>, redactions),
           se_progress env (Completed (round_repetition rd) (round_kind_of rd) position (run_catalog catalog)
             (outcome_passed out)) w))"

definition sweep_slot ::
  "'w sweep_env \<Rightarrow> profile \<Rightarrow> scenario \<Rightarrow> contention_plan \<Rightarrow> string \<Rightarrow> round_workload
   \<Rightarrow> 'w object_store_auditor \<Rightarrow> nat \<Rightarrow> round_plan \<times> nat \<times> catalog_run \<Rightarrow> 'w
   \<Rightarrow> ((sweep_error + catalog_round_transcript \<times> string list) \<times> 'w) option" where
  "sweep_slot env p s plan ident wk store index slot w =
     (case slot of (rd, position0, catalog) \<Rightarrow>
        (case try_from_nat (position0 + 1) of
           None \<Rightarrow> Some (Err SweepCountOverflow, w)
         | Some position \<Rightarrow>
             (let w1 = se_progress env
                    (Starting (round_repetition rd) (round_kind_of rd) position (run_catalog catalog)) w;
                  parameters = plan_parameters plan
              in case fixture plan (run_catalog catalog) ident (round_repetition rd) of
                   Inl e \<Rightarrow> Some (Err (SweepPolicy e), w1)
                 | Inr fx \<Rightarrow>
                     (case connect_catalog (se_web env) (se_http_client env) p s (run_catalog catalog)
                             (request_timeout_ms (limits parameters))
                             (maximum_response_bytes (limits parameters)) (se_getenv env) w1 of
                        (Inl detail, w2) \<Rightarrow> Some (Err (CatalogSetup (run_catalog catalog) detail), w2)
                      | (Inr connection, w2) \<Rightarrow>
                          map_option
                            (complete_slot env rd position catalog (cca_evidence connection)
                               (map (\<lambda>path. ''rounds.'' @ show_nat index @ ''.negotiation.'' @ path)
                                  (cne_redactions (cca_evidence connection))))
                            (case cca_outcome connection of
                               ConnectionReady session \<Rightarrow>
                                 ready_round env p parameters wk store index rd catalog fx session w2
                             | ConnectionFailed failure \<Rightarrow> Some (Ok (NegotiationFailed failure), w2))))))"

fun sweep_slots ::
  "'w sweep_env \<Rightarrow> profile \<Rightarrow> scenario \<Rightarrow> contention_plan \<Rightarrow> string \<Rightarrow> round_workload
   \<Rightarrow> 'w object_store_auditor \<Rightarrow> (round_plan \<times> nat \<times> catalog_run) list
   \<Rightarrow> catalog_round_transcript list \<Rightarrow> string list \<Rightarrow> 'w
   \<Rightarrow> ((sweep_error + catalog_round_transcript list \<times> string list) \<times> 'w) option" where
  "sweep_slots env p s plan ident wk store [] rounds redactions w = Some (Ok (rounds, redactions), w)"
| "sweep_slots env p s plan ident wk store (slot # slots) rounds redactions w =
     (case sweep_slot env p s plan ident wk store (length rounds) slot w of
        None \<Rightarrow> None
      | Some (Inl e, w1) \<Rightarrow> Some (Err e, w1)
      | Some (Inr (transcript, paths), w1) \<Rightarrow>
          sweep_slots env p s plan ident wk store slots (rounds @ [transcript]) (redactions @ paths) w1)"

section \<open>The sweep\<close>

definition transcript_of ::
  "profile \<Rightarrow> scenario \<Rightarrow> contract_digests \<Rightarrow> string \<Rightarrow> runner_transcript \<Rightarrow> contention_parameters
   \<Rightarrow> catalog_round_transcript list \<Rightarrow> string list
   \<Rightarrow> catalog_aggregate list \<times> contention_ranking \<times> sweep_classification \<Rightarrow> contention_transcript" where
  "transcript_of p s digests ident runner parameters rounds redactions result =
     (case result of (aggregates, ranking, classification) \<Rightarrow>
        \<lparr>ct_format = CONTENTION_TRANSCRIPT_FORMAT,
         ct_scenario = \<lparr>tsc_ident = scn_ident s, tsc_version = scn_version s\<rparr>,
         ct_contract_digests = digests,
         ct_profile = \<lparr>tp_ident = prof_ident p, tp_resolved_at = prof_resolved_at p\<rparr>,
         ct_runner = runner, ct_fixture_id = ident, ct_parameters = parameters, ct_rounds = rounds,
         ct_aggregates = aggregates, ct_ranking = ranking, ct_classification = classification,
         ct_sanitization =
           \<lparr>san_policy = ''catalog-bench/value-safe-contention-v1'', san_redactions = redactions,
            san_raw_secrets_persisted = False, san_raw_response_body_persisted = False,
            san_raw_request_identities_persisted = False, san_write_mode = ''create-new''\<rparr>\<rparr>)"

definition finish_sweep ::
  "'w sweep_env \<Rightarrow> profile \<Rightarrow> scenario \<Rightarrow> contract_digests \<Rightarrow> string \<Rightarrow> runner_transcript \<Rightarrow> contention_plan
   \<Rightarrow> catalog_round_transcript list \<Rightarrow> string list \<Rightarrow> sweep_error + contention_transcript" where
  "finish_sweep env p s digests ident runner plan rounds redactions =
     and_then (map_err SweepAggregation (aggregate_contention plan rounds)) (\<lambda>result.
     let transcript = transcript_of p s digests ident runner (plan_parameters plan) rounds
           (remdups_adj (sort redactions)) result
     in and_then (map_err SweepSanitization
          (transcript_audit (se_to_value env) transcript
             (sensitive_runtime_values p (plan_parameters plan) (se_getenv env)))) (\<lambda>_. Ok transcript))"

text \<open>The checks that come before the first round; \<open>usize::try_from(u64)\<close> always succeeds on 64 bits.\<close>

definition prepare_sweep ::
  "decoders \<Rightarrow> url_parser \<Rightarrow> (json \<Rightarrow> string + contention_parameters) \<Rightarrow> string \<Rightarrow> 'w sweep_env
   \<Rightarrow> profile \<Rightarrow> scenario \<Rightarrow> runner_observation
   \<Rightarrow> sweep_error + contention_plan \<times> runner_transcript \<times> 'w object_store_auditor \<times> round_workload" where
  "prepare_sweep dec url_parse from_value canonical env p s obs =
     and_then (map_err SweepPolicy (from_contracts dec url_parse from_value canonical p s)) (\<lambda>plan.
     and_then (verify_runner p obs) (\<lambda>runner.
     and_then (map_err SweepObjectStore
                 (from_policy (se_object_store env) (object_store (plan_parameters plan)) (se_getenv env))) (\<lambda>store.
     and_then (map_err SweepWorkflow (workload_try_from (workload (plan_parameters plan)))) (\<lambda>wk.
       Ok (plan, runner, store, wk)))))"

definition run_contention_sweep ::
  "decoders \<Rightarrow> url_parser \<Rightarrow> (json \<Rightarrow> string + contention_parameters) \<Rightarrow> string \<Rightarrow> 'w sweep_env
   \<Rightarrow> profile \<Rightarrow> scenario \<Rightarrow> contract_digests \<Rightarrow> string \<Rightarrow> runner_observation \<Rightarrow> 'w
   \<Rightarrow> ((sweep_error + contention_transcript) \<times> 'w) option" where
  "run_contention_sweep dec url_parse from_value canonical env p s digests ident obs w =
     (case prepare_sweep dec url_parse from_value canonical env p s obs of
        Inl e \<Rightarrow> Some (Err e, w)
      | Inr (plan, runner, store, wk) \<Rightarrow>
          map_option (\<lambda>(result, w1).
              (case result of
                 Inl e \<Rightarrow> Err e
               | Inr (rounds, redactions) \<Rightarrow>
                   finish_sweep env p s digests ident runner plan rounds redactions, w1))
            (sweep_slots env p s plan ident wk store (expected_slots plan) [] [] w))"

end
