(* ===== verification/Commit_Verdict.thy ===== *)
theory Commit_Verdict
  imports Commit_Sweep Commit_Pass
begin

text \<open>
  What the verdict of a sweep means: the evidence that every round leaves is what the aggregation
  needs, so a sweep that has run its rounds always reaches a verdict, and a catalog passes exactly
  when every one of its scheduled rounds did.
\<close>

section \<open>What the aggregation needs of a phase\<close>

definition phase_measurable :: "phase_evidence \<Rightarrow> bool" where
  "phase_measurable p \<longleftrightarrow>
     (case lat_all (latency_ms p) of None \<Rightarrow> True
      | Some d \<Rightarrow> list_all (\<lambda>name. is_some_and (map_of (dist_quantiles d) name) admissible) [''p50'', ''p95'', ''p99''])
     \<and> list_all admissible [attempted_throughput_per_second p, accepted_throughput_per_second p,
          conflict_rate p, error_rate p]"

lemma distribution_quantiles:
  assumes "nonnegative_distribution xs = Inr d"
  shows "list_all (\<lambda>name. is_some_and (map_of (dist_quantiles d) name) admissible) [''p50'', ''p95'', ''p99'']"
proof -
  let ?ys = "sort_by total_le xs"
  have xs: "xs \<noteq> []" "list_all admissible xs"
      "dist_quantiles d = map (\<lambda>(name, p). (name, nearest_rank ?ys p)) quantile_probabilities"
    using assms by (auto simp: nonnegative_distribution_def and_then_eq_Inr sorted_nonnegative_Ok split_def Let_def)
  have "admissible (nearest_rank ?ys p)" for p
  proof -
    have "nearest_rank_index (length ?ys) p < length ?ys"
      using xs(1) by (intro nearest_rank_index_less) simp
    then have "nearest_rank ?ys p \<in> set ?ys" unfolding nearest_rank_def by (rule nth_mem)
    then show ?thesis using xs(2) by (simp add: list_all_iff)
  qed
  then show ?thesis by (simp add: xs(3) quantile_probabilities_def)
qed

lemma in_range_admissible: "in_range 0 hi x \<Longrightarrow> admissible x"
  by (simp add: in_range_def admissible_def)

lemma per_second_admissible:
  assumes "duration_wf elapsed" "per_second n elapsed = Inr r"
  shows "admissible r"
  using per_second_Ok [OF assms(1), of n] assms(2) by (auto simp: per_second_def admissible_def split: if_splits)

lemma finish_measurable:
  assumes "duration_wf elapsed" "ledger_finish l elapsed = Inr (p, acc)"
  shows "phase_measurable p"
proof -
  obtain cs lats a b where cs: "ledger_counts l = Inr cs" "fully_accounted cs"
    and lats: "ledger_latencies l = Inr lats"
    and rates: "per_second (attempts cs) elapsed = Inr a" "per_second (accepted cs) elapsed = Inr b"
    and p: "latency_ms p = lats" "attempted_throughput_per_second p = a" "accepted_throughput_per_second p = b"
      "conflict_rate p = ratio (conflicts cs) (attempts cs)" "error_rate p = ratio (errors cs) (attempts cs)"
    using assms(2) by (auto simp: ledger_finish_def and_then_eq_Inr split: if_splits)
  have "unat (conflicts cs) \<le> unat (attempts cs)" "unat (errors cs) \<le> unat (attempts cs)"
    using cs(2) by (auto simp: fully_accounted_def checked_add_def word_unat_eq_iff unat_word_ariths split: if_splits option.splits)
  then have "admissible (conflict_rate p)" "admissible (error_rate p)"
    unfolding p by (auto intro: in_range_admissible ratio_range)
  moreover have "optional_distribution (led_all l) = Inr (lat_all lats)"
    using lats by (auto simp: ledger_latencies_def and_then_eq_Inr)
  then have "case lat_all lats of None \<Rightarrow> True
      | Some d \<Rightarrow> list_all (\<lambda>name. is_some_and (map_of (dist_quantiles d) name) admissible) [''p50'', ''p95'', ''p99'']"
    using distribution_quantiles
    by (auto simp: optional_distribution_def latency_distribution_def and_then_eq_Inr split: option.splits if_splits)
  ultimately show ?thesis
    using rates [THEN per_second_admissible [OF assms(1)]] by (simp add: phase_measurable_def p)
qed

lemma serial_phase_measurable: "run_serial_phase env config phase n uuid w = (Inr (p, acc), w') \<Longrightarrow> phase_measurable p"
  by (auto simp: run_serial_phase_def Let_def split: prod.splits sum.splits
      intro: finish_measurable [OF elapsed_since_wf])

lemma concurrent_phase_measurable:
  "run_concurrent_phase env config uuid w = Some (Inr (p, acc), w') \<Longrightarrow> phase_measurable p"
  by (auto simp: run_concurrent_phase_def Let_def split: prod.splits sum.splits option.splits if_splits
      intro: finish_measurable [OF elapsed_since_wf])

section \<open>What a round leaves in its evidence\<close>

definition evidence_all :: "('a \<Rightarrow> bool) \<Rightarrow> 'a operation_evidence \<Rightarrow> bool" where
  "evidence_all P e = (case e of Succeeded x \<Rightarrow> P x | _ \<Rightarrow> True)"

lemma evidence_all_simps [simp]:
  "evidence_all P (Succeeded x) = P x" "evidence_all P (Failed f)" "evidence_all P (NotAttempted r)"
  "evidence_all P skipped"
  by (simp_all add: evidence_all_def skipped_def)

definition growth_measurable :: "metadata_growth_evidence \<Rightarrow> bool" where
  "growth_measurable g \<longleftrightarrow> \<not> sufficient g \<or> observed_growth g \<noteq> None"

definition round_measurable :: "round_execution_config \<Rightarrow> round_execution \<Rightarrow> bool" where
  "round_measurable config ex \<longleftrightarrow>
     ex_descriptor ex = ex_descriptor (execution_pending config)
     \<and> evidence_all phase_measurable (ex_sequential ex) \<and> evidence_all phase_measurable (ex_concurrent ex)
     \<and> evidence_all growth_measurable (ex_metadata_growth ex)"

lemma round_measurable_update [simp]:
  "round_measurable config (ex\<lparr>ex_preflight := a\<rparr>) = round_measurable config ex"
  "round_measurable config (ex\<lparr>ex_create_namespace := b\<rparr>) = round_measurable config ex"
  "round_measurable config (ex\<lparr>ex_create_table := c\<rparr>) = round_measurable config ex"
  "round_measurable config (ex\<lparr>ex_baseline_object_audit := d\<rparr>) = round_measurable config ex"
  "round_measurable config (ex\<lparr>ex_warmup := e\<rparr>) = round_measurable config ex"
  "round_measurable config (ex\<lparr>ex_final_table := f\<rparr>) = round_measurable config ex"
  "round_measurable config (ex\<lparr>ex_final_object_audit := d\<rparr>) = round_measurable config ex"
  "round_measurable config (ex\<lparr>ex_cleanup := g\<rparr>) = round_measurable config ex"
  by (simp_all add: round_measurable_def)

lemma round_measurable_phase [simp]:
  "round_measurable config ex \<Longrightarrow> evidence_all phase_measurable p \<Longrightarrow> round_measurable config (ex\<lparr>ex_sequential := p\<rparr>)"
  "round_measurable config ex \<Longrightarrow> evidence_all phase_measurable p \<Longrightarrow> round_measurable config (ex\<lparr>ex_concurrent := p\<rparr>)"
  "round_measurable config ex \<Longrightarrow> evidence_all growth_measurable q
    \<Longrightarrow> round_measurable config (ex\<lparr>ex_metadata_growth := q\<rparr>)"
  by (simp_all add: round_measurable_def)

text \<open>An execution that \<open>finalize\<close> has closed.\<close>

definition round_closed :: "round_execution_config \<Rightarrow> round_execution \<Rightarrow> bool" where
  "round_closed config ex \<longleftrightarrow> round_measurable config ex \<and> ex_checks ex = evaluate_checks ex"

lemma finalize_closed: "round_measurable config ex \<Longrightarrow> round_closed config (finalize ex c)"
  by (simp add: round_closed_def round_measurable_def finalize_def Let_def evaluate_checks_def)

lemma clean_closed:
  "clean_and_finish port ex w = Some (Inr ex', w') \<Longrightarrow> round_measurable config ex \<Longrightarrow> round_closed config ex'"
  by (auto simp: clean_and_finish_def split_def Let_def intro!: finalize_closed)

lemma growth_of_phases_measurable:
  "evidence_all growth_measurable (ex_metadata_growth ex) \<Longrightarrow> evidence_all growth_measurable (growth_of_phases n ex)"
  by (auto simp: growth_of_phases_def growth_evaluate_eq growth_measurable_def Let_def word_le_nat_alt
      split: option.splits if_splits)

lemma record_phase_measurable:
  "record_phase acc result = (e, acc', go) \<Longrightarrow> (\<And>p a. result = Inr (p, a) \<Longrightarrow> phase_measurable p)
    \<Longrightarrow> evidence_all phase_measurable e"
  by (auto simp: record_phase_def split: sum.splits prod.splits)

lemma final_stage_closed:
  assumes "final_stage env config created tr n acc ex w = Some (Inr ex', w')" "round_measurable config ex"
  shows "round_closed config ex'"
proof -
  have "evidence_all growth_measurable (growth_of_phases n (ex\<lparr>ex_final_table := t, ex_final_object_audit := a\<rparr>))" for t a
    using assms(2) by (intro growth_of_phases_measurable) (simp add: round_measurable_def)
  then show ?thesis
    using assms by (auto simp: final_stage_def Let_def split: sum.splits prod.splits dest: clean_closed [of _ _ _ _ _ config])
qed

lemma phase_stages_closed:
  assumes "phase_stages env config created tr n ex w = Some (Inr ex', w')" "round_measurable config ex"
  shows "round_closed config ex'"
proof -
  let ?wk = "cfg_workload config" and ?uuid = "ts_table_uuid created"
  obtain r1 w1 where one: "run_serial_phase env config ''warmup'' (wk_warmup_commits ?wk) ?uuid w = (r1, w1)" by force
  obtain e1 acc1 go1 where rec1: "record_phase {} r1 = (e1, acc1, go1)" by (metis prod_cases3)
  obtain r2 w2 where two: "run_serial_phase env config ''sequential'' (wk_sequential_commits ?wk) ?uuid w1 = (r2, w2)"
    by force
  obtain e2 acc2 go2 where rec2: "record_phase acc1 r2 = (e2, acc2, go2)" by (metis prod_cases3)
  have e2: "evidence_all phase_measurable e2"
    by (rule record_phase_measurable [OF rec2]) (use two in \<open>auto intro: serial_phase_measurable\<close>)
  note defs = phase_stages_def one rec1 two rec2 Let_def
  show ?thesis
  proof (cases "go1 \<and> go2")
    case False
    then show ?thesis
      using assms e2 by (auto simp: defs dest: clean_closed [of _ _ _ _ _ config] split: if_splits)
  next
    case True
    then obtain r3 w3 where three: "run_concurrent_phase env config ?uuid w2 = Some (r3, w3)"
      using assms(1) by (auto simp: defs split: option.splits)
    obtain e3 acc3 go3 where rec3: "record_phase acc2 r3 = (e3, acc3, go3)" by (metis prod_cases3)
    have "evidence_all phase_measurable e3"
      by (rule record_phase_measurable [OF rec3]) (use three in \<open>auto intro: concurrent_phase_measurable\<close>)
    then show ?thesis
      using assms True e2
      by (auto simp: defs three rec3 dest: clean_closed [of _ _ _ _ _ config] final_stage_closed split: if_splits)
  qed
qed

lemma baseline_stage_closed:
  assumes "baseline_stage env config created ex w = Some (Inr ex', w')" "round_measurable config ex"
  shows "round_closed config ex'"
  using assms
  by (auto simp: baseline_stage_def Let_def split: sum.splits prod.splits if_splits
      dest: clean_closed [of _ _ _ _ _ config] phase_stages_closed)

lemma round_closed_result:
  assumes "run_contention_round env config w = Some (Inr ex, w')"
  shows "round_closed config ex"
proof -
  have "round_measurable config (execution_pending config)"
    by (simp add: round_measurable_def execution_pending_def)
  with assms show ?thesis
    by (auto simp: run_contention_round_def Let_def intro: finalize_closed
        split: sum.splits prod.splits if_splits dest: clean_closed [of _ _ _ _ _ config] baseline_stage_closed)
qed

section \<open>Metrics of a passing round\<close>

definition metrics_admissible :: "round_metrics \<Rightarrow> bool" where
  "metrics_admissible m \<longleftrightarrow>
     list_all (\<lambda>select. admissible (select m))
       [rm_sequential_latency_p50_ms, rm_sequential_latency_p95_ms, rm_sequential_latency_p99_ms,
        rm_sequential_accepted_throughput_per_second, rm_concurrent_latency_p50_ms, rm_concurrent_latency_p95_ms,
        rm_concurrent_latency_p99_ms, rm_concurrent_attempted_throughput_per_second,
        rm_concurrent_accepted_throughput_per_second, rm_concurrent_conflict_rate, rm_concurrent_error_rate,
        rm_concurrent_attempts, rm_concurrent_accepted, rm_concurrent_conflicts, rm_metadata_object_growth]"

lemma f64_of_u64_admissible: "admissible (f64_of_nat (unat (n :: u64)))"
proof -
  have "unat n \<le> 2 ^ 64" using unsigned_less [of n, where 'a = nat] by simp
  from f64_of_nat_in(1) [OF this, of 0] show ?thesis by (auto intro: in_range_admissible)
qed

lemma quantile_of_measurable:
  assumes "phase_measurable p" "lat_all (latency_ms p) = Some d" "name \<in> {''p50'', ''p95'', ''p99''}"
  obtains q where "quantile_of p name = Inr q" "admissible q"
  using assms that by (auto simp: phase_measurable_def quantile_of_def is_some_and_iff)

lemma passing_latencies:
  assumes "all_latencies_counted p" "made_progress p"
  obtains d where "lat_all (latency_ms p) = Some d"
proof (cases "lat_all (latency_ms p)")
  case None
  then have "attempts (counts p) = 0" "fully_accounted (counts p)"
    using assms(1) by (simp_all add: all_latencies_counted_def)
  then have "accepted (counts p) = 0"
    by (auto simp: fully_accounted_def checked_add_def word_unat_eq_iff unat_word_ariths split: if_splits option.splits)
  with assms(2) show ?thesis by (simp add: made_progress_def)
qed (use that in blast)

lemma passing_metrics:
  assumes "round_closed config ex" "execution_passed ex"
  obtains m where "metrics_from_execution ex = Inr m" "metrics_admissible m"
proof -
  have checks: "all_passed (evaluate_checks ex)"
    using assms by (simp add: round_closed_def execution_passed_def)
  obtain p where p: "ex_sequential ex = Succeeded p" "latency_complete p (wk_sequential_commits (ex_workload ex))"
    using checks by (auto simp: all_passed_def evaluate_checks_def is_some_and_iff)
  obtain q where q: "ex_concurrent ex = Succeeded q" "all_latencies_counted q" "made_progress q"
    using checks by (auto simp: all_passed_def evaluate_checks_def is_some_and_iff)
  obtain g where g: "ex_metadata_growth ex = Succeeded g" "sufficient g"
    using checks by (auto simp: all_passed_def evaluate_checks_def is_some_and_iff)
  have meas: "phase_measurable p" "phase_measurable q" "growth_measurable g"
    using assms(1) by (simp_all add: round_closed_def round_measurable_def p q g)
  obtain d where d: "lat_all (latency_ms p) = Some d"
    using p(2) by (auto simp: latency_complete_def split: option.splits)
  obtain e where e: "lat_all (latency_ms q) = Some e" using passing_latencies [OF q(2,3)] .
  obtain n where n: "observed_growth g = Some n" using meas(3) g(2) by (auto simp: growth_measurable_def)
  have rates: "admissible (accepted_throughput_per_second p)" "admissible (attempted_throughput_per_second q)"
      "admissible (accepted_throughput_per_second q)" "admissible (conflict_rate q)" "admissible (error_rate q)"
    using meas(1,2) by (simp_all add: phase_measurable_def)
  note quantile = quantile_of_measurable [OF meas(1) d] quantile_of_measurable [OF meas(2) e]
  obtain a b c where abc: "quantile_of p ''p50'' = Inr a" "quantile_of p ''p95'' = Inr b" "quantile_of p ''p99'' = Inr c"
      "admissible a" "admissible b" "admissible c"
    using quantile(1) by (metis insertCI)
  obtain a' b' c' where abc': "quantile_of q ''p50'' = Inr a'" "quantile_of q ''p95'' = Inr b'"
      "quantile_of q ''p99'' = Inr c'" "admissible a'" "admissible b'" "admissible c'"
    using quantile(2) by (metis insertCI)
  have "\<exists>m. metrics_from_execution ex = Inr m \<and> metrics_admissible m"
    using assms(2) rates
    by (simp add: metrics_from_execution_def phase_of_def growth_of_def p q g n abc abc' metrics_admissible_def
        f64_of_u64_admissible)
  with that show ?thesis by blast
qed

lemma metric_of_total:
  assumes "ms \<noteq> []" "list_all (\<lambda>m. admissible (select m)) ms"
  shows "\<exists>r. metric_of ms select = Inr r"
proof -
  have "sorted_nonnegative (map select ms) = Inr (sort_by total_le (map select ms))"
    using assms by (simp add: sorted_nonnegative_Ok list_all_iff)
  then show ?thesis by (simp add: metric_of_def median_with_range_def Let_def)
qed

lemma measurements_total:
  assumes "ms \<noteq> []" "list_all metrics_admissible ms"
  shows "\<exists>m. measurements_from_rounds ms = Inr m"
proof -
  have "\<exists>r. metric_of ms select = Inr r" if "\<And>m. metrics_admissible m \<Longrightarrow> admissible (select m)" for select
    using assms that by (intro metric_of_total) (auto simp: list_all_iff)
  note total = this
  have "\<And>m. metrics_admissible m \<Longrightarrow> admissible (select m)"
    if "select \<in> set [rm_sequential_latency_p50_ms, rm_sequential_latency_p95_ms, rm_sequential_latency_p99_ms,
        rm_sequential_accepted_throughput_per_second, rm_concurrent_latency_p50_ms, rm_concurrent_latency_p95_ms,
        rm_concurrent_latency_p99_ms, rm_concurrent_attempted_throughput_per_second,
        rm_concurrent_accepted_throughput_per_second, rm_concurrent_conflict_rate, rm_concurrent_error_rate,
        rm_concurrent_attempts, rm_concurrent_accepted, rm_concurrent_conflicts, rm_metadata_object_growth]" for select
    using that by (auto simp: metrics_admissible_def)
  note ok = total [OF this]
  have chain: "\<exists>b. and_then r f = Inr b" if "\<exists>a. r = Inr a" "\<And>a. \<exists>b. f a = Inr b"
    for r :: "aggregation_error + median_range" and f :: "median_range \<Rightarrow> aggregation_error + contention_measurements"
    using that by auto
  show ?thesis
    unfolding measurements_from_rounds_def by (intro chain ok) auto
qed

section \<open>Rounds of a catalog in a plan\<close>

definition balanced_plan :: "contention_plan \<Rightarrow> catalog_run list \<Rightarrow> bool" where
  "balanced_plan plan cs \<longleftrightarrow>
     distinct (map run_catalog cs) \<and> cs \<noteq> []
     \<and> length cs = unat (measured_rounds (round_policy_of (plan_parameters plan)))
     \<and> schedule_rounds cs (round_policy_of (plan_parameters plan)) = Inr (plan_rounds plan)"

lemma from_contracts_balanced:
  assumes "validate_with (profile_issues url_parse p) = Inr ()" "adapter_contract_required p"
    and "from_contracts dec url_parse from_value canonical p s = Inr plan"
  obtains cs where "balanced_plan plan cs" "map run_catalog cs = map adapter_catalog (prof_catalog_adapters p)"
proof -
  obtain cs where "map run_catalog cs = map adapter_catalog (prof_catalog_adapters p)" "cs \<noteq> []"
    "length cs = unat (measured_rounds (round_policy_of (plan_parameters plan)))"
    "schedule_rounds cs (round_policy_of (plan_parameters plan)) = Inr (plan_rounds plan)"
    using assms(3) by (rule from_contracts_Ok)
  moreover have "distinct (map adapter_catalog (prof_catalog_adapters p))"
    by (rule profile_adapters_distinct [OF assms(1,2)])
  ultimately show ?thesis using that by (auto simp: balanced_plan_def)
qed

definition rounds_of_kind :: "contention_plan \<Rightarrow> round_kind \<Rightarrow> nat" where
  "rounds_of_kind plan kind = unat (case kind of Conditioning \<Rightarrow> conditioning_rounds (round_policy_of (plan_parameters plan))
     | Measured \<Rightarrow> measured_rounds (round_policy_of (plan_parameters plan)))"

lemma filter_enumerate_snd: "length (filter (\<lambda>(i, x). P x) (enumerate n xs)) = length (filter P xs)"
  by (induction xs arbitrary: n) auto

lemma slots_of_catalog:
  "length (filter (\<lambda>(rd, i, c). run_catalog c = ident \<and> round_kind_of rd = kind)
      (concat (map (\<lambda>rd. map (\<lambda>(i, c). (rd, i, c)) (enumerate 0 (round_catalogs rd))) rds)))
    = (\<Sum>rd \<leftarrow> filter (\<lambda>rd. round_kind_of rd = kind) rds.
         length (filter (\<lambda>c. run_catalog c = ident) (round_catalogs rd)))"
proof (induction rds)
  case Nil
  then show ?case by simp
next
  case (Cons rd rds)
  have "length (filter (\<lambda>(rd, i, c). run_catalog c = ident \<and> round_kind_of rd = kind)
        (map (\<lambda>(i, c). (rd, i, c)) (enumerate 0 (round_catalogs rd))))
      = (if round_kind_of rd = kind then length (filter (\<lambda>c. run_catalog c = ident) (round_catalogs rd)) else 0)"
    using filter_enumerate_snd [of "\<lambda>c. run_catalog c = ident" 0 "round_catalogs rd"]
    by (auto simp: filter_map comp_def split_def)
  with Cons show ?case by simp
qed

lemma once_per_round:
  assumes "balanced_plan plan cs" "rd \<in> set (plan_rounds plan)" "c \<in> set cs"
  shows "length (filter (\<lambda>x. run_catalog x = run_catalog c) (round_catalogs rd)) = 1"
proof -
  have perm: "mset (round_catalogs rd) = mset cs"
    using assms(1,2) by (auto simp: balanced_plan_def schedule_rounds_Ok schedule_round_rotate mset_rotate)
  have "length (filter (\<lambda>x. run_catalog x = run_catalog c) (round_catalogs rd))
      = length (filter (\<lambda>x. run_catalog x = run_catalog c) cs)"
    using perm by (metis mset_filter size_mset)
  also have "\<dots> = count (mset (map run_catalog cs)) (run_catalog c)"
    by (induction cs) auto
  also have "\<dots> = 1"
    using assms(1,3) by (simp add: balanced_plan_def distinct_count_atmost_1)
  finally show ?thesis .
qed

lemma planned_kind:
  assumes "balanced_plan plan cs"
  shows "length (filter (\<lambda>rd. round_kind_of rd = kind) (plan_rounds plan)) = rounds_of_kind plan kind"
proof -
  let ?p = "round_policy_of (plan_parameters plan)"
  let ?c = "unat (conditioning_rounds ?p)" and ?m = "unat (measured_rounds ?p)"
  have rds: "plan_rounds plan = map (schedule_round cs ?p) [0..<?c + ?m]"
    using assms by (simp add: balanced_plan_def schedule_rounds_Ok)
  have "length (filter (\<lambda>rd. round_kind_of rd = kind) (plan_rounds plan))
      = card {i. i < ?c + ?m \<and> round_kind_of (schedule_round cs ?p i) = kind}"
    unfolding rds by (auto simp: length_filter_conv_card intro!: arg_cong [of _ _ card])
  also have "{i. i < ?c + ?m \<and> round_kind_of (schedule_round cs ?p i) = kind}
      = (case kind of Conditioning \<Rightarrow> {0..<?c} | Measured \<Rightarrow> {?c..<?c + ?m})"
    by (auto simp: schedule_round_def split: round_kind.splits if_splits)
  also have "card \<dots> = rounds_of_kind plan kind"
    by (simp add: rounds_of_kind_def split: round_kind.splits)
  finally show ?thesis .
qed

lemma transcript_rounds_of_catalog:
  assumes "balanced_plan plan cs" "follows_plan plan rounds" "c \<in> set cs"
  shows "length (filter (\<lambda>r. crt_kind r = kind) (filter (\<lambda>r. run_catalog (crt_catalog r) = run_catalog c) rounds))
    = rounds_of_kind plan kind"
proof -
  have "map (\<lambda>(rd, i, c). (round_kind_of rd, c)) (expected_slots plan) = map (\<lambda>r. (crt_kind r, crt_catalog r)) rounds"
    using assms(2) unfolding follows_plan_def
    by (auto simp: list_all2_conv_all_nth slot_matches_def split_def intro!: nth_equalityI)
  then have "length (filter (\<lambda>(k, x). run_catalog x = run_catalog c \<and> k = kind)
        (map (\<lambda>(rd, i, c). (round_kind_of rd, c)) (expected_slots plan)))
      = length (filter (\<lambda>(k, x). run_catalog x = run_catalog c \<and> k = kind) (map (\<lambda>r. (crt_kind r, crt_catalog r)) rounds))"
    by (rule arg_cong)
  then have "length (filter (\<lambda>r. crt_kind r = kind) (filter (\<lambda>r. run_catalog (crt_catalog r) = run_catalog c) rounds))
      = length (filter (\<lambda>(rd, i, x). run_catalog x = run_catalog c \<and> round_kind_of rd = kind) (expected_slots plan))"
    by (simp add: filter_map comp_def split_def)
  also have "\<dots> = (\<Sum>rd \<leftarrow> filter (\<lambda>rd. round_kind_of rd = kind) (plan_rounds plan).
         length (filter (\<lambda>x. run_catalog x = run_catalog c) (round_catalogs rd)))"
    unfolding expected_slots_def by (rule slots_of_catalog)
  also have "\<dots> = (\<Sum>rd \<leftarrow> filter (\<lambda>rd. round_kind_of rd = kind) (plan_rounds plan). 1)"
    by (rule arg_cong [of _ _ sum_list], rule map_cong) (use once_per_round [OF assms(1) _ assms(3)] in auto)
  also have "\<dots> = rounds_of_kind plan kind"
    by (simp add: sum_list_triv planned_kind [OF assms(1)])
  finally show ?thesis .
qed

section \<open>The verdict on a catalog\<close>

definition rounds_of :: "catalog_run \<Rightarrow> catalog_round_transcript list \<Rightarrow> catalog_round_transcript list" where
  "rounds_of catalog rounds = filter (\<lambda>r. run_catalog (crt_catalog r) = run_catalog catalog) rounds"

lemma list_all_kinds:
  "list_all P (filter (\<lambda>r. crt_kind r = Conditioning) rs) \<and> list_all P (filter (\<lambda>r. crt_kind r = Measured) rs)
    \<longleftrightarrow> list_all P rs"
proof -
  have "crt_kind r = Conditioning \<or> crt_kind r = Measured" for r by (cases "crt_kind r") auto
  then show ?thesis by (auto simp: list_all_iff)
qed

lemma tallies_of_catalog:
  assumes "balanced_plan plan cs" "follows_plan plan rounds" "c \<in> set cs"
  obtains t1 t2 where "tally (rounds_of c rounds) Conditioning = Inr t1" "tally (rounds_of c rounds) Measured = Inr t2"
    "tally_reason ''conditioning'' t1 (conditioning_rounds (round_policy_of (plan_parameters plan)))
       @ tally_reason ''measured'' t2 (measured_rounds (round_policy_of (plan_parameters plan))) = []
     \<longleftrightarrow> list_all round_transcript_passed (rounds_of c rounds)"
proof -
  let ?rs = "rounds_of c rounds" and ?p = "round_policy_of (plan_parameters plan)"
  note count = transcript_rounds_of_catalog [OF assms, folded rounds_of_def]
  have "length (filter (\<lambda>r. crt_kind r = kind) ?rs) < 2 ^ 32" for kind
    using count [of kind] unsigned_less [of "conditioning_rounds ?p", where 'a = nat]
      unsigned_less [of "measured_rounds ?p", where 'a = nat] by (simp add: rounds_of_kind_def split: round_kind.splits)
  then obtain t1 t2 where t: "tally ?rs Conditioning = Inr t1" "tally ?rs Measured = Inr t2"
    using tally_total by blast
  have "tally_reason ''conditioning'' t1 (conditioning_rounds ?p) = []
      \<longleftrightarrow> list_all round_transcript_passed (filter (\<lambda>r. crt_kind r = Conditioning) ?rs)"
    using tally_reason_Nil [OF tally_Inr [OF t(1)]] count [of Conditioning] by (simp add: rounds_of_kind_def)
  moreover have "tally_reason ''measured'' t2 (measured_rounds ?p) = []
      \<longleftrightarrow> list_all round_transcript_passed (filter (\<lambda>r. crt_kind r = Measured) ?rs)"
    using tally_reason_Nil [OF tally_Inr [OF t(2)]] count [of Measured] by (simp add: rounds_of_kind_def)
  ultimately show ?thesis
    using that [OF t] list_all_kinds [of round_transcript_passed ?rs] by simp
qed

definition harness_rounds :: "catalog_round_transcript list \<Rightarrow> bool" where
  "harness_rounds rounds \<longleftrightarrow>
     list_all (\<lambda>r. case round_execution_of r of None \<Rightarrow> True | Some ex \<Rightarrow> \<exists>config. round_closed config ex) rounds"

lemma aggregate_catalog_total:
  assumes plan: "balanced_plan plan cs" "follows_plan plan rounds" "c \<in> set cs" and rounds: "harness_rounds rounds"
  shows "\<exists>a. aggregate_catalog plan rounds c = Inr a
    \<and> (aggregate_passed a \<longleftrightarrow> list_all round_transcript_passed (rounds_of c rounds))"
proof -
  let ?rs = "rounds_of c rounds" and ?p = "round_policy_of (plan_parameters plan)"
  let ?measured = "filter (\<lambda>r. crt_kind r = Measured) ?rs"
  obtain t1 t2 where t: "tally ?rs Conditioning = Inr t1" "tally ?rs Measured = Inr t2"
    and reasons: "tally_reason ''conditioning'' t1 (conditioning_rounds ?p)
       @ tally_reason ''measured'' t2 (measured_rounds ?p) = [] \<longleftrightarrow> list_all round_transcript_passed ?rs"
    using tallies_of_catalog [OF plan] .
  let ?reasons = "tally_reason ''conditioning'' t1 (conditioning_rounds ?p)
       @ tally_reason ''measured'' t2 (measured_rounds ?p)"
  note defs = aggregate_catalog_def rounds_of_def [symmetric] t Let_def
  show ?thesis
  proof (cases "list_all round_transcript_passed ?rs")
    case False
    then have "?reasons \<noteq> []" using reasons by blast
    with False show ?thesis by (auto simp: defs aggregate_passed_def)
  next
    case True
    then have none: "?reasons = []" using reasons by blast
    let ?f = "\<lambda>r. and_then (ok_or (round_execution_of r) MissingExecution) metrics_from_execution"
    have each: "\<exists>m. ?f r = Inr m \<and> metrics_admissible m" if "r \<in> set ?rs" for r
    proof -
      have "round_transcript_passed r" using True that by (simp add: list_all_iff)
      then obtain ex where ex: "round_execution_of r = Some ex" "execution_passed ex"
        by (auto simp: round_transcript_passed_def round_execution_of_def split: catalog_round_outcome.splits)
      moreover have "r \<in> set rounds" using that by (simp add: rounds_of_def)
      then obtain config where "round_closed config ex"
        using rounds ex(1) by (auto simp: harness_rounds_def list_all_iff split: option.splits)
      ultimately show ?thesis by (auto elim!: passing_metrics)
    qed
    let ?ms = "map (\<lambda>r. projr (?f r)) ?measured"
    have ms: "try_map ?f ?measured = Inr ?ms"
      by (rule try_map_total) (use each in fastforce)
    have "cs \<noteq> []" "length cs = length ?measured"
      using transcript_rounds_of_catalog [OF plan, of Measured, folded rounds_of_def] plan(1)
      by (simp_all add: rounds_of_kind_def balanced_plan_def)
    then have "length ?measured \<noteq> 0" by (metis length_0_conv)
    moreover have "list_all metrics_admissible ?ms" using each by (fastforce simp: list_all_iff)
    ultimately obtain m where "measurements_from_rounds ?ms = Inr m"
      using measurements_total [of ?ms] by auto
    with True none ms show ?thesis by (simp add: defs aggregate_passed_def)
  qed
qed

section \<open>The verdict on a sweep\<close>

lemma first_round_catalogs:
  assumes "balanced_plan plan cs"
  obtains first rest where "plan_rounds plan = first # rest" "set (round_catalogs first) = set cs"
proof -
  let ?p = "round_policy_of (plan_parameters plan)"
  have m: "0 < unat (measured_rounds ?p)" and rds: "plan_rounds plan
      = map (schedule_round cs ?p) [0..<unat (conditioning_rounds ?p) + unat (measured_rounds ?p)]"
    using assms by (metis balanced_plan_def length_greater_0_conv, simp add: balanced_plan_def schedule_rounds_Ok)
  then obtain n where "unat (conditioning_rounds ?p) + unat (measured_rounds ?p) = Suc n"
    by (metis add_gr_0 gr0_implies_Suc)
  with rds have "plan_rounds plan = schedule_round cs ?p 0 # map (schedule_round cs ?p) [1..<Suc n]"
    by (simp add: upt_rec)
  moreover have "set (round_catalogs (schedule_round cs ?p 0)) = set cs"
    by (simp add: schedule_round_rotate)
  ultimately show ?thesis using that by blast
qed

lemma plan_slots_short:
  assumes "balanced_plan plan cs"
  shows "length (expected_slots plan) < 2 ^ 64"
proof -
  let ?p = "round_policy_of (plan_parameters plan)"
  have rds: "plan_rounds plan
      = map (schedule_round cs ?p) [0..<unat (conditioning_rounds ?p) + unat (measured_rounds ?p)]"
    and few: "unat (conditioning_rounds ?p) + unat (measured_rounds ?p) < 2 ^ 32"
    and width: "length cs = unat (measured_rounds ?p)"
    using assms by (simp_all add: balanced_plan_def schedule_rounds_Ok)
  have "length (expected_slots plan) = (unat (conditioning_rounds ?p) + unat (measured_rounds ?p)) * length cs"
    unfolding length_expected_slots rds by (simp add: schedule_round_rotate comp_def sum_list_triv)
  also have "\<dots> < 2 ^ 32 * 2 ^ 32"
    using few width by (intro mult_strict_mono) (auto simp: unsigned_less)
  finally show ?thesis by simp
qed

lemma aggregation_total:
  assumes "balanced_plan plan cs" "follows_plan plan rounds" "harness_rounds rounds"
  obtains aggs ranking classification where
    "aggregate_contention plan rounds = Inr (aggs, ranking, classification)"
    "map agg_catalog aggs = round_catalogs (hd (plan_rounds plan))"
    "\<And>a. a \<in> set aggs \<Longrightarrow> aggregate_passed a \<longleftrightarrow> list_all round_transcript_passed (rounds_of (agg_catalog a) rounds)"
proof -
  obtain first rest where first: "plan_rounds plan = first # rest" "set (round_catalogs first) = set cs"
    using first_round_catalogs [OF assms(1)] .
  let ?agg = "\<lambda>c. projr (aggregate_catalog plan rounds c)"
  have each: "aggregate_catalog plan rounds c = Inr (?agg c)
      \<and> (aggregate_passed (?agg c) \<longleftrightarrow> list_all round_transcript_passed (rounds_of c rounds))"
    if "c \<in> set cs" for c
    using aggregate_catalog_total [OF assms(1,2) that assms(3)] by auto
  let ?aggs = "map ?agg (round_catalogs first)"
  have aggs: "try_map (aggregate_catalog plan rounds) (round_catalogs first) = Inr ?aggs"
    by (rule try_map_total) (use each first(2) in blast)
  have wf: "aggregate_wf (?agg c) \<and> agg_catalog (?agg c) = c" if "c \<in> set cs" for c
    using each [OF that] aggregate_catalog_wf by blast
  have "list_all aggregate_wf ?aggs" using wf first(2) by (auto simp: list_all_iff)
  moreover have "length ?aggs < 2 ^ 32" using follows_plan_width [OF assms(2)] first(1) by simp
  ultimately obtain ranking where "rank_catalogs ?aggs = Inr ranking" using rank_catalogs_eq by blast
  moreover have "length rounds = length (expected_slots plan)"
    using assms(2) by (simp add: follows_plan_def list_all2_lengthD)
  then have "validate_schedule plan rounds = Inr ()"
    using assms(2) plan_slots_short [OF assms(1)] by (simp add: validate_schedule_Inr)
  ultimately obtain classification where "aggregate_contention plan rounds = Inr (?aggs, ranking, classification)"
    using aggs first(1) by (simp add: aggregate_contention_def Let_def)
  moreover have "map agg_catalog ?aggs = round_catalogs (hd (plan_rounds plan))"
    using wf first by (auto intro!: map_idI)
  moreover have "aggregate_passed a \<longleftrightarrow> list_all round_transcript_passed (rounds_of (agg_catalog a) rounds)"
    if "a \<in> set ?aggs" for a
    using that each wf first(2) by auto
  ultimately show ?thesis using that by blast
qed

section \<open>Every round of a sweep stands in its slot\<close>

definition slot_filled :: "round_plan \<times> nat \<times> catalog_run \<Rightarrow> catalog_round_transcript \<Rightarrow> bool" where
  "slot_filled slot observed \<longleftrightarrow>
     (case slot of (rd, position, catalog) \<Rightarrow>
        position + 1 < 2 ^ 32 \<and> slot_matches rd (of_nat (position + 1)) catalog observed)
     \<and> harness_rounds [observed]"

lemma ready_round_executed:
  assumes "ready_round env p parameters wk store index rd catalog fx session w = Some (Inr out, w')"
  obtains ex config where "out = Executed ex" "round_closed config ex"
    "ex_descriptor ex = \<lparr>desc_catalog = run_catalog catalog, desc_repetition = round_repetition rd,
       desc_kind = round_kind_of rd, desc_fixture = fx\<rparr>"
proof -
  obtain port config where cfg: "round_execution_config_new (run_catalog catalog) (round_repetition rd)
      (round_kind_of rd) fx wk (os_bucket (object_store parameters)) = Inr config"
    and exec: "execute_round env index port store config w = Some (Inr out, w')"
    using assms by (auto simp: ready_round_def and_then_eq_Inr split: sum.splits)
  obtain ex where out: "out = Executed ex" and run: "run_contention_round (round_env_of env index port store) config w = Some (Inr ex, w')"
    using exec unfolding execute_round_def by (auto split: sum.splits) (metis sumE)
  note closed = round_closed_result [OF run]
  have "cfg_catalog config = run_catalog catalog" "cfg_repetition config = round_repetition rd"
      "cfg_kind config = round_kind_of rd" "cfg_fixture config = fx"
    using cfg by (auto simp: round_execution_config_new_def split: if_splits)
  then have "ex_descriptor ex = \<lparr>desc_catalog = run_catalog catalog, desc_repetition = round_repetition rd,
       desc_kind = round_kind_of rd, desc_fixture = fx\<rparr>"
    using closed by (simp add: round_closed_def round_measurable_def execution_pending_def)
  with that out closed show ?thesis by blast
qed

lemma sweep_slot_filled:
  assumes "sweep_slot env p s plan ident wk store index slot w = Some (Inr (t, paths), w')"
  shows "slot_filled slot t"
proof -
  obtain rd position0 catalog where slot: "slot = (rd, position0, catalog)" by (metis prod_cases3)
  obtain position :: u32 where position: "try_from_nat (position0 + 1) = Some position"
    using assms by (auto simp: sweep_slot_def slot split: option.splits)
  obtain connection :: catalog_connection_attempt and fx w2 step where
    step: "(case cca_outcome connection of
       ConnectionReady session \<Rightarrow> ready_round env p (plan_parameters plan) wk store index rd catalog fx session w2
     | ConnectionFailed failure \<Rightarrow> Some (Ok (NegotiationFailed failure), w2)) = Some step"
    and complete: "\<exists>reds. complete_slot env rd position catalog (cca_evidence connection) reds step = (Inr (t, paths), w')"
  proof -
    let ?w1 = "se_progress env (Starting (round_repetition rd) (round_kind_of rd) position (run_catalog catalog)) w"
    let ?ps = "plan_parameters plan"
    obtain fx where fx: "fixture plan (run_catalog catalog) ident (round_repetition rd) = Inr fx"
      using assms position by (auto simp: sweep_slot_def slot Let_def split: sum.splits)
    obtain connection w2 where conn: "connect_catalog (se_web env) (se_http_client env) p s (run_catalog catalog)
        (request_timeout_ms (limits ?ps)) (maximum_response_bytes (limits ?ps)) (se_getenv env) ?w1 = (Inr connection, w2)"
      using assms position fx by (auto simp: sweep_slot_def slot Let_def split: sum.splits prod.splits)
    obtain x where x: "(case cca_outcome connection of
          ConnectionReady session \<Rightarrow> ready_round env p ?ps wk store index rd catalog fx session w2
        | ConnectionFailed failure \<Rightarrow> Some (Ok (NegotiationFailed failure), w2)) = Some x"
      "\<exists>reds. complete_slot env rd position catalog (cca_evidence connection) reds x = (Inr (t, paths), w')"
      using assms position unfolding sweep_slot_def slot by (auto simp: Let_def fx conn)
    show ?thesis by (rule that [OF x])
  qed
  obtain out w3 where out: "step = (Inr out, w3)"
    using complete by (cases step; cases "fst step") (auto simp: complete_slot_def)
  have t: "crt_repetition t = round_repetition rd" "crt_kind t = round_kind_of rd" "crt_position t = position"
      "crt_catalog t = catalog" "crt_outcome t = out"
    using complete by (auto simp: out complete_slot_def)
  have ok: "(\<exists>failure. out = NegotiationFailed failure) \<or> (\<exists>ex config. out = Executed ex \<and> round_closed config ex
      \<and> ex_descriptor ex = \<lparr>desc_catalog = run_catalog catalog, desc_repetition = round_repetition rd,
        desc_kind = round_kind_of rd, desc_fixture = fx\<rparr>)"
    using step out by (auto split: catalog_connection_outcome.splits elim!: ready_round_executed)
  have "position0 + 1 < 2 ^ 32" "position = of_nat (position0 + 1)"
    using position by (auto simp: try_from_nat_def split: if_splits)
  with ok t show ?thesis
    by (auto simp: slot_filled_def slot slot_matches_def harness_rounds_def round_execution_of_def)
qed

lemma sweep_slots_filled:
  assumes "sweep_slots env p s plan ident wk store slots rounds reds w = Some (Inr (rounds', reds'), w')"
  shows "\<exists>ts. rounds' = rounds @ ts \<and> list_all2 slot_filled slots ts"
  using assms
proof (induction slots arbitrary: rounds reds w)
  case Nil
  then show ?case by simp
next
  case (Cons slot slots)
  obtain t paths w1 where step: "sweep_slot env p s plan ident wk store (length rounds) slot w = Some (Inr (t, paths), w1)"
    and rest: "sweep_slots env p s plan ident wk store slots (rounds @ [t]) (reds @ paths) w1 = Some (Inr (rounds', reds'), w')"
    using Cons.prems by (auto split: option.splits sum.splits prod.splits)
  from Cons.IH [OF rest] obtain ts where "rounds' = rounds @ t # ts" "list_all2 slot_filled slots ts" by auto
  with sweep_slot_filled [OF step] show ?case by (intro exI [of _ "t # ts"]) simp
qed

lemma filled_plan:
  assumes "list_all2 slot_filled (expected_slots plan) rounds"
  shows "follows_plan plan rounds" "harness_rounds rounds"
  using assms
  by (auto simp: follows_plan_def harness_rounds_def list_all2_conv_all_nth list_all_length slot_filled_def split_def)

section \<open>Properties of a sweep\<close>

lemma case_sum_eq_Inr:
  "(case r of Inl e \<Rightarrow> Inl (f e) | Inr v \<Rightarrow> g v) = Inr t \<longleftrightarrow> (\<exists>v. r = Inr v \<and> g v = Inr t)"
  by (cases r) auto

lemma complete_slot_eq_Inl:
  "complete_slot env rd position catalog negotiation reds step = (Inl e, w) \<longleftrightarrow> step = (Inl e, w)"
  by (cases step; cases "fst step") (auto simp: complete_slot_def)

lemma prepare_sweep_plan:
  assumes "prepare_sweep dec url_parse from_value canonical env p s obs = Inr (plan, runner, store, wk)"
  shows "from_contracts dec url_parse from_value canonical p s = Inr plan" "verify_runner p obs = Inr runner"
  using assms by (auto simp: prepare_sweep_def and_then_eq_Inr)

lemma verified_runner_passed: "verify_runner p obs = Inr runner \<Longrightarrow> runner_passed runner"
  by (auto simp: verify_runner_def and_then_eq_Inr Let_def runner_passed_def split: if_splits)

lemma sweep_slots_not_aggregation:
  "sweep_slots env p s plan ident wk store slots rounds reds w = Some (Inl e, w') \<Longrightarrow> e \<noteq> SweepAggregation a"
proof (induction slots arbitrary: rounds reds w)
  case Nil
  then show ?case by simp
next
  case (Cons slot slots)
  have "e' \<noteq> SweepAggregation a"
    if "ready_round env p parameters wk store index rd catalog fx session w1 = Some (Inl e', w2)"
    for parameters index rd catalog fx session w1 w2 e'
    using that
    by (auto simp: ready_round_def execute_round_def and_then_eq_Inl and_then_eq_Inr ok_or_eq_Inl map_err_eq_Inl
        split: sum.split_asm)
  note ready = this
  have "e' \<noteq> SweepAggregation a"
    if "sweep_slot env p s plan ident wk store index slot w1 = Some (Inl e', w2)" for index w1 w2 e'
    using that ready
    by (auto simp: sweep_slot_def Let_def complete_slot_eq_Inl
        split: prod.split_asm option.split_asm sum.split_asm catalog_connection_outcome.split_asm)
  with Cons show ?case by (auto split: option.splits sum.splits prod.splits)
qed

text \<open>
  C4. A sweep that has run its rounds is never lost in the aggregation. For an accepted profile and
  whatever the catalogs answer, a sweep can fail in its preparation, in the set-up of a catalog, in
  the final audit and so on, but never with an aggregation error: the rounds stand in their slots,
  every passing round carries all the measurements, and no count overflows.
\<close>

theorem sweep_never_lost:
  assumes "validate_with (profile_issues url_parse p) = Ok ()" and "adapter_contract_required p"
    and "run_contention_sweep dec url_parse from_value canonical env p s digests ident obs w = Some (Err e, w')"
  shows "e \<noteq> SweepAggregation a"
proof (cases "prepare_sweep dec url_parse from_value canonical env p s obs")
  case (Inl e')
  then have "e = e'" using assms(3) by (simp add: run_contention_sweep_def)
  with Inl show ?thesis
    by (auto simp: prepare_sweep_def verify_runner_def and_then_eq_Inl and_then_eq_Inr ok_or_eq_Inl map_err_eq_Inl Let_def
        split: if_splits)
next
  case prepared: (Inr prepared)
  obtain plan runner store wk where prep: "prepared = (plan, runner, store, wk)" by (metis prod_cases4)
  obtain cs where plan: "balanced_plan plan cs"
    using from_contracts_balanced [OF assms(1,2) prepare_sweep_plan(1) [OF prepared [unfolded prep]]] by blast
  obtain result w1 where slots: "sweep_slots env p s plan ident wk store (expected_slots plan) [] [] w = Some (result, w1)"
    using assms(3) by (auto simp: run_contention_sweep_def prepared prep)
  show ?thesis
  proof (cases result)
    case (Inl e')
    then show ?thesis
      using assms(3) slots sweep_slots_not_aggregation
      by (fastforce simp: run_contention_sweep_def prepared prep)
  next
    case (Inr ran)
    obtain rounds reds where rr: "ran = (rounds, reds)" by force
    have "list_all2 slot_filled (expected_slots plan) rounds"
      using sweep_slots_filled slots by (fastforce simp: Inr rr)
    from aggregation_total [OF plan filled_plan [OF this]] obtain x where "aggregate_contention plan rounds = Inr x"
      by metis
    then show ?thesis
      using assms(3) slots
      by (auto simp: run_contention_sweep_def Inr rr prepared prep finish_sweep_def Let_def and_then_eq_Inl map_err_eq_Inl)
  qed
qed

lemma sweep_result:
  assumes "run_contention_sweep dec url_parse from_value canonical env p s digests ident obs w = Some (Inr t, w')"
  obtains plan runner rounds reds result where
    "from_contracts dec url_parse from_value canonical p s = Inr plan" "verify_runner p obs = Inr runner"
    "list_all2 slot_filled (expected_slots plan) rounds" "aggregate_contention plan rounds = Inr result"
    "t = transcript_of p s digests ident runner (plan_parameters plan) rounds reds result"
    "transcript_audit (se_to_value env) t (sensitive_runtime_values p (plan_parameters plan) (se_getenv env)) = Inr ()"
proof -
  obtain plan runner store wk where prep: "prepare_sweep dec url_parse from_value canonical env p s obs
      = Inr (plan, runner, store, wk)"
    using assms by (auto simp: run_contention_sweep_def split: sum.splits)
  obtain rounds reds w1 where slots: "sweep_slots env p s plan ident wk store (expected_slots plan) [] [] w
      = Some (Inr (rounds, reds), w1)"
    and fin: "finish_sweep env p s digests ident runner plan rounds reds = Inr t"
    using assms by (auto simp: run_contention_sweep_def prep case_sum_eq_Inr)
  have "list_all2 slot_filled (expected_slots plan) rounds"
    using sweep_slots_filled [OF slots] by auto
  moreover obtain result where "aggregate_contention plan rounds = Inr result"
    "t = transcript_of p s digests ident runner (plan_parameters plan) rounds (remdups_adj (sort reds)) result"
    "transcript_audit (se_to_value env) t (sensitive_runtime_values p (plan_parameters plan) (se_getenv env)) = Inr ()"
    using fin by (auto simp: finish_sweep_def and_then_eq_Inr Let_def)
  ultimately show ?thesis using that prepare_sweep_plan [OF prep] by blast
qed

lemma transcript_catalogs:
  assumes "balanced_plan plan cs" "follows_plan plan rounds" "r \<in> set rounds"
  shows "crt_catalog r \<in> set (round_catalogs (hd (plan_rounds plan)))"
proof -
  obtain i where i: "i < length rounds" "rounds ! i = r" using assms(3) by (metis in_set_conv_nth)
  obtain rd k c where slot: "expected_slots plan ! i = (rd, k, c)" by (metis prod_cases3)
  have "i < length (expected_slots plan)" "slot_matches rd (of_nat (k + 1)) c r"
    using assms(2) i slot unfolding follows_plan_def list_all2_conv_all_nth by fastforce+
  then have "(rd, k, crt_catalog r) \<in> set (expected_slots plan)"
    using slot by (metis nth_mem slot_matches_def)
  then have rd: "rd \<in> set (plan_rounds plan)" "crt_catalog r \<in> set (round_catalogs rd)"
    by (auto simp: expected_slots_def in_set_enumerate_eq) (metis nth_mem)
  have "set (round_catalogs rd) = set cs"
    using assms(1) rd(1) by (auto simp: balanced_plan_def schedule_rounds_Ok schedule_round_rotate)
  moreover obtain first rest where "plan_rounds plan = first # rest" "set (round_catalogs first) = set cs"
    using first_round_catalogs [OF assms(1)] .
  ultimately show ?thesis using rd(2) by simp
qed

text \<open>
  C3. The verdict of a sweep is exact. The rounds of the transcript stand in the slots of the plan
  built from the two documents, in running order; the transcript passes exactly when every one of
  them passed; every catalog's aggregate passes exactly when all rounds of that catalog did; and no
  string of the serialized transcript contains a credential of the run or a raw request identity of
  one of its rounds.
\<close>

theorem sweep_verdict_exact:
  assumes "validate_with (profile_issues url_parse p) = Ok ()" and "adapter_contract_required p"
    and "run_contention_sweep dec url_parse from_value canonical env p s digests ident obs w = Some (Ok t, w')"
  shows "\<exists>plan tree. from_contracts dec url_parse from_value canonical p s = Ok plan
    \<and> follows_plan plan (ct_rounds t)
    \<and> (transcript_passed t \<longleftrightarrow> list_all round_transcript_passed (ct_rounds t))
    \<and> list_all (\<lambda>a. aggregate_passed a
          \<longleftrightarrow> list_all round_transcript_passed (rounds_of (agg_catalog a) (ct_rounds t))) (ct_aggregates t)
    \<and> map (run_catalog \<circ> agg_catalog) (ct_aggregates t) = map run_catalog (round_catalogs (hd (plan_rounds plan)))
    \<and> se_to_value env t = Some tree
    \<and> \<not> list_ex (\<lambda>text. list_ex (\<lambda>secret. secret \<noteq> [] \<and> sublist secret text)
          (sensitive_runtime_values p (ct_parameters t) (se_getenv env)
           @ map (identity_prefix (ct_fixture_id t)) (ct_rounds t))) (json_strings tree)"
proof -
  obtain plan runner rounds reds result where plan: "from_contracts dec url_parse from_value canonical p s = Inr plan"
    and runner: "verify_runner p obs = Inr runner" and filled: "list_all2 slot_filled (expected_slots plan) rounds"
    and agg: "aggregate_contention plan rounds = Inr result"
    and t: "t = transcript_of p s digests ident runner (plan_parameters plan) rounds reds result"
    and audit: "transcript_audit (se_to_value env) t (sensitive_runtime_values p (plan_parameters plan) (se_getenv env)) = Inr ()"
    using sweep_result [OF assms(3)] .
  obtain cs where cs: "balanced_plan plan cs" using from_contracts_balanced [OF assms(1,2) plan] by blast
  note follows = filled_plan [OF filled]
  obtain aggs ranking classification where result: "result = (aggs, ranking, classification)"
    and catalogs: "map agg_catalog aggs = round_catalogs (hd (plan_rounds plan))"
    and verdict: "\<And>a. a \<in> set aggs \<Longrightarrow> aggregate_passed a \<longleftrightarrow> list_all round_transcript_passed (rounds_of (agg_catalog a) rounds)"
    using aggregation_total [OF cs follows] agg by (metis Inr_inject)
  have cls: "classification = SweepPass \<longleftrightarrow> list_all aggregate_passed aggs"
    by (rule aggregate_contention_Inr [OF agg [unfolded result]]) (auto simp: filter_empty_conv list_all_iff)
  have fields: "ct_rounds t = rounds" "ct_aggregates t = aggs" "ct_classification t = classification" "ct_runner t = runner"
      "ct_parameters t = plan_parameters plan" "\<not> san_raw_secrets_persisted (ct_sanitization t)"
      "\<not> san_raw_response_body_persisted (ct_sanitization t)" "\<not> san_raw_request_identities_persisted (ct_sanitization t)"
    by (simp_all add: t transcript_of_def result)
  have "list_all aggregate_passed aggs \<longleftrightarrow> list_all round_transcript_passed rounds"
  proof
    assume all: "list_all aggregate_passed aggs"
    have "round_transcript_passed r" if "r \<in> set rounds" for r
    proof -
      have "crt_catalog r \<in> set (map agg_catalog aggs)"
        unfolding catalogs by (rule transcript_catalogs [OF cs follows(1) that])
      then obtain a where "a \<in> set aggs" "agg_catalog a = crt_catalog r" by auto
      with all verdict have "list_all round_transcript_passed (rounds_of (crt_catalog r) rounds)"
        by (metis list_all_iff)
      with that show ?thesis by (simp add: rounds_of_def list_all_iff)
    qed
    then show "list_all round_transcript_passed rounds" by (simp add: list_all_iff)
  next
    assume "list_all round_transcript_passed rounds"
    then show "list_all aggregate_passed aggs" using verdict by (auto simp: list_all_iff rounds_of_def)
  qed
  then have passed: "transcript_passed t \<longleftrightarrow> list_all round_transcript_passed (ct_rounds t)"
    using cls verified_runner_passed [OF runner] by (simp add: transcript_passed_def fields)
  obtain tree where tree: "se_to_value env t = Some tree"
      "\<forall>text \<in> set (json_strings tree). \<forall>secret \<in> set (sensitive_runtime_values p (plan_parameters plan) (se_getenv env)
         @ map (identity_prefix (ct_fixture_id t)) (ct_rounds t)). secret \<noteq> [] \<longrightarrow> \<not> sublist secret text"
    using audit unfolding transcript_audit_def map_err_eq_Inr audit_clean by blast
  have names: "map (run_catalog \<circ> agg_catalog) aggs = map run_catalog (round_catalogs (hd (plan_rounds plan)))"
    using catalogs by (metis map_map)
  show ?thesis
    using plan follows(1) passed verdict tree names
    by (intro exI [of _ plan] exI [of _ tree]) (auto simp: fields list_all_iff list_ex_iff)
qed

section \<open>A sweep against catalogs that are down\<close>

definition demo_revision :: string where
  "demo_revision = replicate 40 CHR ''a''"

definition demo_sweep_profile :: profile where
  "demo_sweep_profile = demo_contention_profile\<lparr>
     prof_components := [demo_component ''cat'' Catalog, demo_component ''dog'' Catalog,
       demo_component ''store'' ObjectStore,
       (demo_component RUNNER_COMPONENT_ID BenchmarkHarness)\<lparr>component_version := demo_revision,
         component_source := Some \<lparr>source_repository = ''r'', source_revision_id = demo_revision,
           source_tag = None, source_extensions = []\<rparr>\<rparr>]\<rparr>"

definition demo_observation :: runner_observation where
  "demo_observation = \<lparr>obs_operating_system = ''linux'', obs_architecture = ''arm64'',
     obs_source_revision = demo_revision\<rparr>"

definition down_client :: "unit http_client" where
  "down_client request w = (Err \<lparr>se_timeout = False, se_text = ''connection refused''\<rparr>, ())"

definition down_store :: "unit object_store_client" where
  "down_store =
     \<lparr>store_list = (\<lambda>path w. ([Err ''down''], w)), store_head = (\<lambda>path w. (Err ''down'', w)),
      store_get = (\<lambda>path w. (Err ''down'', w)), store_bytes = (\<lambda>path w. (Err ''down'', w))\<rparr>"

definition down_env :: "unit sweep_env" where
  "down_env =
     \<lparr>se_web = demo_web, se_http_client = (\<lambda>_. Ok down_client), se_object_store = (\<lambda>_. Ok down_store),
      se_location = demo_location_lib, se_decode_table = (\<lambda>_. Err ''down''), se_to_value = (\<lambda>_. Some JNull),
      se_clock = (\<lambda>w. (0, w)), se_instant_max = 0, se_sha = demo_sha, se_schedule = (\<lambda>_. []),
      se_join_order = (\<lambda>_. []), se_progress = (\<lambda>_ w. w), se_getenv = (\<lambda>_. Some ''s3cret'')\<rparr>"

abbreviation demo_sweep :: "profile \<Rightarrow> ((sweep_error + contention_transcript) \<times> unit) option" where
  "demo_sweep p \<equiv> run_contention_sweep (demo_decoders\<lparr>scenario_from_value := \<lambda>_. Inr demo_contention_scenario\<rparr>)
     demo_url_parse (\<lambda>_. Inr demo_parameters) ''{}'' down_env p demo_contention_scenario
     \<lparr>cd_profile_sha256 = ''a'', cd_scenario_sha256 = ''b''\<rparr> ''x1'' demo_observation ()"

lemma demo_sweep_profile_accepted:
  "validate_with (profile_issues demo_url_parse demo_sweep_profile) = Inr ()"
  "adapter_contract_required demo_sweep_profile"
  by code_simp+

lemma demo_sweep_plan:
  "from_contracts (demo_decoders\<lparr>scenario_from_value := \<lambda>_. Inr demo_contention_scenario\<rparr>) demo_url_parse
     (\<lambda>_. Inr demo_parameters) ''{}'' demo_sweep_profile demo_contention_scenario = Inr demo_plan"
proof -
  have "validate_profile demo_sweep_profile demo_contention_scenario demo_parameters = Inr
     [\<lparr>run_catalog = ''cat'', run_name = ''n'', run_version = ''1''\<rparr>,
      \<lparr>run_catalog = ''dog'', run_name = ''n'', run_version = ''1''\<rparr>]"
    by code_simp
  then show ?thesis
    by (simp add: from_contracts_def demo_shape decode_parameters_def demo_parameters_valid demo_canonical
        schedule_rounds_def demo_plan_def)
      (simp add: demo_parameters_def demo_round_policy_def checked_add_def upt_rec)
qed

lemma demo_connection_failed:
  assumes "catalog \<in> {''cat'', ''dog''}"
  shows "\<exists>evidence failure. connect_catalog demo_web (\<lambda>_. Ok down_client) demo_sweep_profile demo_contention_scenario
    catalog 1 1048576 (\<lambda>_. Some ''s3cret'') ()
    = (Inr \<lparr>cca_evidence = evidence, cca_outcome = ConnectionFailed failure\<rparr>, ())"
proof -
  have "case fst (connect_catalog demo_web (\<lambda>_. Ok down_client) demo_sweep_profile demo_contention_scenario
      c 1 1048576 (\<lambda>_. Some ''s3cret'') ()) of Inl _ \<Rightarrow> False | Inr attempt \<Rightarrow>
        (case cca_outcome attempt of ConnectionReady s \<Rightarrow> False | ConnectionFailed f \<Rightarrow> True)"
    if "c = ''cat'' \<or> c = ''dog''" for c
    using that by (elim disjE; hypsubst; code_simp)
  then obtain attempt failure where "fst (connect_catalog demo_web (\<lambda>_. Ok down_client) demo_sweep_profile
      demo_contention_scenario catalog 1 1048576 (\<lambda>_. Some ''s3cret'') ()) = Inr attempt"
      "cca_outcome attempt = ConnectionFailed failure"
    using assms by (fastforce split: sum.splits catalog_connection_outcome.splits)
  then show ?thesis
    by (intro exI [of _ "cca_evidence attempt"] exI [of _ failure]) (simp add: prod_eq_iff)
qed

lemma demo_slot_ok:
  assumes "slot \<in> set (expected_slots demo_plan)"
  shows "\<exists>t paths. sweep_slot down_env demo_sweep_profile demo_contention_scenario demo_plan ''x1'' wk store n slot ()
    = Some (Inr (t, paths), ())"
proof -
  have fx: "list_all (\<lambda>(rd, i, c). is_ok (fixture demo_plan (run_catalog c) ''x1'' (round_repetition rd))
      \<and> i < 2 \<and> run_catalog c \<in> {''cat'', ''dog''}) (expected_slots demo_plan)"
    by code_simp
  obtain rd i c where slot: "slot = (rd, i, c)" by (metis prod_cases3)
  have at: "is_ok (fixture demo_plan (run_catalog c) ''x1'' (round_repetition rd))" and i: "i < 2"
    and c: "run_catalog c \<in> {''cat'', ''dog''}"
    using bspec [OF fx [unfolded list_all_iff] assms] by (simp_all add: slot)
  obtain f where f: "fixture demo_plan (run_catalog c) ''x1'' (round_repetition rd) = Inr f"
    using at by (cases "fixture demo_plan (run_catalog c) ''x1'' (round_repetition rd)") auto
  have limits: "request_timeout_ms (limits (plan_parameters demo_plan)) = 1"
      "maximum_response_bytes (limits (plan_parameters demo_plan)) = 1048576"
    by (simp_all add: demo_plan_def demo_parameters_def)
  from demo_connection_failed [OF c] show ?thesis
    using i by (auto simp: sweep_slot_def slot f limits down_env_def try_from_nat_def complete_slot_def Let_def)
qed

lemma demo_slots_ok:
  assumes "set slots \<subseteq> set (expected_slots demo_plan)"
  shows "\<exists>rounds' reds'. sweep_slots down_env demo_sweep_profile demo_contention_scenario demo_plan ''x1'' wk store slots
    rounds reds () = Some (Inr (rounds', reds'), ())"
  using assms
proof (induction slots arbitrary: rounds reds)
  case Nil
  then show ?case by simp
next
  case (Cons slot slots)
  obtain t paths where "sweep_slot down_env demo_sweep_profile demo_contention_scenario demo_plan ''x1'' wk store
      (length rounds) slot () = Some (Inr (t, paths), ())"
    using demo_slot_ok [of slot wk store "length rounds"] Cons.prems by auto
  with Cons show ?case by simp
qed

lemma demo_aggregates:
  "\<exists>rounds reds aggs ranking classification. sweep_slots down_env demo_sweep_profile demo_contention_scenario demo_plan ''x1''
      wk store (expected_slots demo_plan) [] [] () = Some (Inr (rounds, reds), ())
    \<and> aggregate_contention demo_plan rounds = Inr (aggs, ranking, classification)"
proof -
  obtain rounds reds where slots: "sweep_slots down_env demo_sweep_profile demo_contention_scenario demo_plan ''x1'' wk store
      (expected_slots demo_plan) [] [] () = Some (Inr (rounds, reds), ())"
    using demo_slots_ok [OF subset_refl] by blast
  have filled: "list_all2 slot_filled (expected_slots demo_plan) rounds"
    using sweep_slots_filled [OF slots] by auto
  obtain cs where plan: "balanced_plan demo_plan cs"
    using from_contracts_balanced [OF demo_sweep_profile_accepted demo_sweep_plan] by blast
  show ?thesis using aggregation_total [OF plan filled_plan [OF filled]] slots by metis
qed

lemma demo_sweep_returns: "\<exists>t. demo_sweep demo_sweep_profile = Some (Inr t, ())"
proof -
  have runner: "\<exists>r. verify_runner demo_sweep_profile demo_observation = Inr r"
    by (simp add: verify_runner_def demo_sweep_profile_def demo_contention_profile_def demo_profile_def
        demo_component_def RUNNER_COMPONENT_ID_def demo_observation_def Let_def)
  have "\<exists>wk. workload_try_from (workload demo_parameters) = Inr wk"
    by (simp add: workload_try_from_def round_workload_new_def demo_parameters_def is_blank.simps leading_space.simps byte_def)
  moreover have "\<exists>store. from_policy (\<lambda>_. Ok down_store) (object_store demo_parameters) (\<lambda>_. Some ''s3cret'') = Inr store"
    by (simp add: from_policy_def from_connection_def required_environment_def)
  moreover have "plan_parameters demo_plan = demo_parameters" by (simp add: demo_plan_def)
  ultimately obtain r store wk where prep: "prepare_sweep
      (demo_decoders\<lparr>scenario_from_value := \<lambda>_. Inr demo_contention_scenario\<rparr>) demo_url_parse
      (\<lambda>_. Inr demo_parameters) ''{}'' down_env demo_sweep_profile demo_contention_scenario demo_observation
      = Inr (demo_plan, r, store, wk)"
    using runner by (auto simp: prepare_sweep_def demo_sweep_plan down_env_def)
  obtain rounds reds result where slots: "sweep_slots down_env demo_sweep_profile demo_contention_scenario demo_plan ''x1''
      wk store (expected_slots demo_plan) [] [] () = Some (Inr (rounds, reds), ())"
    and "aggregate_contention demo_plan rounds = Inr result"
    using demo_aggregates by blast
  moreover have "transcript_audit (\<lambda>_. Some JNull) t secrets = Inr ()" for t secrets
    by (simp add: transcript_audit_def audit_clean)
  ultimately show ?thesis
    by (simp add: run_contention_sweep_def prep slots finish_sweep_def Let_def) (simp add: down_env_def)
qed

theorem sweep_verdict_exact_witness:
  "\<exists>t. demo_sweep demo_sweep_profile = Some (Ok t, ()) \<and> follows_plan demo_plan (ct_rounds t)
    \<and> (transcript_passed t \<longleftrightarrow> list_all round_transcript_passed (ct_rounds t))"
proof -
  obtain t where run: "demo_sweep demo_sweep_profile = Some (Ok t, ())" using demo_sweep_returns by blast
  from sweep_verdict_exact [OF demo_sweep_profile_accepted run] run demo_sweep_plan show ?thesis by auto
qed

theorem sweep_never_lost_witness:
  "\<exists>e. demo_sweep demo_contention_profile = Some (Err e, ()) \<and> e \<noteq> SweepAggregation EmptySchedule"
proof -
  have "verify_runner demo_contention_profile demo_observation = Inl MissingRunnerSource"
    by (simp add: verify_runner_def demo_contention_profile_def demo_profile_def
        demo_component_def RUNNER_COMPONENT_ID_def)
  then have run: "demo_sweep demo_contention_profile = Some (Err MissingRunnerSource, ())"
    by (simp add: run_contention_sweep_def prepare_sweep_def demo_plan_from_contracts)
  have "adapter_contract_required demo_contention_profile" by code_simp
  from sweep_never_lost [OF demo_contention_profile_accepted this run] run show ?thesis by blast
qed

theorem ranking_exact_witness:
  "\<exists>rounds aggs ranking classification. aggregate_contention demo_plan rounds = Ok (aggs, ranking, classification)
    \<and> mset (map re_catalog (cr_entries ranking)) = mset (round_catalogs (hd (plan_rounds demo_plan)))"
proof -
  obtain rounds aggs ranking classification where
    run: "aggregate_contention demo_plan rounds = Ok (aggs, ranking, classification)"
    using demo_aggregates by blast
  from ranking_exact [OF run] run show ?thesis by blast
qed

end
