(* ===== verification/Conf_Operation.thy ===== *)
theory Conf_Operation
  imports Conf_Routing
begin

text \<open>
  The operation recorder of the probes (\<open>crates/conformance/src/operation.rs\<close>), the assertion
  records of \<open>evidence.rs\<close>, the checks of a scenario against the policy a probe implements
  (the same loops in \<open>config.rs\<close> and in the \<open>policy.rs\<close> of every probe), and the language in
  which the probes are written: a computation over the recorder and the world that may stop with an
  error (the question-mark operator on \<open>anyhow::Result\<close>). The locale at the end is the contract of
  a recorder and the calculus of the exchanges a probe makes with the catalog.
\<close>

section \<open>Third-party functions of the probes\<close>

text \<open>
  Decoding at a type is code that \<open>serde\<close> derives; \<open>debug_str\<close> is the \<open>Debug\<close> output of a
  string and \<open>encode\<close> the pretty printer of \<open>serde_json\<close> on the tuple a probe audits.
\<close>

record iceberg_error =
  ie_message :: string
  ie_type :: string
  ie_code :: u16

type_synonym 'a decoder = "json \<Rightarrow> string + 'a"

section \<open>Evidence records\<close>

record probe_assertion =
  pa_assertion :: assertion_id
  pa_required :: bool
  pa_outcome :: assertion_outcome

record sanitization_transcript =
  pst_policy :: string
  pst_redactions :: "string list"
  pst_raw_secrets_persisted :: bool
  pst_raw_response_body_persisted :: bool

definition not_evaluated_assertions :: "scenario \<Rightarrow> string \<Rightarrow> probe_assertion list" where
  "not_evaluated_assertions s reason =
     map (\<lambda>a. \<lparr>pa_assertion = spec_ident a, pa_required = spec_required a,
               pa_outcome = ANotEvaluated reason\<rparr>) (scn_assertions s)"

definition passed_required_assertions :: "probe_assertion list \<Rightarrow> bool" where
  "passed_required_assertions assertions =
     list_all (\<lambda>evaluation. \<not> pa_required evaluation \<or> pa_outcome evaluation = APass) assertions"

definition transcript_scenario_of :: "scenario \<Rightarrow> transcript_scenario" where
  "transcript_scenario_of s = \<lparr>tsc_ident = scn_ident s, tsc_version = scn_version s\<rparr>"

definition encode_evidence :: "('a \<Rightarrow> string + string) \<Rightarrow> 'a \<Rightarrow> string + string" where
  "encode_evidence to_vec_pretty x = and_then (to_vec_pretty x) (\<lambda>bytes. Ok (bytes @ [CHR 0x0A]))"

definition ICEBERG_REST_OPENAPI_SOURCE :: string where
  "ICEBERG_REST_OPENAPI_SOURCE =
     ''https://github.com/apache/iceberg/blob/apache-iceberg-1.11.0/open-api/rest-catalog-open-api.yaml''"

definition ICEBERG_REST_OPENAPI_SHA256 :: string where
  "ICEBERG_REST_OPENAPI_SHA256 =
     ''80d2ec83a70eeff6e7194853f8791c17cceb14610fae6a0e6afdd2921806ee4a''"

section \<open>Operations\<close>

record operation_http_request_transcript =
  ohr_method :: string
  ohr_url :: string
  ohr_headers :: string_map
  ohr_body :: "json option"

datatype operation_execution =
    Attempted operation_http_request_transcript "http_response_transcript option" "probe_failure option"
  | NotAttempted string

record operation_transcript =
  op_ident :: string
  op_capability :: "capability_id option"
  op_execution :: operation_execution

record observation =
  obs_status :: "u16 option"
  obs_private_json :: "json option"
  obs_failure :: "probe_failure option"

record 'w operation_recorder =
  or_client :: "'w http_client"
  or_bearer_token :: "string option"
  or_sensitive_values :: "string list"
  or_operations :: "operation_transcript list"
  or_redactions :: "string list"

definition recorder_new ::
  "'w http_client \<Rightarrow> string option \<Rightarrow> string list \<Rightarrow> 'w operation_recorder" where
  "recorder_new client bearer_token sens =
     \<lparr>or_client = client, or_bearer_token = bearer_token, or_sensitive_values = sens,
      or_operations = [], or_redactions = []\<rparr>"

definition attempt_headers :: "bool \<Rightarrow> bool \<Rightarrow> bool \<Rightarrow> string_map" where
  "attempt_headers authenticated with_body with_key =
     [(''accept'', ''application/json'')]
     @ (if authenticated then [(''authorization'', REDACTED)] else [])
     @ (if with_body then [(''content-type'', ''application/json'')] else [])
     @ (if with_key then [(''idempotency-key'', REDACTED)] else [])"

text \<open>
  The transcript of a request and the redactions it needed: the URL and the body are sanitized
  with the recorder's sensitive values and the idempotency key. Sanitizing a JSON string answers a
  JSON string, the value that is unwrapped for the URL.
\<close>

definition attempt_request ::
  "web_lib \<Rightarrow> 'w operation_recorder \<Rightarrow> string \<Rightarrow> http_method \<Rightarrow> url \<Rightarrow> json option \<Rightarrow> string option
   \<Rightarrow> operation_http_request_transcript \<times> string list" where
  "attempt_request lib rcd ident m u body key =
     (let sens = or_sensitive_values rcd @ (case key of None \<Rightarrow> [] | Some k \<Rightarrow> [k]);
          operation = ''operations.'' @ ident;
          (url_value, url_redactions) = sanitize_json lib (JString (wl_url_to_string lib u)) sens;
          sanitized_body = map_option (\<lambda>b. sanitize_json lib b sens) body
      in (\<lparr>ohr_method = method_str m,
           ohr_url = (case json_as_str url_value of Some text \<Rightarrow> text | None \<Rightarrow> []),
           ohr_headers = attempt_headers (or_bearer_token rcd \<noteq> None) (body \<noteq> None) (key \<noteq> None),
           ohr_body = map_option fst sanitized_body\<rparr>,
          (if or_bearer_token rcd \<noteq> None then [operation @ ''.request.headers.authorization''] else [])
          @ (if key \<noteq> None then [operation @ ''.request.headers.idempotency-key''] else [])
          @ (if url_redactions \<noteq> [] then [operation @ ''.request.url''] else [])
          @ (case sanitized_body of None \<Rightarrow> []
             | Some (_, redactions) \<Rightarrow> map (\<lambda>path. operation @ ''.request.body'' @ path) redactions)))"

definition attempt_with_idempotency ::
  "web_lib \<Rightarrow> string \<Rightarrow> string option \<Rightarrow> http_method \<Rightarrow> url \<Rightarrow> json option \<Rightarrow> string option
   \<Rightarrow> 'w operation_recorder \<times> 'w \<Rightarrow> observation \<times> 'w operation_recorder \<times> 'w" where
  "attempt_with_idempotency lib ident capability m u body key s =
     (case s of (rcd, w) \<Rightarrow>
        (let sens = or_sensitive_values rcd @ (case key of None \<Rightarrow> [] | Some k \<Rightarrow> [k]);
             (request, redactions) = attempt_request lib rcd ident m u body key;
             (captured, w1) =
               (case key of
                  Some k \<Rightarrow> execute_json_request_with_idempotency lib (or_client rcd) m u
                              (or_bearer_token rcd) body sens ident k w
                | None \<Rightarrow> execute_json_request lib (or_client rcd) m u (or_bearer_token rcd) body sens ident w)
         in (\<lparr>obs_status = map_option rsp_status (cap_response captured),
              obs_private_json = cap_private_json captured, obs_failure = cap_failure captured\<rparr>,
             rcd\<lparr>or_operations := or_operations rcd @
                     [\<lparr>op_ident = ident, op_capability = capability,
                       op_execution = Attempted request (cap_response captured) (cap_failure captured)\<rparr>],
                  or_redactions := or_redactions rcd @ redactions
                     @ map (\<lambda>path. ''operations.'' @ ident @ ''.'' @ path) (cap_redactions captured)\<rparr>,
             w1)))"

definition recorder_attempt ::
  "web_lib \<Rightarrow> string \<Rightarrow> string option \<Rightarrow> http_method \<Rightarrow> url \<Rightarrow> json option
   \<Rightarrow> 'w operation_recorder \<times> 'w \<Rightarrow> observation \<times> 'w operation_recorder \<times> 'w" where
  "recorder_attempt lib ident capability m u body =
     attempt_with_idempotency lib ident capability m u body None"

definition attempt_idempotent ::
  "web_lib \<Rightarrow> string \<Rightarrow> string option \<Rightarrow> http_method \<Rightarrow> url \<Rightarrow> json option \<Rightarrow> string
   \<Rightarrow> 'w operation_recorder \<times> 'w \<Rightarrow> observation \<times> 'w operation_recorder \<times> 'w" where
  "attempt_idempotent lib ident capability m u body key =
     attempt_with_idempotency lib ident capability m u body (Some key)"

definition recorder_skip ::
  "string \<Rightarrow> string option \<Rightarrow> string \<Rightarrow> 'w operation_recorder \<Rightarrow> 'w operation_recorder" where
  "recorder_skip ident capability reason rcd =
     rcd\<lparr>or_operations := or_operations rcd @
        [\<lparr>op_ident = ident, op_capability = capability, op_execution = NotAttempted reason\<rparr>]\<rparr>"

definition recorder_finish :: "'w operation_recorder \<Rightarrow> operation_transcript list \<times> string list" where
  "recorder_finish rcd = (or_operations rcd, or_redactions rcd)"

section \<open>Checks of an observation\<close>

definition debug_list :: "('a \<Rightarrow> string) \<Rightarrow> 'a list \<Rightarrow> string" where
  "debug_list debug xs = ''['' @ join '', '' (map debug xs) @ '']''"

definition validate_status :: "observation \<Rightarrow> u16 list \<Rightarrow> string + unit" where
  "validate_status observation allowed =
     (case obs_status observation of
        Some status \<Rightarrow>
          if status \<in> set allowed then Ok ()
          else Err (''HTTP '' @ show_word status @ '' is not in '' @ debug_list show_word allowed)
      | None \<Rightarrow>
          Err (case obs_failure observation of Some failure \<Rightarrow> pf_explanation failure
               | None \<Rightarrow> ''no response was received''))"

definition parse_json_response :: "'a decoder \<Rightarrow> observation \<Rightarrow> u16 \<Rightarrow> string + 'a" where
  "parse_json_response decode observation status =
     and_then (validate_status observation [status]) (\<lambda>_.
     and_then (ok_or (obs_private_json observation) ''response did not contain valid JSON'') (\<lambda>v.
       map_err (\<lambda>error. ''invalid response shape: '' @ error) (decode v)))"

definition validate_spec_error_response ::
  "iceberg_error decoder \<Rightarrow> observation \<Rightarrow> u16 \<Rightarrow> string + string" where
  "validate_spec_error_response decode observation status =
     and_then (parse_json_response decode observation status) (\<lambda>error.
       if ie_code error \<noteq> status then
         Err (''error code '' @ show_word (ie_code error) @ '' does not match HTTP '' @ show_word status)
       else if trim (ie_type error) = [] then Err ''error type is empty''
       else if trim (ie_message error) = [] then Err ''error message is empty''
       else Ok (ie_type error))"

definition validate_error_response ::
  "iceberg_error decoder \<Rightarrow> observation \<Rightarrow> u16 \<Rightarrow> string \<Rightarrow> string + unit" where
  "validate_error_response decode observation status error_type =
     and_then (validate_spec_error_response decode observation status) (\<lambda>actual_type.
       if actual_type \<noteq> error_type then
         Err (''error type '' @ quoted actual_type @ '' does not match '' @ quoted error_type)
       else Ok ())"

text \<open>\<open>all_results\<close>: the first error, if any; the values are dropped.\<close>

fun all_results :: "(string + 'a) list \<Rightarrow> string + unit" where
  "all_results [] = Ok ()"
| "all_results (Inl error # results) = Err error"
| "all_results (Inr _ # results) = all_results results"

lemma all_results_Ok [simp]: "all_results results = Ok () \<longleftrightarrow> list_all is_ok results"
  by (induction results rule: all_results.induct) auto

section \<open>The policy of a scenario\<close>

type_synonym expected_step = "string \<times> actor_role \<times> string \<times> string list \<times> u64 option"
type_synonym expected_assertion = "string \<times> string \<times> bool \<times> assertion_check"

definition check_parameters :: "string \<Rightarrow> (string \<times> json) list \<Rightarrow> scenario \<Rightarrow> string + unit" where
  "check_parameters probe expected s =
     ensure (scn_parameters s = expected)
       (probe @ '' probe scenario parameters drifted from the implemented v1 policy'')"

definition check_capabilities ::
  "string \<Rightarrow> (string \<times> requirement_level) list \<Rightarrow> scenario \<Rightarrow> string + unit" where
  "check_capabilities probe expected s =
     (if length (scn_capabilities s) \<noteq> length expected then
        Err (probe @ '' probe scenario must declare exactly '' @ show_nat (length expected) @ '' capabilities'')
      else try_fold (\<lambda>_ (requirement, (capability, level)).
             ensure (req_capability requirement = capability \<and> req_level requirement = level
                     \<and> req_specification requirement = Some ICEBERG_REST_OPENAPI_SOURCE)
               (probe @ '' probe scenario capability policy drifted at '' @ quoted capability))
           () (zip (scn_capabilities s) expected))"

definition check_steps :: "string \<Rightarrow> expected_step list \<Rightarrow> scenario \<Rightarrow> string + unit" where
  "check_steps probe expected s =
     (if length (scn_steps s) \<noteq> length expected then
        Err (probe @ '' probe scenario must declare exactly '' @ show_nat (length expected) @ '' steps'')
      else try_fold (\<lambda>_ (step, (ident, actor, operation, dependencies, timeout_ms)).
             ensure (step_ident step = ident \<and> step_actor step = actor \<and> step_operation step = operation
                     \<and> step_depends_on step = dependencies \<and> step_timeout_ms step = timeout_ms
                     \<and> step_parameters step = [])
               (probe @ '' probe scenario step policy drifted at '' @ quoted ident))
           () (zip (scn_steps s) expected))"

text \<open>
  The sources compare the serialized check with a JSON literal; the serialization of a check is
  injective, so the literal is written as the check it is the serialization of.
\<close>

definition check_assertions :: "string \<Rightarrow> expected_assertion list \<Rightarrow> scenario \<Rightarrow> string + unit" where
  "check_assertions probe expected s =
     (if length (scn_assertions s) \<noteq> length expected then
        Err (probe @ '' probe scenario must declare exactly '' @ show_nat (length expected) @ '' assertions'')
      else try_fold (\<lambda>_ (assertion, (ident, step, required, check)).
             ensure (spec_ident assertion = ident \<and> spec_step assertion = step
                     \<and> spec_required assertion = required \<and> spec_check assertion = check)
               (probe @ '' probe scenario assertion policy drifted at '' @ quoted ident))
           () (zip (scn_assertions s) expected))"

definition check_extensions :: "string \<Rightarrow> scenario \<Rightarrow> string + unit" where
  "check_extensions probe s =
     ensure (scn_extensions s = []) (probe @ '' probe scenario v1 does not accept extensions'')"

definition check_invocation ::
  "string \<Rightarrow> string \<Rightarrow> (scenario \<Rightarrow> string + unit) \<Rightarrow> profile \<Rightarrow> scenario \<Rightarrow> component_id \<Rightarrow> string + unit" where
  "check_invocation probe scenario_id policy p s catalog =
     (if scn_ident s \<noteq> scenario_id then
        Err (probe @ '' probe requires scenario '' @ quoted scenario_id @ '', found '' @ quoted (scn_ident s))
      else if scn_version s \<noteq> 1 then
        Err (probe @ '' probe supports scenario version 1, found '' @ show_word (scn_version s))
      else and_then (policy s) (\<lambda>_. and_then (resolve_target p s catalog) (\<lambda>_. Ok ())))"

text \<open>The assertion \<open>required\<close> of a name expects a custom check with this configuration.\<close>

definition custom_check :: "string \<Rightarrow> (string \<times> json) list \<Rightarrow> assertion_check" where
  "custom_check name configuration = Custom (''querygraph/catalog-bench/'' @ name) (JObject configuration)"

definition authentication_assertion :: expected_assertion where
  "authentication_assertion =
     (''authentication-ready'', ''negotiate-authentication'', True,
      custom_check ''authentication-ready-v1'' [(''persist_token'', JBool False)])"

definition sanitized_assertion :: expected_assertion where
  "sanitized_assertion =
     (''transcript-sanitized'', ''sanitize-transcript'', True,
      custom_check ''sanitized-http-transcript-v1''
        [(''request_header_policy'', JString ''allowlist-and-redact-authorization''),
         (''response_header_policy'', JString ''allowlist''),
         (''response_json_policy'', JString ''recursive-secret-key-redaction'')])"

section \<open>What every probe writes for an unsupported capability\<close>

definition unsupported_reason :: "unsupported_adapter_capability \<Rightarrow> string" where
  "unsupported_reason l =
     ''required capability '' @ quoted (lim_capability l) @ '' is declared unsupported before execution''"

definition unsupported_classification :: "unsupported_adapter_capability \<Rightarrow> probe_classification" where
  "unsupported_classification l =
     ProbeUnsupported (lim_capability l) (lim_attributed_to l) (lim_explanation l)"

definition unattempted_authentication :: "catalog_adapter \<Rightarrow> authentication_transcript" where
  "unattempted_authentication adapter =
     \<lparr>at_mode = authentication_mode (adapter_authentication adapter), at_outcome = AuthNotAttempted,
      at_token_url = None, at_scope = None, at_http_status = None\<rparr>"

definition sanitization_of :: "string list \<Rightarrow> bool \<Rightarrow> sanitization_transcript" where
  "sanitization_of redactions raw_secrets =
     \<lparr>pst_policy = ''automated-v1'', pst_redactions = redactions,
      pst_raw_secrets_persisted = raw_secrets, pst_raw_response_body_persisted = False\<rparr>"

section \<open>Probe computations\<close>

text \<open>
  A probe step changes the recorder and the world and answers a value or stops with an error.
  \<open>probe_try\<close> is the question mark on a result that needs no step.
\<close>

type_synonym ('s, 'a) probe = "'s \<Rightarrow> (string + 'a) \<times> 's"

definition probe_return :: "'a \<Rightarrow> ('s, 'a) probe" where
  "probe_return a s = (Ok a, s)"

definition probe_try :: "string + 'a \<Rightarrow> ('s, 'a) probe" where
  "probe_try r s = (r, s)"

definition probe_bind :: "('s, 'a) probe \<Rightarrow> ('a \<Rightarrow> ('s, 'b) probe) \<Rightarrow> ('s, 'b) probe" where
  "probe_bind m f s = (case m s of (Inl e, s1) \<Rightarrow> (Err e, s1) | (Inr a, s1) \<Rightarrow> f a s1)"

text \<open>A call of the recorder at a route; the route is computed before the call.\<close>

definition attempt ::
  "web_lib \<Rightarrow> string \<Rightarrow> string \<Rightarrow> http_method \<Rightarrow> string + url \<Rightarrow> json option
   \<Rightarrow> ('w operation_recorder \<times> 'w, observation) probe" where
  "attempt lib ident capability m route body =
     probe_bind (probe_try route) (\<lambda>u s.
       let (observation, s1) = recorder_attempt lib ident (Some capability) m u body s in (Ok observation, s1))"

definition attempt_keyed ::
  "web_lib \<Rightarrow> string \<Rightarrow> string \<Rightarrow> http_method \<Rightarrow> string + url \<Rightarrow> json option \<Rightarrow> string
   \<Rightarrow> ('w operation_recorder \<times> 'w, observation) probe" where
  "attempt_keyed lib ident capability m route body key =
     probe_bind (probe_try route) (\<lambda>u s.
       let (observation, s1) = attempt_idempotent lib ident (Some capability) m u body key s in (Ok observation, s1))"

definition skip_all ::
  "(string \<times> string) list \<Rightarrow> string \<Rightarrow> ('w operation_recorder \<times> 'w, unit) probe" where
  "skip_all operations reason s =
     (case s of (rcd, w) \<Rightarrow>
        (Ok (), fold (\<lambda>(ident, capability). recorder_skip ident (Some capability) reason) operations rcd, w))"

fun probe_map :: "('a \<Rightarrow> ('s, 'b) probe) \<Rightarrow> 'a list \<Rightarrow> ('s, 'b list) probe" where
  "probe_map f [] = probe_return []"
| "probe_map f (x # xs) = probe_bind (f x) (\<lambda>y. probe_bind (probe_map f xs) (\<lambda>ys. probe_return (y # ys)))"

section \<open>Exchanges\<close>

text \<open>
  The contract of a recorder towards a probe, over the exchanges made with the catalog so far: a
  call adds one exchange and answers the observation of its response, a skipped operation adds
  none. \<open>good\<close> says that the state belongs to the recorder whose exchanges are counted.
\<close>

locale exchange_recorder =
  fixes call :: "'k \<Rightarrow> 's \<Rightarrow> 'o \<times> 's"
    and pass_over :: "'i \<Rightarrow> 's \<Rightarrow> 's"
    and good :: "'s \<Rightarrow> bool"
    and exchanges :: "'s \<Rightarrow> 'x list"
    and answers :: "'k \<Rightarrow> 'x \<Rightarrow> 'o \<Rightarrow> bool"
  assumes call_adds:
      "good s \<Longrightarrow> call k s = (ob, s1) \<Longrightarrow> good s1 \<and> (\<exists>x. exchanges s1 = exchanges s @ [x] \<and> answers k x ob)"
    and pass_over_adds:
      "good s \<Longrightarrow> good (pass_over i s) \<and> exchanges (pass_over i s) = exchanges s"
begin

definition traces :: "('s, 'a) probe \<Rightarrow> ('x list \<Rightarrow> string + 'a \<Rightarrow> bool) \<Rightarrow> bool" where
  "traces m Q \<longleftrightarrow>
     (\<forall>s. good s \<longrightarrow> (case m s of (r, s1) \<Rightarrow>
        good s1 \<and> (\<exists>xs. exchanges s1 = exchanges s @ xs \<and> Q xs r)))"

lemma traces_elim:
  assumes "traces m Q" and "good s" and "m s = (r, s1)"
  obtains xs where "good s1" and "exchanges s1 = exchanges s @ xs" and "Q xs r"
  using assms unfolding traces_def by fastforce

lemma traces_weaken:
  assumes "traces m P" and "\<And>xs r. P xs r \<Longrightarrow> Q xs r"
  shows "traces m Q"
  unfolding traces_def
proof (intro allI impI)
  fix s assume "good s"
  obtain r s1 where m: "m s = (r, s1)" by force
  from traces_elim [OF assms(1) \<open>good s\<close> m] obtain xs
    where "good s1" "exchanges s1 = exchanges s @ xs" "P xs r" .
  then show "case m s of (r, s1) \<Rightarrow> good s1 \<and> (\<exists>xs. exchanges s1 = exchanges s @ xs \<and> Q xs r)"
    using assms(2) by (auto simp: m)
qed

lemma traces_return: "Q [] (Ok a) \<Longrightarrow> traces (probe_return a) Q"
  by (simp add: traces_def probe_return_def)

lemma traces_try: "Q [] r \<Longrightarrow> traces (probe_try r) Q"
  by (simp add: traces_def probe_try_def)

lemma traces_bind:
  assumes "traces m P" and "\<And>a. traces (f a) (R a)"
  shows "traces (probe_bind m f) (\<lambda>xs r. (\<exists>e. r = Err e \<and> P xs (Err e))
    \<or> (\<exists>ys zs a. xs = ys @ zs \<and> P ys (Ok a) \<and> R a zs r))"
  unfolding traces_def
proof (intro allI impI)
  fix s assume "good s"
  obtain r s1 where m: "m s = (r, s1)" by force
  from traces_elim [OF assms(1) \<open>good s\<close> m] obtain ys
    where s1: "good s1" "exchanges s1 = exchanges s @ ys" "P ys r" .
  show "case probe_bind m f s of (r, s2) \<Rightarrow> good s2 \<and> (\<exists>xs. exchanges s2 = exchanges s @ xs \<and>
      ((\<exists>e. r = Err e \<and> P xs (Err e)) \<or> (\<exists>ys zs a. xs = ys @ zs \<and> P ys (Ok a) \<and> R a zs r)))"
  proof (cases r)
    case (Inl e)
    then show ?thesis using s1 by (simp add: probe_bind_def m)
  next
    case (Inr a)
    obtain r2 s2 where f: "f a s1 = (r2, s2)" by force
    from traces_elim [OF assms(2) \<open>good s1\<close> f] obtain zs
      where "good s2" "exchanges s2 = exchanges s1 @ zs" "R a zs r2" .
    then show ?thesis using s1 Inr by (auto simp: probe_bind_def m f)
  qed
qed

lemma traces_call:
  assumes "\<And>x ob. answers k x ob \<Longrightarrow> Q [x] (Ok ob)"
  shows "traces (\<lambda>s. let (ob, s1) = call k s in (Ok ob, s1)) Q"
  unfolding traces_def
proof (intro allI impI)
  fix s assume "good s"
  obtain ob s1 where call: "call k s = (ob, s1)" by force
  from call_adds [OF \<open>good s\<close> call] assms
  show "case let (ob, s1) = call k s in (Ok ob, s1) of (r, s1) \<Rightarrow>
      good s1 \<and> (\<exists>xs. exchanges s1 = exchanges s @ xs \<and> Q xs r)"
    by (auto simp: call)
qed

lemma traces_pass_over: "Q [] (Ok ()) \<Longrightarrow> traces (\<lambda>s. (Ok (), pass_over i s)) Q"
  unfolding traces_def using pass_over_adds by fastforce

text \<open>A step that cannot stop, and whose exchanges all satisfy a predicate.\<close>

definition steady :: "('x \<Rightarrow> bool) \<Rightarrow> ('s, 'a) probe \<Rightarrow> bool" where
  "steady P m \<longleftrightarrow> traces m (\<lambda>xs r. is_ok r \<and> list_all P xs)"

lemma steady_return [intro]: "steady P (probe_return a)"
  by (simp add: steady_def traces_return)

lemma steady_bind [intro]: "steady P m \<Longrightarrow> (\<And>a. steady P (f a)) \<Longrightarrow> steady P (probe_bind m f)"
  unfolding steady_def by (rule traces_weaken, rule traces_bind) auto

lemma steady_map: "(\<And>x. x \<in> set xs \<Longrightarrow> steady P (f x)) \<Longrightarrow> steady P (probe_map f xs)"
  by (induction xs) (auto intro!: steady_bind)

lemma steady_traces: "steady P m \<Longrightarrow> (\<And>xs a. list_all P xs \<Longrightarrow> Q xs (Ok a)) \<Longrightarrow> traces m Q"
  unfolding steady_def by (erule traces_weaken) (auto simp: is_ok_def split: sum.splits)

text \<open>Sequencing when the first step cannot stop.\<close>

lemma traces_seq:
  assumes "traces m (\<lambda>xs r. \<exists>a. r = Ok a \<and> P xs a)"
    and "\<And>a. traces (f a) (\<lambda>zs r. \<forall>ys. P ys a \<longrightarrow> Q (ys @ zs) r)"
  shows "traces (probe_bind m f) Q"
  by (rule traces_weaken [OF traces_bind [OF assms]]) auto

end

section \<open>The recorder keeps the contract\<close>

type_synonym exchange = "http_request \<times> (send_error + http_response)"

definition logging :: "'w http_client \<Rightarrow> ('w \<times> exchange list) http_client" where
  "logging client rq s =
     (case s of (w, entries) \<Rightarrow> (case client rq w of (answer, w1) \<Rightarrow> (answer, (w1, entries @ [(rq, answer)]))))"

definition capture_answer ::
  "web_lib \<Rightarrow> string list \<Rightarrow> string \<Rightarrow> send_error + http_response \<Rightarrow> captured_response" where
  "capture_answer lib sens response_label answer =
     (case answer of
        Inl error \<Rightarrow>
          no_capture (Some \<lparr>pf_stage = RequestStage, pf_explanation = redact_text (se_text error) sens\<rparr>)
      | Inr response \<Rightarrow>
          (let headers = allowlisted_response_headers response sens
           in case read_limited_body response MAXIMUM_RESPONSE_BYTES of
                Inl error \<Rightarrow>
                  no_capture (Some \<lparr>pf_stage = ResponseStage, pf_explanation = redact_text error sens\<rparr>)
              | Inr (TooLarge observed) \<Rightarrow>
                  too_large_capture (rr_status response) headers observed response_label
              | Inr (Complete bytes observed) \<Rightarrow>
                  capture_complete_body lib (rr_status response) headers bytes sens))"

lemma execute_capture_answer:
  "execute_json_request_with_context lib client m u bearer body sens label key w =
     (case client \<lparr>rq_method = m, rq_url = u, rq_bearer = bearer,
         rq_body = (case body of None \<Rightarrow> NoBody | Some b \<Rightarrow> JsonBody b), rq_idempotency_key = key\<rparr> w of
        (answer, w1) \<Rightarrow> (capture_answer lib sens label answer, w1))"
  by (auto simp: execute_json_request_with_context_def capture_answer_def Let_def
      split: prod.splits sum.splits)

definition observation_of ::
  "web_lib \<Rightarrow> string list \<Rightarrow> string \<Rightarrow> send_error + http_response \<Rightarrow> observation" where
  "observation_of lib sens label answer =
     (let captured = capture_answer lib sens label answer
      in \<lparr>obs_status = map_option rsp_status (cap_response captured),
          obs_private_json = cap_private_json captured, obs_failure = cap_failure captured\<rparr>)"

text \<open>A call of the recorder: identifier, capability, method, URL, body and idempotency key.\<close>

type_synonym recorder_call = "string \<times> string option \<times> http_method \<times> url \<times> json option \<times> string option"

definition call_request :: "string option \<Rightarrow> recorder_call \<Rightarrow> http_request" where
  "call_request bearer k =
     (case k of (ident, capability, m, u, body, key) \<Rightarrow>
        \<lparr>rq_method = m, rq_url = u, rq_bearer = bearer,
         rq_body = (case body of None \<Rightarrow> NoBody | Some b \<Rightarrow> JsonBody b), rq_idempotency_key = key\<rparr>)"

definition call_observation ::
  "web_lib \<Rightarrow> string list \<Rightarrow> recorder_call \<Rightarrow> send_error + http_response \<Rightarrow> observation" where
  "call_observation lib sens k answer =
     (case k of (ident, capability, m, u, body, key) \<Rightarrow>
        observation_of lib (sens @ (case key of None \<Rightarrow> [] | Some i \<Rightarrow> [i])) ident answer)"

definition recorder_call ::
  "web_lib \<Rightarrow> recorder_call \<Rightarrow> 'w operation_recorder \<times> 'w \<Rightarrow> observation \<times> 'w operation_recorder \<times> 'w" where
  "recorder_call lib k =
     (case k of (ident, capability, m, u, body, key) \<Rightarrow>
        attempt_with_idempotency lib ident capability m u body key)"

definition recorder_pass_over ::
  "string \<times> string option \<times> string \<Rightarrow> 'w operation_recorder \<times> 'w \<Rightarrow> 'w operation_recorder \<times> 'w" where
  "recorder_pass_over i s =
     (case i of (ident, capability, reason) \<Rightarrow>
        case s of (rcd, w) \<Rightarrow> (recorder_skip ident capability reason rcd, w))"

definition records_for ::
  "'w http_client \<Rightarrow> string option \<Rightarrow> string list
   \<Rightarrow> ('w \<times> exchange list) operation_recorder \<times> 'w \<times> exchange list \<Rightarrow> bool" where
  "records_for client bearer sens s \<longleftrightarrow>
     or_client (fst s) = logging client \<and> or_bearer_token (fst s) = bearer
     \<and> or_sensitive_values (fst s) = sens"

definition exchanges_of :: "('w \<times> exchange list) operation_recorder \<times> 'w \<times> exchange list \<Rightarrow> exchange list" where
  "exchanges_of s = snd (snd s)"

lemma attempt_with_idempotency_logged:
  assumes "records_for client bearer sens s"
    and "attempt_with_idempotency lib ident capability m u body key s = (ob, s1)"
  shows "records_for client bearer sens s1 \<and> (\<exists>answer.
    exchanges_of s1 = exchanges_of s @ [(call_request bearer (ident, capability, m, u, body, key), answer)]
    \<and> ob = call_observation lib sens (ident, capability, m, u, body, key) answer)"
proof -
  obtain rcd w entries where s: "s = (rcd, w, entries)" by (cases s) auto
  let ?rq = "call_request bearer (ident, capability, m, u, body, key)"
  obtain answer w1 where answer: "client ?rq w = (answer, w1)" by force
  have good: "or_client rcd = logging client" "or_bearer_token rcd = bearer" "or_sensitive_values rcd = sens"
    using assms(1) by (simp_all add: s records_for_def)
  have execute: "execute_json_request_with_context lib (logging client) m u bearer body ss label key (w, entries)
      = (capture_answer lib ss label answer, (w1, entries @ [(?rq, answer)]))" for ss label
    using answer by (simp add: execute_capture_answer logging_def call_request_def)
  show ?thesis
    using assms(2) execute
    by (cases key)
      (auto simp: s attempt_with_idempotency_def good records_for_def exchanges_of_def split_def
        execute_json_request_def execute_json_request_with_idempotency_def call_observation_def
        observation_of_def Let_def)
qed

interpretation rec: exchange_recorder "recorder_call lib" recorder_pass_over
  "records_for client bearer sens" exchanges_of
  "\<lambda>k x ob. fst x = call_request bearer k \<and> ob = call_observation lib sens k (snd x)"
  for lib client bearer sens
proof
  fix s s1 :: "('a \<times> exchange list) operation_recorder \<times> 'a \<times> exchange list" and k ob
  assume "records_for client bearer sens s" "recorder_call lib k s = (ob, s1)"
  then show "records_for client bearer sens s1 \<and> (\<exists>x. exchanges_of s1 = exchanges_of s @ [x]
      \<and> fst x = call_request bearer k \<and> ob = call_observation lib sens k (snd x))"
    using attempt_with_idempotency_logged [of client bearer sens s lib] by (cases k) (fastforce simp: recorder_call_def)
next
  fix s :: "('a \<times> exchange list) operation_recorder \<times> 'a \<times> exchange list" and i
  assume "records_for client bearer sens s"
  then show "records_for client bearer sens (recorder_pass_over i s)
      \<and> exchanges_of (recorder_pass_over i s) = exchanges_of s"
    by (auto simp: recorder_pass_over_def records_for_def exchanges_of_def recorder_skip_def split: prod.splits)
qed

abbreviation probe_traces ::
  "'w http_client \<Rightarrow> string option \<Rightarrow> string list
   \<Rightarrow> (('w \<times> exchange list) operation_recorder \<times> 'w \<times> exchange list, 'a) probe
   \<Rightarrow> (exchange list \<Rightarrow> string + 'a \<Rightarrow> bool) \<Rightarrow> bool" where
  "probe_traces client bearer sens \<equiv> exchange_recorder.traces (records_for client bearer sens) exchanges_of"

abbreviation probe_steady ::
  "'w http_client \<Rightarrow> string option \<Rightarrow> string list \<Rightarrow> (exchange \<Rightarrow> bool)
   \<Rightarrow> (('w \<times> exchange list) operation_recorder \<times> 'w \<times> exchange list, 'a) probe \<Rightarrow> bool" where
  "probe_steady client bearer sens \<equiv> exchange_recorder.steady (records_for client bearer sens) exchanges_of"

lemma attempt_traces:
  assumes "\<And>answer. Q [(call_request bearer (ident, Some capability, m, u, body, None), answer)]
      (Ok (call_observation lib sens (ident, Some capability, m, u, body, None) answer))"
  shows "probe_traces client bearer sens (attempt lib ident capability m (Ok u) body) Q"
proof -
  have call: "attempt lib ident capability m (Ok u) body =
      (\<lambda>s. let (ob, s1) = recorder_call lib (ident, Some capability, m, u, body, None) s in (Ok ob, s1))"
    by (auto simp: attempt_def recorder_attempt_def recorder_call_def probe_bind_def probe_try_def)
  show ?thesis
    unfolding call by (rule rec.traces_call [where lib = lib and sens = sens and bearer = bearer]) (use assms in auto)
qed

lemma attempt_keyed_traces:
  assumes "\<And>answer. Q [(call_request bearer (ident, Some capability, m, u, body, Some key), answer)]
      (Ok (call_observation lib sens (ident, Some capability, m, u, body, Some key) answer))"
  shows "probe_traces client bearer sens (attempt_keyed lib ident capability m (Ok u) body key) Q"
proof -
  have call: "attempt_keyed lib ident capability m (Ok u) body key =
      (\<lambda>s. let (ob, s1) = recorder_call lib (ident, Some capability, m, u, body, Some key) s in (Ok ob, s1))"
    by (auto simp: attempt_keyed_def attempt_idempotent_def recorder_call_def probe_bind_def probe_try_def)
  show ?thesis
    unfolding call by (rule rec.traces_call [where lib = lib and sens = sens and bearer = bearer]) (use assms in auto)
qed

lemma skip_all_traces:
  assumes "Q [] (Ok ())"
  shows "probe_traces client bearer sens (skip_all operations reason) Q"
proof -
  have "or_client (fold (\<lambda>(ident, capability). recorder_skip ident (Some capability) reason) operations rcd) = or_client rcd
      \<and> or_bearer_token (fold (\<lambda>(ident, capability). recorder_skip ident (Some capability) reason) operations rcd) = or_bearer_token rcd
      \<and> or_sensitive_values (fold (\<lambda>(ident, capability). recorder_skip ident (Some capability) reason) operations rcd) = or_sensitive_values rcd"
    for rcd :: "('a \<times> exchange list) operation_recorder"
    by (induction operations arbitrary: rcd) (auto simp: recorder_skip_def)
  then show ?thesis
    using assms by (auto simp: rec.traces_def skip_all_def records_for_def exchanges_of_def)
qed

lemma attempt_steady:
  assumes "route = Ok u"
    and "\<And>answer. P (call_request bearer (ident, Some capability, m, u, body, None), answer)"
  shows "probe_steady client bearer sens P (attempt lib ident capability m route body)"
  unfolding assms(1) rec.steady_def using assms(2) by (auto intro!: attempt_traces)

lemma attempt_keyed_steady:
  assumes "route = Ok u"
    and "\<And>answer. P (call_request bearer (ident, Some capability, m, u, body, Some key), answer)"
  shows "probe_steady client bearer sens P (attempt_keyed lib ident capability m route body key)"
  unfolding assms(1) rec.steady_def using assms(2) by (auto intro!: attempt_keyed_traces)

lemma skip_all_steady: "probe_steady client bearer sens P (skip_all operations reason)"
  unfolding rec.steady_def by (auto intro!: skip_all_traces)

section \<open>What a checked observation says of the answer\<close>

definition answered :: "u16 list \<Rightarrow> exchange \<Rightarrow> bool" where
  "answered allowed x = (case snd x of Inl _ \<Rightarrow> False | Inr response \<Rightarrow> rr_status response \<in> set allowed)"

lemma capture_answer_status:
  "cap_response (capture_answer lib sens label answer) = Some captured
   \<Longrightarrow> \<exists>response. answer = Inr response \<and> rr_status response = rsp_status captured"
  by (auto simp: capture_answer_def no_capture_def too_large_capture_def capture_complete_body_def Let_def
      split: sum.splits collected_body.splits if_splits prod.splits)

lemma validate_status_Ok:
  "validate_status ob allowed = Ok () \<longleftrightarrow> (\<exists>status. obs_status ob = Some status \<and> status \<in> set allowed)"
  by (auto simp: validate_status_def split: option.splits)

lemma parse_json_response_Ok:
  "parse_json_response decode ob status = Ok x \<longleftrightarrow>
     obs_status ob = Some status \<and> (\<exists>v. obs_private_json ob = Some v \<and> decode v = Ok x)"
  by (auto simp: parse_json_response_def and_then_eq_Inr validate_status_Ok)

lemma validate_error_response_Ok:
  "validate_error_response decode ob status error_type = Ok () \<longleftrightarrow>
     obs_status ob = Some status \<and> (\<exists>v error. obs_private_json ob = Some v \<and> decode v = Ok error
       \<and> ie_code error = status \<and> ie_type error = error_type
       \<and> trim error_type \<noteq> [] \<and> trim (ie_message error) \<noteq> [])"
  by (auto simp: validate_error_response_def validate_spec_error_response_def and_then_eq_Inr
      parse_json_response_Ok split: if_splits)

lemma obs_status_answered:
  "obs_status (call_observation lib sens k answer) = Some status \<Longrightarrow> status \<in> set allowed
   \<Longrightarrow> answered allowed (rq, answer)"
  by (auto simp: call_observation_def observation_of_def Let_def answered_def split_def
      dest!: capture_answer_status)

section \<open>Routes that cannot fail\<close>

definition usable :: "web_lib \<Rightarrow> catalog_routes \<Rightarrow> bool" where
  "usable lib r =
     (case wl_url_parse lib (routes_base_url r) of Inl _ \<Rightarrow> False | Inr u \<Rightarrow> \<not> wl_cannot_be_a_base lib u)"

lemma resource_url_usable: "is_ok (resource_url lib r tail) \<longleftrightarrow> usable lib r"
  by (auto simp: resource_url_def usable_def is_ok_def and_then_def map_err_def split: sum.splits)

lemma usable_resource: "usable lib r \<Longrightarrow> \<exists>u. resource_url lib r tail = Ok u"
  using resource_url_usable [of lib r tail] by (auto simp: is_ok_def split: sum.splits)

lemma unusable_resource: "\<not> usable lib r \<Longrightarrow> \<exists>e. resource_url lib r tail = Err e"
  using resource_url_usable [of lib r tail] by (auto simp: is_ok_def split: sum.splits)

lemma usable_routes:
  assumes "usable lib r"
  shows "route_namespace_collection lib r = Ok (projr (route_namespace_collection lib r))"
    and "route_namespace lib r ns = Ok (projr (route_namespace lib r ns))"
    and "route_namespace_properties lib r ns = Ok (projr (route_namespace_properties lib r ns))"
    and "route_namespaces_under lib r ns = Ok (projr (route_namespaces_under lib r ns))"
    and "route_namespace_page lib r token n = Ok (projr (route_namespace_page lib r token n))"
    and "route_table_collection lib r ns = Ok (projr (route_table_collection lib r ns))"
    and "route_table lib r ns name = Ok (projr (route_table lib r ns name))"
    and "route_table_page lib r ns token n = Ok (projr (route_table_page lib r ns token n))"
    and "route_table_register lib r ns = Ok (projr (route_table_register lib r ns))"
    and "route_table_rename lib r = Ok (projr (route_table_rename lib r))"
  using usable_resource [OF assms]
  unfolding route_namespace_collection_def route_namespace_def route_namespace_properties_def
    route_namespaces_under_def route_namespace_page_def route_table_collection_def route_table_def
    route_table_page_def route_table_register_def route_table_rename_def
  by (metis and_then_simps(2) sum.sel(2))+

end
