(* ===== verification/Conf_Policy.thy ===== *)
theory Conf_Policy
  imports Conf_Operation
begin

text \<open>
  What the policy checks of \<open>Conf_Operation\<close> fix: a scenario that passed them has exactly the
  assertions of the policy, so the verdict on the required ones is a verdict on the policy's table.
  At the end stands a scenario that passes the checks of any policy, with a profile to run it on.
\<close>

section \<open>What the policy checks fix\<close>

lemma check_assertions_Ok:
  "check_assertions probe expected s = Ok () \<longleftrightarrow>
     map (\<lambda>a. (spec_ident a, spec_step a, spec_required a, spec_check a)) (scn_assertions s) = expected"
proof -
  have "length xs = length expected \<Longrightarrow>
      try_fold (\<lambda>_ (a, (ident, step, required, check)).
        ensure (spec_ident a = ident \<and> spec_step a = step \<and> spec_required a = required \<and> spec_check a = check)
          (message ident)) () (zip xs expected) = Ok () \<longleftrightarrow>
      map (\<lambda>a. (spec_ident a, spec_step a, spec_required a, spec_check a)) xs = expected"
    for xs :: "assertion_spec list" and message :: "string \<Rightarrow> string"
    by (induction xs expected rule: list_induct2) (auto simp: and_then_eq_Inr)
  then show ?thesis by (auto simp: check_assertions_def)
qed

lemma passed_required_expected:
  assumes "check_assertions probe expected s = Ok ()"
  shows "passed_required_assertions
      (map (\<lambda>a. \<lparr>pa_assertion = spec_ident a, pa_required = spec_required a,
          pa_outcome = outcome (spec_check a)\<rparr>) (scn_assertions s))
    \<longleftrightarrow> list_all (\<lambda>(ident, step, required, check). required \<longrightarrow> outcome check = APass) expected"
  using assms unfolding check_assertions_Ok
  by (auto simp: passed_required_assertions_def list_all_iff)

text \<open>The scenario that has exactly the tables of a policy, and a profile whose only catalog exercises them.\<close>

definition policy_scenario ::
  "string \<Rightarrow> (string \<times> json) list \<Rightarrow> (string \<times> requirement_level) list \<Rightarrow> expected_step list
   \<Rightarrow> expected_assertion list \<Rightarrow> scenario" where
  "policy_scenario ident parameters capabilities steps assertions =
     \<lparr>scn_contract_version = V1, scn_ident = ident, scn_version = 1, scn_title = ''t'', scn_description = ''d'',
      scn_family = IcebergRest, scn_classification = StrictV1, scn_tags = [],
      scn_capabilities = map (\<lambda>(c, l). \<lparr>req_capability = c, req_level = l, req_description = ''d'',
        req_specification = Some ICEBERG_REST_OPENAPI_SOURCE\<rparr>) capabilities,
      scn_parameters = parameters,
      scn_steps = map (\<lambda>(i, actor, operation, dependencies, timeout). \<lparr>step_ident = i, step_actor = actor,
        step_operation = operation, step_description = ''d'', step_depends_on = dependencies,
        step_parameters = [], step_timeout_ms = timeout\<rparr>) steps,
      scn_assertions = map (\<lambda>(i, step, required, check). \<lparr>spec_ident = i, spec_step = step,
        spec_required = required, spec_description = ''d'', spec_check = check\<rparr>) assertions,
      scn_extensions = []\<rparr>"

definition probing_profile :: "(string \<times> requirement_level) list \<Rightarrow> profile" where
  "probing_profile capabilities =
     demo_profile\<lparr>
       prof_catalog_capabilities :=
         map (\<lambda>(c, l). \<lparr>cap_ident = c, cap_description = ''d'', cap_specification = None\<rparr>) capabilities,
       prof_catalog_adapters := [demo_adapter\<lparr>adapter_capabilities := ExerciseAll\<rparr>]\<rparr>"

definition probing_target :: probe_target where
  "probing_target = \<lparr>target_adapter = demo_adapter\<lparr>adapter_capabilities := ExerciseAll\<rparr>,
     target_component = demo_component ''cat'' Catalog\<rparr>"

lemma policy_scenario_simps [simp]:
  "scn_ident (policy_scenario ident parameters capabilities steps assertions) = ident"
  "scn_version (policy_scenario ident parameters capabilities steps assertions) = 1"
  by (simp_all add: policy_scenario_def)

lemma policy_scenario_checked:
  "check_parameters probe parameters (policy_scenario ident parameters capabilities steps assertions) = Ok ()"
  "check_capabilities probe capabilities (policy_scenario ident parameters capabilities steps assertions) = Ok ()"
  "check_steps probe steps (policy_scenario ident parameters capabilities steps assertions) = Ok ()"
  "check_assertions probe assertions (policy_scenario ident parameters capabilities steps assertions) = Ok ()"
  "check_extensions probe (policy_scenario ident parameters capabilities steps assertions) = Ok ()"
proof -
  show "check_capabilities probe capabilities (policy_scenario ident parameters capabilities steps assertions) = Ok ()"
    unfolding check_capabilities_def policy_scenario_def by (induction capabilities) auto
  show "check_steps probe steps (policy_scenario ident parameters capabilities steps assertions) = Ok ()"
    unfolding check_steps_def policy_scenario_def by (induction steps) auto
  show "check_assertions probe assertions (policy_scenario ident parameters capabilities steps assertions) = Ok ()"
    unfolding check_assertions_Ok policy_scenario_def by (induction assertions) auto
qed (simp_all add: check_parameters_def check_extensions_def policy_scenario_def)

lemma probing_target_resolved:
  "resolve_target (probing_profile capabilities) (policy_scenario ident parameters capabilities steps assertions) ''cat''
     = Ok probing_target"
proof -
  have adapter: "resolve_adapter (probing_profile capabilities) ''cat'' = Ok probing_target"
    by (simp add: resolve_adapter_def probing_profile_def probing_target_def demo_profile_def demo_adapter_def
        demo_component_def)
  have vocabulary: "cap_ident ` set (prof_catalog_capabilities (probing_profile capabilities)) = fst ` set capabilities"
    by (force simp: probing_profile_def)
  have "try_fold (\<lambda>_ requirement. check_target_capability (probing_profile capabilities) probing_target requirement) ()
      (map (\<lambda>(c, l). \<lparr>req_capability = c, req_level = l, req_description = ''d'', req_specification = spec\<rparr>) cs) = Ok ()"
    if "set cs \<subseteq> set capabilities" for cs spec
    using that
    by (induction cs) (force simp: check_target_capability_def vocabulary probing_target_def exercises_def)+
  then show ?thesis by (simp add: resolve_target_def adapter policy_scenario_def)
qed

lemma probing_target_unlimited: "first_required_limitation probing_target s = None"
proof -
  have "find_map (\<lambda>requirement. limitation (adapter_capabilities (target_adapter probing_target))
      (req_capability requirement)) rs = None" for rs
    by (induction rs) (auto simp: probing_target_def limitation_def)
  then show ?thesis by (simp add: first_required_limitation_def)
qed

definition demo_digests :: contract_digests where
  "demo_digests = \<lparr>cd_profile_sha256 = ''p'', cd_scenario_sha256 = ''s''\<rparr>"

end
