(* ===== verification/Conf_Config.thy ===== *)
theory Conf_Config
  imports Conf_Policy
begin

text \<open>
  The configuration probe (\<open>crates/conformance/src/config.rs\<close>): the policy it accepts a scenario
  under, the facts of one negotiation, the evaluation of the assertions and the whole probe. The
  main theorem says what a passing transcript has established.
\<close>

section \<open>Data\<close>

definition CONFIG_TRANSCRIPT_FORMAT :: string where
  "CONFIG_TRANSCRIPT_FORMAT = ''catalog-bench/config-transcript/v1''"

definition CONFIG_SCENARIO_ID :: string where
  "CONFIG_SCENARIO_ID = ''iceberg-rest.config.negotiation''"

definition RESPONSE_MEDIA_TYPE :: string where
  "RESPONSE_MEDIA_TYPE = ''application/json''"

record config_transcript =
  cft_format :: string
  cft_profile :: string
  cft_scenario :: transcript_scenario
  cft_contract_digests :: contract_digests
  cft_adapter :: transcript_adapter_record
  cft_classification :: probe_classification
  cft_authentication :: authentication_transcript
  cft_request :: http_request_transcript
  cft_response :: "http_response_transcript option"
  cft_prefix :: prefix_resolution
  cft_endpoints :: endpoint_advertisement
  cft_assertions :: "probe_assertion list"
  cft_failure :: "probe_failure option"
  cft_sanitization :: sanitization_transcript

definition config_transcript_passed :: "config_transcript \<Rightarrow> bool" where
  "config_transcript_passed t \<longleftrightarrow> cft_classification t = ProbePass"

record probe_facts =
  pfx_authentication_ready :: bool
  pfx_response_status :: "u16 option"
  pfx_response_content_type :: "string option"
  pfx_config_map_shape :: "(string + unit) option"
  pfx_prefix :: prefix_resolution
  pfx_endpoints :: endpoint_advertisement
  pfx_transcript_sanitized :: bool

section \<open>The scenario policy\<close>

definition config_parameters :: "(string \<times> json) list" where
  "config_parameters =
     [(''iceberg_openapi_sha256'', JString ICEBERG_REST_OPENAPI_SHA256),
      (''iceberg_openapi_source'', JString ICEBERG_REST_OPENAPI_SOURCE),
      (''maximum_response_bytes'', JNumber (show_word MAXIMUM_RESPONSE_BYTES)),
      (''response_media_type'', JString RESPONSE_MEDIA_TYPE),
      (''transcript_format'', JString CONFIG_TRANSCRIPT_FORMAT)]"

definition config_capabilities :: "(string \<times> requirement_level) list" where
  "config_capabilities =
     [(''iceberg-rest.config.read'', Required),
      (''iceberg-rest.config.endpoint-advertisement'', Required),
      (''iceberg-rest.config.warehouse-routing'', Required)]"

definition config_steps :: "expected_step list" where
  "config_steps =
     [(''negotiate-authentication'', HarnessActor, ''authentication.negotiate'', [], None),
      (''request-config'', ClientActor, ''config.get'', [''negotiate-authentication''], Some 30000),
      (''resolve-prefix'', HarnessActor, ''config.resolve-prefix'', [''request-config''], None),
      (''validate-endpoints'', HarnessActor, ''config.validate-endpoints'', [''request-config''], None),
      (''sanitize-transcript'', HarnessActor, ''evidence.sanitize-http-transcript'',
       [''resolve-prefix'', ''validate-endpoints''], None)]"

definition config_assertions :: "expected_assertion list" where
  "config_assertions =
     [authentication_assertion,
      (''config-http-success'', ''request-config'', True, HttpStatus [200]),
      (''config-media-type'', ''request-config'', True,
       custom_check ''config-media-type-v1'' [(''allowed'', JArray [JString RESPONSE_MEDIA_TYPE])]),
      (''config-map-shape'', ''request-config'', True,
       custom_check ''config-map-shape-v1''
         [(''map_fields'', JArray [JString ''defaults'', JString ''overrides''])]),
      (''route-prefix-resolved'', ''resolve-prefix'', True,
       custom_check ''route-prefix-resolution-v1''
         [(''allowed_modes'', JArray [JString ''unprefixed'', JString ''static'', JString ''negotiated''])]),
      (''endpoint-advertisement-valid'', ''validate-endpoints'', True,
       custom_check ''endpoint-advertisement-v1''
         [(''absence_semantics'', JString ''client-defined-legacy-defaults''),
          (''path_prefix'', JString ''/v1/'')]),
      sanitized_assertion]"

definition config_scenario_policy :: "scenario \<Rightarrow> string + unit" where
  "config_scenario_policy s =
     and_then (check_parameters ''config'' config_parameters s) (\<lambda>_.
     and_then (check_capabilities ''config'' config_capabilities s) (\<lambda>_.
     and_then (check_steps ''config'' config_steps s) (\<lambda>_.
     and_then (check_assertions ''config'' config_assertions s) (\<lambda>_.
       check_extensions ''config'' s))))"

definition config_validate_invocation :: "profile \<Rightarrow> scenario \<Rightarrow> component_id \<Rightarrow> string + unit" where
  "config_validate_invocation = check_invocation ''config'' CONFIG_SCENARIO_ID config_scenario_policy"

section \<open>Assertions\<close>

definition boolean_outcome :: "bool \<Rightarrow> string \<Rightarrow> assertion_outcome" where
  "boolean_outcome b failure = (if b then APass else AFail failure)"

definition evaluate_config_custom :: "string \<Rightarrow> probe_facts \<Rightarrow> assertion_outcome" where
  "evaluate_config_custom name facts =
     (if name = ''querygraph/catalog-bench/authentication-ready-v1'' then
        boolean_outcome (pfx_authentication_ready facts) ''authentication negotiation did not complete''
      else if name = ''querygraph/catalog-bench/config-media-type-v1'' then
        (case (pfx_response_content_type facts, pfx_response_status facts) of
           (Some content_type, _) \<Rightarrow>
             if is_json_media_type content_type then APass
             else AFail (''response Content-Type '' @ quoted content_type @ '' is not ''
                         @ quoted RESPONSE_MEDIA_TYPE)
         | (None, Some _) \<Rightarrow> AFail ''config response omitted Content-Type''
         | (None, None) \<Rightarrow> ANotEvaluated ''no config response was received'')
      else if name = ''querygraph/catalog-bench/config-map-shape-v1'' then
        (case pfx_config_map_shape facts of
           Some (Inr _) \<Rightarrow> APass
         | Some (Inl explanation) \<Rightarrow> AFail explanation
         | None \<Rightarrow> ANotEvaluated ''no JSON config body was captured'')
      else if name = ''querygraph/catalog-bench/route-prefix-resolution-v1'' then
        (case pfx_prefix facts of
           PrefixFailed explanation \<Rightarrow> AFail explanation
         | PrefixNotEvaluated reason \<Rightarrow> ANotEvaluated reason
         | _ \<Rightarrow> APass)
      else if name = ''querygraph/catalog-bench/endpoint-advertisement-v1'' then
        (case pfx_endpoints facts of
           EndpointsInvalid explanation \<Rightarrow> AFail explanation
         | EndpointsNotEvaluated reason \<Rightarrow> ANotEvaluated reason
         | _ \<Rightarrow> APass)
      else if name = ''querygraph/catalog-bench/sanitized-http-transcript-v1'' then
        boolean_outcome (pfx_transcript_sanitized facts)
          ''sanitized evidence still contains a sensitive runtime value''
      else AFail ''assertion check is not implemented by the config probe'')"

definition evaluate_config_assertion :: "assertion_check \<Rightarrow> probe_facts \<Rightarrow> assertion_outcome" where
  "evaluate_config_assertion check facts =
     (case check of
        HttpStatus allowed \<Rightarrow>
          (case pfx_response_status facts of
             Some status \<Rightarrow>
               if status \<in> set allowed then APass
               else AFail (''HTTP '' @ show_word status @ '' is not in '' @ debug_list show_word allowed)
           | None \<Rightarrow> ANotEvaluated ''no config response was received'')
      | Custom name _ \<Rightarrow> evaluate_config_custom name facts
      | _ \<Rightarrow> AFail ''assertion check is not implemented by the config probe'')"

definition evaluate_config_assertions :: "scenario \<Rightarrow> probe_facts \<Rightarrow> probe_assertion list" where
  "evaluate_config_assertions s facts =
     map (\<lambda>a. \<lparr>pa_assertion = spec_ident a, pa_required = spec_required a,
               pa_outcome = evaluate_config_assertion (spec_check a) facts\<rparr>) (scn_assertions s)"

section \<open>The probe\<close>

type_synonym config_evidence =
  "authentication_transcript \<times> http_request_transcript \<times> http_response_transcript option
   \<times> prefix_resolution \<times> endpoint_advertisement"

definition config_unsupported ::
  "profile \<Rightarrow> scenario \<Rightarrow> contract_digests \<Rightarrow> probe_target \<Rightarrow> http_request_transcript
   \<Rightarrow> unsupported_adapter_capability \<Rightarrow> config_transcript" where
  "config_unsupported p s digests target request l =
     \<lparr>cft_format = CONFIG_TRANSCRIPT_FORMAT, cft_profile = prof_ident p,
      cft_scenario = transcript_scenario_of s, cft_contract_digests = digests,
      cft_adapter = transcript_adapter (target_adapter target) (target_component target),
      cft_classification = unsupported_classification l,
      cft_authentication = unattempted_authentication (target_adapter target),
      cft_request = request, cft_response = None,
      cft_prefix = PrefixNotEvaluated (unsupported_reason l),
      cft_endpoints = EndpointsNotEvaluated (unsupported_reason l),
      cft_assertions = not_evaluated_assertions s (unsupported_reason l),
      cft_failure = None, cft_sanitization = sanitization_of [] False\<rparr>"

text \<open>Everything after the response of the configuration endpoint was captured.\<close>

definition config_evaluate ::
  "web_lib \<Rightarrow> (config_evidence \<Rightarrow> string + string) \<Rightarrow> profile \<Rightarrow> scenario \<Rightarrow> contract_digests
   \<Rightarrow> probe_target \<Rightarrow> authentication_attempt \<Rightarrow> http_request_transcript \<Rightarrow> captured_response
   \<Rightarrow> string + config_transcript" where
  "config_evaluate lib to_vec_pretty p s digests target authentication request captured =
     (let response = cap_response captured;
          body = Option.bind response response_json;
          prefix_of = resolve_prefix lib (target_adapter target) body;
          endpoints = inspect_endpoints body;
          redactions = remdups_adj (sort (cap_redactions captured
            @ (if att_bearer_token authentication \<noteq> None
               then [''request.headers.authorization'', ''authentication.oauth2-request-credentials'',
                     ''authentication.oauth2-response-token''] else [])))
      in and_then (encode_evidence to_vec_pretty
                     (att_transcript authentication, request, response, prefix_of, endpoints)) (\<lambda>serialized.
           let facts = \<lparr>pfx_authentication_ready = (att_failure authentication = None),
                 pfx_response_status = map_option rsp_status response,
                 pfx_response_content_type = Option.bind response (\<lambda>r. map_of (rsp_headers r) ''content-type''),
                 pfx_config_map_shape = map_option validate_config_map_shape body,
                 pfx_prefix = prefix_of, pfx_endpoints = endpoints,
                 pfx_transcript_sanitized =
                   (\<not> contains_sensitive_value serialized (att_sensitive_values authentication))\<rparr>;
               assertions = evaluate_config_assertions s facts
           in Ok \<lparr>cft_format = CONFIG_TRANSCRIPT_FORMAT, cft_profile = prof_ident p,
                cft_scenario = transcript_scenario_of s, cft_contract_digests = digests,
                cft_adapter = transcript_adapter (target_adapter target) (target_component target),
                cft_classification =
                  (if passed_required_assertions assertions then ProbePass
                   else ProbeFail ''one or more required config-negotiation assertions did not pass''),
                cft_authentication = att_transcript authentication,
                cft_request = request, cft_response = response,
                cft_prefix = prefix_of, cft_endpoints = endpoints, cft_assertions = assertions,
                cft_failure = (case att_failure authentication of
                  Some f \<Rightarrow> Some f | None \<Rightarrow> cap_failure captured),
                cft_sanitization = sanitization_of redactions False\<rparr>))"

definition capture_config ::
  "web_lib \<Rightarrow> 'w http_client \<Rightarrow> url \<Rightarrow> authentication_attempt \<Rightarrow> 'w \<Rightarrow> captured_response \<times> 'w" where
  "capture_config lib client u authentication w =
     (case att_bearer_token authentication of
        Some token \<Rightarrow>
          execute_json_request lib client GET u (Some token) None (att_sensitive_values authentication) ''config'' w
      | None \<Rightarrow>
          if att_failure authentication = None then
            execute_json_request lib client GET u None None (att_sensitive_values authentication) ''config'' w
          else (no_capture None, w))"

definition run_config_probe ::
  "web_lib \<Rightarrow> (u64 \<Rightarrow> string + 'w http_client) \<Rightarrow> (config_evidence \<Rightarrow> string + string) \<Rightarrow> profile
   \<Rightarrow> scenario \<Rightarrow> component_id \<Rightarrow> contract_digests \<Rightarrow> (string \<Rightarrow> string option) \<Rightarrow> 'w
   \<Rightarrow> (string + config_transcript) \<times> 'w" where
  "run_config_probe lib http_client_new to_vec_pretty p s catalog digests getenv w =
     (case and_then (config_validate_invocation p s catalog) (\<lambda>_. resolve_target p s catalog) of
        Inl error \<Rightarrow> (Err error, w)
      | Inr target \<Rightarrow>
          (let endpoint = adapter_endpoint (target_adapter target)
           in case endpoint_url lib (base_url endpoint) (config_path (endpoint_config endpoint))
                     (config_query (endpoint_config endpoint)) of
                Inl error \<Rightarrow> (Err error, w)
              | Inr config_url \<Rightarrow>
                  (let request = (\<lambda>authenticated. \<lparr>hrt_method = ''GET'', hrt_url = wl_url_to_string lib config_url,
                         hrt_headers = (''accept'', ''application/json'')
                           # (if authenticated then [(''authorization'', REDACTED)] else [])\<rparr>)
                   in case first_required_limitation target s of
                        Some l \<Rightarrow> (Ok (config_unsupported p s digests target (request False) l), w)
                      | None \<Rightarrow>
                          (case http_client_new 30000 of
                             Inl error \<Rightarrow> (Err error, w)
                           | Inr client \<Rightarrow>
                               (let (authentication, w1) =
                                      acquire_authentication lib client (target_adapter target) getenv w;
                                    (captured, w2) = capture_config lib client config_url authentication w1
                                in (config_evaluate lib to_vec_pretty p s digests target authentication
                                      (request (att_bearer_token authentication \<noteq> None)) captured, w2))))))"

section \<open>What a passing configuration transcript has established\<close>

definition prefix_resolved :: "prefix_resolution \<Rightarrow> bool" where
  "prefix_resolved r =
     (case r of PrefixUnprefixed \<Rightarrow> True | PrefixStatic _ \<Rightarrow> True
      | PrefixNegotiated _ value \<Rightarrow> valid_path_segment value | _ \<Rightarrow> False)"

definition endpoints_standard :: "endpoint_advertisement \<Rightarrow> bool" where
  "endpoints_standard e =
     (case e of EndpointsExplicit endpoints \<Rightarrow> set endpoints \<subseteq> set STANDARD_ENDPOINTS
      | EndpointsOmitted \<Rightarrow> True | _ \<Rightarrow> False)"

lemma resolve_prefix_resolved:
  "prefix_resolved (resolve_prefix lib adapter body) \<longleftrightarrow>
     (case resolve_prefix lib adapter body of PrefixFailed _ \<Rightarrow> False | PrefixNotEvaluated _ \<Rightarrow> False | _ \<Rightarrow> True)"
  by (auto simp: resolve_prefix_def prefix_resolved_def split: catalog_route_prefix.splits option.splits)

lemma inspect_endpoints_standard:
  "endpoints_standard (inspect_endpoints body) \<longleftrightarrow>
     (case inspect_endpoints body of EndpointsInvalid _ \<Rightarrow> False | EndpointsNotEvaluated _ \<Rightarrow> False | _ \<Rightarrow> True)"
proof -
  have ok: "set parsed \<subseteq> set STANDARD_ENDPOINTS" if "try_map inspect_endpoint vs = Ok parsed" for vs parsed
  proof -
    have "inspect_endpoint v = Ok y \<Longrightarrow> y \<in> set STANDARD_ENDPOINTS" for v y
      by (auto simp: inspect_endpoint_def split: option.splits if_splits)
    then show ?thesis using try_map_Inr_set [OF that] by blast
  qed
  have invalid: "case e of EndpointsInvalid _ \<Rightarrow> True | _ \<Rightarrow> False" if "try_map inspect_endpoint vs = Err e" for vs e
    using that
    by (induction vs arbitrary: e) (auto simp: and_then_eq_Inl inspect_endpoint_def split: option.splits if_splits)
  have array: "endpoints_standard (case try_map inspect_endpoint vs of Inl e \<Rightarrow> e | Inr parsed \<Rightarrow> EndpointsExplicit parsed)
      \<longleftrightarrow> (case (case try_map inspect_endpoint vs of Inl e \<Rightarrow> e | Inr parsed \<Rightarrow> EndpointsExplicit parsed) of
            EndpointsInvalid _ \<Rightarrow> False | EndpointsNotEvaluated _ \<Rightarrow> False | _ \<Rightarrow> True)" for vs
    using ok [of vs] invalid [of vs]
    by (cases "try_map inspect_endpoint vs") (auto simp: endpoints_standard_def split: endpoint_advertisement.splits)
  show ?thesis
    using array
    by (auto simp: inspect_endpoints_def endpoints_standard_def split: option.splits json.splits)
qed

definition config_facts_hold :: "probe_facts \<Rightarrow> bool" where
  "config_facts_hold facts \<longleftrightarrow>
     pfx_authentication_ready facts \<and> pfx_response_status facts = Some 200
     \<and> is_some_and (pfx_response_content_type facts) is_json_media_type
     \<and> pfx_config_map_shape facts = Some (Ok ())
     \<and> (case pfx_prefix facts of PrefixFailed _ \<Rightarrow> False | PrefixNotEvaluated _ \<Rightarrow> False | _ \<Rightarrow> True)
     \<and> (case pfx_endpoints facts of EndpointsInvalid _ \<Rightarrow> False | EndpointsNotEvaluated _ \<Rightarrow> False | _ \<Rightarrow> True)
     \<and> pfx_transcript_sanitized facts"

lemma config_assertions_hold:
  "list_all (\<lambda>(ident, step, required, check). required \<longrightarrow> evaluate_config_assertion check facts = APass)
     config_assertions \<longleftrightarrow> config_facts_hold facts"
  by (auto simp: config_assertions_def authentication_assertion_def sanitized_assertion_def custom_check_def
      evaluate_config_assertion_def evaluate_config_custom_def config_facts_hold_def boolean_outcome_def
      split: option.splits sum.splits prefix_resolution.splits endpoint_advertisement.splits)

lemma config_evaluate_verdict:
  assumes "check_assertions ''config'' config_assertions s = Ok ()"
    and "config_evaluate lib to_vec_pretty p s digests target a request captured = Ok t"
  shows "config_transcript_passed t \<longleftrightarrow>
    att_failure a = None
    \<and> (\<exists>r body serialized. cft_response t = Some r \<and> rsp_status r = 200
        \<and> is_some_and (map_of (rsp_headers r) ''content-type'') is_json_media_type
        \<and> response_json r = Some body \<and> validate_config_map_shape body = Ok ()
        \<and> prefix_resolved (cft_prefix t) \<and> endpoints_standard (cft_endpoints t)
        \<and> encode_evidence to_vec_pretty (cft_authentication t, cft_request t, cft_response t, cft_prefix t,
            cft_endpoints t) = Ok serialized
        \<and> \<not> contains_sensitive_value serialized (att_sensitive_values a))"
    and "cft_authentication t = att_transcript a"
proof -
  define body where "body = Option.bind (cap_response captured) response_json"
  obtain serialized where serialized: "encode_evidence to_vec_pretty
      (att_transcript a, request, cap_response captured, resolve_prefix lib (target_adapter target) body,
       inspect_endpoints body) = Ok serialized"
    using assms(2) by (auto simp: config_evaluate_def body_def Let_def and_then_eq_Inr)
  define facts where "facts = \<lparr>pfx_authentication_ready = (att_failure a = None),
     pfx_response_status = map_option rsp_status (cap_response captured),
     pfx_response_content_type = Option.bind (cap_response captured) (\<lambda>r. map_of (rsp_headers r) ''content-type''),
     pfx_config_map_shape = map_option validate_config_map_shape body,
     pfx_prefix = resolve_prefix lib (target_adapter target) body, pfx_endpoints = inspect_endpoints body,
     pfx_transcript_sanitized = (\<not> contains_sensitive_value serialized (att_sensitive_values a))\<rparr>"
  have t: "cft_authentication t = att_transcript a" "cft_request t = request"
      "cft_response t = cap_response captured" "cft_prefix t = resolve_prefix lib (target_adapter target) body"
      "cft_endpoints t = inspect_endpoints body"
      "config_transcript_passed t \<longleftrightarrow> passed_required_assertions (evaluate_config_assertions s facts)"
    using assms(2) serialized
    by (auto simp: config_evaluate_def config_transcript_passed_def facts_def body_def Let_def split: if_splits)
  have "config_transcript_passed t \<longleftrightarrow> config_facts_hold facts"
    using passed_required_expected [OF assms(1), where outcome = "\<lambda>c. evaluate_config_assertion c facts"]
    by (simp add: t(6) evaluate_config_assertions_def config_assertions_hold)
  then show "config_transcript_passed t \<longleftrightarrow>
    att_failure a = None
    \<and> (\<exists>r body serialized. cft_response t = Some r \<and> rsp_status r = 200
        \<and> is_some_and (map_of (rsp_headers r) ''content-type'') is_json_media_type
        \<and> response_json r = Some body \<and> validate_config_map_shape body = Ok ()
        \<and> prefix_resolved (cft_prefix t) \<and> endpoints_standard (cft_endpoints t)
        \<and> encode_evidence to_vec_pretty (cft_authentication t, cft_request t, cft_response t, cft_prefix t,
            cft_endpoints t) = Ok serialized
        \<and> \<not> contains_sensitive_value serialized (att_sensitive_values a))"
    unfolding t(1-5) serialized
    using resolve_prefix_resolved [of lib "target_adapter target" body] inspect_endpoints_standard [of body]
    by (cases "cap_response captured") (auto simp: config_facts_hold_def facts_def body_def)
  show "cft_authentication t = att_transcript a" by (rule t)
qed

text \<open>
  C24. The verdict of the configuration probe. A scenario that is not the one the probe implements is
  refused, so a transcript exists only for the checked policy. When the profile declares a required
  capability unsupported, the transcript says so and the world is untouched. Otherwise the transcript
  passes exactly when authentication was ready, the catalog answered 200 with an
  \<open>application/json\<close> body whose \<open>defaults\<close> and \<open>overrides\<close> are string maps, the route prefix
  resolved to one path segment, every advertised endpoint is one of the Iceberg REST endpoints, and
  the serialized evidence contains none of the credentials of the run.
\<close>

theorem config_probe_verdict:
  assumes "run_config_probe lib (\<lambda>_. Ok client) to_vec_pretty p s catalog digests getenv w = (Ok t, w')"
    and "resolve_target p s catalog = Ok target"
    and "acquire_authentication lib client (target_adapter target) getenv w = (a, w1)"
  shows "case first_required_limitation target s of
      Some l \<Rightarrow> cft_classification t = unsupported_classification l \<and> w' = w
    | None \<Rightarrow> config_transcript_passed t \<longleftrightarrow>
        at_outcome (cft_authentication t) = AuthReady
        \<and> (\<exists>r body serialized. cft_response t = Some r \<and> rsp_status r = 200
            \<and> is_some_and (map_of (rsp_headers r) ''content-type'') is_json_media_type
            \<and> response_json r = Some body \<and> validate_config_map_shape body = Ok ()
            \<and> prefix_resolved (cft_prefix t) \<and> endpoints_standard (cft_endpoints t)
            \<and> encode_evidence to_vec_pretty (cft_authentication t, cft_request t, cft_response t, cft_prefix t,
                cft_endpoints t) = Ok serialized
            \<and> \<not> contains_sensitive_value serialized (att_sensitive_values a))"
proof -
  have policy: "config_validate_invocation p s catalog = Ok ()"
    using assms(1) by (auto simp: run_config_probe_def and_then_def split: sum.splits)
  then have checked: "check_assertions ''config'' config_assertions s = Ok ()"
    by (auto simp: config_validate_invocation_def check_invocation_def config_scenario_policy_def
        and_then_eq_Inr split: if_splits)
  note run = assms(1) [unfolded run_config_probe_def policy assms(2) Let_def, simplified]
  show ?thesis
  proof (cases "first_required_limitation target s")
    case (Some l)
    then show ?thesis using run by (auto simp: config_unsupported_def split: sum.splits)
  next
    case None
    then obtain request captured where "config_evaluate lib to_vec_pretty p s digests target a request captured = Ok t"
      using run assms(3) by (auto split: sum.splits prod.splits)
    from config_evaluate_verdict [OF checked this] acquire_authentication_outcome [OF assms(3)] None
    show ?thesis by simp
  qed
qed

definition config_scenario :: scenario where
  "config_scenario =
     policy_scenario CONFIG_SCENARIO_ID config_parameters config_capabilities config_steps config_assertions"

lemma config_scenario_accepted:
  "config_validate_invocation (probing_profile config_capabilities) config_scenario ''cat'' = Ok ()"
  by (simp add: config_validate_invocation_def check_invocation_def config_scenario_policy_def config_scenario_def
      policy_scenario_checked probing_target_resolved)

lemma demo_config_captured:
  "cap_response (capture_answer demo_web [] ''config'' (fst (demo_client rq n))) = Some \<lparr>rsp_status = 200,
      rsp_headers = [(''content-type'', ''application/json'')], rsp_body_bytes_observed = 2,
      rsp_raw_body_sha256 = Some [], rsp_body = BodyJson demo_config\<rparr>"
  by code_simp

theorem config_probe_verdict_witness:
  "\<exists>t w r. run_config_probe demo_web (\<lambda>_. Ok demo_client) (\<lambda>_. Ok ''evidence'') (probing_profile config_capabilities)
      config_scenario ''cat'' demo_digests Map.empty 0 = (Ok t, w)
    \<and> config_transcript_passed t \<and> cft_response t = Some r \<and> rsp_status r = 200"
proof -
  let ?p = "probing_profile config_capabilities"
  let ?run = "run_config_probe demo_web (\<lambda>_. Ok demo_client) (\<lambda>_. Ok ''evidence'') ?p
      config_scenario ''cat'' demo_digests Map.empty 0"
  have target: "resolve_target ?p config_scenario ''cat'' = Ok probing_target"
    by (simp add: config_scenario_def probing_target_resolved)
  obtain u where u: "endpoint_url demo_web (base_url (adapter_endpoint (target_adapter probing_target)))
      (config_path (endpoint_config (adapter_endpoint (target_adapter probing_target))))
      (config_query (endpoint_config (adapter_endpoint (target_adapter probing_target)))) = Ok u"
    by (simp add: endpoint_url_def demo_web_def)
  obtain a w1 where a: "acquire_authentication demo_web demo_client (target_adapter probing_target) Map.empty 0 = (a, w1)"
    by force
  then have ready: "att_failure a = None" "att_bearer_token a = None" "att_sensitive_values a = []"
    by (auto simp: acquire_authentication_def probing_target_def demo_adapter_def)
  obtain captured w2 where captured: "capture_config demo_web demo_client u a w1 = (captured, w2)" by force
  have response: "cap_response captured = Some \<lparr>rsp_status = 200,
      rsp_headers = [(''content-type'', ''application/json'')], rsp_body_bytes_observed = 2,
      rsp_raw_body_sha256 = Some [], rsp_body = BodyJson demo_config\<rparr>"
    using captured ready
    by (simp add: capture_config_def execute_json_request_def execute_capture_answer split_def)
      (use demo_config_captured in auto)
  obtain t where run: "?run = (Ok t, w2)"
    and t: "cft_response t = cap_response captured" "cft_authentication t = att_transcript a"
      "cft_prefix t = resolve_prefix demo_web (target_adapter probing_target) (Some demo_config)"
      "cft_endpoints t = inspect_endpoints (Some demo_config)"
    using u a captured
    by (simp add: run_config_probe_def config_scenario_accepted target probing_target_unlimited Let_def
        config_evaluate_def encode_evidence_def response response_json_def)
  have "prefix_resolved (cft_prefix t)" "endpoints_standard (cft_endpoints t)"
      "validate_config_map_shape demo_config = Ok ()" "is_json_media_type ''application/json''"
    unfolding t by code_simp+
  moreover have "at_outcome (cft_authentication t) = AuthReady"
    unfolding t using acquire_authentication_outcome [OF a] ready by simp
  ultimately have "config_transcript_passed t"
    using config_probe_verdict [OF run target a] ready
    by (simp add: probing_target_unlimited t response response_json_def encode_evidence_def contains_sensitive_value_def)
  then show ?thesis using run t response by auto
qed

end
