(* ===== verification/Conf_Trace.thy ===== *)
theory Conf_Trace
  imports Conf_Policy
begin

text \<open>
  The calculus of exchanges that the proofs about the probes share: more rules for the contract of a
  recorder, loops of checked requests, the exchanges of the negotiation, and a scripted catalog for
  concrete runs.
\<close>

section \<open>More rules\<close>

context exchange_recorder
begin

text \<open>A loop whose every round makes one exchange.\<close>

lemma traces_map:
  assumes "\<And>x. x \<in> set xs \<Longrightarrow> traces (f x) (\<lambda>es r. \<exists>e y. es = [e] \<and> r = Ok y \<and> R x e y)"
  shows "traces (probe_map f xs) (\<lambda>es r. \<exists>eys. es = map fst eys \<and> r = Ok (map snd eys)
    \<and> list_all2 (\<lambda>x (e, y). R x e y) xs eys)"
  using assms
proof (induction xs)
  case Nil
  then show ?case by (auto intro!: traces_return)
next
  case (Cons x xs)
  have tail: "traces (probe_map f xs) (\<lambda>es r. \<exists>eys. es = map fst eys \<and> r = Ok (map snd eys)
      \<and> list_all2 (\<lambda>x (e, y). R x e y) xs eys)"
    using Cons by simp
  have first: "traces (f x) (\<lambda>es r. \<exists>y. r = Ok y \<and> (\<exists>e. es = [e] \<and> R x e y))"
    by (rule traces_weaken [OF Cons.prems]) auto
  have rest: "traces (probe_bind (probe_map f xs) (\<lambda>ys. probe_return (y # ys)))
      (\<lambda>zs r. \<exists>eys. zs = map fst eys \<and> r = Ok (y # map snd eys) \<and> list_all2 (\<lambda>x (e, y). R x e y) xs eys)" for y
    by (rule traces_weaken [OF traces_bind [OF tail traces_return
          [where Q = "\<lambda>zs r. zs = [] \<and> r = Ok (y # _)"]]]) auto
  show ?case
    unfolding probe_map.simps
    by (rule traces_seq [OF first], rule traces_weaken [OF rest]) force
qed

lemma traces_prefix:
  assumes "steady P m" and "\<And>a. traces (f a) Q" and "\<And>ys zs r. Q zs r \<Longrightarrow> Q (ys @ zs) r"
  shows "traces (probe_bind m f) Q"
  by (rule traces_weaken [OF traces_bind [OF assms(1) [unfolded steady_def] assms(2)]]) (use assms(3) in auto)

lemma traces_conj:
  assumes "traces m P" and "traces m Q"
  shows "traces m (\<lambda>xs r. P xs r \<and> Q xs r)"
  unfolding traces_def
proof (intro allI impI)
  fix s assume "good s"
  obtain r s1 where m: "m s = (r, s1)" by force
  obtain xs where xs: "good s1" "exchanges s1 = exchanges s @ xs" "P xs r"
    by (rule traces_elim [OF assms(1) \<open>good s\<close> m])
  obtain ys where "exchanges s1 = exchanges s @ ys" "Q ys r"
    by (rule traces_elim [OF assms(2) \<open>good s\<close> m])
  then show "case m s of (r, s1) \<Rightarrow> good s1 \<and> (\<exists>xs. exchanges s1 = exchanges s @ xs \<and> P xs r \<and> Q xs r)"
    using xs by (auto simp: m)
qed

lemma traces_Ok_return:
  assumes "traces m (\<lambda>xs r. \<exists>a. r = Ok a \<and> Q xs (Ok (f a)))"
  shows "traces (probe_bind m (\<lambda>a. probe_return (f a))) Q"
  by (rule traces_seq [OF assms]) (auto intro!: traces_return)

end

text \<open>The method and the URL of an exchange.\<close>

definition request_line :: "exchange \<Rightarrow> http_method \<times> url" where
  "request_line x = (rq_method (fst x), rq_url (fst x))"

definition is_read :: "exchange \<Rightarrow> bool" where
  "is_read x \<longleftrightarrow> rq_method (fst x) = GET"

lemma request_line_call [simp]:
  "request_line (call_request bearer (ident, capability, m, u, body, key), answer) = (m, u)"
  "is_read (call_request bearer (ident, capability, m, u, body, key), answer) \<longleftrightarrow> m = GET"
  by (simp_all add: request_line_def is_read_def call_request_def)

lemma attempt_check_traces:
  assumes "route = Ok u"
  shows "probe_traces client bearer sens
    (probe_bind (attempt lib ident capability m route body) (\<lambda>ob. probe_return (check ob)))
    (\<lambda>es r. \<exists>e y. es = [e] \<and> r = Ok y \<and> request_line e = (m, u)
       \<and> y = check (call_observation lib sens (ident, Some capability, m, u, body, None) (snd e)))"
  unfolding assms by (rule rec.traces_Ok_return, rule attempt_traces) auto

lemma answered_status:
  assumes "validate_status (call_observation lib sens k (snd e)) allowed = Ok ()"
  shows "answered allowed e"
  using assms obs_status_answered [of lib sens k "snd e" _ allowed "fst e"]
  by (auto simp: validate_status_Ok)

lemma answered_error:
  assumes "validate_error_response decode (call_observation lib sens k (snd e)) status error_type = Ok ()"
  shows "answered [status] e"
  using assms obs_status_answered [of lib sens k "snd e" status "[status]" "fst e"]
  by (auto simp: validate_error_response_Ok)

text \<open>A loop of checked requests: the requests are fixed, and when all checks pass the answers had the right status.\<close>

lemma attempt_loop_traces:
  assumes "\<And>x. x \<in> set xs \<Longrightarrow> route x = Ok (u x)"
    and "\<And>k e. is_ok (check (call_observation lib sens k (snd e))) \<Longrightarrow> answered allowed e"
  shows "probe_traces client bearer sens
    (probe_map (\<lambda>x. probe_bind (attempt lib (ident x) capability m (route x) None) (\<lambda>ob. probe_return (check ob))) xs)
    (\<lambda>es r. \<exists>results. r = Ok results \<and> map request_line es = map (\<lambda>x. (m, u x)) xs
       \<and> (list_all is_ok results \<longrightarrow> list_all (answered allowed) es))"
proof (rule rec.traces_weaken, rule rec.traces_map
    [where R = "\<lambda>x e y. request_line e = (m, u x) \<and> (is_ok y \<longrightarrow> answered allowed e)"])
  fix x assume "x \<in> set xs"
  note route = assms(1) [OF this]
  show "probe_traces client bearer sens
      (probe_bind (attempt lib (ident x) capability m (route x) None) (\<lambda>ob. probe_return (check ob)))
      (\<lambda>es r. \<exists>e y. es = [e] \<and> r = Ok y \<and> request_line e = (m, u x) \<and> (is_ok y \<longrightarrow> answered allowed e))"
    by (rule rec.traces_weaken [OF attempt_check_traces [OF route]]) (use assms(2) in blast)
next
  fix es and r :: "string + ('b + 'c) list"
  assume "\<exists>eys. es = map fst eys \<and> r = Ok (map snd eys)
      \<and> list_all2 (\<lambda>x (e, y). request_line e = (m, u x) \<and> (is_ok y \<longrightarrow> answered allowed e)) xs eys"
  then obtain eys where eys: "es = map fst eys" "r = Ok (map snd eys)"
    and all: "list_all2 (\<lambda>x (e, y). request_line e = (m, u x) \<and> (is_ok y \<longrightarrow> answered allowed e)) xs eys"
    by blast
  from all have "map request_line (map fst eys) = map (\<lambda>x. (m, u x)) xs
      \<and> (list_all is_ok (map snd eys) \<longrightarrow> list_all (answered allowed) (map fst eys))"
    by (induction rule: list_all2_induct) auto
  then show "\<exists>results. r = Ok results \<and> map request_line es = map (\<lambda>x. (m, u x)) xs
       \<and> (list_all is_ok results \<longrightarrow> list_all (answered allowed) es)"
    using eys by blast
qed

lemma steady_mono:
  assumes "probe_steady client bearer sens P m" and "\<And>x. P x \<Longrightarrow> Q x"
  shows "probe_steady client bearer sens Q m"
  using assms(1) unfolding rec.steady_def
  by (rule rec.traces_weaken) (use assms(2) in \<open>auto simp: list_all_iff\<close>)

lemmas probe_steps = rec.steady_bind rec.steady_return attempt_steady skip_all_steady

lemma recorder_new_records:
  "records_for client bearer sens (recorder_new (logging client) bearer sens, w, entries)"
  by (simp add: records_for_def recorder_new_def)

lemma fact_outcome_APass [simp]: "fact_outcome f = APass \<longleftrightarrow> fact_passed f"
  by (cases f) (simp_all add: fact_outcome_def fact_passed_def)

section \<open>The negotiation only adds exchanges\<close>

lemma logging_step: "logging client rq (w, entries) = (answer, s) \<Longrightarrow> \<exists>w1. s = (w1, entries @ [(rq, answer)])"
  by (auto simp: logging_def split: prod.splits)

lemma acquire_authentication_logged:
  assumes "acquire_authentication lib (logging client) adapter getenv (w, entries) = (a, (w1, entries1))"
  shows "\<exists>xs. entries1 = entries @ xs"
  using assms
  by (auto simp: acquire_authentication_def Let_def failed_authentication_def
      split: catalog_authentication.splits sum.splits option.splits prod.splits dest!: logging_step)

lemma request_config_logged:
  assumes "request_config lib (logging client) adapter a (w, entries) = (res, (w1, entries1))"
  shows "\<exists>xs. entries1 = entries @ xs"
  using assms
  by (auto simp: request_config_def execute_json_request_def execute_capture_answer Let_def
      split: if_splits sum.splits prod.splits dest!: logging_step)

lemma negotiate_routing_logged:
  assumes "negotiate_routing lib (logging client) adapter getenv (w, entries) = (res, (w1, entries1))"
  shows "\<exists>xs. entries1 = entries @ xs"
proof -
  obtain a w0 entries0 where a: "acquire_authentication lib (logging client) adapter getenv (w, entries) = (a, (w0, entries0))"
    by (cases "acquire_authentication lib (logging client) adapter getenv (w, entries)") auto
  obtain xs where "entries0 = entries @ xs" using acquire_authentication_logged [OF a] by blast
  then show ?thesis
    using assms request_config_logged [of lib client adapter a w0 entries0]
    by (auto simp: negotiate_routing_def a split: sum.splits prod.splits)
qed

lemma negotiate_routing_ready:
  assumes "negotiate_routing lib client adapter getenv w = (Ok routing, w1)"
    and "att_failure (neg_authentication routing) = None"
  shows "at_outcome (att_transcript (neg_authentication routing)) = AuthReady"
proof -
  obtain a w0 where a: "acquire_authentication lib client adapter getenv w = (a, w0)" by force
  then have "neg_authentication routing = a"
    using assms(1)
    by (auto simp: negotiate_routing_def routing_of_capture_def Let_def split: sum.splits prod.splits)
  with acquire_authentication_outcome [OF a] assms(2) show ?thesis by simp
qed

lemma negotiate_routing_passed:
  assumes "negotiate_routing lib client adapter getenv w = (Ok routing, w1)"
    and "fact_passed (neg_config_routing routing)"
  shows "att_failure (neg_authentication routing) = None"
  using assms
  by (auto simp: negotiate_routing_def routing_of_capture_def validate_config_routing_def Let_def
      split: sum.splits prod.splits option.splits)

section \<open>The credentials of a run\<close>

text \<open>
  The client identifier and secret that the environment holds for the adapter, and the token that was
  issued for them. A text withholds them when none of them, if it has at least four bytes, occurs in it.
\<close>

definition run_credentials ::
  "catalog_adapter \<Rightarrow> (string \<Rightarrow> string option) \<Rightarrow> string option \<Rightarrow> string set" where
  "run_credentials adapter getenv token =
     (case adapter_authentication adapter of
        Anonymous \<Rightarrow> {}
      | OAuth2ClientCredentials token_path scope client_id_env client_secret_env \<Rightarrow>
          {v. getenv client_id_env = Some v \<or> getenv client_secret_env = Some v \<or> token = Some v})"

definition withholds_credentials ::
  "catalog_adapter \<Rightarrow> (string \<Rightarrow> string option) \<Rightarrow> string option \<Rightarrow> string \<Rightarrow> bool" where
  "withholds_credentials adapter getenv token bytes \<longleftrightarrow>
     (\<forall>v \<in> run_credentials adapter getenv token. 4 \<le> length v \<longrightarrow> \<not> sublist v bytes)"

lemma acquire_authentication_credentials:
  assumes "acquire_authentication lib client adapter getenv w = (a, w1)" and "att_failure a = None"
  shows "run_credentials adapter getenv (att_bearer_token a) = set (att_sensitive_values a)"
proof (cases "adapter_authentication adapter")
  case Anonymous
  with assms(1) show ?thesis by (auto simp: acquire_authentication_def run_credentials_def)
next
  case (OAuth2ClientCredentials token_path scope client_id_env client_secret_env)
  with assms show ?thesis
    by (auto simp: acquire_authentication_def run_credentials_def Let_def failed_authentication_def nonempty_env_def
        split: sum.splits option.splits prod.splits if_splits)
qed

lemma credentials_withheld:
  assumes "negotiate_routing lib client adapter getenv w = (Ok routing, w1)"
    and "att_failure (neg_authentication routing) = None"
    and "\<not> contains_sensitive_value bytes (att_sensitive_values (neg_authentication routing))"
  shows "withholds_credentials adapter getenv (att_bearer_token (neg_authentication routing)) bytes"
proof -
  obtain a w0 where a: "acquire_authentication lib client adapter getenv w = (a, w0)" by force
  then have "neg_authentication routing = a"
    using assms(1)
    by (auto simp: negotiate_routing_def routing_of_capture_def Let_def split: sum.splits prod.splits)
  with acquire_authentication_credentials [OF a] assms(2,3) show ?thesis
    by (auto simp: withholds_credentials_def contains_sensitive_value_def list_ex_iff str_contains_iff)
qed

section \<open>Triples over the history of exchanges\<close>

context exchange_recorder
begin

text \<open>
  A step that is started with a history of exchanges cannot stop with an error, and its value and
  the longer history satisfy the second condition.
\<close>

definition triple :: "('x list \<Rightarrow> bool) \<Rightarrow> ('s, 'a) probe \<Rightarrow> ('x list \<Rightarrow> 'a \<Rightarrow> bool) \<Rightarrow> bool" where
  "triple Q m R \<longleftrightarrow> (\<forall>ys. Q ys \<longrightarrow> traces m (\<lambda>zs r. \<exists>a. r = Ok a \<and> R (ys @ zs) a))"

lemma triple_return: "(\<And>ys. Q ys \<Longrightarrow> R ys a) \<Longrightarrow> triple Q (probe_return a) R"
  by (auto simp: triple_def intro!: traces_return)

lemma triple_bind:
  assumes "triple Q m P" and "\<And>a. triple (\<lambda>xs. P xs a) (f a) R"
  shows "triple Q (probe_bind m f) R"
  unfolding triple_def traces_def
proof (intro allI impI)
  fix ys s assume "Q ys" and "good s"
  obtain r s1 where m: "m s = (r, s1)" by force
  have "traces m (\<lambda>zs r. \<exists>a. r = Ok a \<and> P (ys @ zs) a)" using assms(1) \<open>Q ys\<close> by (simp add: triple_def)
  from traces_elim [OF this \<open>good s\<close> m] obtain zs a
    where s1: "good s1" "exchanges s1 = exchanges s @ zs" "r = Ok a" "P (ys @ zs) a" by blast
  obtain r2 s2 where f: "f a s1 = (r2, s2)" by force
  have "traces (f a) (\<lambda>ws r. \<exists>b. r = Ok b \<and> R (ys @ zs @ ws) b)"
    using assms(2) [of a] s1(4) unfolding triple_def by fastforce
  from traces_elim [OF this \<open>good s1\<close> f] obtain ws b
    where "good s2" "exchanges s2 = exchanges s1 @ ws" "r2 = Ok b" "R (ys @ zs @ ws) b" by blast
  then show "case probe_bind m f s of (r, s2) \<Rightarrow> good s2
      \<and> (\<exists>xs. exchanges s2 = exchanges s @ xs \<and> (\<exists>b. r = Ok b \<and> R (ys @ xs) b))"
    using s1 by (simp add: probe_bind_def m f)
qed

lemma triple_conseq:
  assumes "triple P m R" and "\<And>ys. Q ys \<Longrightarrow> P ys" and "\<And>xs a. R xs a \<Longrightarrow> S xs a"
  shows "triple Q m S"
  unfolding triple_def using assms unfolding triple_def by (blast intro: traces_weaken)

lemma triple_traces:
  assumes "traces m T" and "\<And>ys zs r. Q ys \<Longrightarrow> T zs r \<Longrightarrow> \<exists>a. r = Ok a \<and> R (ys @ zs) a"
  shows "triple Q m R"
  unfolding triple_def
proof (intro allI impI)
  fix ys assume "Q ys"
  then show "traces m (\<lambda>zs r. \<exists>a. r = Ok a \<and> R (ys @ zs) a)"
    using assms(2) by (intro traces_weaken [OF assms(1)]) blast
qed

lemma triple_steady:
  assumes "steady P m" and "\<And>ys zs a. Q ys \<Longrightarrow> list_all P zs \<Longrightarrow> R (ys @ zs) a"
  shows "triple Q m R"
  by (rule triple_traces [OF assms(1) [unfolded steady_def]])
    (use assms(2) in \<open>auto simp: is_ok_def split: sum.splits\<close>)

text \<open>The value of a step may be used in its continuation only when the first condition can hold at all.\<close>

lemma triple_from: "(\<And>ys. Q ys \<Longrightarrow> triple (\<lambda>xs. xs = ys) m R) \<Longrightarrow> triple Q m R"
  by (auto simp: triple_def)

lemma triple_start: "triple (\<lambda>xs. xs = []) m R \<Longrightarrow> traces m (\<lambda>xs r. \<exists>a. r = Ok a \<and> R xs a)"
  by (simp add: triple_def)

lemma triple_frame:
  assumes "triple Q m R" and "\<And>xs zs. E xs \<Longrightarrow> E (xs @ zs)"
  shows "triple (\<lambda>xs. Q xs \<and> E xs) m (\<lambda>xs a. R xs a \<and> E xs)"
  unfolding triple_def
proof (intro allI impI)
  fix ys assume "Q ys \<and> E ys"
  then show "traces m (\<lambda>zs r. \<exists>a. r = Ok a \<and> R (ys @ zs) a \<and> E (ys @ zs))"
    using assms(1) [unfolded triple_def] assms(2) by (auto elim!: traces_weaken)
qed

lemma triple_Ok_return:
  assumes "triple Q m (\<lambda>xs a. R xs (f a))"
  shows "triple Q (probe_bind m (\<lambda>a. probe_return (f a))) R"
  by (rule triple_bind [OF assms]) (rule triple_return)

end

abbreviation probe_triple ::
  "'w http_client \<Rightarrow> string option \<Rightarrow> string list \<Rightarrow> (exchange list \<Rightarrow> bool)
   \<Rightarrow> (('w \<times> exchange list) operation_recorder \<times> 'w \<times> exchange list, 'a) probe
   \<Rightarrow> (exchange list \<Rightarrow> 'a \<Rightarrow> bool) \<Rightarrow> bool" where
  "probe_triple client bearer sens \<equiv> exchange_recorder.triple (records_for client bearer sens) exchanges_of"

lemma attempt_triple:
  assumes "is_ok route"
    and "\<And>ys x. Q ys \<Longrightarrow> fst x = call_request bearer (ident, Some capability, m, projr route, body, None)
      \<Longrightarrow> R (ys @ [x]) (call_observation lib sens (ident, Some capability, m, projr route, body, None) (snd x))"
  shows "probe_triple client bearer sens Q (attempt lib ident capability m route body) R"
proof -
  obtain u where "route = Ok u" using assms(1) by (auto simp: is_ok_def split: sum.splits)
  then show ?thesis
    using assms(2) by (auto simp: rec.triple_def intro!: attempt_traces)
qed

lemma attempt_keyed_triple:
  assumes "is_ok route"
    and "\<And>ys x. Q ys \<Longrightarrow> fst x = call_request bearer (ident, Some capability, m, projr route, body, Some key)
      \<Longrightarrow> R (ys @ [x]) (call_observation lib sens (ident, Some capability, m, projr route, body, Some key) (snd x))"
  shows "probe_triple client bearer sens Q (attempt_keyed lib ident capability m route body key) R"
proof -
  obtain u where "route = Ok u" using assms(1) by (auto simp: is_ok_def split: sum.splits)
  then show ?thesis
    using assms(2) by (auto simp: rec.triple_def intro!: attempt_keyed_traces)
qed

lemma skip_all_triple: "(\<And>ys. Q ys \<Longrightarrow> R ys ()) \<Longrightarrow> probe_triple client bearer sens Q (skip_all operations reason) R"
  by (auto simp: rec.triple_def intro!: skip_all_traces)

lemma usable_is_ok:
  assumes "usable lib r"
  shows "is_ok (route_namespace_collection lib r)" "is_ok (route_namespace lib r ns)"
    "is_ok (route_table_collection lib r ns)" "is_ok (route_table lib r ns name)"
    "is_ok (route_table_page lib r ns token n)" "is_ok (route_table_register lib r ns)"
    "is_ok (route_table_rename lib r)"
  using usable_routes [OF assms] by (metis is_ok_simps(2))+

lemma call_observation_plain [simp]:
  "call_observation lib sens (ident, capability, m, u, body, None) answer = observation_of lib sens ident answer"
  by (simp add: call_observation_def)

lemma attempt_history:
  assumes "is_ok route"
  shows "probe_triple client bearer sens Q (attempt lib ident capability m route body)
    (\<lambda>xs ob. \<exists>ys x. xs = ys @ [x] \<and> Q ys \<and> request_line x = (m, projr route)
       \<and> rq_body (fst x) = (case body of None \<Rightarrow> NoBody | Some b \<Rightarrow> JsonBody b)
       \<and> ob = observation_of lib sens ident (snd x))"
  by (rule attempt_triple [OF assms])
    (auto simp: request_line_def call_request_def)

lemma probe_bind_Ok [simp]: "probe_bind (probe_try (Ok a)) f = f a"
  by (auto simp: probe_bind_def probe_try_def)

lemma answered_plain:
  "validate_status (observation_of lib sens ident (snd e)) allowed = Ok () \<Longrightarrow> answered allowed e"
  "validate_error_response decode (observation_of lib sens ident (snd e)) status error_type = Ok () \<Longrightarrow> answered [status] e"
  using answered_status [where lib = lib and sens = sens and e = e and allowed = allowed
      and k = "(ident, None, GET, undefined, None, None)"]
    answered_error [where lib = lib and sens = sens and e = e and k = "(ident, None, GET, undefined, None, None)"]
  by simp_all

section \<open>A scripted catalog\<close>

text \<open>
  A catalog that follows a script: answer number \<open>n\<close> of a list of status codes and body texts. The
  text of a body is its JSON document, and the decoders know the documents of the script.
\<close>

definition scripted :: "(u16 \<times> string) list \<Rightarrow> nat http_client" where
  "scripted script request n =
     (if n < length script then
        Ok \<lparr>rr_status = fst (script ! n),
            rr_headers = (\<lambda>name. if name = ''content-type'' then Some ''application/json'' else None),
            rr_content_length = None, rr_chunks = [Ok (snd (script ! n))]\<rparr>
      else Err \<lparr>se_timeout = True, se_text = ''script''\<rparr>, Suc n)"

definition text_web :: web_lib where
  "text_web = demo_web\<lparr>wl_json_from_slice := (\<lambda>s. Ok (JString s)), wl_url_parse :=
     (\<lambda>s. if starts_with s ''http'' then Ok (demo_url s) else Err ''url'')\<rparr>"

end
