(* ===== verification/Conf_Pagination.thy ===== *)
theory Conf_Pagination
  imports Conf_Trace
begin

text \<open>
  The traversal of a paginated listing, which the namespace and the table probe do in the same way
  (\<open>traverse_pages\<close> in \<open>namespace/mod.rs\<close> and in \<open>table/workflow.rs\<close>). A reader says how the items of
  a page are parsed, what they are called, how a duplicate is reported and when a listing is
  complete. A set of items (\<open>BTreeSet\<close>) is the ascending list of its elements.
\<close>

section \<open>The traversal\<close>

definition PAGE_SIZE :: nat where
  "PAGE_SIZE = 1"

definition MAXIMUM_PAGES :: nat where
  "MAXIMUM_PAGES = 64"

datatype pagination_transcript =
    Paginated nat nat
  | UnpaginatedFallback nat
  | PaginationFailed string
  | PaginationNotEvaluated string

record 'a page_reader =
  pgr_parse :: "observation \<Rightarrow> string + 'a list \<times> string option"
  pgr_noun :: string
  pgr_duplicate :: "'a \<Rightarrow> string"
  pgr_complete :: "'a list \<Rightarrow> string + unit"

definition page_operation :: "nat \<Rightarrow> string" where
  "page_operation index =
     (let digits = show_nat index in ''list-page-'' @ replicate (3 - length digits) CHR ''0'' @ digits)"

definition pagination_failure :: "string \<Rightarrow> pagination_transcript \<times> (string + unit)" where
  "pagination_failure explanation = (PaginationFailed explanation, Err explanation)"

text \<open>The loop that inserts the items of a page; it stops at one that was seen on an earlier page.\<close>

fun insert_new :: "'a::linorder list \<Rightarrow> 'a list \<Rightarrow> 'a + 'a list" where
  "insert_new [] seen = Ok seen"
| "insert_new (x # xs) seen = (if x \<in> set seen then Err x else insert_new xs (insort x seen))"

text \<open>What is done with the answer of one page: finish, or go on with a token and the items so far.\<close>

definition page_step ::
  "'a::linorder page_reader \<Rightarrow> nat \<Rightarrow> string list \<Rightarrow> 'a list \<Rightarrow> observation
   \<Rightarrow> (pagination_transcript \<times> (string + unit)) + string \<times> 'a list" where
  "page_step R index tokens seen observation =
     and_then (map_err pagination_failure (pgr_parse R observation)) (\<lambda>(items, next_page_token).
       if PAGE_SIZE < length items then
         Err (if index = 1 \<and> next_page_token = None then
                (UnpaginatedFallback (length items), pgr_complete R items)
              else pagination_failure (''page '' @ show_nat index @ '' returned '' @ show_nat (length items)
                     @ '' '' @ pgr_noun R @ ''s above pageSize '' @ show_nat PAGE_SIZE))
       else
         and_then (map_err (\<lambda>x. pagination_failure (''pagination returned duplicate '' @ pgr_noun R @ '' ''
                     @ pgr_duplicate R x)) (insert_new items seen)) (\<lambda>seen1.
           case next_page_token of
             Some next \<Rightarrow>
               if next = [] then Err (pagination_failure ''pagination returned an empty next-page-token'')
               else if next \<in> set tokens then Err (pagination_failure ''pagination repeated a next-page-token'')
               else Ok (next, seen1)
           | None \<Rightarrow> Err (Paginated index (length seen1), pgr_complete R seen1)))"

fun page_loop ::
  "web_lib \<Rightarrow> 'a::linorder page_reader \<Rightarrow> string \<Rightarrow> (string \<Rightarrow> string + url) \<Rightarrow> nat list \<Rightarrow> string \<Rightarrow> string list
   \<Rightarrow> 'a list \<Rightarrow> ('w operation_recorder \<times> 'w, pagination_transcript \<times> (string + unit)) probe" where
  "page_loop lib R capability route [] token tokens seen =
     probe_return (pagination_failure
       (''pagination exceeded the '' @ show_nat MAXIMUM_PAGES @ ''-page safety bound''))"
| "page_loop lib R capability route (index # rest) token tokens seen =
     probe_bind (attempt lib (page_operation index) capability GET (route token) None) (\<lambda>observation.
       case page_step R index tokens seen observation of
         Inl result \<Rightarrow> probe_return result
       | Inr (next, seen1) \<Rightarrow> page_loop lib R capability route rest next (next # tokens) seen1)"

definition traverse_pages ::
  "web_lib \<Rightarrow> 'a::linorder page_reader \<Rightarrow> string \<Rightarrow> (string \<Rightarrow> string + url)
   \<Rightarrow> ('w operation_recorder \<times> 'w, pagination_transcript \<times> (string + unit)) probe" where
  "traverse_pages lib R capability route =
     page_loop lib R capability route [1..<MAXIMUM_PAGES + 1] [] [] []"

section \<open>Chains of pages\<close>

text \<open>The items and the token in the answer to the request for a page.\<close>

definition page_answer ::
  "web_lib \<Rightarrow> 'a page_reader \<Rightarrow> string \<Rightarrow> (string \<Rightarrow> string + url) \<Rightarrow> string list \<Rightarrow> nat \<Rightarrow> string
   \<Rightarrow> exchange \<Rightarrow> 'a list \<Rightarrow> string option \<Rightarrow> bool" where
  "page_answer lib R capability route sens index token x items onward \<longleftrightarrow>
     request_line x = (GET, projr (route token))
     \<and> pgr_parse R (call_observation lib sens (page_operation index, Some capability, GET,
          projr (route token), None, None) (snd x)) = Ok (items, onward)"

text \<open>
  Exchanges that follow the tokens: the first asks with the given token, every other one with the
  token of the answer before it, and the last answer has none. The list collects the items.
\<close>

inductive paged ::
  "web_lib \<Rightarrow> 'a page_reader \<Rightarrow> string \<Rightarrow> (string \<Rightarrow> string + url) \<Rightarrow> string list \<Rightarrow> nat \<Rightarrow> string
   \<Rightarrow> exchange list \<Rightarrow> 'a list \<Rightarrow> bool"
  for lib R capability route sens where
  last_page: "page_answer lib R capability route sens index token x items None
    \<Longrightarrow> paged lib R capability route sens index token [x] items"
| next_page: "page_answer lib R capability route sens index token x items (Some onward)
    \<Longrightarrow> paged lib R capability route sens (Suc index) onward xs later
    \<Longrightarrow> paged lib R capability route sens index token (x # xs) (items @ later)"

definition pages_complete ::
  "web_lib \<Rightarrow> 'a page_reader \<Rightarrow> string \<Rightarrow> (string \<Rightarrow> string + url) \<Rightarrow> ('a set \<Rightarrow> bool) \<Rightarrow> string list \<Rightarrow> nat \<Rightarrow> string
   \<Rightarrow> 'a list \<Rightarrow> exchange list \<Rightarrow> pagination_transcript \<Rightarrow> bool" where
  "pages_complete lib R capability route covers sens index token seen xs pagination \<longleftrightarrow>
     (\<exists>items. paged lib R capability route sens index token xs items \<and> distinct items \<and> set items \<inter> set seen = {}
        \<and> covers (set seen \<union> set items)
        \<and> (pagination = Paginated (index + length xs - 1) (length seen + length items)
           \<or> index = 1 \<and> length xs = 1 \<and> pagination = UnpaginatedFallback (length items)))"

lemma pagination_failure_not_passed [simp]:
  "pagination_failure e \<noteq> (pagination, Ok ())" "(pagination, Ok ()) \<noteq> pagination_failure e"
  by (simp_all add: pagination_failure_def)

lemma insert_new_Ok:
  assumes "insert_new xs seen = Ok seen'" and "distinct seen"
  shows "distinct seen' \<and> set seen' = set seen \<union> set xs \<and> length seen' = length seen + length xs
    \<and> set xs \<inter> set seen = {}"
  using assms
proof (induction xs arbitrary: seen)
  case (Cons x xs)
  then have "x \<notin> set seen" "insert_new xs (insort x seen) = Ok seen'" by (auto split: if_splits)
  with Cons.IH [of "insort x seen"] Cons.prems(2) show ?case
    by (auto simp: set_insort_key distinct_insort)
qed simp

lemma page_loop_steady:
  assumes "\<And>token. is_ok (route token)"
  shows "probe_steady client bearer sens is_read (page_loop lib R capability route indices token tokens seen)"
proof (induction indices arbitrary: token tokens seen)
  case Nil
  then show ?case by (simp add: rec.steady_return)
next
  case (Cons index indices)
  have "probe_steady client bearer sens is_read
      (case page_step R index tokens seen ob of Inl result \<Rightarrow> probe_return result
       | Inr (next, seen1) \<Rightarrow> page_loop lib R capability route indices next (next # tokens) seen1)" for ob
    using Cons by (auto split: sum.splits intro: rec.steady_return)
  moreover obtain u where "route token = Ok u" using assms [of token] by (auto simp: is_ok_def split: sum.splits)
  ultimately show ?case by (auto intro!: rec.steady_bind attempt_steady)
qed

text \<open>
  The contract of a reader: the items of a page are different from each other, and a listing that is
  accepted as complete covers what it has to.
\<close>

locale page_reading =
  fixes R :: "'a::linorder page_reader" and covers :: "'a set \<Rightarrow> bool"
  assumes parse_distinct: "pgr_parse R ob = Ok (items, onward) \<Longrightarrow> distinct items"
    and complete_covers: "distinct items \<Longrightarrow> pgr_complete R items = Ok () \<Longrightarrow> covers (set items)"
begin

lemma page_step_stop:
  assumes line: "request_line x = (GET, projr (route token))"
    and stop: "page_step R index tokens seen (call_observation lib sens (page_operation index, Some capability, GET,
        projr (route token), None, None) (snd x)) = Inl (pagination, Ok ())"
    and "distinct seen" and "index = 1 \<Longrightarrow> seen = []"
  shows "pages_complete lib R capability route covers sens index token seen [x] pagination"
proof -
  obtain items onward where page: "page_answer lib R capability route sens index token x items onward"
    using line stop by (auto simp: page_step_def page_answer_def and_then_eq_Inl map_err_eq_Inl)
  then have parsed: "pgr_parse R (call_observation lib sens (page_operation index, Some capability, GET,
        projr (route token), None, None) (snd x)) = Ok (items, onward)"
    by (simp add: page_answer_def)
  note distinct_items = parse_distinct [OF this]
  have none: "onward = None"
    using stop parsed by (cases onward) (auto simp: page_step_def map_err_eq_Inl and_then_eq_Inl split: if_splits)
  then have chain: "paged lib R capability route sens index token [x] items"
    using page by (auto intro: last_page)
  show ?thesis
  proof (cases "PAGE_SIZE < length items")
    case True
    then have "index = 1" "pagination = UnpaginatedFallback (length items)" "covers (set items)"
      using stop parsed none complete_covers [OF distinct_items] by (auto simp: page_step_def split: if_splits)
    then show ?thesis
      using chain distinct_items assms(4) unfolding pages_complete_def by (intro exI [of _ items]) auto
  next
    case False
    obtain seen' where seen': "insert_new items seen = Ok seen'"
      using stop parsed False by (cases "insert_new items seen") (auto simp: page_step_def map_err_eq_Inl)
    note grown = insert_new_Ok [OF seen' assms(3)]
    then have "pagination = Paginated index (length seen')" "covers (set seen')"
      using stop parsed False none seen' complete_covers [of seen'] by (auto simp: page_step_def)
    then show ?thesis
      using chain distinct_items grown unfolding pages_complete_def by (intro exI [of _ items]) auto
  qed
qed

lemma page_step_go_on:
  assumes "page_step R index tokens seen (call_observation lib sens (page_operation index, Some capability, GET,
        projr (route token), None, None) (snd x)) = Inr (onward, seen')"
    and "request_line x = (GET, projr (route token))" and "distinct seen"
  obtains items where "page_answer lib R capability route sens index token x items (Some onward)"
    and "distinct items" and "set items \<inter> set seen = {}" and "distinct seen'"
    and "set seen' = set seen \<union> set items" and "length seen' = length seen + length items"
proof -
  obtain items where page: "page_answer lib R capability route sens index token x items (Some onward)"
    and new: "insert_new items seen = Ok seen'"
    using assms(1,2)
    by (auto simp: page_step_def page_answer_def and_then_eq_Inr split: if_splits option.splits)
  from page have "distinct items" using parse_distinct by (auto simp: page_answer_def)
  with insert_new_Ok [OF new assms(3)] page that show ?thesis by simp
qed

lemma pages_complete_step:
  assumes "page_answer lib R capability route sens index token x items (Some onward)"
    and "distinct items" and "set items \<inter> set seen = {}"
    and "set seen' = set seen \<union> set items" and "length seen' = length seen + length items"
    and "pages_complete lib R capability route covers sens (Suc index) onward seen' xs pagination" and "0 < index"
  shows "pages_complete lib R capability route covers sens index token seen (x # xs) pagination"
proof -
  obtain later where later: "paged lib R capability route sens (Suc index) onward xs later" "distinct later"
      "set later \<inter> set seen' = {}" "covers (set seen' \<union> set later)"
      "pagination = Paginated (Suc index + length xs - 1) (length seen' + length later)"
    using assms(6,7) by (auto simp: pages_complete_def)
  have "covers (set seen \<union> set (items @ later))" using later(4) assms(4) by (simp add: Un_assoc)
  then show ?thesis
    unfolding pages_complete_def
    using next_page [OF assms(1) later(1)] later(2,3,5) assms(2-5)
    by (intro exI [of _ "items @ later"]) auto
qed

lemma page_loop_traces:
  assumes route: "\<And>token. is_ok (route token)"
  shows "distinct seen \<Longrightarrow> (index = 1 \<Longrightarrow> seen = []) \<Longrightarrow> 0 < index
    \<Longrightarrow> probe_traces client bearer sens (page_loop lib R capability route [index..<index + n] token tokens seen)
      (\<lambda>xs res. \<exists>pagination result. res = Ok (pagination, result) \<and> length xs \<le> n
        \<and> (result = Ok () \<longrightarrow> pages_complete lib R capability route covers sens index token seen xs pagination))"
proof (induction n arbitrary: index token tokens seen)
  case 0
  then show ?case by (auto intro!: rec.traces_return simp: pagination_failure_def)
next
  case (Suc n)
  have indices: "[index..<index + Suc n] = index # [Suc index..<Suc index + n]"
    by (simp add: upt_conv_Cons del: upt_Suc)
  let ?u = "projr (route token)"
  let ?k = "(page_operation index, Some capability, GET, ?u, None, None)"
  let ?P = "\<lambda>ob xs. \<exists>x. xs = [x] \<and> request_line x = (GET, ?u) \<and> ob = call_observation lib sens ?k (snd x)"
  let ?Q = "\<lambda>xs res. \<exists>pagination result. res = Ok (pagination, result) \<and> length xs \<le> Suc n
      \<and> (result = Ok () \<longrightarrow> pages_complete lib R capability route covers sens index token seen xs pagination)"
  have at: "route token = Ok ?u" using route [of token] by (auto simp: is_ok_def split: sum.splits)
  have further: "probe_traces client bearer sens
      (page_loop lib R capability route [Suc index..<Suc index + n] onward (onward # tokens) seen')
      (\<lambda>zs res. \<forall>ys. ?P ob ys \<longrightarrow> ?Q (ys @ zs) res)"
    if step: "page_step R index tokens seen ob = Inr (onward, seen')" for ob onward seen'
  proof (cases "\<exists>xs. ?P ob xs")
    case False
    then show ?thesis
      by (intro rec.steady_traces [OF page_loop_steady [OF route]]) blast
  next
    case True
    then obtain x where x: "request_line x = (GET, ?u)" "ob = call_observation lib sens ?k (snd x)" by blast
    have "distinct seen'"
      using page_step_go_on [where route = route, OF _ x(1) Suc.prems(1)] step by (auto simp: x(2))
    moreover have "Suc index = 1 \<Longrightarrow> seen' = []" using Suc.prems(3) by simp
    ultimately show ?thesis
    proof (intro rec.traces_weaken [OF Suc.IH])
      fix zs res
      assume "\<exists>pagination result. res = Ok (pagination, result) \<and> length zs \<le> n
        \<and> (result = Ok () \<longrightarrow> pages_complete lib R capability route covers sens (Suc index) onward seen' zs pagination)"
      moreover have "pages_complete lib R capability route covers sens index token seen (y # zs) pagination"
        if "pages_complete lib R capability route covers sens (Suc index) onward seen' zs pagination"
          and y: "request_line y = (GET, ?u)" "ob = call_observation lib sens ?k (snd y)" for y pagination
        using page_step_go_on [where route = route and index = index and tokens = tokens and lib = lib and sens = sens
            and capability = capability and onward = onward and seen' = seen', OF _ y(1) Suc.prems(1)]
          pages_complete_step [OF _ _ _ _ _ that(1) Suc.prems(3)] step
        by (metis y(2))
      ultimately show "\<forall>ys. ?P ob ys \<longrightarrow> ?Q (ys @ zs) res" by fastforce
    qed simp_all
  qed
  have finished: "probe_traces client bearer sens (probe_return stop) (\<lambda>zs res. \<forall>ys. ?P ob ys \<longrightarrow> ?Q (ys @ zs) res)"
    if "page_step R index tokens seen ob = Inl stop" for ob stop
    using page_step_stop [where route = route, OF _ _ Suc.prems(1,2)] that by (cases stop) (auto intro!: rec.traces_return)
  show ?case
    unfolding indices page_loop.simps
    by (rule rec.traces_seq [where P = "\<lambda>xs ob. ?P ob xs"], subst at, rule attempt_traces)
      (use further finished in \<open>auto split: sum.splits\<close>)
qed

lemma traverse_pages_traces:
  assumes "\<And>token. is_ok (route token)"
  shows "probe_traces client bearer sens (traverse_pages lib R capability route)
      (\<lambda>xs res. \<exists>pagination result. res = Ok (pagination, result) \<and> length xs \<le> MAXIMUM_PAGES \<and> list_all is_read xs
        \<and> (result = Ok () \<longrightarrow> pages_complete lib R capability route covers sens 1 [] [] xs pagination))"
proof -
  from page_loop_traces [where route = route and seen = "[]" and index = 1 and n = MAXIMUM_PAGES and token = "[]"
      and tokens = "[]" and client = client and bearer = bearer and sens = sens and lib = lib and capability = capability, OF assms]
  have pages: "probe_traces client bearer sens (traverse_pages lib R capability route)
      (\<lambda>xs res. \<exists>pagination result. res = Ok (pagination, result) \<and> length xs \<le> MAXIMUM_PAGES
        \<and> (result = Ok () \<longrightarrow> pages_complete lib R capability route covers sens 1 [] [] xs pagination))"
    by (simp add: traverse_pages_def add.commute)
  have "probe_traces client bearer sens (traverse_pages lib R capability route) (\<lambda>xs res. is_ok res \<and> list_all is_read xs)"
    using page_loop_steady [OF assms] unfolding rec.steady_def traverse_pages_def .
  from rec.traces_conj [OF pages this] show ?thesis by (rule rec.traces_weaken) auto
qed

end

end
