(* ===== verification/Conf_Namespace.thy ===== *)
theory Conf_Namespace
  imports Conf_Pagination
begin

text \<open>
  The namespace probe (\<open>crates/conformance/src/namespace/\<close>): fixture (\<open>routes.rs\<close>), scenario policy
  (\<open>policy.rs\<close>), and the workflow, the pagination and the whole probe (\<open>mod.rs\<close>). A set of
  namespaces (\<open>BTreeSet\<close>) is the ascending list of its elements.
\<close>

section \<open>Data\<close>

definition NAMESPACE_TRANSCRIPT_FORMAT :: string where
  "NAMESPACE_TRANSCRIPT_FORMAT = ''catalog-bench/namespace-transcript/v1''"

definition NAMESPACE_SCENARIO_ID :: string where
  "NAMESPACE_SCENARIO_ID = ''iceberg-rest.namespace.behavior''"

definition NS_CREATE :: string where "NS_CREATE = ''iceberg-rest.namespace.create''"
definition NS_LIST :: string where "NS_LIST = ''iceberg-rest.namespace.list''"
definition NS_LOAD :: string where "NS_LOAD = ''iceberg-rest.namespace.load''"
definition NS_UPDATE :: string where "NS_UPDATE = ''iceberg-rest.namespace.update-properties''"
definition NS_DROP :: string where "NS_DROP = ''iceberg-rest.namespace.drop''"
definition NS_HIERARCHY :: string where "NS_HIERARCHY = ''iceberg-rest.namespace.hierarchy''"
definition NS_PAGINATION :: string where "NS_PAGINATION = ''iceberg-rest.namespace.pagination''"
definition NS_DUPLICATE :: string where "NS_DUPLICATE = ''iceberg-rest.namespace.error.duplicate''"
definition NS_MISSING_PARENT :: string where
  "NS_MISSING_PARENT = ''iceberg-rest.namespace.error.missing-parent''"

definition NS_OWNER_PROPERTY :: string where "NS_OWNER_PROPERTY = ''owner''"
definition NS_REMOVE_PROPERTY :: string where "NS_REMOVE_PROPERTY = ''c1-04.remove''"
definition NS_STATE_PROPERTY :: string where "NS_STATE_PROPERTY = ''c1-04.state''"

record namespace_fixture =
  nfx_ident :: string
  nfx_primary :: namespace_identifier
  nfx_sibling :: namespace_identifier
  nfx_child :: namespace_identifier
  nfx_missing_parent :: namespace_identifier

definition namespace_fixture_new :: "component_id \<Rightarrow> string \<Rightarrow> string + namespace_fixture" where
  "namespace_fixture_new catalog ident =
     and_then (fixture_stem ''cb_c104'' catalog ident) (\<lambda>stem.
     and_then (namespace_single (stem @ ''_a'')) (\<lambda>primary.
     and_then (namespace_single (stem @ ''_b'')) (\<lambda>sibling.
     and_then (namespace_child primary ''child'') (\<lambda>child.
     and_then (namespace_single (stem @ ''_missing'')) (\<lambda>missing.
       Ok \<lparr>nfx_ident = ident, nfx_primary = primary, nfx_sibling = sibling, nfx_child = child,
           nfx_missing_parent = missing\<rparr>)))))"

record namespace_response =
  nsr_namespace :: "string list"
  nsr_properties :: "string_map option"

record list_namespaces_response =
  lnr_namespaces :: "string list list"
  lnr_next_page_token :: "string option"

record update_namespace_properties_response =
  unr_updated :: "string list"
  unr_removed :: "string list"

record namespace_lib =
  nl_web :: web_lib
  nl_debug_str :: "string \<Rightarrow> string"
  nl_error :: "iceberg_error decoder"
  nl_namespace :: "namespace_response decoder"
  nl_listing :: "list_namespaces_response decoder"
  nl_update :: "update_namespace_properties_response decoder"
  nl_encode :: "authentication_transcript \<times> routing_config_transcript \<times> operation_transcript list
    \<times> pagination_transcript \<Rightarrow> string + string"

record namespace_facts =
  nf_authentication :: fact
  nf_config_routing :: fact
  nf_fixture_isolated :: fact
  nf_create :: fact
  nf_list :: fact
  nf_load :: fact
  nf_properties :: fact
  nf_duplicate :: fact
  nf_hierarchy :: fact
  nf_pagination :: fact
  nf_missing_parent :: fact
  nf_cleanup :: fact
  nf_transcript_sanitized :: fact

record namespace_transcript =
  nst_format :: string
  nst_profile :: string
  nst_scenario :: transcript_scenario
  nst_contract_digests :: contract_digests
  nst_adapter :: transcript_adapter_record
  nst_fixture :: namespace_fixture
  nst_classification :: probe_classification
  nst_authentication :: authentication_transcript
  nst_config :: routing_config_transcript
  nst_operations :: "operation_transcript list"
  nst_pagination :: pagination_transcript
  nst_assertions :: "probe_assertion list"
  nst_sanitization :: sanitization_transcript

definition namespace_transcript_passed :: "namespace_transcript \<Rightarrow> bool" where
  "namespace_transcript_passed t \<longleftrightarrow> nst_classification t = ProbePass"

section \<open>The scenario policy\<close>

definition namespace_parameters :: "(string \<times> json) list" where
  "namespace_parameters =
     [(''fixture_prefix'', JString ''cb_c104''),
      (''iceberg_openapi_sha256'', JString ICEBERG_REST_OPENAPI_SHA256),
      (''iceberg_openapi_source'', JString ICEBERG_REST_OPENAPI_SOURCE),
      (''maximum_pages'', JNumber ''64''),
      (''maximum_response_bytes'', JNumber (show_word MAXIMUM_RESPONSE_BYTES)),
      (''namespace_separator_default'', JString DEFAULT_NAMESPACE_SEPARATOR),
      (''page_size'', JNumber ''1''),
      (''request_timeout_ms'', JNumber ''30000''),
      (''transcript_format'', JString NAMESPACE_TRANSCRIPT_FORMAT)]"

definition namespace_capabilities :: "(string \<times> requirement_level) list" where
  "namespace_capabilities =
     [(''iceberg-rest.namespace.create'', Required),
      (''iceberg-rest.namespace.list'', Required),
      (''iceberg-rest.namespace.load'', Required),
      (''iceberg-rest.namespace.update-properties'', Optional),
      (''iceberg-rest.namespace.drop'', Required),
      (''iceberg-rest.namespace.hierarchy'', Required),
      (''iceberg-rest.namespace.pagination'', Required),
      (''iceberg-rest.namespace.error.duplicate'', Required),
      (''iceberg-rest.namespace.error.missing-parent'', Required),
      (''iceberg-rest.error.spec-shape'', Required)]"

definition namespace_steps :: "expected_step list" where
  "namespace_steps =
     [(''negotiate-authentication'', HarnessActor, ''authentication.negotiate'', [], None),
      (''negotiate-config'', ClientActor, ''config.get-routing'', [''negotiate-authentication''], Some 30000),
      (''preflight-fixture'', HarnessActor, ''namespace.verify-fixture-absence'', [''negotiate-config''], None),
      (''create-namespaces'', ClientActor, ''namespace.create'', [''preflight-fixture''], Some 30000),
      (''inspect-namespace'', ClientActor, ''namespace.list-and-load'', [''create-namespaces''], Some 30000),
      (''update-namespace'', ClientActor, ''namespace.update-properties'', [''inspect-namespace''], Some 30000),
      (''reject-duplicate'', ClientActor, ''namespace.create-duplicate'', [''create-namespaces''], Some 30000),
      (''inspect-hierarchy'', ClientActor, ''namespace.list-under-parent'', [''create-namespaces''], Some 30000),
      (''traverse-pagination'', ClientActor, ''namespace.list-pages'', [''create-namespaces''], Some 30000),
      (''reject-missing-parent'', ClientActor, ''namespace.list-under-missing-parent'',
       [''negotiate-config''], Some 30000),
      (''cleanup-namespaces'', HarnessActor, ''namespace.drop-and-verify'',
       [''inspect-namespace'', ''update-namespace'', ''reject-duplicate'', ''inspect-hierarchy'',
        ''traverse-pagination'', ''reject-missing-parent''], Some 30000),
      (''sanitize-transcript'', HarnessActor, ''evidence.sanitize-http-transcript'',
       [''cleanup-namespaces''], None)]"

definition namespace_assertions :: "expected_assertion list" where
  "namespace_assertions =
     [authentication_assertion,
      (''config-routing-ready'', ''negotiate-config'', True,
       custom_check ''namespace-config-routing-v1'' [(''default_namespace_separator'', JString ''%1F'')]),
      (''fixture-isolated'', ''preflight-fixture'', True,
       custom_check ''namespace-fixture-isolation-v1'' [(''expected_http_status'', JNumber ''404'')]),
      (''namespace-create-round-trip'', ''create-namespaces'', True,
       custom_check ''namespace-create-v1'' [(''expected_http_status'', JNumber ''200'')]),
      (''namespace-list-visible'', ''inspect-namespace'', True,
       custom_check ''namespace-list-v1'' [(''duplicate_policy'', JString ''reject'')]),
      (''namespace-load-round-trip'', ''inspect-namespace'', True,
       custom_check ''namespace-load-v1'' [(''expected_http_status'', JNumber ''200'')]),
      (''namespace-properties-updated'', ''update-namespace'', False,
       custom_check ''namespace-properties-v1'' [(''preserve_unmentioned'', JBool True)]),
      (''duplicate-error-spec-shaped'', ''reject-duplicate'', True,
       custom_check ''namespace-duplicate-error-v1''
         [(''code'', JNumber ''409''), (''type'', JString ''AlreadyExistsException'')]),
      (''namespace-hierarchy-preserved'', ''inspect-hierarchy'', True,
       custom_check ''namespace-hierarchy-v1'' [(''scope'', JString ''immediate-children'')]),
      (''namespace-pagination-complete'', ''traverse-pagination'', True,
       custom_check ''namespace-pagination-v1''
         [(''accept_unpaginated_fallback'', JBool True), (''maximum_pages'', JNumber ''64''),
          (''page_size'', JNumber ''1'')]),
      (''missing-parent-error-spec-shaped'', ''reject-missing-parent'', True,
       custom_check ''namespace-missing-parent-error-v1''
         [(''code'', JNumber ''404''), (''type'', JString ''NoSuchNamespaceException'')]),
      (''namespace-drop-clean'', ''cleanup-namespaces'', True,
       custom_check ''namespace-cleanup-v1'' [(''final_http_status'', JNumber ''404'')]),
      sanitized_assertion]"

definition namespace_scenario_policy :: "scenario \<Rightarrow> string + unit" where
  "namespace_scenario_policy s =
     and_then (check_parameters ''namespace'' namespace_parameters s) (\<lambda>_.
     and_then (check_capabilities ''namespace'' namespace_capabilities s) (\<lambda>_.
     and_then (check_steps ''namespace'' namespace_steps s) (\<lambda>_.
     and_then (check_assertions ''namespace'' namespace_assertions s) (\<lambda>_.
       check_extensions ''namespace'' s))))"

definition namespace_validate_invocation :: "profile \<Rightarrow> scenario \<Rightarrow> component_id \<Rightarrow> string + unit" where
  "namespace_validate_invocation =
     check_invocation ''namespace'' NAMESPACE_SCENARIO_ID namespace_scenario_policy"

section \<open>Facts\<close>

definition namespace_facts_new :: "bool \<Rightarrow> fact \<Rightarrow> namespace_facts" where
  "namespace_facts_new authentication_ready config_routing =
     (let pending = FactNotEvaluated ''namespace workflow did not reach this check''
      in \<lparr>nf_authentication = fact_from_bool authentication_ready ''authentication negotiation did not complete'',
          nf_config_routing = config_routing, nf_fixture_isolated = pending, nf_create = pending,
          nf_list = pending, nf_load = pending, nf_properties = pending, nf_duplicate = pending,
          nf_hierarchy = pending, nf_pagination = pending, nf_missing_parent = pending,
          nf_cleanup = pending, nf_transcript_sanitized = pending\<rparr>)"

definition skip_mutating_behavior :: "string \<Rightarrow> namespace_facts \<Rightarrow> namespace_facts" where
  "skip_mutating_behavior reason facts =
     facts\<lparr>nf_create := FactNotEvaluated reason, nf_list := FactNotEvaluated reason,
       nf_load := FactNotEvaluated reason, nf_properties := FactNotEvaluated reason,
       nf_duplicate := FactNotEvaluated reason, nf_hierarchy := FactNotEvaluated reason,
       nf_pagination := FactNotEvaluated reason, nf_cleanup := FactNotEvaluated reason\<rparr>"

definition skip_namespace_behavior :: "string \<Rightarrow> namespace_facts \<Rightarrow> namespace_facts" where
  "skip_namespace_behavior reason facts =
     (skip_mutating_behavior reason (facts\<lparr>nf_fixture_isolated := FactNotEvaluated reason\<rparr>))
       \<lparr>nf_missing_parent := FactNotEvaluated reason\<rparr>"

definition namespace_fact :: "namespace_facts \<Rightarrow> assertion_check \<Rightarrow> fact" where
  "namespace_fact facts check =
     (case check of
        Custom name _ \<Rightarrow>
          (if name = ''querygraph/catalog-bench/authentication-ready-v1'' then nf_authentication facts
           else if name = ''querygraph/catalog-bench/namespace-config-routing-v1'' then nf_config_routing facts
           else if name = ''querygraph/catalog-bench/namespace-fixture-isolation-v1'' then nf_fixture_isolated facts
           else if name = ''querygraph/catalog-bench/namespace-create-v1'' then nf_create facts
           else if name = ''querygraph/catalog-bench/namespace-list-v1'' then nf_list facts
           else if name = ''querygraph/catalog-bench/namespace-load-v1'' then nf_load facts
           else if name = ''querygraph/catalog-bench/namespace-properties-v1'' then nf_properties facts
           else if name = ''querygraph/catalog-bench/namespace-duplicate-error-v1'' then nf_duplicate facts
           else if name = ''querygraph/catalog-bench/namespace-hierarchy-v1'' then nf_hierarchy facts
           else if name = ''querygraph/catalog-bench/namespace-pagination-v1'' then nf_pagination facts
           else if name = ''querygraph/catalog-bench/namespace-missing-parent-error-v1'' then nf_missing_parent facts
           else if name = ''querygraph/catalog-bench/namespace-cleanup-v1'' then nf_cleanup facts
           else if name = ''querygraph/catalog-bench/sanitized-http-transcript-v1'' then nf_transcript_sanitized facts
           else FactFail (''namespace policy received unknown assertion '' @ quoted name))
      | _ \<Rightarrow> FactFail ''namespace policy received a non-custom assertion'')"

definition evaluate_namespace_assertions :: "scenario \<Rightarrow> namespace_facts \<Rightarrow> probe_assertion list" where
  "evaluate_namespace_assertions s facts =
     map (\<lambda>a. \<lparr>pa_assertion = spec_ident a, pa_required = spec_required a,
               pa_outcome = fact_outcome (namespace_fact facts (spec_check a))\<rparr>) (scn_assertions s)"

section \<open>Responses\<close>

definition validate_ns_response ::
  "namespace_lib \<Rightarrow> observation \<Rightarrow> u16 \<Rightarrow> namespace_identifier \<Rightarrow> string + namespace_response" where
  "validate_ns_response L observation status expected =
     and_then (parse_json_response (nl_namespace L) observation status) (\<lambda>response.
     and_then (namespace_from_parts (nsr_namespace response)) (\<lambda>actual.
       if actual \<noteq> expected then
         Err (''response namespace '' @ debug_list (nl_debug_str L) actual @ '' does not match ''
              @ debug_list (nl_debug_str L) expected)
       else Ok response))"

definition parse_ns_listing :: "namespace_lib \<Rightarrow> observation \<Rightarrow> u16 \<Rightarrow> string + list_namespaces_response" where
  "parse_ns_listing L observation status = parse_json_response (nl_listing L) observation status"

definition parse_namespaces :: "string list list \<Rightarrow> string + namespace_identifier list" where
  "parse_namespaces namespaces =
     and_then (try_map namespace_from_parts namespaces) (\<lambda>identifiers.
       let parsed = sort (remdups identifiers)
       in if length parsed \<noteq> length namespaces then Err ''listing contains duplicate namespace identifiers''
          else Ok parsed)"

definition validate_complete_namespace_set ::
  "namespace_lib \<Rightarrow> namespace_identifier list \<Rightarrow> namespace_identifier list \<Rightarrow> string + unit" where
  "validate_complete_namespace_set L namespaces expected =
     (case find (\<lambda>e. e \<notin> set namespaces) expected of
        Some missing \<Rightarrow> Err (''listing omitted expected namespace '' @ debug_list (nl_debug_str L) missing)
      | None \<Rightarrow> Ok ())"

definition validate_top_level_listing ::
  "namespace_lib \<Rightarrow> observation \<Rightarrow> namespace_identifier list \<Rightarrow> string + unit" where
  "validate_top_level_listing L observation expected =
     and_then (parse_ns_listing L observation 200) (\<lambda>response.
     and_then (parse_namespaces (lnr_namespaces response)) (\<lambda>namespaces.
       validate_complete_namespace_set L namespaces expected))"

definition debug_namespace :: "namespace_lib \<Rightarrow> namespace_identifier \<Rightarrow> string" where
  "debug_namespace L ns = ''NamespaceIdentifier('' @ debug_list (nl_debug_str L) ns @ '')''"

definition validate_hierarchy_listing ::
  "namespace_lib \<Rightarrow> observation \<Rightarrow> namespace_identifier \<Rightarrow> string + unit" where
  "validate_hierarchy_listing L observation child =
     and_then (parse_ns_listing L observation 200) (\<lambda>response.
     and_then (parse_namespaces (lnr_namespaces response)) (\<lambda>namespaces.
       if namespaces = [child] then Ok ()
       else Err (''parent listing returned {'' @ join '', '' (map (debug_namespace L) namespaces)
                 @ ''}, expected only '' @ debug_list (nl_debug_str L) child)))"

definition validate_property_update ::
  "namespace_lib \<Rightarrow> observation \<Rightarrow> observation \<Rightarrow> namespace_fixture \<Rightarrow> string + unit" where
  "validate_property_update L update reload fx =
     and_then (parse_json_response (nl_update L) update 200) (\<lambda>updated.
       if NS_STATE_PROPERTY \<notin> set (unr_updated updated) then
         Err (''update response did not report '' @ quoted NS_STATE_PROPERTY)
       else if NS_REMOVE_PROPERTY \<notin> set (unr_removed updated) then
         Err (''update response did not report '' @ quoted NS_REMOVE_PROPERTY)
       else
         and_then (validate_ns_response L reload 200 (nfx_primary fx)) (\<lambda>loaded.
         and_then (ok_or (nsr_properties loaded) ''loaded namespace returned null or omitted properties'') (\<lambda>properties.
           if map_of properties NS_OWNER_PROPERTY \<noteq> Some ''catalog-bench'' then
             Err (''unmentioned '' @ quoted NS_OWNER_PROPERTY @ '' property was not preserved'')
           else if map_of properties NS_STATE_PROPERTY \<noteq> Some ''after'' then
             Err (''updated '' @ quoted NS_STATE_PROPERTY @ '' property was not persisted'')
           else if map_of properties NS_REMOVE_PROPERTY \<noteq> None then
             Err (''removed '' @ quoted NS_REMOVE_PROPERTY @ '' property is still present'')
           else Ok ())))"

section \<open>Pagination\<close>

definition namespace_reader :: "namespace_lib \<Rightarrow> namespace_fixture \<Rightarrow> namespace_identifier page_reader" where
  "namespace_reader L fx =
     \<lparr>pgr_parse = (\<lambda>observation.
        and_then (parse_ns_listing L observation 200) (\<lambda>page.
        and_then (parse_namespaces (lnr_namespaces page)) (\<lambda>namespaces.
          Ok (namespaces, lnr_next_page_token page)))),
      pgr_noun = ''namespace'', pgr_duplicate = debug_namespace L,
      pgr_complete = (\<lambda>namespaces. validate_complete_namespace_set L namespaces [nfx_primary fx, nfx_sibling fx])\<rparr>"

definition traverse_namespace_pages ::
  "namespace_lib \<Rightarrow> catalog_routes \<Rightarrow> namespace_fixture
   \<Rightarrow> ('w operation_recorder \<times> 'w, pagination_transcript \<times> (string + unit)) probe" where
  "traverse_namespace_pages L r fx =
     traverse_pages (nl_web L) (namespace_reader L fx) NS_PAGINATION
       (\<lambda>token. route_namespace_page (nl_web L) r token PAGE_SIZE)"

section \<open>The workflow\<close>

definition json_string_array :: "string list \<Rightarrow> json" where
  "json_string_array xs = JArray (map JString xs)"

definition create_namespace_body :: "namespace_identifier \<Rightarrow> (string \<times> json) list \<Rightarrow> json option" where
  "create_namespace_body ns properties =
     Some (JObject [(''namespace'', json_string_array ns), (''properties'', JObject properties)])"

definition primary_properties :: "(string \<times> json) list" where
  "primary_properties =
     [(NS_REMOVE_PROPERTY, JString ''before''), (NS_OWNER_PROPERTY, JString ''catalog-bench'')]"

definition preflight_namespaces ::
  "namespace_lib \<Rightarrow> catalog_routes \<Rightarrow> namespace_fixture
   \<Rightarrow> ('w operation_recorder \<times> 'w, (string + unit) list) probe" where
  "preflight_namespaces L r fx =
     probe_map (\<lambda>(ident, ns).
         probe_bind (attempt (nl_web L) ident NS_LOAD GET (route_namespace (nl_web L) r ns) None) (\<lambda>observation.
           probe_return (validate_error_response (nl_error L) observation 404 ''NoSuchNamespaceException'')))
       [(''preflight-primary'', nfx_primary fx), (''preflight-sibling'', nfx_sibling fx),
        (''preflight-child'', nfx_child fx)]"

definition probe_missing_parent ::
  "namespace_lib \<Rightarrow> catalog_routes \<Rightarrow> namespace_identifier
   \<Rightarrow> ('w operation_recorder \<times> 'w, string + unit) probe" where
  "probe_missing_parent L r missing_parent =
     probe_bind (attempt (nl_web L) ''list-missing-parent'' NS_MISSING_PARENT GET
                   (route_namespaces_under (nl_web L) r missing_parent) None) (\<lambda>observation.
       probe_return (validate_error_response (nl_error L) observation 404 ''NoSuchNamespaceException''))"

definition drop_namespaces ::
  "namespace_lib \<Rightarrow> catalog_routes \<Rightarrow> namespace_fixture
   \<Rightarrow> ('w operation_recorder \<times> 'w, (string + unit) list) probe" where
  "drop_namespaces L r fx =
     probe_map (\<lambda>(ident, ns).
         probe_bind (attempt (nl_web L) ident NS_DROP DELETE (route_namespace (nl_web L) r ns) None) (\<lambda>observation.
           probe_return (validate_status observation [204, 404])))
       [(''drop-child'', nfx_child fx), (''drop-sibling'', nfx_sibling fx), (''drop-primary'', nfx_primary fx)]"

definition verify_namespaces_absent ::
  "namespace_lib \<Rightarrow> catalog_routes \<Rightarrow> namespace_fixture
   \<Rightarrow> ('w operation_recorder \<times> 'w, (string + unit) list) probe" where
  "verify_namespaces_absent L r fx =
     probe_map (\<lambda>(ident, ns).
         probe_bind (attempt (nl_web L) ident NS_DROP GET (route_namespace (nl_web L) r ns) None) (\<lambda>observation.
           probe_return (validate_status observation [404])))
       [(''verify-child-absent'', nfx_child fx), (''verify-sibling-absent'', nfx_sibling fx),
        (''verify-primary-absent'', nfx_primary fx)]"

definition cleanup_namespaces ::
  "namespace_lib \<Rightarrow> catalog_routes \<Rightarrow> namespace_fixture
   \<Rightarrow> ('w operation_recorder \<times> 'w, string + unit) probe" where
  "cleanup_namespaces L r fx =
     probe_bind (drop_namespaces L r fx) (\<lambda>dropped.
     probe_bind (verify_namespaces_absent L r fx) (\<lambda>verified.
       probe_return (all_results (dropped @ verified))))"

definition remaining_mutations :: "(string \<times> string) list" where
  "remaining_mutations =
     [(''create-primary'', NS_CREATE), (''create-sibling'', NS_CREATE), (''create-child'', NS_CREATE),
      (''list-top-level'', NS_LIST), (''load-primary'', NS_LOAD),
      (''update-primary-properties'', NS_UPDATE), (''reload-primary-properties'', NS_UPDATE),
      (''create-primary-duplicate'', NS_DUPLICATE), (''list-primary-children'', NS_HIERARCHY),
      (''list-page-001'', NS_PAGINATION), (''drop-child'', NS_DROP), (''drop-sibling'', NS_DROP),
      (''drop-primary'', NS_DROP), (''verify-child-absent'', NS_DROP),
      (''verify-sibling-absent'', NS_DROP), (''verify-primary-absent'', NS_DROP)]"

definition create_child ::
  "namespace_lib \<Rightarrow> catalog_routes \<Rightarrow> namespace_fixture \<Rightarrow> bool
   \<Rightarrow> ('w operation_recorder \<times> 'w, string + namespace_response) probe" where
  "create_child L r fx primary_created =
     (if primary_created then
        probe_bind (attempt (nl_web L) ''create-child'' NS_CREATE POST (route_namespace_collection (nl_web L) r)
                      (create_namespace_body (nfx_child fx) [])) (\<lambda>observation.
          probe_return (validate_ns_response L observation 200 (nfx_child fx)))
      else
        probe_bind (skip_all [(''create-child'', NS_CREATE)] ''primary namespace creation did not pass'') (\<lambda>_.
          probe_return (Err ''child create was not attempted'')))"

definition list_top_level ::
  "namespace_lib \<Rightarrow> catalog_routes \<Rightarrow> namespace_fixture \<Rightarrow> bool \<Rightarrow> namespace_facts
   \<Rightarrow> ('w operation_recorder \<times> 'w, namespace_facts) probe" where
  "list_top_level L r fx both_created facts =
     (if both_created then
        probe_bind (attempt (nl_web L) ''list-top-level'' NS_LIST GET (route_namespace_collection (nl_web L) r) None) (\<lambda>listing.
          probe_return (facts\<lparr>nf_list := fact_from_result
            (validate_top_level_listing L listing [nfx_primary fx, nfx_sibling fx])\<rparr>))
      else
        (let reason = ''both top-level namespace creates must pass before listing''
         in probe_bind (skip_all [(''list-top-level'', NS_LIST)] reason) (\<lambda>_.
              probe_return (facts\<lparr>nf_list := FactNotEvaluated reason\<rparr>))))"

definition primary_behavior ::
  "namespace_lib \<Rightarrow> catalog_routes \<Rightarrow> namespace_fixture \<Rightarrow> bool \<Rightarrow> namespace_facts
   \<Rightarrow> ('w operation_recorder \<times> 'w, namespace_facts) probe" where
  "primary_behavior L r fx primary_created facts =
     (if primary_created then
        probe_bind (attempt (nl_web L) ''load-primary'' NS_LOAD GET
                      (route_namespace (nl_web L) r (nfx_primary fx)) None) (\<lambda>load.
        probe_bind (attempt (nl_web L) ''update-primary-properties'' NS_UPDATE POST
                      (route_namespace_properties (nl_web L) r (nfx_primary fx))
                      (Some (JObject [(''removals'', json_string_array [NS_REMOVE_PROPERTY]),
                         (''updates'', JObject [(NS_STATE_PROPERTY, JString ''after'')])]))) (\<lambda>update.
        probe_bind (attempt (nl_web L) ''reload-primary-properties'' NS_UPDATE GET
                      (route_namespace (nl_web L) r (nfx_primary fx)) None) (\<lambda>reload.
        probe_bind (attempt (nl_web L) ''create-primary-duplicate'' NS_DUPLICATE POST
                      (route_namespace_collection (nl_web L) r)
                      (create_namespace_body (nfx_primary fx) primary_properties)) (\<lambda>duplicate.
          probe_return (facts\<lparr>
            nf_load := fact_from_result (and_then (validate_ns_response L load 200 (nfx_primary fx)) (\<lambda>_. Ok ())),
            nf_properties := fact_from_result (validate_property_update L update reload fx),
            nf_duplicate := fact_from_result
              (validate_error_response (nl_error L) duplicate 409 ''AlreadyExistsException'')\<rparr>)))))
      else
        (let reason = ''primary namespace creation did not pass''
         in probe_bind (skip_all [(''load-primary'', NS_LOAD), (''update-primary-properties'', NS_UPDATE),
                (''reload-primary-properties'', NS_UPDATE), (''create-primary-duplicate'', NS_DUPLICATE)] reason) (\<lambda>_.
              probe_return (facts\<lparr>nf_load := FactNotEvaluated reason, nf_properties := FactNotEvaluated reason,
                nf_duplicate := FactNotEvaluated reason\<rparr>))))"

definition list_children ::
  "namespace_lib \<Rightarrow> catalog_routes \<Rightarrow> namespace_fixture \<Rightarrow> bool \<Rightarrow> namespace_facts
   \<Rightarrow> ('w operation_recorder \<times> 'w, namespace_facts) probe" where
  "list_children L r fx child_created facts =
     (if child_created then
        probe_bind (attempt (nl_web L) ''list-primary-children'' NS_HIERARCHY GET
                      (route_namespaces_under (nl_web L) r (nfx_primary fx)) None) (\<lambda>hierarchy.
          probe_return (facts\<lparr>nf_hierarchy := fact_from_result (validate_hierarchy_listing L hierarchy (nfx_child fx))\<rparr>))
      else
        (let reason = ''multipart child creation did not pass''
         in probe_bind (skip_all [(''list-primary-children'', NS_HIERARCHY)] reason) (\<lambda>_.
              probe_return (facts\<lparr>nf_hierarchy := FactNotEvaluated reason\<rparr>))))"

definition paginate_namespaces ::
  "namespace_lib \<Rightarrow> catalog_routes \<Rightarrow> namespace_fixture \<Rightarrow> bool \<Rightarrow> namespace_facts
   \<Rightarrow> ('w operation_recorder \<times> 'w, pagination_transcript \<times> namespace_facts) probe" where
  "paginate_namespaces L r fx both_created facts =
     (if both_created then
        probe_bind (traverse_namespace_pages L r fx) (\<lambda>(pagination, result).
          probe_return (pagination, facts\<lparr>nf_pagination := fact_from_result result\<rparr>))
      else
        (let reason = ''both top-level namespace creates must pass before pagination''
         in probe_bind (skip_all [(''list-page-001'', NS_PAGINATION)] reason) (\<lambda>_.
              probe_return (PaginationNotEvaluated reason, facts\<lparr>nf_pagination := FactNotEvaluated reason\<rparr>))))"

text \<open>What is done to an isolated fixture, up to the cleanup.\<close>

definition namespace_behavior ::
  "namespace_lib \<Rightarrow> catalog_routes \<Rightarrow> namespace_fixture \<Rightarrow> namespace_facts
   \<Rightarrow> ('w operation_recorder \<times> 'w, pagination_transcript \<times> namespace_facts) probe" where
  "namespace_behavior L r fx facts =
     probe_bind (attempt (nl_web L) ''create-primary'' NS_CREATE POST (route_namespace_collection (nl_web L) r)
                   (create_namespace_body (nfx_primary fx) primary_properties)) (\<lambda>primary_create.
     probe_bind (attempt (nl_web L) ''create-sibling'' NS_CREATE POST (route_namespace_collection (nl_web L) r)
                   (create_namespace_body (nfx_sibling fx) [])) (\<lambda>sibling_create.
       let primary_created = validate_ns_response L primary_create 200 (nfx_primary fx);
           sibling_created = validate_ns_response L sibling_create 200 (nfx_sibling fx);
           both_created = (is_ok primary_created \<and> is_ok sibling_created)
       in probe_bind (create_child L r fx (is_ok primary_created)) (\<lambda>child_created.
          probe_bind (list_top_level L r fx both_created (facts\<lparr>nf_create := fact_from_result
                        (all_results [primary_created, sibling_created, child_created])\<rparr>)) (\<lambda>facts2.
          probe_bind (primary_behavior L r fx (is_ok primary_created) facts2) (\<lambda>facts3.
          probe_bind (list_children L r fx (is_ok child_created) facts3) (\<lambda>facts4.
          probe_bind (paginate_namespaces L r fx both_created facts4) (\<lambda>(pagination, facts5).
          probe_bind (probe_missing_parent L r (nfx_missing_parent fx)) (\<lambda>missing.
            probe_return (pagination, facts5\<lparr>nf_missing_parent := fact_from_result missing\<rparr>)))))))))"

definition execute_namespace_workflow ::
  "namespace_lib \<Rightarrow> catalog_routes \<Rightarrow> namespace_fixture \<Rightarrow> namespace_facts
   \<Rightarrow> ('w operation_recorder \<times> 'w, pagination_transcript \<times> namespace_facts) probe" where
  "execute_namespace_workflow L r fx facts =
     probe_bind (preflight_namespaces L r fx) (\<lambda>preflight.
       let isolated = fact_from_result (all_results preflight);
           facts1 = facts\<lparr>nf_fixture_isolated := isolated\<rparr>
       in if \<not> fact_passed isolated then
            (let reason = fact_explanation isolated ''fixture preflight did not pass''
             in probe_bind (skip_all remaining_mutations reason) (\<lambda>_.
                probe_bind (probe_missing_parent L r (nfx_missing_parent fx)) (\<lambda>missing.
                  probe_return (PaginationNotEvaluated reason,
                    (skip_mutating_behavior reason facts1)\<lparr>nf_missing_parent := fact_from_result missing\<rparr>))))
          else
            probe_bind (namespace_behavior L r fx facts1) (\<lambda>(pagination, facts2).
            probe_bind (cleanup_namespaces L r fx) (\<lambda>cleaned.
              probe_return (pagination, facts2\<lparr>nf_cleanup := fact_from_result cleaned\<rparr>))))"

section \<open>The probe\<close>

definition namespace_unsupported ::
  "namespace_lib \<Rightarrow> profile \<Rightarrow> scenario \<Rightarrow> contract_digests \<Rightarrow> probe_target \<Rightarrow> namespace_fixture
   \<Rightarrow> unsupported_adapter_capability \<Rightarrow> string + namespace_transcript" where
  "namespace_unsupported L p s digests target fx l =
     and_then (not_evaluated_config (nl_web L) (target_adapter target) (unsupported_reason l)) (\<lambda>config.
       Ok \<lparr>nst_format = NAMESPACE_TRANSCRIPT_FORMAT, nst_profile = prof_ident p,
           nst_scenario = transcript_scenario_of s, nst_contract_digests = digests,
           nst_adapter = transcript_adapter (target_adapter target) (target_component target),
           nst_fixture = fx, nst_classification = unsupported_classification l,
           nst_authentication = unattempted_authentication (target_adapter target),
           nst_config = config, nst_operations = [],
           nst_pagination = PaginationNotEvaluated (unsupported_reason l),
           nst_assertions = not_evaluated_assertions s (unsupported_reason l),
           nst_sanitization = sanitization_of [] False\<rparr>)"

text \<open>The routes of the negotiated configuration and the workflow on them, or the reason to skip it.\<close>

definition namespace_stage ::
  "namespace_lib \<Rightarrow> probe_target \<Rightarrow> namespace_fixture \<Rightarrow> routing_negotiation
   \<Rightarrow> ('w operation_recorder \<times> 'w, pagination_transcript \<times> namespace_facts) probe" where
  "namespace_stage L target fx routing =
     (let facts = namespace_facts_new (att_failure (neg_authentication routing) = None) (neg_config_routing routing);
          skipped = (\<lambda>reason. probe_return (PaginationNotEvaluated reason, skip_namespace_behavior reason facts))
      in case and_then (ok_or (neg_codec routing) ''namespace routing unavailable after config negotiation'')
                (\<lambda>codec. routes_new (target_adapter target) (rct_prefix (neg_config routing)) codec ''namespace'') of
           Inl error \<Rightarrow> skipped error
         | Inr r \<Rightarrow>
             if fact_passed (neg_config_routing routing) then execute_namespace_workflow L r fx facts
             else skipped (fact_explanation (neg_config_routing routing) ''config routing did not pass''))"

definition namespace_evaluate ::
  "namespace_lib \<Rightarrow> profile \<Rightarrow> scenario \<Rightarrow> contract_digests \<Rightarrow> probe_target \<Rightarrow> namespace_fixture
   \<Rightarrow> routing_negotiation \<Rightarrow> pagination_transcript \<Rightarrow> namespace_facts \<Rightarrow> 'w operation_recorder
   \<Rightarrow> string + namespace_transcript" where
  "namespace_evaluate L p s digests target fx routing pagination facts rcd =
     (let authentication = neg_authentication routing;
          (operations, operation_redactions) = recorder_finish rcd;
          redactions = remdups_adj (sort (neg_redactions routing @ operation_redactions))
      in and_then (encode_evidence (nl_encode L)
                     (att_transcript authentication, neg_config routing, operations, pagination)) (\<lambda>serialized.
           let sanitized = (\<not> contains_sensitive_value serialized (att_sensitive_values authentication));
               assertions = evaluate_namespace_assertions s (facts\<lparr>nf_transcript_sanitized :=
                 fact_from_bool sanitized ''sanitized evidence still contains a sensitive runtime value''\<rparr>)
           in Ok \<lparr>nst_format = NAMESPACE_TRANSCRIPT_FORMAT, nst_profile = prof_ident p,
                nst_scenario = transcript_scenario_of s, nst_contract_digests = digests,
                nst_adapter = transcript_adapter (target_adapter target) (target_component target),
                nst_fixture = fx,
                nst_classification =
                  (if passed_required_assertions assertions then ProbePass
                   else ProbeFail ''one or more required namespace-behavior assertions did not pass''),
                nst_authentication = att_transcript authentication, nst_config = neg_config routing,
                nst_operations = operations, nst_pagination = pagination, nst_assertions = assertions,
                nst_sanitization = sanitization_of redactions (\<not> sanitized)\<rparr>))"

definition run_namespace_probe ::
  "namespace_lib \<Rightarrow> (u64 \<Rightarrow> string + 'w http_client) \<Rightarrow> profile \<Rightarrow> scenario \<Rightarrow> component_id \<Rightarrow> string
   \<Rightarrow> contract_digests \<Rightarrow> (string \<Rightarrow> string option) \<Rightarrow> 'w \<Rightarrow> (string + namespace_transcript) \<times> 'w" where
  "run_namespace_probe L http_client_new p s catalog fixture_id digests getenv w =
     (case and_then (namespace_validate_invocation p s catalog) (\<lambda>_.
           and_then (resolve_target p s catalog) (\<lambda>target.
           and_then (namespace_fixture_new catalog fixture_id) (\<lambda>fx. Ok (target, fx)))) of
        Inl error \<Rightarrow> (Err error, w)
      | Inr (target, fx) \<Rightarrow>
          (case first_required_limitation target s of
             Some l \<Rightarrow> (namespace_unsupported L p s digests target fx l, w)
           | None \<Rightarrow>
               (case http_client_new 30000 of
                  Inl error \<Rightarrow> (Err error, w)
                | Inr client \<Rightarrow>
                    (case negotiate_routing (nl_web L) client (target_adapter target) getenv w of
                       (Inl error, w1) \<Rightarrow> (Err error, w1)
                     | (Inr routing, w1) \<Rightarrow>
                         (case namespace_stage L target fx routing
                                 (recorder_new client (att_bearer_token (neg_authentication routing))
                                    (att_sensitive_values (neg_authentication routing)), w1) of
                            (Inl error, (rcd, w2)) \<Rightarrow> (Err error, w2)
                          | (Inr (pagination, facts), (rcd, w2)) \<Rightarrow>
                              (namespace_evaluate L p s digests target fx routing pagination facts rcd, w2))))))"

end
