(* ===== verification/Conf_Namespace_Run.thy ===== *)
theory Conf_Namespace_Run
  imports Conf_Namespace
begin

text \<open>
  Properties of the namespace probe: the discipline of its requests, the completeness of its
  pagination, and what a passing transcript has established, each with a concrete run.
\<close>

section \<open>What the namespace workflow asks of the catalog\<close>

definition namespace_url :: "namespace_lib \<Rightarrow> catalog_routes \<Rightarrow> namespace_identifier \<Rightarrow> url" where
  "namespace_url L r ns = projr (route_namespace (nl_web L) r ns)"

definition preflight_lines :: "namespace_lib \<Rightarrow> catalog_routes \<Rightarrow> namespace_fixture \<Rightarrow> (http_method \<times> url) list" where
  "preflight_lines L r fx =
     map (\<lambda>ns. (GET, namespace_url L r ns)) [nfx_primary fx, nfx_sibling fx, nfx_child fx]"

definition cleanup_lines :: "namespace_lib \<Rightarrow> catalog_routes \<Rightarrow> namespace_fixture \<Rightarrow> (http_method \<times> url) list" where
  "cleanup_lines L r fx =
     map (\<lambda>ns. (DELETE, namespace_url L r ns)) [nfx_child fx, nfx_sibling fx, nfx_primary fx]
     @ map (\<lambda>ns. (GET, namespace_url L r ns)) [nfx_child fx, nfx_sibling fx, nfx_primary fx]"

text \<open>A request of the work on an isolated fixture: it reads, or it creates or updates a namespace of the fixture.\<close>

definition fixture_request :: "namespace_lib \<Rightarrow> catalog_routes \<Rightarrow> namespace_fixture \<Rightarrow> exchange \<Rightarrow> bool" where
  "fixture_request L r fx x \<longleftrightarrow>
     is_read x
     \<or> (request_line x = (POST, projr (route_namespace_collection (nl_web L) r))
        \<and> (\<exists>ns \<in> {nfx_primary fx, nfx_sibling fx, nfx_child fx}. \<exists>properties.
             rq_body (fst x) = JsonBody (the (create_namespace_body ns properties))))
     \<or> request_line x = (POST, projr (route_namespace_properties (nl_web L) r (nfx_primary fx)))"

lemma preflight_traces:
  assumes "usable (nl_web L) r"
  shows "probe_traces client bearer sens (preflight_namespaces L r fx) (\<lambda>xs res. \<exists>results. res = Ok results
    \<and> map request_line xs = preflight_lines L r fx \<and> (list_all is_ok results \<longrightarrow> list_all (answered [404]) xs))"
  unfolding preflight_namespaces_def split_def
  by (rule rec.traces_weaken, rule attempt_loop_traces
      [where u = "\<lambda>x. namespace_url L r (snd x)" and allowed = "[404]"])
    (use usable_routes(2) [OF assms] in \<open>auto simp: namespace_url_def preflight_lines_def is_ok_def
      intro: answered_error split: sum.splits\<close>)

lemma cleanup_traces:
  assumes "usable (nl_web L) r"
  shows "probe_traces client bearer sens (cleanup_namespaces L r fx) (\<lambda>xs res. \<exists>result. res = Ok result
    \<and> map request_line xs = cleanup_lines L r fx
    \<and> (result = Ok () \<longrightarrow> list_all (answered [204, 404]) (take 3 xs) \<and> list_all (answered [404]) (drop 3 xs)))"
proof -
  have dropped: "probe_traces client bearer sens (drop_namespaces L r fx) (\<lambda>xs res. \<exists>results. res = Ok results
      \<and> (map request_line xs = take 3 (cleanup_lines L r fx) \<and> (list_all is_ok results \<longrightarrow> list_all (answered [204, 404]) xs)))"
    unfolding drop_namespaces_def split_def
    by (rule rec.traces_weaken, rule attempt_loop_traces
        [where u = "\<lambda>x. namespace_url L r (snd x)" and allowed = "[204, 404]"])
      (use usable_routes(2) [OF assms] in \<open>auto simp: namespace_url_def cleanup_lines_def is_ok_def
        intro: answered_status split: sum.splits\<close>)
  have verified: "probe_traces client bearer sens (verify_namespaces_absent L r fx) (\<lambda>xs res. \<exists>results. res = Ok results
      \<and> (map request_line xs = drop 3 (cleanup_lines L r fx) \<and> (list_all is_ok results \<longrightarrow> list_all (answered [404]) xs)))"
    unfolding verify_namespaces_absent_def split_def
    by (rule rec.traces_weaken, rule attempt_loop_traces
        [where u = "\<lambda>x. namespace_url L r (snd x)" and allowed = "[404]"])
      (use usable_routes(2) [OF assms] in \<open>auto simp: namespace_url_def cleanup_lines_def is_ok_def
        intro: answered_status split: sum.splits\<close>)
  have three: "length ys = 3" if "map request_line ys = take 3 (cleanup_lines L r fx)" for ys
    using arg_cong [OF that, of length] by (simp add: cleanup_lines_def)
  show ?thesis
    unfolding cleanup_namespaces_def
    apply (rule rec.traces_seq [OF dropped])
    apply (rule rec.traces_Ok_return)
    apply (rule rec.traces_weaken [OF verified])
    apply (use three append_take_drop_id [of 3 "cleanup_lines L r fx"] in \<open>auto simp del: append_take_drop_id\<close>)
    done
qed

lemma fixture_request_read: "fixture_request L r fx (call_request bearer (ident, capability, GET, u, body, key), answer)"
  by (simp add: fixture_request_def)

lemma fixture_request_create:
  assumes "usable (nl_web L) r" and "ns \<in> {nfx_primary fx, nfx_sibling fx, nfx_child fx}"
  shows "fixture_request L r fx (call_request bearer (ident, capability, POST,
     projr (route_namespace_collection (nl_web L) r), create_namespace_body ns properties, key), answer)"
  using assms(2) by (auto simp: fixture_request_def call_request_def create_namespace_body_def
      request_line_def)

lemma namespace_page_route: "usable (nl_web L) r \<Longrightarrow> is_ok (route_namespace_page (nl_web L) r token PAGE_SIZE)"
  using usable_routes(5) [of "nl_web L" r token PAGE_SIZE] by (metis is_ok_simps(2))

lemma namespace_pages_steady:
  assumes "usable (nl_web L) r"
  shows "probe_steady client bearer sens is_read (traverse_namespace_pages L r fx)"
  unfolding traverse_namespace_pages_def traverse_pages_def
  by (rule page_loop_steady) (rule namespace_page_route [OF assms])

lemma probe_missing_parent_steady:
  assumes "usable (nl_web L) r"
  shows "probe_steady client bearer sens is_read (probe_missing_parent L r ns)"
  unfolding probe_missing_parent_def
  by (auto intro!: rec.steady_bind rec.steady_return attempt_steady usable_routes(4) [OF assms])

lemma fixture_request_update:
  "fixture_request L r fx (call_request bearer (ident, capability, POST,
     projr (route_namespace_properties (nl_web L) r (nfx_primary fx)), body, key), answer)"
  by (simp add: fixture_request_def)

lemma namespace_blocks_steady:
  assumes "usable (nl_web L) r"
  shows "probe_steady client bearer sens (fixture_request L r fx) (create_child L r fx b)"
    and "probe_steady client bearer sens (fixture_request L r fx) (list_top_level L r fx b facts)"
    and "probe_steady client bearer sens (fixture_request L r fx) (primary_behavior L r fx b facts)"
    and "probe_steady client bearer sens (fixture_request L r fx) (list_children L r fx b facts)"
    and "probe_steady client bearer sens (fixture_request L r fx) (paginate_namespaces L r fx b facts)"
    and "probe_steady client bearer sens (fixture_request L r fx) (probe_missing_parent L r ns)"
proof -
  note routes = usable_routes [OF assms]
  note steps = probe_steps fixture_request_read fixture_request_create [OF assms] fixture_request_update
  have read: "is_read x \<Longrightarrow> fixture_request L r fx x" for x by (simp add: fixture_request_def)
  show "probe_steady client bearer sens (fixture_request L r fx) (create_child L r fx b)"
    unfolding create_child_def by (auto intro!: steps routes)
  show "probe_steady client bearer sens (fixture_request L r fx) (list_top_level L r fx b facts)"
    unfolding list_top_level_def Let_def by (auto intro!: steps routes)
  show "probe_steady client bearer sens (fixture_request L r fx) (primary_behavior L r fx b facts)"
    unfolding primary_behavior_def Let_def by (auto intro!: steps routes)
  show "probe_steady client bearer sens (fixture_request L r fx) (list_children L r fx b facts)"
    unfolding list_children_def Let_def by (auto intro!: steps routes)
  show "probe_steady client bearer sens (fixture_request L r fx) (paginate_namespaces L r fx b facts)"
    unfolding paginate_namespaces_def Let_def
    by (auto intro!: rec.steady_bind rec.steady_return skip_all_steady
        steady_mono [OF namespace_pages_steady [OF assms] read] split: prod.splits)
  show "probe_steady client bearer sens (fixture_request L r fx) (probe_missing_parent L r ns)"
    by (rule steady_mono [OF probe_missing_parent_steady [OF assms] read])
qed

lemma create_request_steady:
  assumes "usable (nl_web L) r" and "ns \<in> {nfx_primary fx, nfx_sibling fx, nfx_child fx}"
  shows "probe_steady client bearer sens (fixture_request L r fx)
    (attempt (nl_web L) ident capability POST (route_namespace_collection (nl_web L) r) (create_namespace_body ns properties))"
  by (rule attempt_steady [OF usable_routes(1) [OF assms(1)]]) (rule fixture_request_create [OF assms])

lemma namespace_behavior_steady:
  assumes "usable (nl_web L) r"
  shows "probe_steady client bearer sens (fixture_request L r fx) (namespace_behavior L r fx facts)"
  unfolding namespace_behavior_def Let_def
  by (auto intro!: rec.steady_bind rec.steady_return create_request_steady [OF assms]
      namespace_blocks_steady [OF assms] split: prod.splits)

lemma unusable_preflight:
  assumes "\<not> usable (nl_web L) r"
  shows "\<exists>e. execute_namespace_workflow L r fx facts s = (Err e, s)"
proof -
  obtain e where "route_namespace (nl_web L) r (nfx_primary fx) = Err e"
    using unusable_resource [OF assms] by (force simp: route_namespace_def)
  then show ?thesis
    by (simp add: execute_namespace_workflow_def preflight_namespaces_def probe_bind_def attempt_def probe_try_def)
qed

text \<open>How a namespace workflow ended: on a fixture that was not isolated, or after work and cleanup.\<close>

definition namespace_collision :: "exchange list \<Rightarrow> namespace_facts \<Rightarrow> bool" where
  "namespace_collision xs facts \<longleftrightarrow>
     list_all is_read xs \<and> \<not> fact_passed (nf_fixture_isolated facts) \<and> \<not> fact_passed (nf_create facts)"

definition namespace_completed ::
  "namespace_lib \<Rightarrow> catalog_routes \<Rightarrow> namespace_fixture \<Rightarrow> exchange list \<Rightarrow> namespace_facts \<Rightarrow> bool" where
  "namespace_completed L r fx xs facts \<longleftrightarrow>
     (\<exists>pre work fin. xs = pre @ work @ fin
        \<and> map request_line pre = preflight_lines L r fx \<and> list_all (answered [404]) pre
        \<and> list_all (fixture_request L r fx) work
        \<and> map request_line fin = cleanup_lines L r fx
        \<and> (fact_passed (nf_cleanup facts) \<longrightarrow>
             list_all (answered [204, 404]) (take 3 fin) \<and> list_all (answered [404]) (drop 3 fin)))"

lemma namespace_workflow_traces:
  assumes "usable (nl_web L) r"
  shows "probe_traces client bearer sens (execute_namespace_workflow L r fx facts) (\<lambda>xs res. \<exists>pagination facts'.
    res = Ok (pagination, facts') \<and> (namespace_collision xs facts' \<or> namespace_completed L r fx xs facts'))"
proof -
  let ?Q = "\<lambda>xs res. \<exists>pagination facts'. res = Ok (pagination, facts')
      \<and> (namespace_collision xs facts' \<or> namespace_completed L r fx xs facts')"
  let ?P = "\<lambda>xs results. map request_line xs = preflight_lines L r fx
      \<and> (list_all is_ok results \<longrightarrow> list_all (answered [404]) xs)"
  have reads: "list_all is_read xs" if "map request_line xs = preflight_lines L r fx" for xs
    using arg_cong [OF that, of "list_all (\<lambda>line. fst line = GET)"]
    by (simp add: preflight_lines_def list_all_iff is_read_def request_line_def)
  have aborted: "probe_traces client bearer sens
      (probe_bind (skip_all remaining_mutations reason) (\<lambda>_.
         probe_bind (probe_missing_parent L r (nfx_missing_parent fx)) (\<lambda>missing.
           probe_return (PaginationNotEvaluated reason,
             (skip_mutating_behavior reason (facts\<lparr>nf_fixture_isolated := isolated\<rparr>))\<lparr>nf_missing_parent := fact_from_result missing\<rparr>))))
      (\<lambda>zs res. \<forall>ys. list_all is_read ys \<longrightarrow> ?Q (ys @ zs) res)" if "\<not> fact_passed isolated" for reason isolated
    apply (rule rec.traces_seq [where P = "\<lambda>xs _. xs = []"])
     apply (rule skip_all_traces, simp)
    apply (rule rec.traces_Ok_return)
    apply (rule rec.steady_traces [OF probe_missing_parent_steady [OF assms]])
    apply (use that in \<open>auto simp: namespace_collision_def skip_mutating_behavior_def fact_passed_def\<close>)
    done
  have worked: "probe_traces client bearer sens
      (probe_bind (namespace_behavior L r fx facts1) (\<lambda>(pagination, facts2).
         probe_bind (cleanup_namespaces L r fx) (\<lambda>cleaned.
           probe_return (pagination, facts2\<lparr>nf_cleanup := fact_from_result cleaned\<rparr>))))
      (\<lambda>zs res. \<forall>ys. map request_line ys = preflight_lines L r fx \<and> list_all (answered [404]) ys \<longrightarrow> ?Q (ys @ zs) res)"
    for facts1
    apply (rule rec.traces_seq [where P = "\<lambda>xs _. list_all (fixture_request L r fx) xs"])
     apply (rule rec.steady_traces [OF namespace_behavior_steady [OF assms]], simp)
    apply (simp add: split_def)
    apply (rule rec.traces_Ok_return)
    apply (rule rec.traces_weaken [OF cleanup_traces [OF assms]])
    apply (simp add: namespace_completed_def)
    apply blast
    done
  show ?thesis
    unfolding execute_namespace_workflow_def
  proof (rule rec.traces_seq [OF preflight_traces [OF assms]])
    fix results :: "(string + unit) list"
    let ?isolated = "fact_from_result (all_results results)"
    show "probe_traces client bearer sens
        (let isolated = ?isolated; facts1 = facts\<lparr>nf_fixture_isolated := isolated\<rparr>
         in if \<not> fact_passed isolated then
            (let reason = fact_explanation isolated ''fixture preflight did not pass''
             in probe_bind (skip_all remaining_mutations reason) (\<lambda>_.
                probe_bind (probe_missing_parent L r (nfx_missing_parent fx)) (\<lambda>missing.
                  probe_return (PaginationNotEvaluated reason,
                    (skip_mutating_behavior reason facts1)\<lparr>nf_missing_parent := fact_from_result missing\<rparr>))))
          else
            probe_bind (namespace_behavior L r fx facts1) (\<lambda>(pagination, facts2).
            probe_bind (cleanup_namespaces L r fx) (\<lambda>cleaned.
              probe_return (pagination, facts2\<lparr>nf_cleanup := fact_from_result cleaned\<rparr>))))
        (\<lambda>zs res. \<forall>ys. ?P ys results \<longrightarrow> ?Q (ys @ zs) res)"
    proof (cases "list_all is_ok results")
      case True
      then show ?thesis
        by (simp add: Let_def) (rule rec.traces_weaken [OF worked], blast)
    next
      case False
      then have "\<not> fact_passed ?isolated" by simp
      from aborted [OF this] show ?thesis
        using reads by (simp add: Let_def False) (rule rec.traces_weaken, assumption, blast)
    qed
  qed
qed

text \<open>
  C19. The namespace workflow leaves nothing behind unattended. On routes that are no URLs it stops
  before the first request. Otherwise it always comes to its end, and either the fixture was not
  found absent and it has only read, or it looked for the three namespaces of the fixture and got
  404 for each, then only read, created and updated namespaces of the fixture, and at the end sent the
  three drops and the three reads that verify them; if the cleanup is reported as passed, the drops
  were answered with 204 or 404 and every verifying read with 404.
\<close>

theorem namespace_workflow_discipline:
  assumes "execute_namespace_workflow L r fx facts (recorder_new (logging client) bearer sens, w, entries)
     = (result, (rcd, w', entries'))"
  shows "if usable (nl_web L) r
    then \<exists>xs pagination facts'. entries' = entries @ xs \<and> result = Ok (pagination, facts')
      \<and> (namespace_collision xs facts' \<or> namespace_completed L r fx xs facts')
    else entries' = entries \<and> (\<exists>e. result = Err e)"
proof (cases "usable (nl_web L) r")
  case True
  from rec.traces_elim [OF namespace_workflow_traces [OF True] recorder_new_records assms]
  obtain xs where "exchanges_of (rcd, w', entries')
      = exchanges_of (recorder_new (logging client) bearer sens, w, entries) @ xs"
    "\<exists>pagination facts'. result = Ok (pagination, facts')
      \<and> (namespace_collision xs facts' \<or> namespace_completed L r fx xs facts')" .
  then show ?thesis using True by (auto simp: exchanges_of_def)
next
  case False
  then show ?thesis
    using unusable_preflight [OF False, of fx facts "(recorder_new (logging client) bearer sens, w, entries)"] assms by auto
qed

section \<open>Pagination\<close>

lemma namespace_from_parts_Ok: "namespace_from_parts parts = Ok ns \<Longrightarrow> ns = parts"
  by (auto simp: namespace_from_parts_def split: if_splits)

lemma parse_namespaces_Ok:
  assumes "parse_namespaces namespaces = Ok parsed"
  shows "parsed = sort namespaces \<and> distinct namespaces"
proof -
  obtain identifiers where ids: "try_map namespace_from_parts namespaces = Ok identifiers"
    and parsed: "parsed = sort (remdups identifiers)" "length parsed = length namespaces"
    using assms by (auto simp: parse_namespaces_def and_then_eq_Inr Let_def split: if_splits)
  have "identifiers = namespaces"
    using ids namespace_from_parts_Ok by (auto simp: try_map_eq_Inr list_eq_iff_nth_eq)
  moreover from this parsed have "length (remdups namespaces) = length namespaces" by simp
  then have "distinct namespaces" by (simp add: length_remdups_eq)
  ultimately show ?thesis using parsed by (simp add: distinct_remdups_id)
qed

lemma complete_set_Ok:
  "validate_complete_namespace_set L namespaces expected = Ok () \<longleftrightarrow> set expected \<subseteq> set namespaces"
proof -
  have "find (\<lambda>e. e \<notin> set namespaces) expected = None \<longleftrightarrow> set expected \<subseteq> set namespaces"
    by (auto simp: find_None_iff)
  then show ?thesis by (auto simp: validate_complete_namespace_set_def split: option.splits)
qed

interpretation ns_pages: page_reading "namespace_reader L fx" "\<lambda>namespaces. {nfx_primary fx, nfx_sibling fx} \<subseteq> namespaces"
  for L fx
  by unfold_locales
    (auto simp: namespace_reader_def and_then_eq_Inr complete_set_Ok dest!: parse_namespaces_Ok)

text \<open>The exchanges are a complete traversal of the listing, and the transcript counts them.\<close>

definition namespaces_paged ::
  "namespace_lib \<Rightarrow> catalog_routes \<Rightarrow> string list \<Rightarrow> namespace_fixture \<Rightarrow> exchange list \<Rightarrow> pagination_transcript \<Rightarrow> bool" where
  "namespaces_paged L r sens fx xs pagination \<longleftrightarrow>
     (\<exists>namespaces. paged (nl_web L) (namespace_reader L fx) NS_PAGINATION
          (\<lambda>token. route_namespace_page (nl_web L) r token PAGE_SIZE) sens 1 [] xs namespaces
        \<and> distinct namespaces \<and> {nfx_primary fx, nfx_sibling fx} \<subseteq> set namespaces
        \<and> (pagination = Paginated (length xs) (length namespaces)
           \<or> length xs = 1 \<and> pagination = UnpaginatedFallback (length namespaces)))"

lemma namespace_pages_traces:
  assumes "usable (nl_web L) r"
  shows "probe_traces client bearer sens (traverse_namespace_pages L r fx)
      (\<lambda>xs res. \<exists>pagination result. res = Ok (pagination, result) \<and> length xs \<le> MAXIMUM_PAGES \<and> list_all is_read xs
        \<and> (result = Ok () \<longrightarrow> namespaces_paged L r sens fx xs pagination))"
  unfolding traverse_namespace_pages_def
  by (rule rec.traces_weaken [OF ns_pages.traverse_pages_traces [OF namespace_page_route [OF assms]]])
    (auto simp: pages_complete_def namespaces_paged_def)

text \<open>
  C20. The pagination of the namespace probe always ends, after at most 64 requests, all of them reads.
  When it reports success, the exchanges are a chain that starts without a token, follows each
  answer's token and ends at an answer without one; the namespaces of the pages are pairwise
  different, the two top-level namespaces of the fixture are among them, and the transcript counts
  exactly these pages and namespaces, or says that the catalog answered everything in one page.
\<close>

theorem namespace_pagination_complete:
  assumes "usable (nl_web L) r"
    and "traverse_namespace_pages L r fx (recorder_new (logging client) bearer sens, w, entries)
      = (res, (rcd, w', entries'))"
  shows "\<exists>xs pagination result. entries' = entries @ xs \<and> res = Ok (pagination, result)
    \<and> length xs \<le> MAXIMUM_PAGES \<and> list_all is_read xs
    \<and> (result = Ok () \<longrightarrow> namespaces_paged L r sens fx xs pagination)"
  by (rule rec.traces_elim [OF namespace_pages_traces [OF assms(1)] recorder_new_records assms(2)])
    (auto simp: exchanges_of_def)

section \<open>Witnesses\<close>

text \<open>A catalog that knows no namespace: every request is answered with 404 and an Iceberg error.\<close>

definition empty_catalog :: "unit http_client" where
  "empty_catalog request w =
     (Ok \<lparr>rr_status = 404, rr_headers = Map.empty, rr_content_length = None, rr_chunks = [Ok ''{}'']\<rparr>, ())"

definition demo_namespace_lib :: namespace_lib where
  "demo_namespace_lib =
     \<lparr>nl_web = demo_web, nl_debug_str = id,
      nl_error = (\<lambda>v. Ok \<lparr>ie_message = ''m'', ie_type = ''NoSuchNamespaceException'', ie_code = 404\<rparr>),
      nl_namespace = (\<lambda>v. Err ''namespace''),
      nl_listing = (\<lambda>v. Ok \<lparr>lnr_namespaces = [[''a''], [''b'']], lnr_next_page_token = None\<rparr>),
      nl_update = (\<lambda>v. Err ''update''), nl_encode = (\<lambda>_. Ok [])\<rparr>"

definition demo_routes :: catalog_routes where
  "demo_routes = \<lparr>routes_base_url = ''http://h'', routes_prefix = None, routes_codec = ''.''\<rparr>"

definition demo_namespace_fixture :: namespace_fixture where
  "demo_namespace_fixture = \<lparr>nfx_ident = ''i'', nfx_primary = [''a''], nfx_sibling = [''b''],
     nfx_child = [''a'', ''child''], nfx_missing_parent = [''c'']\<rparr>"

theorem namespace_workflow_discipline_witness:
  "\<exists>rcd xs pagination facts. execute_namespace_workflow demo_namespace_lib demo_routes demo_namespace_fixture
      (namespace_facts_new True FactPass) (recorder_new (logging empty_catalog) None [], (), [])
      = (Ok (pagination, facts), (rcd, (), xs))
    \<and> fact_passed (nf_cleanup facts) \<and> namespace_completed demo_namespace_lib demo_routes demo_namespace_fixture xs facts"
proof -
  let ?run = "execute_namespace_workflow demo_namespace_lib demo_routes demo_namespace_fixture
      (namespace_facts_new True FactPass) (recorder_new (logging empty_catalog) None [], (), [])"
  have "case ?run of (Inl _, _) \<Rightarrow> False | (Inr (pagination, facts), _) \<Rightarrow>
      fact_passed (nf_cleanup facts) \<and> fact_passed (nf_fixture_isolated facts)"
    by code_simp
  then obtain pagination facts rcd xs where run: "?run = (Ok (pagination, facts), (rcd, (), xs))"
    and facts: "fact_passed (nf_cleanup facts)" "fact_passed (nf_fixture_isolated facts)"
    by (cases ?run) (auto split: sum.splits)
  have "usable (nl_web demo_namespace_lib) demo_routes" by code_simp
  then show ?thesis
    using namespace_workflow_discipline [OF run] run facts by (auto simp: namespace_collision_def)
qed

theorem namespace_pagination_complete_witness:
  "\<exists>rcd x. traverse_namespace_pages demo_namespace_lib demo_routes demo_namespace_fixture
      (recorder_new (logging demo_client) None [], 0, []) = (Ok (UnpaginatedFallback 2, Ok ()), (rcd, 1, [x])) \<and> is_read x"
proof -
  let ?run = "traverse_namespace_pages demo_namespace_lib demo_routes demo_namespace_fixture
      (recorder_new (logging demo_client) None [], 0, [])"
  have "case ?run of (res, (rcd, w, xs)) \<Rightarrow> res = Ok (UnpaginatedFallback 2, Ok ()) \<and> w = 1 \<and> length xs = 1"
    by code_simp
  then obtain rcd x where run: "?run = (Ok (UnpaginatedFallback 2, Ok ()), (rcd, 1, [x]))"
    by (auto simp: length_Suc_conv split: prod.splits)
  have "usable (nl_web demo_namespace_lib) demo_routes" by code_simp
  from namespace_pagination_complete [OF this run] run show ?thesis by auto
qed

section \<open>What a passing namespace transcript has established\<close>

definition pagination_shown ::
  "namespace_lib \<Rightarrow> catalog_routes \<Rightarrow> string list \<Rightarrow> namespace_fixture \<Rightarrow> exchange list \<Rightarrow> pagination_transcript \<Rightarrow> bool" where
  "pagination_shown L r sens fx xs pagination \<longleftrightarrow>
     (\<exists>before pages after. xs = before @ pages @ after \<and> namespaces_paged L r sens fx pages pagination)"

lemma pagination_shown_extend:
  "pagination_shown L r sens fx zs pagination \<Longrightarrow> pagination_shown L r sens fx (ys @ zs @ ws) pagination"
  unfolding pagination_shown_def by (metis append.assoc)

definition reports_pagination ::
  "namespace_lib \<Rightarrow> catalog_routes \<Rightarrow> string list \<Rightarrow> namespace_fixture \<Rightarrow> exchange list
   \<Rightarrow> string + pagination_transcript \<times> namespace_facts \<Rightarrow> bool" where
  "reports_pagination L r sens fx xs res \<longleftrightarrow> (\<exists>pagination facts. res = Ok (pagination, facts)
     \<and> (fact_passed (nf_pagination facts) \<longrightarrow> pagination_shown L r sens fx xs pagination))"

lemma reports_pagination_extend:
  "reports_pagination L r sens fx zs res \<Longrightarrow> reports_pagination L r sens fx (ys @ zs) res"
  using pagination_shown_extend [of L r sens fx zs _ ys "[]"] by (auto simp: reports_pagination_def)

lemma reports_pagination_then:
  assumes "probe_traces client bearer sens m (reports_pagination L r sens fx)"
    and "probe_steady client bearer sens P after"
    and "\<And>y facts. nf_pagination (f y facts) = nf_pagination facts"
  shows "probe_traces client bearer sens
    (probe_bind m (\<lambda>(pagination, facts). probe_bind after (\<lambda>y. probe_return (pagination, f y facts))))
    (reports_pagination L r sens fx)"
proof (rule rec.traces_seq
    [where P = "\<lambda>xs (pagination, g). fact_passed (nf_pagination g) \<longrightarrow> pagination_shown L r sens fx xs pagination"])
  fix a :: "pagination_transcript \<times> namespace_facts"
  obtain pagination g where a: "a = (pagination, g)" by force
  show "probe_traces client bearer sens
      (case a of (pagination, facts) \<Rightarrow> probe_bind after (\<lambda>y. probe_return (pagination, f y facts)))
      (\<lambda>zs res. \<forall>ys. (case a of (pagination, g) \<Rightarrow> fact_passed (nf_pagination g)
         \<longrightarrow> pagination_shown L r sens fx ys pagination) \<longrightarrow> reports_pagination L r sens fx (ys @ zs) res)"
    unfolding a prod.case
    by (rule rec.traces_Ok_return, rule rec.steady_traces [OF assms(2)])
      (use pagination_shown_extend [of L r sens fx _ _ "[]"] assms(3) in \<open>auto simp: reports_pagination_def\<close>)
qed (rule rec.traces_weaken [OF assms(1)], auto simp: reports_pagination_def)

lemma paginate_traces:
  assumes "usable (nl_web L) r"
  shows "probe_traces client bearer sens (paginate_namespaces L r fx b facts) (reports_pagination L r sens fx)"
proof (cases b)
  case True
  have shown: "namespaces_paged L r sens fx xs pagination \<Longrightarrow> pagination_shown L r sens fx xs pagination" for xs pagination
    unfolding pagination_shown_def by (metis append_Nil append_Nil2)
  show ?thesis
    unfolding paginate_namespaces_def split_def
    using True by (auto simp: reports_pagination_def intro!: rec.traces_Ok_return rec.traces_weaken [OF namespace_pages_traces [OF assms]] shown)
next
  case False
  then show ?thesis
    unfolding paginate_namespaces_def
    by (auto simp: Let_def fact_passed_def reports_pagination_def intro!: rec.traces_Ok_return skip_all_traces)
qed

lemma namespace_behavior_traces:
  assumes "usable (nl_web L) r"
  shows "probe_traces client bearer sens (namespace_behavior L r fx facts) (reports_pagination L r sens fx)"
proof -
  note extend = reports_pagination_extend [of L r sens fx]
  note blocks = namespace_blocks_steady [OF assms, where fx = fx]
  have create: "probe_steady client bearer sens (fixture_request L r fx) (attempt (nl_web L) ident capability POST
      (route_namespace_collection (nl_web L) r) (create_namespace_body ns properties))"
    if "ns = nfx_primary fx \<or> ns = nfx_sibling fx" for ident capability ns properties
    using create_request_steady [OF assms, of ns fx] that by auto
  show ?thesis
    unfolding namespace_behavior_def Let_def
    by (rule rec.traces_prefix [OF create rec.traces_prefix [OF create
          rec.traces_prefix [OF blocks(1) rec.traces_prefix [OF blocks(2) rec.traces_prefix [OF blocks(3)
          rec.traces_prefix [OF blocks(4) reports_pagination_then [OF paginate_traces [OF assms] blocks(6)]
            extend] extend] extend] extend] extend] extend]) simp_all
qed

lemma namespace_workflow_pagination:
  assumes "usable (nl_web L) r"
  shows "probe_traces client bearer sens (execute_namespace_workflow L r fx facts) (reports_pagination L r sens fx)"
proof -
  note extend = reports_pagination_extend [of L r sens fx]
  have preflight: "probe_steady client bearer sens (\<lambda>x. True) (preflight_namespaces L r fx)"
    unfolding rec.steady_def by (rule rec.traces_weaken [OF preflight_traces [OF assms]]) (auto simp: list_all_iff)
  have cleanup: "probe_steady client bearer sens (\<lambda>x. True) (cleanup_namespaces L r fx)"
    unfolding rec.steady_def by (rule rec.traces_weaken [OF cleanup_traces [OF assms]]) (auto simp: list_all_iff)
  have worked: "probe_traces client bearer sens (probe_bind (namespace_behavior L r fx f) (\<lambda>(pagination, facts2).
      probe_bind (cleanup_namespaces L r fx) (\<lambda>cleaned.
        probe_return (pagination, facts2\<lparr>nf_cleanup := fact_from_result cleaned\<rparr>)))) (reports_pagination L r sens fx)" for f
    by (rule reports_pagination_then [OF namespace_behavior_traces [OF assms] cleanup]) simp
  have aborted: "probe_traces client bearer sens (probe_bind (skip_all remaining_mutations reason) (\<lambda>_.
      probe_bind (probe_missing_parent L r (nfx_missing_parent fx)) (\<lambda>missing.
        probe_return (PaginationNotEvaluated reason,
          (skip_mutating_behavior reason f)\<lparr>nf_missing_parent := fact_from_result missing\<rparr>))))
      (reports_pagination L r sens fx)" for reason f
    by (rule rec.traces_prefix [where Q = "reports_pagination L r sens fx", OF skip_all_steady _ extend], rule rec.traces_Ok_return,
        rule rec.steady_traces [OF probe_missing_parent_steady [OF assms]])
      (auto simp: skip_mutating_behavior_def fact_passed_def reports_pagination_def)
  show ?thesis
    unfolding execute_namespace_workflow_def
    by (rule rec.traces_prefix [where Q = "reports_pagination L r sens fx", OF preflight _ extend]) (auto simp: Let_def intro: worked aborted)
qed

section \<open>The verdict\<close>

definition namespace_facts_hold :: "namespace_facts \<Rightarrow> bool" where
  "namespace_facts_hold facts \<longleftrightarrow> list_all fact_passed
     [nf_authentication facts, nf_config_routing facts, nf_fixture_isolated facts, nf_create facts, nf_list facts,
      nf_load facts, nf_duplicate facts, nf_hierarchy facts, nf_pagination facts, nf_missing_parent facts,
      nf_cleanup facts, nf_transcript_sanitized facts]"

lemma namespace_assertions_hold:
  "list_all (\<lambda>(ident, step, required, check). required \<longrightarrow> fact_outcome (namespace_fact facts check) = APass)
     namespace_assertions \<longleftrightarrow> namespace_facts_hold facts"
  by (simp add: namespace_assertions_def authentication_assertion_def sanitized_assertion_def custom_check_def
      namespace_fact_def namespace_facts_hold_def)

definition with_sanitized :: "bool \<Rightarrow> namespace_facts \<Rightarrow> namespace_facts" where
  "with_sanitized sanitized facts = facts\<lparr>nf_transcript_sanitized :=
     fact_from_bool sanitized ''sanitized evidence still contains a sensitive runtime value''\<rparr>"

lemma namespace_evaluate_verdict:
  assumes "check_assertions ''namespace'' namespace_assertions s = Ok ()"
    and "encode_evidence (nl_encode L) (att_transcript (neg_authentication routing), neg_config routing,
      or_operations rcd, pagination) = Ok serialized"
  obtains t where "namespace_evaluate L p s digests target fx routing pagination facts rcd = Ok t"
    and "nst_fixture t = fx" and "nst_authentication t = att_transcript (neg_authentication routing)"
    and "nst_pagination t = pagination" and "nst_config t = neg_config routing" and "nst_operations t = or_operations rcd"
    and "namespace_transcript_passed t \<longleftrightarrow> namespace_facts_hold (with_sanitized
      (\<not> contains_sensitive_value serialized (att_sensitive_values (neg_authentication routing))) facts)"
proof -
  let ?facts = "with_sanitized
      (\<not> contains_sensitive_value serialized (att_sensitive_values (neg_authentication routing))) facts"
  obtain t where t: "namespace_evaluate L p s digests target fx routing pagination facts rcd = Ok t"
      "nst_fixture t = fx" "nst_authentication t = att_transcript (neg_authentication routing)"
      "nst_pagination t = pagination" "nst_config t = neg_config routing" "nst_operations t = or_operations rcd"
      "namespace_transcript_passed t \<longleftrightarrow> passed_required_assertions (evaluate_namespace_assertions s ?facts)"
    using assms(2)
    by (simp add: namespace_evaluate_def recorder_finish_def namespace_transcript_passed_def with_sanitized_def Let_def)
  have "namespace_transcript_passed t \<longleftrightarrow> namespace_facts_hold ?facts"
    unfolding t(7) evaluate_namespace_assertions_def
    using passed_required_expected [OF assms(1), where outcome = "\<lambda>c. fact_outcome (namespace_fact ?facts c)"]
    by (simp add: namespace_assertions_hold [unfolded fact_outcome_APass])
  with that t show ?thesis by simp
qed

lemma namespace_evaluate_passed:
  assumes "check_assertions ''namespace'' namespace_assertions s = Ok ()"
    and evaluated: "namespace_evaluate L p s digests target fx routing pagination facts rcd = Ok t"
    and "namespace_transcript_passed t"
  obtains serialized where "nst_fixture t = fx" and "nst_authentication t = att_transcript (neg_authentication routing)"
    and "nst_pagination t = pagination"
    and "encode_evidence (nl_encode L) (nst_authentication t, nst_config t, nst_operations t, nst_pagination t) = Ok serialized"
    and "\<not> contains_sensitive_value serialized (att_sensitive_values (neg_authentication routing))"
    and "fact_passed (nf_fixture_isolated facts)"
    and "fact_passed (nf_pagination facts)" and "fact_passed (nf_cleanup facts)"
proof -
  obtain serialized where ser: "encode_evidence (nl_encode L)
      (att_transcript (neg_authentication routing), neg_config routing, or_operations rcd, pagination) = Ok serialized"
    using evaluated by (auto simp: namespace_evaluate_def recorder_finish_def Let_def and_then_eq_Inr)
  from namespace_evaluate_verdict [OF assms(1) ser, of p digests target fx facts] evaluated assms(3)
  have t: "nst_fixture t = fx" "nst_authentication t = att_transcript (neg_authentication routing)"
      "nst_pagination t = pagination" "nst_config t = neg_config routing" "nst_operations t = or_operations rcd"
      "namespace_facts_hold (with_sanitized
        (\<not> contains_sensitive_value serialized (att_sensitive_values (neg_authentication routing))) facts)"
    by (metis Inr_inject)+
  from t(6) have "\<not> contains_sensitive_value serialized (att_sensitive_values (neg_authentication routing))"
      "fact_passed (nf_fixture_isolated facts)" "fact_passed (nf_pagination facts)" "fact_passed (nf_cleanup facts)"
    by (auto simp: namespace_facts_hold_def with_sanitized_def fact_from_bool_def fact_passed_def split: if_splits)
  with that t ser show ?thesis by simp
qed

lemma namespace_stage_passed:
  assumes "namespace_stage L target fx routing (recorder_new (logging client) bearer sens, w, entries)
      = (Ok (pagination, facts), (rcd, w', entries'))"
    and "fact_passed (nf_fixture_isolated facts)"
  obtains r codec xs where "fact_passed (neg_config_routing routing)" and "entries' = entries @ xs"
    and "neg_codec routing = Some codec"
    and "routes_new (target_adapter target) (rct_prefix (neg_config routing)) codec ''namespace'' = Ok r"
    and "namespace_completed L r fx xs facts" and "reports_pagination L r sens fx xs (Ok (pagination, facts))"
proof -
  obtain r codec where passed: "fact_passed (neg_config_routing routing)" and codec: "neg_codec routing = Some codec"
    and routes: "routes_new (target_adapter target) (rct_prefix (neg_config routing)) codec ''namespace'' = Ok r"
    and run: "execute_namespace_workflow L r fx
        (namespace_facts_new (att_failure (neg_authentication routing) = None) (neg_config_routing routing))
        (recorder_new (logging client) bearer sens, w, entries) = (Ok (pagination, facts), (rcd, w', entries'))"
    using assms
    by (auto simp: namespace_stage_def Let_def probe_return_def skip_namespace_behavior_def and_then_eq_Inr ok_or_def
        skip_mutating_behavior_def fact_passed_def split: sum.splits if_splits option.splits)
  have usable: "usable (nl_web L) r"
  proof (rule ccontr)
    assume "\<not> usable (nl_web L) r"
    from unusable_preflight [OF this, of fx
        "namespace_facts_new (att_failure (neg_authentication routing) = None) (neg_config_routing routing)"
        "(recorder_new (logging client) bearer sens, w, entries)"] run
    show False by auto
  qed
  from rec.traces_elim [OF rec.traces_conj [OF namespace_workflow_traces [OF usable]
        namespace_workflow_pagination [OF usable]] recorder_new_records run]
  obtain xs where "exchanges_of (rcd, w', entries') = exchanges_of (recorder_new (logging client) bearer sens, w, entries) @ xs"
    "namespace_collision xs facts \<or> namespace_completed L r fx xs facts"
    "reports_pagination L r sens fx xs (Ok (pagination, facts))"
    by auto
  with that passed codec routes assms(2) show ?thesis by (auto simp: exchanges_of_def namespace_collision_def)
qed

text \<open>
  C18. What a passing namespace transcript has established, whatever the catalog does: the catalog
  authenticated the run; on the routes negotiated with it, the namespaces of the fixture were all
  absent before anything was changed; then only namespaces of this fixture were created or updated;
  the pages of the listing were complete and without duplicates; at the end the fixture was dropped
  and every one of its namespaces was answered with 404. The serialized evidence contains none of the
  credentials of the run: not the client identifier and secret that the environment held for the
  adapter and not the token issued for them, as far as they have at least four bytes.
\<close>

theorem namespace_probe_pass_sound:
  assumes "run_namespace_probe L (\<lambda>_. Ok (logging client)) p s catalog fixture_id digests getenv (w, [])
      = (Ok t, (w', entries))"
    and "namespace_transcript_passed t"
  shows "\<exists>target routing w1 fx r codec sens negotiation pre work fin serialized.
    resolve_target p s catalog = Ok target
    \<and> negotiate_routing (nl_web L) (logging client) (target_adapter target) getenv (w, []) = (Ok routing, (w1, negotiation))
    \<and> sens = att_sensitive_values (neg_authentication routing) \<and> neg_codec routing = Some codec
    \<and> routes_new (target_adapter target) (rct_prefix (neg_config routing)) codec ''namespace'' = Ok r
    \<and> namespace_fixture_new catalog fixture_id = Ok fx \<and> nst_fixture t = fx
    \<and> at_outcome (nst_authentication t) = AuthReady
    \<and> entries = negotiation @ pre @ work @ fin
    \<and> map request_line pre = preflight_lines L r fx \<and> list_all (answered [404]) pre
    \<and> list_all (fixture_request L r fx) work \<and> pagination_shown L r sens fx (pre @ work @ fin) (nst_pagination t)
    \<and> map request_line fin = cleanup_lines L r fx
    \<and> list_all (answered [204, 404]) (take 3 fin) \<and> list_all (answered [404]) (drop 3 fin)
    \<and> encode_evidence (nl_encode L) (nst_authentication t, nst_config t, nst_operations t, nst_pagination t) = Ok serialized
    \<and> withholds_credentials (target_adapter target) getenv (att_bearer_token (neg_authentication routing)) serialized"
proof -
  obtain target fx where policy: "namespace_validate_invocation p s catalog = Ok ()"
    and target: "resolve_target p s catalog = Ok target" and fx: "namespace_fixture_new catalog fixture_id = Ok fx"
    using assms(1)
    by (auto simp: run_namespace_probe_def and_then_eq_Inr and_then_def split: sum.splits)
  note run = assms(1) [unfolded run_namespace_probe_def policy target fx, simplified]
  have checked: "check_assertions ''namespace'' namespace_assertions s = Ok ()"
    using policy by (auto simp: namespace_validate_invocation_def check_invocation_def namespace_scenario_policy_def
        and_then_eq_Inr split: if_splits)
  have "first_required_limitation target s = None"
    using run assms(2)
    by (auto simp: namespace_unsupported_def unsupported_classification_def namespace_transcript_passed_def
        and_then_eq_Inr split: option.splits)
  with run obtain routing w1 entries1 pagination facts rcd where
      routing: "negotiate_routing (nl_web L) (logging client) (target_adapter target) getenv (w, []) = (Ok routing, (w1, entries1))"
    and stage: "namespace_stage L target fx routing (recorder_new (logging client)
        (att_bearer_token (neg_authentication routing)) (att_sensitive_values (neg_authentication routing)), w1, entries1)
      = (Ok (pagination, facts), (rcd, w', entries))"
    and evaluated: "namespace_evaluate L p s digests target fx routing pagination facts rcd = Ok t"
    by (auto split: sum.splits prod.splits)
  from namespace_evaluate_passed [OF checked evaluated assms(2)] obtain serialized where
      t: "nst_fixture t = fx" "nst_authentication t = att_transcript (neg_authentication routing)" "nst_pagination t = pagination"
        "encode_evidence (nl_encode L) (nst_authentication t, nst_config t, nst_operations t, nst_pagination t) = Ok serialized"
        "\<not> contains_sensitive_value serialized (att_sensitive_values (neg_authentication routing))"
    and facts: "fact_passed (nf_fixture_isolated facts)" "fact_passed (nf_pagination facts)" "fact_passed (nf_cleanup facts)"
    by metis
  from namespace_stage_passed [OF stage facts(1)] obtain r codec xs where
      ready: "fact_passed (neg_config_routing routing)" and entries: "entries = entries1 @ xs"
    and routes: "neg_codec routing = Some codec"
        "routes_new (target_adapter target) (rct_prefix (neg_config routing)) codec ''namespace'' = Ok r"
    and done_all: "namespace_completed L r fx xs facts"
    and shown: "reports_pagination L r (att_sensitive_values (neg_authentication routing)) fx xs (Ok (pagination, facts))"
    by metis
  note authenticated = negotiate_routing_passed [OF routing ready]
  obtain pre work fin where xs: "xs = pre @ work @ fin" "map request_line pre = preflight_lines L r fx"
      "list_all (answered [404]) pre" "list_all (fixture_request L r fx) work" "map request_line fin = cleanup_lines L r fx"
      "list_all (answered [204, 404]) (take 3 fin)" "list_all (answered [404]) (drop 3 fin)"
    using done_all facts(3) by (auto simp: namespace_completed_def)
  have pages: "pagination_shown L r (att_sensitive_values (neg_authentication routing)) fx xs (nst_pagination t)"
    using shown facts(2) t(3) by (auto simp: reports_pagination_def)
  show ?thesis
    apply (rule exI [of _ target], rule exI [of _ routing], rule exI [of _ w1], rule exI [of _ fx], rule exI [of _ r],
        rule exI [of _ codec], rule exI [of _ "att_sensitive_values (neg_authentication routing)"],
        rule exI [of _ entries1], rule exI [of _ pre], rule exI [of _ work], rule exI [of _ fin], rule exI [of _ serialized])
    using target routing routes fx t(1,4) entries xs pages negotiate_routing_ready [OF routing authenticated]
      credentials_withheld [OF routing authenticated t(5)]
    unfolding t(2) by simp
qed

definition known_namespace :: "json \<Rightarrow> string + namespace_response" where
  "known_namespace v =
     (if v = JString ''p'' then Ok \<lparr>nsr_namespace = [''cb_c104_cat_x_a''], nsr_properties = None\<rparr>
      else if v = JString ''s'' then Ok \<lparr>nsr_namespace = [''cb_c104_cat_x_b''], nsr_properties = None\<rparr>
      else if v = JString ''c'' then Ok \<lparr>nsr_namespace = [''cb_c104_cat_x_a'', ''child''], nsr_properties = None\<rparr>
      else Err ''namespace'')"

definition scripted_lib :: namespace_lib where
  "scripted_lib =
     \<lparr>nl_web = text_web, nl_debug_str = id,
      nl_error = (\<lambda>v. Ok (if v = JString ''dup''
        then \<lparr>ie_message = ''m'', ie_type = ''AlreadyExistsException'', ie_code = 409\<rparr>
        else \<lparr>ie_message = ''m'', ie_type = ''NoSuchNamespaceException'', ie_code = 404\<rparr>)),
      nl_namespace = known_namespace,
      nl_listing = (\<lambda>v. Ok \<lparr>lnr_namespaces =
          (if v = JString ''kids'' then [[''cb_c104_cat_x_a'', ''child'']] else [[''cb_c104_cat_x_a''], [''cb_c104_cat_x_b'']]),
        lnr_next_page_token = None\<rparr>),
      nl_update = (\<lambda>v. Err ''update''), nl_encode = (\<lambda>_. Ok ''evidence'')\<rparr>"

definition namespace_script :: "(u16 \<times> string) list" where
  "namespace_script =
     [(200, ''config''), (404, ''no''), (404, ''no''), (404, ''no''), (200, ''p''), (200, ''s''), (200, ''c''),
      (200, ''top''), (200, ''p''), (404, ''no''), (200, ''p''), (409, ''dup''), (200, ''kids''), (200, ''top''),
      (404, ''no''), (204, ''ok''), (204, ''ok''), (204, ''ok''), (404, ''no''), (404, ''no''), (404, ''no'')]"

definition namespace_demo_stage ::
  "((string + pagination_transcript \<times> namespace_facts)
    \<times> (nat \<times> exchange list) operation_recorder \<times> nat \<times> exchange list) option" where
  "namespace_demo_stage =
     (case (namespace_fixture_new ''cat'' ''x'',
            negotiate_routing text_web (logging (scripted namespace_script)) (target_adapter probing_target)
              Map.empty (0, [])) of
        (Inr fx, (Inr routing, w1)) \<Rightarrow>
          Some (namespace_stage scripted_lib probing_target fx routing
            (recorder_new (logging (scripted namespace_script)) (att_bearer_token (neg_authentication routing))
               (att_sensitive_values (neg_authentication routing)), w1))
      | _ \<Rightarrow> None)"

lemma namespace_demo_stage_passes:
  "case namespace_demo_stage of Some (Inr (pagination, facts), _) \<Rightarrow> namespace_facts_hold (with_sanitized True facts)
   | _ \<Rightarrow> False"
  by code_simp

definition namespace_scenario :: scenario where
  "namespace_scenario =
     policy_scenario NAMESPACE_SCENARIO_ID namespace_parameters namespace_capabilities namespace_steps namespace_assertions"

lemma namespace_scenario_accepted:
  "namespace_validate_invocation (probing_profile namespace_capabilities) namespace_scenario ''cat'' = Ok ()"
  "resolve_target (probing_profile namespace_capabilities) namespace_scenario ''cat'' = Ok probing_target"
  "check_assertions ''namespace'' namespace_assertions namespace_scenario = Ok ()"
  by (simp_all add: namespace_validate_invocation_def check_invocation_def namespace_scenario_policy_def
      namespace_scenario_def policy_scenario_checked probing_target_resolved)

theorem namespace_probe_pass_sound_witness:
  "\<exists>t w entries. run_namespace_probe scripted_lib (\<lambda>_. Ok (logging (scripted namespace_script)))
      (probing_profile namespace_capabilities) namespace_scenario ''cat'' ''x'' demo_digests Map.empty (0, [])
      = (Ok t, (w, entries)) \<and> namespace_transcript_passed t \<and> at_outcome (nst_authentication t) = AuthReady"
proof -
  let ?client = "logging (scripted namespace_script)"
  let ?run = "run_namespace_probe scripted_lib (\<lambda>_. Ok ?client)
      (probing_profile namespace_capabilities) namespace_scenario ''cat'' ''x'' demo_digests Map.empty (0, [])"
  from namespace_demo_stage_passes obtain fx routing w1 entries1 pagination facts rcd w2 entries2 where
      fx: "namespace_fixture_new ''cat'' ''x'' = Ok fx"
    and routing: "negotiate_routing text_web ?client (target_adapter probing_target) Map.empty (0, []) = (Ok routing, (w1, entries1))"
    and stage: "namespace_stage scripted_lib probing_target fx routing (recorder_new ?client
        (att_bearer_token (neg_authentication routing)) (att_sensitive_values (neg_authentication routing)), (w1, entries1))
        = (Ok (pagination, facts), (rcd, (w2, entries2)))"
    and facts: "namespace_facts_hold (with_sanitized True facts)"
    by (auto simp: namespace_demo_stage_def split: sum.splits prod.splits)
  have anonymous: "att_sensitive_values (neg_authentication routing) = []"
    using routing
    by (auto simp: negotiate_routing_def routing_of_capture_def acquire_authentication_def probing_target_def
        demo_adapter_def Let_def split: sum.splits prod.splits)
  have encoded: "encode_evidence (nl_encode scripted_lib) evidence = Ok (''evidence'' @ [CHR 0x0A])" for evidence
    by (simp add: encode_evidence_def scripted_lib_def)
  obtain t where evaluated: "namespace_evaluate scripted_lib (probing_profile namespace_capabilities) namespace_scenario
        demo_digests probing_target fx routing pagination facts rcd = Ok t" and passed: "namespace_transcript_passed t"
    using namespace_evaluate_verdict [OF namespace_scenario_accepted(3) encoded, where routing = routing
        and rcd = rcd and pagination = pagination and p = "probing_profile namespace_capabilities"
        and digests = demo_digests and target = probing_target and fx = fx and facts = facts] facts
    by (auto simp: anonymous contains_sensitive_value_def)
  have web: "nl_web scripted_lib = text_web" by (simp add: scripted_lib_def)
  have run: "?run = (Ok t, (w2, entries2))"
    using fx routing stage evaluated
    by (simp add: run_namespace_probe_def namespace_scenario_accepted(1,2) probing_target_unlimited web)
  from namespace_probe_pass_sound [OF run passed] run passed show ?thesis by blast
qed

end
