(* ===== verification/Conf_Table_Protocol.thy ===== *)
theory Conf_Table_Protocol
  imports Conf_Trace
begin

text \<open>
  What the table and the commit probe share (\<open>crates/conformance/src/table_protocol.rs\<close>): the
  locations of new tables, the body of a create request, and the snapshot of a table in a load
  response. An \<open>i32\<close> is an integer here: it is decoded, compared and printed, never computed with.
  A \<open>BTreeMap\<close> of strings is an association list in key order.
\<close>

section \<open>Locations\<close>

type_synonym table_create_locations = "url option"

definition create_locations_new :: "web_lib \<Rightarrow> string option \<Rightarrow> string + table_create_locations" where
  "create_locations_new lib root_text =
     (case root_text of
        None \<Rightarrow> Ok None
      | Some text \<Rightarrow>
          and_then (map_err (\<lambda>_. ''parse adapter create-table location root'') (wl_url_parse lib text)) (\<lambda>u.
            if wl_cannot_be_a_base lib u then
              Err ''adapter create-table location root cannot contain child table locations''
            else Ok (Some u)))"

definition location_for_table ::
  "web_lib \<Rightarrow> table_create_locations \<Rightarrow> namespace_identifier \<Rightarrow> string \<Rightarrow> string + string option" where
  "location_for_table lib locations ns name =
     (case locations of
        None \<Rightarrow> Ok None
      | Some u \<Rightarrow>
          if wl_cannot_be_a_base lib u then
            Err ''adapter create-table location root cannot contain path segments''
          else Ok (Some (wl_url_to_string lib
                 (fold (wl_push_segment lib) (ns @ [name]) (wl_pop_if_empty lib u)))))"

definition committed_table_request ::
  "string \<Rightarrow> string option \<Rightarrow> json \<Rightarrow> string_map \<Rightarrow> json" where
  "committed_table_request name location schema properties =
     JObject ((case location of None \<Rightarrow> [] | Some l \<Rightarrow> [(''location'', JString l)])
       @ [(''name'', JString name),
          (''properties'', JObject (map (\<lambda>(k, v). (k, JString v)) properties)),
          (''schema'', schema), (''stage-create'', JBool False)])"

section \<open>Snapshots\<close>

record table_field =
  tfd_ident :: int
  tfd_name :: string
  tfd_required :: bool
  tfd_type :: json

record table_schema =
  tsm_type :: string
  tsm_schema_id :: "int option"
  tsm_fields :: "table_field list"

record probe_table_metadata =
  tmd_format_version :: u8
  tmd_table_uuid :: string
  tmd_location :: string
  tmd_last_column_id :: "int option"
  tmd_properties :: string_map
  tmd_schemas :: "table_schema list"
  tmd_current_schema_id :: "int option"

record probe_load_result =
  ltr_metadata_location :: "string option"
  ltr_metadata :: probe_table_metadata

record probe_table_snapshot =
  pts_metadata_location :: string
  pts_location :: string
  pts_uuid :: string
  pts_schema :: table_schema
  pts_last_column_id :: "int option"
  pts_properties :: string_map

definition show_i32 :: "int \<Rightarrow> string" where
  "show_i32 i = (if i < 0 then ''-'' @ show_nat (nat (- i)) else show_nat (nat i))"

definition current_schema :: "probe_table_metadata \<Rightarrow> string + table_schema" where
  "current_schema metadata =
     (case tmd_current_schema_id metadata of
        Some current \<Rightarrow>
          ok_or (find (\<lambda>schema. tsm_schema_id schema = Some current) (tmd_schemas metadata))
            (''current-schema-id '' @ show_i32 current @ '' has no matching schema'')
      | None \<Rightarrow>
          (case tmd_schemas metadata of
             [schema] \<Rightarrow> Ok schema
           | _ \<Rightarrow> Err ''table metadata omitted an unambiguous current schema''))"

definition snapshot_of_result :: "probe_load_result \<Rightarrow> string + probe_table_snapshot" where
  "snapshot_of_result response =
     (let metadata = ltr_metadata response
      in and_then (ok_or (Option.bind (ltr_metadata_location response)
                     (\<lambda>location. if trim location = [] then None else Some location))
                   ''committed table response omitted a nonempty metadata-location'') (\<lambda>metadata_location.
         if \<not> (1 \<le> tmd_format_version metadata \<and> tmd_format_version metadata \<le> 3) then
           Err (''table format version '' @ show_word (tmd_format_version metadata) @ '' is outside 1..=3'')
         else if trim (tmd_table_uuid metadata) = [] then Err ''table metadata returned an empty table-uuid''
         else if trim (tmd_location metadata) = [] then Err ''table metadata returned an empty location''
         else
           and_then (current_schema metadata) (\<lambda>schema.
             Ok \<lparr>pts_metadata_location = metadata_location, pts_location = tmd_location metadata,
                 pts_uuid = tmd_table_uuid metadata, pts_schema = schema,
                 pts_last_column_id = tmd_last_column_id metadata,
                 pts_properties = tmd_properties metadata\<rparr>)))"

definition parse_table_snapshot ::
  "probe_load_result decoder \<Rightarrow> observation \<Rightarrow> u16 \<Rightarrow> string + probe_table_snapshot" where
  "parse_table_snapshot decode observation status =
     and_then (parse_json_response decode observation status) snapshot_of_result"

definition validate_same_table_snapshot ::
  "probe_table_snapshot \<Rightarrow> probe_table_snapshot \<Rightarrow> string + unit" where
  "validate_same_table_snapshot expected actual =
     (if pts_uuid actual \<noteq> pts_uuid expected then
        Err (''table UUID '' @ quoted (pts_uuid actual) @ '' does not match '' @ quoted (pts_uuid expected))
      else if pts_metadata_location actual \<noteq> pts_metadata_location expected then
        Err (''metadata location '' @ quoted (pts_metadata_location actual) @ '' does not match ''
             @ quoted (pts_metadata_location expected))
      else if pts_location actual \<noteq> pts_location expected then
        Err (''table location '' @ quoted (pts_location actual) @ '' does not match '' @ quoted (pts_location expected))
      else if pts_schema actual \<noteq> pts_schema expected then Err ''current table schema changed unexpectedly''
      else Ok ())"

definition validate_created_namespace ::
  "(string \<Rightarrow> string) \<Rightarrow> string list decoder \<Rightarrow> observation \<Rightarrow> namespace_identifier \<Rightarrow> string + unit" where
  "validate_created_namespace debug_str decode observation expected =
     and_then (parse_json_response decode observation 200) (\<lambda>parts.
     and_then (namespace_from_parts parts) (\<lambda>actual.
       if actual = expected then Ok ()
       else Err (''response namespace '' @ debug_list debug_str actual @ '' does not match ''
                 @ debug_list debug_str expected)))"

section \<open>What a parsed snapshot has\<close>

text \<open>
  A parsed snapshot names a metadata file, a table UUID and a location, and its schema is the one
  the metadata calls current, or the only one.
\<close>

definition snapshot_sound :: "probe_load_result \<Rightarrow> probe_table_snapshot \<Rightarrow> bool" where
  "snapshot_sound response snapshot \<longleftrightarrow>
     ltr_metadata_location response = Some (pts_metadata_location snapshot)
     \<and> trim (pts_metadata_location snapshot) \<noteq> [] \<and> trim (pts_uuid snapshot) \<noteq> []
     \<and> trim (pts_location snapshot) \<noteq> []
     \<and> tmd_format_version (ltr_metadata response) \<in> {1, 2, 3}
     \<and> pts_schema snapshot \<in> set (tmd_schemas (ltr_metadata response))
     \<and> (case tmd_current_schema_id (ltr_metadata response) of
          Some current \<Rightarrow> tsm_schema_id (pts_schema snapshot) = Some current
        | None \<Rightarrow> tmd_schemas (ltr_metadata response) = [pts_schema snapshot])"

lemma u8_between_1_3: "1 \<le> (x :: u8) \<Longrightarrow> x \<le> 3 \<Longrightarrow> x \<in> {1, 2, 3}"
proof -
  assume "1 \<le> x" "x \<le> 3"
  then have "unat x = 1 \<or> unat x = 2 \<or> unat x = 3" by (simp add: word_le_nat_alt) linarith
  then show ?thesis by (auto simp: word_unat_eq_iff)
qed

lemma current_schema_Ok:
  assumes "current_schema metadata = Ok schema"
  shows "schema \<in> set (tmd_schemas metadata)
    \<and> (case tmd_current_schema_id metadata of Some current \<Rightarrow> tsm_schema_id schema = Some current
       | None \<Rightarrow> tmd_schemas metadata = [schema])"
  using assms
  by (auto simp: current_schema_def find_Some_iff split: option.splits list.splits)

lemma snapshot_of_result_sound:
  assumes "snapshot_of_result response = Ok snapshot"
  shows "snapshot_sound response snapshot"
  using assms current_schema_Ok [of "ltr_metadata response"] u8_between_1_3
  by (auto simp: snapshot_of_result_def snapshot_sound_def Let_def and_then_eq_Inr
      split: if_splits option.splits bind_splits)

end
