(* ===== verification/Conf_Table.thy ===== *)
theory Conf_Table
  imports Conf_Table_Protocol Conf_Pagination
begin

text \<open>
  The table probe (\<open>crates/conformance/src/table/\<close>): fixture (\<open>fixture.rs\<close>), scenario policy
  (\<open>policy.rs\<close>), facts and the whole probe (\<open>mod.rs\<close>), and the workflow on the catalog
  (\<open>workflow.rs\<close>). The pagination is the one of \<open>Conf_Pagination\<close>; its transcript has the same four
  modes as that of the namespace probe.
\<close>

section \<open>Data\<close>

definition TABLE_TRANSCRIPT_FORMAT :: string where
  "TABLE_TRANSCRIPT_FORMAT = ''catalog-bench/table-transcript/v1''"

definition TABLE_SCENARIO_ID :: string where
  "TABLE_SCENARIO_ID = ''iceberg-rest.table.behavior''"

definition TB_CREATE :: string where "TB_CREATE = ''iceberg-rest.table.create''"
definition TB_LIST :: string where "TB_LIST = ''iceberg-rest.table.list''"
definition TB_LOAD :: string where "TB_LOAD = ''iceberg-rest.table.load''"
definition TB_REGISTER :: string where "TB_REGISTER = ''iceberg-rest.table.register''"
definition TB_RENAME :: string where "TB_RENAME = ''iceberg-rest.table.rename''"
definition TB_UPDATE :: string where "TB_UPDATE = ''iceberg-rest.table.update''"
definition TB_DROP :: string where "TB_DROP = ''iceberg-rest.table.drop''"
definition TB_NAMESPACE_CREATE :: string where "TB_NAMESPACE_CREATE = ''iceberg-rest.namespace.create''"
definition TB_NAMESPACE_LOAD :: string where "TB_NAMESPACE_LOAD = ''iceberg-rest.namespace.load''"
definition TB_NAMESPACE_DROP :: string where "TB_NAMESPACE_DROP = ''iceberg-rest.namespace.drop''"
definition TB_ERROR_SHAPE :: string where "TB_ERROR_SHAPE = ''iceberg-rest.error.spec-shape''"

definition TB_OWNER_PROPERTY :: string where "TB_OWNER_PROPERTY = ''catalog-bench.owner''"
definition TB_REMOVE_PROPERTY :: string where "TB_REMOVE_PROPERTY = ''c1-05.remove''"
definition TB_STATE_PROPERTY :: string where "TB_STATE_PROPERTY = ''c1-05.state''"

datatype table_identifier = TableIdentifier (tid_namespace: namespace_identifier) (tid_name: string)

text \<open>The derived order of the identifiers: by namespace, then by name.\<close>

instantiation table_identifier :: linorder
begin

definition less_eq_table_identifier :: "table_identifier \<Rightarrow> table_identifier \<Rightarrow> bool" where
  "x \<le> y \<longleftrightarrow> tid_namespace x < tid_namespace y \<or> tid_namespace x = tid_namespace y \<and> tid_name x \<le> tid_name y"

definition less_table_identifier :: "table_identifier \<Rightarrow> table_identifier \<Rightarrow> bool" where
  "x < y \<longleftrightarrow> tid_namespace x < tid_namespace y \<or> tid_namespace x = tid_namespace y \<and> tid_name x < tid_name y"

instance
  by standard
    (auto simp: less_eq_table_identifier_def less_table_identifier_def intro: table_identifier.expand)

end

definition table_identifier_new :: "namespace_identifier \<Rightarrow> string \<Rightarrow> string + table_identifier" where
  "table_identifier_new ns name =
     (if name = [] \<or> CHR ''/'' \<in> set name then Err ''table names must be nonempty path-segment values''
      else Ok (TableIdentifier ns name))"

record table_fixture =
  tfx_ident :: string
  tfx_namespace :: namespace_identifier
  tfx_missing_namespace :: namespace_identifier
  tfx_primary :: table_identifier
  tfx_sibling :: table_identifier
  tfx_renamed :: table_identifier
  tfx_registered :: table_identifier
  tfx_missing :: table_identifier

definition table_fixture_new :: "component_id \<Rightarrow> string \<Rightarrow> string + table_fixture" where
  "table_fixture_new catalog ident =
     and_then (fixture_stem ''cb_c105'' catalog ident) (\<lambda>stem.
     and_then (namespace_single stem) (\<lambda>ns.
     and_then (namespace_single (stem @ ''_missing'')) (\<lambda>missing_ns.
     and_then (table_identifier_new ns ''primary'') (\<lambda>primary.
     and_then (table_identifier_new ns ''sibling'') (\<lambda>sibling.
     and_then (table_identifier_new ns ''renamed'') (\<lambda>renamed.
     and_then (table_identifier_new ns ''registered'') (\<lambda>registered.
     and_then (table_identifier_new ns ''missing'') (\<lambda>missing.
       Ok \<lparr>tfx_ident = ident, tfx_namespace = ns, tfx_missing_namespace = missing_ns,
           tfx_primary = primary, tfx_sibling = sibling, tfx_renamed = renamed,
           tfx_registered = registered, tfx_missing = missing\<rparr>))))))))"

definition table_candidates :: "table_fixture \<Rightarrow> table_identifier list" where
  "table_candidates fx = [tfx_primary fx, tfx_renamed fx, tfx_sibling fx, tfx_registered fx]"

record wire_table_identifier =
  wti_namespace :: "string list"
  wti_name :: string

record list_tables_response =
  ltb_next_page_token :: "string option"
  ltb_identifiers :: "wire_table_identifier list"

record table_lib =
  tl_web :: web_lib
  tl_debug_str :: "string \<Rightarrow> string"
  tl_error :: "iceberg_error decoder"
  tl_namespace :: "string list decoder"
  tl_load :: "probe_load_result decoder"
  tl_listing :: "list_tables_response decoder"
  tl_encode :: "authentication_transcript \<times> routing_config_transcript \<times> operation_transcript list
    \<times> pagination_transcript \<Rightarrow> string + string"

record optional_table_operations =
  oto_rename_limitation :: "string option"
  oto_register_limitation :: "string option"

record table_facts =
  tf_authentication :: fact
  tf_config_routing :: fact
  tf_fixture_isolated :: fact
  tf_fixture_namespace :: fact
  tf_create :: fact
  tf_list :: fact
  tf_load :: fact
  tf_pagination :: fact
  tf_update :: fact
  tf_duplicate :: fact
  tf_missing_table :: fact
  tf_missing_namespace :: fact
  tf_rename :: fact
  tf_drop_table :: fact
  tf_register :: fact
  tf_cleanup :: fact
  tf_transcript_sanitized :: fact

record table_transcript =
  tbt_format :: string
  tbt_profile :: string
  tbt_scenario :: transcript_scenario
  tbt_contract_digests :: contract_digests
  tbt_adapter :: transcript_adapter_record
  tbt_fixture :: table_fixture
  tbt_classification :: probe_classification
  tbt_authentication :: authentication_transcript
  tbt_config :: routing_config_transcript
  tbt_operations :: "operation_transcript list"
  tbt_pagination :: pagination_transcript
  tbt_assertions :: "probe_assertion list"
  tbt_sanitization :: sanitization_transcript

definition table_transcript_passed :: "table_transcript \<Rightarrow> bool" where
  "table_transcript_passed t \<longleftrightarrow> tbt_classification t = ProbePass"

section \<open>The scenario policy\<close>

definition requested_schema :: json where
  "requested_schema =
     JObject [(''fields'', JArray [JObject [(''id'', JNumber ''1''), (''name'', JString ''value''),
                  (''required'', JBool False), (''type'', JString ''long'')]]),
              (''schema-id'', JNumber ''0''), (''type'', JString ''struct'')]"

definition table_parameters :: "(string \<times> json) list" where
  "table_parameters =
     [(''fixture_prefix'', JString ''cb_c105''),
      (''iceberg_openapi_sha256'', JString ICEBERG_REST_OPENAPI_SHA256),
      (''iceberg_openapi_source'', JString ICEBERG_REST_OPENAPI_SOURCE),
      (''initial_properties'', JObject [(''c1-05.remove'', JString ''before''),
         (''c1-05.state'', JString ''before''), (''catalog-bench.owner'', JString ''catalog-bench'')]),
      (''maximum_pages'', JNumber ''64''),
      (''maximum_response_bytes'', JNumber (show_word MAXIMUM_RESPONSE_BYTES)),
      (''namespace_separator_default'', JString DEFAULT_NAMESPACE_SEPARATOR),
      (''page_size'', JNumber ''1''),
      (''purge_requested'', JBool False),
      (''register_overwrite'', JBool False),
      (''remove_properties'', JArray [JString ''c1-05.remove'']),
      (''request_timeout_ms'', JNumber ''30000''),
      (''set_properties'', JObject [(''c1-05.state'', JString ''after'')]),
      (''table_schema'', requested_schema),
      (''transcript_format'', JString TABLE_TRANSCRIPT_FORMAT)]"

definition table_capabilities :: "(string \<times> requirement_level) list" where
  "table_capabilities =
     [(''iceberg-rest.namespace.create'', Required),
      (''iceberg-rest.namespace.load'', Required),
      (''iceberg-rest.namespace.drop'', Required),
      (''iceberg-rest.table.create'', Required),
      (''iceberg-rest.table.list'', Required),
      (''iceberg-rest.table.load'', Required),
      (''iceberg-rest.table.register'', Optional),
      (''iceberg-rest.table.rename'', Optional),
      (''iceberg-rest.table.update'', Required),
      (''iceberg-rest.table.drop'', Required),
      (''iceberg-rest.error.spec-shape'', Required)]"

definition table_steps :: "expected_step list" where
  "table_steps =
     [(''negotiate-authentication'', HarnessActor, ''authentication.negotiate'', [], None),
      (''negotiate-config'', ClientActor, ''config.get-routing'', [''negotiate-authentication''], Some 30000),
      (''preflight-fixture'', HarnessActor, ''table.verify-fixture-absence'', [''negotiate-config''], None),
      (''create-namespace'', ClientActor, ''namespace.create-table-fixture'', [''preflight-fixture''], Some 30000),
      (''create-tables'', ClientActor, ''table.create'', [''create-namespace''], Some 30000),
      (''inspect-tables'', ClientActor, ''table.list-and-load'', [''create-tables''], Some 30000),
      (''traverse-pagination'', ClientActor, ''table.list-pages'', [''create-tables''], Some 30000),
      (''update-table'', ClientActor, ''table.update-properties'', [''inspect-tables''], Some 30000),
      (''reject-duplicate'', ClientActor, ''table.create-duplicate'', [''create-tables''], Some 30000),
      (''reject-missing-table'', ClientActor, ''table.load-missing'', [''create-namespace''], Some 30000),
      (''reject-missing-namespace'', ClientActor, ''table.list-missing-namespace'',
       [''negotiate-config''], Some 30000),
      (''rename-table'', ClientActor, ''table.rename-same-namespace'', [''update-table''], Some 30000),
      (''drop-table'', ClientActor, ''table.drop-without-purge'', [''inspect-tables''], Some 30000),
      (''register-table'', ClientActor, ''table.register-metadata'', [''drop-table''], Some 30000),
      (''cleanup-fixture'', HarnessActor, ''table.reconcile-drop-and-verify'',
       [''traverse-pagination'', ''reject-duplicate'', ''reject-missing-table'',
        ''reject-missing-namespace'', ''rename-table'', ''register-table''], Some 30000),
      (''sanitize-transcript'', HarnessActor, ''evidence.sanitize-http-transcript'',
       [''cleanup-fixture''], None)]"

definition table_assertions :: "expected_assertion list" where
  "table_assertions =
     [authentication_assertion,
      (''config-routing-ready'', ''negotiate-config'', True,
       custom_check ''table-config-routing-v1'' [(''default_namespace_separator'', JString ''%1F'')]),
      (''fixture-isolated'', ''preflight-fixture'', True,
       custom_check ''table-fixture-isolation-v1''
         [(''code'', JNumber ''404''), (''type'', JString ''NoSuchNamespaceException'')]),
      (''fixture-namespace-created'', ''create-namespace'', True,
       custom_check ''table-namespace-create-v1'' [(''expected_http_status'', JNumber ''200'')]),
      (''table-create-round-trip'', ''create-tables'', True,
       custom_check ''table-create-v1''
         [(''expected_http_status'', JNumber ''200''), (''stage_create'', JBool False)]),
      (''table-list-visible'', ''inspect-tables'', True,
       custom_check ''table-list-v1'' [(''duplicate_policy'', JString ''reject'')]),
      (''table-load-round-trip'', ''inspect-tables'', True,
       custom_check ''table-load-v1'' [(''expected_http_status'', JNumber ''200'')]),
      (''table-pagination-complete'', ''traverse-pagination'', True,
       custom_check ''table-pagination-v1''
         [(''accept_unpaginated_fallback'', JBool True), (''maximum_pages'', JNumber ''64''),
          (''page_size'', JNumber ''1'')]),
      (''table-update-round-trip'', ''update-table'', True,
       custom_check ''table-update-v1''
         [(''preserve_unmentioned'', JBool True), (''require_new_metadata_location'', JBool True)]),
      (''duplicate-table-error-spec-shaped'', ''reject-duplicate'', True,
       custom_check ''table-duplicate-error-v1''
         [(''code'', JNumber ''409''), (''type'', JString ''AlreadyExistsException'')]),
      (''missing-table-error-spec-shaped'', ''reject-missing-table'', True,
       custom_check ''table-missing-error-v1''
         [(''code'', JNumber ''404''), (''type'', JString ''NoSuchTableException'')]),
      (''missing-namespace-error-spec-shaped'', ''reject-missing-namespace'', True,
       custom_check ''table-missing-namespace-error-v1''
         [(''code'', JNumber ''404''), (''type'', JString ''NoSuchNamespaceException'')]),
      (''table-rename-round-trip'', ''rename-table'', False,
       custom_check ''table-rename-v1''
         [(''expected_http_status'', JNumber ''204''), (''scope'', JString ''same-namespace'')]),
      (''table-drop-clean'', ''drop-table'', True,
       custom_check ''table-drop-v1''
         [(''final_http_status'', JNumber ''404''), (''purge_requested'', JBool False)]),
      (''table-register-round-trip'', ''register-table'', False,
       custom_check ''table-register-v1''
         [(''expected_http_status'', JNumber ''200''), (''overwrite'', JBool False)]),
      (''table-fixture-clean'', ''cleanup-fixture'', True,
       custom_check ''table-cleanup-v1''
         [(''final_http_status'', JNumber ''404''), (''purge_requested'', JBool False)]),
      sanitized_assertion]"

definition table_scenario_policy :: "scenario \<Rightarrow> string + unit" where
  "table_scenario_policy s =
     and_then (check_parameters ''table'' table_parameters s) (\<lambda>_.
     and_then (check_capabilities ''table'' table_capabilities s) (\<lambda>_.
     and_then (check_steps ''table'' table_steps s) (\<lambda>_.
     and_then (check_assertions ''table'' table_assertions s) (\<lambda>_.
       check_extensions ''table'' s))))"

definition table_validate_invocation :: "profile \<Rightarrow> scenario \<Rightarrow> component_id \<Rightarrow> string + unit" where
  "table_validate_invocation = check_invocation ''table'' TABLE_SCENARIO_ID table_scenario_policy"

section \<open>Facts\<close>

definition table_facts_new :: "bool \<Rightarrow> fact \<Rightarrow> table_facts" where
  "table_facts_new authentication_ready config_routing =
     (let pending = FactNotEvaluated ''table workflow did not reach this check''
      in \<lparr>tf_authentication = fact_from_bool authentication_ready ''authentication negotiation did not complete'',
          tf_config_routing = config_routing, tf_fixture_isolated = pending, tf_fixture_namespace = pending,
          tf_create = pending, tf_list = pending, tf_load = pending, tf_pagination = pending,
          tf_update = pending, tf_duplicate = pending, tf_missing_table = pending,
          tf_missing_namespace = pending, tf_rename = pending, tf_drop_table = pending,
          tf_register = pending, tf_cleanup = pending, tf_transcript_sanitized = pending\<rparr>)"

definition skip_table_behavior :: "string \<Rightarrow> table_facts \<Rightarrow> table_facts" where
  "skip_table_behavior reason facts =
     facts\<lparr>tf_create := FactNotEvaluated reason, tf_list := FactNotEvaluated reason,
       tf_load := FactNotEvaluated reason, tf_pagination := FactNotEvaluated reason,
       tf_update := FactNotEvaluated reason, tf_duplicate := FactNotEvaluated reason,
       tf_rename := FactNotEvaluated reason, tf_drop_table := FactNotEvaluated reason,
       tf_register := FactNotEvaluated reason\<rparr>"

definition skip_mutating_table_behavior :: "string \<Rightarrow> table_facts \<Rightarrow> table_facts" where
  "skip_mutating_table_behavior reason facts =
     (skip_table_behavior reason (facts\<lparr>tf_fixture_namespace := FactNotEvaluated reason\<rparr>))
       \<lparr>tf_missing_table := FactNotEvaluated reason, tf_cleanup := FactNotEvaluated reason\<rparr>"

definition skip_table_scenario :: "string \<Rightarrow> table_facts \<Rightarrow> table_facts" where
  "skip_table_scenario reason facts =
     (skip_mutating_table_behavior reason (facts\<lparr>tf_fixture_isolated := FactNotEvaluated reason\<rparr>))
       \<lparr>tf_missing_namespace := FactNotEvaluated reason\<rparr>"

definition table_fact :: "table_facts \<Rightarrow> assertion_check \<Rightarrow> fact" where
  "table_fact facts check =
     (case check of
        Custom name _ \<Rightarrow>
          (if name = ''querygraph/catalog-bench/authentication-ready-v1'' then tf_authentication facts
           else if name = ''querygraph/catalog-bench/table-config-routing-v1'' then tf_config_routing facts
           else if name = ''querygraph/catalog-bench/table-fixture-isolation-v1'' then tf_fixture_isolated facts
           else if name = ''querygraph/catalog-bench/table-namespace-create-v1'' then tf_fixture_namespace facts
           else if name = ''querygraph/catalog-bench/table-create-v1'' then tf_create facts
           else if name = ''querygraph/catalog-bench/table-list-v1'' then tf_list facts
           else if name = ''querygraph/catalog-bench/table-load-v1'' then tf_load facts
           else if name = ''querygraph/catalog-bench/table-pagination-v1'' then tf_pagination facts
           else if name = ''querygraph/catalog-bench/table-update-v1'' then tf_update facts
           else if name = ''querygraph/catalog-bench/table-duplicate-error-v1'' then tf_duplicate facts
           else if name = ''querygraph/catalog-bench/table-missing-error-v1'' then tf_missing_table facts
           else if name = ''querygraph/catalog-bench/table-missing-namespace-error-v1'' then tf_missing_namespace facts
           else if name = ''querygraph/catalog-bench/table-rename-v1'' then tf_rename facts
           else if name = ''querygraph/catalog-bench/table-drop-v1'' then tf_drop_table facts
           else if name = ''querygraph/catalog-bench/table-register-v1'' then tf_register facts
           else if name = ''querygraph/catalog-bench/table-cleanup-v1'' then tf_cleanup facts
           else if name = ''querygraph/catalog-bench/sanitized-http-transcript-v1'' then tf_transcript_sanitized facts
           else FactFail (''table policy received unknown assertion '' @ quoted name))
      | _ \<Rightarrow> FactFail ''table policy received a non-custom assertion'')"

definition evaluate_table_assertions :: "scenario \<Rightarrow> table_facts \<Rightarrow> probe_assertion list" where
  "evaluate_table_assertions s facts =
     map (\<lambda>a. \<lparr>pa_assertion = spec_ident a, pa_required = spec_required a,
               pa_outcome = fact_outcome (table_fact facts (spec_check a))\<rparr>) (scn_assertions s)"

section \<open>Responses\<close>

definition debug_table_identifier :: "table_lib \<Rightarrow> table_identifier \<Rightarrow> string" where
  "debug_table_identifier L t =
     ''TableIdentifier { namespace: NamespaceIdentifier('' @ debug_list (tl_debug_str L) (tid_namespace t)
     @ ''), name: '' @ tl_debug_str L (tid_name t) @ '' }''"

definition debug_table_set :: "table_lib \<Rightarrow> table_identifier list \<Rightarrow> string" where
  "debug_table_set L tables = ''{'' @ join '', '' (map (debug_table_identifier L) tables) @ ''}''"

definition validate_requested_schema :: "table_schema \<Rightarrow> string + unit" where
  "validate_requested_schema schema =
     (if tsm_type schema \<noteq> ''struct'' then
        Err (''current schema type '' @ quoted (tsm_type schema) @ '' is not `struct`'')
      else case tsm_fields schema of
        [field] \<Rightarrow>
          if tfd_ident field \<noteq> 1 \<or> tfd_name field \<noteq> ''value'' \<or> tfd_required field
             \<or> tfd_type field \<noteq> JString ''long'' then
            Err ''current schema does not preserve optional long field `value` (id 1)''
          else Ok ()
      | _ \<Rightarrow> Err ''current schema does not contain exactly one requested field'')"

definition initial_properties :: string_map where
  "initial_properties =
     [(TB_REMOVE_PROPERTY, ''before''), (TB_STATE_PROPERTY, ''before''), (TB_OWNER_PROPERTY, ''catalog-bench'')]"

definition validate_initial_snapshot ::
  "table_lib \<Rightarrow> observation \<Rightarrow> string option \<Rightarrow> string + probe_table_snapshot" where
  "validate_initial_snapshot L observation requested_location =
     and_then (parse_table_snapshot (tl_load L) observation 200) (\<lambda>snapshot.
     and_then (validate_requested_schema (pts_schema snapshot)) (\<lambda>_.
       case Option.bind requested_location (\<lambda>l. if pts_location snapshot \<noteq> l then Some l else None) of
         Some l \<Rightarrow> Err (''created table location '' @ quoted (pts_location snapshot)
                      @ '' does not preserve requested table location '' @ quoted l)
       | None \<Rightarrow>
           (case find (\<lambda>(key, expected). map_of (pts_properties snapshot) key \<noteq> Some expected)
                   [(TB_OWNER_PROPERTY, ''catalog-bench''), (TB_REMOVE_PROPERTY, ''before''),
                    (TB_STATE_PROPERTY, ''before'')] of
              Some (key, _) \<Rightarrow> Err (''created metadata did not preserve requested property '' @ quoted key)
            | None \<Rightarrow> Ok snapshot)))"

definition validate_update ::
  "table_lib \<Rightarrow> probe_table_snapshot \<Rightarrow> observation \<Rightarrow> observation \<Rightarrow> string + probe_table_snapshot" where
  "validate_update L before update reload =
     and_then (parse_table_snapshot (tl_load L) update 200) (\<lambda>committed.
       if pts_uuid committed \<noteq> pts_uuid before then Err ''table update changed the table UUID''
       else if pts_schema committed \<noteq> pts_schema before then
         Err ''property-only update changed the current schema''
       else if pts_metadata_location committed = pts_metadata_location before then
         Err ''table update did not advance the metadata location''
       else if map_of (pts_properties committed) TB_OWNER_PROPERTY \<noteq> Some ''catalog-bench'' then
         Err (''update did not preserve unmentioned property '' @ quoted TB_OWNER_PROPERTY)
       else if map_of (pts_properties committed) TB_STATE_PROPERTY \<noteq> Some ''after'' then
         Err (''update did not set property '' @ quoted TB_STATE_PROPERTY @ '' to `after`'')
       else if map_of (pts_properties committed) TB_REMOVE_PROPERTY \<noteq> None then
         Err (''update did not remove property '' @ quoted TB_REMOVE_PROPERTY)
       else
         and_then (parse_table_snapshot (tl_load L) reload 200) (\<lambda>loaded.
         and_then (validate_same_table_snapshot committed loaded) (\<lambda>_.
           if pts_properties loaded \<noteq> pts_properties committed then
             Err ''reload property map differs from commit response''
           else Ok loaded)))"

definition parse_table_listing :: "table_lib \<Rightarrow> observation \<Rightarrow> string + list_tables_response" where
  "parse_table_listing L observation = parse_json_response (tl_listing L) observation 200"

definition parse_identifiers :: "wire_table_identifier list \<Rightarrow> string + table_identifier list" where
  "parse_identifiers identifiers =
     and_then (try_map (\<lambda>t. and_then (namespace_from_parts (wti_namespace t)) (\<lambda>ns.
                             table_identifier_new ns (wti_name t))) identifiers) (\<lambda>tables.
       let parsed = sort (remdups tables)
       in if length parsed \<noteq> length identifiers then Err ''listing contains duplicate table identifiers''
          else Ok parsed)"

definition validate_complete_table_set ::
  "table_lib \<Rightarrow> table_identifier list \<Rightarrow> table_identifier list \<Rightarrow> string + unit" where
  "validate_complete_table_set L tables expected =
     (let expected_set = sort (remdups expected)
      in if tables = expected_set then Ok ()
         else Err (''listing returned '' @ debug_table_set L tables @ '', expected exactly ''
                   @ debug_table_set L expected_set))"

definition validate_table_listing ::
  "table_lib \<Rightarrow> observation \<Rightarrow> table_identifier list \<Rightarrow> string + unit" where
  "validate_table_listing L observation expected =
     and_then (parse_table_listing L observation) (\<lambda>response.
     and_then (parse_identifiers (ltb_identifiers response)) (\<lambda>tables.
       validate_complete_table_set L tables expected))"

section \<open>The workflow\<close>

definition table_drop_url :: "web_lib \<Rightarrow> catalog_routes \<Rightarrow> table_identifier \<Rightarrow> string + url" where
  "table_drop_url lib r t =
     and_then (route_table lib r (tid_namespace t) (tid_name t)) (\<lambda>u.
       Ok (wl_append_pair lib ''purgeRequested'' ''false'' u))"

definition route_of_table :: "web_lib \<Rightarrow> catalog_routes \<Rightarrow> table_identifier \<Rightarrow> string + url" where
  "route_of_table lib r t = route_table lib r (tid_namespace t) (tid_name t)"

definition create_table ::
  "table_lib \<Rightarrow> catalog_routes \<Rightarrow> table_create_locations \<Rightarrow> table_identifier \<Rightarrow> string
   \<Rightarrow> ('w operation_recorder \<times> 'w, observation \<times> string option) probe" where
  "create_table L r locations t operation_id =
     probe_bind (probe_try (location_for_table (tl_web L) locations (tid_namespace t) (tid_name t))) (\<lambda>requested_location.
     probe_bind (attempt (tl_web L) operation_id TB_CREATE POST (route_table_collection (tl_web L) r (tid_namespace t))
                   (Some (committed_table_request (tid_name t) requested_location requested_schema initial_properties)))
       (\<lambda>observation. probe_return (observation, requested_location)))"

definition load_created_table ::
  "table_lib \<Rightarrow> catalog_routes \<Rightarrow> table_identifier \<Rightarrow> string \<Rightarrow> probe_table_snapshot option
   \<Rightarrow> ('w operation_recorder \<times> 'w, string + probe_table_snapshot) probe" where
  "load_created_table L r t operation_id created =
     (case created of
        None \<Rightarrow>
          (let reason = tid_name t @ '' table creation did not pass''
           in probe_bind (skip_all [(operation_id, TB_LOAD)] reason) (\<lambda>_. probe_return (Err reason)))
      | Some created \<Rightarrow>
          probe_bind (attempt (tl_web L) operation_id TB_LOAD GET (route_of_table (tl_web L) r t) None) (\<lambda>observation.
            probe_return (and_then (parse_table_snapshot (tl_load L) observation 200) (\<lambda>loaded.
              and_then (validate_same_table_snapshot created loaded) (\<lambda>_. Ok loaded)))))"

definition probe_missing_table ::
  "table_lib \<Rightarrow> catalog_routes \<Rightarrow> table_identifier \<Rightarrow> ('w operation_recorder \<times> 'w, string + unit) probe" where
  "probe_missing_table L r t =
     probe_bind (attempt (tl_web L) ''load-missing-table'' TB_ERROR_SHAPE GET (route_of_table (tl_web L) r t) None)
       (\<lambda>observation. probe_return (validate_error_response (tl_error L) observation 404 ''NoSuchTableException''))"

definition probe_missing_namespace ::
  "table_lib \<Rightarrow> catalog_routes \<Rightarrow> namespace_identifier \<Rightarrow> ('w operation_recorder \<times> 'w, string + unit) probe" where
  "probe_missing_namespace L r ns =
     probe_bind (attempt (tl_web L) ''list-tables-missing-namespace'' TB_ERROR_SHAPE GET
                   (route_table_collection (tl_web L) r ns) None)
       (\<lambda>observation. probe_return (validate_error_response (tl_error L) observation 404 ''NoSuchNamespaceException''))"

definition table_identifier_json :: "table_identifier \<Rightarrow> json" where
  "table_identifier_json t =
     JObject [(''name'', JString (tid_name t)), (''namespace'', JArray (map JString (tid_namespace t)))]"

definition attempt_rename ::
  "table_lib \<Rightarrow> catalog_routes \<Rightarrow> table_fixture \<Rightarrow> probe_table_snapshot
   \<Rightarrow> ('w operation_recorder \<times> 'w, string + unit) probe" where
  "attempt_rename L r fx before =
     probe_bind (attempt (tl_web L) ''rename-primary'' TB_RENAME POST (route_table_rename (tl_web L) r)
                   (Some (JObject [(''destination'', table_identifier_json (tfx_renamed fx)),
                                   (''source'', table_identifier_json (tfx_primary fx))]))) (\<lambda>rename.
     probe_bind (attempt (tl_web L) ''load-primary-after-rename'' TB_RENAME GET
                   (route_table (tl_web L) r (tfx_namespace fx) (tid_name (tfx_primary fx))) None) (\<lambda>source.
     probe_bind (attempt (tl_web L) ''load-renamed-after-rename'' TB_RENAME GET
                   (route_table (tl_web L) r (tfx_namespace fx) (tid_name (tfx_renamed fx))) None) (\<lambda>destination.
       probe_return
         (and_then (validate_status rename [204]) (\<lambda>_.
          and_then (validate_error_response (tl_error L) source 404 ''NoSuchTableException'') (\<lambda>_.
          and_then (parse_table_snapshot (tl_load L) destination 200) (\<lambda>renamed.
            validate_same_table_snapshot before renamed)))))))"

definition drop_sibling ::
  "table_lib \<Rightarrow> catalog_routes \<Rightarrow> table_identifier \<Rightarrow> ('w operation_recorder \<times> 'w, string + unit) probe" where
  "drop_sibling L r sibling =
     probe_bind (attempt (tl_web L) ''drop-sibling-without-purge'' TB_DROP DELETE
                   (table_drop_url (tl_web L) r sibling) None) (\<lambda>drop_answer.
     probe_bind (attempt (tl_web L) ''load-sibling-after-drop'' TB_DROP GET
                   (route_of_table (tl_web L) r sibling) None) (\<lambda>load_answer.
       probe_return
         (and_then (validate_status drop_answer [204]) (\<lambda>_.
            validate_error_response (tl_error L) load_answer 404 ''NoSuchTableException''))))"

definition attempt_register ::
  "table_lib \<Rightarrow> catalog_routes \<Rightarrow> table_identifier \<Rightarrow> probe_table_snapshot
   \<Rightarrow> ('w operation_recorder \<times> 'w, string + unit) probe" where
  "attempt_register L r registered source =
     probe_bind (attempt (tl_web L) ''register-sibling-metadata'' TB_REGISTER POST
                   (route_table_register (tl_web L) r (tid_namespace registered))
                   (Some (JObject [(''metadata-location'', JString (pts_metadata_location source)),
                                   (''name'', JString (tid_name registered)), (''overwrite'', JBool False)]))) (\<lambda>register.
     probe_bind (attempt (tl_web L) ''load-registered-after-register'' TB_REGISTER GET
                   (route_of_table (tl_web L) r registered) None) (\<lambda>load_answer.
       probe_return
         (and_then (parse_table_snapshot (tl_load L) register 200) (\<lambda>snapshot.
          and_then (validate_same_table_snapshot source snapshot) (\<lambda>_.
          and_then (parse_table_snapshot (tl_load L) load_answer 200) (\<lambda>loaded.
            validate_same_table_snapshot source loaded))))))"

definition drop_candidates ::
  "table_lib \<Rightarrow> catalog_routes \<Rightarrow> table_fixture \<Rightarrow> ('w operation_recorder \<times> 'w, (string + unit) list) probe" where
  "drop_candidates L r fx =
     probe_map (\<lambda>t.
         probe_bind (attempt (tl_web L) (''cleanup-drop-'' @ tid_name t) TB_DROP DELETE
                       (table_drop_url (tl_web L) r t) None) (\<lambda>observation.
           probe_return (validate_status observation [204, 404])))
       (table_candidates fx)"

definition verify_candidates_absent ::
  "table_lib \<Rightarrow> catalog_routes \<Rightarrow> table_fixture \<Rightarrow> ('w operation_recorder \<times> 'w, (string + unit) list) probe" where
  "verify_candidates_absent L r fx =
     probe_map (\<lambda>t.
         probe_bind (attempt (tl_web L) (''cleanup-verify-'' @ tid_name t @ ''-absent'') TB_DROP GET
                       (route_of_table (tl_web L) r t) None) (\<lambda>observation.
           probe_return (validate_error_response (tl_error L) observation 404 ''NoSuchTableException'')))
       (table_candidates fx)"

definition cleanup_tables ::
  "table_lib \<Rightarrow> catalog_routes \<Rightarrow> table_fixture \<Rightarrow> ('w operation_recorder \<times> 'w, string + unit) probe" where
  "cleanup_tables L r fx =
     probe_bind (drop_candidates L r fx) (\<lambda>dropped.
     probe_bind (verify_candidates_absent L r fx) (\<lambda>verified.
     probe_bind (attempt (tl_web L) ''cleanup-drop-namespace'' TB_NAMESPACE_DROP DELETE
                   (route_namespace (tl_web L) r (tfx_namespace fx)) None) (\<lambda>drop_namespace.
     probe_bind (attempt (tl_web L) ''cleanup-verify-namespace-absent'' TB_NAMESPACE_LOAD GET
                   (route_namespace (tl_web L) r (tfx_namespace fx)) None) (\<lambda>load_namespace.
       probe_return (all_results (dropped @ verified
         @ [validate_status drop_namespace [204, 404],
            validate_error_response (tl_error L) load_namespace 404 ''NoSuchNamespaceException'']))))))"

definition table_reader :: "table_lib \<Rightarrow> table_fixture \<Rightarrow> table_identifier page_reader" where
  "table_reader L fx =
     \<lparr>pgr_parse = (\<lambda>observation.
        and_then (parse_table_listing L observation) (\<lambda>page.
        and_then (parse_identifiers (ltb_identifiers page)) (\<lambda>tables.
          Ok (tables, ltb_next_page_token page)))),
      pgr_noun = ''table'', pgr_duplicate = debug_table_identifier L,
      pgr_complete = (\<lambda>tables. validate_complete_table_set L tables [tfx_primary fx, tfx_sibling fx])\<rparr>"

definition traverse_table_pages ::
  "table_lib \<Rightarrow> catalog_routes \<Rightarrow> table_fixture
   \<Rightarrow> ('w operation_recorder \<times> 'w, pagination_transcript \<times> (string + unit)) probe" where
  "traverse_table_pages L r fx =
     traverse_pages (tl_web L) (table_reader L fx) TB_LIST
       (\<lambda>token. route_table_page (tl_web L) r (tfx_namespace fx) token PAGE_SIZE)"

definition table_operations :: "(string \<times> string) list" where
  "table_operations =
     [(''create-primary'', TB_CREATE), (''create-sibling'', TB_CREATE), (''list-tables'', TB_LIST),
      (''load-primary'', TB_LOAD), (''load-sibling'', TB_LOAD), (''list-page-001'', TB_LIST),
      (''update-primary-properties'', TB_UPDATE), (''reload-primary-after-update'', TB_UPDATE),
      (''create-primary-duplicate'', TB_CREATE), (''rename-primary'', TB_RENAME),
      (''load-primary-after-rename'', TB_RENAME), (''load-renamed-after-rename'', TB_RENAME),
      (''drop-sibling-without-purge'', TB_DROP), (''load-sibling-after-drop'', TB_DROP),
      (''register-sibling-metadata'', TB_REGISTER), (''load-registered-after-register'', TB_REGISTER)]"

definition mutating_table_operations :: "(string \<times> string) list" where
  "mutating_table_operations =
     [(''create-namespace'', TB_NAMESPACE_CREATE)] @ table_operations
     @ map (\<lambda>name. (''cleanup-drop-'' @ name, TB_DROP)) [''primary'', ''renamed'', ''sibling'', ''registered'']
     @ map (\<lambda>name. (''cleanup-verify-'' @ name @ ''-absent'', TB_DROP))
         [''primary'', ''renamed'', ''sibling'', ''registered'']
     @ [(''cleanup-drop-namespace'', TB_NAMESPACE_DROP),
        (''cleanup-verify-namespace-absent'', TB_NAMESPACE_LOAD)]"

text \<open>The parts of the work on a created fixture namespace, in the order of \<open>execute_table_workflow\<close>.\<close>

definition created_result ::
  "string + probe_table_snapshot \<Rightarrow> string + probe_table_snapshot \<Rightarrow> string + unit" where
  "created_result primary sibling =
     (case (primary, sibling) of
        (Inr p, Inr s) \<Rightarrow>
          if pts_uuid p = pts_uuid s then Err ''created tables returned the same table UUID'' else Ok ()
      | _ \<Rightarrow> all_results [primary, sibling])"

definition result_ok :: "'e + 'a \<Rightarrow> 'a option" where
  "result_ok result = (case result of Inl _ \<Rightarrow> None | Inr a \<Rightarrow> Some a)"

definition list_tables ::
  "table_lib \<Rightarrow> catalog_routes \<Rightarrow> table_fixture \<Rightarrow> bool \<Rightarrow> table_facts
   \<Rightarrow> ('w operation_recorder \<times> 'w, table_facts) probe" where
  "list_tables L r fx both_created facts =
     (if both_created then
        probe_bind (attempt (tl_web L) ''list-tables'' TB_LIST GET
                      (route_table_collection (tl_web L) r (tfx_namespace fx)) None) (\<lambda>listing.
          probe_return (facts\<lparr>tf_list := fact_from_result
            (validate_table_listing L listing [tfx_primary fx, tfx_sibling fx])\<rparr>))
      else
        (let reason = ''both table creates must pass before ordinary listing''
         in probe_bind (skip_all [(''list-tables'', TB_LIST)] reason) (\<lambda>_.
              probe_return (facts\<lparr>tf_list := FactNotEvaluated reason\<rparr>))))"

definition paginate_tables ::
  "table_lib \<Rightarrow> catalog_routes \<Rightarrow> table_fixture \<Rightarrow> bool \<Rightarrow> table_facts
   \<Rightarrow> ('w operation_recorder \<times> 'w, pagination_transcript \<times> table_facts) probe" where
  "paginate_tables L r fx both_created facts =
     (if both_created then
        probe_bind (traverse_table_pages L r fx) (\<lambda>(pagination, result).
          probe_return (pagination, facts\<lparr>tf_pagination := fact_from_result result\<rparr>))
      else
        (let reason = ''both table creates must pass before pagination''
         in probe_bind (skip_all [(''list-page-001'', TB_LIST)] reason) (\<lambda>_.
              probe_return (PaginationNotEvaluated reason, facts\<lparr>tf_pagination := FactNotEvaluated reason\<rparr>))))"

definition update_properties_body :: json where
  "update_properties_body =
     JObject [(''requirements'', JArray []),
       (''updates'', JArray
         [JObject [(''action'', JString ''set-properties''),
            (''updates'', JObject [(TB_STATE_PROPERTY, JString ''after'')])],
          JObject [(''action'', JString ''remove-properties''),
            (''removals'', JArray [JString TB_REMOVE_PROPERTY])]])]"

text \<open>The snapshot is there when both tables were loaded.\<close>

definition update_primary ::
  "table_lib \<Rightarrow> catalog_routes \<Rightarrow> table_fixture \<Rightarrow> probe_table_snapshot option \<Rightarrow> table_facts
   \<Rightarrow> ('w operation_recorder \<times> 'w, probe_table_snapshot option \<times> table_facts) probe" where
  "update_primary L r fx loaded facts =
     (case loaded of
        Some before \<Rightarrow>
          probe_bind (attempt (tl_web L) ''update-primary-properties'' TB_UPDATE POST
                        (route_table (tl_web L) r (tfx_namespace fx) (tid_name (tfx_primary fx)))
                        (Some update_properties_body)) (\<lambda>update.
          probe_bind (attempt (tl_web L) ''reload-primary-after-update'' TB_UPDATE GET
                        (route_table (tl_web L) r (tfx_namespace fx) (tid_name (tfx_primary fx))) None) (\<lambda>reload.
            probe_return (case validate_update L before update reload of
                Inr snapshot \<Rightarrow> (Some snapshot, facts\<lparr>tf_update := FactPass\<rparr>)
              | Inl error \<Rightarrow> (None, facts\<lparr>tf_update := FactFail error\<rparr>))))
      | None \<Rightarrow>
          (let reason = ''both table loads must pass before update''
           in probe_bind (skip_all [(''update-primary-properties'', TB_UPDATE),
                  (''reload-primary-after-update'', TB_UPDATE)] reason) (\<lambda>_.
                probe_return (None, facts\<lparr>tf_update := FactNotEvaluated reason\<rparr>))))"

definition create_duplicate ::
  "table_lib \<Rightarrow> catalog_routes \<Rightarrow> table_create_locations \<Rightarrow> table_fixture \<Rightarrow> bool \<Rightarrow> table_facts
   \<Rightarrow> ('w operation_recorder \<times> 'w, table_facts) probe" where
  "create_duplicate L r locations fx both_created facts =
     (if both_created then
        probe_bind (create_table L r locations (tfx_primary fx) ''create-primary-duplicate'') (\<lambda>(observation, _).
          probe_return (facts\<lparr>tf_duplicate := fact_from_result
            (validate_error_response (tl_error L) observation 409 ''AlreadyExistsException'')\<rparr>))
      else
        (let reason = ''primary table creation did not pass''
         in probe_bind (skip_all [(''create-primary-duplicate'', TB_CREATE)] reason) (\<lambda>_.
              probe_return (facts\<lparr>tf_duplicate := FactNotEvaluated reason\<rparr>))))"

definition rename_operations :: "(string \<times> string) list" where
  "rename_operations =
     [(''rename-primary'', TB_RENAME), (''load-primary-after-rename'', TB_RENAME),
      (''load-renamed-after-rename'', TB_RENAME)]"

definition rename_primary ::
  "table_lib \<Rightarrow> catalog_routes \<Rightarrow> table_fixture \<Rightarrow> optional_table_operations \<Rightarrow> probe_table_snapshot option
   \<Rightarrow> table_facts \<Rightarrow> ('w operation_recorder \<times> 'w, table_facts) probe" where
  "rename_primary L r fx optional updated facts =
     (case oto_rename_limitation optional of
        Some reason \<Rightarrow>
          probe_bind (skip_all rename_operations reason) (\<lambda>_.
            probe_return (facts\<lparr>tf_rename := FactNotEvaluated reason\<rparr>))
      | None \<Rightarrow>
          (case updated of
             Some before \<Rightarrow>
               probe_bind (attempt_rename L r fx before) (\<lambda>result.
                 probe_return (facts\<lparr>tf_rename := fact_from_result result\<rparr>))
           | None \<Rightarrow>
               (let reason = ''primary table update did not pass''
                in probe_bind (skip_all rename_operations reason) (\<lambda>_.
                     probe_return (facts\<lparr>tf_rename := FactNotEvaluated reason\<rparr>)))))"

definition drop_loaded_sibling ::
  "table_lib \<Rightarrow> catalog_routes \<Rightarrow> table_fixture \<Rightarrow> probe_table_snapshot option \<Rightarrow> table_facts
   \<Rightarrow> ('w operation_recorder \<times> 'w, probe_table_snapshot option \<times> table_facts) probe" where
  "drop_loaded_sibling L r fx loaded facts =
     (case loaded of
        Some snapshot \<Rightarrow>
          probe_bind (drop_sibling L r (tfx_sibling fx)) (\<lambda>result.
            probe_return (if is_ok result then Some snapshot else None,
              facts\<lparr>tf_drop_table := fact_from_result result\<rparr>))
      | None \<Rightarrow>
          (let reason = ''both table loads must pass before drop''
           in probe_bind (skip_all [(''drop-sibling-without-purge'', TB_DROP),
                  (''load-sibling-after-drop'', TB_DROP)] reason) (\<lambda>_.
                probe_return (None, facts\<lparr>tf_drop_table := FactNotEvaluated reason\<rparr>))))"

definition register_operations :: "(string \<times> string) list" where
  "register_operations =
     [(''register-sibling-metadata'', TB_REGISTER), (''load-registered-after-register'', TB_REGISTER)]"

definition register_sibling ::
  "table_lib \<Rightarrow> catalog_routes \<Rightarrow> table_fixture \<Rightarrow> optional_table_operations \<Rightarrow> probe_table_snapshot option
   \<Rightarrow> table_facts \<Rightarrow> ('w operation_recorder \<times> 'w, table_facts) probe" where
  "register_sibling L r fx optional dropped facts =
     (case oto_register_limitation optional of
        Some reason \<Rightarrow>
          probe_bind (skip_all register_operations reason) (\<lambda>_.
            probe_return (facts\<lparr>tf_register := FactNotEvaluated reason\<rparr>))
      | None \<Rightarrow>
          (case dropped of
             Some source \<Rightarrow>
               probe_bind (attempt_register L r (tfx_registered fx) source) (\<lambda>result.
                 probe_return (facts\<lparr>tf_register := fact_from_result result\<rparr>))
           | None \<Rightarrow>
               (let reason = ''sibling drop did not pass''
                in probe_bind (skip_all register_operations reason) (\<lambda>_.
                     probe_return (facts\<lparr>tf_register := FactNotEvaluated reason\<rparr>)))))"

text \<open>
  \<open>loaded_facts\<close>: the load fact, which is only a pass when both tables were created and loaded. The
  snapshots for the update and the drop are there only when both loads passed.
\<close>

definition loaded_fact ::
  "bool \<Rightarrow> string + probe_table_snapshot \<Rightarrow> string + probe_table_snapshot \<Rightarrow> fact" where
  "loaded_fact both_created primary sibling =
     (if both_created then fact_from_result (all_results [primary, sibling])
      else FactNotEvaluated ''both table creates must pass before load round-trip'')"

text \<open>The two probes for missing objects.\<close>

definition probe_missing ::
  "table_lib \<Rightarrow> catalog_routes \<Rightarrow> table_fixture \<Rightarrow> table_facts \<Rightarrow> ('w operation_recorder \<times> 'w, table_facts) probe" where
  "probe_missing L r fx facts =
     probe_bind (probe_missing_table L r (tfx_missing fx)) (\<lambda>missing_table.
     probe_bind (probe_missing_namespace L r (tfx_missing_namespace fx)) (\<lambda>missing_namespace.
       probe_return (facts\<lparr>tf_missing_table := fact_from_result missing_table,
         tf_missing_namespace := fact_from_result missing_namespace\<rparr>)))"

definition table_behavior ::
  "table_lib \<Rightarrow> catalog_routes \<Rightarrow> table_fixture \<Rightarrow> table_create_locations \<Rightarrow> optional_table_operations \<Rightarrow> table_facts
   \<Rightarrow> ('w operation_recorder \<times> 'w, pagination_transcript \<times> table_facts) probe" where
  "table_behavior L r fx locations optional facts =
     probe_bind (create_table L r locations (tfx_primary fx) ''create-primary'') (\<lambda>(primary_create, primary_location).
     probe_bind (create_table L r locations (tfx_sibling fx) ''create-sibling'') (\<lambda>(sibling_create, sibling_location).
       let primary = validate_initial_snapshot L primary_create primary_location;
           sibling = validate_initial_snapshot L sibling_create sibling_location;
           both_created = (is_ok primary \<and> is_ok sibling)
       in probe_bind (list_tables L r fx both_created (facts\<lparr>tf_create := fact_from_result (created_result primary sibling)\<rparr>)) (\<lambda>facts2.
          probe_bind (load_created_table L r (tfx_primary fx) ''load-primary'' (result_ok primary)) (\<lambda>primary_load.
          probe_bind (load_created_table L r (tfx_sibling fx) ''load-sibling'' (result_ok sibling)) (\<lambda>sibling_load.
          let both_loaded = (is_ok primary_load \<and> is_ok sibling_load)
          in probe_bind (paginate_tables L r fx both_created
                 (facts2\<lparr>tf_load := loaded_fact both_created primary_load sibling_load\<rparr>)) (\<lambda>(pagination, facts3).
             probe_bind (update_primary L r fx (if both_loaded then result_ok primary_load else None) facts3) (\<lambda>(updated, facts4).
             probe_bind (create_duplicate L r locations fx both_created facts4) (\<lambda>facts5.
             probe_bind (probe_missing L r fx facts5) (\<lambda>facts6.
             probe_bind (rename_primary L r fx optional updated facts6) (\<lambda>facts7.
             probe_bind (drop_loaded_sibling L r fx (if both_loaded then result_ok sibling_load else None) facts7) (\<lambda>(dropped, facts8).
             probe_bind (register_sibling L r fx optional dropped facts8) (\<lambda>facts9.
               probe_return (pagination, facts9)))))))))))))"

definition create_fixture_body :: "namespace_identifier \<Rightarrow> json" where
  "create_fixture_body ns =
     JObject [(''namespace'', JArray (map JString ns)),
       (''properties'', JObject [(''catalog-bench.owner'', JString ''catalog-bench'')])]"

definition execute_table_workflow ::
  "table_lib \<Rightarrow> catalog_routes \<Rightarrow> table_fixture \<Rightarrow> table_create_locations \<Rightarrow> optional_table_operations \<Rightarrow> table_facts
   \<Rightarrow> ('w operation_recorder \<times> 'w, pagination_transcript \<times> table_facts) probe" where
  "execute_table_workflow L r fx locations optional facts =
     probe_bind (attempt (tl_web L) ''preflight-namespace'' TB_NAMESPACE_LOAD GET
                   (route_namespace (tl_web L) r (tfx_namespace fx)) None) (\<lambda>preflight.
       let isolated = fact_from_result (validate_error_response (tl_error L) preflight 404 ''NoSuchNamespaceException'');
           facts1 = facts\<lparr>tf_fixture_isolated := isolated\<rparr>
       in if \<not> fact_passed isolated then
            (let reason = fact_explanation isolated ''fixture preflight did not pass''
             in probe_bind (skip_all mutating_table_operations reason) (\<lambda>_.
                probe_bind (probe_missing_namespace L r (tfx_missing_namespace fx)) (\<lambda>missing.
                  probe_return (PaginationNotEvaluated reason,
                    (skip_mutating_table_behavior reason facts1)\<lparr>tf_missing_namespace := fact_from_result missing\<rparr>))))
          else
            probe_bind (attempt (tl_web L) ''create-namespace'' TB_NAMESPACE_CREATE POST
                          (route_namespace_collection (tl_web L) r)
                          (Some (create_fixture_body (tfx_namespace fx)))) (\<lambda>namespace_create.
              let created = validate_created_namespace (tl_debug_str L) (tl_namespace L) namespace_create (tfx_namespace fx);
                  facts2 = facts1\<lparr>tf_fixture_namespace := fact_from_result created\<rparr>
              in probe_bind
                   (if \<not> is_ok created then
                      (let reason = ''fixture namespace creation did not pass''
                       in probe_bind (skip_all table_operations reason) (\<lambda>_.
                          probe_bind (probe_missing L r fx (skip_table_behavior reason facts2)) (\<lambda>facts3.
                            probe_return (PaginationNotEvaluated reason, facts3))))
                    else table_behavior L r fx locations optional facts2) (\<lambda>(pagination, facts3).
                 probe_bind (cleanup_tables L r fx) (\<lambda>cleaned.
                   probe_return (pagination, facts3\<lparr>tf_cleanup := fact_from_result cleaned\<rparr>)))))"

section \<open>The probe\<close>

definition optional_operations_of :: "catalog_adapter \<Rightarrow> optional_table_operations" where
  "optional_operations_of adapter =
     (let explain = (\<lambda>capability. map_option (\<lambda>l. ''profile declares '' @ quoted capability
             @ '' unsupported: '' @ lim_explanation l)
           (limitation (adapter_capabilities adapter) capability))
      in \<lparr>oto_rename_limitation = explain TB_RENAME, oto_register_limitation = explain TB_REGISTER\<rparr>)"

definition table_unsupported ::
  "table_lib \<Rightarrow> profile \<Rightarrow> scenario \<Rightarrow> contract_digests \<Rightarrow> probe_target \<Rightarrow> table_fixture
   \<Rightarrow> unsupported_adapter_capability \<Rightarrow> string + table_transcript" where
  "table_unsupported L p s digests target fx l =
     and_then (not_evaluated_config (tl_web L) (target_adapter target) (unsupported_reason l)) (\<lambda>config.
       Ok \<lparr>tbt_format = TABLE_TRANSCRIPT_FORMAT, tbt_profile = prof_ident p,
           tbt_scenario = transcript_scenario_of s, tbt_contract_digests = digests,
           tbt_adapter = transcript_adapter (target_adapter target) (target_component target),
           tbt_fixture = fx, tbt_classification = unsupported_classification l,
           tbt_authentication = unattempted_authentication (target_adapter target),
           tbt_config = config, tbt_operations = [],
           tbt_pagination = PaginationNotEvaluated (unsupported_reason l),
           tbt_assertions = not_evaluated_assertions s (unsupported_reason l),
           tbt_sanitization = sanitization_of [] False\<rparr>)"

definition table_stage ::
  "table_lib \<Rightarrow> probe_target \<Rightarrow> table_fixture \<Rightarrow> table_create_locations \<Rightarrow> routing_negotiation
   \<Rightarrow> ('w operation_recorder \<times> 'w, pagination_transcript \<times> table_facts) probe" where
  "table_stage L target fx locations routing =
     (let facts = table_facts_new (att_failure (neg_authentication routing) = None) (neg_config_routing routing);
          skipped = (\<lambda>reason. probe_return (PaginationNotEvaluated reason, skip_table_scenario reason facts))
      in case and_then (ok_or (neg_codec routing) ''table routing unavailable after config negotiation'')
                (\<lambda>codec. routes_new (target_adapter target) (rct_prefix (neg_config routing)) codec ''table'') of
           Inl error \<Rightarrow> skipped error
         | Inr r \<Rightarrow>
             if fact_passed (neg_config_routing routing) then
               execute_table_workflow L r fx locations (optional_operations_of (target_adapter target)) facts
             else skipped (fact_explanation (neg_config_routing routing) ''config routing did not pass''))"

definition table_evaluate ::
  "table_lib \<Rightarrow> profile \<Rightarrow> scenario \<Rightarrow> contract_digests \<Rightarrow> probe_target \<Rightarrow> table_fixture
   \<Rightarrow> routing_negotiation \<Rightarrow> pagination_transcript \<Rightarrow> table_facts \<Rightarrow> 'w operation_recorder
   \<Rightarrow> string + table_transcript" where
  "table_evaluate L p s digests target fx routing pagination facts rcd =
     (let authentication = neg_authentication routing;
          (operations, operation_redactions) = recorder_finish rcd;
          redactions = remdups_adj (sort (neg_redactions routing @ operation_redactions))
      in and_then (encode_evidence (tl_encode L)
                     (att_transcript authentication, neg_config routing, operations, pagination)) (\<lambda>serialized.
           let sanitized = (\<not> contains_sensitive_value serialized (att_sensitive_values authentication));
               assertions = evaluate_table_assertions s (facts\<lparr>tf_transcript_sanitized :=
                 fact_from_bool sanitized ''sanitized evidence still contains a sensitive runtime value''\<rparr>)
           in Ok \<lparr>tbt_format = TABLE_TRANSCRIPT_FORMAT, tbt_profile = prof_ident p,
                tbt_scenario = transcript_scenario_of s, tbt_contract_digests = digests,
                tbt_adapter = transcript_adapter (target_adapter target) (target_component target),
                tbt_fixture = fx,
                tbt_classification =
                  (if passed_required_assertions assertions then ProbePass
                   else ProbeFail ''one or more required table-behavior assertions did not pass''),
                tbt_authentication = att_transcript authentication, tbt_config = neg_config routing,
                tbt_operations = operations, tbt_pagination = pagination, tbt_assertions = assertions,
                tbt_sanitization = sanitization_of redactions (\<not> sanitized)\<rparr>))"

definition run_table_probe ::
  "table_lib \<Rightarrow> (u64 \<Rightarrow> string + 'w http_client) \<Rightarrow> profile \<Rightarrow> scenario \<Rightarrow> component_id \<Rightarrow> string
   \<Rightarrow> contract_digests \<Rightarrow> (string \<Rightarrow> string option) \<Rightarrow> 'w \<Rightarrow> (string + table_transcript) \<times> 'w" where
  "run_table_probe L http_client_new p s catalog fixture_id digests getenv w =
     (case and_then (table_validate_invocation p s catalog) (\<lambda>_.
           and_then (resolve_target p s catalog) (\<lambda>target.
           and_then (table_fixture_new catalog fixture_id) (\<lambda>fx. Ok (target, fx)))) of
        Inl error \<Rightarrow> (Err error, w)
      | Inr (target, fx) \<Rightarrow>
          (case first_required_limitation target s of
             Some l \<Rightarrow> (table_unsupported L p s digests target fx l, w)
           | None \<Rightarrow>
               (case and_then (create_locations_new (tl_web L)
                            (create_table_location (adapter_endpoint (target_adapter target)))) (\<lambda>locations.
                     and_then (http_client_new 30000) (\<lambda>client. Ok (locations, client))) of
                  Inl error \<Rightarrow> (Err error, w)
                | Inr (locations, client) \<Rightarrow>
                    (case negotiate_routing (tl_web L) client (target_adapter target) getenv w of
                       (Inl error, w1) \<Rightarrow> (Err error, w1)
                     | (Inr routing, w1) \<Rightarrow>
                         (case table_stage L target fx locations routing
                                 (recorder_new client (att_bearer_token (neg_authentication routing))
                                    (att_sensitive_values (neg_authentication routing)), w1) of
                            (Inl error, (rcd, w2)) \<Rightarrow> (Err error, w2)
                          | (Inr (pagination, facts), (rcd, w2)) \<Rightarrow>
                              (table_evaluate L p s digests target fx routing pagination facts rcd, w2))))))"

end
