(* ===== verification/Conf_Table_Run.thy ===== *)
theory Conf_Table_Run
  imports Conf_Table
begin

text \<open>
  Properties of the table probe: the discipline of its requests, what each passed check has seen in
  the answers of the catalog, and what a passing transcript has established.
\<close>

section \<open>Requests of the workflow\<close>

definition table_url :: "table_lib \<Rightarrow> catalog_routes \<Rightarrow> table_identifier \<Rightarrow> url" where
  "table_url L r t = projr (route_of_table (tl_web L) r t)"

definition dropping_url :: "table_lib \<Rightarrow> catalog_routes \<Rightarrow> table_identifier \<Rightarrow> url" where
  "dropping_url L r t = projr (table_drop_url (tl_web L) r t)"

definition fixture_url :: "table_lib \<Rightarrow> catalog_routes \<Rightarrow> table_fixture \<Rightarrow> url" where
  "fixture_url L r fx = projr (route_namespace (tl_web L) r (tfx_namespace fx))"

definition collection_url :: "table_lib \<Rightarrow> catalog_routes \<Rightarrow> table_identifier \<Rightarrow> url" where
  "collection_url L r t = projr (route_table_collection (tl_web L) r (tid_namespace t))"

text \<open>The table of a name in the namespace of the fixture.\<close>

definition named_url :: "table_lib \<Rightarrow> catalog_routes \<Rightarrow> table_fixture \<Rightarrow> table_identifier \<Rightarrow> url" where
  "named_url L r fx t = projr (route_table (tl_web L) r (tfx_namespace fx) (tid_name t))"

text \<open>The bodies of the requests that create a table, rename the first and register the second again.\<close>

definition creates_table :: "table_lib \<Rightarrow> table_create_locations \<Rightarrow> table_identifier \<Rightarrow> exchange \<Rightarrow> bool" where
  "creates_table L locations t x \<longleftrightarrow>
     (\<exists>location. location_for_table (tl_web L) locations (tid_namespace t) (tid_name t) = Ok location
        \<and> rq_body (fst x) =
            JsonBody (committed_table_request (tid_name t) location requested_schema initial_properties))"

definition renaming :: "table_fixture \<Rightarrow> json" where
  "renaming fx =
     JObject [(''destination'', table_identifier_json (tfx_renamed fx)),
              (''source'', table_identifier_json (tfx_primary fx))]"

definition registration :: "table_fixture \<Rightarrow> string \<Rightarrow> json" where
  "registration fx metadata_location =
     JObject [(''metadata-location'', JString metadata_location),
              (''name'', JString (tid_name (tfx_registered fx))), (''overwrite'', JBool False)]"

text \<open>
  A request of the work on an absent fixture: it reads, or it creates the namespace or one of the two
  tables of the fixture as requested, updates the first table, renames it to the name kept for that,
  drops the second without purging, or registers a metadata file under the name kept for that,
  overwriting nothing.
\<close>

definition table_request ::
  "table_lib \<Rightarrow> catalog_routes \<Rightarrow> table_create_locations \<Rightarrow> table_fixture \<Rightarrow> exchange \<Rightarrow> bool" where
  "table_request L r locations fx x \<longleftrightarrow>
     is_read x
     \<or> request_line x = (POST, projr (route_namespace_collection (tl_web L) r))
       \<and> rq_body (fst x) = JsonBody (create_fixture_body (tfx_namespace fx))
     \<or> request_line x = (POST, collection_url L r (tfx_primary fx)) \<and> creates_table L locations (tfx_primary fx) x
     \<or> request_line x = (POST, collection_url L r (tfx_sibling fx)) \<and> creates_table L locations (tfx_sibling fx) x
     \<or> request_line x = (POST, named_url L r fx (tfx_primary fx)) \<and> rq_body (fst x) = JsonBody update_properties_body
     \<or> request_line x = (POST, projr (route_table_rename (tl_web L) r)) \<and> rq_body (fst x) = JsonBody (renaming fx)
     \<or> request_line x = (DELETE, dropping_url L r (tfx_sibling fx))
     \<or> request_line x = (POST, projr (route_table_register (tl_web L) r (tid_namespace (tfx_registered fx))))
       \<and> (\<exists>metadata_location. rq_body (fst x) = JsonBody (registration fx metadata_location))"

definition table_cleanup_lines :: "table_lib \<Rightarrow> catalog_routes \<Rightarrow> table_fixture \<Rightarrow> (http_method \<times> url) list" where
  "table_cleanup_lines L r fx =
     map (\<lambda>t. (DELETE, dropping_url L r t)) (table_candidates fx)
     @ map (\<lambda>t. (GET, table_url L r t)) (table_candidates fx)
     @ [(DELETE, fixture_url L r fx), (GET, fixture_url L r fx)]"

lemma table_drop_url_ok: "usable lib r \<Longrightarrow> is_ok (table_drop_url lib r t)"
  using usable_routes(7) [of lib r "tid_namespace t" "tid_name t"]
  by (metis and_then_simps(2) is_ok_simps(2) table_drop_url_def)

lemma route_of_table_ok: "usable lib r \<Longrightarrow> is_ok (route_of_table lib r t)"
  by (simp add: route_of_table_def usable_is_ok)

lemmas table_routes_ok = usable_is_ok table_drop_url_ok route_of_table_ok

lemma is_ok_projr: "is_ok route \<Longrightarrow> route = Ok (projr route)"
  by (auto simp: is_ok_def split: sum.splits)

section \<open>What the answers have shown\<close>

text \<open>The answer to a request, read under the identifier of the operation, is the snapshot of a table.\<close>

definition table_answer ::
  "table_lib \<Rightarrow> string list \<Rightarrow> string \<Rightarrow> http_method \<Rightarrow> url \<Rightarrow> exchange \<Rightarrow> probe_table_snapshot \<Rightarrow> bool" where
  "table_answer L sens ident m u x snapshot \<longleftrightarrow>
     request_line x = (m, u)
     \<and> parse_table_snapshot (tl_load L) (observation_of (tl_web L) sens ident (snd x)) 200 = Ok snapshot"

definition same_table :: "probe_table_snapshot \<Rightarrow> probe_table_snapshot \<Rightarrow> bool" where
  "same_table a b \<longleftrightarrow> pts_uuid a = pts_uuid b \<and> pts_metadata_location a = pts_metadata_location b
     \<and> pts_location a = pts_location b \<and> pts_schema a = pts_schema b"

definition as_requested :: "string option \<Rightarrow> probe_table_snapshot \<Rightarrow> bool" where
  "as_requested location snapshot \<longleftrightarrow>
     validate_requested_schema (pts_schema snapshot) = Ok ()
     \<and> (\<forall>l. location = Some l \<longrightarrow> pts_location snapshot = l)
     \<and> (\<forall>key v. map_of initial_properties key = Some v \<longrightarrow> map_of (pts_properties snapshot) key = Some v)"

definition table_created ::
  "table_lib \<Rightarrow> catalog_routes \<Rightarrow> string list \<Rightarrow> table_create_locations \<Rightarrow> table_identifier \<Rightarrow> string
   \<Rightarrow> exchange list \<Rightarrow> probe_table_snapshot \<Rightarrow> bool" where
  "table_created L r sens locations t ident xs snapshot \<longleftrightarrow>
     (\<exists>x location. x \<in> set xs \<and> creates_table L locations t x
        \<and> location_for_table (tl_web L) locations (tid_namespace t) (tid_name t) = Ok location
        \<and> table_answer L sens ident POST (collection_url L r t) x snapshot \<and> as_requested location snapshot)"

text \<open>Two tables with different UUIDs were created as requested.\<close>

definition tables_created ::
  "table_lib \<Rightarrow> catalog_routes \<Rightarrow> string list \<Rightarrow> table_create_locations \<Rightarrow> table_fixture \<Rightarrow> exchange list \<Rightarrow> bool" where
  "tables_created L r sens locations fx xs \<longleftrightarrow>
     (\<exists>p s. table_created L r sens locations (tfx_primary fx) ''create-primary'' xs p
        \<and> table_created L r sens locations (tfx_sibling fx) ''create-sibling'' xs s \<and> pts_uuid p \<noteq> pts_uuid s)"

text \<open>A request that was refused with an Iceberg error of the given status and type.\<close>

definition refused ::
  "table_lib \<Rightarrow> string list \<Rightarrow> string \<Rightarrow> http_method \<Rightarrow> url \<Rightarrow> u16 \<Rightarrow> string \<Rightarrow> exchange \<Rightarrow> bool" where
  "refused L sens ident m u status kind x \<longleftrightarrow>
     request_line x = (m, u) \<and> answered [status] x
     \<and> (\<exists>v error. obs_private_json (observation_of (tl_web L) sens ident (snd x)) = Some v
          \<and> tl_error L v = Ok error \<and> ie_code error = status \<and> ie_type error = kind)"

text \<open>The catalog confirmed the namespace of the fixture under its name.\<close>

definition namespace_made ::
  "table_lib \<Rightarrow> catalog_routes \<Rightarrow> string list \<Rightarrow> table_fixture \<Rightarrow> exchange list \<Rightarrow> bool" where
  "namespace_made L r sens fx xs \<longleftrightarrow>
     (\<exists>x v. x \<in> set xs \<and> request_line x = (POST, projr (route_namespace_collection (tl_web L) r))
        \<and> rq_body (fst x) = JsonBody (create_fixture_body (tfx_namespace fx)) \<and> answered [200] x
        \<and> obs_private_json (observation_of (tl_web L) sens ''create-namespace'' (snd x)) = Some v
        \<and> tl_namespace L v = Ok (tfx_namespace fx))"

text \<open>A listing of the namespace named exactly the two tables, each once.\<close>

definition tables_listed ::
  "table_lib \<Rightarrow> catalog_routes \<Rightarrow> string list \<Rightarrow> table_fixture \<Rightarrow> exchange list \<Rightarrow> bool" where
  "tables_listed L r sens fx xs \<longleftrightarrow>
     (\<exists>x v listing. x \<in> set xs
        \<and> request_line x = (GET, projr (route_table_collection (tl_web L) r (tfx_namespace fx))) \<and> answered [200] x
        \<and> obs_private_json (observation_of (tl_web L) sens ''list-tables'' (snd x)) = Some v
        \<and> tl_listing L v = Ok listing
        \<and> distinct (map (\<lambda>t. (wti_namespace t, wti_name t)) (ltb_identifiers listing))
        \<and> set (map (\<lambda>t. TableIdentifier (wti_namespace t) (wti_name t)) (ltb_identifiers listing))
            = {tfx_primary fx, tfx_sibling fx})"

definition table_loaded ::
  "table_lib \<Rightarrow> catalog_routes \<Rightarrow> string list \<Rightarrow> table_identifier \<Rightarrow> string \<Rightarrow> exchange list \<Rightarrow> probe_table_snapshot \<Rightarrow> bool" where
  "table_loaded L r sens t ident xs snapshot \<longleftrightarrow>
     (\<exists>x \<in> set xs. table_answer L sens ident GET (table_url L r t) x snapshot)"

text \<open>Both tables were loaded as they were created.\<close>

definition tables_loaded ::
  "table_lib \<Rightarrow> catalog_routes \<Rightarrow> string list \<Rightarrow> table_create_locations \<Rightarrow> table_fixture \<Rightarrow> exchange list \<Rightarrow> bool" where
  "tables_loaded L r sens locations fx xs \<longleftrightarrow>
     (\<exists>p s p' s'. table_created L r sens locations (tfx_primary fx) ''create-primary'' xs p
        \<and> table_created L r sens locations (tfx_sibling fx) ''create-sibling'' xs s
        \<and> table_loaded L r sens (tfx_primary fx) ''load-primary'' xs p' \<and> same_table p' p
        \<and> table_loaded L r sens (tfx_sibling fx) ''load-sibling'' xs s' \<and> same_table s' s)"

text \<open>Creating the first table again was refused.\<close>

definition duplicate_refused ::
  "table_lib \<Rightarrow> catalog_routes \<Rightarrow> string list \<Rightarrow> table_create_locations \<Rightarrow> table_fixture \<Rightarrow> exchange list \<Rightarrow> bool" where
  "duplicate_refused L r sens locations fx xs \<longleftrightarrow>
     (\<exists>ys x zs p. xs = ys @ x # zs
        \<and> table_created L r sens locations (tfx_primary fx) ''create-primary'' ys p
        \<and> creates_table L locations (tfx_primary fx) x
        \<and> refused L sens ''create-primary-duplicate'' POST (collection_url L r (tfx_primary fx)) 409
            ''AlreadyExistsException'' x)"

text \<open>A table and a namespace that do not exist were answered as such.\<close>

definition missing_table_refused ::
  "table_lib \<Rightarrow> catalog_routes \<Rightarrow> string list \<Rightarrow> table_fixture \<Rightarrow> exchange list \<Rightarrow> bool" where
  "missing_table_refused L r sens fx xs \<longleftrightarrow>
     (\<exists>x \<in> set xs. refused L sens ''load-missing-table'' GET (table_url L r (tfx_missing fx)) 404
        ''NoSuchTableException'' x)"

definition missing_namespace_refused ::
  "table_lib \<Rightarrow> catalog_routes \<Rightarrow> string list \<Rightarrow> table_fixture \<Rightarrow> exchange list \<Rightarrow> bool" where
  "missing_namespace_refused L r sens fx xs \<longleftrightarrow>
     (\<exists>x \<in> set xs. refused L sens ''list-tables-missing-namespace'' GET
        (projr (route_table_collection (tl_web L) r (tfx_missing_namespace fx))) 404 ''NoSuchNamespaceException'' x)"

text \<open>What an update keeps and changes.\<close>

definition properties_updated :: "probe_table_snapshot \<Rightarrow> probe_table_snapshot \<Rightarrow> bool" where
  "properties_updated before after \<longleftrightarrow>
     pts_uuid after = pts_uuid before \<and> pts_schema after = pts_schema before
     \<and> pts_metadata_location after \<noteq> pts_metadata_location before
     \<and> map_of (pts_properties after) TB_OWNER_PROPERTY = Some ''catalog-bench''
     \<and> map_of (pts_properties after) TB_STATE_PROPERTY = Some ''after''
     \<and> map_of (pts_properties after) TB_REMOVE_PROPERTY = None"

definition table_updated ::
  "table_lib \<Rightarrow> catalog_routes \<Rightarrow> string list \<Rightarrow> table_fixture \<Rightarrow> exchange list \<Rightarrow> probe_table_snapshot \<Rightarrow> bool" where
  "table_updated L r sens fx xs after \<longleftrightarrow>
     (\<exists>ys x y zs before committed. xs = ys @ [x, y] @ zs
        \<and> table_loaded L r sens (tfx_primary fx) ''load-primary'' ys before
        \<and> table_answer L sens ''update-primary-properties'' POST (named_url L r fx (tfx_primary fx)) x committed
        \<and> rq_body (fst x) = JsonBody update_properties_body
        \<and> table_answer L sens ''reload-primary-after-update'' GET (named_url L r fx (tfx_primary fx)) y after
        \<and> properties_updated before committed \<and> same_table after committed
        \<and> pts_properties after = pts_properties committed)"

definition table_renamed ::
  "table_lib \<Rightarrow> catalog_routes \<Rightarrow> string list \<Rightarrow> table_fixture \<Rightarrow> exchange list \<Rightarrow> bool" where
  "table_renamed L r sens fx xs \<longleftrightarrow>
     (\<exists>ys x y z zs before renamed. xs = ys @ [x, y, z] @ zs
        \<and> table_updated L r sens fx ys before
        \<and> request_line x = (POST, projr (route_table_rename (tl_web L) r)) \<and> answered [204] x
        \<and> rq_body (fst x) = JsonBody (renaming fx)
        \<and> request_line y = (GET, named_url L r fx (tfx_primary fx)) \<and> answered [404] y
        \<and> table_answer L sens ''load-renamed-after-rename'' GET (named_url L r fx (tfx_renamed fx)) z renamed
        \<and> same_table renamed before)"

definition sibling_dropped ::
  "table_lib \<Rightarrow> catalog_routes \<Rightarrow> string list \<Rightarrow> table_fixture \<Rightarrow> exchange list \<Rightarrow> probe_table_snapshot \<Rightarrow> bool" where
  "sibling_dropped L r sens fx xs before \<longleftrightarrow>
     (\<exists>ys x y zs. xs = ys @ [x, y] @ zs
        \<and> table_loaded L r sens (tfx_sibling fx) ''load-sibling'' ys before
        \<and> request_line x = (DELETE, dropping_url L r (tfx_sibling fx)) \<and> answered [204] x
        \<and> request_line y = (GET, table_url L r (tfx_sibling fx)) \<and> answered [404] y)"

definition sibling_registered ::
  "table_lib \<Rightarrow> catalog_routes \<Rightarrow> string list \<Rightarrow> table_fixture \<Rightarrow> exchange list \<Rightarrow> bool" where
  "sibling_registered L r sens fx xs \<longleftrightarrow>
     (\<exists>ys x y zs source first loaded. xs = ys @ [x, y] @ zs
        \<and> sibling_dropped L r sens fx ys source
        \<and> table_answer L sens ''register-sibling-metadata'' POST
            (projr (route_table_register (tl_web L) r (tid_namespace (tfx_registered fx)))) x first
        \<and> rq_body (fst x) = JsonBody (registration fx (pts_metadata_location source))
        \<and> same_table first source
        \<and> table_answer L sens ''load-registered-after-register'' GET (table_url L r (tfx_registered fx)) y loaded
        \<and> same_table loaded source)"

subsection \<open>Pagination\<close>

lemma parse_identifiers_distinct: "parse_identifiers identifiers = Ok parsed \<Longrightarrow> distinct parsed"
  by (auto simp: parse_identifiers_def and_then_eq_Inr Let_def split: if_splits)

interpretation tb_pages: page_reading "table_reader L fx" "\<lambda>tables. tables = {tfx_primary fx, tfx_sibling fx}" for L fx
  by unfold_locales
    (auto simp: table_reader_def and_then_eq_Inr validate_complete_table_set_def Let_def
      dest: parse_identifiers_distinct split: if_splits)

text \<open>The exchanges are a complete traversal of a listing with exactly the two tables of the fixture.\<close>

definition tables_paged ::
  "table_lib \<Rightarrow> catalog_routes \<Rightarrow> string list \<Rightarrow> table_fixture \<Rightarrow> exchange list \<Rightarrow> pagination_transcript \<Rightarrow> bool" where
  "tables_paged L r sens fx xs pagination \<longleftrightarrow>
     (\<exists>tables. paged (tl_web L) (table_reader L fx) TB_LIST
          (\<lambda>token. route_table_page (tl_web L) r (tfx_namespace fx) token PAGE_SIZE) sens 1 [] xs tables
        \<and> distinct tables \<and> set tables = {tfx_primary fx, tfx_sibling fx}
        \<and> length xs \<le> MAXIMUM_PAGES
        \<and> (pagination = Paginated (length xs) (length tables)
           \<or> length xs = 1 \<and> pagination = UnpaginatedFallback (length tables)))"

definition paging_shown ::
  "table_lib \<Rightarrow> catalog_routes \<Rightarrow> string list \<Rightarrow> table_fixture \<Rightarrow> exchange list \<Rightarrow> pagination_transcript \<Rightarrow> bool" where
  "paging_shown L r sens fx xs pagination \<longleftrightarrow>
     (\<exists>ys pages zs. xs = ys @ pages @ zs \<and> tables_paged L r sens fx pages pagination)"

lemma paging_shown_grows: "paging_shown L r sens fx xs pagination \<Longrightarrow> paging_shown L r sens fx (xs @ zs) pagination"
  unfolding paging_shown_def by (metis append.assoc)

lemma table_pages_traces:
  assumes "usable (tl_web L) r"
  shows "probe_traces client bearer sens (traverse_table_pages L r fx)
      (\<lambda>xs res. \<exists>pagination result. res = Ok (pagination, result) \<and> list_all is_read xs
        \<and> (result = Ok () \<longrightarrow> tables_paged L r sens fx xs pagination))"
  unfolding traverse_table_pages_def
  by (rule rec.traces_weaken [OF tb_pages.traverse_pages_traces [OF usable_is_ok(5) [OF assms]]])
    (auto simp: pages_complete_def tables_paged_def)

text \<open>What the facts of a workflow claim about the exchanges so far.\<close>

definition table_shown ::
  "table_lib \<Rightarrow> catalog_routes \<Rightarrow> string list \<Rightarrow> table_create_locations \<Rightarrow> table_fixture \<Rightarrow> pagination_transcript
   \<Rightarrow> exchange list \<Rightarrow> table_facts \<Rightarrow> bool" where
  "table_shown L r sens locations fx pg xs facts \<longleftrightarrow>
     (fact_passed (tf_fixture_namespace facts) \<longrightarrow> namespace_made L r sens fx xs)
     \<and> (fact_passed (tf_create facts) \<longrightarrow> tables_created L r sens locations fx xs)
     \<and> (fact_passed (tf_list facts) \<longrightarrow> tables_listed L r sens fx xs)
     \<and> (fact_passed (tf_load facts) \<longrightarrow> tables_loaded L r sens locations fx xs)
     \<and> (fact_passed (tf_pagination facts) \<longrightarrow> paging_shown L r sens fx xs pg)
     \<and> (fact_passed (tf_update facts) \<longrightarrow> (\<exists>after. table_updated L r sens fx xs after))
     \<and> (fact_passed (tf_duplicate facts) \<longrightarrow> duplicate_refused L r sens locations fx xs)
     \<and> (fact_passed (tf_missing_table facts) \<longrightarrow> missing_table_refused L r sens fx xs)
     \<and> (fact_passed (tf_missing_namespace facts) \<longrightarrow> missing_namespace_refused L r sens fx xs)
     \<and> (fact_passed (tf_rename facts) \<longrightarrow> table_renamed L r sens fx xs)
     \<and> (fact_passed (tf_drop_table facts) \<longrightarrow> (\<exists>before. sibling_dropped L r sens fx xs before))
     \<and> (fact_passed (tf_register facts) \<longrightarrow> sibling_registered L r sens fx xs)"

lemma shown_grows:
  "table_created L r sens locations t ident xs p \<Longrightarrow> table_created L r sens locations t ident (xs @ zs) p"
  "tables_created L r sens locations fx xs \<Longrightarrow> tables_created L r sens locations fx (xs @ zs)"
  "table_loaded L r sens t ident xs p \<Longrightarrow> table_loaded L r sens t ident (xs @ zs) p"
  "table_updated L r sens fx xs p \<Longrightarrow> table_updated L r sens fx (xs @ zs) p"
  "table_renamed L r sens fx xs \<Longrightarrow> table_renamed L r sens fx (xs @ zs)"
  "sibling_dropped L r sens fx xs p \<Longrightarrow> sibling_dropped L r sens fx (xs @ zs) p"
  "sibling_registered L r sens fx xs \<Longrightarrow> sibling_registered L r sens fx (xs @ zs)"
  "namespace_made L r sens fx xs \<Longrightarrow> namespace_made L r sens fx (xs @ zs)"
  "tables_listed L r sens fx xs \<Longrightarrow> tables_listed L r sens fx (xs @ zs)"
  "tables_loaded L r sens locations fx xs \<Longrightarrow> tables_loaded L r sens locations fx (xs @ zs)"
  "duplicate_refused L r sens locations fx xs \<Longrightarrow> duplicate_refused L r sens locations fx (xs @ zs)"
  "missing_table_refused L r sens fx xs \<Longrightarrow> missing_table_refused L r sens fx (xs @ zs)"
  "missing_namespace_refused L r sens fx xs \<Longrightarrow> missing_namespace_refused L r sens fx (xs @ zs)"
proof -
  show created: "table_created L r sens locations t ident (xs @ zs) p"
    if "table_created L r sens locations t ident xs p" for t ident p
    using that by (auto simp: table_created_def)
  show "tables_created L r sens locations fx (xs @ zs)" if "tables_created L r sens locations fx xs"
    using that created unfolding tables_created_def by blast
  show loaded: "table_loaded L r sens t ident (xs @ zs) p" if "table_loaded L r sens t ident xs p" for t ident p
    using that by (auto simp: table_loaded_def)
  show "tables_loaded L r sens locations fx (xs @ zs)" if "tables_loaded L r sens locations fx xs"
    using that created loaded unfolding tables_loaded_def by blast
  show "duplicate_refused L r sens locations fx (xs @ zs)" if "duplicate_refused L r sens locations fx xs"
    using that unfolding duplicate_refused_def by (metis append.assoc append_Cons)
  show "namespace_made L r sens fx (xs @ zs)" if "namespace_made L r sens fx xs"
    using that unfolding namespace_made_def set_append by blast
  show "tables_listed L r sens fx (xs @ zs)" if "tables_listed L r sens fx xs"
    using that unfolding tables_listed_def set_append by blast
  show "missing_table_refused L r sens fx (xs @ zs)" if "missing_table_refused L r sens fx xs"
    using that unfolding missing_table_refused_def set_append by blast
  show "missing_namespace_refused L r sens fx (xs @ zs)" if "missing_namespace_refused L r sens fx xs"
    using that unfolding missing_namespace_refused_def set_append by blast
  show "table_updated L r sens fx (xs @ zs) p" if "table_updated L r sens fx xs p"
    using that unfolding table_updated_def by (metis append.assoc)
  show "table_renamed L r sens fx (xs @ zs)" if "table_renamed L r sens fx xs"
    using that unfolding table_renamed_def by (metis append.assoc)
  show "sibling_dropped L r sens fx (xs @ zs) p" if "sibling_dropped L r sens fx xs p"
    using that unfolding sibling_dropped_def by (metis append.assoc)
  show "sibling_registered L r sens fx (xs @ zs)" if "sibling_registered L r sens fx xs"
    using that unfolding sibling_registered_def by (metis append.assoc)
qed

lemma table_shown_grows:
  "table_shown L r sens locations fx pg xs facts \<Longrightarrow> table_shown L r sens locations fx pg (xs @ zs) facts"
  unfolding table_shown_def by (blast intro: shown_grows paging_shown_grows)

section \<open>The checks\<close>

lemma validate_same_Ok: "validate_same_table_snapshot expected actual = Ok () \<longleftrightarrow> same_table actual expected"
  by (auto simp: validate_same_table_snapshot_def same_table_def)

lemma map_of_three:
  assumes "a \<noteq> b" "a \<noteq> c" "b \<noteq> c"
  shows "(\<forall>key v. map_of [(a, x), (b, y), (c, z)] key = Some v \<longrightarrow> m key = Some v) \<longleftrightarrow>
    m a = Some x \<and> m b = Some y \<and> m c = Some z"
proof (intro iffI allI impI)
  assume "\<forall>key v. map_of [(a, x), (b, y), (c, z)] key = Some v \<longrightarrow> m key = Some v"
  from this [rule_format, of a x] this [rule_format, of b y] this [rule_format, of c z]
  show "m a = Some x \<and> m b = Some y \<and> m c = Some z" using assms by simp
next
  fix key v
  assume "m a = Some x \<and> m b = Some y \<and> m c = Some z" "map_of [(a, x), (b, y), (c, z)] key = Some v"
  then show "m key = Some v" by (simp split: if_splits)
qed

lemma table_properties_distinct:
  "TB_REMOVE_PROPERTY \<noteq> TB_STATE_PROPERTY" "TB_REMOVE_PROPERTY \<noteq> TB_OWNER_PROPERTY"
  "TB_STATE_PROPERTY \<noteq> TB_OWNER_PROPERTY"
  by (simp_all add: TB_OWNER_PROPERTY_def TB_REMOVE_PROPERTY_def TB_STATE_PROPERTY_def)

lemma validate_initial_Ok:
  assumes "validate_initial_snapshot L ob location = Ok snapshot"
  shows "parse_table_snapshot (tl_load L) ob 200 = Ok snapshot \<and> as_requested location snapshot"
proof -
  have "parse_table_snapshot (tl_load L) ob 200 = Ok snapshot \<and> validate_requested_schema (pts_schema snapshot) = Ok ()
      \<and> (\<forall>l. location = Some l \<longrightarrow> pts_location snapshot = l)
      \<and> map_of (pts_properties snapshot) TB_OWNER_PROPERTY = Some ''catalog-bench''
      \<and> map_of (pts_properties snapshot) TB_REMOVE_PROPERTY = Some ''before''
      \<and> map_of (pts_properties snapshot) TB_STATE_PROPERTY = Some ''before''"
    using assms
    by (auto simp: validate_initial_snapshot_def and_then_eq_Inr split: option.splits if_splits bind_splits)
  then show ?thesis
    unfolding as_requested_def initial_properties_def map_of_three [OF table_properties_distinct] by blast
qed

lemma validate_update_Ok:
  assumes "validate_update L before update reload = Ok after"
  obtains committed where "parse_table_snapshot (tl_load L) update 200 = Ok committed"
    and "parse_table_snapshot (tl_load L) reload 200 = Ok after" and "properties_updated before committed"
    and "same_table after committed" and "pts_properties after = pts_properties committed"
proof -
  obtain committed where "parse_table_snapshot (tl_load L) update 200 = Ok committed" "properties_updated before committed"
      "parse_table_snapshot (tl_load L) reload 200 = Ok after" "validate_same_table_snapshot committed after = Ok ()"
      "pts_properties after = pts_properties committed"
    using assms
    by (auto simp: validate_update_def and_then_eq_Inr properties_updated_def split: if_splits)
  with that show ?thesis by (simp add: validate_same_Ok)
qed

lemma refusedI:
  assumes "validate_error_response (tl_error L) (observation_of (tl_web L) sens ident (snd x)) status kind = Ok ()"
    and "request_line x = (m, u)"
  shows "refused L sens ident m u status kind x"
  using assms answered_plain(2) [OF assms(1)] by (auto simp: refused_def validate_error_response_Ok)

lemma validate_created_namespace_Ok:
  assumes "validate_created_namespace debug_str decode (observation_of lib sens ident (snd x)) expected = Ok ()"
  shows "answered [200] x \<and> (\<exists>v. obs_private_json (observation_of lib sens ident (snd x)) = Some v \<and> decode v = Ok expected)"
proof -
  have "parse_json_response decode (observation_of lib sens ident (snd x)) 200 = Ok expected"
    using assms by (auto simp: validate_created_namespace_def and_then_eq_Inr namespace_from_parts_def split: if_splits)
  then show ?thesis
    by (auto simp: parse_json_response_Ok validate_status_Ok intro: answered_plain(1) [where lib = lib and sens = sens and ident = ident])
qed

lemma parse_identifiers_Ok:
  assumes "parse_identifiers ids = Ok tables"
  shows "distinct (map (\<lambda>t. (wti_namespace t, wti_name t)) ids)
    \<and> set (map (\<lambda>t. TableIdentifier (wti_namespace t) (wti_name t)) ids) = set tables"
proof -
  let ?f = "\<lambda>t. TableIdentifier (wti_namespace t) (wti_name t)"
  obtain parsed where parsed: "try_map (\<lambda>t. and_then (namespace_from_parts (wti_namespace t)) (\<lambda>ns.
        table_identifier_new ns (wti_name t))) ids = Ok parsed" "tables = sort (remdups parsed)" "length tables = length ids"
    using assms by (auto simp: parse_identifiers_def and_then_eq_Inr Let_def split: if_splits)
  have named: "parsed = map ?f ids"
    using parsed(1) by (induction ids arbitrary: parsed)
      (auto simp: and_then_eq_Inr namespace_from_parts_def table_identifier_new_def split: if_splits)
  then have "length (remdups (map ?f ids)) = length (map ?f ids)" using parsed(2,3) by simp
  then have "distinct (map ?f ids)" by (metis distinct_remdups length_remdups_eq)
  then show ?thesis using parsed(2) named by (auto simp: distinct_map inj_on_def)
qed

lemma validate_table_listing_Ok:
  assumes "validate_table_listing L (observation_of (tl_web L) sens ident (snd x)) [p, s] = Ok ()"
  shows "answered [200] x \<and> (\<exists>v listing. obs_private_json (observation_of (tl_web L) sens ident (snd x)) = Some v
    \<and> tl_listing L v = Ok listing
    \<and> distinct (map (\<lambda>t. (wti_namespace t, wti_name t)) (ltb_identifiers listing))
    \<and> set (map (\<lambda>t. TableIdentifier (wti_namespace t) (wti_name t)) (ltb_identifiers listing)) = {p, s})"
proof -
  obtain listing tables where l: "parse_json_response (tl_listing L) (observation_of (tl_web L) sens ident (snd x)) 200 = Ok listing"
      "parse_identifiers (ltb_identifiers listing) = Ok tables" "tables = sort (remdups [p, s])"
    using assms by (auto simp: validate_table_listing_def parse_table_listing_def validate_complete_table_set_def
        and_then_eq_Inr Let_def split: if_splits)
  have "set tables = {p, s}" by (simp add: l(3))
  moreover have "answered [200] x"
    using l(1) by (auto simp: parse_json_response_Ok validate_status_Ok
        intro: answered_plain(1) [where lib = "tl_web L" and sens = sens and ident = ident])
  ultimately show ?thesis
    using l(1) parse_identifiers_Ok [OF l(2)] unfolding parse_json_response_Ok by auto
qed

section \<open>The work on the fixture\<close>

definition table_work ::
  "table_lib \<Rightarrow> catalog_routes \<Rightarrow> string list \<Rightarrow> table_create_locations \<Rightarrow> table_fixture \<Rightarrow> pagination_transcript
   \<Rightarrow> table_facts \<Rightarrow> exchange list \<Rightarrow> bool" where
  "table_work L r sens locations fx pg facts xs \<longleftrightarrow>
     list_all (table_request L r locations fx) xs \<and> table_shown L r sens locations fx pg xs facts"

lemma table_work_append [intro]:
  "table_work L r sens locations fx pg facts xs \<Longrightarrow> list_all (table_request L r locations fx) zs
   \<Longrightarrow> table_work L r sens locations fx pg facts (xs @ zs)"
  by (simp add: table_work_def table_shown_grows)

lemma not_evaluated_not_passed [simp]: "\<not> fact_passed (FactNotEvaluated reason)"
  by (simp add: fact_passed_def)

lemma table_work_passed:
  assumes "table_work L r sens locations fx pg facts xs"
  shows "(fact_passed f \<Longrightarrow> tables_created L r sens locations fx xs)
      \<Longrightarrow> table_work L r sens locations fx pg (facts\<lparr>tf_create := f\<rparr>) xs"
    and "(fact_passed f \<Longrightarrow> \<exists>after. table_updated L r sens fx xs after)
      \<Longrightarrow> table_work L r sens locations fx pg (facts\<lparr>tf_update := f\<rparr>) xs"
    and "(fact_passed f \<Longrightarrow> table_renamed L r sens fx xs)
      \<Longrightarrow> table_work L r sens locations fx pg (facts\<lparr>tf_rename := f\<rparr>) xs"
    and "(fact_passed f \<Longrightarrow> \<exists>before. sibling_dropped L r sens fx xs before)
      \<Longrightarrow> table_work L r sens locations fx pg (facts\<lparr>tf_drop_table := f\<rparr>) xs"
    and "(fact_passed f \<Longrightarrow> sibling_registered L r sens fx xs)
      \<Longrightarrow> table_work L r sens locations fx pg (facts\<lparr>tf_register := f\<rparr>) xs"
    and "(fact_passed f \<Longrightarrow> paging_shown L r sens fx xs pagination)
      \<Longrightarrow> table_work L r sens locations fx pagination (facts\<lparr>tf_pagination := f\<rparr>) xs"
    and "(fact_passed f \<Longrightarrow> namespace_made L r sens fx xs)
      \<Longrightarrow> table_work L r sens locations fx pg (facts\<lparr>tf_fixture_namespace := f\<rparr>) xs"
    and "(fact_passed f \<Longrightarrow> tables_listed L r sens fx xs)
      \<Longrightarrow> table_work L r sens locations fx pg (facts\<lparr>tf_list := f\<rparr>) xs"
    and "(fact_passed f \<Longrightarrow> tables_loaded L r sens locations fx xs)
      \<Longrightarrow> table_work L r sens locations fx pg (facts\<lparr>tf_load := f\<rparr>) xs"
    and "(fact_passed f \<Longrightarrow> duplicate_refused L r sens locations fx xs)
      \<Longrightarrow> table_work L r sens locations fx pg (facts\<lparr>tf_duplicate := f\<rparr>) xs"
    and "(fact_passed f \<Longrightarrow> missing_table_refused L r sens fx xs)
      \<Longrightarrow> table_work L r sens locations fx pg (facts\<lparr>tf_missing_table := f\<rparr>) xs"
    and "(fact_passed f \<Longrightarrow> missing_namespace_refused L r sens fx xs)
      \<Longrightarrow> table_work L r sens locations fx pg (facts\<lparr>tf_missing_namespace := f\<rparr>) xs"
  using assms by (simp_all add: table_work_def table_shown_def)

lemma table_request_simps [simp]:
  "request_line x = (GET, u) \<Longrightarrow> table_request L r locations fx x"
  "request_line x = (POST, collection_url L r (tfx_primary fx)) \<Longrightarrow> creates_table L locations (tfx_primary fx) x
   \<Longrightarrow> table_request L r locations fx x"
  "request_line x = (POST, collection_url L r (tfx_sibling fx)) \<Longrightarrow> creates_table L locations (tfx_sibling fx) x
   \<Longrightarrow> table_request L r locations fx x"
  "request_line x = (POST, named_url L r fx (tfx_primary fx)) \<Longrightarrow> rq_body (fst x) = JsonBody update_properties_body
   \<Longrightarrow> table_request L r locations fx x"
  "request_line x = (POST, projr (route_table_rename (tl_web L) r)) \<Longrightarrow> rq_body (fst x) = JsonBody (renaming fx)
   \<Longrightarrow> table_request L r locations fx x"
  "request_line x = (DELETE, dropping_url L r (tfx_sibling fx)) \<Longrightarrow> table_request L r locations fx x"
  "request_line x = (POST, projr (route_table_register (tl_web L) r (tid_namespace (tfx_registered fx))))
   \<Longrightarrow> rq_body (fst x) = JsonBody (registration fx metadata_location) \<Longrightarrow> table_request L r locations fx x"
  by (auto simp: table_request_def is_read_def request_line_def)

lemma create_table_history:
  assumes "usable (tl_web L) r" and "is_ok (location_for_table (tl_web L) locations (tid_namespace t) (tid_name t))"
  shows "probe_triple client bearer sens Q (create_table L r locations t ident)
    (\<lambda>xs (ob, location). \<exists>ys x. xs = ys @ [x] \<and> Q ys \<and> request_line x = (POST, collection_url L r t)
       \<and> creates_table L locations t x
       \<and> location_for_table (tl_web L) locations (tid_namespace t) (tid_name t) = Ok location
       \<and> ob = observation_of (tl_web L) sens ident (snd x))"
proof -
  obtain location where location: "location_for_table (tl_web L) locations (tid_namespace t) (tid_name t) = Ok location"
    using assms(2) by (auto simp: is_ok_def split: sum.splits)
  show ?thesis
    unfolding create_table_def location probe_bind_Ok
    apply (rule rec.triple_bind [OF attempt_history])
     apply (rule table_routes_ok [OF assms(1)])
    apply (rule rec.triple_return)
    apply (auto simp: collection_url_def creates_table_def location)
    done
qed

lemma create_table_triple:
  assumes "usable (tl_web L) r" and "is_ok (location_for_table (tl_web L) locations (tid_namespace t) (tid_name t))"
    and "t = tfx_primary fx \<or> t = tfx_sibling fx"
  shows "probe_triple client bearer sens (table_work L r sens locations fx pg facts) (create_table L r locations t ident)
    (\<lambda>xs (ob, location). table_work L r sens locations fx pg facts xs
       \<and> (\<forall>snapshot. validate_initial_snapshot L ob location = Ok snapshot
            \<longrightarrow> table_created L r sens locations t ident xs snapshot))"
proof (rule rec.triple_conseq [OF create_table_history [OF assms(1,2), where Q = "table_work L r sens locations fx pg facts"]],
    assumption, clarify)
  fix ys x location
  assume x: "table_work L r sens locations fx pg facts ys" "request_line x = (POST, collection_url L r t)"
    "creates_table L locations t x"
    "location_for_table (tl_web L) locations (tid_namespace t) (tid_name t) = Ok location"
  have "table_request L r locations fx x" using assms(3) x(2,3) by auto
  then have "table_work L r sens locations fx pg facts (ys @ [x])" using table_work_append [OF x(1), of "[x]"] by simp
  moreover have "table_created L r sens locations t ident (ys @ [x]) snapshot"
    if "validate_initial_snapshot L (observation_of (tl_web L) sens ident (snd x)) location = Ok snapshot" for snapshot
    using validate_initial_Ok [OF that] x(2-) unfolding table_created_def table_answer_def
    by (intro exI [of _ x] exI [of _ location]) simp
  ultimately show "table_work L r sens locations fx pg facts (ys @ [x])
      \<and> (\<forall>snapshot. validate_initial_snapshot L (observation_of (tl_web L) sens ident (snd x)) location = Ok snapshot
        \<longrightarrow> table_created L r sens locations t ident (ys @ [x]) snapshot)"
    by blast
qed

text \<open>The blocks keep the invariant of the work; what they have shown is kept with them.\<close>

lemma list_tables_triple:
  assumes "usable (tl_web L) r"
  shows "probe_triple client bearer sens (table_work L r sens locations fx pg facts) (list_tables L r fx b facts)
    (\<lambda>xs facts'. table_work L r sens locations fx pg facts' xs)"
proof (cases b)
  case True
  let ?check = "\<lambda>x. validate_table_listing L (observation_of (tl_web L) sens ''list-tables'' (snd x)) [tfx_primary fx, tfx_sibling fx]"
  have work: "table_work L r sens locations fx pg (facts\<lparr>tf_list := fact_from_result (?check x)\<rparr>) (ys @ [x])"
    if "table_work L r sens locations fx pg facts ys"
      and x: "request_line x = (GET, projr (route_table_collection (tl_web L) r (tfx_namespace fx)))" for ys x
  proof (rule table_work_passed(8))
    show "table_work L r sens locations fx pg facts (ys @ [x])" using table_work_append [OF that(1), of "[x]"] x by simp
    assume "fact_passed (fact_from_result (?check x))"
    then have "?check x = Ok ()" by simp
    from validate_table_listing_Ok [OF this] x show "tables_listed L r sens fx (ys @ [x])"
      unfolding tables_listed_def by - (rule exI [of _ x], simp)
  qed
  show ?thesis
    using True unfolding list_tables_def
    apply (simp only: if_True)
    apply (rule rec.triple_bind [OF attempt_history])
     apply (rule table_routes_ok [OF assms])
    apply (rule rec.triple_return)
    apply (auto intro: work [of _ "(a, b)" for a b, unfolded snd_conv])
    done
next
  case False
  then show ?thesis
    unfolding list_tables_def Let_def
    by (auto intro!: rec.triple_Ok_return skip_all_triple table_work_passed)
qed

text \<open>A load passed only when it showed the table as it was created.\<close>

definition follows :: "string + probe_table_snapshot \<Rightarrow> string + probe_table_snapshot \<Rightarrow> bool" where
  "follows created loaded \<longleftrightarrow> (\<forall>s. loaded = Ok s \<longrightarrow> (\<exists>c. created = Ok c \<and> same_table s c))"

lemma load_created_triple:
  assumes "usable (tl_web L) r"
  shows "probe_triple client bearer sens (table_work L r sens locations fx pg facts)
    (load_created_table L r t ident (result_ok created))
    (\<lambda>xs result. table_work L r sens locations fx pg facts xs \<and> follows created result
       \<and> (\<forall>snapshot. result = Ok snapshot \<longrightarrow> table_loaded L r sens t ident xs snapshot))"
proof (cases created)
  case (Inl e)
  then show ?thesis
    unfolding load_created_table_def Let_def result_ok_def
    by (auto intro!: rec.triple_Ok_return skip_all_triple simp: follows_def)
next
  case (Inr snapshot)
  show ?thesis
    unfolding load_created_table_def Inr result_ok_def sum.case option.case
    apply (rule rec.triple_bind [OF attempt_history])
     apply (rule table_routes_ok [OF assms])
    apply (rule rec.triple_return)
    apply (fastforce simp: table_loaded_def table_answer_def table_url_def and_then_eq_Inr follows_def validate_same_Ok)
    done
qed

lemma update_primary_triple:
  assumes "usable (tl_web L) r"
  shows "probe_triple client bearer sens
    (\<lambda>xs. table_work L r sens locations fx pg facts xs
       \<and> (\<forall>before. loaded = Some before \<longrightarrow> table_loaded L r sens (tfx_primary fx) ''load-primary'' xs before))
    (update_primary L r fx loaded facts)
    (\<lambda>xs (updated, facts'). table_work L r sens locations fx pg facts' xs
       \<and> (\<forall>after. updated = Some after \<longrightarrow> table_updated L r sens fx xs after))"
proof (cases loaded)
  case None
  then show ?thesis
    unfolding update_primary_def Let_def
    by (auto intro!: rec.triple_Ok_return skip_all_triple table_work_passed)
next
  case (Some before)
  let ?u = "named_url L r fx (tfx_primary fx)"
  have shown: "table_updated L r sens fx (ys @ [x, y]) after"
    if "validate_update L before (observation_of (tl_web L) sens ''update-primary-properties'' (snd x))
        (observation_of (tl_web L) sens ''reload-primary-after-update'' (snd y)) = Ok after"
      and "table_loaded L r sens (tfx_primary fx) ''load-primary'' ys before"
      and "request_line x = (POST, ?u)" "rq_body (fst x) = JsonBody update_properties_body" "request_line y = (GET, ?u)"
    for ys x y after
    using validate_update_Ok [OF that(1)] that(2-) unfolding table_updated_def table_answer_def
    by (metis append_Nil2)
  have work: "table_work L r sens locations fx pg (facts\<lparr>tf_update := f\<rparr>) (ys @ [x, y])"
    if "table_work L r sens locations fx pg facts ys" "request_line x = (POST, ?u)" "request_line y = (GET, ?u)"
      and "rq_body (fst x) = JsonBody update_properties_body"
      and "fact_passed f \<Longrightarrow> \<exists>after. table_updated L r sens fx (ys @ [x, y]) after" for f ys x y
    using table_work_append [OF that(1), of "[x, y]"] that(2-) by (intro table_work_passed) auto
  show ?thesis
    unfolding update_primary_def Some option.case
    apply (rule rec.triple_bind [OF attempt_history])
     apply (rule table_routes_ok [OF assms])
    apply (rule rec.triple_bind [OF attempt_history])
     apply (rule table_routes_ok [OF assms])
    apply (rule rec.triple_return)
    apply (clarsimp simp: named_url_def [symmetric] split: sum.splits)
    apply (intro conjI allI impI)
     apply (auto intro!: work shown simp: fact_passed_def)
    done
qed

text \<open>The first table was created before.\<close>

definition primary_made ::
  "table_lib \<Rightarrow> catalog_routes \<Rightarrow> string list \<Rightarrow> table_create_locations \<Rightarrow> table_fixture \<Rightarrow> exchange list \<Rightarrow> bool" where
  "primary_made L r sens locations fx xs \<longleftrightarrow>
     (\<exists>p. table_created L r sens locations (tfx_primary fx) ''create-primary'' xs p)"

lemma create_duplicate_triple:
  assumes "usable (tl_web L) r"
    and "is_ok (location_for_table (tl_web L) locations (tid_namespace (tfx_primary fx)) (tid_name (tfx_primary fx)))"
  shows "probe_triple client bearer sens
    (\<lambda>xs. table_work L r sens locations fx pg facts xs \<and> (b \<longrightarrow> primary_made L r sens locations fx xs))
    (create_duplicate L r locations fx b facts) (\<lambda>xs facts'. table_work L r sens locations fx pg facts' xs)"
proof (cases b)
  case True
  let ?check = "\<lambda>x. validate_error_response (tl_error L)
      (observation_of (tl_web L) sens ''create-primary-duplicate'' (snd x)) 409 ''AlreadyExistsException''"
  have work: "table_work L r sens locations fx pg (facts\<lparr>tf_duplicate := fact_from_result (?check x)\<rparr>) (ys @ [x])"
    if "table_work L r sens locations fx pg facts ys" and made: "primary_made L r sens locations fx ys"
      and x: "request_line x = (POST, collection_url L r (tfx_primary fx))" "creates_table L locations (tfx_primary fx) x" for ys x
  proof (rule table_work_passed(10))
    show "table_work L r sens locations fx pg facts (ys @ [x])" using table_work_append [OF that(1), of "[x]"] x by simp
    assume "fact_passed (fact_from_result (?check x))"
    then have "refused L sens ''create-primary-duplicate'' POST (collection_url L r (tfx_primary fx)) 409 ''AlreadyExistsException'' x"
      using refusedI [OF _ x(1)] by simp
    then show "duplicate_refused L r sens locations fx (ys @ [x])"
      using made x(2) unfolding duplicate_refused_def primary_made_def by blast
  qed
  show ?thesis
    using True unfolding create_duplicate_def split_def
    by (auto intro!: rec.triple_Ok_return rec.triple_conseq [OF create_table_history [OF assms,
          where Q = "\<lambda>xs. table_work L r sens locations fx pg facts xs \<and> primary_made L r sens locations fx xs"]]
        work [of _ "(a, b)" for a b, unfolded snd_conv])
next
  case False
  then show ?thesis
    unfolding create_duplicate_def Let_def
    by (auto intro!: rec.triple_Ok_return skip_all_triple table_work_passed)
qed

lemma read_check_history:
  assumes "is_ok route"
  shows "probe_triple client bearer sens Q
    (probe_bind (attempt lib ident capability GET route None) (\<lambda>ob. probe_return (check ob)))
    (\<lambda>xs result. \<exists>ys x. xs = ys @ [x] \<and> Q ys \<and> request_line x = (GET, projr route)
       \<and> result = check (observation_of lib sens ident (snd x)))"
  by (rule rec.triple_bind [OF attempt_history [OF assms]], rule rec.triple_return) auto

lemma probe_missing_triple:
  assumes "usable (tl_web L) r"
  shows "probe_triple client bearer sens (table_work L r sens locations fx pg facts) (probe_missing L r fx facts)
    (\<lambda>xs facts'. table_work L r sens locations fx pg facts' xs)"
proof -
  let ?W = "table_work L r sens locations fx pg facts"
  have "probe_triple client bearer sens ?W (probe_missing_table L r (tfx_missing fx))
      (\<lambda>xs a. ?W xs \<and> (a = Ok () \<longrightarrow> missing_table_refused L r sens fx xs))"
    unfolding probe_missing_table_def
    by (rule rec.triple_conseq [OF read_check_history [OF table_routes_ok(9) [OF assms], where Q = ?W]])
      (auto simp: missing_table_refused_def table_url_def
        intro: refusedI [where x = "(a, b)" for a b, unfolded snd_conv])
  moreover have "probe_triple client bearer sens (\<lambda>xs. ?W xs \<and> (a = Ok () \<longrightarrow> missing_table_refused L r sens fx xs))
      (probe_missing_namespace L r (tfx_missing_namespace fx))
      (\<lambda>xs b. (?W xs \<and> (a = Ok () \<longrightarrow> missing_table_refused L r sens fx xs))
         \<and> (b = Ok () \<longrightarrow> missing_namespace_refused L r sens fx xs))" for a
    unfolding probe_missing_namespace_def
    by (rule rec.triple_conseq [OF read_check_history [OF table_routes_ok(3) [OF assms],
          where Q = "\<lambda>xs. ?W xs \<and> (a = Ok () \<longrightarrow> missing_table_refused L r sens fx xs)"]])
      (auto simp: missing_namespace_refused_def
        intro: refusedI [where x = "(a, b)" for a b, unfolded snd_conv] shown_grows)
  ultimately show ?thesis
    unfolding probe_missing_def
    by (auto intro!: rec.triple_bind rec.triple_return table_work_passed)
qed

lemma rename_primary_triple:
  assumes "usable (tl_web L) r"
  shows "probe_triple client bearer sens
    (\<lambda>xs. table_work L r sens locations fx pg facts xs \<and> (\<forall>after. updated = Some after \<longrightarrow> table_updated L r sens fx xs after))
    (rename_primary L r fx optional updated facts) (\<lambda>xs facts'. table_work L r sens locations fx pg facts' xs)"
proof (cases "oto_rename_limitation optional = None \<and> updated \<noteq> None")
  case False
  then show ?thesis
    unfolding rename_primary_def Let_def
    by (cases "oto_rename_limitation optional"; cases updated)
      (auto intro!: rec.triple_Ok_return skip_all_triple table_work_passed)
next
  case True
  then obtain before where updated: "updated = Some before" and unlimited: "oto_rename_limitation optional = None" by auto
  let ?x = "(POST, projr (route_table_rename (tl_web L) r))"
  let ?y = "(GET, named_url L r fx (tfx_primary fx))"
  let ?z = "(GET, named_url L r fx (tfx_renamed fx))"
  let ?seen = "\<lambda>ident x. observation_of (tl_web L) sens ident (snd x)"
  have shown: "table_renamed L r sens fx (ys @ [x, y, z])"
    if checked: "and_then (validate_status (?seen ''rename-primary'' x) [204]) (\<lambda>_.
        and_then (validate_error_response (tl_error L) (?seen ''load-primary-after-rename'' y) 404 ''NoSuchTableException'') (\<lambda>_.
        and_then (parse_table_snapshot (tl_load L) (?seen ''load-renamed-after-rename'' z) 200) (\<lambda>renamed.
          validate_same_table_snapshot before renamed))) = Ok ()"
      and history: "table_updated L r sens fx ys before" "request_line x = ?x" "request_line y = ?y" "request_line z = ?z"
        "rq_body (fst x) = JsonBody (renaming fx)"
    for ys x y z
  proof -
    obtain renamed where "answered [204] x" "answered [404] y" "same_table renamed before"
        "parse_table_snapshot (tl_load L) (?seen ''load-renamed-after-rename'' z) 200 = Ok renamed"
      using checked by (auto simp: and_then_eq_Inr validate_same_Ok dest: answered_plain)
    with history show ?thesis
      unfolding table_renamed_def table_answer_def
      by (intro exI [of _ ys] exI [of _ x] exI [of _ y] exI [of _ z] exI [of _ "[]"] exI [of _ before] exI [of _ renamed]) simp
  qed
  have work: "table_work L r sens locations fx pg (facts\<lparr>tf_rename := fact_from_result result\<rparr>) (ys @ [x, y, z])"
    if "table_work L r sens locations fx pg facts ys" "request_line x = ?x" "request_line y = ?y" "request_line z = ?z"
      and "rq_body (fst x) = JsonBody (renaming fx)"
      and "result = Ok () \<Longrightarrow> table_renamed L r sens fx (ys @ [x, y, z])" for result ys x y z
    using table_work_append [OF that(1), of "[x, y, z]"] that(2-) by (intro table_work_passed) auto
  show ?thesis
    unfolding rename_primary_def updated unlimited option.case attempt_rename_def
    apply (rule rec.triple_bind)
     apply (rule rec.triple_bind [OF attempt_history], rule table_routes_ok [OF assms])+
     apply (rule rec.triple_return [where R = "\<lambda>xs result. table_work L r sens locations fx pg
        (facts\<lparr>tf_rename := fact_from_result result\<rparr>) xs"])
     apply (clarsimp simp: named_url_def [symmetric] renaming_def [symmetric])
     apply (rule work; (assumption | rule shown)?)
     apply simp_all
    apply (rule rec.triple_return, simp)
    done
qed

lemma drop_loaded_sibling_triple:
  assumes "usable (tl_web L) r"
  shows "probe_triple client bearer sens
    (\<lambda>xs. table_work L r sens locations fx pg facts xs
       \<and> (\<forall>before. loaded = Some before \<longrightarrow> table_loaded L r sens (tfx_sibling fx) ''load-sibling'' xs before))
    (drop_loaded_sibling L r fx loaded facts)
    (\<lambda>xs (dropped, facts'). table_work L r sens locations fx pg facts' xs
       \<and> (\<forall>source. dropped = Some source \<longrightarrow> sibling_dropped L r sens fx xs source))"
proof (cases loaded)
  case None
  then show ?thesis
    unfolding drop_loaded_sibling_def Let_def
    by (auto intro!: rec.triple_Ok_return skip_all_triple table_work_passed)
next
  case (Some before)
  let ?x = "(DELETE, dropping_url L r (tfx_sibling fx))"
  let ?y = "(GET, table_url L r (tfx_sibling fx))"
  let ?seen = "\<lambda>ident x. observation_of (tl_web L) sens ident (snd x)"
  have shown: "sibling_dropped L r sens fx (ys @ [x, y]) before"
    if checked: "and_then (validate_status (?seen ''drop-sibling-without-purge'' x) [204]) (\<lambda>_.
        validate_error_response (tl_error L) (?seen ''load-sibling-after-drop'' y) 404 ''NoSuchTableException'') = Ok ()"
      and history: "table_loaded L r sens (tfx_sibling fx) ''load-sibling'' ys before" "request_line x = ?x" "request_line y = ?y"
    for ys x y
  proof -
    have "answered [204] x" "answered [404] y"
      using checked by (auto simp: and_then_eq_Inr dest: answered_plain)
    with history show ?thesis
      unfolding sibling_dropped_def
      by (intro exI [of _ ys] exI [of _ x] exI [of _ y] exI [of _ "[]"]) simp
  qed
  have work: "table_work L r sens locations fx pg (facts\<lparr>tf_drop_table := fact_from_result result\<rparr>) (ys @ [x, y])
      \<and> (is_ok result \<longrightarrow> sibling_dropped L r sens fx (ys @ [x, y]) before)"
    if "table_work L r sens locations fx pg facts ys" "request_line x = ?x" "request_line y = ?y"
      and "result = Ok () \<Longrightarrow> sibling_dropped L r sens fx (ys @ [x, y]) before" for result ys x y
    using table_work_append [OF that(1), of "[x, y]"] that(2-)
    by (cases result) (auto intro!: table_work_passed)
  show ?thesis
    unfolding drop_loaded_sibling_def Some option.case drop_sibling_def
    apply (rule rec.triple_bind)
     apply (rule rec.triple_bind [OF attempt_history], rule table_routes_ok [OF assms])+
     apply (rule rec.triple_return [where R = "\<lambda>xs result. table_work L r sens locations fx pg
        (facts\<lparr>tf_drop_table := fact_from_result result\<rparr>) xs \<and> (is_ok result \<longrightarrow> sibling_dropped L r sens fx xs before)"])
     apply (clarsimp simp: dropping_url_def [symmetric] table_url_def [symmetric] simp del: imp_disjL)
     apply (rule work; (assumption | rule shown)?)
     apply simp_all
    apply (auto intro!: rec.triple_return)
    done
qed

lemma register_sibling_triple:
  assumes "usable (tl_web L) r"
  shows "probe_triple client bearer sens
    (\<lambda>xs. table_work L r sens locations fx pg facts xs \<and> (\<forall>source. dropped = Some source \<longrightarrow> sibling_dropped L r sens fx xs source))
    (register_sibling L r fx optional dropped facts) (\<lambda>xs facts'. table_work L r sens locations fx pg facts' xs)"
proof (cases "oto_register_limitation optional = None \<and> dropped \<noteq> None")
  case False
  then show ?thesis
    unfolding register_sibling_def Let_def
    by (cases "oto_register_limitation optional"; cases dropped)
      (auto intro!: rec.triple_Ok_return skip_all_triple table_work_passed)
next
  case True
  then obtain source where dropped: "dropped = Some source" and unlimited: "oto_register_limitation optional = None" by auto
  let ?x = "(POST, projr (route_table_register (tl_web L) r (tid_namespace (tfx_registered fx))))"
  let ?y = "(GET, table_url L r (tfx_registered fx))"
  let ?seen = "\<lambda>ident x. observation_of (tl_web L) sens ident (snd x)"
  have shown: "sibling_registered L r sens fx (ys @ [x, y])"
    if checked: "and_then (parse_table_snapshot (tl_load L) (?seen ''register-sibling-metadata'' x) 200) (\<lambda>snapshot.
        and_then (validate_same_table_snapshot source snapshot) (\<lambda>_.
        and_then (parse_table_snapshot (tl_load L) (?seen ''load-registered-after-register'' y) 200) (\<lambda>loaded.
          validate_same_table_snapshot source loaded))) = Ok ()"
      and history: "sibling_dropped L r sens fx ys source" "request_line x = ?x" "request_line y = ?y"
        "rq_body (fst x) = JsonBody (registration fx (pts_metadata_location source))"
    for ys x y
  proof -
    obtain first loaded where "same_table first source" "same_table loaded source"
        "parse_table_snapshot (tl_load L) (?seen ''register-sibling-metadata'' x) 200 = Ok first"
        "parse_table_snapshot (tl_load L) (?seen ''load-registered-after-register'' y) 200 = Ok loaded"
      using checked by (auto simp: and_then_eq_Inr validate_same_Ok)
    with history show ?thesis
      unfolding sibling_registered_def table_answer_def
      by (intro exI [of _ ys] exI [of _ x] exI [of _ y] exI [of _ "[]"] exI [of _ source] exI [of _ first] exI [of _ loaded]) simp
  qed
  have work: "table_work L r sens locations fx pg (facts\<lparr>tf_register := fact_from_result result\<rparr>) (ys @ [x, y])"
    if "table_work L r sens locations fx pg facts ys" "request_line x = ?x" "request_line y = ?y"
      and "rq_body (fst x) = JsonBody (registration fx (pts_metadata_location source))"
      and "result = Ok () \<Longrightarrow> sibling_registered L r sens fx (ys @ [x, y])" for result ys x y
    using table_work_append [OF that(1), of "[x, y]"] that(2-) by (intro table_work_passed) auto
  show ?thesis
    unfolding register_sibling_def dropped unlimited option.case attempt_register_def
    apply (rule rec.triple_bind)
     apply (rule rec.triple_bind [OF attempt_history], rule table_routes_ok [OF assms])+
     apply (rule rec.triple_return [where R = "\<lambda>xs result. table_work L r sens locations fx pg
        (facts\<lparr>tf_register := fact_from_result result\<rparr>) xs"])
     apply (clarsimp simp: table_url_def [symmetric] registration_def [symmetric])
     apply (rule work; (assumption | rule shown)?)
     apply simp_all
    apply (rule rec.triple_return, simp)
    done
qed

lemma paginate_tables_triple:
  assumes "usable (tl_web L) r"
  shows "probe_triple client bearer sens (table_work L r sens locations fx pg facts) (paginate_tables L r fx b facts)
    (\<lambda>xs (pagination, facts'). table_work L r sens locations fx pagination facts' xs)"
proof (cases b)
  case True
  have read: "list_all is_read zs \<Longrightarrow> list_all (table_request L r locations fx) zs" for zs
    by (auto simp: list_all_iff table_request_def)
  have shown: "tables_paged L r sens fx zs pagination \<Longrightarrow> paging_shown L r sens fx (ys @ zs) pagination" for ys zs pagination
    unfolding paging_shown_def by (metis append_Nil2)
  have work: "table_work L r sens locations fx pagination (facts\<lparr>tf_pagination := fact_from_result result\<rparr>) (ys @ zs)"
    if "table_work L r sens locations fx pg facts ys" "list_all is_read zs"
      and "result = Ok () \<longrightarrow> tables_paged L r sens fx zs pagination" for result pagination ys zs
    using table_work_append [OF that(1) read [OF that(2)]] that(3) by (intro table_work_passed(6)) (auto intro: shown)
  show ?thesis
    using True unfolding paginate_tables_def split_def
    by (auto intro!: rec.triple_Ok_return rec.triple_traces [OF table_pages_traces [OF assms]] work)
next
  case False
  then show ?thesis
    unfolding paginate_tables_def Let_def
    by (auto intro!: rec.triple_Ok_return skip_all_triple table_work_passed)
qed

text \<open>What is kept beside the work: the snapshots of the two loads, and the update of the first table.\<close>

definition kept_load ::
  "table_lib \<Rightarrow> catalog_routes \<Rightarrow> string list \<Rightarrow> table_identifier \<Rightarrow> string \<Rightarrow> probe_table_snapshot option \<Rightarrow> exchange list \<Rightarrow> bool" where
  "kept_load L r sens t ident loaded xs \<longleftrightarrow> (\<forall>snapshot. loaded = Some snapshot \<longrightarrow> table_loaded L r sens t ident xs snapshot)"

definition kept_update ::
  "table_lib \<Rightarrow> catalog_routes \<Rightarrow> string list \<Rightarrow> table_fixture \<Rightarrow> probe_table_snapshot option \<Rightarrow> exchange list \<Rightarrow> bool" where
  "kept_update L r sens fx updated xs \<longleftrightarrow> (\<forall>after. updated = Some after \<longrightarrow> table_updated L r sens fx xs after)"

lemma primary_made_grows: "primary_made L r sens locations fx xs \<Longrightarrow> primary_made L r sens locations fx (xs @ zs)"
  unfolding primary_made_def by (blast intro: shown_grows)

lemma kept_grows:
  "kept_load L r sens t ident loaded xs \<Longrightarrow> kept_load L r sens t ident loaded (xs @ zs)"
  "kept_update L r sens fx updated xs \<Longrightarrow> kept_update L r sens fx updated (xs @ zs)"
  by (auto simp: kept_load_def kept_update_def intro: shown_grows)

lemma table_behavior_end:
  assumes "usable (tl_web L) r"
    and "is_ok (location_for_table (tl_web L) locations (tid_namespace (tfx_primary fx)) (tid_name (tfx_primary fx)))"
  shows "probe_triple client bearer sens
    (\<lambda>xs. table_work L r sens locations fx pg facts xs
       \<and> kept_load L r sens (tfx_primary fx) ''load-primary'' primary xs
       \<and> kept_load L r sens (tfx_sibling fx) ''load-sibling'' sibling xs
       \<and> (b \<longrightarrow> primary_made L r sens locations fx xs))
    (probe_bind (update_primary L r fx primary facts) (\<lambda>(updated, facts4).
       probe_bind (create_duplicate L r locations fx b facts4) (\<lambda>facts5.
       probe_bind (probe_missing L r fx facts5) (\<lambda>facts6.
       probe_bind (rename_primary L r fx optional updated facts6) (\<lambda>facts7.
       probe_bind (drop_loaded_sibling L r fx sibling facts7) (\<lambda>(dropped, facts8).
       probe_bind (register_sibling L r fx optional dropped facts8) (\<lambda>facts9.
         probe_return (pg, facts9))))))))
    (\<lambda>xs (pagination, facts'). table_work L r sens locations fx pagination facts' xs)"
proof -
  let ?W = "\<lambda>facts xs. table_work L r sens locations fx pg facts xs"
  let ?S = "kept_load L r sens (tfx_sibling fx) ''load-sibling'' sibling"
  have registered: "probe_triple client bearer sens (\<lambda>xs. ?W g xs \<and> (\<forall>source. dropped = Some source \<longrightarrow> sibling_dropped L r sens fx xs source))
      (probe_bind (register_sibling L r fx optional dropped g) (\<lambda>facts9. probe_return (pg, facts9)))
      (\<lambda>xs (pagination, facts'). table_work L r sens locations fx pagination facts' xs)" for dropped g
    by (rule rec.triple_Ok_return, simp only: prod.case, rule register_sibling_triple [OF assms(1)])
  have dropped: "probe_triple client bearer sens (\<lambda>xs. ?W g xs \<and> ?S xs)
      (probe_bind (drop_loaded_sibling L r fx sibling g) (\<lambda>(dropped, facts8).
         probe_bind (register_sibling L r fx optional dropped facts8) (\<lambda>facts9. probe_return (pg, facts9))))
      (\<lambda>xs (pagination, facts'). table_work L r sens locations fx pagination facts' xs)" for g
    by (rule rec.triple_bind [OF drop_loaded_sibling_triple [OF assms(1), where loaded = sibling and facts = g and pg = pg and locations = locations], unfolded kept_load_def [symmetric]])
      (auto split: prod.splits intro: registered)
  have renamed: "probe_triple client bearer sens (\<lambda>xs. (?W g xs \<and> kept_update L r sens fx updated xs) \<and> ?S xs)
      (probe_bind (rename_primary L r fx optional updated g) (\<lambda>facts7.
         probe_bind (drop_loaded_sibling L r fx sibling facts7) (\<lambda>(dropped, facts8).
         probe_bind (register_sibling L r fx optional dropped facts8) (\<lambda>facts9. probe_return (pg, facts9)))))
      (\<lambda>xs (pagination, facts'). table_work L r sens locations fx pagination facts' xs)" for g updated
    by (rule rec.triple_bind [OF rec.triple_frame [where E = ?S, OF rename_primary_triple [OF assms(1), folded kept_update_def] kept_grows(1)] dropped])
  let ?M = "\<lambda>xs. b \<longrightarrow> primary_made L r sens locations fx xs"
  have missing: "probe_triple client bearer sens (\<lambda>xs. (?W g xs \<and> ?M xs) \<and> kept_update L r sens fx updated xs \<and> ?S xs)
      (probe_bind (create_duplicate L r locations fx b g) (\<lambda>facts5.
       probe_bind (probe_missing L r fx facts5) (\<lambda>facts6.
       probe_bind (rename_primary L r fx optional updated facts6) (\<lambda>facts7.
       probe_bind (drop_loaded_sibling L r fx sibling facts7) (\<lambda>(dropped, facts8).
       probe_bind (register_sibling L r fx optional dropped facts8) (\<lambda>facts9. probe_return (pg, facts9)))))))
      (\<lambda>xs (pagination, facts'). table_work L r sens locations fx pagination facts' xs)" for g updated
    by (rule rec.triple_bind [OF rec.triple_frame [where E = "\<lambda>xs. kept_update L r sens fx updated xs \<and> ?S xs", OF create_duplicate_triple [OF assms]]], fast intro: kept_grows,
        rule rec.triple_bind [OF rec.triple_frame [where E = "\<lambda>xs. kept_update L r sens fx updated xs \<and> ?S xs", OF probe_missing_triple [OF assms(1)]]], fast intro: kept_grows,
        rule rec.triple_conseq [OF renamed]) auto
  have updated: "probe_triple client bearer sens
      (\<lambda>xs. ?W facts xs \<and> kept_load L r sens (tfx_primary fx) ''load-primary'' primary xs \<and> ?S xs \<and> ?M xs)
      (update_primary L r fx primary facts)
      (\<lambda>xs (updated, g). (?W g xs \<and> ?M xs) \<and> kept_update L r sens fx updated xs \<and> ?S xs)"
    by (rule rec.triple_conseq [OF rec.triple_frame [where E = "\<lambda>xs. ?S xs \<and> ?M xs", OF update_primary_triple
            [OF assms(1), folded kept_load_def kept_update_def]]]) (auto intro: kept_grows primary_made_grows)
  show ?thesis
    by (rule rec.triple_bind [OF updated], simp only: split_paired_all prod.case, rule missing)
qed

text \<open>The facts of the creations and loads, from what their results have shown.\<close>

definition kept_creation ::
  "table_lib \<Rightarrow> catalog_routes \<Rightarrow> string list \<Rightarrow> table_create_locations \<Rightarrow> table_identifier \<Rightarrow> string
   \<Rightarrow> string + probe_table_snapshot \<Rightarrow> exchange list \<Rightarrow> bool" where
  "kept_creation L r sens locations t ident result xs \<longleftrightarrow>
     (\<forall>snapshot. result = Ok snapshot \<longrightarrow> table_created L r sens locations t ident xs snapshot)"

lemma kept_creation_grows:
  "kept_creation L r sens locations t ident result xs \<Longrightarrow> kept_creation L r sens locations t ident result (xs @ zs)"
  by (auto simp: kept_creation_def intro: shown_grows)

lemma loaded_fact_shown:
  assumes "kept_creation L r sens locations (tfx_primary fx) ''create-primary'' p xs"
    and "kept_creation L r sens locations (tfx_sibling fx) ''create-sibling'' s xs"
    and "follows p p'" "follows s s'"
    and "kept_load L r sens (tfx_primary fx) ''load-primary'' (result_ok p') xs"
    and "kept_load L r sens (tfx_sibling fx) ''load-sibling'' (result_ok s') xs"
    and "fact_passed (loaded_fact b p' s')"
  shows "tables_loaded L r sens locations fx xs"
proof -
  have "list_all is_ok [p', s']" using assms(7) by (auto simp: loaded_fact_def split: if_splits)
  then obtain x y where loads: "p' = Ok x" "s' = Ok y" by (auto simp: is_ok_def split: sum.splits)
  then obtain c d where creations: "p = Ok c" "same_table x c" "s = Ok d" "same_table y d"
    using assms(3,4) by (auto simp: follows_def)
  show ?thesis
    using assms(1,2,5,6) loads creations
    unfolding kept_creation_def kept_load_def tables_loaded_def result_ok_def by (metis sum.case(2))
qed

lemma created_fact_shown:
  assumes "kept_creation L r sens locations (tfx_primary fx) ''create-primary'' p xs"
    and "kept_creation L r sens locations (tfx_sibling fx) ''create-sibling'' s xs"
  shows "fact_passed (fact_from_result (created_result p s)) \<Longrightarrow> tables_created L r sens locations fx xs"
    and "is_ok p \<and> is_ok s \<longrightarrow> primary_made L r sens locations fx xs"
  using assms
  by (auto simp: kept_creation_def created_result_def tables_created_def primary_made_def is_ok_def
      split: sum.splits if_splits)

lemma table_behavior_rest:
  assumes "usable (tl_web L) r"
    and locations: "\<And>t. is_ok (location_for_table (tl_web L) locations (tid_namespace t) (tid_name t))"
  shows "probe_triple client bearer sens
    (\<lambda>xs. table_work L r sens locations fx pg g xs
       \<and> kept_load L r sens (tfx_primary fx) ''load-primary'' (result_ok p) xs
       \<and> kept_load L r sens (tfx_sibling fx) ''load-sibling'' (result_ok s) xs
       \<and> (fact_passed f \<longrightarrow> tables_loaded L r sens locations fx xs)
       \<and> (b \<longrightarrow> primary_made L r sens locations fx xs))
    (let both_loaded = is_ok p \<and> is_ok s
     in probe_bind (paginate_tables L r fx b (g\<lparr>tf_load := f\<rparr>)) (\<lambda>(pagination, facts3).
        probe_bind (update_primary L r fx (if both_loaded then result_ok p else None) facts3) (\<lambda>(updated, facts4).
        probe_bind (create_duplicate L r locations fx b facts4) (\<lambda>facts5.
        probe_bind (probe_missing L r fx facts5) (\<lambda>facts6.
        probe_bind (rename_primary L r fx optional updated facts6) (\<lambda>facts7.
        probe_bind (drop_loaded_sibling L r fx (if both_loaded then result_ok s else None) facts7) (\<lambda>(dropped, facts8).
        probe_bind (register_sibling L r fx optional dropped facts8) (\<lambda>facts9.
          probe_return (pagination, facts9)))))))))
    (\<lambda>xs (pagination, facts'). table_work L r sens locations fx pagination facts' xs)" (is "probe_triple _ _ _ ?pre _ _")
proof -
  let ?B = "is_ok p \<and> is_ok s"
  let ?E = "\<lambda>xs. kept_load L r sens (tfx_primary fx) ''load-primary'' (if ?B then result_ok p else None) xs
      \<and> kept_load L r sens (tfx_sibling fx) ''load-sibling'' (if ?B then result_ok s else None) xs
      \<and> (b \<longrightarrow> primary_made L r sens locations fx xs)"
  have "probe_triple client bearer sens ?pre (paginate_tables L r fx b (g\<lparr>tf_load := f\<rparr>))
      (\<lambda>xs (pagination, facts3). table_work L r sens locations fx pagination facts3 xs \<and> ?E xs)"
    by (rule rec.triple_conseq [OF rec.triple_frame [where E = ?E, OF paginate_tables_triple [OF assms(1)]]])
      (auto intro: shown_grows primary_made_grows table_work_passed simp: kept_load_def)
  then show ?thesis
    unfolding Let_def
    by (rule rec.triple_bind) (auto split: prod.splits intro: table_behavior_end [OF assms(1) locations])
qed

lemma table_behavior_triple:
  assumes "usable (tl_web L) r"
    and locations: "\<And>t. is_ok (location_for_table (tl_web L) locations (tid_namespace t) (tid_name t))"
  shows "probe_triple client bearer sens (table_work L r sens locations fx pg facts)
    (table_behavior L r fx locations optional facts)
    (\<lambda>xs (pagination, facts'). table_work L r sens locations fx pagination facts' xs)"
proof -
  let ?W = "\<lambda>facts xs. table_work L r sens locations fx pg facts xs"
  let ?CP = "kept_creation L r sens locations (tfx_primary fx) ''create-primary''"
  let ?CS = "kept_creation L r sens locations (tfx_sibling fx) ''create-sibling''"
  let ?P = "\<lambda>result. kept_load L r sens (tfx_primary fx) ''load-primary'' (result_ok result)"
  let ?S = "\<lambda>result. kept_load L r sens (tfx_sibling fx) ''load-sibling'' (result_ok result)"
  have kept: "(\<forall>snapshot. result = Ok snapshot \<longrightarrow> table_loaded L r sens t ident xs snapshot)
      \<longleftrightarrow> kept_load L r sens t ident (result_ok result) xs" for result :: "string + probe_table_snapshot" and t ident xs
    by (auto simp: kept_load_def result_ok_def split: sum.splits)
  note grows = kept_grows kept_creation_grows
  have load: "probe_triple client bearer sens (?W g) (load_created_table L r t ident (result_ok c))
      (\<lambda>xs result. ?W g xs \<and> follows c result \<and> kept_load L r sens t ident (result_ok result) xs)" for g t ident c
    by (rule rec.triple_conseq [OF load_created_triple [OF assms(1)]]) (auto simp: kept)
  have first: "probe_triple client bearer sens (\<lambda>xs. ?W g xs \<and> ?CP p xs \<and> ?CS s xs)
      (load_created_table L r (tfx_primary fx) ''load-primary'' (result_ok p))
      (\<lambda>xs p'. ?W g xs \<and> ?CP p xs \<and> ?CS s xs \<and> follows p p' \<and> ?P p' xs)" for g p s
    by (rule rec.triple_conseq [OF rec.triple_frame [where E = "\<lambda>xs. ?CP p xs \<and> ?CS s xs", OF load]]) (auto intro: grows)
  have both: "probe_triple client bearer sens (\<lambda>xs. ?W g xs \<and> ?CP p xs \<and> ?CS s xs \<and> follows p p' \<and> ?P p' xs)
      (load_created_table L r (tfx_sibling fx) ''load-sibling'' (result_ok s))
      (\<lambda>xs s'. ?W g xs \<and> ?P p' xs \<and> ?S s' xs
         \<and> (fact_passed (loaded_fact (is_ok p \<and> is_ok s) p' s') \<longrightarrow> tables_loaded L r sens locations fx xs)
         \<and> (is_ok p \<and> is_ok s \<longrightarrow> primary_made L r sens locations fx xs))" for g p s p'
    by (rule rec.triple_conseq [OF rec.triple_frame [where E = "\<lambda>xs. ?CP p xs \<and> ?CS s xs \<and> follows p p' \<and> ?P p' xs", OF load]])
      (auto intro: grows loaded_fact_shown dest: created_fact_shown(2))
  have made: "probe_triple client bearer sens (\<lambda>xs. ?W facts xs \<and> ?CP p xs \<and> ?CS s xs)
      (list_tables L r fx b (facts\<lparr>tf_create := fact_from_result (created_result p s)\<rparr>))
      (\<lambda>xs g. ?W g xs \<and> ?CP p xs \<and> ?CS s xs)" for p s b
    by (rule rec.triple_conseq [OF rec.triple_frame [where E = "\<lambda>xs. ?CP p xs \<and> ?CS s xs", OF list_tables_triple [OF assms(1)]]])
      (auto intro: grows table_work_passed created_fact_shown(1))
  have primary: "probe_triple client bearer sens (?W facts) (create_table L r locations (tfx_primary fx) ''create-primary'')
      (\<lambda>xs (ob, location). ?W facts xs \<and> ?CP (validate_initial_snapshot L ob location) xs)"
    by (rule rec.triple_conseq [OF create_table_triple [OF assms(1) locations]]) (auto simp: kept_creation_def)
  have sibling: "probe_triple client bearer sens (\<lambda>xs. ?W facts xs \<and> ?CP p xs)
      (create_table L r locations (tfx_sibling fx) ''create-sibling'')
      (\<lambda>xs (ob, location). ?W facts xs \<and> ?CP p xs \<and> ?CS (validate_initial_snapshot L ob location) xs)" for p
    by (rule rec.triple_conseq [OF rec.triple_frame [where E = "?CP p", OF create_table_triple [OF assms(1) locations]]])
      (auto intro: shown_grows simp: kept_creation_def)
  show ?thesis
    unfolding table_behavior_def
    apply (rule rec.triple_bind [OF primary])
    apply (simp only: split_paired_all prod.case)
    apply (rule rec.triple_bind [OF sibling])
    apply (simp only: split_paired_all prod.case Let_def)
    apply (rule rec.triple_bind [OF made])
    apply (rule rec.triple_bind [OF first])
    apply (rule rec.triple_bind [OF both])
    apply (rule table_behavior_rest [OF assms, unfolded Let_def])
    done
qed

section \<open>The cleanup\<close>

text \<open>Every drop was answered with 204 or 404 and every read that verifies one with 404.\<close>

definition clean_answer :: "exchange \<Rightarrow> bool" where
  "clean_answer x \<longleftrightarrow> answered (if is_read x then [404] else [204, 404]) x"

lemma clean_answers:
  "map request_line es = map (\<lambda>x. (DELETE, u x)) ts \<Longrightarrow> list_all (answered [204, 404]) es \<Longrightarrow> list_all clean_answer es"
  "map request_line es = map (\<lambda>x. (GET, u x)) ts \<Longrightarrow> list_all (answered [404]) es \<Longrightarrow> list_all clean_answer es"
  unfolding clean_answer_def list_all_length list_eq_iff_nth_eq length_map
  by (auto simp: is_read_def request_line_def)

lemma drop_candidates_traces:
  assumes "usable (tl_web L) r"
  shows "probe_traces client bearer sens (drop_candidates L r fx) (\<lambda>xs res. \<exists>results. res = Ok results
    \<and> map request_line xs = map (\<lambda>t. (DELETE, dropping_url L r t)) (table_candidates fx)
    \<and> (list_all is_ok results \<longrightarrow> list_all clean_answer xs))"
  unfolding drop_candidates_def
  by (rule rec.traces_weaken, rule attempt_loop_traces [where u = "dropping_url L r" and allowed = "[204, 404]"])
    (use is_ok_projr [OF table_drop_url_ok [OF assms]] in \<open>auto simp: dropping_url_def is_ok_def
      intro: answered_status clean_answers split: sum.splits\<close>)

lemma verify_candidates_traces:
  assumes "usable (tl_web L) r"
  shows "probe_traces client bearer sens (verify_candidates_absent L r fx) (\<lambda>xs res. \<exists>results. res = Ok results
    \<and> map request_line xs = map (\<lambda>t. (GET, table_url L r t)) (table_candidates fx)
    \<and> (list_all is_ok results \<longrightarrow> list_all clean_answer xs))"
  unfolding verify_candidates_absent_def
  by (rule rec.traces_weaken, rule attempt_loop_traces [where u = "table_url L r" and allowed = "[404]"])
    (use is_ok_projr [OF route_of_table_ok [OF assms]] in \<open>auto simp: table_url_def is_ok_def
      intro: answered_error clean_answers split: sum.splits\<close>)

lemma cleanup_tables_traces:
  assumes "usable (tl_web L) r"
  shows "probe_traces client bearer sens (cleanup_tables L r fx) (\<lambda>xs res. \<exists>result. res = Ok result
    \<and> map request_line xs = table_cleanup_lines L r fx \<and> (result = Ok () \<longrightarrow> list_all clean_answer xs))"
proof (rule rec.triple_start)
  let ?l1 = "map (\<lambda>t. (DELETE, dropping_url L r t)) (table_candidates fx)"
  let ?l2 = "map (\<lambda>t. (GET, table_url L r t)) (table_candidates fx)"
  have dropped: "probe_triple client bearer sens (\<lambda>xs. xs = []) (drop_candidates L r fx)
      (\<lambda>xs a. map request_line xs = ?l1 \<and> (list_all is_ok a \<longrightarrow> list_all clean_answer xs))"
    by (rule rec.triple_traces [OF drop_candidates_traces [OF assms]]) auto
  have verified: "probe_triple client bearer sens
      (\<lambda>xs. map request_line xs = ?l1 \<and> (list_all is_ok a \<longrightarrow> list_all clean_answer xs)) (verify_candidates_absent L r fx)
      (\<lambda>xs b. map request_line xs = ?l1 @ ?l2 \<and> (list_all is_ok (a @ b) \<longrightarrow> list_all clean_answer xs))" for a
    by (rule rec.triple_traces [OF verify_candidates_traces [OF assms]]) auto
  show "probe_triple client bearer sens (\<lambda>xs. xs = []) (cleanup_tables L r fx)
      (\<lambda>xs result. map request_line xs = table_cleanup_lines L r fx \<and> (result = Ok () \<longrightarrow> list_all clean_answer xs))"
    unfolding cleanup_tables_def
    apply (rule rec.triple_bind [OF dropped], rule rec.triple_bind [OF verified])
    apply (rule rec.triple_bind [OF attempt_history], rule table_routes_ok [OF assms])+
    apply (rule rec.triple_return)
    apply (auto simp: table_cleanup_lines_def fixture_url_def clean_answer_def is_ok_def is_read_def request_line_def
        intro: answered_plain [where e = "(a, b)" for a b, simplified] split: sum.splits)
    done
qed

section \<open>The workflow\<close>

text \<open>
  How a table workflow ended: on a fixture that was not absent, or after work and cleanup. In the
  first case it has only read, and beside the negotiation no fact passed except, if its answer was
  seen, the one on the missing namespace.
\<close>

definition table_collision ::
  "table_lib \<Rightarrow> catalog_routes \<Rightarrow> string list \<Rightarrow> table_fixture \<Rightarrow> exchange list \<Rightarrow> table_facts \<Rightarrow> bool" where
  "table_collision L r sens fx xs facts \<longleftrightarrow>
     list_all is_read xs
     \<and> \<not> list_ex fact_passed
         [tf_fixture_isolated facts, tf_fixture_namespace facts, tf_create facts, tf_list facts, tf_load facts,
          tf_pagination facts, tf_update facts, tf_duplicate facts, tf_missing_table facts, tf_rename facts,
          tf_drop_table facts, tf_register facts, tf_cleanup facts]
     \<and> (fact_passed (tf_missing_namespace facts) \<longrightarrow> missing_namespace_refused L r sens fx xs)"

definition table_completed ::
  "table_lib \<Rightarrow> catalog_routes \<Rightarrow> string list \<Rightarrow> table_create_locations \<Rightarrow> table_fixture \<Rightarrow> exchange list
   \<Rightarrow> pagination_transcript \<Rightarrow> table_facts \<Rightarrow> bool" where
  "table_completed L r sens locations fx xs pagination facts \<longleftrightarrow>
     (\<exists>x work fin. xs = x # work @ fin
        \<and> request_line x = (GET, fixture_url L r fx) \<and> answered [404] x
        \<and> list_all (table_request L r locations fx) work
        \<and> table_shown L r sens locations fx pagination work facts
        \<and> map request_line fin = table_cleanup_lines L r fx
        \<and> (fact_passed (tf_cleanup facts) \<longrightarrow> list_all clean_answer fin))"

definition fresh_facts :: "table_facts \<Rightarrow> bool" where
  "fresh_facts facts \<longleftrightarrow> \<not> list_ex fact_passed
     [tf_fixture_namespace facts, tf_create facts, tf_list facts, tf_load facts, tf_pagination facts, tf_update facts,
      tf_duplicate facts, tf_missing_table facts, tf_missing_namespace facts, tf_rename facts, tf_drop_table facts,
      tf_register facts]"

lemma fresh_work:
  "fresh_facts facts \<Longrightarrow> list_all (table_request L r locations fx) xs \<Longrightarrow> table_work L r sens locations fx pg facts xs"
  by (simp add: fresh_facts_def table_work_def table_shown_def)

lemma read_line: "request_line x = (GET, u) \<Longrightarrow> is_read x"
  by (simp add: is_read_def request_line_def)

lemma table_shown_cleanup [simp]:
  "table_shown L r sens locations fx pg xs (facts\<lparr>tf_cleanup := f\<rparr>) = table_shown L r sens locations fx pg xs facts"
  by (simp add: table_shown_def)

lemma table_work_skipped:
  "table_work L r sens locations fx pg facts xs
   \<Longrightarrow> table_work L r sens locations fx pg' (skip_table_behavior reason facts) xs"
  by (simp add: table_work_def table_shown_def skip_table_behavior_def)

lemma table_work_cases:
  assumes "usable (tl_web L) r"
    and locations: "\<And>t. is_ok (location_for_table (tl_web L) locations (tid_namespace t) (tid_name t))"
    and "fresh_facts facts"
  shows "probe_traces client bearer sens
    (probe_bind (attempt (tl_web L) ''create-namespace'' TB_NAMESPACE_CREATE POST
        (route_namespace_collection (tl_web L) r) (Some (create_fixture_body (tfx_namespace fx)))) (\<lambda>namespace_create.
      let created = validate_created_namespace (tl_debug_str L) (tl_namespace L) namespace_create (tfx_namespace fx);
          facts2 = facts\<lparr>tf_fixture_namespace := fact_from_result created\<rparr>
      in probe_bind
           (if \<not> is_ok created then
              (let reason = ''fixture namespace creation did not pass''
               in probe_bind (skip_all table_operations reason) (\<lambda>_.
                  probe_bind (probe_missing L r fx (skip_table_behavior reason facts2)) (\<lambda>facts3.
                    probe_return (PaginationNotEvaluated reason, facts3))))
            else table_behavior L r fx locations optional facts2) (\<lambda>(pagination, facts3).
         probe_bind (cleanup_tables L r fx) (\<lambda>cleaned.
           probe_return (pagination, facts3\<lparr>tf_cleanup := fact_from_result cleaned\<rparr>)))))
    (\<lambda>xs res. \<exists>pagination facts'. res = Ok (pagination, facts') \<and> (\<exists>work fin. xs = work @ fin
       \<and> list_all (table_request L r locations fx) work \<and> table_shown L r sens locations fx pagination work facts'
       \<and> map request_line fin = table_cleanup_lines L r fx
       \<and> (fact_passed (tf_cleanup facts') \<longrightarrow> list_all clean_answer fin)))" (is "probe_traces _ _ _ ?m ?Q")
proof -
  let ?W = "\<lambda>xs (pg, g). table_work L r sens locations fx pg g xs"
  let ?facts = "\<lambda>created. facts\<lparr>tf_fixture_namespace := fact_from_result created\<rparr>"
  let ?create = "\<lambda>ob. validate_created_namespace (tl_debug_str L) (tl_namespace L) ob (tfx_namespace fx)"
  have made: "table_work L r sens locations fx pg (?facts (?create (observation_of (tl_web L) sens ''create-namespace'' (snd x)))) [x]"
    if x: "request_line x = (POST, projr (route_namespace_collection (tl_web L) r))"
      "rq_body (fst x) = JsonBody (create_fixture_body (tfx_namespace fx))" for x pg
  proof (rule table_work_passed(7))
    show "table_work L r sens locations fx pg facts [x]"
      by (rule fresh_work [OF assms(3)]) (use x in \<open>simp add: table_request_def\<close>)
    assume "fact_passed (fact_from_result (?create (observation_of (tl_web L) sens ''create-namespace'' (snd x))))"
    then have "?create (observation_of (tl_web L) sens ''create-namespace'' (snd x)) = Ok ()" by simp
    from validate_created_namespace_Ok [OF this] x show "namespace_made L r sens fx [x]"
      unfolding namespace_made_def by - (rule exI [of _ x], simp)
  qed
  have first: "probe_triple client bearer sens (\<lambda>xs. xs = []) (attempt (tl_web L) ''create-namespace'' TB_NAMESPACE_CREATE POST
        (route_namespace_collection (tl_web L) r) (Some (create_fixture_body (tfx_namespace fx))))
      (\<lambda>xs ob. \<forall>pg. table_work L r sens locations fx pg (?facts (?create ob)) xs)"
    by (rule rec.triple_conseq [OF attempt_history [where Q = "\<lambda>xs. xs = []"]])
      (auto simp: table_routes_ok [OF assms(1)] intro: made [of "(a, b)" for a b, unfolded snd_conv fst_conv])
  have skipped: "probe_triple client bearer sens (\<lambda>xs. \<forall>pg. table_work L r sens locations fx pg (?facts created) xs)
      (probe_bind (skip_all table_operations reason) (\<lambda>_.
         probe_bind (probe_missing L r fx (skip_table_behavior reason (?facts created))) (\<lambda>facts3.
           probe_return (PaginationNotEvaluated reason, facts3)))) ?W" for reason created
    by (rule rec.triple_bind [OF skip_all_triple [where R = "\<lambda>xs _. \<forall>pg. table_work L r sens locations fx pg (?facts created) xs"]], assumption,
        rule rec.triple_Ok_return, simp only: prod.case,
        rule rec.triple_conseq [OF probe_missing_triple [OF assms(1)]]) (auto intro: table_work_skipped)
  have behaved: "probe_triple client bearer sens (\<lambda>xs. \<forall>pg. table_work L r sens locations fx pg (?facts created) xs)
      (table_behavior L r fx locations optional (?facts created)) ?W" for created
    by (rule rec.triple_conseq [OF table_behavior_triple [OF assms(1) locations, where pg = "PaginationNotEvaluated []"]]) auto
  have cleaned: "probe_triple client bearer sens (\<lambda>xs. table_work L r sens locations fx pg g xs)
      (probe_bind (cleanup_tables L r fx) (\<lambda>cleaned. probe_return (pg, g\<lparr>tf_cleanup := fact_from_result cleaned\<rparr>)))
      (\<lambda>xs a. ?Q xs (Ok a))" for pg g
    by (rule rec.triple_Ok_return, rule rec.triple_traces [OF cleanup_tables_traces [OF assms(1)]])
      (fastforce simp: table_work_def)
  have "probe_triple client bearer sens (\<lambda>xs. xs = []) ?m (\<lambda>xs a. ?Q xs (Ok a))"
    unfolding Let_def
    apply (rule rec.triple_bind [OF first], rule rec.triple_bind [where P = ?W])
     apply (simp only: split: if_split)
     apply (use skipped behaved in \<open>blast\<close>)
    apply (simp only: split_paired_all prod.case)
    apply (rule cleaned)
    done
  from rec.triple_start [OF this] show ?thesis by (rule rec.traces_weaken) blast
qed

lemma locations_ok:
  assumes "create_locations_new lib location_root = Ok locations"
  shows "is_ok (location_for_table lib locations ns name)"
  using assms
  by (auto simp: create_locations_new_def location_for_table_def and_then_eq_Inr split: option.splits if_splits)

lemma table_workflow_traces:
  assumes usable: "usable (tl_web L) r"
    and locations: "\<And>t. is_ok (location_for_table (tl_web L) locations (tid_namespace t) (tid_name t))"
    and fresh: "fresh_facts facts"
  shows "probe_traces client bearer sens (execute_table_workflow L r fx locations optional facts) (\<lambda>xs res. \<exists>pagination facts'.
    res = Ok (pagination, facts')
    \<and> (table_collision L r sens fx xs facts' \<or> table_completed L r sens locations fx xs pagination facts'))"
    (is "probe_traces _ _ _ _ ?Q")
proof -
  let ?check = "\<lambda>ob. validate_error_response (tl_error L) ob 404 ''NoSuchNamespaceException''"
  let ?P = "\<lambda>xs ob. \<exists>x. xs = [x] \<and> request_line x = (GET, fixture_url L r fx)
      \<and> (?check ob = Ok () \<longrightarrow> answered [404] x)"
  have preflight: "probe_traces client bearer sens (attempt (tl_web L) ''preflight-namespace'' TB_NAMESPACE_LOAD GET
      (route_namespace (tl_web L) r (tfx_namespace fx)) None) (\<lambda>xs res. \<exists>ob. res = Ok ob \<and> ?P xs ob)"
    by (rule rec.triple_start, rule rec.triple_conseq [OF attempt_history [where Q = "\<lambda>xs. xs = []"]])
      (auto simp: table_routes_ok [OF usable] fixture_url_def intro: answered_plain [where e = "(a, b)" for a b, simplified])
  have missing: "probe_traces client bearer sens (probe_missing_namespace L r (tfx_missing_namespace fx))
      (\<lambda>xs res. \<exists>a. res = Ok a \<and> list_all is_read xs \<and> (a = Ok () \<longrightarrow> missing_namespace_refused L r sens fx xs))"
    unfolding probe_missing_namespace_def
    by (rule rec.triple_start, rule rec.triple_conseq [OF read_check_history [OF table_routes_ok(3) [OF usable],
          where Q = "\<lambda>xs. xs = []"]])
      (auto simp: missing_namespace_refused_def
        intro: refusedI [where x = "(a, b)" for a b, unfolded snd_conv] read_line)
  have aborted: "probe_traces client bearer sens
      (probe_bind (skip_all mutating_table_operations reason) (\<lambda>_.
         probe_bind (probe_missing_namespace L r (tfx_missing_namespace fx)) (\<lambda>missing.
           probe_return (PaginationNotEvaluated reason,
             (skip_mutating_table_behavior reason (facts\<lparr>tf_fixture_isolated := isolated\<rparr>))\<lparr>tf_missing_namespace := fact_from_result missing\<rparr>))))
      (\<lambda>zs res. \<forall>ys. list_all is_read ys \<longrightarrow> ?Q (ys @ zs) res)" if "\<not> fact_passed isolated" for reason isolated
    apply (rule rec.traces_seq [where P = "\<lambda>xs _. xs = []"])
     apply (rule skip_all_traces, simp)
    apply (rule rec.traces_Ok_return)
    apply (rule rec.traces_weaken [OF missing])
    apply (use that in \<open>auto simp: table_collision_def skip_mutating_table_behavior_def skip_table_behavior_def
      missing_namespace_refused_def\<close>)
    done
  have read: "?P ys ob \<Longrightarrow> list_all is_read ys" for ys ob
    by (auto simp: is_read_def request_line_def)
  note worked = table_work_cases [OF usable locations, where facts = "facts\<lparr>tf_fixture_isolated := FactPass\<rparr>"
      and fx = fx and sens = sens and bearer = bearer and client = client and optional = optional]
  have fresh': "fresh_facts (facts\<lparr>tf_fixture_isolated := FactPass\<rparr>)"
    using fresh by (simp add: fresh_facts_def)
  show ?thesis
    unfolding execute_table_workflow_def
  proof (rule rec.traces_seq [OF preflight], goal_cases)
    case (1 ob)
    show ?case
    proof (cases "?check ob")
      case (Inl e)
      then have "\<not> fact_passed (fact_from_result (?check ob))" by simp
      from aborted [OF this] have "probe_traces client bearer sens
          (probe_bind (skip_all mutating_table_operations reason) (\<lambda>_.
             probe_bind (probe_missing_namespace L r (tfx_missing_namespace fx)) (\<lambda>missing.
               probe_return (PaginationNotEvaluated reason,
                 (skip_mutating_table_behavior reason (facts\<lparr>tf_fixture_isolated := fact_from_result (?check ob)\<rparr>))
                   \<lparr>tf_missing_namespace := fact_from_result missing\<rparr>))))
          (\<lambda>zs res. \<forall>ys. ?P ys ob \<longrightarrow> ?Q (ys @ zs) res)" for reason
        by (rule rec.traces_weaken) (use read in blast)
      then show ?thesis using \<open>\<not> fact_passed _\<close> by (simp add: Let_def)
    next
      case (Inr u)
      then have passed: "fact_from_result (?check ob) = FactPass" by (simp add: fact_from_result_def)
      show ?thesis
        unfolding passed Let_def
        by (simp add: fact_passed_def Inr, rule rec.traces_weaken [OF worked [OF fresh', unfolded Let_def]])
          (fastforce simp: table_completed_def)
    qed
  qed
qed

lemma unusable_table_preflight:
  assumes "\<not> usable (tl_web L) r"
  shows "\<exists>e. execute_table_workflow L r fx locations optional facts s = (Err e, s)"
proof -
  obtain e where "route_namespace (tl_web L) r (tfx_namespace fx) = Err e"
    using unusable_resource [OF assms] by (force simp: route_namespace_def)
  then show ?thesis
    by (simp add: execute_table_workflow_def probe_bind_def attempt_def probe_try_def)
qed

lemma fresh_new: "fresh_facts (table_facts_new ready routing)"
  by (simp add: fresh_facts_def table_facts_new_def Let_def)

text \<open>
  C22. The table workflow leaves nothing behind unattended, and its facts are true. On routes that
  are no URLs it stops before the first request. Otherwise it always comes to its end. Either the
  namespace of the fixture was not found absent; then it has only read, and of the facts of the
  workflow none passed but possibly the one on a missing namespace. Or it got 404 for that namespace,
  then only read, created the namespace and the two tables of the fixture with the requested schema,
  properties and location, updated the first, renamed it to the name kept for that, dropped the
  second without purging and registered a metadata file under the name kept for that without
  overwriting, and at the end it sent the four drops of tables, the four reads that verify them, the
  drop of the namespace and its read. Every fact that is reported as passed was seen in the answers:
  the namespace confirmed under its name; tables with different UUIDs and the requested schema,
  location and properties; a listing and complete pages with exactly these two; loads that showed
  both as they were created; an update that kept UUID and schema, moved the metadata and changed only
  the named properties; a second creation of the first table refused with 409 as already existing; a
  missing table and a missing namespace answered with 404 and their error types; a rename and a
  registration of the dropped table's metadata that kept the table; a drop after which the table was
  gone; and a cleanup after which everything was gone.
\<close>

theorem table_workflow_discipline:
  assumes "create_locations_new (tl_web L) location_root = Ok locations"
    and "execute_table_workflow L r fx locations optional (table_facts_new ready routing)
      (recorder_new (logging client) bearer sens, w, entries) = (result, (rcd, w', entries'))"
  shows "if usable (tl_web L) r
    then \<exists>xs pagination facts. entries' = entries @ xs \<and> result = Ok (pagination, facts)
      \<and> (table_collision L r sens fx xs facts \<or> table_completed L r sens locations fx xs pagination facts)
    else entries' = entries \<and> (\<exists>e. result = Err e)"
proof (cases "usable (tl_web L) r")
  case True
  from rec.traces_elim [OF table_workflow_traces [OF True locations_ok [OF assms(1)] fresh_new] recorder_new_records assms(2)]
  obtain xs where "exchanges_of (rcd, w', entries')
      = exchanges_of (recorder_new (logging client) bearer sens, w, entries) @ xs"
    "\<exists>pagination facts. result = Ok (pagination, facts)
      \<and> (table_collision L r sens fx xs facts \<or> table_completed L r sens locations fx xs pagination facts)" .
  then show ?thesis using True by (auto simp: exchanges_of_def)
next
  case False
  then show ?thesis using unusable_table_preflight [OF False] assms(2) by (metis Pair_inject)
qed

section \<open>The verdict\<close>

definition table_facts_hold :: "table_facts \<Rightarrow> bool" where
  "table_facts_hold facts \<longleftrightarrow> list_all fact_passed
     [tf_authentication facts, tf_config_routing facts, tf_fixture_isolated facts, tf_fixture_namespace facts,
      tf_create facts, tf_list facts, tf_load facts, tf_pagination facts, tf_update facts, tf_duplicate facts,
      tf_missing_table facts, tf_missing_namespace facts, tf_drop_table facts, tf_cleanup facts,
      tf_transcript_sanitized facts]"

lemma table_assertions_hold:
  "list_all (\<lambda>(ident, step, required, check). required \<longrightarrow> fact_passed (table_fact facts check)) table_assertions
   \<longleftrightarrow> table_facts_hold facts"
  by (simp add: table_assertions_def authentication_assertion_def sanitized_assertion_def custom_check_def
      table_fact_def table_facts_hold_def)

definition table_facts_sanitized :: "bool \<Rightarrow> table_facts \<Rightarrow> table_facts" where
  "table_facts_sanitized sanitized facts = facts\<lparr>tf_transcript_sanitized :=
     fact_from_bool sanitized ''sanitized evidence still contains a sensitive runtime value''\<rparr>"

lemma table_evaluate_verdict:
  assumes "check_assertions ''table'' table_assertions s = Ok ()"
    and "encode_evidence (tl_encode L) (att_transcript (neg_authentication routing), neg_config routing,
      or_operations rcd, pagination) = Ok serialized"
  obtains t where "table_evaluate L p s digests target fx routing pagination facts rcd = Ok t"
    and "tbt_fixture t = fx" and "tbt_authentication t = att_transcript (neg_authentication routing)"
    and "tbt_pagination t = pagination" and "tbt_config t = neg_config routing" and "tbt_operations t = or_operations rcd"
    and "table_transcript_passed t \<longleftrightarrow> table_facts_hold (table_facts_sanitized
      (\<not> contains_sensitive_value serialized (att_sensitive_values (neg_authentication routing))) facts)"
proof -
  let ?facts = "table_facts_sanitized
      (\<not> contains_sensitive_value serialized (att_sensitive_values (neg_authentication routing))) facts"
  obtain t where t: "table_evaluate L p s digests target fx routing pagination facts rcd = Ok t"
      "tbt_fixture t = fx" "tbt_authentication t = att_transcript (neg_authentication routing)"
      "tbt_pagination t = pagination" "tbt_config t = neg_config routing" "tbt_operations t = or_operations rcd"
      "table_transcript_passed t \<longleftrightarrow> passed_required_assertions (evaluate_table_assertions s ?facts)"
    using assms(2)
    by (simp add: table_evaluate_def recorder_finish_def table_transcript_passed_def table_facts_sanitized_def Let_def)
  have "table_transcript_passed t \<longleftrightarrow> table_facts_hold ?facts"
    unfolding t(7) evaluate_table_assertions_def
    using passed_required_expected [OF assms(1), where outcome = "\<lambda>c. fact_outcome (table_fact ?facts c)"]
    by (simp add: table_assertions_hold)
  with that t show ?thesis by simp
qed

lemma table_evaluate_passed:
  assumes "check_assertions ''table'' table_assertions s = Ok ()"
    and evaluated: "table_evaluate L p s digests target fx routing pagination facts rcd = Ok t"
    and "table_transcript_passed t"
  obtains serialized where "tbt_fixture t = fx" and "tbt_authentication t = att_transcript (neg_authentication routing)"
    and "tbt_pagination t = pagination"
    and "encode_evidence (tl_encode L) (tbt_authentication t, tbt_config t, tbt_operations t, tbt_pagination t) = Ok serialized"
    and "\<not> contains_sensitive_value serialized (att_sensitive_values (neg_authentication routing))"
    and "table_facts_hold (table_facts_sanitized True facts)"
proof -
  obtain serialized where ser: "encode_evidence (tl_encode L)
      (att_transcript (neg_authentication routing), neg_config routing, or_operations rcd, pagination) = Ok serialized"
    using evaluated by (auto simp: table_evaluate_def recorder_finish_def Let_def and_then_eq_Inr)
  let ?sanitized = "\<not> contains_sensitive_value serialized (att_sensitive_values (neg_authentication routing))"
  from table_evaluate_verdict [OF assms(1) ser, of p digests target fx facts] evaluated assms(3)
  have t: "tbt_fixture t = fx" "tbt_authentication t = att_transcript (neg_authentication routing)"
      "tbt_pagination t = pagination" "tbt_config t = neg_config routing" "tbt_operations t = or_operations rcd"
      "table_facts_hold (table_facts_sanitized ?sanitized facts)"
    by (metis Inr_inject)+
  from t(6) have sanitized: ?sanitized
    by (auto simp: table_facts_hold_def table_facts_sanitized_def fact_from_bool_def fact_passed_def split: if_splits)
  with that t ser show ?thesis by simp
qed

lemma table_stage_passed:
  assumes locations: "create_locations_new (tl_web L) location_root = Ok locations"
    and "table_stage L target fx locations routing (recorder_new (logging client) bearer sens, w, entries)
      = (Ok (pagination, facts), (rcd, w', entries'))"
    and "fact_passed (tf_fixture_isolated facts)"
  obtains r codec xs where "fact_passed (neg_config_routing routing)" and "entries' = entries @ xs"
    and "neg_codec routing = Some codec"
    and "routes_new (target_adapter target) (rct_prefix (neg_config routing)) codec ''table'' = Ok r"
    and "table_completed L r sens locations fx xs pagination facts"
proof -
  obtain r codec optional where passed: "fact_passed (neg_config_routing routing)" "neg_codec routing = Some codec"
    and routes: "routes_new (target_adapter target) (rct_prefix (neg_config routing)) codec ''table'' = Ok r"
    and run: "execute_table_workflow L r fx locations optional
        (table_facts_new (att_failure (neg_authentication routing) = None) (neg_config_routing routing))
        (recorder_new (logging client) bearer sens, w, entries) = (Ok (pagination, facts), (rcd, w', entries'))"
    using assms(2,3)
    by (auto simp: table_stage_def Let_def probe_return_def skip_table_scenario_def and_then_eq_Inr
        ok_or_def skip_mutating_table_behavior_def skip_table_behavior_def split: sum.splits if_splits option.splits)
  have usable: "usable (tl_web L) r"
    using unusable_table_preflight [of L r fx locations optional
        "table_facts_new (att_failure (neg_authentication routing) = None) (neg_config_routing routing)"
        "(recorder_new (logging client) bearer sens, w, entries)"] run by fastforce
  from rec.traces_elim [OF table_workflow_traces [OF usable locations_ok [OF locations] fresh_new] recorder_new_records run]
  obtain xs where "exchanges_of (rcd, w', entries') = exchanges_of (recorder_new (logging client) bearer sens, w, entries) @ xs"
    "table_collision L r sens fx xs facts \<or> table_completed L r sens locations fx xs pagination facts"
    by auto
  with that passed routes assms(3) show ?thesis by (auto simp: exchanges_of_def table_collision_def)
qed

text \<open>
  C21. What a passing table transcript has established, whatever the catalog does: the catalog
  authenticated the run; on the routes negotiated with it, the namespace of the fixture was absent
  before anything was changed; then only the fixture was worked on, and no drop asked for a purge;
  the namespace was confirmed; two tables with different UUIDs were created with the requested
  schema, location and properties; the listing and its pages had exactly these two tables, and loads
  showed both as they were created; the property update kept UUID and schema, moved the metadata and
  changed only the named properties, and a reload showed the same table; a duplicate was refused with
  409, a missing table and a missing namespace with 404; the dropped table was gone; at the end
  everything was dropped and answered with 404. The serialized evidence contains none of the
  credentials of the run: not the client identifier and secret that the environment held for the
  adapter and not the token issued for them, as far as they have at least four bytes.
\<close>

theorem table_probe_pass_sound:
  assumes "run_table_probe L (\<lambda>_. Ok (logging client)) p s catalog fixture_id digests getenv (w, [])
      = (Ok t, (w', entries))"
    and "table_transcript_passed t"
  shows "\<exists>target routing w1 fx r codec sens locations negotiation x work fin serialized.
    resolve_target p s catalog = Ok target
    \<and> negotiate_routing (tl_web L) (logging client) (target_adapter target) getenv (w, []) = (Ok routing, (w1, negotiation))
    \<and> sens = att_sensitive_values (neg_authentication routing) \<and> neg_codec routing = Some codec
    \<and> routes_new (target_adapter target) (rct_prefix (neg_config routing)) codec ''table'' = Ok r
    \<and> create_locations_new (tl_web L) (create_table_location (adapter_endpoint (target_adapter target))) = Ok locations
    \<and> table_fixture_new catalog fixture_id = Ok fx \<and> tbt_fixture t = fx
    \<and> at_outcome (tbt_authentication t) = AuthReady
    \<and> entries = negotiation @ x # work @ fin
    \<and> request_line x = (GET, fixture_url L r fx) \<and> answered [404] x
    \<and> list_all (table_request L r locations fx) work
    \<and> namespace_made L r sens fx work \<and> tables_created L r sens locations fx work
    \<and> tables_listed L r sens fx work \<and> tables_loaded L r sens locations fx work
    \<and> paging_shown L r sens fx work (tbt_pagination t)
    \<and> (\<exists>after. table_updated L r sens fx work after)
    \<and> duplicate_refused L r sens locations fx work
    \<and> missing_table_refused L r sens fx work \<and> missing_namespace_refused L r sens fx work
    \<and> (\<exists>before. sibling_dropped L r sens fx work before)
    \<and> map request_line fin = table_cleanup_lines L r fx \<and> list_all clean_answer fin
    \<and> encode_evidence (tl_encode L) (tbt_authentication t, tbt_config t, tbt_operations t, tbt_pagination t) = Ok serialized
    \<and> withholds_credentials (target_adapter target) getenv (att_bearer_token (neg_authentication routing)) serialized"
proof -
  obtain target fx where policy: "table_validate_invocation p s catalog = Ok ()"
    and target: "resolve_target p s catalog = Ok target" and fx: "table_fixture_new catalog fixture_id = Ok fx"
    using assms(1) by (auto simp: run_table_probe_def and_then_eq_Inr and_then_def split: sum.splits)
  note run = assms(1) [unfolded run_table_probe_def policy target fx, simplified]
  have checked: "check_assertions ''table'' table_assertions s = Ok ()"
    using policy by (auto simp: table_validate_invocation_def check_invocation_def table_scenario_policy_def
        and_then_eq_Inr split: if_splits)
  have unlimited: "first_required_limitation target s = None"
    using run assms(2)
    by (auto simp: table_unsupported_def unsupported_classification_def table_transcript_passed_def
        and_then_eq_Inr split: option.splits)
  obtain locations where locations: "create_locations_new (tl_web L)
      (create_table_location (adapter_endpoint (target_adapter target))) = Ok locations"
    using run by (simp add: unlimited and_then_def split: sum.splits)
  obtain routing w1 entries1 pagination facts rcd where
      routing: "negotiate_routing (tl_web L) (logging client) (target_adapter target) getenv (w, []) = (Ok routing, (w1, entries1))"
    and stage: "table_stage L target fx locations routing (recorder_new (logging client)
        (att_bearer_token (neg_authentication routing)) (att_sensitive_values (neg_authentication routing)), w1, entries1)
      = (Ok (pagination, facts), (rcd, w', entries))"
    and evaluated: "table_evaluate L p s digests target fx routing pagination facts rcd = Ok t"
    using run by (auto simp: unlimited locations split: sum.splits prod.splits)
  let ?sens = "att_sensitive_values (neg_authentication routing)"
  from table_evaluate_passed [OF checked evaluated assms(2)] obtain serialized where
      t: "tbt_fixture t = fx" "tbt_authentication t = att_transcript (neg_authentication routing)" "tbt_pagination t = pagination"
        "encode_evidence (tl_encode L) (tbt_authentication t, tbt_config t, tbt_operations t, tbt_pagination t) = Ok serialized"
        "\<not> contains_sensitive_value serialized ?sens"
    and hold: "table_facts_hold (table_facts_sanitized True facts)"
    by metis
  then have facts: "fact_passed (tf_fixture_isolated facts)" "fact_passed (tf_fixture_namespace facts)"
      "fact_passed (tf_create facts)" "fact_passed (tf_list facts)" "fact_passed (tf_load facts)" "fact_passed (tf_pagination facts)"
      "fact_passed (tf_update facts)" "fact_passed (tf_duplicate facts)" "fact_passed (tf_missing_table facts)"
      "fact_passed (tf_missing_namespace facts)" "fact_passed (tf_drop_table facts)" "fact_passed (tf_cleanup facts)"
    by (simp_all add: table_facts_hold_def table_facts_sanitized_def)
  from table_stage_passed [OF locations stage facts(1)] obtain r codec xs where
      ready: "fact_passed (neg_config_routing routing)" and entries: "entries = entries1 @ xs"
    and routes: "neg_codec routing = Some codec"
        "routes_new (target_adapter target) (rct_prefix (neg_config routing)) codec ''table'' = Ok r"
    and finished: "table_completed L r ?sens locations fx xs pagination facts"
    by metis
  note authenticated = negotiate_routing_passed [OF routing ready]
  from finished obtain x work fin where xs: "xs = x # work @ fin" "request_line x = (GET, fixture_url L r fx)" "answered [404] x"
      "list_all (table_request L r locations fx) work" "map request_line fin = table_cleanup_lines L r fx"
      "list_all clean_answer fin"
    and shown: "table_shown L r ?sens locations fx pagination work facts"
    using facts(12) unfolding table_completed_def by blast
  show ?thesis
    apply (rule exI [of _ target], rule exI [of _ routing], rule exI [of _ w1], rule exI [of _ fx], rule exI [of _ r],
        rule exI [of _ codec], rule exI [of _ ?sens], rule exI [of _ locations], rule exI [of _ entries1], rule exI [of _ x],
        rule exI [of _ work], rule exI [of _ fin], rule exI [of _ serialized])
    using target routing routes locations fx t(1,3,4) entries xs negotiate_routing_ready [OF routing authenticated]
      shown facts credentials_withheld [OF routing authenticated t(5)]
    unfolding table_shown_def t(2) by simp
qed

section \<open>A concrete run\<close>

text \<open>A catalog that does everything right: thirty-one answers, one after the other.\<close>

definition scripted_table :: "string \<Rightarrow> string \<Rightarrow> string_map \<Rightarrow> probe_load_result" where
  "scripted_table uuid location properties =
     \<lparr>ltr_metadata_location = Some location,
      ltr_metadata = \<lparr>tmd_format_version = 2, tmd_table_uuid = uuid, tmd_location = uuid, tmd_last_column_id = Some 1,
        tmd_properties = properties,
        tmd_schemas = [\<lparr>tsm_type = ''struct'', tsm_schema_id = Some 0,
          tsm_fields = [\<lparr>tfd_ident = 1, tfd_name = ''value'', tfd_required = False, tfd_type = JString ''long''\<rparr>]\<rparr>],
        tmd_current_schema_id = Some 0\<rparr>\<rparr>"

definition scripted_tables :: table_lib where
  "scripted_tables =
     \<lparr>tl_web = text_web, tl_debug_str = id,
      tl_error = (\<lambda>v. Ok (if v = JString ''d'' then \<lparr>ie_message = ''m'', ie_type = ''AlreadyExistsException'', ie_code = 409\<rparr>
        else if v = JString ''t'' then \<lparr>ie_message = ''m'', ie_type = ''NoSuchTableException'', ie_code = 404\<rparr>
        else \<lparr>ie_message = ''m'', ie_type = ''NoSuchNamespaceException'', ie_code = 404\<rparr>)),
      tl_namespace = (\<lambda>v. Ok [''cb_c105_cat_x'']),
      tl_load = (\<lambda>v. Ok (if v = JString ''p'' then scripted_table ''p'' ''m1'' initial_properties
        else if v = JString ''q'' then scripted_table ''p'' ''m2''
          [(TB_STATE_PROPERTY, ''after''), (TB_OWNER_PROPERTY, ''catalog-bench'')]
        else scripted_table ''s'' ''m3'' initial_properties)),
      tl_listing = (\<lambda>v. Ok \<lparr>ltb_next_page_token = None, ltb_identifiers =
        [\<lparr>wti_namespace = [''cb_c105_cat_x''], wti_name = ''primary''\<rparr>,
         \<lparr>wti_namespace = [''cb_c105_cat_x''], wti_name = ''sibling''\<rparr>]\<rparr>),
      tl_encode = (\<lambda>_. Ok ''evidence'')\<rparr>"

definition table_script :: "(u16 \<times> string) list" where
  "table_script =
     [(200, ''c''), (404, ''n''), (200, ''n''), (200, ''p''), (200, ''s''), (200, ''l''), (200, ''p''), (200, ''s''),
      (200, ''l''), (200, ''q''), (200, ''q''), (409, ''d''), (404, ''t''), (404, ''n''), (204, ''o''), (404, ''t''),
      (200, ''q''), (204, ''o''), (404, ''t''), (200, ''s''), (200, ''s''), (204, ''o''), (204, ''o''), (204, ''o''),
      (204, ''o''), (404, ''t''), (404, ''t''), (404, ''t''), (404, ''t''), (204, ''o''), (404, ''n'')]"

definition table_demo_stage ::
  "((string + pagination_transcript \<times> table_facts)
    \<times> (nat \<times> exchange list) operation_recorder \<times> nat \<times> exchange list) option" where
  "table_demo_stage =
     (case (table_fixture_new ''cat'' ''x'',
            negotiate_routing text_web (logging (scripted table_script)) (target_adapter probing_target)
              Map.empty (0, [])) of
        (Inr fx, (Inr routing, w1)) \<Rightarrow>
          Some (table_stage scripted_tables probing_target fx None routing
            (recorder_new (logging (scripted table_script)) (att_bearer_token (neg_authentication routing))
               (att_sensitive_values (neg_authentication routing)), w1))
      | _ \<Rightarrow> None)"

lemma table_demo_stage_passes:
  "case table_demo_stage of Some (Inr (pagination, facts), _) \<Rightarrow> table_facts_hold (table_facts_sanitized True facts)
      \<and> fact_passed (tf_rename facts) \<and> fact_passed (tf_register facts)
   | _ \<Rightarrow> False"
  by code_simp

definition table_scenario :: scenario where
  "table_scenario =
     policy_scenario TABLE_SCENARIO_ID table_parameters table_capabilities table_steps table_assertions"

lemma table_scenario_accepted:
  "table_validate_invocation (probing_profile table_capabilities) table_scenario ''cat'' = Ok ()"
  "resolve_target (probing_profile table_capabilities) table_scenario ''cat'' = Ok probing_target"
  "check_assertions ''table'' table_assertions table_scenario = Ok ()"
  by (simp_all add: table_validate_invocation_def check_invocation_def table_scenario_policy_def
      table_scenario_def policy_scenario_checked probing_target_resolved)

lemma table_demo_obtains:
  obtains fx routing w1 entries1 pagination facts rcd w2 entries2 where
      "table_fixture_new ''cat'' ''x'' = Ok fx"
    and "negotiate_routing text_web (logging (scripted table_script)) (target_adapter probing_target) Map.empty (0, [])
        = (Ok routing, (w1, entries1))"
    and "table_stage scripted_tables probing_target fx None routing (recorder_new (logging (scripted table_script))
        (att_bearer_token (neg_authentication routing)) (att_sensitive_values (neg_authentication routing)), (w1, entries1))
        = (Ok (pagination, facts), (rcd, (w2, entries2)))"
    and "table_facts_hold (table_facts_sanitized True facts)" and "fact_passed (tf_rename facts)"
    and "fact_passed (tf_register facts)"
  using table_demo_stage_passes that
  by (auto simp: table_demo_stage_def split: sum.splits prod.splits)

lemma table_locations: "create_locations_new (tl_web scripted_tables) None = Ok None"
  by (simp add: create_locations_new_def)

theorem table_workflow_discipline_witness:
  "\<exists>fx r optional ready routing sens w entries pagination facts rcd w' xs.
     execute_table_workflow scripted_tables r fx None optional (table_facts_new ready routing)
       (recorder_new (logging (scripted table_script)) None sens, w, entries) = (Ok (pagination, facts), (rcd, w', entries @ xs))
     \<and> fact_passed (tf_rename facts) \<and> fact_passed (tf_register facts)
     \<and> table_completed scripted_tables r sens None fx xs pagination facts"
proof -
  obtain fx routing w1 entries1 pagination facts rcd w2 entries2 where
      stage: "table_stage scripted_tables probing_target fx None routing (recorder_new (logging (scripted table_script))
        (att_bearer_token (neg_authentication routing)) (att_sensitive_values (neg_authentication routing)), (w1, entries1))
        = (Ok (pagination, facts), (rcd, (w2, entries2)))"
    and routing: "negotiate_routing text_web (logging (scripted table_script)) (target_adapter probing_target) Map.empty (0, [])
        = (Ok routing, (w1, entries1))"
    and hold: "table_facts_hold (table_facts_sanitized True facts)"
    and facts: "fact_passed (tf_rename facts)" "fact_passed (tf_register facts)"
    by (rule table_demo_obtains)
  have isolated: "fact_passed (tf_fixture_isolated facts)"
    using hold by (simp add: table_facts_hold_def table_facts_sanitized_def)
  have anonymous: "att_bearer_token (neg_authentication routing) = None"
    using routing
    by (auto simp: negotiate_routing_def routing_of_capture_def acquire_authentication_def probing_target_def
        demo_adapter_def Let_def split: sum.splits prod.splits)
  obtain r where run: "execute_table_workflow scripted_tables r fx None (optional_operations_of (target_adapter probing_target))
      (table_facts_new (att_failure (neg_authentication routing) = None) (neg_config_routing routing))
      (recorder_new (logging (scripted table_script)) None (att_sensitive_values (neg_authentication routing)), w1, entries1)
      = (Ok (pagination, facts), (rcd, (w2, entries2)))"
    using stage isolated unfolding anonymous
    by (auto simp: table_stage_def Let_def probe_return_def skip_table_scenario_def skip_mutating_table_behavior_def
        skip_table_behavior_def split: sum.splits if_splits)
  from table_workflow_discipline [OF table_locations run] facts isolated run show ?thesis
    by (auto simp: table_collision_def split: if_splits) blast
qed

theorem table_probe_pass_sound_witness:
  "\<exists>t w entries. run_table_probe scripted_tables (\<lambda>_. Ok (logging (scripted table_script)))
      (probing_profile table_capabilities) table_scenario ''cat'' ''x'' demo_digests Map.empty (0, [])
      = (Ok t, (w, entries)) \<and> table_transcript_passed t \<and> at_outcome (tbt_authentication t) = AuthReady"
proof -
  let ?client = "logging (scripted table_script)"
  let ?run = "run_table_probe scripted_tables (\<lambda>_. Ok ?client)
      (probing_profile table_capabilities) table_scenario ''cat'' ''x'' demo_digests Map.empty (0, [])"
  obtain fx routing w1 entries1 pagination facts rcd w2 entries2 where
      fx: "table_fixture_new ''cat'' ''x'' = Ok fx"
    and routing: "negotiate_routing text_web ?client (target_adapter probing_target) Map.empty (0, []) = (Ok routing, (w1, entries1))"
    and stage: "table_stage scripted_tables probing_target fx None routing (recorder_new ?client
        (att_bearer_token (neg_authentication routing)) (att_sensitive_values (neg_authentication routing)), (w1, entries1))
        = (Ok (pagination, facts), (rcd, (w2, entries2)))"
    and facts: "table_facts_hold (table_facts_sanitized True facts)"
    by (rule table_demo_obtains)
  have anonymous: "att_sensitive_values (neg_authentication routing) = []"
    using routing
    by (auto simp: negotiate_routing_def routing_of_capture_def acquire_authentication_def probing_target_def
        demo_adapter_def Let_def split: sum.splits prod.splits)
  have encoded: "encode_evidence (tl_encode scripted_tables) evidence = Ok (''evidence'' @ [CHR 0x0A])" for evidence
    by (simp add: encode_evidence_def scripted_tables_def)
  obtain t where evaluated: "table_evaluate scripted_tables (probing_profile table_capabilities) table_scenario
        demo_digests probing_target fx routing pagination facts rcd = Ok t" and passed: "table_transcript_passed t"
    using table_evaluate_verdict [OF table_scenario_accepted(3) encoded, where routing = routing
        and rcd = rcd and pagination = pagination and p = "probing_profile table_capabilities"
        and digests = demo_digests and target = probing_target and fx = fx and facts = facts] facts
    by (auto simp: anonymous contains_sensitive_value_def)
  have web: "tl_web scripted_tables = text_web" by (simp add: scripted_tables_def)
  have unrooted: "create_table_location (adapter_endpoint (target_adapter probing_target)) = None"
    by (simp add: probing_target_def demo_adapter_def)
  have run: "?run = (Ok t, (w2, entries2))"
    using fx routing stage evaluated
    by (simp add: run_table_probe_def table_scenario_accepted(1,2) probing_target_unlimited web unrooted create_locations_new_def)
  from table_probe_pass_sound [OF run passed] run passed show ?thesis by blast
qed

end
