(* ===== verification/Conf_Commit.thy ===== *)
theory Conf_Commit
  imports Conf_Table_Protocol
begin

text \<open>
  The commit-correctness probe (\<open>crates/conformance/src/commit/\<close>): fixture (\<open>fixture.rs\<close>), scenario
  policy (\<open>policy.rs\<close>), the advertisement of idempotency keys, facts and the whole probe
  (\<open>mod.rs\<close>), and the workflow on the catalog (\<open>workflow.rs\<close>). The idempotency key
  (\<open>idempotency.rs\<close>) is a version 7 UUID of the crate \<open>uuid\<close>: the text that is drawn in a run is a
  parameter.
\<close>

section \<open>Data\<close>

definition COMMIT_TRANSCRIPT_FORMAT :: string where
  "COMMIT_TRANSCRIPT_FORMAT = ''catalog-bench/commit-transcript/v1''"

definition COMMIT_SCENARIO_ID :: string where
  "COMMIT_SCENARIO_ID = ''iceberg-rest.commit.correctness''"

definition CM_CREATE :: string where "CM_CREATE = ''iceberg-rest.table.create''"
definition CM_LOAD :: string where "CM_LOAD = ''iceberg-rest.table.load''"
definition CM_UPDATE :: string where "CM_UPDATE = ''iceberg-rest.table.update''"
definition CM_DROP :: string where "CM_DROP = ''iceberg-rest.table.drop''"
definition CM_EXACT_RETRY :: string where "CM_EXACT_RETRY = ''iceberg-rest.table.commit.exact-retry''"
definition CM_CONTENT_BINDING :: string where
  "CM_CONTENT_BINDING = ''iceberg-rest.idempotency-key.content-binding''"
definition CM_NAMESPACE_CREATE :: string where "CM_NAMESPACE_CREATE = ''iceberg-rest.namespace.create''"
definition CM_NAMESPACE_LOAD :: string where "CM_NAMESPACE_LOAD = ''iceberg-rest.namespace.load''"
definition CM_NAMESPACE_DROP :: string where "CM_NAMESPACE_DROP = ''iceberg-rest.namespace.drop''"

definition CM_OWNER_PROPERTY :: string where "CM_OWNER_PROPERTY = ''catalog-bench.owner''"
definition CM_STATE_PROPERTY :: string where "CM_STATE_PROPERTY = ''c1-06.state''"
definition CM_STALE_PROPERTY :: string where "CM_STALE_PROPERTY = ''c1-06.stale''"
definition CM_RETRY_PROPERTY :: string where "CM_RETRY_PROPERTY = ''c1-06.retry''"

record commit_fixture =
  cfx_ident :: string
  cfx_namespace :: namespace_identifier
  cfx_table :: string

definition commit_fixture_new :: "component_id \<Rightarrow> string \<Rightarrow> string + commit_fixture" where
  "commit_fixture_new catalog ident =
     and_then (fixture_stem ''cb_c106'' catalog ident) (\<lambda>stem.
     and_then (namespace_single stem) (\<lambda>ns.
       Ok \<lparr>cfx_ident = ident, cfx_namespace = ns, cfx_table = ''commit_correctness''\<rparr>))"

datatype idempotency_advertisement =
    Advertised (adv_source: string) (adv_lifetime: string)
  | NotAdvertised
  | MalformedAdvertisement string string
  | AdvertisementNotEvaluated string

record commit_lib =
  cl_web :: web_lib
  cl_debug_str :: "string \<Rightarrow> string"
  cl_error :: "iceberg_error decoder"
  cl_namespace :: "string list decoder"
  cl_load :: "probe_load_result decoder"
  cl_encode :: "authentication_transcript \<times> routing_config_transcript \<times> idempotency_advertisement
    \<times> operation_transcript list \<Rightarrow> string + string"
  cl_uuid_v7 :: string

record optional_commit_operations =
  oco_exact_retry_limitation :: "string option"
  oco_content_binding_limitation :: "string option"

record commit_idempotency =
  cid_advertisement :: idempotency_advertisement
  cid_operations :: optional_commit_operations
  cid_key :: "string option"

record commit_facts =
  cft_authentication :: fact
  cft_config_routing :: fact
  cft_fixture_isolated :: fact
  cft_fixture_ready :: fact
  cft_current_requirements :: fact
  cft_schema_transition :: fact
  cft_stale_rejection :: fact
  cft_idempotency_advertisement :: fact
  cft_exact_replay :: fact
  cft_content_binding :: fact
  cft_required_final :: fact
  cft_cleanup :: fact
  cft_transcript_sanitized :: fact

record commit_transcript =
  cmt_format :: string
  cmt_profile :: string
  cmt_scenario :: transcript_scenario
  cmt_contract_digests :: contract_digests
  cmt_adapter :: transcript_adapter_record
  cmt_fixture :: commit_fixture
  cmt_classification :: probe_classification
  cmt_authentication :: authentication_transcript
  cmt_config :: routing_config_transcript
  cmt_idempotency :: idempotency_advertisement
  cmt_operations :: "operation_transcript list"
  cmt_assertions :: "probe_assertion list"
  cmt_sanitization :: sanitization_transcript

definition commit_transcript_passed :: "commit_transcript \<Rightarrow> bool" where
  "commit_transcript_passed t \<longleftrightarrow> cmt_classification t = ProbePass"

section \<open>The advertisement of idempotency keys\<close>

text \<open>\<open>Value::pointer\<close> of the crate \<open>serde_json\<close> is a parameter.\<close>

definition IDEMPOTENCY_POINTERS :: "string list" where
  "IDEMPOTENCY_POINTERS =
     [''/idempotency-key-lifetime'', ''/overrides/idempotency-key-lifetime'', ''/defaults/idempotency-key-lifetime'']"

definition advertisement_at :: "string \<Rightarrow> json \<Rightarrow> idempotency_advertisement" where
  "advertisement_at pointer v =
     (case v of
        JString lifetime \<Rightarrow>
          if trim lifetime \<noteq> [] then Advertised pointer lifetime
          else MalformedAdvertisement pointer ''idempotency-key-lifetime is empty''
      | _ \<Rightarrow> MalformedAdvertisement pointer ''idempotency-key-lifetime must be a nonempty string'')"

fun first_advertisement :: "web_lib \<Rightarrow> json \<Rightarrow> string list \<Rightarrow> idempotency_advertisement" where
  "first_advertisement lib config [] = NotAdvertised"
| "first_advertisement lib config (pointer # pointers) =
     (case wl_json_pointer lib config pointer of
        None \<Rightarrow> first_advertisement lib config pointers
      | Some v \<Rightarrow> advertisement_at pointer v)"

definition inspect_advertisement :: "web_lib \<Rightarrow> json option \<Rightarrow> fact \<Rightarrow> idempotency_advertisement" where
  "inspect_advertisement lib config config_routing =
     (if \<not> fact_passed config_routing then
        AdvertisementNotEvaluated (fact_explanation config_routing ''config routing did not pass'')
      else case config of
        None \<Rightarrow> AdvertisementNotEvaluated ''config response has no captured JSON body''
      | Some v \<Rightarrow> first_advertisement lib v IDEMPOTENCY_POINTERS)"

definition malformed_text :: "string \<Rightarrow> string \<Rightarrow> string" where
  "malformed_text source explanation = ''malformed advertisement at '' @ quoted source @ '': '' @ explanation"

definition advertisement_fact :: "idempotency_advertisement \<Rightarrow> fact" where
  "advertisement_fact a =
     (case a of
        Advertised _ _ \<Rightarrow> FactPass
      | NotAdvertised \<Rightarrow> FactNotEvaluated ''config does not advertise idempotency-key-lifetime''
      | MalformedAdvertisement source explanation \<Rightarrow> FactFail (malformed_text source explanation)
      | AdvertisementNotEvaluated reason \<Rightarrow> FactNotEvaluated reason)"

definition advertised :: "idempotency_advertisement \<Rightarrow> bool" where
  "advertised a = (case a of Advertised _ _ \<Rightarrow> True | _ \<Rightarrow> False)"

definition unavailable_reason :: "idempotency_advertisement \<Rightarrow> string" where
  "unavailable_reason a =
     (case a of
        NotAdvertised \<Rightarrow> ''config does not advertise idempotency-key-lifetime''
      | MalformedAdvertisement source explanation \<Rightarrow> malformed_text source explanation
      | AdvertisementNotEvaluated reason \<Rightarrow> reason
      | Advertised _ _ \<Rightarrow> ''idempotency support is available'')"

section \<open>The scenario policy\<close>

definition value_field :: json where
  "value_field = JObject [(''id'', JNumber ''1''), (''name'', JString ''value''),
     (''required'', JBool False), (''type'', JString ''long'')]"

definition note_field :: json where
  "note_field = JObject [(''id'', JNumber ''2''), (''name'', JString ''note''),
     (''required'', JBool False), (''type'', JString ''string'')]"

definition initial_schema :: json where
  "initial_schema =
     JObject [(''fields'', JArray [value_field]), (''schema-id'', JNumber ''0''), (''type'', JString ''struct'')]"

definition transitioned_schema :: json where
  "transitioned_schema =
     JObject [(''fields'', JArray [value_field, note_field]), (''schema-id'', JNumber ''1''),
       (''type'', JString ''struct'')]"

definition pointers_json :: json where
  "pointers_json = JArray (map JString IDEMPOTENCY_POINTERS)"

definition commit_parameters :: "(string \<times> json) list" where
  "commit_parameters =
     [(''accepted_set_properties'', JObject [(''c1-06.state'', JString ''requirement-accepted'')]),
      (''commit_conflict'', JObject [(''code'', JNumber ''409''), (''type'', JString ''CommitFailedException'')]),
      (''drifted_set_properties'', JObject [(''c1-06.retry'', JString ''drifted-must-not-apply'')]),
      (''exact_retry_set_properties'', JObject [(''c1-06.retry'', JString ''accepted-once'')]),
      (''fixture_prefix'', JString ''cb_c106''),
      (''iceberg_openapi_sha256'', JString ICEBERG_REST_OPENAPI_SHA256),
      (''iceberg_openapi_source'', JString ICEBERG_REST_OPENAPI_SOURCE),
      (''idempotency_advertisement_pointers'', pointers_json),
      (''idempotency_header'', JString ''Idempotency-Key''),
      (''idempotency_key_format'', JString ''uuid-v7''),
      (''initial_properties'', JObject [(''c1-06.state'', JString ''initial''),
         (''catalog-bench.owner'', JString ''catalog-bench'')]),
      (''initial_schema'', initial_schema),
      (''maximum_response_bytes'', JNumber (show_word MAXIMUM_RESPONSE_BYTES)),
      (''namespace_separator_default'', JString DEFAULT_NAMESPACE_SEPARATOR),
      (''purge_requested'', JBool False),
      (''request_timeout_ms'', JNumber ''30000''),
      (''schema_transition'', JObject [(''last-column-id'', JNumber ''2''), (''schema'', transitioned_schema)]),
      (''stale_set_properties'', JObject [(''c1-06.stale'', JString ''must-not-apply'')]),
      (''transcript_format'', JString COMMIT_TRANSCRIPT_FORMAT)]"

definition commit_capabilities :: "(string \<times> requirement_level) list" where
  "commit_capabilities =
     [(''iceberg-rest.namespace.create'', Required),
      (''iceberg-rest.namespace.load'', Required),
      (''iceberg-rest.namespace.drop'', Required),
      (''iceberg-rest.table.create'', Required),
      (''iceberg-rest.table.load'', Required),
      (''iceberg-rest.table.update'', Required),
      (''iceberg-rest.table.drop'', Required),
      (''iceberg-rest.error.spec-shape'', Required),
      (''iceberg-rest.table.commit.set-properties'', Required),
      (''iceberg-rest.table.commit.requirements'', Required),
      (''iceberg-rest.table.commit.stale-pointer-rejection'', Required),
      (''iceberg-rest.table.commit.exact-retry'', Optional),
      (''iceberg-rest.idempotency-key.content-binding'', Optional)]"

definition commit_steps :: "expected_step list" where
  "commit_steps =
     [(''negotiate-authentication'', HarnessActor, ''authentication.negotiate'', [], None),
      (''negotiate-config'', ClientActor, ''config.get-routing-and-idempotency'',
       [''negotiate-authentication''], Some 30000),
      (''preflight-fixture'', HarnessActor, ''commit.verify-fixture-absence'', [''negotiate-config''], None),
      (''create-fixture'', ClientActor, ''commit.create-and-load-table'', [''preflight-fixture''], Some 30000),
      (''accept-current-requirements'', ClientActor, ''table.commit.set-properties'',
       [''create-fixture''], Some 30000),
      (''advance-schema'', ClientActor, ''table.commit.advance-schema'',
       [''accept-current-requirements''], Some 30000),
      (''reject-stale-requirement'', ClientActor, ''table.commit.reject-stale-schema'',
       [''advance-schema''], Some 30000),
      (''inspect-idempotency-advertisement'', HarnessActor, ''config.inspect-idempotency-key-lifetime'',
       [''negotiate-config''], None),
      (''retry-exact-request'', ClientActor, ''table.commit.retry-exact'',
       [''reject-stale-requirement'', ''inspect-idempotency-advertisement''], Some 30000),
      (''reject-idempotency-drift'', ClientActor, ''table.commit.reject-idempotency-content-drift'',
       [''retry-exact-request''], Some 30000),
      (''verify-required-state'', ClientActor, ''table.load-required-final-state'',
       [''reject-stale-requirement''], Some 30000),
      (''cleanup-fixture'', HarnessActor, ''commit.reconcile-drop-and-verify'',
       [''reject-idempotency-drift'', ''verify-required-state''], Some 30000),
      (''sanitize-transcript'', HarnessActor, ''evidence.sanitize-commit-transcript'',
       [''cleanup-fixture''], None)]"

definition commit_assertions :: "expected_assertion list" where
  "commit_assertions =
     [authentication_assertion,
      (''config-routing-ready'', ''negotiate-config'', True,
       custom_check ''commit-config-routing-v1'' [(''default_namespace_separator'', JString ''%1F'')]),
      (''fixture-isolated'', ''preflight-fixture'', True,
       custom_check ''commit-fixture-isolation-v1''
         [(''code'', JNumber ''404''), (''type'', JString ''NoSuchNamespaceException'')]),
      (''commit-fixture-ready'', ''create-fixture'', True,
       custom_check ''commit-fixture-v1''
         [(''create_http_status'', JNumber ''200''), (''load_http_status'', JNumber ''200'')]),
      (''current-requirements-admitted'', ''accept-current-requirements'', True,
       custom_check ''commit-requirements-v1''
         [(''expected_http_status'', JNumber ''200''), (''require_new_metadata_location'', JBool True)]),
      (''schema-transition-admitted'', ''advance-schema'', True,
       custom_check ''commit-schema-transition-v1''
         [(''current_schema_id'', JNumber ''1''), (''last_column_id'', JNumber ''2'')]),
      (''stale-requirement-rejected-atomically'', ''reject-stale-requirement'', True,
       custom_check ''commit-stale-rejection-v1''
         [(''code'', JNumber ''409''), (''type'', JString ''CommitFailedException'')]),
      (''idempotency-support-advertised'', ''inspect-idempotency-advertisement'', False,
       custom_check ''idempotency-advertisement-v1'' [(''accepted_pointers'', pointers_json)]),
      (''exact-request-replayed-once'', ''retry-exact-request'', False, ExactReplay),
      (''idempotency-content-drift-rejected'', ''reject-idempotency-drift'', False,
       custom_check ''idempotency-content-binding-v1''
         [(''expected_http_status'', JNumber ''409''), (''require_unchanged_metadata_location'', JBool True)]),
      (''required-final-state-exact'', ''verify-required-state'', True,
       custom_check ''commit-final-state-v1''
         [(''current_schema_id'', JNumber ''1''), (''forbidden_property'', JString ''c1-06.stale'')]),
      (''commit-fixture-clean'', ''cleanup-fixture'', True,
       custom_check ''commit-cleanup-v1''
         [(''final_http_status'', JNumber ''404''), (''purge_requested'', JBool False)]),
      (''transcript-sanitized'', ''sanitize-transcript'', True,
       custom_check ''sanitized-commit-transcript-v1''
         [(''idempotency_header_policy'', JString ''redact''),
          (''request_header_policy'', JString ''allowlist-and-redact-authorization''),
          (''response_header_policy'', JString ''allowlist''),
          (''response_json_policy'', JString ''recursive-secret-key-redaction'')])]"

definition commit_scenario_policy :: "scenario \<Rightarrow> string + unit" where
  "commit_scenario_policy s =
     and_then (check_parameters ''commit'' commit_parameters s) (\<lambda>_.
     and_then (check_capabilities ''commit'' commit_capabilities s) (\<lambda>_.
     and_then (check_steps ''commit'' commit_steps s) (\<lambda>_.
     and_then (check_assertions ''commit'' commit_assertions s) (\<lambda>_.
       check_extensions ''commit'' s))))"

definition commit_validate_invocation :: "profile \<Rightarrow> scenario \<Rightarrow> component_id \<Rightarrow> string + unit" where
  "commit_validate_invocation = check_invocation ''commit'' COMMIT_SCENARIO_ID commit_scenario_policy"

section \<open>Facts\<close>

definition commit_facts_new :: "bool \<Rightarrow> fact \<Rightarrow> fact \<Rightarrow> commit_facts" where
  "commit_facts_new authentication_ready config_routing advertisement =
     (let pending = FactNotEvaluated ''commit workflow did not reach this check''
      in \<lparr>cft_authentication = fact_from_bool authentication_ready ''authentication negotiation did not complete'',
          cft_config_routing = config_routing, cft_fixture_isolated = pending, cft_fixture_ready = pending,
          cft_current_requirements = pending, cft_schema_transition = pending, cft_stale_rejection = pending,
          cft_idempotency_advertisement = advertisement, cft_exact_replay = pending,
          cft_content_binding = pending, cft_required_final = pending, cft_cleanup = pending,
          cft_transcript_sanitized = pending\<rparr>)"

definition skip_after_fixture :: "string \<Rightarrow> commit_facts \<Rightarrow> commit_facts" where
  "skip_after_fixture reason facts =
     facts\<lparr>cft_current_requirements := FactNotEvaluated reason, cft_schema_transition := FactNotEvaluated reason,
       cft_stale_rejection := FactNotEvaluated reason, cft_exact_replay := FactNotEvaluated reason,
       cft_content_binding := FactNotEvaluated reason, cft_required_final := FactNotEvaluated reason\<rparr>"

definition skip_after_preflight :: "string \<Rightarrow> commit_facts \<Rightarrow> commit_facts" where
  "skip_after_preflight reason facts =
     (skip_after_fixture reason (facts\<lparr>cft_fixture_ready := FactNotEvaluated reason\<rparr>))
       \<lparr>cft_cleanup := FactNotEvaluated reason\<rparr>"

definition skip_commit_scenario :: "string \<Rightarrow> commit_facts \<Rightarrow> commit_facts" where
  "skip_commit_scenario reason facts =
     skip_after_preflight reason (facts\<lparr>cft_fixture_isolated := FactNotEvaluated reason\<rparr>)"

definition commit_fact :: "commit_facts \<Rightarrow> assertion_check \<Rightarrow> fact" where
  "commit_fact facts check =
     (case check of
        ExactReplay \<Rightarrow> cft_exact_replay facts
      | Custom name _ \<Rightarrow>
          (if name = ''querygraph/catalog-bench/authentication-ready-v1'' then cft_authentication facts
           else if name = ''querygraph/catalog-bench/commit-config-routing-v1'' then cft_config_routing facts
           else if name = ''querygraph/catalog-bench/commit-fixture-isolation-v1'' then cft_fixture_isolated facts
           else if name = ''querygraph/catalog-bench/commit-fixture-v1'' then cft_fixture_ready facts
           else if name = ''querygraph/catalog-bench/commit-requirements-v1'' then cft_current_requirements facts
           else if name = ''querygraph/catalog-bench/commit-schema-transition-v1'' then cft_schema_transition facts
           else if name = ''querygraph/catalog-bench/commit-stale-rejection-v1'' then cft_stale_rejection facts
           else if name = ''querygraph/catalog-bench/idempotency-advertisement-v1''
             then cft_idempotency_advertisement facts
           else if name = ''querygraph/catalog-bench/idempotency-content-binding-v1'' then cft_content_binding facts
           else if name = ''querygraph/catalog-bench/commit-final-state-v1'' then cft_required_final facts
           else if name = ''querygraph/catalog-bench/commit-cleanup-v1'' then cft_cleanup facts
           else if name = ''querygraph/catalog-bench/sanitized-commit-transcript-v1''
             then cft_transcript_sanitized facts
           else FactFail (''commit policy received unknown assertion '' @ quoted name))
      | _ \<Rightarrow> FactFail ''commit policy received an unsupported assertion kind'')"

definition evaluate_commit_assertions :: "scenario \<Rightarrow> commit_facts \<Rightarrow> probe_assertion list" where
  "evaluate_commit_assertions s facts =
     map (\<lambda>a. \<lparr>pa_assertion = spec_ident a, pa_required = spec_required a,
               pa_outcome = fact_outcome (commit_fact facts (spec_check a))\<rparr>) (scn_assertions s)"

section \<open>Snapshots of the table\<close>

definition debug_option_i32 :: "int option \<Rightarrow> string" where
  "debug_option_i32 v = (case v of None \<Rightarrow> ''None'' | Some i \<Rightarrow> ''Some('' @ show_i32 i @ '')'')"

definition validate_schema_fields ::
  "table_schema \<Rightarrow> int \<Rightarrow> (int \<times> string \<times> bool \<times> json) list \<Rightarrow> string + unit" where
  "validate_schema_fields schema schema_id expected_fields =
     (if tsm_type schema \<noteq> ''struct'' \<or> tsm_schema_id schema \<noteq> Some schema_id then
        Err (''current schema is not struct schema '' @ show_i32 schema_id)
      else if length (tsm_fields schema) \<noteq> length expected_fields then
        Err (''schema '' @ show_i32 schema_id @ '' has '' @ show_nat (length (tsm_fields schema))
             @ '' fields instead of '' @ show_nat (length expected_fields))
      else try_fold (\<lambda>_ (actual, (ident, name, required, field_type)).
             ensure (tfd_ident actual = ident \<and> tfd_name actual = name \<and> tfd_required actual = required
                     \<and> tfd_type actual = field_type)
               (''schema '' @ show_i32 schema_id @ '' does not preserve field '' @ quoted name))
           () (zip (tsm_fields schema) expected_fields))"

definition validate_schema_zero :: "probe_table_snapshot \<Rightarrow> string + unit" where
  "validate_schema_zero snapshot =
     validate_schema_fields (pts_schema snapshot) 0 [(1, ''value'', False, JString ''long'')]"

definition validate_schema_one :: "probe_table_snapshot \<Rightarrow> string + unit" where
  "validate_schema_one snapshot =
     (if pts_last_column_id snapshot \<noteq> Some 2 then
        Err (''transitioned last-column-id '' @ debug_option_i32 (pts_last_column_id snapshot) @ '' does not match 2'')
      else validate_schema_fields (pts_schema snapshot) 1
             [(1, ''value'', False, JString ''long''), (2, ''note'', False, JString ''string'')])"

definition validate_exact_snapshot :: "probe_table_snapshot \<Rightarrow> probe_table_snapshot \<Rightarrow> string + unit" where
  "validate_exact_snapshot expected actual =
     ensure (actual = expected) ''table snapshot differs from the exact expected metadata state''"

definition validate_pointer_transition :: "probe_table_snapshot \<Rightarrow> probe_table_snapshot \<Rightarrow> string + unit" where
  "validate_pointer_transition before after =
     (if pts_uuid after \<noteq> pts_uuid before then Err ''commit changed the table UUID''
      else if pts_location after \<noteq> pts_location before then Err ''commit changed the table location''
      else if pts_metadata_location after = pts_metadata_location before then
        Err ''commit did not advance the metadata location''
      else Ok ())"

definition scenario_properties :: "string_map \<Rightarrow> string_map" where
  "scenario_properties properties =
     filter (\<lambda>(key, _). starts_with key ''catalog-bench.'' \<or> starts_with key ''c1-06.'') properties"

definition validate_initial_commit_snapshot ::
  "probe_table_snapshot \<Rightarrow> string option \<Rightarrow> string + probe_table_snapshot" where
  "validate_initial_commit_snapshot snapshot requested_location =
     and_then (validate_schema_zero snapshot) (\<lambda>_.
       if pts_last_column_id snapshot \<noteq> Some 1 then
         Err (''initial last-column-id '' @ debug_option_i32 (pts_last_column_id snapshot) @ '' does not match 1'')
       else case Option.bind requested_location (\<lambda>l. if pts_location snapshot \<noteq> l then Some l else None) of
         Some l \<Rightarrow> Err (''created table location '' @ quoted (pts_location snapshot) @ '' does not preserve '' @ quoted l)
       | None \<Rightarrow>
           (case find (\<lambda>(key, expected). map_of (pts_properties snapshot) key \<noteq> Some expected)
                   [(CM_OWNER_PROPERTY, ''catalog-bench''), (CM_STATE_PROPERTY, ''initial'')] of
              Some (key, _) \<Rightarrow> Err (''initial metadata does not preserve property '' @ quoted key)
            | None \<Rightarrow> Ok snapshot))"

definition validate_property_transition ::
  "commit_lib \<Rightarrow> probe_table_snapshot \<Rightarrow> observation \<Rightarrow> observation \<Rightarrow> string \<Rightarrow> string
   \<Rightarrow> string + probe_table_snapshot" where
  "validate_property_transition L before commit reload property v =
     and_then (parse_table_snapshot (cl_load L) commit 200) (\<lambda>committed.
     and_then (validate_pointer_transition before committed) (\<lambda>_.
       if pts_schema committed \<noteq> pts_schema before \<or> pts_last_column_id committed \<noteq> pts_last_column_id before then
         Err ''property commit changed schema metadata''
       else if scenario_properties (pts_properties committed)
               \<noteq> btree_insert property v (scenario_properties (pts_properties before)) then
         Err (''property commit did not produce the exact '' @ quoted property @ '' transition'')
       else
         and_then (parse_table_snapshot (cl_load L) reload 200) (\<lambda>loaded.
         and_then (validate_exact_snapshot committed loaded) (\<lambda>_. Ok loaded))))"

definition validate_schema_transition ::
  "commit_lib \<Rightarrow> probe_table_snapshot \<Rightarrow> observation \<Rightarrow> observation \<Rightarrow> string + probe_table_snapshot" where
  "validate_schema_transition L before commit reload =
     and_then (parse_table_snapshot (cl_load L) commit 200) (\<lambda>committed.
     and_then (validate_pointer_transition before committed) (\<lambda>_.
     and_then (validate_schema_one committed) (\<lambda>_.
       if scenario_properties (pts_properties committed) \<noteq> scenario_properties (pts_properties before) then
         Err ''schema transition changed scenario-owned table properties''
       else
         and_then (parse_table_snapshot (cl_load L) reload 200) (\<lambda>loaded.
         and_then (validate_exact_snapshot committed loaded) (\<lambda>_. Ok loaded)))))"

definition validate_required_final ::
  "commit_lib \<Rightarrow> probe_table_snapshot \<Rightarrow> observation \<Rightarrow> string + unit" where
  "validate_required_final L expected load_answer =
     and_then (parse_table_snapshot (cl_load L) load_answer 200) (\<lambda>loaded.
     and_then (validate_exact_snapshot expected loaded) (\<lambda>_.
     and_then (validate_schema_one loaded) (\<lambda>_.
       if map_of (pts_properties loaded) CM_STATE_PROPERTY \<noteq> Some ''requirement-accepted'' then
         Err (''required final state does not retain '' @ quoted CM_STATE_PROPERTY)
       else if map_of (pts_properties loaded) CM_STALE_PROPERTY \<noteq> None then
         Err (''required final state contains rejected property '' @ quoted CM_STALE_PROPERTY)
       else Ok ())))"

definition validate_exact_replay ::
  "commit_lib \<Rightarrow> probe_table_snapshot \<Rightarrow> observation \<Rightarrow> observation \<Rightarrow> observation \<Rightarrow> observation
   \<Rightarrow> string + probe_table_snapshot" where
  "validate_exact_replay L before first_answer first_reload replay replay_reload =
     and_then (parse_table_snapshot (cl_load L) first_answer 200) (\<lambda>committed.
     and_then (validate_pointer_transition before committed) (\<lambda>_.
       if pts_schema committed \<noteq> pts_schema before \<or> pts_last_column_id committed \<noteq> pts_last_column_id before
          \<or> scenario_properties (pts_properties committed)
            \<noteq> btree_insert CM_RETRY_PROPERTY ''accepted-once'' (scenario_properties (pts_properties before)) then
         Err ''first idempotent commit did not apply exactly one property update''
       else
         and_then (parse_table_snapshot (cl_load L) first_reload 200) (\<lambda>first_loaded.
         and_then (validate_exact_snapshot committed first_loaded) (\<lambda>_.
         and_then (parse_table_snapshot (cl_load L) replay 200) (\<lambda>replayed.
         and_then (validate_exact_snapshot committed replayed) (\<lambda>_.
         and_then (parse_table_snapshot (cl_load L) replay_reload 200) (\<lambda>replay_loaded.
         and_then (validate_exact_snapshot committed replay_loaded) (\<lambda>_. Ok replay_loaded))))))))"

definition validate_rejection ::
  "commit_lib \<Rightarrow> probe_table_snapshot \<Rightarrow> string + unit \<Rightarrow> observation \<Rightarrow> string + unit" where
  "validate_rejection L before conflict reload =
     all_results [conflict,
       and_then (parse_table_snapshot (cl_load L) reload 200) (\<lambda>loaded. validate_exact_snapshot before loaded)]"

section \<open>The workflow\<close>

definition property_commit_body :: "string \<Rightarrow> int \<Rightarrow> string \<Rightarrow> string \<Rightarrow> json" where
  "property_commit_body uuid schema_id property v =
     JObject [(''requirements'', JArray
         [JObject [(''type'', JString ''assert-table-uuid''), (''uuid'', JString uuid)],
          JObject [(''current-schema-id'', JNumber (show_i32 schema_id)),
            (''type'', JString ''assert-current-schema-id'')]]),
       (''updates'', JArray
         [JObject [(''action'', JString ''set-properties''), (''updates'', JObject [(property, JString v)])]])]"

definition schema_commit_body :: "string \<Rightarrow> json" where
  "schema_commit_body uuid =
     JObject [(''requirements'', JArray
         [JObject [(''type'', JString ''assert-table-uuid''), (''uuid'', JString uuid)],
          JObject [(''current-schema-id'', JNumber ''0''), (''type'', JString ''assert-current-schema-id'')],
          JObject [(''last-assigned-field-id'', JNumber ''1''), (''type'', JString ''assert-last-assigned-field-id'')]]),
       (''updates'', JArray
         [JObject [(''action'', JString ''add-schema''), (''last-column-id'', JNumber ''2''),
            (''schema'', transitioned_schema)],
          JObject [(''action'', JString ''set-current-schema''), (''schema-id'', JNumber ''1'')]])]"

definition commit_table_route :: "commit_lib \<Rightarrow> catalog_routes \<Rightarrow> commit_fixture \<Rightarrow> string + url" where
  "commit_table_route L r fx = route_table (cl_web L) r (cfx_namespace fx) (cfx_table fx)"

definition commit_drop_url :: "commit_lib \<Rightarrow> catalog_routes \<Rightarrow> commit_fixture \<Rightarrow> string + url" where
  "commit_drop_url L r fx =
     and_then (commit_table_route L r fx) (\<lambda>u. Ok (wl_append_pair (cl_web L) ''purgeRequested'' ''false'' u))"

definition load_commit_table ::
  "commit_lib \<Rightarrow> catalog_routes \<Rightarrow> commit_fixture \<Rightarrow> string \<Rightarrow> string
   \<Rightarrow> ('w operation_recorder \<times> 'w, observation) probe" where
  "load_commit_table L r fx ident capability =
     attempt (cl_web L) ident capability GET (commit_table_route L r fx) None"

definition create_and_load_table ::
  "commit_lib \<Rightarrow> catalog_routes \<Rightarrow> commit_fixture \<Rightarrow> table_create_locations
   \<Rightarrow> ('w operation_recorder \<times> 'w, string + probe_table_snapshot) probe" where
  "create_and_load_table L r fx locations =
     probe_bind (probe_try (location_for_table (cl_web L) locations (cfx_namespace fx) (cfx_table fx))) (\<lambda>location.
     probe_bind (attempt (cl_web L) ''create-table'' CM_CREATE POST
                   (route_table_collection (cl_web L) r (cfx_namespace fx))
                   (Some (committed_table_request (cfx_table fx) location initial_schema
                      [(CM_STATE_PROPERTY, ''initial''), (CM_OWNER_PROPERTY, ''catalog-bench'')]))) (\<lambda>create.
     probe_bind (load_commit_table L r fx ''load-initial-table'' CM_LOAD) (\<lambda>load_answer.
       probe_return
         (and_then (and_then (parse_table_snapshot (cl_load L) create 200)
                      (\<lambda>snapshot. validate_initial_commit_snapshot snapshot location)) (\<lambda>created.
          and_then (parse_table_snapshot (cl_load L) load_answer 200) (\<lambda>loaded.
          and_then (validate_exact_snapshot created loaded) (\<lambda>_. Ok loaded)))))))"

definition commit_current_requirements ::
  "commit_lib \<Rightarrow> catalog_routes \<Rightarrow> commit_fixture \<Rightarrow> probe_table_snapshot
   \<Rightarrow> ('w operation_recorder \<times> 'w, string + probe_table_snapshot) probe" where
  "commit_current_requirements L r fx before =
     probe_bind (attempt (cl_web L) ''commit-current-requirements'' CM_UPDATE POST (commit_table_route L r fx)
                   (Some (property_commit_body (pts_uuid before) 0 CM_STATE_PROPERTY ''requirement-accepted''))) (\<lambda>commit.
     probe_bind (load_commit_table L r fx ''reload-after-current-requirements'' CM_LOAD) (\<lambda>reload.
       probe_return (validate_property_transition L before commit reload CM_STATE_PROPERTY ''requirement-accepted'')))"

definition commit_schema_transition ::
  "commit_lib \<Rightarrow> catalog_routes \<Rightarrow> commit_fixture \<Rightarrow> probe_table_snapshot
   \<Rightarrow> ('w operation_recorder \<times> 'w, string + probe_table_snapshot) probe" where
  "commit_schema_transition L r fx before =
     probe_bind (attempt (cl_web L) ''commit-schema-transition'' CM_UPDATE POST (commit_table_route L r fx)
                   (Some (schema_commit_body (pts_uuid before)))) (\<lambda>commit.
     probe_bind (load_commit_table L r fx ''reload-after-schema-transition'' CM_LOAD) (\<lambda>reload.
       probe_return (validate_schema_transition L before commit reload)))"

definition reject_stale_requirement ::
  "commit_lib \<Rightarrow> catalog_routes \<Rightarrow> commit_fixture \<Rightarrow> probe_table_snapshot
   \<Rightarrow> ('w operation_recorder \<times> 'w, string + unit) probe" where
  "reject_stale_requirement L r fx before =
     probe_bind (attempt (cl_web L) ''commit-stale-requirement'' CM_UPDATE POST (commit_table_route L r fx)
                   (Some (property_commit_body (pts_uuid before) 0 CM_STALE_PROPERTY ''must-not-apply''))) (\<lambda>commit.
     probe_bind (load_commit_table L r fx ''reload-after-stale-requirement'' CM_LOAD) (\<lambda>reload.
       probe_return (validate_rejection L before
         (validate_error_response (cl_error L) commit 409 ''CommitFailedException'') reload)))"

definition verify_required_final_state ::
  "commit_lib \<Rightarrow> catalog_routes \<Rightarrow> commit_fixture \<Rightarrow> probe_table_snapshot
   \<Rightarrow> ('w operation_recorder \<times> 'w, string + unit) probe" where
  "verify_required_final_state L r fx expected =
     probe_bind (load_commit_table L r fx ''load-required-final-state'' CM_LOAD) (\<lambda>load_answer.
       probe_return (validate_required_final L expected load_answer))"

definition attempt_exact_replay ::
  "commit_lib \<Rightarrow> catalog_routes \<Rightarrow> commit_fixture \<Rightarrow> probe_table_snapshot \<Rightarrow> string
   \<Rightarrow> ('w operation_recorder \<times> 'w, string + probe_table_snapshot) probe" where
  "attempt_exact_replay L r fx before key =
     (let body = property_commit_body (pts_uuid before) 1 CM_RETRY_PROPERTY ''accepted-once''
      in probe_bind (attempt_keyed (cl_web L) ''commit-idempotent-first'' CM_EXACT_RETRY POST
                       (commit_table_route L r fx) (Some body) key) (\<lambda>first_answer.
         probe_bind (load_commit_table L r fx ''reload-after-idempotent-first'' CM_EXACT_RETRY) (\<lambda>first_reload.
         probe_bind (attempt_keyed (cl_web L) ''commit-idempotent-replay'' CM_EXACT_RETRY POST
                       (commit_table_route L r fx) (Some body) key) (\<lambda>replay.
         probe_bind (load_commit_table L r fx ''reload-after-idempotent-replay'' CM_EXACT_RETRY) (\<lambda>replay_reload.
           probe_return (validate_exact_replay L before first_answer first_reload replay replay_reload))))))"

definition reject_idempotency_drift ::
  "commit_lib \<Rightarrow> catalog_routes \<Rightarrow> commit_fixture \<Rightarrow> probe_table_snapshot \<Rightarrow> string
   \<Rightarrow> ('w operation_recorder \<times> 'w, string + unit) probe" where
  "reject_idempotency_drift L r fx before key =
     probe_bind (attempt_keyed (cl_web L) ''commit-idempotency-drift'' CM_CONTENT_BINDING POST (commit_table_route L r fx)
                   (Some (property_commit_body (pts_uuid before) 1 CM_RETRY_PROPERTY ''drifted-must-not-apply''))
                   key) (\<lambda>drift.
     probe_bind (load_commit_table L r fx ''reload-after-idempotency-drift'' CM_CONTENT_BINDING) (\<lambda>reload.
       probe_return (validate_rejection L before
         (and_then (validate_spec_error_response (cl_error L) drift 409) (\<lambda>_. Ok ())) reload)))"

definition cleanup_fixture ::
  "commit_lib \<Rightarrow> catalog_routes \<Rightarrow> commit_fixture \<Rightarrow> ('w operation_recorder \<times> 'w, string + unit) probe" where
  "cleanup_fixture L r fx =
     probe_bind (attempt (cl_web L) ''cleanup-drop-table'' CM_DROP DELETE (commit_drop_url L r fx) None) (\<lambda>drop_table.
     probe_bind (load_commit_table L r fx ''cleanup-verify-table-absent'' CM_LOAD) (\<lambda>load_table.
     probe_bind (attempt (cl_web L) ''cleanup-drop-namespace'' CM_NAMESPACE_DROP DELETE
                   (route_namespace (cl_web L) r (cfx_namespace fx)) None) (\<lambda>drop_namespace.
     probe_bind (attempt (cl_web L) ''cleanup-verify-namespace-absent'' CM_NAMESPACE_LOAD GET
                   (route_namespace (cl_web L) r (cfx_namespace fx)) None) (\<lambda>load_namespace.
       probe_return (all_results
         [validate_status drop_table [204, 404],
          validate_error_response (cl_error L) load_table 404 ''NoSuchTableException'',
          validate_status drop_namespace [204, 404],
          validate_error_response (cl_error L) load_namespace 404 ''NoSuchNamespaceException''])))))"

text \<open>What is written as not attempted, by the point at which the workflow gave up.\<close>

definition drift_operations :: "(string \<times> string) list" where
  "drift_operations =
     [(''commit-idempotency-drift'', CM_CONTENT_BINDING), (''reload-after-idempotency-drift'', CM_CONTENT_BINDING)]"

definition optional_commits :: "(string \<times> string) list" where
  "optional_commits =
     [(''commit-idempotent-first'', CM_EXACT_RETRY), (''reload-after-idempotent-first'', CM_EXACT_RETRY),
      (''commit-idempotent-replay'', CM_EXACT_RETRY), (''reload-after-idempotent-replay'', CM_EXACT_RETRY)]
     @ drift_operations"

definition after_schema_commits :: "(string \<times> string) list" where
  "after_schema_commits =
     [(''commit-stale-requirement'', CM_UPDATE), (''reload-after-stale-requirement'', CM_LOAD),
      (''load-required-final-state'', CM_LOAD)]"

definition after_current_commits :: "(string \<times> string) list" where
  "after_current_commits =
     [(''commit-schema-transition'', CM_UPDATE), (''reload-after-schema-transition'', CM_LOAD)]
     @ after_schema_commits"

definition required_commits :: "(string \<times> string) list" where
  "required_commits =
     [(''commit-current-requirements'', CM_UPDATE), (''reload-after-current-requirements'', CM_LOAD)]
     @ after_current_commits"

definition cleanup_operations :: "(string \<times> string) list" where
  "cleanup_operations =
     [(''cleanup-drop-table'', CM_DROP), (''cleanup-verify-table-absent'', CM_LOAD),
      (''cleanup-drop-namespace'', CM_NAMESPACE_DROP), (''cleanup-verify-namespace-absent'', CM_NAMESPACE_LOAD)]"

definition commits_after_preflight :: "(string \<times> string) list" where
  "commits_after_preflight =
     [(''create-namespace'', CM_NAMESPACE_CREATE), (''create-table'', CM_CREATE), (''load-initial-table'', CM_LOAD)]
     @ required_commits @ optional_commits @ cleanup_operations"

definition unit_result :: "string + 'a \<Rightarrow> string + unit" where
  "unit_result result = and_then result (\<lambda>_. Ok ())"

definition skip_optional ::
  "string \<Rightarrow> fact \<Rightarrow> fact \<Rightarrow> commit_facts \<Rightarrow> ('w operation_recorder \<times> 'w, commit_facts) probe" where
  "skip_optional reason exact binding facts =
     probe_bind (skip_all optional_commits reason) (\<lambda>_.
       probe_return (facts\<lparr>cft_exact_replay := exact, cft_content_binding := binding\<rparr>))"

definition bind_content ::
  "commit_lib \<Rightarrow> catalog_routes \<Rightarrow> commit_fixture \<Rightarrow> string option \<Rightarrow> string \<Rightarrow> string + probe_table_snapshot
   \<Rightarrow> commit_facts \<Rightarrow> ('w operation_recorder \<times> 'w, commit_facts) probe" where
  "bind_content L r fx binding_limitation key exact_snapshot facts =
     (case binding_limitation of
        Some reason \<Rightarrow>
          probe_bind (skip_all drift_operations reason) (\<lambda>_.
            probe_return (facts\<lparr>cft_content_binding := FactNotEvaluated reason\<rparr>))
      | None \<Rightarrow>
          (case exact_snapshot of
             Inr snapshot \<Rightarrow>
               probe_bind (reject_idempotency_drift L r fx snapshot key) (\<lambda>result.
                 probe_return (facts\<lparr>cft_content_binding := fact_from_result result\<rparr>))
           | Inl _ \<Rightarrow>
               (let reason = fact_explanation (cft_exact_replay facts) ''exact idempotency replay did not pass''
                in probe_bind (skip_all drift_operations reason) (\<lambda>_.
                     probe_return (facts\<lparr>cft_content_binding := FactNotEvaluated reason\<rparr>)))))"

definition execute_optional_idempotency ::
  "commit_lib \<Rightarrow> catalog_routes \<Rightarrow> commit_fixture \<Rightarrow> probe_table_snapshot \<Rightarrow> commit_idempotency \<Rightarrow> commit_facts
   \<Rightarrow> ('w operation_recorder \<times> 'w, commit_facts) probe" where
  "execute_optional_idempotency L r fx before idem facts =
     (if \<not> fact_passed (cft_required_final facts) then
        (let reason = fact_explanation (cft_required_final facts) ''required final state did not pass''
         in skip_optional reason (FactNotEvaluated reason) (FactNotEvaluated reason) facts)
      else if \<not> advertised (cid_advertisement idem) then
        (let reason = unavailable_reason (cid_advertisement idem)
         in skip_optional reason (FactNotEvaluated reason) (FactNotEvaluated reason) facts)
      else case oco_exact_retry_limitation (cid_operations idem) of
        Some reason \<Rightarrow>
          skip_optional reason (FactNotEvaluated reason)
            (FactNotEvaluated (''content binding depends on exact retry: '' @ reason)) facts
      | None \<Rightarrow>
          (case cid_key idem of
             None \<Rightarrow>
               (let reason = ''idempotency key was not generated for an advertised exact-retry check''
                in skip_optional reason (FactFail reason) (FactNotEvaluated reason) facts)
           | Some key \<Rightarrow>
               probe_bind (attempt_exact_replay L r fx before key) (\<lambda>exact_snapshot.
                 bind_content L r fx (oco_content_binding_limitation (cid_operations idem)) key exact_snapshot
                   (facts\<lparr>cft_exact_replay := fact_from_result (unit_result exact_snapshot)\<rparr>))))"

text \<open>
  The workflow from the schema transition on, from the first commit on, and from the created table
  on. Every branch is followed by the cleanup, which stands in \<open>execute_commit_workflow\<close>.
\<close>

definition commits_after_schema ::
  "commit_lib \<Rightarrow> catalog_routes \<Rightarrow> commit_fixture \<Rightarrow> commit_idempotency \<Rightarrow> string + probe_table_snapshot
   \<Rightarrow> commit_facts \<Rightarrow> ('w operation_recorder \<times> 'w, commit_facts) probe" where
  "commits_after_schema L r fx idem schema_snapshot facts =
     (let facts1 = facts\<lparr>cft_schema_transition := fact_from_result (unit_result schema_snapshot)\<rparr>
      in case schema_snapshot of
           Inl _ \<Rightarrow>
             (let reason = fact_explanation (cft_schema_transition facts1) ''schema transition did not pass''
              in probe_bind (skip_all (after_schema_commits @ optional_commits) reason) (\<lambda>_.
                   probe_return (facts1\<lparr>cft_stale_rejection := FactNotEvaluated reason,
                     cft_required_final := FactNotEvaluated reason, cft_exact_replay := FactNotEvaluated reason,
                     cft_content_binding := FactNotEvaluated reason\<rparr>)))
         | Inr schema_snapshot \<Rightarrow>
             probe_bind (reject_stale_requirement L r fx schema_snapshot) (\<lambda>stale.
             probe_bind (verify_required_final_state L r fx schema_snapshot) (\<lambda>required.
               execute_optional_idempotency L r fx schema_snapshot idem
                 (facts1\<lparr>cft_stale_rejection := fact_from_result stale,
                   cft_required_final := fact_from_result required\<rparr>))))"

definition commits_after_current ::
  "commit_lib \<Rightarrow> catalog_routes \<Rightarrow> commit_fixture \<Rightarrow> commit_idempotency \<Rightarrow> string + probe_table_snapshot
   \<Rightarrow> commit_facts \<Rightarrow> ('w operation_recorder \<times> 'w, commit_facts) probe" where
  "commits_after_current L r fx idem current_snapshot facts =
     (let facts1 = facts\<lparr>cft_current_requirements := fact_from_result (unit_result current_snapshot)\<rparr>
      in case current_snapshot of
           Inl _ \<Rightarrow>
             (let reason = fact_explanation (cft_current_requirements facts1) ''current requirement commit did not pass''
              in probe_bind (skip_all (after_current_commits @ optional_commits) reason) (\<lambda>_.
                   probe_return (facts1\<lparr>cft_schema_transition := FactNotEvaluated reason,
                     cft_stale_rejection := FactNotEvaluated reason, cft_required_final := FactNotEvaluated reason,
                     cft_exact_replay := FactNotEvaluated reason, cft_content_binding := FactNotEvaluated reason\<rparr>)))
         | Inr current_snapshot \<Rightarrow>
             probe_bind (commit_schema_transition L r fx current_snapshot) (\<lambda>schema_snapshot.
               commits_after_schema L r fx idem schema_snapshot facts1))"

definition commits_after_fixture ::
  "commit_lib \<Rightarrow> catalog_routes \<Rightarrow> commit_fixture \<Rightarrow> commit_idempotency \<Rightarrow> string + probe_table_snapshot
   \<Rightarrow> commit_facts \<Rightarrow> ('w operation_recorder \<times> 'w, commit_facts) probe" where
  "commits_after_fixture L r fx idem initial_snapshot facts =
     (let facts1 = facts\<lparr>cft_fixture_ready := fact_from_result (unit_result initial_snapshot)\<rparr>
      in case initial_snapshot of
           Inl _ \<Rightarrow>
             (let reason = fact_explanation (cft_fixture_ready facts1) ''commit fixture creation did not pass''
              in probe_bind (skip_all (required_commits @ optional_commits) reason) (\<lambda>_.
                   probe_return (skip_after_fixture reason facts1)))
         | Inr initial_snapshot \<Rightarrow>
             probe_bind (commit_current_requirements L r fx initial_snapshot) (\<lambda>current_snapshot.
               commits_after_current L r fx idem current_snapshot facts1))"

definition commit_namespace_body :: "namespace_identifier \<Rightarrow> json" where
  "commit_namespace_body ns =
     JObject [(''namespace'', JArray (map JString ns)),
       (''properties'', JObject [(CM_OWNER_PROPERTY, JString ''catalog-bench'')])]"

definition execute_commit_workflow ::
  "commit_lib \<Rightarrow> catalog_routes \<Rightarrow> commit_fixture \<Rightarrow> table_create_locations \<Rightarrow> commit_idempotency \<Rightarrow> commit_facts
   \<Rightarrow> ('w operation_recorder \<times> 'w, commit_facts) probe" where
  "execute_commit_workflow L r fx locations idem facts =
     probe_bind (attempt (cl_web L) ''preflight-namespace'' CM_NAMESPACE_LOAD GET
                   (route_namespace (cl_web L) r (cfx_namespace fx)) None) (\<lambda>preflight.
       let isolated = fact_from_result (validate_error_response (cl_error L) preflight 404 ''NoSuchNamespaceException'');
           facts1 = facts\<lparr>cft_fixture_isolated := isolated\<rparr>
       in if \<not> fact_passed isolated then
            (let reason = fact_explanation isolated ''fixture preflight did not pass''
             in probe_bind (skip_all commits_after_preflight reason) (\<lambda>_.
                  probe_return (skip_after_preflight reason facts1)))
          else
            probe_bind (attempt (cl_web L) ''create-namespace'' CM_NAMESPACE_CREATE POST
                          (route_namespace_collection (cl_web L) r)
                          (Some (commit_namespace_body (cfx_namespace fx)))) (\<lambda>namespace_create.
            probe_bind
              (case validate_created_namespace (cl_debug_str L) (cl_namespace L) namespace_create (cfx_namespace fx) of
                 Inr _ \<Rightarrow> create_and_load_table L r fx locations
               | Inl error \<Rightarrow>
                   probe_bind (skip_all [(''create-table'', CM_CREATE), (''load-initial-table'', CM_LOAD)]
                                 ''fixture namespace creation did not pass'') (\<lambda>_.
                     probe_return (Err error))) (\<lambda>initial_snapshot.
            probe_bind (commits_after_fixture L r fx idem initial_snapshot facts1) (\<lambda>facts2.
            probe_bind (cleanup_fixture L r fx) (\<lambda>cleaned.
              probe_return (facts2\<lparr>cft_cleanup := fact_from_result cleaned\<rparr>))))))"

section \<open>The probe\<close>

definition optional_limitation :: "catalog_adapter \<Rightarrow> string \<Rightarrow> string option" where
  "optional_limitation adapter capability =
     map_option (\<lambda>l. ''profile declares '' @ quoted capability @ '' unsupported: '' @ lim_explanation l)
       (limitation (adapter_capabilities adapter) capability)"

definition commit_optional_operations :: "catalog_adapter \<Rightarrow> optional_commit_operations" where
  "commit_optional_operations adapter =
     \<lparr>oco_exact_retry_limitation = optional_limitation adapter CM_EXACT_RETRY,
      oco_content_binding_limitation = optional_limitation adapter CM_CONTENT_BINDING\<rparr>"

definition commit_idempotency_of ::
  "commit_lib \<Rightarrow> catalog_adapter \<Rightarrow> routing_negotiation \<Rightarrow> commit_idempotency" where
  "commit_idempotency_of L adapter routing =
     (let advertisement = inspect_advertisement (cl_web L)
            (Option.bind (rct_response (neg_config routing)) response_json) (neg_config_routing routing);
          operations = commit_optional_operations adapter
      in \<lparr>cid_advertisement = advertisement, cid_operations = operations,
          cid_key = (if advertised advertisement \<and> oco_exact_retry_limitation operations = None
                     then Some (cl_uuid_v7 L) else None)\<rparr>)"

definition commit_unsupported ::
  "commit_lib \<Rightarrow> profile \<Rightarrow> scenario \<Rightarrow> contract_digests \<Rightarrow> probe_target \<Rightarrow> commit_fixture
   \<Rightarrow> unsupported_adapter_capability \<Rightarrow> string + commit_transcript" where
  "commit_unsupported L p s digests target fx l =
     and_then (not_evaluated_config (cl_web L) (target_adapter target) (unsupported_reason l)) (\<lambda>config.
       Ok \<lparr>cmt_format = COMMIT_TRANSCRIPT_FORMAT, cmt_profile = prof_ident p,
           cmt_scenario = transcript_scenario_of s, cmt_contract_digests = digests,
           cmt_adapter = transcript_adapter (target_adapter target) (target_component target),
           cmt_fixture = fx, cmt_classification = unsupported_classification l,
           cmt_authentication = unattempted_authentication (target_adapter target),
           cmt_config = config, cmt_idempotency = AdvertisementNotEvaluated (unsupported_reason l),
           cmt_operations = [], cmt_assertions = not_evaluated_assertions s (unsupported_reason l),
           cmt_sanitization = sanitization_of [] False\<rparr>)"

definition commit_stage ::
  "commit_lib \<Rightarrow> probe_target \<Rightarrow> commit_fixture \<Rightarrow> table_create_locations \<Rightarrow> routing_negotiation
   \<Rightarrow> commit_idempotency \<Rightarrow> ('w operation_recorder \<times> 'w, commit_facts) probe" where
  "commit_stage L target fx locations routing idem =
     (let facts = commit_facts_new (att_failure (neg_authentication routing) = None) (neg_config_routing routing)
            (advertisement_fact (cid_advertisement idem))
      in case and_then (ok_or (neg_codec routing) ''commit routing unavailable after config negotiation'')
                (\<lambda>codec. routes_new (target_adapter target) (rct_prefix (neg_config routing)) codec ''commit'') of
           Inl error \<Rightarrow> probe_return (skip_commit_scenario error facts)
         | Inr r \<Rightarrow>
             if fact_passed (neg_config_routing routing) then execute_commit_workflow L r fx locations idem facts
             else probe_return (skip_commit_scenario
               (fact_explanation (neg_config_routing routing) ''config routing failed'') facts))"

definition commit_evaluate ::
  "commit_lib \<Rightarrow> profile \<Rightarrow> scenario \<Rightarrow> contract_digests \<Rightarrow> probe_target \<Rightarrow> commit_fixture
   \<Rightarrow> routing_negotiation \<Rightarrow> commit_idempotency \<Rightarrow> commit_facts \<Rightarrow> 'w operation_recorder
   \<Rightarrow> string + commit_transcript" where
  "commit_evaluate L p s digests target fx routing idem facts rcd =
     (let authentication = neg_authentication routing;
          (operations, operation_redactions) = recorder_finish rcd;
          redactions = remdups_adj (sort (neg_redactions routing @ operation_redactions))
      in and_then (encode_evidence (cl_encode L)
                     (att_transcript authentication, neg_config routing, cid_advertisement idem, operations)) (\<lambda>serialized.
           let sensitive_values = att_sensitive_values authentication
                 @ (case cid_key idem of None \<Rightarrow> [] | Some key \<Rightarrow> [key]);
               sanitized = (\<not> contains_sensitive_value serialized sensitive_values);
               assertions = evaluate_commit_assertions s (facts\<lparr>cft_transcript_sanitized :=
                 fact_from_bool sanitized ''sanitized evidence still contains a credential, token, or idempotency key''\<rparr>)
           in Ok \<lparr>cmt_format = COMMIT_TRANSCRIPT_FORMAT, cmt_profile = prof_ident p,
                cmt_scenario = transcript_scenario_of s, cmt_contract_digests = digests,
                cmt_adapter = transcript_adapter (target_adapter target) (target_component target),
                cmt_fixture = fx,
                cmt_classification =
                  (if passed_required_assertions assertions then ProbePass
                   else ProbeFail ''one or more required commit-correctness assertions did not pass''),
                cmt_authentication = att_transcript authentication, cmt_config = neg_config routing,
                cmt_idempotency = cid_advertisement idem, cmt_operations = operations,
                cmt_assertions = assertions, cmt_sanitization = sanitization_of redactions (\<not> sanitized)\<rparr>))"

definition run_commit_probe ::
  "commit_lib \<Rightarrow> (u64 \<Rightarrow> string + 'w http_client) \<Rightarrow> profile \<Rightarrow> scenario \<Rightarrow> component_id \<Rightarrow> string
   \<Rightarrow> contract_digests \<Rightarrow> (string \<Rightarrow> string option) \<Rightarrow> 'w \<Rightarrow> (string + commit_transcript) \<times> 'w" where
  "run_commit_probe L http_client_new p s catalog fixture_id digests getenv w =
     (case and_then (commit_validate_invocation p s catalog) (\<lambda>_.
           and_then (resolve_target p s catalog) (\<lambda>target.
           and_then (commit_fixture_new catalog fixture_id) (\<lambda>fx. Ok (target, fx)))) of
        Inl error \<Rightarrow> (Err error, w)
      | Inr (target, fx) \<Rightarrow>
          (case first_required_limitation target s of
             Some l \<Rightarrow> (commit_unsupported L p s digests target fx l, w)
           | None \<Rightarrow>
               (case and_then (create_locations_new (cl_web L)
                            (create_table_location (adapter_endpoint (target_adapter target)))) (\<lambda>locations.
                     and_then (http_client_new 30000) (\<lambda>client. Ok (locations, client))) of
                  Inl error \<Rightarrow> (Err error, w)
                | Inr (locations, client) \<Rightarrow>
                    (case negotiate_routing (cl_web L) client (target_adapter target) getenv w of
                       (Inl error, w1) \<Rightarrow> (Err error, w1)
                     | (Inr routing, w1) \<Rightarrow>
                         (let idem = commit_idempotency_of L (target_adapter target) routing
                          in case commit_stage L target fx locations routing idem
                                    (recorder_new client (att_bearer_token (neg_authentication routing))
                                       (att_sensitive_values (neg_authentication routing)), w1) of
                               (Inl error, (rcd, w2)) \<Rightarrow> (Err error, w2)
                             | (Inr facts, (rcd, w2)) \<Rightarrow>
                                 (commit_evaluate L p s digests target fx routing idem facts rcd, w2))))))"

end
