(* ===== verification/Conf_Commit_Run.thy ===== *)
theory Conf_Commit_Run
  imports Conf_Commit Conf_Table_Run
begin

text \<open>
  Properties of the commit-correctness probe: the exact sequence of requests and answers behind the
  facts that are reported as passed, and what a passing transcript has established.
\<close>

section \<open>Requests and answers\<close>

definition sent :: "http_method \<Rightarrow> url \<Rightarrow> json option \<Rightarrow> string option \<Rightarrow> exchange \<Rightarrow> bool" where
  "sent m u body key x \<longleftrightarrow>
     request_line x = (m, u) \<and> rq_body (fst x) = (case body of None \<Rightarrow> NoBody | Some b \<Rightarrow> JsonBody b)
     \<and> rq_idempotency_key (fst x) = key"

lemma attempt_sent:
  assumes "is_ok route"
  shows "probe_triple client bearer sens Q (attempt lib ident capability m route body)
    (\<lambda>xs ob. \<exists>ys x. xs = ys @ [x] \<and> Q ys \<and> sent m (projr route) body None x
       \<and> ob = observation_of lib sens ident (snd x))"
  by (rule attempt_triple [OF assms]) (auto simp: sent_def request_line_def call_request_def)

lemma attempt_keyed_sent:
  assumes "is_ok route"
  shows "probe_triple client bearer sens Q (attempt_keyed lib ident capability m route body key)
    (\<lambda>xs ob. \<exists>ys x. xs = ys @ [x] \<and> Q ys \<and> sent m (projr route) body (Some key) x
       \<and> ob = observation_of lib (sens @ [key]) ident (snd x))"
  by (rule attempt_keyed_triple [OF assms])
    (auto simp: sent_def request_line_def call_request_def call_observation_def)

definition commit_url :: "commit_lib \<Rightarrow> catalog_routes \<Rightarrow> commit_fixture \<Rightarrow> url" where
  "commit_url L r fx = projr (commit_table_route L r fx)"

definition commit_collection :: "commit_lib \<Rightarrow> catalog_routes \<Rightarrow> commit_fixture \<Rightarrow> url" where
  "commit_collection L r fx = projr (route_table_collection (cl_web L) r (cfx_namespace fx))"

definition commit_namespace :: "commit_lib \<Rightarrow> catalog_routes \<Rightarrow> commit_fixture \<Rightarrow> url" where
  "commit_namespace L r fx = projr (route_namespace (cl_web L) r (cfx_namespace fx))"

lemma commit_routes_ok:
  assumes "usable (cl_web L) r"
  shows "is_ok (commit_table_route L r fx)" and "is_ok (commit_drop_url L r fx)"
    and "is_ok (route_table_collection (cl_web L) r ns)" and "is_ok (route_namespace (cl_web L) r ns)"
    and "is_ok (route_namespace_collection (cl_web L) r)"
proof -
  show table: "is_ok (commit_table_route L r fx)"
    by (simp add: commit_table_route_def usable_is_ok [OF assms])
  then show "is_ok (commit_drop_url L r fx)"
    by (auto simp: commit_drop_url_def is_ok_def split: sum.splits)
qed (simp_all add: usable_is_ok [OF assms])

text \<open>The answer of an exchange, read under the identifier of its operation, is a snapshot of the table.\<close>

definition commit_answer :: "commit_lib \<Rightarrow> string list \<Rightarrow> string \<Rightarrow> exchange \<Rightarrow> probe_table_snapshot \<Rightarrow> bool" where
  "commit_answer L sens ident x s \<longleftrightarrow>
     parse_table_snapshot (cl_load L) (observation_of (cl_web L) sens ident (snd x)) 200 = Ok s"

text \<open>
  A request of the work on an absent fixture: it reads, creates the namespace or the table of the
  fixture, or commits to the table. Only commits carry an idempotency key, and only that of the run.
\<close>

definition commit_request ::
  "commit_lib \<Rightarrow> catalog_routes \<Rightarrow> commit_fixture \<Rightarrow> string option \<Rightarrow> exchange \<Rightarrow> bool" where
  "commit_request L r fx key x \<longleftrightarrow>
     (is_read x
      \<or> sent POST (projr (route_namespace_collection (cl_web L) r))
          (Some (commit_namespace_body (cfx_namespace fx))) None x
      \<or> request_line x \<in> {(POST, commit_collection L r fx), (POST, commit_url L r fx)})
     \<and> (rq_idempotency_key (fst x) = None
        \<or> rq_idempotency_key (fst x) = key \<and> request_line x = (POST, commit_url L r fx))"

lemma commit_request_sent:
  "sent GET u body None x \<Longrightarrow> commit_request L r fx key x"
  "sent POST (commit_url L r fx) body None x \<Longrightarrow> commit_request L r fx key x"
  "sent POST (commit_url L r fx) body (Some k) x \<Longrightarrow> commit_request L r fx (Some k) x"
  "sent POST (commit_collection L r fx) body None x \<Longrightarrow> commit_request L r fx key x"
  "sent POST (projr (route_namespace_collection (cl_web L) r)) (Some (commit_namespace_body (cfx_namespace fx))) None x
   \<Longrightarrow> commit_request L r fx key x"
  by (auto simp: commit_request_def sent_def is_read_def request_line_def)

section \<open>What the answers have shown\<close>

definition schema_field :: "int \<times> string \<times> bool \<times> json \<Rightarrow> table_field" where
  "schema_field f = (case f of (ident, name, required, field_type) \<Rightarrow>
     \<lparr>tfd_ident = ident, tfd_name = name, tfd_required = required, tfd_type = field_type\<rparr>)"

definition struct_schema :: "int \<Rightarrow> (int \<times> string \<times> bool \<times> json) list \<Rightarrow> table_schema" where
  "struct_schema ident expected_fields =
     \<lparr>tsm_type = ''struct'', tsm_schema_id = Some ident, tsm_fields = map schema_field expected_fields\<rparr>"

definition first_schema :: table_schema where
  "first_schema = struct_schema 0 [(1, ''value'', False, JString ''long'')]"

definition second_schema :: table_schema where
  "second_schema = struct_schema 1 [(1, ''value'', False, JString ''long''), (2, ''note'', False, JString ''string'')]"

definition advanced :: "probe_table_snapshot \<Rightarrow> probe_table_snapshot \<Rightarrow> bool" where
  "advanced before after \<longleftrightarrow> pts_uuid after = pts_uuid before \<and> pts_location after = pts_location before
     \<and> pts_metadata_location after \<noteq> pts_metadata_location before"

definition property_set :: "string \<Rightarrow> string \<Rightarrow> probe_table_snapshot \<Rightarrow> probe_table_snapshot \<Rightarrow> bool" where
  "property_set property v before after \<longleftrightarrow>
     advanced before after \<and> pts_schema after = pts_schema before
     \<and> pts_last_column_id after = pts_last_column_id before
     \<and> scenario_properties (pts_properties after) = btree_insert property v (scenario_properties (pts_properties before))"

definition schema_advanced :: "probe_table_snapshot \<Rightarrow> probe_table_snapshot \<Rightarrow> bool" where
  "schema_advanced before after \<longleftrightarrow>
     advanced before after \<and> pts_schema after = second_schema \<and> pts_last_column_id after = Some 2
     \<and> scenario_properties (pts_properties after) = scenario_properties (pts_properties before)"

definition initial_state :: "string option \<Rightarrow> probe_table_snapshot \<Rightarrow> bool" where
  "initial_state location s \<longleftrightarrow> pts_schema s = first_schema \<and> pts_last_column_id s = Some 1
     \<and> (\<forall>l. location = Some l \<longrightarrow> pts_location s = l)
     \<and> map_of (pts_properties s) CM_OWNER_PROPERTY = Some ''catalog-bench''
     \<and> map_of (pts_properties s) CM_STATE_PROPERTY = Some ''initial''"

definition created_exchanges ::
  "commit_lib \<Rightarrow> catalog_routes \<Rightarrow> string list \<Rightarrow> table_create_locations \<Rightarrow> commit_fixture
   \<Rightarrow> exchange list \<Rightarrow> probe_table_snapshot \<Rightarrow> bool" where
  "created_exchanges L r sens locations fx xs s \<longleftrightarrow>
     (\<exists>n c l location. xs = [n, c, l]
        \<and> sent POST (projr (route_namespace_collection (cl_web L) r)) (Some (commit_namespace_body (cfx_namespace fx))) None n
        \<and> location_for_table (cl_web L) locations (cfx_namespace fx) (cfx_table fx) = Ok location
        \<and> sent POST (commit_collection L r fx) (Some (committed_table_request (cfx_table fx) location initial_schema
            [(CM_STATE_PROPERTY, ''initial''), (CM_OWNER_PROPERTY, ''catalog-bench'')])) None c
        \<and> commit_answer L sens ''create-table'' c s \<and> initial_state location s
        \<and> sent GET (commit_url L r fx) None None l \<and> commit_answer L sens ''load-initial-table'' l s)"

text \<open>A commit that was accepted, and a reload that shows exactly what it answered.\<close>

definition commit_accepted ::
  "commit_lib \<Rightarrow> catalog_routes \<Rightarrow> string list \<Rightarrow> commit_fixture \<Rightarrow> string \<Rightarrow> string \<Rightarrow> json
   \<Rightarrow> exchange \<Rightarrow> exchange \<Rightarrow> probe_table_snapshot \<Rightarrow> bool" where
  "commit_accepted L r sens fx ident reload body x y s \<longleftrightarrow>
     sent POST (commit_url L r fx) (Some body) None x \<and> commit_answer L sens ident x s
     \<and> sent GET (commit_url L r fx) None None y \<and> commit_answer L sens reload y s"

text \<open>A commit that was answered with 409, and a reload that shows the table as it was.\<close>

definition commit_rejected ::
  "commit_lib \<Rightarrow> catalog_routes \<Rightarrow> string list \<Rightarrow> commit_fixture \<Rightarrow> string \<Rightarrow> json \<Rightarrow> string option
   \<Rightarrow> exchange \<Rightarrow> exchange \<Rightarrow> probe_table_snapshot \<Rightarrow> bool" where
  "commit_rejected L r sens fx reload body key x y s \<longleftrightarrow>
     sent POST (commit_url L r fx) (Some body) key x \<and> answered [409] x
     \<and> sent GET (commit_url L r fx) None None y \<and> commit_answer L sens reload y s"

definition current_exchanges ::
  "commit_lib \<Rightarrow> catalog_routes \<Rightarrow> string list \<Rightarrow> table_create_locations \<Rightarrow> commit_fixture
   \<Rightarrow> exchange list \<Rightarrow> probe_table_snapshot \<Rightarrow> bool" where
  "current_exchanges L r sens locations fx xs s \<longleftrightarrow>
     (\<exists>ys x y before. xs = ys @ [x, y] \<and> created_exchanges L r sens locations fx ys before
        \<and> commit_accepted L r sens fx ''commit-current-requirements'' ''reload-after-current-requirements''
            (property_commit_body (pts_uuid before) 0 CM_STATE_PROPERTY ''requirement-accepted'') x y s
        \<and> property_set CM_STATE_PROPERTY ''requirement-accepted'' before s)"

definition schema_exchanges ::
  "commit_lib \<Rightarrow> catalog_routes \<Rightarrow> string list \<Rightarrow> table_create_locations \<Rightarrow> commit_fixture
   \<Rightarrow> exchange list \<Rightarrow> probe_table_snapshot \<Rightarrow> bool" where
  "schema_exchanges L r sens locations fx xs s \<longleftrightarrow>
     (\<exists>ys x y before. xs = ys @ [x, y] \<and> current_exchanges L r sens locations fx ys before
        \<and> commit_accepted L r sens fx ''commit-schema-transition'' ''reload-after-schema-transition''
            (schema_commit_body (pts_uuid before)) x y s
        \<and> schema_advanced before s)"

definition final_state :: "probe_table_snapshot \<Rightarrow> bool" where
  "final_state s \<longleftrightarrow> map_of (pts_properties s) CM_STATE_PROPERTY = Some ''requirement-accepted''
     \<and> map_of (pts_properties s) CM_STALE_PROPERTY = None"

definition required_exchanges ::
  "commit_lib \<Rightarrow> catalog_routes \<Rightarrow> string list \<Rightarrow> table_create_locations \<Rightarrow> commit_fixture
   \<Rightarrow> exchange list \<Rightarrow> probe_table_snapshot \<Rightarrow> bool" where
  "required_exchanges L r sens locations fx xs s \<longleftrightarrow>
     (\<exists>ys x y z. xs = ys @ [x, y, z] \<and> schema_exchanges L r sens locations fx ys s
        \<and> commit_rejected L r sens fx ''reload-after-stale-requirement''
            (property_commit_body (pts_uuid s) 0 CM_STALE_PROPERTY ''must-not-apply'') None x y s
        \<and> sent GET (commit_url L r fx) None None z \<and> commit_answer L sens ''load-required-final-state'' z s
        \<and> final_state s)"

definition replay_exchanges ::
  "commit_lib \<Rightarrow> catalog_routes \<Rightarrow> string list \<Rightarrow> commit_fixture \<Rightarrow> string \<Rightarrow> probe_table_snapshot
   \<Rightarrow> exchange list \<Rightarrow> probe_table_snapshot \<Rightarrow> bool" where
  "replay_exchanges L r sens fx key before xs s \<longleftrightarrow>
     (\<exists>a b c d. xs = [a, b, c, d]
        \<and> list_all (sent POST (commit_url L r fx) (Some (property_commit_body (pts_uuid before) 1 CM_RETRY_PROPERTY
            ''accepted-once'')) (Some key)) [a, c]
        \<and> list_all (sent GET (commit_url L r fx) None None) [b, d]
        \<and> commit_answer L (sens @ [key]) ''commit-idempotent-first'' a s
        \<and> commit_answer L sens ''reload-after-idempotent-first'' b s
        \<and> commit_answer L (sens @ [key]) ''commit-idempotent-replay'' c s
        \<and> commit_answer L sens ''reload-after-idempotent-replay'' d s
        \<and> property_set CM_RETRY_PROPERTY ''accepted-once'' before s)"

text \<open>The optional part sends nothing without a key; what it reports as passed was seen.\<close>

definition optional_exchanges ::
  "commit_lib \<Rightarrow> catalog_routes \<Rightarrow> string list \<Rightarrow> commit_fixture \<Rightarrow> string option \<Rightarrow> probe_table_snapshot
   \<Rightarrow> exchange list \<Rightarrow> commit_facts \<Rightarrow> bool" where
  "optional_exchanges L r sens fx key s xs facts \<longleftrightarrow>
     (key = None \<longrightarrow> xs = [])
     \<and> (fact_passed (cft_exact_replay facts) \<longrightarrow> (\<exists>k ys zs after. key = Some k \<and> xs = ys @ zs
          \<and> replay_exchanges L r sens fx k s ys after
          \<and> (fact_passed (cft_content_binding facts) \<longrightarrow> (\<exists>x y. zs = [x, y]
              \<and> commit_rejected L r sens fx ''reload-after-idempotency-drift''
                  (property_commit_body (pts_uuid after) 1 CM_RETRY_PROPERTY ''drifted-must-not-apply'') (Some k) x y after))))
     \<and> (fact_passed (cft_content_binding facts) \<longrightarrow> fact_passed (cft_exact_replay facts))"

section \<open>The checks\<close>

lemma validate_exact_Ok [simp]: "validate_exact_snapshot expected actual = Ok () \<longleftrightarrow> actual = expected"
  by (auto simp: validate_exact_snapshot_def)

lemma validate_schema_fields_Ok:
  "validate_schema_fields schema ident expected = Ok () \<longleftrightarrow> schema = struct_schema ident expected"
proof -
  have "length xs = length expected \<Longrightarrow>
      try_fold (\<lambda>_ (actual, (i, name, required, field_type)).
          ensure (tfd_ident actual = i \<and> tfd_name actual = name \<and> tfd_required actual = required
              \<and> tfd_type actual = field_type) (message name)) () (zip xs expected) = Ok ()
        \<longleftrightarrow> xs = map schema_field expected" for xs :: "table_field list" and message :: "string \<Rightarrow> string"
    by (induction xs expected rule: list_induct2) (auto simp: and_then_eq_Inr schema_field_def)
  then show ?thesis
    by (cases schema) (auto simp: validate_schema_fields_def struct_schema_def)
qed

lemma validate_schema_Ok:
  "validate_schema_zero s = Ok () \<longleftrightarrow> pts_schema s = first_schema"
  "validate_schema_one s = Ok () \<longleftrightarrow> pts_last_column_id s = Some 2 \<and> pts_schema s = second_schema"
  by (auto simp: validate_schema_zero_def validate_schema_one_def validate_schema_fields_Ok first_schema_def second_schema_def)

lemma validate_pointer_Ok: "validate_pointer_transition before after = Ok () \<longleftrightarrow> advanced before after"
  by (auto simp: validate_pointer_transition_def advanced_def)

lemma validate_initial_commit_Ok:
  "validate_initial_commit_snapshot s location = Ok s' \<Longrightarrow> s' = s \<and> initial_state location s"
  by (auto simp: validate_initial_commit_snapshot_def initial_state_def validate_schema_Ok and_then_eq_Inr
      split: option.splits if_splits bind_splits)

lemma validate_property_transition_Ok:
  "validate_property_transition L before commit reload property v = Ok s \<Longrightarrow>
     parse_table_snapshot (cl_load L) commit 200 = Ok s \<and> parse_table_snapshot (cl_load L) reload 200 = Ok s
     \<and> property_set property v before s"
  by (auto simp: validate_property_transition_def property_set_def validate_pointer_Ok and_then_eq_Inr split: if_splits)

lemma validate_schema_transition_Ok:
  "validate_schema_transition L before commit reload = Ok s \<Longrightarrow>
     parse_table_snapshot (cl_load L) commit 200 = Ok s \<and> parse_table_snapshot (cl_load L) reload 200 = Ok s
     \<and> schema_advanced before s"
  by (auto simp: validate_schema_transition_def schema_advanced_def validate_pointer_Ok validate_schema_Ok and_then_eq_Inr
      split: if_splits)

lemma validate_required_final_Ok:
  "validate_required_final L s load_answer = Ok () \<Longrightarrow> parse_table_snapshot (cl_load L) load_answer 200 = Ok s \<and> final_state s"
  by (auto simp: validate_required_final_def final_state_def and_then_eq_Inr split: if_splits)

lemma validate_exact_replay_Ok:
  "validate_exact_replay L before a b c d = Ok s \<Longrightarrow>
     list_all (\<lambda>ob. parse_table_snapshot (cl_load L) ob 200 = Ok s) [a, b, c, d]
     \<and> property_set CM_RETRY_PROPERTY ''accepted-once'' before s"
  by (auto simp: validate_exact_replay_def property_set_def validate_pointer_Ok and_then_eq_Inr split: if_splits)

lemma is_ok_unit: "is_ok result \<longleftrightarrow> result = Ok ()" for result :: "'e + unit"
  by (cases result) simp_all

lemma validate_rejection_Ok:
  "validate_rejection L before conflict reload = Ok () \<Longrightarrow>
     conflict = Ok () \<and> parse_table_snapshot (cl_load L) reload 200 = Ok before"
  by (auto simp: validate_rejection_def and_then_eq_Inr is_ok_unit)

section \<open>The work on the fixture\<close>

lemma load_sent:
  assumes "usable (cl_web L) r"
  shows "probe_triple client bearer sens Q (load_commit_table L r fx ident capability)
    (\<lambda>xs ob. \<exists>ys x. xs = ys @ [x] \<and> Q ys \<and> sent GET (commit_url L r fx) None None x
       \<and> ob = observation_of (cl_web L) sens ident (snd x))"
  unfolding load_commit_table_def commit_url_def by (rule attempt_sent [OF commit_routes_ok(1) [OF assms]])

lemma commit_sent:
  assumes "usable (cl_web L) r"
  shows "probe_triple client bearer sens Q (attempt (cl_web L) ident capability POST (commit_table_route L r fx) body)
    (\<lambda>xs ob. \<exists>ys x. xs = ys @ [x] \<and> Q ys \<and> sent POST (commit_url L r fx) body None x
       \<and> ob = observation_of (cl_web L) sens ident (snd x))"
  unfolding commit_url_def by (rule attempt_sent [OF commit_routes_ok(1) [OF assms]])

lemma commit_keyed_sent:
  assumes "usable (cl_web L) r"
  shows "probe_triple client bearer sens Q (attempt_keyed (cl_web L) ident capability POST (commit_table_route L r fx) body key)
    (\<lambda>xs ob. \<exists>ys x. xs = ys @ [x] \<and> Q ys \<and> sent POST (commit_url L r fx) body (Some key) x
       \<and> ob = observation_of (cl_web L) (sens @ [key]) ident (snd x))"
  unfolding commit_url_def by (rule attempt_keyed_sent [OF commit_routes_ok(1) [OF assms]])

lemmas sent_rules = load_sent commit_sent commit_keyed_sent

text \<open>A history of admissible requests that ends in a state, if the last step succeeded.\<close>

definition history ::
  "commit_lib \<Rightarrow> catalog_routes \<Rightarrow> commit_fixture \<Rightarrow> string option
   \<Rightarrow> (exchange list \<Rightarrow> probe_table_snapshot \<Rightarrow> bool) \<Rightarrow> string + probe_table_snapshot \<Rightarrow> exchange list \<Rightarrow> bool" where
  "history L r fx key shown result xs \<longleftrightarrow>
     list_all (commit_request L r fx key) xs \<and> (\<forall>s. result = Ok s \<longrightarrow> shown xs s)"

lemma create_and_load_triple:
  assumes "usable (cl_web L) r"
    and "is_ok (location_for_table (cl_web L) locations (cfx_namespace fx) (cfx_table fx))"
  shows "probe_triple client bearer sens
    (\<lambda>xs. \<exists>n. xs = [n] \<and> sent POST (projr (route_namespace_collection (cl_web L) r))
       (Some (commit_namespace_body (cfx_namespace fx))) None n)
    (create_and_load_table L r fx locations)
    (\<lambda>xs result. history L r fx key (created_exchanges L r sens locations fx) result xs)"
proof -
  obtain location where location: "location_for_table (cl_web L) locations (cfx_namespace fx) (cfx_table fx) = Ok location"
    using assms(2) by (auto simp: is_ok_def split: sum.splits)
  show ?thesis
    unfolding create_and_load_table_def location probe_bind_Ok
    apply (rule rec.triple_bind [OF attempt_sent [OF commit_routes_ok(3) [OF assms(1)]]])
    apply (rule rec.triple_bind [OF load_sent [OF assms(1)]])
    apply (rule rec.triple_return)
    apply (clarsimp simp: history_def commit_collection_def [symmetric] and_then_eq_Inr)
    apply (intro conjI allI impI)
       apply (auto intro: commit_request_sent)[3]
    apply (auto simp: created_exchanges_def location commit_answer_def dest!: validate_initial_commit_Ok)
    done
qed

lemma commit_current_triple:
  assumes "usable (cl_web L) r"
  shows "probe_triple client bearer sens
    (history L r fx key (created_exchanges L r sens locations fx) (Ok before))
    (commit_current_requirements L r fx before)
    (\<lambda>xs result. history L r fx key (current_exchanges L r sens locations fx) result xs)"
  unfolding commit_current_requirements_def
  apply (rule rec.triple_bind [OF commit_sent [OF assms]], rule rec.triple_bind [OF load_sent [OF assms]])
  apply (rule rec.triple_return)
  apply (clarsimp simp: history_def)
  apply (intro conjI allI impI)
    apply (auto intro: commit_request_sent)[2]
  apply (drule validate_property_transition_Ok)
  apply (fastforce simp: current_exchanges_def commit_accepted_def commit_answer_def)
  done

lemma commit_schema_triple:
  assumes "usable (cl_web L) r"
  shows "probe_triple client bearer sens
    (history L r fx key (current_exchanges L r sens locations fx) (Ok before))
    (commit_schema_transition L r fx before)
    (\<lambda>xs result. history L r fx key (schema_exchanges L r sens locations fx) result xs)"
  unfolding commit_schema_transition_def
  apply (rule rec.triple_bind [OF commit_sent [OF assms]], rule rec.triple_bind [OF load_sent [OF assms]])
  apply (rule rec.triple_return)
  apply (clarsimp simp: history_def)
  apply (intro conjI allI impI)
    apply (auto intro: commit_request_sent)[2]
  apply (drule validate_schema_transition_Ok)
  apply (fastforce simp: schema_exchanges_def commit_accepted_def commit_answer_def)
  done

text \<open>The stale commit and the check of the final state.\<close>

lemma stale_triple:
  assumes "usable (cl_web L) r"
  shows "probe_triple client bearer sens Q (reject_stale_requirement L r fx s)
    (\<lambda>xs result. \<exists>ys x y. xs = ys @ [x, y] \<and> Q ys
       \<and> sent POST (commit_url L r fx) (Some (property_commit_body (pts_uuid s) 0 CM_STALE_PROPERTY ''must-not-apply'')) None x
       \<and> sent GET (commit_url L r fx) None None y
       \<and> (result = Ok () \<longrightarrow> commit_rejected L r sens fx ''reload-after-stale-requirement''
            (property_commit_body (pts_uuid s) 0 CM_STALE_PROPERTY ''must-not-apply'') None x y s))"
  unfolding reject_stale_requirement_def
  apply (rule rec.triple_bind [OF commit_sent [OF assms]], rule rec.triple_bind [OF load_sent [OF assms]])
  apply (rule rec.triple_return)
  apply (fastforce simp: commit_rejected_def commit_answer_def dest: validate_rejection_Ok intro: answered_plain)
  done

lemma final_triple:
  assumes "usable (cl_web L) r"
  shows "probe_triple client bearer sens Q (verify_required_final_state L r fx s)
    (\<lambda>xs result. \<exists>ys z. xs = ys @ [z] \<and> Q ys \<and> sent GET (commit_url L r fx) None None z
       \<and> (result = Ok () \<longrightarrow> commit_answer L sens ''load-required-final-state'' z s \<and> final_state s))"
  unfolding verify_required_final_state_def
  by (rule rec.triple_bind [OF load_sent [OF assms]], rule rec.triple_return)
    (auto simp: commit_answer_def dest: validate_required_final_Ok)

subsection \<open>Idempotency\<close>

lemma replay_triple:
  assumes "usable (cl_web L) r"
  shows "probe_triple client bearer sens Q (attempt_exact_replay L r fx before key)
    (\<lambda>xs result. \<exists>ys zs. xs = ys @ zs \<and> Q ys \<and> list_all (commit_request L r fx (Some key)) zs
       \<and> (\<forall>s. result = Ok s \<longrightarrow> replay_exchanges L r sens fx key before zs s))"
  unfolding attempt_exact_replay_def Let_def
  apply (rule rec.triple_bind [OF commit_keyed_sent [OF assms]], rule rec.triple_bind [OF load_sent [OF assms]])
  apply (rule rec.triple_bind [OF commit_keyed_sent [OF assms]], rule rec.triple_bind [OF load_sent [OF assms]])
  apply (rule rec.triple_return)
  apply (elim exE conjE, hypsubst)
  apply (rule exI, rule exI [of _ "[_, _, _, _]"], rule conjI, simp only: append_assoc append.simps, rule conjI, assumption)
  apply (auto simp: replay_exchanges_def commit_answer_def intro: commit_request_sent dest!: validate_exact_replay_Ok)
  done

lemma answered_spec_error:
  "validate_spec_error_response decode (observation_of lib sens ident (snd x)) status = Ok e \<Longrightarrow> answered [status] x"
  using obs_status_answered [where k = "(ident, None, GET, undefined, None, None)" and lib = lib and sens = sens
      and allowed = "[status]" and rq = "fst x" and answer = "snd x" and status = status]
  by (auto simp: validate_spec_error_response_def parse_json_response_Ok and_then_eq_Inr)

lemma drift_triple:
  assumes "usable (cl_web L) r"
  shows "probe_triple client bearer sens Q (reject_idempotency_drift L r fx s key)
    (\<lambda>xs result. \<exists>ys x y. xs = ys @ [x, y] \<and> Q ys \<and> list_all (commit_request L r fx (Some key)) [x, y]
       \<and> (result = Ok () \<longrightarrow> commit_rejected L r sens fx ''reload-after-idempotency-drift''
            (property_commit_body (pts_uuid s) 1 CM_RETRY_PROPERTY ''drifted-must-not-apply'') (Some key) x y s))"
  unfolding reject_idempotency_drift_def
  apply (rule rec.triple_bind [OF commit_keyed_sent [OF assms]], rule rec.triple_bind [OF load_sent [OF assms]])
  apply (rule rec.triple_return)
  apply (clarsimp simp: commit_rejected_def commit_answer_def)
  apply (auto simp: and_then_eq_Inr dest!: validate_rejection_Ok
      intro: commit_request_sent answered_spec_error [where x = "(a, b)" for a b, simplified])
  done

text \<open>The optional part: only the two optional facts change.\<close>

definition optional_done ::
  "commit_lib \<Rightarrow> catalog_routes \<Rightarrow> string list \<Rightarrow> commit_fixture \<Rightarrow> string option \<Rightarrow> probe_table_snapshot
   \<Rightarrow> (exchange list \<Rightarrow> bool) \<Rightarrow> commit_facts \<Rightarrow> exchange list \<Rightarrow> commit_facts \<Rightarrow> bool" where
  "optional_done L r sens fx key s Q facts xs facts' \<longleftrightarrow>
     (\<exists>ys zs exact binding. xs = ys @ zs \<and> Q ys \<and> list_all (commit_request L r fx key) zs
        \<and> facts' = facts\<lparr>cft_exact_replay := exact, cft_content_binding := binding\<rparr>
        \<and> optional_exchanges L r sens fx key s zs facts')"

lemma skip_optional_triple:
  assumes "\<not> fact_passed exact" and "\<not> fact_passed binding"
  shows "probe_triple client bearer sens Q (skip_optional reason exact binding facts) (optional_done L r sens fx key s Q facts)"
  unfolding skip_optional_def
  apply (rule rec.triple_Ok_return, rule skip_all_triple)
  unfolding optional_done_def
  apply (rule exI, rule exI [of _ "[]"], rule exI [of _ exact], rule exI [of _ binding])
  apply (use assms in \<open>simp add: optional_exchanges_def\<close>)
  done

lemma bind_content_triple:
  assumes "usable (cl_web L) r"
  shows "probe_triple client bearer sens
    (\<lambda>xs. \<exists>ys zs. xs = ys @ zs \<and> Q ys \<and> list_all (commit_request L r fx (Some key)) zs
       \<and> (\<forall>after. exact_snapshot = Ok after \<longrightarrow> replay_exchanges L r sens fx key s zs after))
    (bind_content L r fx limit key exact_snapshot (facts\<lparr>cft_exact_replay := fact_from_result (unit_result exact_snapshot)\<rparr>))
    (optional_done L r sens fx (Some key) s Q facts)"
proof -
  let ?exact = "fact_from_result (unit_result exact_snapshot)"
  have skipped: "optional_done L r sens fx (Some key) s Q facts (ys @ zs)
      (facts\<lparr>cft_exact_replay := ?exact, cft_content_binding := FactNotEvaluated reason\<rparr>)"
    if "Q ys" "list_all (commit_request L r fx (Some key)) zs"
      "\<forall>after. exact_snapshot = Ok after \<longrightarrow> replay_exchanges L r sens fx key s zs after" for ys zs reason
    unfolding optional_done_def
    apply (rule exI [of _ ys], rule exI [of _ zs], rule exI [of _ ?exact], rule exI [of _ "FactNotEvaluated reason"])
    apply (use that in \<open>auto simp: optional_exchanges_def unit_result_def and_then_eq_Inr\<close>)
    done
  have skip: "probe_triple client bearer sens
      (\<lambda>xs. \<exists>ys zs. xs = ys @ zs \<and> Q ys \<and> list_all (commit_request L r fx (Some key)) zs
         \<and> (\<forall>after. exact_snapshot = Ok after \<longrightarrow> replay_exchanges L r sens fx key s zs after))
      (probe_bind (skip_all drift_operations reason) (\<lambda>_. probe_return
         (facts\<lparr>cft_exact_replay := ?exact, cft_content_binding := FactNotEvaluated reason\<rparr>)))
      (optional_done L r sens fx (Some key) s Q facts)" for reason
    by (rule rec.triple_Ok_return, rule skip_all_triple) (use skipped in blast)
  show ?thesis
  proof (cases "limit = None \<and> is_ok exact_snapshot")
    case False
    then show ?thesis
      using skip unfolding bind_content_def Let_def
      by (cases limit; cases exact_snapshot) auto
  next
    case True
    then obtain after where limit: "limit = None" and after: "exact_snapshot = Ok after"
      by (auto simp: is_ok_def split: sum.splits)
    have drifted: "optional_done L r sens fx (Some key) s Q facts ((ys @ zs) @ [x, y])
        (facts\<lparr>cft_exact_replay := fact_from_result (unit_result (Ok after)), cft_content_binding := fact_from_result result\<rparr>)"
      if "Q ys" "list_all (commit_request L r fx (Some key)) zs" "replay_exchanges L r sens fx key s zs after"
        and "list_all (commit_request L r fx (Some key)) [x, y]"
        and "result = Ok () \<longrightarrow> commit_rejected L r sens fx ''reload-after-idempotency-drift''
            (property_commit_body (pts_uuid after) 1 CM_RETRY_PROPERTY ''drifted-must-not-apply'') (Some key) x y after"
      for ys zs x y result
      unfolding optional_done_def optional_exchanges_def
      apply (rule exI [of _ ys], rule exI [of _ "zs @ [x, y]"], rule exI [of _ "fact_from_result (unit_result (Ok after))"],
          rule exI [of _ "fact_from_result result"], intro conjI impI)
      subgoal by simp
      subgoal by (rule that(1))
      subgoal using that(2,4) by simp
      subgoal by simp
      subgoal by simp
      subgoal
        by (rule exI [of _ key], rule exI [of _ zs], rule exI [of _ "[x, y]"], rule exI [of _ after])
          (use that(3,5) in auto)
      subgoal by (simp add: unit_result_def)
      done
    show ?thesis
      unfolding bind_content_def limit after option.case sum.case
      apply (rule rec.triple_Ok_return)
      apply (rule rec.triple_conseq [OF drift_triple [OF assms]], assumption)
      apply (use drifted in blast)
      done
  qed
qed

lemma optional_triple:
  assumes "usable (cl_web L) r"
  shows "probe_triple client bearer sens Q (execute_optional_idempotency L r fx s idem facts)
    (optional_done L r sens fx (cid_key idem) s Q facts)"
proof (cases "fact_passed (cft_required_final facts) \<and> advertised (cid_advertisement idem)
    \<and> oco_exact_retry_limitation (cid_operations idem) = None \<and> cid_key idem \<noteq> None")
  case False
  have failed: "\<not> fact_passed (FactFail reason)" for reason by (simp add: fact_passed_def)
  show ?thesis
    using False unfolding execute_optional_idempotency_def Let_def
    by (auto intro!: skip_optional_triple simp: failed split: option.splits)
next
  case True
  then obtain key where run: "fact_passed (cft_required_final facts)" "advertised (cid_advertisement idem)"
      "oco_exact_retry_limitation (cid_operations idem) = None" "cid_key idem = Some key" by auto
  show ?thesis
    unfolding execute_optional_idempotency_def
    by (simp add: run, rule rec.triple_bind [OF replay_triple [OF assms]], rule bind_content_triple [OF assms])
qed

subsection \<open>The stages\<close>

definition commits_hold :: "commit_facts \<Rightarrow> bool" where
  "commits_hold facts \<longleftrightarrow> fact_passed (cft_schema_transition facts) \<and> fact_passed (cft_stale_rejection facts)
     \<and> fact_passed (cft_required_final facts)"

definition commit_work ::
  "commit_lib \<Rightarrow> catalog_routes \<Rightarrow> string list \<Rightarrow> table_create_locations \<Rightarrow> commit_fixture \<Rightarrow> string option
   \<Rightarrow> exchange list \<Rightarrow> commit_facts \<Rightarrow> bool" where
  "commit_work L r sens locations fx key xs facts \<longleftrightarrow>
     list_all (commit_request L r fx key) xs
     \<and> (commits_hold facts \<longrightarrow> (\<exists>ys zs s. xs = ys @ zs \<and> required_exchanges L r sens locations fx ys s
          \<and> optional_exchanges L r sens fx key s zs facts))"

lemma skipped_work:
  assumes "\<And>xs. Q xs \<Longrightarrow> list_all (commit_request L r fx key) xs" and "\<not> commits_hold facts"
  shows "probe_triple client bearer sens Q (probe_bind (skip_all operations reason) (\<lambda>_. probe_return facts))
    (commit_work L r sens locations fx key)"
  by (rule rec.triple_Ok_return, rule skip_all_triple) (simp add: assms commit_work_def)

lemma after_schema_triple:
  assumes "usable (cl_web L) r"
  shows "probe_triple client bearer sens (history L r fx (cid_key idem) (schema_exchanges L r sens locations fx) result)
    (commits_after_schema L r fx idem result facts) (commit_work L r sens locations fx (cid_key idem))"
proof (cases result)
  case (Inl e)
  show ?thesis
    unfolding commits_after_schema_def Inl Let_def sum.case
    by (rule skipped_work) (simp_all add: history_def commits_hold_def)
next
  case (Inr s)
  let ?key = "cid_key idem"
  let ?body = "property_commit_body (pts_uuid s) 0 CM_STALE_PROPERTY ''must-not-apply''"
  let ?Q = "\<lambda>stale final xs. \<exists>ys x y z. xs = ys @ [x, y, z]
      \<and> history L r fx ?key (schema_exchanges L r sens locations fx) (Ok s) ys
      \<and> sent POST (commit_url L r fx) (Some ?body) None x \<and> sent GET (commit_url L r fx) None None y
      \<and> sent GET (commit_url L r fx) None None z
      \<and> (stale = Ok () \<longrightarrow> commit_rejected L r sens fx ''reload-after-stale-requirement'' ?body None x y s)
      \<and> (final = Ok () \<longrightarrow> commit_answer L sens ''load-required-final-state'' z s \<and> final_state s)"
  have seen: "probe_triple client bearer sens (\<lambda>xs. \<exists>ys x y. xs = ys @ [x, y]
        \<and> history L r fx ?key (schema_exchanges L r sens locations fx) (Ok s) ys
        \<and> sent POST (commit_url L r fx) (Some ?body) None x \<and> sent GET (commit_url L r fx) None None y
        \<and> (stale = Ok () \<longrightarrow> commit_rejected L r sens fx ''reload-after-stale-requirement'' ?body None x y s))
      (verify_required_final_state L r fx s) (\<lambda>xs final. ?Q stale final xs)" for stale
    by (rule rec.triple_conseq [OF final_triple [OF assms]]) (assumption, fastforce)
  have finished: "commit_work L r sens locations fx ?key xs facts'"
    if "optional_done L r sens fx ?key s (?Q stale final) g xs facts'"
      and "cft_stale_rejection g = fact_from_result stale" "cft_required_final g = fact_from_result final"
    for xs facts' g stale final
  proof -
    from that(1) obtain ys zs exact binding where xs: "xs = ys @ zs" "?Q stale final ys"
        "list_all (commit_request L r fx ?key) zs" "facts' = g\<lparr>cft_exact_replay := exact, cft_content_binding := binding\<rparr>"
        "optional_exchanges L r sens fx ?key s zs facts'"
      unfolding optional_done_def by blast
    have requests: "list_all (commit_request L r fx ?key) ys"
      using xs(2) by (auto simp: history_def intro: commit_request_sent)
    have "required_exchanges L r sens locations fx ys s" if "commits_hold facts'"
    proof -
      have "stale = Ok ()" "final = Ok ()" using that xs(4) \<open>cft_stale_rejection g = _\<close> \<open>cft_required_final g = _\<close>
        by (simp_all add: commits_hold_def)
      with xs(2) show ?thesis unfolding required_exchanges_def history_def by blast
    qed
    then show ?thesis using xs requests unfolding commit_work_def by auto
  qed
  show ?thesis
    unfolding commits_after_schema_def Inr Let_def sum.case
    apply (rule rec.triple_bind [OF stale_triple [OF assms]])
    apply (rule rec.triple_bind [OF seen])
    apply (rule rec.triple_conseq [OF optional_triple [OF assms]], assumption)
    apply (erule finished; simp)
    done
qed

lemma after_current_triple:
  assumes "usable (cl_web L) r"
  shows "probe_triple client bearer sens (history L r fx (cid_key idem) (current_exchanges L r sens locations fx) result)
    (commits_after_current L r fx idem result facts) (commit_work L r sens locations fx (cid_key idem))"
proof (cases result)
  case (Inl e)
  show ?thesis
    unfolding commits_after_current_def Inl Let_def sum.case
    by (rule skipped_work) (simp_all add: history_def commits_hold_def)
next
  case (Inr s)
  show ?thesis
    unfolding commits_after_current_def Inr Let_def sum.case
    by (rule rec.triple_bind [OF commit_schema_triple [OF assms]], rule after_schema_triple [OF assms])
qed

lemma after_fixture_triple:
  assumes "usable (cl_web L) r"
  shows "probe_triple client bearer sens (history L r fx (cid_key idem) (created_exchanges L r sens locations fx) result)
    (commits_after_fixture L r fx idem result facts) (commit_work L r sens locations fx (cid_key idem))"
proof (cases result)
  case (Inl e)
  show ?thesis
    unfolding commits_after_fixture_def Inl Let_def sum.case
    by (rule skipped_work) (simp_all add: history_def commits_hold_def skip_after_fixture_def)
next
  case (Inr s)
  show ?thesis
    unfolding commits_after_fixture_def Inr Let_def sum.case
    by (rule rec.triple_bind [OF commit_current_triple [OF assms]], rule after_current_triple [OF assms])
qed

subsection \<open>The workflow\<close>

definition commit_cleanup_lines :: "commit_lib \<Rightarrow> catalog_routes \<Rightarrow> commit_fixture \<Rightarrow> (http_method \<times> url) list" where
  "commit_cleanup_lines L r fx =
     [(DELETE, projr (commit_drop_url L r fx)), (GET, commit_url L r fx),
      (DELETE, commit_namespace L r fx), (GET, commit_namespace L r fx)]"

lemma cleanup_fixture_triple:
  assumes "usable (cl_web L) r"
  shows "probe_triple client bearer sens Q (cleanup_fixture L r fx)
    (\<lambda>xs result. \<exists>ys fin. xs = ys @ fin \<and> Q ys \<and> map request_line fin = commit_cleanup_lines L r fx
       \<and> (result = Ok () \<longrightarrow> list_all clean_answer fin))"
  unfolding cleanup_fixture_def
  apply (rule rec.triple_bind [OF attempt_sent [OF commit_routes_ok(2) [OF assms]]])
  apply (rule rec.triple_bind [OF load_sent [OF assms]])
  apply (rule rec.triple_bind [OF attempt_sent [OF commit_routes_ok(4) [OF assms]]])+
  apply (rule rec.triple_return)
  apply (elim exE conjE, hypsubst)
  apply (rule exI, rule exI [of _ "[_, _, _, _]"], rule conjI, simp only: append_assoc append.simps, rule conjI, assumption)
  apply (auto simp: commit_cleanup_lines_def commit_namespace_def clean_answer_def sent_def is_ok_unit is_read_def request_line_def
      intro: answered_plain [where e = "(a, b)" for a b, simplified])
  done

definition commit_collision :: "exchange list \<Rightarrow> commit_facts \<Rightarrow> bool" where
  "commit_collision xs facts \<longleftrightarrow> list_all is_read xs \<and> \<not> fact_passed (cft_fixture_isolated facts)"

definition commit_completed ::
  "commit_lib \<Rightarrow> catalog_routes \<Rightarrow> string list \<Rightarrow> table_create_locations \<Rightarrow> commit_fixture \<Rightarrow> string option
   \<Rightarrow> exchange list \<Rightarrow> commit_facts \<Rightarrow> bool" where
  "commit_completed L r sens locations fx key xs facts \<longleftrightarrow>
     (\<exists>x work fin. xs = x # work @ fin
        \<and> sent GET (commit_namespace L r fx) None None x \<and> answered [404] x
        \<and> commit_work L r sens locations fx key work facts
        \<and> map request_line fin = commit_cleanup_lines L r fx
        \<and> (fact_passed (cft_cleanup facts) \<longrightarrow> list_all clean_answer fin))"

lemma commit_work_cases:
  assumes "usable (cl_web L) r"
    and "is_ok (location_for_table (cl_web L) locations (cfx_namespace fx) (cfx_table fx))"
  shows "probe_triple client bearer sens (\<lambda>xs. xs = [])
    (probe_bind (attempt (cl_web L) ''create-namespace'' CM_NAMESPACE_CREATE POST
        (route_namespace_collection (cl_web L) r) (Some (commit_namespace_body (cfx_namespace fx)))) (\<lambda>namespace_create.
      probe_bind
        (case validate_created_namespace (cl_debug_str L) (cl_namespace L) namespace_create (cfx_namespace fx) of
           Inr _ \<Rightarrow> create_and_load_table L r fx locations
         | Inl error \<Rightarrow>
             probe_bind (skip_all [(''create-table'', CM_CREATE), (''load-initial-table'', CM_LOAD)]
                           ''fixture namespace creation did not pass'') (\<lambda>_.
               probe_return (Err error))) (\<lambda>initial_snapshot.
      probe_bind (commits_after_fixture L r fx idem initial_snapshot facts) (\<lambda>facts2.
      probe_bind (cleanup_fixture L r fx) (\<lambda>cleaned.
        probe_return (facts2\<lparr>cft_cleanup := fact_from_result cleaned\<rparr>))))))
    (\<lambda>xs facts'. \<exists>work fin. xs = work @ fin \<and> commit_work L r sens locations fx (cid_key idem) work facts'
       \<and> map request_line fin = commit_cleanup_lines L r fx
       \<and> (fact_passed (cft_cleanup facts') \<longrightarrow> list_all clean_answer fin))"
proof -
  let ?n = "\<lambda>xs. \<exists>n. xs = [n] \<and> sent POST (projr (route_namespace_collection (cl_web L) r))
       (Some (commit_namespace_body (cfx_namespace fx))) None n"
  have first: "probe_triple client bearer sens (\<lambda>xs. xs = []) (attempt (cl_web L) ''create-namespace'' CM_NAMESPACE_CREATE POST
        (route_namespace_collection (cl_web L) r) (Some (commit_namespace_body (cfx_namespace fx)))) (\<lambda>xs _. ?n xs)"
    by (rule rec.triple_conseq [OF attempt_sent [OF commit_routes_ok(5) [OF assms(1)], where Q = "\<lambda>xs. xs = []"]]) auto
  have created: "probe_triple client bearer sens ?n
        (case validated of
           Inr _ \<Rightarrow> create_and_load_table L r fx locations
         | Inl error \<Rightarrow>
             probe_bind (skip_all [(''create-table'', CM_CREATE), (''load-initial-table'', CM_LOAD)]
                           ''fixture namespace creation did not pass'') (\<lambda>_. probe_return (Err error)))
        (\<lambda>xs result. history L r fx (cid_key idem) (created_exchanges L r sens locations fx) result xs)"
    for validated :: "string + unit"
  proof (cases validated)
    case (Inl e)
    show ?thesis
      unfolding Inl sum.case
      by (rule rec.triple_Ok_return, rule skip_all_triple) (auto simp: history_def intro: commit_request_sent)
  next
    case (Inr u)
    show ?thesis unfolding Inr sum.case by (rule create_and_load_triple [OF assms])
  qed
  have kept: "commit_work L r sens locations fx key xs (facts2\<lparr>cft_cleanup := f\<rparr>) = commit_work L r sens locations fx key xs facts2"
    for key xs facts2 f by (simp add: commit_work_def commits_hold_def optional_exchanges_def)
  show ?thesis
    apply (rule rec.triple_bind [OF first], rule rec.triple_bind [OF created])
    apply (rule rec.triple_bind [OF after_fixture_triple [OF assms(1)]])
    apply (rule rec.triple_Ok_return, rule rec.triple_conseq [OF cleanup_fixture_triple [OF assms(1)]], assumption)
    apply (simp add: kept)
    done
qed

lemma commit_workflow_traces:
  assumes usable: "usable (cl_web L) r"
    and locations: "is_ok (location_for_table (cl_web L) locations (cfx_namespace fx) (cfx_table fx))"
  shows "probe_traces client bearer sens (execute_commit_workflow L r fx locations idem facts) (\<lambda>xs res. \<exists>facts'.
    res = Ok facts' \<and> (commit_collision xs facts' \<or> commit_completed L r sens locations fx (cid_key idem) xs facts'))"
    (is "probe_traces _ _ _ _ ?R")
proof -
  let ?check = "\<lambda>ob. validate_error_response (cl_error L) ob 404 ''NoSuchNamespaceException''"
  let ?P = "\<lambda>xs ob. \<exists>x. xs = [x] \<and> sent GET (commit_namespace L r fx) None None x \<and> (?check ob = Ok () \<longrightarrow> answered [404] x)"
  have preflight: "probe_traces client bearer sens (attempt (cl_web L) ''preflight-namespace'' CM_NAMESPACE_LOAD GET
      (route_namespace (cl_web L) r (cfx_namespace fx)) None) (\<lambda>xs res. \<exists>ob. res = Ok ob \<and> ?P xs ob)"
    by (rule rec.triple_start, rule rec.triple_conseq [OF attempt_sent [where Q = "\<lambda>xs. xs = []"]])
      (auto simp: commit_routes_ok [OF usable] commit_namespace_def intro: answered_plain [where e = "(a, b)" for a b, simplified])
  have aborted: "probe_traces client bearer sens
      (probe_bind (skip_all commits_after_preflight reason) (\<lambda>_.
         probe_return (skip_after_preflight reason (facts\<lparr>cft_fixture_isolated := isolated\<rparr>))))
      (\<lambda>zs res. \<forall>ys. ?P ys ob \<longrightarrow> ?R (ys @ zs) res)" if "\<not> fact_passed isolated" for reason isolated ob
    apply (rule rec.traces_Ok_return, rule skip_all_traces)
    apply (use that in \<open>auto simp: commit_collision_def skip_after_preflight_def skip_after_fixture_def sent_def is_read_def request_line_def\<close>)
    done
  show ?thesis
    unfolding execute_commit_workflow_def
  proof (rule rec.traces_seq [OF preflight], goal_cases)
    case (1 ob)
    show ?case
    proof (cases "?check ob")
      case (Inl e)
      then have failed: "\<not> fact_passed (fact_from_result (?check ob))" by simp
      show ?thesis unfolding Let_def if_P [OF failed] by (rule aborted [OF failed])
    next
      case (Inr u)
      then have passed: "fact_from_result (?check ob) = FactPass" by (simp add: fact_from_result_def)
      show ?thesis
        unfolding passed Let_def
        by (simp add: fact_passed_def Inr, rule rec.traces_weaken [OF rec.triple_start [OF commit_work_cases [OF usable locations]]])
          (fastforce simp: commit_completed_def)
    qed
  qed
qed

lemma unusable_commit_preflight:
  assumes "\<not> usable (cl_web L) r"
  shows "\<exists>e. execute_commit_workflow L r fx locations idem facts s = (Err e, s)"
proof -
  obtain e where "route_namespace (cl_web L) r (cfx_namespace fx) = Err e"
    using unusable_resource [OF assms] by (force simp: route_namespace_def)
  then show ?thesis
    by (simp add: execute_commit_workflow_def probe_bind_def attempt_def probe_try_def)
qed

section \<open>The verdict\<close>

definition commit_facts_hold :: "commit_facts \<Rightarrow> bool" where
  "commit_facts_hold facts \<longleftrightarrow> list_all fact_passed
     [cft_authentication facts, cft_config_routing facts, cft_fixture_isolated facts, cft_fixture_ready facts,
      cft_current_requirements facts, cft_schema_transition facts, cft_stale_rejection facts,
      cft_required_final facts, cft_cleanup facts, cft_transcript_sanitized facts]"

lemma commit_assertions_hold:
  "list_all (\<lambda>(ident, step, required, check). required \<longrightarrow> fact_passed (commit_fact facts check)) commit_assertions
   \<longleftrightarrow> commit_facts_hold facts"
  by (simp add: commit_assertions_def authentication_assertion_def custom_check_def commit_fact_def commit_facts_hold_def)

definition commit_facts_sanitized :: "bool \<Rightarrow> commit_facts \<Rightarrow> commit_facts" where
  "commit_facts_sanitized sanitized facts = facts\<lparr>cft_transcript_sanitized :=
     fact_from_bool sanitized ''sanitized evidence still contains a credential, token, or idempotency key''\<rparr>"

definition key_values :: "string option \<Rightarrow> string list" where
  "key_values key = (case key of None \<Rightarrow> [] | Some k \<Rightarrow> [k])"

text \<open>The replay of a request is reported as passed only when its fact is.\<close>

lemma replay_assertion:
  assumes "check_assertions ''commit'' commit_assertions s = Ok ()"
    and "a \<in> set (evaluate_commit_assertions s facts)"
    and "pa_assertion a = ''exact-request-replayed-once''" and "pa_outcome a = APass"
  shows "fact_passed (cft_exact_replay facts)"
proof -
  from assms(2) obtain spec where spec: "spec \<in> set (scn_assertions s)" "pa_assertion a = spec_ident spec"
      "pa_outcome a = fact_outcome (commit_fact facts (spec_check spec))"
    by (auto simp: evaluate_commit_assertions_def)
  have "(spec_ident spec, spec_step spec, spec_required spec, spec_check spec) \<in> set commit_assertions"
    using imageI [OF spec(1), of "\<lambda>a. (spec_ident a, spec_step a, spec_required a, spec_check a)"]
    unfolding assms(1) [unfolded check_assertions_Ok, symmetric] by simp
  then have "spec_check spec = ExactReplay"
    using assms(3) unfolding spec(2) by (simp add: commit_assertions_def authentication_assertion_def)
  then show ?thesis
    unfolding fact_outcome_APass [symmetric] using spec(3) assms(4) by (simp add: commit_fact_def del: fact_outcome_APass)
qed

lemma commit_evaluate_verdict:
  assumes "check_assertions ''commit'' commit_assertions s = Ok ()"
    and "encode_evidence (cl_encode L) (att_transcript (neg_authentication routing), neg_config routing,
      cid_advertisement idem, or_operations rcd) = Ok serialized"
  obtains t where "commit_evaluate L p s digests target fx routing idem facts rcd = Ok t"
    and "cmt_fixture t = fx" and "cmt_authentication t = att_transcript (neg_authentication routing)"
    and "cmt_idempotency t = cid_advertisement idem" and "cmt_config t = neg_config routing"
    and "cmt_operations t = or_operations rcd"
    and "cmt_assertions t = evaluate_commit_assertions s (commit_facts_sanitized
      (\<not> contains_sensitive_value serialized (att_sensitive_values (neg_authentication routing) @ key_values (cid_key idem))) facts)"
    and "commit_transcript_passed t \<longleftrightarrow> commit_facts_hold (commit_facts_sanitized
      (\<not> contains_sensitive_value serialized (att_sensitive_values (neg_authentication routing) @ key_values (cid_key idem))) facts)"
proof -
  let ?facts = "commit_facts_sanitized
      (\<not> contains_sensitive_value serialized (att_sensitive_values (neg_authentication routing) @ key_values (cid_key idem))) facts"
  obtain t where t: "commit_evaluate L p s digests target fx routing idem facts rcd = Ok t"
      "cmt_fixture t = fx" "cmt_authentication t = att_transcript (neg_authentication routing)"
      "cmt_idempotency t = cid_advertisement idem" "cmt_config t = neg_config routing" "cmt_operations t = or_operations rcd"
      "cmt_assertions t = evaluate_commit_assertions s ?facts"
      "commit_transcript_passed t \<longleftrightarrow> passed_required_assertions (evaluate_commit_assertions s ?facts)"
    using assms(2)
    by (simp add: commit_evaluate_def recorder_finish_def commit_transcript_passed_def commit_facts_sanitized_def
        key_values_def Let_def)
  have "commit_transcript_passed t \<longleftrightarrow> commit_facts_hold ?facts"
    unfolding t(8) evaluate_commit_assertions_def
    using passed_required_expected [OF assms(1), where outcome = "\<lambda>c. fact_outcome (commit_fact ?facts c)"]
    by (simp add: commit_assertions_hold)
  with that t show ?thesis by simp
qed

lemma commit_evaluate_passed:
  assumes "check_assertions ''commit'' commit_assertions s = Ok ()"
    and evaluated: "commit_evaluate L p s digests target fx routing idem facts rcd = Ok t"
    and "commit_transcript_passed t"
  obtains serialized where "cmt_fixture t = fx" and "cmt_authentication t = att_transcript (neg_authentication routing)"
    and "cmt_idempotency t = cid_advertisement idem"
    and "cmt_assertions t = evaluate_commit_assertions s (commit_facts_sanitized True facts)"
    and "encode_evidence (cl_encode L) (cmt_authentication t, cmt_config t, cmt_idempotency t, cmt_operations t) = Ok serialized"
    and "\<not> contains_sensitive_value serialized (att_sensitive_values (neg_authentication routing) @ key_values (cid_key idem))"
    and "commit_facts_hold (commit_facts_sanitized True facts)"
proof -
  obtain serialized where ser: "encode_evidence (cl_encode L)
      (att_transcript (neg_authentication routing), neg_config routing, cid_advertisement idem, or_operations rcd) = Ok serialized"
    using evaluated by (auto simp: commit_evaluate_def recorder_finish_def Let_def and_then_eq_Inr)
  let ?sanitized = "\<not> contains_sensitive_value serialized
      (att_sensitive_values (neg_authentication routing) @ key_values (cid_key idem))"
  from commit_evaluate_verdict [OF assms(1) ser, of p digests target fx facts] evaluated assms(3)
  have t: "cmt_fixture t = fx" "cmt_authentication t = att_transcript (neg_authentication routing)"
      "cmt_idempotency t = cid_advertisement idem" "cmt_config t = neg_config routing" "cmt_operations t = or_operations rcd"
      "cmt_assertions t = evaluate_commit_assertions s (commit_facts_sanitized ?sanitized facts)"
      "commit_facts_hold (commit_facts_sanitized ?sanitized facts)"
    by (metis Inr_inject)+
  from t(7) have sanitized: ?sanitized
    by (auto simp: commit_facts_hold_def commit_facts_sanitized_def fact_from_bool_def fact_passed_def split: if_splits)
  with that t ser show ?thesis by simp
qed

lemma commit_stage_passed:
  assumes locations: "create_locations_new (cl_web L) location_root = Ok locations"
    and "commit_stage L target fx locations routing idem (recorder_new (logging client) bearer sens, w, entries)
      = (Ok facts, (rcd, w', entries'))"
    and "fact_passed (cft_fixture_isolated facts)"
  obtains r codec xs where "fact_passed (neg_config_routing routing)" and "entries' = entries @ xs"
    and "neg_codec routing = Some codec"
    and "routes_new (target_adapter target) (rct_prefix (neg_config routing)) codec ''commit'' = Ok r"
    and "commit_completed L r sens locations fx (cid_key idem) xs facts"
proof -
  let ?facts = "commit_facts_new (att_failure (neg_authentication routing) = None) (neg_config_routing routing)
      (advertisement_fact (cid_advertisement idem))"
  obtain r codec where passed: "fact_passed (neg_config_routing routing)" "neg_codec routing = Some codec"
    and routes: "routes_new (target_adapter target) (rct_prefix (neg_config routing)) codec ''commit'' = Ok r"
    and run: "execute_commit_workflow L r fx locations idem ?facts
        (recorder_new (logging client) bearer sens, w, entries) = (Ok facts, (rcd, w', entries'))"
    using assms(2,3)
    by (auto simp: commit_stage_def Let_def probe_return_def skip_commit_scenario_def and_then_eq_Inr ok_or_def
        skip_after_preflight_def skip_after_fixture_def split: sum.splits if_splits option.splits)
  have usable: "usable (cl_web L) r"
    using unusable_commit_preflight [of L r fx locations idem ?facts
        "(recorder_new (logging client) bearer sens, w, entries)"] run by fastforce
  from rec.traces_elim [OF commit_workflow_traces [OF usable locations_ok [OF locations]] recorder_new_records run]
  obtain xs where "exchanges_of (rcd, w', entries') = exchanges_of (recorder_new (logging client) bearer sens, w, entries) @ xs"
    "commit_collision xs facts \<or> commit_completed L r sens locations fx (cid_key idem) xs facts"
    by auto
  with that passed routes assms(3) show ?thesis by (auto simp: exchanges_of_def commit_collision_def)
qed

lemma commit_key:
  "cid_key (commit_idempotency_of L adapter routing) = Some k
   \<Longrightarrow> k = cl_uuid_v7 L \<and> advertised (cid_advertisement (commit_idempotency_of L adapter routing))"
  by (auto simp: commit_idempotency_of_def Let_def split: if_splits)

text \<open>
  C23. What a passing commit transcript has established, whatever the catalog does. The catalog
  authenticated the run and, on the routes negotiated with it, answered 404 for the namespace of the
  fixture. The next ten exchanges are
  exactly: creation of namespace and table, and a load of the same table; a property commit whose
  requirements are current, and a schema commit, each accepted with a new metadata location, the same
  UUID and location, exactly the requested change, and a reload that shows exactly what was answered; a
  commit with an outdated schema requirement that was answered with 409 and a reload that shows the
  table unchanged; and a last load of that state without the property of the rejected commit. More
  commits follow only with an idempotency key, which was drawn only because the catalog advertises
  such keys; a replay that is reported as passed had the same request and key twice and the same
  table in all four answers. Then come the drops without purging, all answered and verified. The
  serialized evidence contains neither the key nor the credentials of the run (the client identifier
  and secret that the environment held for the adapter and the token issued for them), as far as they
  have at least four bytes.
\<close>

theorem commit_probe_pass_sound:
  assumes "run_commit_probe L (\<lambda>_. Ok (logging client)) p s catalog fixture_id digests getenv (w, [])
      = (Ok t, (w', entries))"
    and "commit_transcript_passed t"
  shows "\<exists>target routing w1 fx r codec sens locations key negotiation x work optional fin state serialized.
    resolve_target p s catalog = Ok target
    \<and> negotiate_routing (cl_web L) (logging client) (target_adapter target) getenv (w, []) = (Ok routing, (w1, negotiation))
    \<and> sens = att_sensitive_values (neg_authentication routing) \<and> neg_codec routing = Some codec
    \<and> routes_new (target_adapter target) (rct_prefix (neg_config routing)) codec ''commit'' = Ok r
    \<and> create_locations_new (cl_web L) (create_table_location (adapter_endpoint (target_adapter target))) = Ok locations
    \<and> commit_fixture_new catalog fixture_id = Ok fx \<and> cmt_fixture t = fx
    \<and> at_outcome (cmt_authentication t) = AuthReady
    \<and> entries = negotiation @ x # work @ optional @ fin
    \<and> sent GET (commit_namespace L r fx) None None x \<and> answered [404] x
    \<and> required_exchanges L r sens locations fx work state
    \<and> list_all (commit_request L r fx key) optional \<and> (key = None \<longrightarrow> optional = [])
    \<and> (\<forall>k. key = Some k \<longrightarrow> k = cl_uuid_v7 L \<and> advertised (cmt_idempotency t))
    \<and> (\<forall>a \<in> set (cmt_assertions t). pa_assertion a = ''exact-request-replayed-once'' \<and> pa_outcome a = APass
        \<longrightarrow> (\<exists>k ys zs after. key = Some k \<and> optional = ys @ zs \<and> replay_exchanges L r sens fx k state ys after))
    \<and> map request_line fin = commit_cleanup_lines L r fx \<and> list_all clean_answer fin
    \<and> encode_evidence (cl_encode L) (cmt_authentication t, cmt_config t, cmt_idempotency t, cmt_operations t) = Ok serialized
    \<and> \<not> contains_sensitive_value serialized (sens @ key_values key)
    \<and> withholds_credentials (target_adapter target) getenv (att_bearer_token (neg_authentication routing)) serialized"
proof -
  obtain target fx where policy: "commit_validate_invocation p s catalog = Ok ()"
    and target: "resolve_target p s catalog = Ok target" and fx: "commit_fixture_new catalog fixture_id = Ok fx"
    using assms(1) by (auto simp: run_commit_probe_def and_then_eq_Inr and_then_def split: sum.splits)
  note run = assms(1) [unfolded run_commit_probe_def policy target fx, simplified]
  have checked: "check_assertions ''commit'' commit_assertions s = Ok ()"
    using policy by (auto simp: commit_validate_invocation_def check_invocation_def commit_scenario_policy_def
        and_then_eq_Inr split: if_splits)
  have unlimited: "first_required_limitation target s = None"
    using run assms(2)
    by (auto simp: commit_unsupported_def unsupported_classification_def commit_transcript_passed_def
        and_then_eq_Inr split: option.splits)
  obtain locations where locations: "create_locations_new (cl_web L)
      (create_table_location (adapter_endpoint (target_adapter target))) = Ok locations"
    using run by (simp add: unlimited and_then_def split: sum.splits)
  obtain routing w1 entries1 idem facts rcd where idem: "idem = commit_idempotency_of L (target_adapter target) routing"
    and routing: "negotiate_routing (cl_web L) (logging client) (target_adapter target) getenv (w, []) = (Ok routing, (w1, entries1))"
    and stage: "commit_stage L target fx locations routing idem (recorder_new (logging client)
        (att_bearer_token (neg_authentication routing)) (att_sensitive_values (neg_authentication routing)), w1, entries1)
      = (Ok facts, (rcd, w', entries))"
    and evaluated: "commit_evaluate L p s digests target fx routing idem facts rcd = Ok t"
    using run by (auto simp: unlimited locations Let_def split: sum.splits prod.splits)
  let ?sens = "att_sensitive_values (neg_authentication routing)"
  from commit_evaluate_passed [OF checked evaluated assms(2)] obtain serialized where
      t: "cmt_fixture t = fx" "cmt_authentication t = att_transcript (neg_authentication routing)"
        "cmt_idempotency t = cid_advertisement idem"
        "cmt_assertions t = evaluate_commit_assertions s (commit_facts_sanitized True facts)"
        "encode_evidence (cl_encode L) (cmt_authentication t, cmt_config t, cmt_idempotency t, cmt_operations t) = Ok serialized"
        "\<not> contains_sensitive_value serialized (?sens @ key_values (cid_key idem))"
    and hold: "commit_facts_hold (commit_facts_sanitized True facts)"
    by metis
  then have facts: "fact_passed (cft_fixture_isolated facts)" "commits_hold facts" "fact_passed (cft_cleanup facts)"
    by (simp_all add: commit_facts_hold_def commit_facts_sanitized_def commits_hold_def)
  from commit_stage_passed [OF locations stage facts(1)] obtain r codec xs where
      ready: "fact_passed (neg_config_routing routing)" and entries: "entries = entries1 @ xs"
    and routes: "neg_codec routing = Some codec"
        "routes_new (target_adapter target) (rct_prefix (neg_config routing)) codec ''commit'' = Ok r"
    and finished: "commit_completed L r ?sens locations fx (cid_key idem) xs facts"
    by metis
  from finished obtain x work fin where xs: "xs = x # work @ fin" "sent GET (commit_namespace L r fx) None None x"
      "answered [404] x" "commit_work L r ?sens locations fx (cid_key idem) work facts"
      "map request_line fin = commit_cleanup_lines L r fx" "list_all clean_answer fin"
    using facts(3) unfolding commit_completed_def by blast
  from xs(4) facts(2) obtain ys zs state where work: "work = ys @ zs" "required_exchanges L r ?sens locations fx ys state"
      "list_all (commit_request L r fx (cid_key idem)) zs" "optional_exchanges L r ?sens fx (cid_key idem) state zs facts"
    unfolding commit_work_def by auto
  note authenticated = negotiate_routing_passed [OF routing ready]
  have auth: "at_outcome (cmt_authentication t) = AuthReady"
    using negotiate_routing_ready [OF routing authenticated] t(2) by simp
  have withheld: "withholds_credentials (target_adapter target) getenv
      (att_bearer_token (neg_authentication routing)) serialized"
    using credentials_withheld [OF routing authenticated] t(6) by (simp add: contains_sensitive_value_def)
  have replay: "\<forall>a \<in> set (cmt_assertions t). pa_assertion a = ''exact-request-replayed-once'' \<and> pa_outcome a = APass
      \<longrightarrow> (\<exists>k ys us after. cid_key idem = Some k \<and> zs = ys @ us \<and> replay_exchanges L r ?sens fx k state ys after)"
    using replay_assertion [OF checked, of _ "commit_facts_sanitized True facts"] work(4)
    unfolding t(4) optional_exchanges_def by (simp add: commit_facts_sanitized_def) blast
  have order: "entries = entries1 @ x # ys @ zs @ fin" using entries xs(1) work(1) by simp
  have empty: "cid_key idem = None \<longrightarrow> zs = []" using work(4) by (simp add: optional_exchanges_def)
  have key: "\<forall>k. cid_key idem = Some k \<longrightarrow> k = cl_uuid_v7 L \<and> advertised (cmt_idempotency t)"
    unfolding t(3) idem using commit_key by blast
  show ?thesis
    apply (rule exI [of _ target], rule exI [of _ routing], rule exI [of _ w1], rule exI [of _ fx], rule exI [of _ r],
        rule exI [of _ codec], rule exI [of _ ?sens], rule exI [of _ locations],
        rule exI [of _ "cid_key idem"], rule exI [of _ entries1], rule exI [of _ x], rule exI [of _ ys],
        rule exI [of _ zs], rule exI [of _ fin], rule exI [of _ state], rule exI [of _ serialized])
    apply (intro conjI)
    apply (rule target routing refl routes locations fx t(1) auth order xs(2,3) work(2,3) empty key replay xs(5,6) t(5,6) withheld)+
    done
qed

section \<open>A concrete run\<close>

text \<open>A catalog that advertises idempotency keys and does everything right: twenty-two answers.\<close>

definition scripted_state :: "string \<Rightarrow> table_schema \<Rightarrow> int \<Rightarrow> string_map \<Rightarrow> probe_load_result" where
  "scripted_state location schema column properties =
     \<lparr>ltr_metadata_location = Some location,
      ltr_metadata = \<lparr>tmd_format_version = 2, tmd_table_uuid = ''u'', tmd_location = ''l'', tmd_last_column_id = Some column,
        tmd_properties = properties, tmd_schemas = [first_schema, schema],
        tmd_current_schema_id = tsm_schema_id schema\<rparr>\<rparr>"

definition accepted_properties :: string_map where
  "accepted_properties = [(CM_STATE_PROPERTY, ''requirement-accepted''), (CM_OWNER_PROPERTY, ''catalog-bench'')]"

definition scripted_commits :: commit_lib where
  "scripted_commits =
     \<lparr>cl_web = text_web\<lparr>wl_json_pointer := (\<lambda>v p. if v = JString ''k'' \<and> p = ''/idempotency-key-lifetime''
        then Some (JString ''PT1H'') else None)\<rparr>,
      cl_debug_str = id,
      cl_error = (\<lambda>v. Ok (if v = JString ''d'' then \<lparr>ie_message = ''m'', ie_type = ''CommitFailedException'', ie_code = 409\<rparr>
        else if v = JString ''t'' then \<lparr>ie_message = ''m'', ie_type = ''NoSuchTableException'', ie_code = 404\<rparr>
        else \<lparr>ie_message = ''m'', ie_type = ''NoSuchNamespaceException'', ie_code = 404\<rparr>)),
      cl_namespace = (\<lambda>v. Ok [''cb_c106_cat_x'']),
      cl_load = (\<lambda>v. Ok (if v = JString ''a'' then scripted_state ''m0'' first_schema 1
          [(CM_STATE_PROPERTY, ''initial''), (CM_OWNER_PROPERTY, ''catalog-bench'')]
        else if v = JString ''b'' then scripted_state ''m1'' first_schema 1 accepted_properties
        else if v = JString ''c'' then scripted_state ''m2'' second_schema 2 accepted_properties
        else scripted_state ''m3'' second_schema 2 ((CM_RETRY_PROPERTY, ''accepted-once'') # accepted_properties))),
      cl_encode = (\<lambda>_. Ok ''evidence''), cl_uuid_v7 = ''uuid''\<rparr>"

definition commit_script :: "(u16 \<times> string) list" where
  "commit_script =
     [(200, ''k''), (404, ''n''), (200, ''n''), (200, ''a''), (200, ''a''), (200, ''b''), (200, ''b''), (200, ''c''),
      (200, ''c''), (409, ''d''), (200, ''c''), (200, ''c''), (200, ''e''), (200, ''e''), (200, ''e''), (200, ''e''),
      (409, ''d''), (200, ''e''), (204, ''o''), (404, ''t''), (204, ''o''), (404, ''n'')]"

definition commit_demo_stage ::
  "((string + commit_facts) \<times> (nat \<times> exchange list) operation_recorder \<times> nat \<times> exchange list) option" where
  "commit_demo_stage =
     (case (commit_fixture_new ''cat'' ''x'',
            negotiate_routing (cl_web scripted_commits) (logging (scripted commit_script)) (target_adapter probing_target)
              Map.empty (0, [])) of
        (Inr fx, (Inr routing, w1)) \<Rightarrow>
          Some (commit_stage scripted_commits probing_target fx None routing
            (commit_idempotency_of scripted_commits (target_adapter probing_target) routing)
            (recorder_new (logging (scripted commit_script)) (att_bearer_token (neg_authentication routing))
               (att_sensitive_values (neg_authentication routing)), w1))
      | _ \<Rightarrow> None)"

lemma commit_demo_stage_passes:
  "case commit_demo_stage of Some (Inr facts, _) \<Rightarrow> commit_facts_hold (commit_facts_sanitized True facts)
      \<and> fact_passed (cft_exact_replay facts) \<and> fact_passed (cft_content_binding facts)
   | _ \<Rightarrow> False"
  by code_simp

definition commit_scenario :: scenario where
  "commit_scenario =
     policy_scenario COMMIT_SCENARIO_ID commit_parameters commit_capabilities commit_steps commit_assertions"

lemma commit_scenario_accepted:
  "commit_validate_invocation (probing_profile commit_capabilities) commit_scenario ''cat'' = Ok ()"
  "resolve_target (probing_profile commit_capabilities) commit_scenario ''cat'' = Ok probing_target"
  "check_assertions ''commit'' commit_assertions commit_scenario = Ok ()"
  by (simp_all add: commit_validate_invocation_def check_invocation_def commit_scenario_policy_def
      commit_scenario_def policy_scenario_checked probing_target_resolved)

theorem commit_probe_pass_sound_witness:
  "\<exists>t w entries fx r sens locations negotiation x work optional fin state.
      run_commit_probe scripted_commits (\<lambda>_. Ok (logging (scripted commit_script)))
        (probing_profile commit_capabilities) commit_scenario ''cat'' ''x'' demo_digests Map.empty (0, [])
        = (Ok t, (w, entries)) \<and> commit_transcript_passed t
      \<and> entries = negotiation @ x # work @ optional @ fin
      \<and> required_exchanges scripted_commits r sens locations fx work state \<and> list_all clean_answer fin"
proof -
  let ?client = "logging (scripted commit_script)"
  let ?run = "run_commit_probe scripted_commits (\<lambda>_. Ok ?client)
      (probing_profile commit_capabilities) commit_scenario ''cat'' ''x'' demo_digests Map.empty (0, [])"
  obtain fx routing w1 entries1 idem facts rcd w2 entries2 where
      fx: "commit_fixture_new ''cat'' ''x'' = Ok fx"
    and routing: "negotiate_routing (cl_web scripted_commits) ?client (target_adapter probing_target) Map.empty (0, [])
        = (Ok routing, (w1, entries1))"
    and idem: "idem = commit_idempotency_of scripted_commits (target_adapter probing_target) routing"
    and stage: "commit_stage scripted_commits probing_target fx None routing idem (recorder_new ?client
        (att_bearer_token (neg_authentication routing)) (att_sensitive_values (neg_authentication routing)), (w1, entries1))
        = (Ok facts, (rcd, (w2, entries2)))"
    and facts: "commit_facts_hold (commit_facts_sanitized True facts)"
    using commit_demo_stage_passes by (auto simp: commit_demo_stage_def split: sum.splits prod.splits)
  have anonymous: "att_sensitive_values (neg_authentication routing) = []"
    using routing
    by (auto simp: negotiate_routing_def routing_of_capture_def acquire_authentication_def probing_target_def
        demo_adapter_def Let_def split: sum.splits prod.splits)
  have keys: "set (key_values (cid_key idem)) \<subseteq> {''uuid''}"
    by (auto simp: idem key_values_def scripted_commits_def commit_idempotency_of_def Let_def split: option.splits if_splits)
  have safe: "\<not> contains_sensitive_value (''evidence'' @ [CHR 0x0A]) (key_values (cid_key idem))"
  proof -
    have "\<not> str_contains (''evidence'' @ [CHR 0x0A]) ''uuid''" by code_simp
    then show ?thesis using keys unfolding contains_sensitive_value_def list_ex_iff by fastforce
  qed
  have encoded: "encode_evidence (cl_encode scripted_commits) evidence = Ok (''evidence'' @ [CHR 0x0A])" for evidence
    by (simp add: encode_evidence_def scripted_commits_def)
  obtain t where evaluated: "commit_evaluate scripted_commits (probing_profile commit_capabilities) commit_scenario
        demo_digests probing_target fx routing idem facts rcd = Ok t" and passed: "commit_transcript_passed t"
    using commit_evaluate_verdict [OF commit_scenario_accepted(3) encoded, where routing = routing
        and rcd = rcd and idem = idem and p = "probing_profile commit_capabilities"
        and digests = demo_digests and target = probing_target and fx = fx and facts = facts] facts safe
    by (auto simp: anonymous)
  have unrooted: "create_table_location (adapter_endpoint (target_adapter probing_target)) = None"
    by (simp add: probing_target_def demo_adapter_def)
  have run: "?run = (Ok t, (w2, entries2))"
    using fx routing stage evaluated
    by (simp add: run_commit_probe_def commit_scenario_accepted(1,2) probing_target_unlimited unrooted create_locations_new_def
        idem Let_def)
  from commit_probe_pass_sound [OF run passed]
  have "\<exists>fx r sens locations negotiation x work optional fin state. entries2 = negotiation @ x # work @ optional @ fin
      \<and> required_exchanges scripted_commits r sens locations fx work state \<and> list_all clean_answer fin"
    by (elim exE conjE) (intro exI conjI)
  with run passed show ?thesis by blast
qed

end
