(* ===== verification/Conf_Redaction.thy ===== *)
theory Conf_Redaction
  imports Conf_Routing
begin

text \<open>
  The redaction pointers of \<open>sanitize.rs\<close> are JSON pointers (RFC 6901). This theory has a reader of
  such pointers as a reference, and shows that the written pointers lead back to the redacted places.
\<close>

section \<open>Reading a pointer\<close>

fun unescape_segment :: "string \<Rightarrow> string" where
  "unescape_segment [] = []"
| "unescape_segment (c # cs) =
     (if c = CHR ''~'' then
        (case cs of
           [] \<Rightarrow> [c]
         | d # ds \<Rightarrow>
             if d = CHR ''0'' then CHR ''~'' # unescape_segment ds
             else if d = CHR ''1'' then CHR ''/'' # unescape_segment ds
             else c # unescape_segment cs)
      else c # unescape_segment cs)"

fun split_slash :: "string \<Rightarrow> string list" where
  "split_slash [] = [[]]"
| "split_slash (c # cs) =
     (if c = CHR ''/'' then [] # split_slash cs
      else (case split_slash cs of [] \<Rightarrow> [[c]] | s # ss \<Rightarrow> (c # s) # ss))"

definition parse_pointer :: "string \<Rightarrow> string list option" where
  "parse_pointer p =
     (case p of
        [] \<Rightarrow> Some []
      | c # cs \<Rightarrow> if c = CHR ''/'' then Some (map unescape_segment (split_slash cs)) else None)"

fun json_at :: "json \<Rightarrow> string list \<Rightarrow> json option" where
  "json_at v [] = Some v"
| "json_at (JObject kvs) (key # path) = Option.bind (map_of kvs key) (\<lambda>child. json_at child path)"
| "json_at (JArray vs) (key # path) =
     (let i = read_digits key in if i < length vs \<and> show_nat i = key then json_at (vs ! i) path else None)"
| "json_at _ (key # path) = None"

definition pointer_get :: "json \<Rightarrow> string \<Rightarrow> json option" where
  "pointer_get v p = Option.bind (parse_pointer p) (json_at v)"

section \<open>The text of a path\<close>

definition pointer_of :: "string list \<Rightarrow> string" where
  "pointer_of path = concat (map (\<lambda>key. ''/'' @ escape_pointer_segment key) path)"

lemma pointer_of_simps [simp]:
  "pointer_of [] = []" "pointer_of (key # path) = ''/'' @ escape_pointer_segment key @ pointer_of path"
  by (simp_all add: pointer_of_def)

lemma str_replace_single: "str_replace [a] r s = concat (map (\<lambda>c. if c = a then r else [c]) s)"
proof (induction s)
  case Nil
  then show ?case by (simp add: str_replace.simps)
next
  case (Cons c s)
  have "str_replace [a] r (c # s) = (if c = a then r else [c]) @ str_replace [a] r s"
    by (subst str_replace.simps) simp
  then show ?case using Cons.IH by simp
qed

lemma escape_simps:
  "escape_pointer_segment [] = []"
  "escape_pointer_segment (c # cs) =
     (if c = CHR ''~'' then ''~0'' else if c = CHR ''/'' then ''~1'' else [c]) @ escape_pointer_segment cs"
  by (simp_all add: escape_pointer_segment_def str_replace_single)

lemma escape_no_slash: "CHR ''/'' \<notin> set (escape_pointer_segment s)"
  by (induction s) (simp_all add: escape_simps)

lemma unescape_escape: "unescape_segment (escape_pointer_segment s) = s"
  by (induction s) (simp_all add: escape_simps)

lemma escape_index: "escape_pointer_segment (show_nat n) = show_nat n"
proof -
  have "list_all is_ascii_digit s \<Longrightarrow> escape_pointer_segment s = s" for s
    by (induction s) (auto simp: escape_simps is_ascii_digit_def)
  then show ?thesis using show_nat_digits by blast
qed

lemma split_slash_plain: "CHR ''/'' \<notin> set s \<Longrightarrow> split_slash s = [s]"
  by (induction s) auto

lemma split_slash_cons: "CHR ''/'' \<notin> set s \<Longrightarrow> split_slash (s @ CHR ''/'' # t) = s # split_slash t"
  by (induction s) auto

lemma split_slash_path:
  "split_slash (escape_pointer_segment key @ pointer_of path) = map escape_pointer_segment (key # path)"
  by (induction path arbitrary: key) (simp_all add: split_slash_plain split_slash_cons escape_no_slash)

lemma parse_pointer_of: "parse_pointer (pointer_of path) = Some path"
  by (cases path) (simp_all add: parse_pointer_def split_slash_path unescape_escape del: list.map, simp add: unescape_escape comp_def)

section \<open>Where the redactions are\<close>

text \<open>The keys of every object are distinct, as they are in a \<open>serde_json::Map\<close>.\<close>

fun distinct_keys :: "json \<Rightarrow> bool" where
  "distinct_keys (JObject kvs) = (distinct (map fst kvs) \<and> list_all (\<lambda>(_, child). distinct_keys child) kvs)"
| "distinct_keys (JArray vs) = list_all distinct_keys vs"
| "distinct_keys _ = True"

definition redacted_at :: "json \<Rightarrow> json \<Rightarrow> string list \<Rightarrow> bool" where
  "redacted_at v v' path \<longleftrightarrow> json_at v path \<noteq> None \<and> (\<exists>t. json_at v' path = Some (JString t))"

lemma sanitize_fields_keys: "map fst (fst (sanitize_fields lib sens pointer kvs)) = map fst kvs"
  by (induction kvs) (auto simp: Let_def split_def)

lemma sanitize_elements_length: "length (fst (sanitize_elements lib sens pointer index vs)) = length vs"
  by (induction vs arbitrary: index) (auto simp: Let_def)

lemma sanitize_value_children:
  "sanitize_value lib sens pointer (JObject kvs) =
     (JObject (fst (sanitize_fields lib sens pointer kvs)), snd (sanitize_fields lib sens pointer kvs))"
  "sanitize_value lib sens pointer (JArray vs) =
     (JArray (fst (sanitize_elements lib sens pointer 0 vs)), snd (sanitize_elements lib sens pointer 0 vs))"
  by (simp_all add: split_def Let_def)

lemma redacted_at_object:
  assumes "distinct (map fst kvs)" and "map fst kvs' = map fst kvs"
    and "(key, child) \<in> set kvs" and "(key, child') \<in> set kvs'" and "redacted_at child child' path"
  shows "redacted_at (JObject kvs) (JObject kvs') (key # path)"
  using assms map_of_is_SomeI [OF assms(1,3)] map_of_is_SomeI [of kvs' key child'] by (simp add: redacted_at_def)

lemma redacted_at_array:
  assumes "length vs' = length vs" and "i < length vs" and "redacted_at (vs ! i) (vs' ! i) path"
  shows "redacted_at (JArray vs) (JArray vs') (show_nat i # path)"
  using assms by (simp add: redacted_at_def)

lemma redactions_located:
  "p \<in> set (snd (sanitize_value lib sens pointer v)) \<Longrightarrow> distinct_keys v
   \<Longrightarrow> \<exists>path. p = pointer @ pointer_of path \<and> redacted_at v (fst (sanitize_value lib sens pointer v)) path"
  "p \<in> set (snd (sanitize_fields lib sens pointer kvs)) \<Longrightarrow> list_all (\<lambda>(_, child). distinct_keys child) kvs
   \<Longrightarrow> \<exists>key child child' path. p = pointer @ pointer_of (key # path) \<and> (key, child) \<in> set kvs
       \<and> (key, child') \<in> set (fst (sanitize_fields lib sens pointer kvs)) \<and> redacted_at child child' path"
  "p \<in> set (snd (sanitize_elements lib sens pointer index vs)) \<Longrightarrow> list_all distinct_keys vs
   \<Longrightarrow> \<exists>i path. i < length vs \<and> p = pointer @ pointer_of (show_nat (index + i) # path)
       \<and> redacted_at (vs ! i) (fst (sanitize_elements lib sens pointer index vs) ! i) path"
proof (induction lib sens pointer v and lib sens pointer kvs and lib sens pointer index vs
    rule: sanitize_value_sanitize_fields_sanitize_elements.induct)
  case (1 lib sens pointer kvs)
  then have "distinct (map fst kvs)" "list_all (\<lambda>(_, child). distinct_keys child) kvs"
      "p \<in> set (snd (sanitize_fields lib sens pointer kvs))"
    unfolding sanitize_value_children by simp_all
  with 1(1) obtain key child child' path where found: "p = pointer @ pointer_of (key # path)" "(key, child) \<in> set kvs"
      "(key, child') \<in> set (fst (sanitize_fields lib sens pointer kvs))" "redacted_at child child' path"
    by blast
  show ?case
    unfolding sanitize_value_children fst_conv
    using found(1) redacted_at_object [OF \<open>distinct _\<close> sanitize_fields_keys found(2-4)] by blast
next
  case (2 lib sens pointer vs)
  then have "list_all distinct_keys vs" "p \<in> set (snd (sanitize_elements lib sens pointer 0 vs))"
    unfolding sanitize_value_children by simp_all
  with 2(1) obtain i path where found: "i < length vs" "p = pointer @ pointer_of (show_nat i # path)"
      "redacted_at (vs ! i) (fst (sanitize_elements lib sens pointer 0 vs) ! i) path"
    by auto
  show ?case
    unfolding sanitize_value_children fst_conv
    using found(2) redacted_at_array [OF sanitize_elements_length found(1,3)] by blast
next
  case (3 lib sens pointer str)
  then show ?case by (intro exI [of _ "[]"]) (auto simp: redacted_at_def split: if_splits option.splits)
next
  case (8 lib sens pointer key child kvs)
  let ?ptr = "pointer @ ''/'' @ escape_pointer_segment key"
  let ?fields = "fst (sanitize_fields lib sens pointer ((key, child) # kvs))"
  consider (secret) "is_sensitive_key key" "p = ?ptr"
    | (below) "\<not> is_sensitive_key key" "p \<in> set (snd (sanitize_value lib sens ?ptr child))"
    | (other) "p \<in> set (snd (sanitize_fields lib sens pointer kvs))"
    using "8.prems"(1) by (auto simp: Let_def split: if_splits)
  then show ?case
  proof cases
    case secret
    then have "(key, JString REDACTED) \<in> set ?fields" by (simp add: Let_def)
    moreover have "redacted_at child (JString REDACTED) []" by (simp add: redacted_at_def)
    ultimately show ?thesis
      using secret(2) by - (rule exI [of _ key], rule exI [of _ child], rule exI [of _ "JString REDACTED"], rule exI [of _ "[]"], simp)
  next
    case below
    with "8.IH"(1) "8.prems"(2) obtain path where "p = ?ptr @ pointer_of path"
        "redacted_at child (fst (sanitize_value lib sens ?ptr child)) path" by auto
    moreover have "(key, fst (sanitize_value lib sens ?ptr child)) \<in> set ?fields" using below(1) by (simp add: Let_def)
    ultimately show ?thesis
      by - (rule exI [of _ key], rule exI [of _ child], rule exI [of _ "fst (sanitize_value lib sens ?ptr child)"],
          rule exI [of _ path], simp)
  next
    case other
    with "8.IH"(2) [OF refl refl] "8.prems"(2) obtain k c c' path where "p = pointer @ pointer_of (k # path)" "(k, c) \<in> set kvs"
        "(k, c') \<in> set (fst (sanitize_fields lib sens pointer kvs))" "redacted_at c c' path"
      by (auto simp: Let_def)
    then show ?thesis
      by - (rule exI [of _ k], rule exI [of _ c], rule exI [of _ c'], rule exI [of _ path], simp add: Let_def)
  qed
next
  case (10 lib sens pointer index child vs)
  let ?ptr = "pointer @ ''/'' @ show_nat index"
  consider (below) "p \<in> set (snd (sanitize_value lib sens ?ptr child))"
    | (other) "p \<in> set (snd (sanitize_elements lib sens pointer (Suc index) vs))"
    using "10.prems"(1) by (auto simp: Let_def)
  then show ?case
  proof cases
    case below
    with "10.IH"(1) "10.prems"(2) obtain path where "p = ?ptr @ pointer_of path"
        "redacted_at child (fst (sanitize_value lib sens ?ptr child)) path" by auto
    then show ?thesis by (intro exI [of _ 0] exI [of _ path]) (simp add: Let_def escape_index)
  next
    case other
    with "10.IH"(2) "10.prems"(2) obtain i path where "i < length vs" "p = pointer @ pointer_of (show_nat (Suc index + i) # path)"
        "redacted_at (vs ! i) (fst (sanitize_elements lib sens pointer (Suc index) vs) ! i) path"
      by (auto simp: Let_def)
    then show ?thesis by (intro exI [of _ "Suc i"] exI [of _ path]) (simp add: Let_def)
  qed
qed simp_all

text \<open>A string that was changed stands at or below a listed pointer.\<close>

definition kept_or_listed :: "string \<Rightarrow> string list \<Rightarrow> json \<Rightarrow> json \<Rightarrow> bool" where
  "kept_or_listed pointer reds v v' \<longleftrightarrow>
     (\<forall>path str. json_at v path = Some (JString str) \<longrightarrow> json_at v' path = Some (JString str)
        \<or> (\<exists>q. prefix q path \<and> pointer @ pointer_of q \<in> set reds))"

lemma kept_or_listed_mono: "kept_or_listed pointer reds v v' \<Longrightarrow> set reds \<subseteq> set reds' \<Longrightarrow> kept_or_listed pointer reds' v v'"
  unfolding kept_or_listed_def by blast

lemma kept_or_listed_below:
  assumes "kept_or_listed (pointer @ ''/'' @ escape_pointer_segment key) reds v v'" "json_at v path = Some (JString str)"
  shows "json_at v' path = Some (JString str) \<or> (\<exists>q. prefix q (key # path) \<and> pointer @ pointer_of q \<in> set reds)"
proof -
  from assms consider "json_at v' path = Some (JString str)"
    | q where "prefix q path" "(pointer @ ''/'' @ escape_pointer_segment key) @ pointer_of q \<in> set reds"
    unfolding kept_or_listed_def by blast
  then show ?thesis
  proof cases
    case 2
    then have "prefix (key # q) (key # path)" "pointer @ pointer_of (key # q) \<in> set reds" by simp_all
    then show ?thesis by blast
  qed simp
qed

lemma strings_kept_or_listed:
  "kept_or_listed pointer (snd (sanitize_value lib sens pointer v)) v (fst (sanitize_value lib sens pointer v))"
  "map_of kvs key = Some child \<Longrightarrow> \<exists>child'. map_of (fst (sanitize_fields lib sens pointer kvs)) key = Some child'
     \<and> kept_or_listed (pointer @ ''/'' @ escape_pointer_segment key) (snd (sanitize_fields lib sens pointer kvs)) child child'"
  "i < length vs \<Longrightarrow> kept_or_listed (pointer @ ''/'' @ show_nat (index + i)) (snd (sanitize_elements lib sens pointer index vs))
     (vs ! i) (fst (sanitize_elements lib sens pointer index vs) ! i)"
proof (induction lib sens pointer v and lib sens pointer kvs and lib sens pointer index vs arbitrary: and key child and i
    rule: sanitize_value_sanitize_fields_sanitize_elements.induct)
  case (1 lib sens pointer kvs)
  let ?reds = "snd (sanitize_fields lib sens pointer kvs)"
  show ?case
    unfolding sanitize_value_children fst_conv snd_conv kept_or_listed_def
  proof (intro allI impI)
    fix path str
    assume at: "json_at (JObject kvs) path = Some (JString str)"
    then obtain key rest child where path: "path = key # rest" "map_of kvs key = Some child" "json_at child rest = Some (JString str)"
      by (cases path) (auto split: bind_splits)
    from 1 [OF path(2)] obtain child' where "map_of (fst (sanitize_fields lib sens pointer kvs)) key = Some child'"
        "kept_or_listed (pointer @ ''/'' @ escape_pointer_segment key) ?reds child child'" by blast
    with kept_or_listed_below [OF this(2) path(3)]
    show "json_at (JObject (fst (sanitize_fields lib sens pointer kvs))) path = Some (JString str)
        \<or> (\<exists>q. prefix q path \<and> pointer @ pointer_of q \<in> set ?reds)"
      unfolding path(1) by simp
  qed
next
  case (2 lib sens pointer vs)
  let ?reds = "snd (sanitize_elements lib sens pointer 0 vs)"
  show ?case
    unfolding sanitize_value_children fst_conv snd_conv kept_or_listed_def
  proof (intro allI impI)
    fix path str
    assume "json_at (JArray vs) path = Some (JString str)"
    then obtain i rest where path: "path = show_nat i # rest" "i < length vs" "json_at (vs ! i) rest = Some (JString str)"
      by (cases path) (auto simp: Let_def split: if_splits, metis)
    from 2 [OF path(2)] have "kept_or_listed (pointer @ ''/'' @ escape_pointer_segment (show_nat i)) ?reds (vs ! i)
        (fst (sanitize_elements lib sens pointer 0 vs) ! i)" by (simp add: escape_index)
    from kept_or_listed_below [OF this path(3)]
    show "json_at (JArray (fst (sanitize_elements lib sens pointer 0 vs))) path = Some (JString str)
        \<or> (\<exists>q. prefix q path \<and> pointer @ pointer_of q \<in> set ?reds)"
      unfolding path(1) using path(2) by (simp add: sanitize_elements_length)
  qed
next
  case (3 lib sens pointer str)
  have listed: "kept_or_listed pointer [pointer] (JString str) v'" for v'
    unfolding kept_or_listed_def by (auto intro!: exI [of _ "[]"])
  have kept: "kept_or_listed pointer [] (JString str) (JString str)"
    by (simp add: kept_or_listed_def)
  show ?case using listed kept by (simp split: option.splits)
next
  case (8 lib sens pointer k c kvs)
  let ?ptr = "pointer @ ''/'' @ escape_pointer_segment k"
  show ?case
  proof (cases "k = key")
    case True
    have child: "c = child" using "8.prems" True by simp
    have listed: "kept_or_listed ?ptr [?ptr] child v'" for v'
      unfolding kept_or_listed_def by (auto intro!: exI [of _ "[]"])
    show ?thesis
    proof (cases "is_sensitive_key k")
      case secret: True
      show ?thesis using secret True kept_or_listed_mono [OF listed [of "JString REDACTED"]] by (simp add: Let_def)
    next
      case False
      then show ?thesis
        using True kept_or_listed_mono [OF "8.IH"(1) [OF refl False]] child by (simp add: Let_def)
    qed
  next
    case False
    with "8.prems" have "map_of kvs key = Some child" by simp
    from "8.IH"(2) [OF refl refl this] False show ?thesis
      by (auto simp: Let_def elim!: kept_or_listed_mono)
  qed
next
  case (10 lib sens pointer index c vs)
  show ?case
  proof (cases i)
    case 0
    then show ?thesis using kept_or_listed_mono [OF "10.IH"(1)] by (simp add: Let_def)
  next
    case (Suc j)
    with "10.prems" have "j < length vs" by simp
    from kept_or_listed_mono [OF "10.IH"(2) [OF refl this]] Suc show ?thesis by (simp add: Let_def)
  qed
qed (auto simp: kept_or_listed_def)

text \<open>
  C25. The redactions that are listed beside a sanitized document are JSON pointers that lead back to
  the redacted places, also through keys with slashes and tildes and through arrays: read as RFC 6901
  prescribes, each of them leads to a value of the captured document and to the string that replaced
  it in the sanitized one. And nothing was replaced that is not listed: every string of the captured
  document stands in the sanitized one at the same path, or a pointer to it or to something that
  contains it is in the list.
\<close>

theorem redactions_lead_back:
  assumes "distinct_keys v" and "sanitize_json lib v sens = (v', reds)"
  shows "(\<forall>p \<in> set reds. pointer_get v p \<noteq> None \<and> (\<exists>str. pointer_get v' p = Some (JString str)))
    \<and> (\<forall>path str. json_at v path = Some (JString str) \<longrightarrow>
         json_at v' path = Some (JString str) \<or> (\<exists>q. prefix q path \<and> pointer_of q \<in> set reds))"
proof -
  have v': "v' = fst (sanitize_value lib sens [] v)" and reds: "set reds = set (snd (sanitize_value lib sens [] v))"
    using assms(2) by (auto simp: sanitize_json_def Let_def split_def)
  have "\<exists>path. p = pointer_of path \<and> redacted_at v v' path" if "p \<in> set reds" for p
    using redactions_located(1) [of p lib sens "[]" v] that assms(1) by (simp add: v' reds)
  moreover have "kept_or_listed [] reds v v'"
    using strings_kept_or_listed(1) [of "[]" lib sens v] unfolding v' kept_or_listed_def reds .
  ultimately show ?thesis
    unfolding kept_or_listed_def redacted_at_def pointer_get_def by (fastforce simp: parse_pointer_of)
qed

definition secretive_document :: json where
  "secretive_document = JObject
     [(''a/b'', JArray [JNumber ''1'', JString ''Bearer x'']), (''n'', JNull), (''to~ken'', JObject [])]"

theorem redactions_lead_back_witness:
  "sanitize_json demo_web secretive_document [] =
     (JObject [(''a/b'', JArray [JNumber ''1'', JString ''<redacted>'']), (''n'', JNull), (''to~ken'', JString ''<redacted>'')],
      [''/a~1b/1'', ''/to~0ken''])
   \<and> pointer_get secretive_document ''/a~1b/1'' \<noteq> None"
proof -
  let ?clean = "JObject [(''a/b'', JArray [JNumber ''1'', JString ''<redacted>'']), (''n'', JNull), (''to~ken'', JString ''<redacted>'')]"
  have run: "sanitize_json demo_web secretive_document [] = (?clean, [''/a~1b/1'', ''/to~0ken''])" by code_simp
  have "distinct_keys secretive_document" by code_simp
  from redactions_lead_back [OF this run] run show ?thesis by simp
qed

end
