(* ===== verification/Spec2Isabelle.thy ===== *)
theory Spec2Isabelle
  imports Commit_Pass Commit_Verdict Conf_Config Conf_Namespace_Run Conf_Table_Run Conf_Commit_Run Conf_Redaction
begin

text \<open>
  Verification library of catalog-bench.

  \<^bold>\<open>The program.\<close> catalog-bench runs benchmarks and conformance probes against Iceberg REST
  catalogs and publishes evidence about them. Its own logic is in four crates:

  \<^item> \<open>crates/common\<close>: the documents of the contract \<open>catalog-bench/v1\<close> (scenarios, adapters,
    profiles, results, manifests) with their semantic validators, and the audit of evidence;
  \<^item> \<open>crates/commit\<close>: the contention benchmark. A plan is made from a profile and a scenario; a sweep
    runs one round per catalog and position; a round creates a table, sends serial commits, then
    commits of concurrent writers, audits the object store and cleans up; the rounds are aggregated
    and ranked;
  \<^item> \<open>crates/conformance\<close>: four probes (configuration, namespaces, tables, commit correctness). Each
    authenticates, negotiates routes, works on a fixture of its own through a recorder that writes
    sanitized evidence, cleans up, and judges the assertions of its scenario;
  \<^item> \<open>crates/engine\<close> and \<open>crates/contract-tool\<close>: query engines and the assembly of publications. They
    are not modelled (see below).

  \<^bold>\<open>How it is modelled.\<close> A struct is a record, an enum a datatype, a Rust result a sum with the error on
  the left. Unsigned integers are words; where the source adds with a check the overflow is a branch.
  A \<open>String\<close> is a list of bytes, a \<open>BTreeMap\<close> an association list in key order, an \<open>f64\<close> a value of
  \<open>Float64\<close>, which rounds as IEEE 754 binary64 does. Code that changes its arguments returns them.
  Code of other crates (\<open>serde\<close>, \<open>url\<close>, \<open>sha2\<close>, \<open>reqwest\<close>, \<open>uuid\<close>, the S3 client, clocks, environment
  variables) is a parameter: a field of \<open>web_lib\<close>, \<open>decoders\<close>, \<open>table_lib\<close>, \<open>commit_lib\<close> and the like,
  or of the environment of a round. The HTTP client is a function from a request and a world to an
  answer and a world, so theorems hold for every catalog; a logging client makes the exchanges visible.
  What a theorem uses of another crate is a named hypothesis that states its documented behaviour:
  \<open>url_laws\<close> (the setters of \<open>url::Url\<close>) for the sanitizer, \<open>matches_prefixes\<close> (\<open>Path::prefix_matches\<close>) for
  table roots.

  \<^bold>\<open>Theories and sources.\<close>

  \<^item> \<open>Prelude\<close>, \<open>Rust_Text\<close>, \<open>Float64\<close>: results, checked folds, text operations, decimal printing, JSON
    values and binary64 arithmetic that the source takes from the language and its standard library.
  \<^item> \<open>Contract_Core\<close>, \<open>Contract_Scenario\<close>, \<open>Contract_Adapter\<close>, \<open>Contract_Profile\<close>, \<open>Contract_Measure\<close>,
    \<open>Contract_Result\<close>, \<open>Contract_Manifest\<close>: \<open>common/src/contract/\<close> and \<open>common/src/sanitization.rs\<close>. One
    function \<open>_issues\<close> per validator, in the order of the source. The lemmas say what an accepted
    document has: executable dependencies, adapters that match catalogs, readiness, sound verdicts.
  \<^item> \<open>Commit_Stats\<close> (\<open>stats.rs\<close>), \<open>Commit_Model\<close> (\<open>model.rs\<close>), \<open>Commit_Policy\<close> (\<open>policy.rs\<close>),
    \<open>Commit_Store\<close> (\<open>store.rs\<close>), \<open>Commit_Protocol\<close> (\<open>protocol.rs\<close>), \<open>Commit_Workflow\<close> (\<open>workflow.rs\<close>),
    \<open>Commit_Aggregate\<close> (\<open>transcript.rs\<close>, \<open>aggregate.rs\<close>), \<open>Commit_Sweep\<close> (\<open>sweep.rs\<close>): the contention
    benchmark. \<open>Commit_Trace\<close>, \<open>Commit_Pass\<close> and \<open>Commit_Verdict\<close> hold the properties of runs: the calls a
    round makes, what a passing round has shown, the accounting of concurrent writers under every
    schedule, and the verdict of a sweep.
  \<^item> \<open>Conf_Sanitize\<close> (\<open>sanitize.rs\<close>, \<open>lib.rs\<close>), \<open>Conf_Redaction\<close> (its redaction pointers), \<open>Conf_Transport\<close>
    (\<open>transport.rs\<close>, \<open>evidence.rs\<close>), \<open>Conf_Routing\<close> (\<open>iceberg.rs\<close>, \<open>routing.rs\<close>, \<open>target.rs\<close>, \<open>runtime.rs\<close>),
    \<open>Conf_Operation\<close> (\<open>operation.rs\<close>, \<open>spec.rs\<close>), \<open>Conf_Policy\<close>, \<open>Conf_Trace\<close>: what the probes share.
  \<^item> \<open>Conf_Config\<close> (\<open>config.rs\<close>), \<open>Conf_Namespace\<close> (\<open>namespace/\<close>), \<open>Conf_Table_Protocol\<close>
    (\<open>table_protocol.rs\<close>), \<open>Conf_Table\<close> (\<open>table/\<close>), \<open>Conf_Commit\<close> (\<open>commit/\<close>, \<open>idempotency.rs\<close>) and
    \<open>Conf_Pagination\<close> (the traversal of pages in two of them): the probes. The theories \<open>_Run\<close> hold their
    properties: which requests a workflow sends, what each passed fact has seen in the answers, and
    what a passing transcript has established, down to the credentials that its serialized form
    withholds (\<open>withholds_credentials\<close> in \<open>Conf_Trace\<close>). \<open>Conf_Commit_Run\<close> states the latter as the exact
    sequence of exchanges.

  \<^bold>\<open>Interfaces.\<close> The contracts between components are locales, each interpreted on the definitions of
  the model: rounding to a floating-point format (\<open>rounding\<close> in \<open>Float64\<close>, whose laws carry the
  statistics of \<open>Commit_Stats\<close>); a log of requests (\<open>request_log\<close> in \<open>Commit_Model\<close>, interpreted on the
  ledger that the workflow fills and merges); a recorder of exchanges (\<open>exchange_recorder\<close> in
  \<open>Conf_Operation\<close>, with a calculus of traces, steady computations and triples that \<open>Conf_Trace\<close>
  extends and all probes use); a reader of pages (\<open>page_reading\<close> in \<open>Conf_Pagination\<close>, interpreted for
  namespaces and for tables).

  \<^bold>\<open>Bounds and fuel.\<close> Pagination counts up to the 64 pages of the source and needs no fuel. The writers
  of a concurrent phase are a step machine that consumes a schedule, one entry per step; a phase
  whose schedule ends before its writers have is the value \<open>None\<close>, and \<open>concurrent_phase_returns\<close> shows
  that a fair schedule with a clock that moves is enough. Every other loop is structural recursion.

  \<^bold>\<open>Concrete runs.\<close> The witnesses run the whole code: a sweep, a round, and each probe against a scripted
  catalog, down to the verdict.

  \<^bold>\<open>Not modelled.\<close> Derived code (serialization, JSON Schema, \<open>Debug\<close> of records) and command-line entry
  points; \<open>evidence_file.rs\<close>, whose effect is durability in a file system; the crate \<open>engine\<close>, which
  renders SQL and drives external processes (Spark, Flink, Trino, DuckDB) and reads their output; the
  crate \<open>contract-tool\<close>, which assembles publications out of files; the crates \<open>driver\<close>, \<open>read-write\<close>,
  \<open>write-data\<close>, \<open>rust-vs-jvm\<close> and \<open>cache-scan\<close>, single programs that time library calls; and the clients
  in other languages. Texts of errors that other crates produce are parameters.
\<close>

end
